(* ===== verification/Prelude.thy ===== *)
theory Prelude
  imports Main "HOL-Library.Sublist"
begin

text \<open>
  Shared vocabulary of the development: results with an error on the left (Rust's
  \<open>Result\<close>), the string operations of Rust's standard library the crate uses, and the
  machine-sized integer operations. A Rust \<open>String\<close> or \<open>&str\<close> is UTF-8 text; it is
  modelled by its bytes, so a \<open>char\<close> here is one byte and \<open>length\<close> is Rust's
  \<open>len()\<close>. Everything in this theory is language or standard library; it models no
  line of the repository by itself.
\<close>

section \<open>Collections of facts\<close>

named_theorems result_simps \<open>inversion of monadic results\<close>
named_theorems str_simps \<open>string operations of the standard library\<close>

section \<open>Results\<close>

text \<open>Rust's \<open>?\<close> operator and \<open>and_then\<close>.\<close>

fun rbind :: "'e + 'a \<Rightarrow> ('a \<Rightarrow> 'e + 'b) \<Rightarrow> 'e + 'b" where
  "rbind (Inl e) f = Inl e"
| "rbind (Inr x) f = f x"

definition ok_or :: "'a option \<Rightarrow> 'e \<Rightarrow> 'e + 'a" where
  "ok_or v e = (case v of None \<Rightarrow> Inl e | Some x \<Rightarrow> Inr x)"

definition rmap :: "('a \<Rightarrow> 'b) \<Rightarrow> 'e + 'a \<Rightarrow> 'e + 'b" where
  "rmap f r = rbind r (\<lambda>x. Inr (f x))"

text \<open>\<open>map_err\<close>: the error is replaced, the value kept.\<close>

definition rmap_err :: "('e \<Rightarrow> 'f) \<Rightarrow> 'e + 'a \<Rightarrow> 'f + 'a" where
  "rmap_err f r = (case r of Inl e \<Rightarrow> Inl (f e) | Inr x \<Rightarrow> Inr x)"

text \<open>An early return: continue with \<open>r\<close> only when the guard holds.\<close>

definition guard_or :: "bool \<Rightarrow> 'e \<Rightarrow> 'e + unit" where
  "guard_or b e = (if b then Inr () else Inl e)"

text \<open>\<open>iter.map(f).collect::<Result<Vec<_>, _>>()\<close>: stops at the first error.\<close>

fun traverse :: "('a \<Rightarrow> 'e + 'b) \<Rightarrow> 'a list \<Rightarrow> 'e + 'b list" where
  "traverse f [] = Inr []"
| "traverse f (x # xs) = rbind (f x) (\<lambda>y. rbind (traverse f xs) (\<lambda>ys. Inr (y # ys)))"

text \<open>\<open>Option<Result<T, E>>::transpose\<close> after a \<open>map\<close>.\<close>

definition opt_traverse :: "('a \<Rightarrow> 'e + 'b) \<Rightarrow> 'a option \<Rightarrow> 'e + 'b option" where
  "opt_traverse f v = (case v of None \<Rightarrow> Inr None | Some x \<Rightarrow> rmap Some (f x))"

definition is_ok :: "'e + 'a \<Rightarrow> bool" where
  "is_ok r = (case r of Inl _ \<Rightarrow> False | Inr _ \<Rightarrow> True)"

lemma is_ok_simps [simp, result_simps]: "is_ok (Inr x)" "\<not> is_ok (Inl e)"
  by (simp_all add: is_ok_def)

lemma is_ok_iff: "is_ok r \<longleftrightarrow> (\<exists>x. r = Inr x)"
  by (cases r) simp_all

lemma rbind_Inr_iff [result_simps]: "rbind r f = Inr y \<longleftrightarrow> (\<exists>x. r = Inr x \<and> f x = Inr y)"
  by (cases r) simp_all

lemma rbind_Inl_iff [result_simps]:
  "rbind r f = Inl e \<longleftrightarrow> r = Inl e \<or> (\<exists>x. r = Inr x \<and> f x = Inl e)"
  by (cases r) simp_all

lemma rbind_cong [fundef_cong]:
  "r = r' \<Longrightarrow> (\<And>x. r' = Inr x \<Longrightarrow> f x = f' x) \<Longrightarrow> rbind r f = rbind r' f'"
  by (cases r') simp_all

lemma ok_or_simps [simp, result_simps]:
  "ok_or (Some x) e = Inr x" "ok_or None e = Inl e"
  by (simp_all add: ok_or_def)

lemma ok_or_Inr_iff [result_simps]: "ok_or v e = Inr x \<longleftrightarrow> v = Some x"
  by (cases v) simp_all

lemma ok_or_Inl_iff [result_simps]: "ok_or v e = Inl e' \<longleftrightarrow> v = None \<and> e' = e"
  by (cases v) auto

lemma rmap_simps [simp, result_simps]: "rmap f (Inl e) = Inl e" "rmap f (Inr x) = Inr (f x)"
  by (simp_all add: rmap_def)

lemma rmap_Inr_iff [result_simps]: "rmap f r = Inr y \<longleftrightarrow> (\<exists>x. r = Inr x \<and> y = f x)"
  by (cases r) auto

lemma rmap_err_simps [simp, result_simps]:
  "rmap_err f (Inl e) = Inl (f e)" "rmap_err f (Inr x) = Inr x"
  by (simp_all add: rmap_err_def)

lemma rmap_err_Inr_iff [result_simps]: "rmap_err f r = Inr x \<longleftrightarrow> r = Inr x"
  by (cases r) auto

lemma guard_or_simps [simp, result_simps]: "guard_or True e = Inr ()" "guard_or False e = Inl e"
  by (simp_all add: guard_or_def)

lemma guard_or_Inr_iff [result_simps]: "guard_or b e = Inr u \<longleftrightarrow> b"
  by (cases b) simp_all

lemma guard_or_Inl_iff [result_simps]: "guard_or b e = Inl e' \<longleftrightarrow> \<not> b \<and> e' = e"
  by (cases b) auto

lemma opt_traverse_simps [simp, result_simps]:
  "opt_traverse f None = Inr None" "opt_traverse f (Some x) = rmap Some (f x)"
  by (simp_all add: opt_traverse_def)

lemma opt_traverse_Inr_iff [result_simps]:
  "opt_traverse f v = Inr w \<longleftrightarrow>
     (v = None \<and> w = None \<or> (\<exists>x y. v = Some x \<and> f x = Inr y \<and> w = Some y))"
  by (cases v) (auto simp: result_simps)

lemma traverse_length: "traverse f xs = Inr ys \<Longrightarrow> length ys = length xs"
  by (induction xs arbitrary: ys) (auto simp: result_simps)

lemma traverse_Inr_iff: "traverse f xs = Inr ys \<longleftrightarrow> list_all2 (\<lambda>x y. f x = Inr y) xs ys"
  by (induction xs arbitrary: ys) (auto simp: result_simps list_all2_Cons1)

lemma traverse_map_id:
  "(\<And>y. y \<in> set ys \<Longrightarrow> f (g y) = Inr y) \<Longrightarrow> traverse f (map g ys) = Inr ys"
  by (induction ys) simp_all

section \<open>Machine integers\<close>

text \<open>\<open>usize\<close> on a 64-bit target, as a bounded natural number.\<close>

definition usize_max :: nat where
  "usize_max = 2 ^ 64 - 1"

definition usize_sat_add :: "nat \<Rightarrow> nat \<Rightarrow> nat" where
  "usize_sat_add a b = min usize_max (a + b)"

definition usize_sat_mul :: "nat \<Rightarrow> nat \<Rightarrow> nat" where
  "usize_sat_mul a b = min usize_max (a * b)"

definition usize_checked_add :: "nat \<Rightarrow> nat \<Rightarrow> nat option" where
  "usize_checked_add a b = (if a + b \<le> usize_max then Some (a + b) else None)"

lemma usize_sat_add_le: "usize_sat_add a b \<le> a + b" "usize_sat_add a b \<le> usize_max"
  by (simp_all add: usize_sat_add_def)

section \<open>Decimal rendering\<close>

text \<open>The \<open>{}\<close> formatting of an unsigned integer.\<close>

definition digit_char :: "nat \<Rightarrow> char" where
  "digit_char d = ''0123456789'' ! d"

fun show_nat :: "nat \<Rightarrow> string" where
  "show_nat n = (if n < 10 then [digit_char n] else show_nat (n div 10) @ [digit_char (n mod 10)])"

declare show_nat.simps [simp del]

section \<open>Strings\<close>

fun split_on :: "char \<Rightarrow> string \<Rightarrow> string list" where
  "split_on c [] = [[]]"
| "split_on c (x # xs) =
     (if x = c then [] # split_on c xs
      else (case split_on c xs of [] \<Rightarrow> [[x]] | w # ws \<Rightarrow> (x # w) # ws))"

lemma split_on_nonempty [simp]: "split_on c s \<noteq> []"
  by (induction s) (auto split: list.splits)

fun split_once :: "char \<Rightarrow> string \<Rightarrow> (string \<times> string) option" where
  "split_once c [] = None"
| "split_once c (x # xs) =
     (if x = c then Some ([], xs) else map_option (\<lambda>(a, b). (x # a, b)) (split_once c xs))"

definition strip_prefix :: "string \<Rightarrow> string \<Rightarrow> string option" where
  "strip_prefix p s = (if prefix p s then Some (drop (length p) s) else None)"

definition strip_suffix_char :: "char \<Rightarrow> string \<Rightarrow> string option" where
  "strip_suffix_char c s = (if s \<noteq> [] \<and> last s = c then Some (butlast s) else None)"

definition str_contains :: "string \<Rightarrow> string \<Rightarrow> bool" where
  "str_contains hay needle = sublist needle hay"

text \<open>\<open>trim_matches\<close> with a predicate on bytes (all predicates used are on ASCII).\<close>

definition trim_by :: "(char \<Rightarrow> bool) \<Rightarrow> string \<Rightarrow> string" where
  "trim_by p s = rev (dropWhile p (rev (dropWhile p s)))"

text \<open>Byte offset of the first occurrence of \<open>needle\<close> (\<open>str::find\<close>).\<close>

fun str_find :: "string \<Rightarrow> string \<Rightarrow> nat option" where
  "str_find needle [] = (if needle = [] then Some 0 else None)"
| "str_find needle (x # xs) =
     (if prefix needle (x # xs) then Some 0 else map_option Suc (str_find needle xs))"

lemma str_find_Some_prefix: "str_find needle s = Some i \<Longrightarrow> i \<le> length s \<and> prefix needle (drop i s)"
  by (induction s arbitrary: i) (auto split: if_splits)

definition is_ascii_ws :: "char \<Rightarrow> bool" where
  "is_ascii_ws c = (c \<in> {CHR '' '', CHR 0x09, CHR 0x0A, CHR 0x0C, CHR 0x0D})"

text \<open>
  Unicode \<open>White_Space\<close> (what \<open>char::is_whitespace\<close> and \<open>str::trim\<close> use), on UTF-8
  bytes: the length in bytes of the white-space character the text starts with, 0 for none.
\<close>

fun ws_len :: "string \<Rightarrow> nat" where
  "ws_len [] = 0"
| "ws_len (a # s) =
     (if a \<in> {CHR '' '', CHR 0x09, CHR 0x0A, CHR 0x0B, CHR 0x0C, CHR 0x0D} then 1
      else if a = CHR 0xC2 then
        (case s of b # _ \<Rightarrow> if b \<in> {CHR 0x85, CHR 0xA0} then 2 else 0 | [] \<Rightarrow> 0)
      else if a = CHR 0xE1 then
        (case s of b # c # _ \<Rightarrow> if b = CHR 0x9A \<and> c = CHR 0x80 then 3 else 0 | _ \<Rightarrow> 0)
      else if a = CHR 0xE2 then
        (case s of b # c # _ \<Rightarrow>
           if b = CHR 0x80 \<and> (of_char c :: nat) \<in> {0x80..0x8A} \<union> {0xA8, 0xA9, 0xAF} then 3
           else if b = CHR 0x81 \<and> c = CHR 0x9F then 3 else 0
         | _ \<Rightarrow> 0)
      else if a = CHR 0xE3 then
        (case s of b # c # _ \<Rightarrow> if b = CHR 0x80 \<and> c = CHR 0x80 then 3 else 0 | _ \<Rightarrow> 0)
      else 0)"

declare ws_len.simps [simp del]

lemma ws_len_Nil [simp]: "ws_len [] = 0"
  by (simp add: ws_len.simps)

function trim_start :: "string \<Rightarrow> string" where
  "trim_start s = (if s = [] \<or> ws_len s = 0 then s else trim_start (drop (ws_len s) s))"
  by pat_completeness auto
termination
  by (relation "measure length") auto

declare trim_start.simps [simp del]

text \<open>\<open>value.trim().is_empty()\<close>: the text is white space only.\<close>

definition is_blank :: "string \<Rightarrow> bool" where
  "is_blank s = (trim_start s = [])"

lemma is_blank_Nil [simp, str_simps]: "is_blank []"
  by (simp add: is_blank_def trim_start.simps)

lemma trim_start_nonws [str_simps]: "ws_len s = 0 \<Longrightarrow> trim_start s = s"
  by (subst trim_start.simps) simp

lemma not_blank_Cons [str_simps]: "ws_len (c # s) = 0 \<Longrightarrow> \<not> is_blank (c # s)"
  by (simp add: is_blank_def trim_start_nonws)

text \<open>
  All white space removed (\<open>chars().filter(|c| !c.is_whitespace())\<close>, and
  \<open>split_whitespace().collect()\<close>).
\<close>

function strip_ws :: "string \<Rightarrow> string" where
  "strip_ws s =
     (case s of [] \<Rightarrow> []
      | c # cs \<Rightarrow> if ws_len s = 0 then c # strip_ws cs else strip_ws (drop (ws_len s) s))"
  by pat_completeness auto
termination
  by (relation "measure length") (auto simp: neq_Nil_conv)

declare strip_ws.simps [simp del]

text \<open>\<open>str::replace\<close> for a non-empty pattern: every non-overlapping occurrence, left to right.\<close>

function replace_str :: "string \<Rightarrow> string \<Rightarrow> string \<Rightarrow> string" where
  "replace_str needle rep s =
     (case s of [] \<Rightarrow> []
      | c # cs \<Rightarrow>
          if needle \<noteq> [] \<and> prefix needle s then rep @ replace_str needle rep (drop (length needle) s)
          else c # replace_str needle rep cs)"
  by pat_completeness auto
termination
  by (relation "measure (\<lambda>(n, r, s). length s)") (auto simp: neq_Nil_conv)

declare replace_str.simps [simp del]

lemma replace_str_Nil [simp, str_simps]: "replace_str needle rep [] = []"
  by (simp add: replace_str.simps)

lemma replace_str_Cons:
  "replace_str needle rep (c # cs) =
     (if needle \<noteq> [] \<and> prefix needle (c # cs)
      then rep @ replace_str needle rep (drop (length needle) (c # cs))
      else c # replace_str needle rep cs)"
  by (subst replace_str.simps) simp

text \<open>Replacing a single byte is a \<open>concat\<close> of a byte-wise map.\<close>

lemma replace_char [str_simps]:
  "replace_str [c] rep s = concat (map (\<lambda>x. if x = c then rep else [x]) s)"
proof (induction s)
  case Nil
  then show ?case by simp
next
  case (Cons x xs)
  then show ?case by (cases "c = x") (auto simp: replace_str_Cons)
qed

section \<open>UTF-8\<close>

text \<open>
  \<open>String::from_utf8\<close>: the length of the well-formed sequence a text starts with, or the
  number of its bytes to report (\<open>None\<close> when the text ends inside a sequence).
\<close>

definition byte_in :: "char \<Rightarrow> nat \<Rightarrow> nat \<Rightarrow> bool" where
  "byte_in c lo hi = (lo \<le> of_char c \<and> of_char c \<le> hi)"

fun utf8_rest :: "string \<Rightarrow> nat \<Rightarrow> nat \<Rightarrow> nat option + nat" where
  "utf8_rest s 0 len = Inr len"
| "utf8_rest [] (Suc k) len = Inl None"
| "utf8_rest (c # s) (Suc k) len = (if byte_in c 0x80 0xBF then utf8_rest s k (Suc len) else Inl (Some len))"

definition utf8_second :: "string \<Rightarrow> nat \<Rightarrow> nat \<Rightarrow> nat \<Rightarrow> nat option + nat" where
  "utf8_second s lo hi k =
     (case s of [] \<Rightarrow> Inl None | c # s' \<Rightarrow> if byte_in c lo hi then utf8_rest s' k 2 else Inl (Some 1))"

fun utf8_step :: "string \<Rightarrow> nat option + nat" where
  "utf8_step [] = Inl None"
| "utf8_step (c # s) =
     (if byte_in c 0x00 0x7F then Inr 1
      else if byte_in c 0xC2 0xDF then utf8_second s 0x80 0xBF 0
      else if byte_in c 0xE0 0xE0 then utf8_second s 0xA0 0xBF 1
      else if byte_in c 0xE1 0xEC \<or> byte_in c 0xEE 0xEF then utf8_second s 0x80 0xBF 1
      else if byte_in c 0xED 0xED then utf8_second s 0x80 0x9F 1
      else if byte_in c 0xF0 0xF0 then utf8_second s 0x90 0xBF 2
      else if byte_in c 0xF1 0xF3 then utf8_second s 0x80 0xBF 2
      else if byte_in c 0xF4 0xF4 then utf8_second s 0x80 0x8F 2
      else Inl (Some 1))"

lemma utf8_rest_ge: "utf8_rest s k len = Inr n \<Longrightarrow> len \<le> n"
  by (induction s k len rule: utf8_rest.induct) (auto split: if_splits)

lemma utf8_step_pos: "utf8_step s = Inr n \<Longrightarrow> 0 < n"
  by (cases s) (auto simp: utf8_second_def split: if_splits list.splits dest: utf8_rest_ge)

text \<open>The scan, with the index it has reached; \<open>None\<close> when the text is UTF-8.\<close>

function utf8_error :: "nat \<Rightarrow> string \<Rightarrow> (nat \<times> nat option) option" where
  "utf8_error i s =
     (if s = [] then None
      else (case utf8_step s of
              Inl e \<Rightarrow> Some (i, e)
            | Inr n \<Rightarrow> utf8_error (i + n) (drop n s)))"
  by pat_completeness auto
termination
  by (relation "measure (\<lambda>(i, s). length s)") (auto dest: utf8_step_pos)

declare utf8_error.simps [simp del]

definition utf8_error_text :: "nat \<times> nat option \<Rightarrow> string" where
  "utf8_error_text e =
     (case snd e of
        Some n \<Rightarrow> ''invalid utf-8 sequence of '' @ show_nat n @ '' bytes from index '' @ show_nat (fst e)
      | None \<Rightarrow> ''incomplete utf-8 byte sequence from index '' @ show_nat (fst e))"

definition string_from_utf8 :: "string \<Rightarrow> string + string" where
  "string_from_utf8 bytes =
     (case utf8_error 0 bytes of None \<Rightarrow> Inr bytes | Some e \<Rightarrow> Inl (utf8_error_text e))"

lemma string_from_utf8_Inr: "string_from_utf8 b = Inr s \<Longrightarrow> s = b"
  by (auto simp: string_from_utf8_def split: option.splits)

definition is_ascii :: "string \<Rightarrow> bool" where
  "is_ascii s = list_all (\<lambda>c. byte_in c 0x00 0x7F) s"

section \<open>Association lists\<close>

text \<open>\<open>iter().find(|(k, _)| k == key).map(|(_, v)| v)\<close> is \<open>map_of\<close>.\<close>

fun assoc_put :: "'k \<Rightarrow> 'v \<Rightarrow> ('k \<times> 'v) list \<Rightarrow> ('k \<times> 'v) list" where
  "assoc_put k v [] = [(k, v)]"
| "assoc_put k v ((k', v') # xs) = (if k' = k then (k', v) # xs else (k', v') # assoc_put k v xs)"

lemma map_of_assoc_put [simp]: "map_of (assoc_put k v xs) = (map_of xs)(k \<mapsto> v)"
  by (induction k v xs rule: assoc_put.induct) auto

lemma assoc_put_keys: "fst ` set (assoc_put k v xs) = insert k (fst ` set xs)"
  by (induction k v xs rule: assoc_put.induct) auto

lemma distinct_assoc_put:
  "distinct (map fst xs) \<Longrightarrow> distinct (map fst (assoc_put k v xs))"
proof (induction k v xs rule: assoc_put.induct)
  case (2 k v k' v' xs)
  then show ?case
    using assoc_put_keys [of k v xs] by auto
qed simp

text \<open>The first element a lookup with an ambiguity check returns.\<close>

definition unique_value :: "('a \<Rightarrow> bool) \<Rightarrow> 'e \<Rightarrow> 'a list \<Rightarrow> 'e + 'a option" where
  "unique_value p e xs =
     (case filter p xs of [] \<Rightarrow> Inr None | [x] \<Rightarrow> Inr (Some x) | _ \<Rightarrow> Inl e)"

lemma unique_value_Inr_None: "unique_value p e xs = Inr None \<longleftrightarrow> (\<forall>x \<in> set xs. \<not> p x)"
proof -
  have "unique_value p e xs = Inr None \<longleftrightarrow> filter p xs = []"
    by (simp add: unique_value_def split: list.split)
  then show ?thesis by (simp add: filter_empty_conv)
qed

lemma unique_value_Inr_Some:
  "unique_value p e xs = Inr (Some x) \<longleftrightarrow> filter p xs = [x]"
  by (auto simp: unique_value_def split: list.splits)

lemma unique_value_in: "unique_value p e xs = Inr (Some x) \<Longrightarrow> x \<in> set xs \<and> p x"
  unfolding unique_value_Inr_Some by (metis filter_eq_ConsD in_set_conv_decomp)

lemma unique_value_Inl: "unique_value p e xs = Inl e' \<Longrightarrow> e' = e"
  by (auto simp: unique_value_def split: list.splits)

end
