(* ===== verification/Saml_Base.thy ===== *)
theory Saml_Base
  imports Prelude
begin

text \<open>
  The constants and the error type of the crate (\<open>src/src/constants.rs\<close>,
  \<open>src/src/error.rs\<close>) and the RelayState values of \<open>src/src/model/relay.rs\<close>, which
  the error type mentions. Every later theory returns \<open>'a res\<close>: a \<open>saml_error\<close> on
  the left or a value on the right.
\<close>

section \<open>Bindings and message kinds\<close>

datatype binding = Redirect | Post | SimpleSign | Artifact

fun binding_urn :: "binding \<Rightarrow> string" where
  "binding_urn Redirect = ''urn:oasis:names:tc:SAML:2.0:bindings:HTTP-Redirect''"
| "binding_urn Post = ''urn:oasis:names:tc:SAML:2.0:bindings:HTTP-POST''"
| "binding_urn SimpleSign = ''urn:oasis:names:tc:SAML:2.0:bindings:HTTP-POST-SimpleSign''"
| "binding_urn Artifact = ''urn:oasis:names:tc:SAML:2.0:bindings:HTTP-Artifact''"

fun short_name :: "binding \<Rightarrow> string" where
  "short_name Redirect = ''redirect''"
| "short_name Post = ''post''"
| "short_name SimpleSign = ''simpleSign''"
| "short_name Artifact = ''artifact''"

definition from_short_name :: "string \<Rightarrow> binding option" where
  "from_short_name name =
     (if name = ''redirect'' then Some Redirect
      else if name = ''post'' then Some Post
      else if name = ''simpleSign'' then Some SimpleSign
      else if name = ''artifact'' then Some Artifact
      else None)"

definition from_urn :: "string \<Rightarrow> binding option" where
  "from_urn urn = find (\<lambda>b. binding_urn b = urn) [Redirect, Post, SimpleSign, Artifact]"

lemma from_short_name_short_name [simp]: "from_short_name (short_name b) = Some b"
  by (cases b) (simp_all add: from_short_name_def)

lemma from_urn_binding_urn [simp]: "from_urn (binding_urn b) = Some b"
  by (cases b) (simp_all add: from_urn_def)

lemma from_short_name_SomeD: "from_short_name s = Some b \<Longrightarrow> s = short_name b"
  by (auto simp: from_short_name_def split: if_splits)

lemma from_urn_SomeD: "from_urn s = Some b \<Longrightarrow> s = binding_urn b"
  by (auto simp: from_urn_def split: if_splits)

lemma binding_urn_inject [simp]: "binding_urn a = binding_urn b \<longleftrightarrow> a = b"
  by (metis from_urn_binding_urn option.inject)

datatype parser_type = SamlRequest | SamlResponse | LogoutRequest | LogoutResponse

fun query_param :: "parser_type \<Rightarrow> string" where
  "query_param SamlRequest = ''SAMLRequest''"
| "query_param LogoutRequest = ''SAMLRequest''"
| "query_param SamlResponse = ''SAMLResponse''"
| "query_param LogoutResponse = ''SAMLResponse''"

datatype cert_use = Signing | Encryption

fun cert_use_str :: "cert_use \<Rightarrow> string" where
  "cert_use_str Signing = ''signing''"
| "cert_use_str Encryption = ''encryption''"

datatype message_signature_order = SignThenEncrypt | EncryptThenSign

section \<open>URN constants\<close>

abbreviation "STATUS_SUCCESS \<equiv> ''urn:oasis:names:tc:SAML:2.0:status:Success''"
abbreviation "NS_PROTOCOL \<equiv> ''urn:oasis:names:tc:SAML:2.0:protocol''"
abbreviation "NS_ASSERTION \<equiv> ''urn:oasis:names:tc:SAML:2.0:assertion''"
abbreviation "NS_METADATA \<equiv> ''urn:oasis:names:tc:SAML:2.0:metadata''"
abbreviation "RSA_SHA1 \<equiv> ''http://www.w3.org/2000/09/xmldsig#rsa-sha1''"
abbreviation "RSA_SHA256 \<equiv> ''http://www.w3.org/2001/04/xmldsig-more#rsa-sha256''"
abbreviation "RSA_SHA256_MGF1 \<equiv> ''http://www.w3.org/2007/05/xmldsig-more#sha256-rsa-MGF1''"
abbreviation "RSA_SHA384 \<equiv> ''http://www.w3.org/2001/04/xmldsig-more#rsa-sha384''"
abbreviation "RSA_SHA512 \<equiv> ''http://www.w3.org/2001/04/xmldsig-more#rsa-sha512''"
abbreviation "AES_128 \<equiv> ''http://www.w3.org/2001/04/xmlenc#aes128-cbc''"
abbreviation "AES_192_CBC \<equiv> ''http://www.w3.org/2001/04/xmlenc#aes192-cbc''"
abbreviation "AES_256 \<equiv> ''http://www.w3.org/2001/04/xmlenc#aes256-cbc''"
abbreviation "TRIPLE_DES \<equiv> ''http://www.w3.org/2001/04/xmlenc#tripledes-cbc''"

text \<open>The digest algorithm a signature algorithm implies (\<open>digest_for_signature\<close>).\<close>

definition digest_for_signature :: "string \<Rightarrow> string option" where
  "digest_for_signature sig_alg =
     (if sig_alg = RSA_SHA1 then Some ''http://www.w3.org/2000/09/xmldsig#sha1''
      else if sig_alg = RSA_SHA256 then Some ''http://www.w3.org/2001/04/xmlenc#sha256''
      else if sig_alg = RSA_SHA256_MGF1 then Some ''http://www.w3.org/2001/04/xmlenc#sha256''
      else if sig_alg = RSA_SHA384 then Some ''http://www.w3.org/2001/04/xmldsig-more#sha384''
      else if sig_alg = RSA_SHA512 then Some ''http://www.w3.org/2001/04/xmlenc#sha512''
      else None)"

definition is_xml_encryption_cbc_algorithm :: "string \<Rightarrow> bool" where
  "is_xml_encryption_cbc_algorithm a = (a \<in> {AES_128, AES_192_CBC, AES_256, TRIPLE_DES})"

section \<open>RelayState\<close>

text \<open>
  \<open>RelayState\<close> wraps a string; the wrapped value is private to the crate, so every value a
  caller can hold comes from \<open>relay_state_try_new\<close>.
\<close>

datatype relay_state = RelayState (relay_state_str: string)

datatype relay_state_param = Absent | PresentEmpty | PresentValue relay_state

section \<open>Errors\<close>

datatype signature_verification_reason =
  XmlSignature | DetachedMessageSignature | RelayStateCorrelation | ReferenceDigest

datatype reference_resolution_reason =
  ExternalReference | UnsupportedReferenceUri | MissingSignatureReference | UnresolvedReference

datatype subject_confirmation_reason =
  InvalidMethod | MissingNotOnOrAfter | ScTimeWindowInvalid | RecipientMismatch
| ScInResponseToMismatch | MissingBearerConfirmation

datatype time_window_field =
  IdpIssuanceExpiration | LogoutRequestNotOnOrAfter | SessionNotOnOrAfter | Conditions
| ReplayExpiration | MetadataValidUntil | PendingRequestExpiration

datatype (plugins only: code size) saml_error =
  Deflate string
| Base64 string
| Xml string
| Invalid string
| ProtocolProfile string
| Unsupported string
| UnsupportedBinding binding
| IssuerMismatch string "string option"
| DestinationMismatch string "string option"
| InResponseToMismatch "string option" "string option"
| RelayStateMismatch relay_state_param relay_state_param
| AudienceMismatch string
| StatusNotSuccess string "string option"
| TimeWindowInvalid time_window_field
| SubjectConfirmationInvalid subject_confirmation_reason
| ReplayDetected string
| SignatureMissing
| MissingBindingParameter string
| SignatureVerification signature_verification_reason
| ReferenceResolution reference_resolution_reason
| SignedReferenceMismatch
| AssertionSignatureRequired
| NoTrustedCertificate
| CertificateMismatch
| UnmatchIssuer
| UnmatchAudience
| UnmatchDestination
| InvalidInResponseTo
| UndefinedStatus
| FailedStatus string string
| ExpiredSession
| SubjectUnconfirmed
| PotentialWrappingAttack
| MissingSigAlg
| FailedMessageSignatureVerification
| FailedToVerifySignature
| UnmatchCertificate
| UndefinedBinding
| MissingMetadata string
| MissingKey string
| Crypto string

type_synonym 'a res = "saml_error + 'a"

section \<open>RelayState operations\<close>

definition MAX_RELAY_STATE_BYTES :: nat where
  "MAX_RELAY_STATE_BYTES = 80"

definition validate_relay_state_bytes :: "string \<Rightarrow> unit res" where
  "validate_relay_state_bytes value =
     (if length value > MAX_RELAY_STATE_BYTES
      then Inl (Invalid ''RelayState exceeds SAML Bindings 80-byte limit'')
      else Inr ())"

definition relay_state_try_new :: "string \<Rightarrow> relay_state res" where
  "relay_state_try_new value =
     rbind (validate_relay_state_bytes value) (\<lambda>_. Inr (RelayState value))"

definition relay_param_try_from_option :: "string option \<Rightarrow> relay_state_param res" where
  "relay_param_try_from_option value =
     (case value of
        None \<Rightarrow> Inr Absent
      | Some v \<Rightarrow>
          if v = [] then Inr PresentEmpty
          else rbind (relay_state_try_new v) (\<lambda>r. Inr (PresentValue r)))"

fun relay_param_as_deref :: "relay_state_param \<Rightarrow> string option" where
  "relay_param_as_deref Absent = None"
| "relay_param_as_deref PresentEmpty = Some []"
| "relay_param_as_deref (PresentValue v) = Some (relay_state_str v)"

definition relay_param_validate :: "relay_state_param \<Rightarrow> unit res" where
  "relay_param_validate p =
     (if (case p of PresentValue v \<Rightarrow> relay_state_str v = [] | _ \<Rightarrow> False)
      then Inl (Invalid ''RelayState PresentValue must not be empty'')
      else (case relay_param_as_deref p of
              Some v \<Rightarrow> validate_relay_state_bytes v
            | None \<Rightarrow> Inr ()))"

lemma validate_relay_state_bytes_ok [result_simps]:
  "validate_relay_state_bytes v = Inr u \<longleftrightarrow> length v \<le> MAX_RELAY_STATE_BYTES"
  by (auto simp: validate_relay_state_bytes_def)

text \<open>What a valid RelayState parameter is: the three states never overlap, 80 bytes at most.\<close>

fun relay_param_ok :: "relay_state_param \<Rightarrow> bool" where
  "relay_param_ok (PresentValue v) \<longleftrightarrow>
     relay_state_str v \<noteq> [] \<and> length (relay_state_str v) \<le> MAX_RELAY_STATE_BYTES"
| "relay_param_ok _ \<longleftrightarrow> True"

lemma relay_param_validate_iff: "relay_param_validate p = Inr u \<longleftrightarrow> relay_param_ok p"
  by (cases p) (auto simp: relay_param_validate_def validate_relay_state_bytes_def MAX_RELAY_STATE_BYTES_def)

lemma relay_param_try_from_option_ok:
  "relay_param_try_from_option v = Inr p \<Longrightarrow> relay_param_ok p \<and> relay_param_as_deref p = v"
  by (auto simp: relay_param_try_from_option_def relay_state_try_new_def result_simps
      split: option.splits if_splits)

lemma relay_param_roundtrip:
  "relay_param_ok p \<Longrightarrow> relay_param_try_from_option (relay_param_as_deref p) = Inr p"
  by (cases p) (auto simp: relay_param_try_from_option_def relay_state_try_new_def
      validate_relay_state_bytes_def)

lemma relay_param_as_deref_inject:
  "relay_param_ok p \<Longrightarrow> relay_param_ok q \<Longrightarrow>
     relay_param_as_deref p = relay_param_as_deref q \<longleftrightarrow> p = q"
  by (metis relay_param_roundtrip sum.inject(2))

end
