(* ===== verification/Values.thy ===== *)
theory Values
  imports Saml_Base
begin

text \<open>
  The dynamically typed value tree of \<open>src/src/util.rs\<close> that the XML extractor fills and
  every validator reads, with the string and list helpers of the same file. Objects keep
  their insertion order, so they are association lists; \<open>map_of\<close> is their meaning.
\<close>

section \<open>The value tree\<close>

datatype saml_value =
  VNull
| VStr string
| VArray "saml_value list"
| VObject "(string \<times> saml_value) list"

fun as_str :: "saml_value \<Rightarrow> string option" where
  "as_str (VStr s) = Some s"
| "as_str _ = None"

fun as_array :: "saml_value \<Rightarrow> saml_value list option" where
  "as_array (VArray items) = Some items"
| "as_array _ = None"

definition is_null :: "saml_value \<Rightarrow> bool" where
  "is_null v = (v = VNull)"

fun get_key :: "saml_value \<Rightarrow> string \<Rightarrow> saml_value option" where
  "get_key (VObject entries) key = map_of entries key"
| "get_key _ key = None"

text \<open>The loop of \<open>Value::get\<close> over the segments of a dotted path.\<close>

fun get_segments :: "saml_value \<Rightarrow> string list \<Rightarrow> saml_value option" where
  "get_segments current [] = Some current"
| "get_segments current (segment # rest) =
     (case get_key current segment of
        None \<Rightarrow> None
      | Some v \<Rightarrow> get_segments v rest)"

definition get_path :: "saml_value \<Rightarrow> string \<Rightarrow> saml_value option" where
  "get_path v path = get_segments v (split_on CHR ''.'' path)"

definition get_str :: "saml_value \<Rightarrow> string \<Rightarrow> string option" where
  "get_str v path = Option.bind (get_path v path) as_str"

fun insert_key :: "saml_value \<Rightarrow> string \<Rightarrow> saml_value \<Rightarrow> saml_value" where
  "insert_key (VObject entries) key value = VObject (assoc_put key value entries)"
| "insert_key v key value = v"

lemma get_key_insert_key:
  "get_key (insert_key (VObject es) k v) k' = (if k' = k then Some v else get_key (VObject es) k')"
  by simp

lemma split_on_no_sep [str_simps]: "c \<notin> set s \<Longrightarrow> split_on c s = [s]"
  by (induction s) auto

lemma get_path_flat [str_simps]: "CHR ''.'' \<notin> set k \<Longrightarrow> get_path v k = get_key v k"
  by (simp add: get_path_def split_on_no_sep split: option.split)

lemma split_on_append [str_simps]:
  "c \<notin> set a \<Longrightarrow> split_on c (a @ c # b) = a # split_on c b"
  by (induction a) auto

lemma get_path_dotted [str_simps]:
  "CHR ''.'' \<notin> set a \<Longrightarrow> get_path v (a @ CHR ''.'' # b) =
     Option.bind (get_key v a) (\<lambda>w. get_path w b)"
  by (simp add: get_path_def split_on_append split: option.split bind_split)

section \<open>List helpers\<close>

fun uniq_loop :: "string list \<Rightarrow> string list \<Rightarrow> string list" where
  "uniq_loop seen [] = seen"
| "uniq_loop seen (s # items) =
     (if s \<in> set seen then uniq_loop seen items else uniq_loop (seen @ [s]) items)"

definition uniq :: "string list \<Rightarrow> string list" where
  "uniq items = uniq_loop [] items"

lemma uniq_loop_append:
  "distinct seen \<Longrightarrow> uniq_loop seen items = seen @ filter (\<lambda>s. s \<notin> set seen) (rev (remdups (rev items)))"
proof (induction items rule: rev_induct)
  case Nil
  then show ?case by simp
next
  case (snoc x xs)
  have step: "uniq_loop seen (xs @ [x]) =
      (if x \<in> set (uniq_loop seen xs) then uniq_loop seen xs else uniq_loop seen xs @ [x])" for seen
    by (induction xs arbitrary: seen) auto
  show ?case
    using snoc by (auto simp: step)
qed

lemma uniq_eq: "uniq items = rev (remdups (rev items))"
  by (simp add: uniq_def uniq_loop_append)

lemma distinct_uniq [simp]: "distinct (uniq items)"
  by (simp add: uniq_eq)

lemma set_uniq [simp]: "set (uniq items) = set items"
  by (simp add: uniq_eq)

definition verify_fields :: "string list \<Rightarrow> string \<Rightarrow> bool" where
  "verify_fields field meta_field = (field \<noteq> [] \<and> list_all (\<lambda>f. f = meta_field) field)"

datatype 'a one_or_many = One 'a | Many "'a list"

fun one_or_many_into_vec :: "'a one_or_many \<Rightarrow> 'a list" where
  "one_or_many_into_vec (One v) = [v]"
| "one_or_many_into_vec (Many v) = v"

definition cast_array_opt :: "'a one_or_many option \<Rightarrow> 'a list" where
  "cast_array_opt v = (case v of None \<Rightarrow> [] | Some x \<Rightarrow> one_or_many_into_vec x)"

section \<open>PEM bodies\<close>

definition strip_pem :: "string \<Rightarrow> string \<Rightarrow> string" where
  "strip_pem input label =
     filter (\<lambda>c. c \<notin> {CHR 0x0A, CHR 0x0D, CHR '' '', CHR 0x09})
       (replace_str (''-----END '' @ label @ ''-----'') []
         (replace_str (''-----BEGIN '' @ label @ ''-----'') [] input))"

definition normalize_cert_string :: "string \<Rightarrow> string" where
  "normalize_cert_string cert = strip_pem cert ''CERTIFICATE''"

definition normalize_pem_string :: "string \<Rightarrow> string" where
  "normalize_pem_string pem = strip_pem pem ''RSA PRIVATE KEY''"

section \<open>camelCase\<close>

text \<open>
  The names \<open>camel_case\<close> is applied to are SAML attribute names and configured value tags.
  Case is decided and mapped for ASCII letters; other bytes have no case here (Rust uses the
  Unicode tables, which agree on ASCII).
\<close>

abbreviation "upper_letters \<equiv> ''ABCDEFGHIJKLMNOPQRSTUVWXYZ''"
abbreviation "lower_letters \<equiv> ''abcdefghijklmnopqrstuvwxyz''"

definition ascii_lower :: "char \<Rightarrow> bool" where
  "ascii_lower c = (c \<in> set lower_letters)"

definition ascii_upper :: "char \<Rightarrow> bool" where
  "ascii_upper c = (c \<in> set upper_letters)"

definition to_lower :: "char \<Rightarrow> char" where
  "to_lower c = (case map_of (zip upper_letters lower_letters) c of Some d \<Rightarrow> d | None \<Rightarrow> c)"

definition to_upper :: "char \<Rightarrow> char" where
  "to_upper c = (case map_of (zip lower_letters upper_letters) c of Some d \<Rightarrow> d | None \<Rightarrow> c)"

definition is_word_sep :: "char \<Rightarrow> bool" where
  "is_word_sep c = (c \<in> {CHR ''-'', CHR ''_'', CHR '' '', CHR ''.'', CHR ''/'', CHR '':''})"

definition push_word :: "string \<Rightarrow> string list \<Rightarrow> string list" where
  "push_word cur words = (if cur = [] then words else words @ [cur])"

text \<open>The loop over the characters: previous character, rest, current word, finished words.\<close>

fun camel_words :: "char option \<Rightarrow> string \<Rightarrow> string \<Rightarrow> string list \<Rightarrow> string list" where
  "camel_words prev [] cur words = push_word cur words"
| "camel_words prev (c # cs) cur words =
     (if is_word_sep c then camel_words (Some c) cs [] (push_word cur words)
      else
        let lower_to_upper = (case prev of Some p \<Rightarrow> ascii_lower p \<and> ascii_upper c | None \<Rightarrow> False);
            acronym_end = (case (prev, cs) of
                (Some p, n # _) \<Rightarrow> ascii_upper p \<and> ascii_upper c \<and> ascii_lower n
              | _ \<Rightarrow> False)
        in if cur \<noteq> [] \<and> (lower_to_upper \<or> acronym_end)
           then camel_words (Some c) cs [c] (words @ [cur])
           else camel_words (Some c) cs (cur @ [c]) words)"

fun capitalize :: "string \<Rightarrow> string" where
  "capitalize [] = []"
| "capitalize (c # cs) = to_upper c # cs"

definition camel_case :: "string \<Rightarrow> string" where
  "camel_case input =
     (case map (map to_lower) (camel_words None input [] []) of
        [] \<Rightarrow> []
      | w # ws \<Rightarrow> w @ concat (map capitalize ws))"

lemma camel_case_samples [str_simps]:
  "camel_case ''ID'' = ''id''"
  "camel_case ''IssueInstant'' = ''issueInstant''"
  "camel_case ''SessionNotOnOrAfter'' = ''sessionNotOnOrAfter''"
  "camel_case ''isDefault'' = ''isDefault''"
  "camel_case ''AssertionConsumerServiceURL'' = ''assertionConsumerServiceUrl''"
  by (simp_all add: camel_case_def is_word_sep_def ascii_lower_def ascii_upper_def
      to_lower_def to_upper_def push_word_def)

section \<open>Zipping keys and values\<close>

text \<open>The slot update of \<open>zip_object\<close> when duplicates are aggregated.\<close>

fun aggregate_slot :: "saml_value \<Rightarrow> saml_value \<Rightarrow> saml_value" where
  "aggregate_slot (VArray items) value = VArray (items @ [value])"
| "aggregate_slot existing value = VArray [existing, value]"

definition zip_step :: "bool \<Rightarrow> (string \<times> saml_value) list \<Rightarrow> string \<Rightarrow> saml_value \<Rightarrow>
    (string \<times> saml_value) list" where
  "zip_step skip_duplicated out key value =
     (if skip_duplicated then assoc_put key value out
      else (case map_of out key of
              Some existing \<Rightarrow> assoc_put key (aggregate_slot existing value) out
            | None \<Rightarrow> out @ [(key, value)]))"

fun zip_loop :: "bool \<Rightarrow> (string \<times> saml_value) list \<Rightarrow> (string \<times> saml_value) list \<Rightarrow>
    (string \<times> saml_value) list" where
  "zip_loop skip out [] = out"
| "zip_loop skip out ((k, v) # kvs) = zip_loop skip (zip_step skip out k v) kvs"

definition zip_object :: "string list \<Rightarrow> saml_value list \<Rightarrow> bool \<Rightarrow> saml_value" where
  "zip_object keys values skip_duplicated = VObject (zip_loop skip_duplicated [] (zip keys values))"

lemma map_of_snoc_new: "map_of out k = None \<Longrightarrow> map_of (out @ [(k, v)]) = (map_of out)(k \<mapsto> v)"
  by (induction out) (auto split: if_splits)

lemma map_of_zip_step:
  "map_of (zip_step skip out k v) =
     (map_of out)(k \<mapsto> (case (skip, map_of out k) of
        (False, Some w) \<Rightarrow> aggregate_slot w v | _ \<Rightarrow> v))"
  by (cases skip)
    (auto simp: zip_step_def map_of_snoc_new simp del: map_of_append split: option.splits)

lemma distinct_zip_step:
  "distinct (map fst out) \<Longrightarrow> distinct (map fst (zip_step skip out k v))"
  by (auto simp: zip_step_def distinct_assoc_put map_of_eq_None_iff split: option.splits)

lemma distinct_zip_loop:
  "distinct (map fst out) \<Longrightarrow> distinct (map fst (zip_loop skip out kvs))"
  by (induction skip out kvs rule: zip_loop.induct) (auto intro: distinct_zip_step)

text \<open>All values given for one key, in the order they come.\<close>

definition values_for :: "'k \<Rightarrow> ('k \<times> 'v) list \<Rightarrow> 'v list" where
  "values_for k kvs = map snd (filter (\<lambda>p. fst p = k) kvs)"

lemma values_for_simps [simp]:
  "values_for k [] = []"
  "values_for k ((k', v) # kvs) = (if k' = k then v # values_for k kvs else values_for k kvs)"
  by (simp_all add: values_for_def)

lemma zip_loop_skip_lookup:
  "map_of (zip_loop True out kvs) k =
     (if values_for k kvs = [] then map_of out k else Some (last (values_for k kvs)))"
  by (induction True out kvs rule: zip_loop.induct) (auto simp: map_of_zip_step)

lemma zip_loop_aggregate_lookup:
  "map_of (zip_loop False out kvs) k =
     (case map_of out k of
        Some w \<Rightarrow> Some (foldl aggregate_slot w (values_for k kvs))
      | None \<Rightarrow> (case values_for k kvs of [] \<Rightarrow> None | v # vs \<Rightarrow> Some (foldl aggregate_slot v vs)))"
proof (induction kvs arbitrary: out)
  case Nil
  then show ?case by (auto split: option.split)
next
  case (Cons kv kvs)
  obtain k' v where "kv = (k', v)" by (cases kv)
  then show ?case
    using Cons [of "zip_step False out k' v"] by (auto simp: map_of_zip_step split: option.split)
qed

lemma foldl_aggregate_array:
  "foldl aggregate_slot (VArray ws) vs = VArray (ws @ vs)"
  by (induction vs arbitrary: ws) auto

lemma foldl_aggregate_scalar:
  "as_array v = None \<Longrightarrow> vs \<noteq> [] \<Longrightarrow> foldl aggregate_slot v vs = VArray (v # vs)"
  by (cases vs; cases v) (auto simp: foldl_aggregate_array)

end
