(* ===== verification/Instants.thy ===== *)
theory Instants
  imports Values
begin

text \<open>
  Instants, durations and the time windows of \<open>src/src/validator.rs\<close>,
  \<open>src/src/model/validation.rs\<close> and \<open>src/src/model/session.rs\<close>. The crate
  \<open>time\<close> is not under \<open>src/\<close>: its \<open>OffsetDateTime\<close> is seen through the
  record \<open>time_ext\<close> of the functions the code calls, and what the code relies on is
  \<open>time_laws\<close>. \<open>SystemTime\<close> and \<open>Duration\<close> are the standard library's: whole
  nanoseconds, with the 64-bit seconds range of \<open>SystemTime\<close> written out.
\<close>

section \<open>Instants\<close>

text \<open>An \<open>OffsetDateTime\<close>, compared by its instant: nanoseconds from the Unix epoch.\<close>

datatype odt = Odt (odt_ns: int)

instantiation odt :: linorder
begin

definition less_eq_odt :: "odt \<Rightarrow> odt \<Rightarrow> bool" where
  "less_eq_odt a b = (odt_ns a \<le> odt_ns b)"

definition less_odt :: "odt \<Rightarrow> odt \<Rightarrow> bool" where
  "less_odt a b = (odt_ns a < odt_ns b)"

instance
  by standard (auto simp: less_eq_odt_def less_odt_def intro: odt.expand)

end

text \<open>A \<open>SystemTime\<close>: nanoseconds from the Unix epoch, seconds in \<open>i64\<close>.\<close>

datatype systime = SysTime (sys_ns: int)

instantiation systime :: linorder
begin

definition less_eq_systime :: "systime \<Rightarrow> systime \<Rightarrow> bool" where
  "less_eq_systime a b = (sys_ns a \<le> sys_ns b)"

definition less_systime :: "systime \<Rightarrow> systime \<Rightarrow> bool" where
  "less_systime a b = (sys_ns a < sys_ns b)"

instance
  by standard (auto simp: less_eq_systime_def less_systime_def intro: systime.expand)

end

abbreviation "ns_per_sec \<equiv> (1000000000 :: int)"

definition sys_in_range :: "int \<Rightarrow> bool" where
  "sys_in_range n = (- (2 ^ 63) * ns_per_sec \<le> n \<and> n < 2 ^ 63 * ns_per_sec)"

definition systime_ok :: "systime \<Rightarrow> bool" where
  "systime_ok t = sys_in_range (sys_ns t)"

text \<open>\<open>SystemTime::checked_add\<close> and \<open>checked_sub\<close> of a non-negative \<open>Duration\<close> in nanoseconds.\<close>

definition sys_checked_add :: "systime \<Rightarrow> nat \<Rightarrow> systime option" where
  "sys_checked_add t d = (if sys_in_range (sys_ns t + int d) then Some (SysTime (sys_ns t + int d)) else None)"

definition sys_checked_sub :: "systime \<Rightarrow> nat \<Rightarrow> systime option" where
  "sys_checked_sub t d = (if sys_in_range (sys_ns t - int d) then Some (SysTime (sys_ns t - int d)) else None)"

text \<open>\<open>duration_since(UNIX_EPOCH)\<close>: the distance on the right, or the backwards one in the error.\<close>

definition since_unix_epoch :: "systime \<Rightarrow> nat + nat" where
  "since_unix_epoch t = (if 0 \<le> sys_ns t then Inr (nat (sys_ns t)) else Inl (nat (- sys_ns t)))"

section \<open>The \<open>time\<close> crate\<close>

text \<open>The UTC calendar fields of an instant (\<open>year()\<close> to \<open>nanosecond()\<close>).\<close>

record civil =
  cv_year :: int
  cv_month :: nat
  cv_day :: nat
  cv_hour :: nat
  cv_minute :: nat
  cv_second :: nat
  cv_nanosecond :: nat

record time_ext =
  rfc3339_parse :: "string \<Rightarrow> odt option"
  odt_checked_add :: "odt \<Rightarrow> int \<Rightarrow> odt option"
  duration_try_from :: "nat \<Rightarrow> int option"
  odt_civil :: "odt \<Rightarrow> civil"

text \<open>
  Checked addition is exact when it succeeds, and converting a standard duration keeps its
  length. The result of \<open>checked_sub d\<close> is that of \<open>checked_add (- d)\<close>.
\<close>

definition time_laws :: "('e) time_ext_scheme \<Rightarrow> bool" where
  "time_laws E \<longleftrightarrow>
     (\<forall>t d u. odt_checked_add E t d = Some u \<longrightarrow> odt_ns u = odt_ns t + d) \<and>
     (\<forall>d n. duration_try_from E d = Some n \<longrightarrow> n = int d)"

definition odt_checked_sub :: "('e) time_ext_scheme \<Rightarrow> odt \<Rightarrow> int \<Rightarrow> odt option" where
  "odt_checked_sub E t d = odt_checked_add E t (- d)"

definition unix_epoch :: odt where
  "unix_epoch = Odt 0"

definition duration_ms :: "int \<Rightarrow> int" where
  "duration_ms ms = ms * 1000000"

lemma time_laws_add: "time_laws E \<Longrightarrow> odt_checked_add E t d = Some u \<Longrightarrow> odt_ns u = odt_ns t + d"
  by (auto simp: time_laws_def)

lemma time_laws_dur: "time_laws E \<Longrightarrow> duration_try_from E d = Some n \<Longrightarrow> n = int d"
  by (auto simp: time_laws_def)

section \<open>Conversions\<close>

definition offset_datetime_from_system_time :: "('e) time_ext_scheme \<Rightarrow> systime \<Rightarrow> odt res" where
  "offset_datetime_from_system_time E instant =
     ok_or
       (case since_unix_epoch instant of
          Inr elapsed \<Rightarrow>
            Option.bind (duration_try_from E elapsed) (\<lambda>d. odt_checked_add E unix_epoch d)
        | Inl backwards \<Rightarrow>
            Option.bind (duration_try_from E backwards) (\<lambda>d. odt_checked_sub E unix_epoch d))
       (Invalid ''validation instant is outside the supported SAML time range'')"

definition system_time_from_offset_datetime :: "odt \<Rightarrow> systime res" where
  "system_time_from_offset_datetime deadline =
     (let since_epoch = odt_ns deadline - odt_ns unix_epoch;
          converted =
            (if since_epoch < 0 then sys_checked_sub (SysTime 0) (nat \<bar>since_epoch\<bar>)
             else sys_checked_add (SysTime 0) (nat \<bar>since_epoch\<bar>))
      in ok_or converted (TimeWindowInvalid ReplayExpiration))"

lemma offset_datetime_from_system_time_ns:
  assumes "time_laws E" "offset_datetime_from_system_time E t = Inr u"
  shows "odt_ns u = sys_ns t"
proof (cases "0 \<le> sys_ns t")
  case True
  with assms(2) obtain d where "duration_try_from E (nat (sys_ns t)) = Some d"
    "odt_checked_add E unix_epoch d = Some u"
    by (auto simp: offset_datetime_from_system_time_def since_unix_epoch_def ok_or_Inr_iff bind_eq_Some_conv)
  with True show ?thesis
    using time_laws_add [OF assms(1)] time_laws_dur [OF assms(1)] by (fastforce simp: unix_epoch_def)
next
  case False
  with assms(2) obtain d where "duration_try_from E (nat (- sys_ns t)) = Some d"
    "odt_checked_add E unix_epoch (- d) = Some u"
    by (auto simp: offset_datetime_from_system_time_def since_unix_epoch_def ok_or_Inr_iff bind_eq_Some_conv
        odt_checked_sub_def)
  with False show ?thesis
    using time_laws_add [OF assms(1)] time_laws_dur [OF assms(1)] by (fastforce simp: unix_epoch_def)
qed

lemma system_time_from_offset_datetime_eq:
  "system_time_from_offset_datetime u =
     (if sys_in_range (odt_ns u) then Inr (SysTime (odt_ns u)) else Inl (TimeWindowInvalid ReplayExpiration))"
  by (simp add: system_time_from_offset_datetime_def unix_epoch_def sys_checked_sub_def sys_checked_add_def
      Let_def ok_or_def)

section \<open>Formatting\<close>

text \<open>The formats \<open>{:02}\<close>, \<open>{:04}\<close>, \<open>{:09}\<close> of an integer: the sign counts in the width.\<close>

definition pad_zero :: "nat \<Rightarrow> string \<Rightarrow> string" where
  "pad_zero w s = replicate (w - length s) CHR ''0'' @ s"

definition show_padded :: "nat \<Rightarrow> int \<Rightarrow> string" where
  "show_padded w n =
     (if n < 0 then ''-'' @ pad_zero (w - 1) (show_nat (nat (- n))) else pad_zero w (show_nat (nat n)))"

definition format_saml_utc_date_time :: "('e) time_ext_scheme \<Rightarrow> odt \<Rightarrow> string" where
  "format_saml_utc_date_time E t =
     (let c = odt_civil E t in
      show_padded 4 (cv_year c) @ ''-'' @ show_padded 2 (int (cv_month c)) @ ''-'' @ show_padded 2 (int (cv_day c))
      @ ''T'' @ show_padded 2 (int (cv_hour c)) @ '':'' @ show_padded 2 (int (cv_minute c)) @ '':''
      @ show_padded 2 (int (cv_second c)) @ ''Z'')"

definition format_idp_issuance_instant :: "('e) time_ext_scheme \<Rightarrow> odt \<Rightarrow> bool \<Rightarrow> string" where
  "format_idp_issuance_instant E t preserve_subseconds =
     (if preserve_subseconds then
        (let c = odt_civil E t in
         show_padded 4 (cv_year c) @ ''-'' @ show_padded 2 (int (cv_month c)) @ ''-'' @ show_padded 2 (int (cv_day c))
         @ ''T'' @ show_padded 2 (int (cv_hour c)) @ '':'' @ show_padded 2 (int (cv_minute c)) @ '':''
         @ show_padded 2 (int (cv_second c)) @ ''.'' @ show_padded 9 (int (cv_nanosecond c)) @ ''Z'')
      else format_saml_utc_date_time E t)"

record idp_issuance_window =
  iw_issue_instant :: string
  iw_expiration :: string

text \<open>\<open>capture_idp_issuance_window\<close> at the instant \<open>now_utc\<close>; the lifetime is in nanoseconds.\<close>

definition capture_idp_issuance_window :: "('e) time_ext_scheme \<Rightarrow> odt \<Rightarrow> int \<Rightarrow> idp_issuance_window res" where
  "capture_idp_issuance_window E now_utc lifetime =
     rbind (ok_or (odt_checked_add E now_utc lifetime) (TimeWindowInvalid IdpIssuanceExpiration)) (\<lambda>expiration.
       let preserve_subseconds = (lifetime mod ns_per_sec \<noteq> 0) in
       Inr \<lparr>iw_issue_instant = format_idp_issuance_instant E now_utc preserve_subseconds,
            iw_expiration = format_idp_issuance_instant E expiration preserve_subseconds\<rparr>)"

section \<open>Time windows\<close>

definition verify_time_at ::
  "('e) time_ext_scheme \<Rightarrow> string option \<Rightarrow> string option \<Rightarrow> int \<times> int \<Rightarrow> odt \<Rightarrow> bool" where
  "verify_time_at E not_before not_on_or_after drift now =
     (let nb_drift = duration_ms (fst drift); na_drift = duration_ms (snd drift) in
      case (not_before, not_on_or_after) of
        (None, None) \<Rightarrow> True
      | (Some nb, None) \<Rightarrow>
          (case rfc3339_parse E nb of
             Some t \<Rightarrow> (case odt_checked_add E t nb_drift of Some bound \<Rightarrow> bound \<le> now | None \<Rightarrow> False)
           | None \<Rightarrow> False)
      | (None, Some na) \<Rightarrow>
          (case rfc3339_parse E na of
             Some t \<Rightarrow> (case odt_checked_add E t na_drift of Some bound \<Rightarrow> now < bound | None \<Rightarrow> False)
           | None \<Rightarrow> False)
      | (Some nb, Some na) \<Rightarrow>
          (case (rfc3339_parse E nb, rfc3339_parse E na) of
             (Some b, Some a) \<Rightarrow>
               (case odt_checked_add E b nb_drift of Some bound \<Rightarrow> bound \<le> now | None \<Rightarrow> False) \<and>
               (case odt_checked_add E a na_drift of Some bound \<Rightarrow> now < bound | None \<Rightarrow> False)
           | _ \<Rightarrow> False))"

definition verify_time ::
  "('e) time_ext_scheme \<Rightarrow> odt \<Rightarrow> string option \<Rightarrow> string option \<Rightarrow> int \<times> int \<Rightarrow> bool" where
  "verify_time E now_utc not_before not_on_or_after drift =
     verify_time_at E not_before not_on_or_after drift now_utc"

text \<open>A present bound in nanoseconds with its drift, when it can be computed.\<close>

definition bound_ns :: "('e) time_ext_scheme \<Rightarrow> int \<Rightarrow> string \<Rightarrow> int option" where
  "bound_ns E ms s =
     Option.bind (rfc3339_parse E s) (\<lambda>t.
       map_option (\<lambda>_. odt_ns t + ms * 1000000) (odt_checked_add E t (ms * 1000000)))"

lemma verify_time_at_bounds:
  assumes "time_laws E"
  shows "verify_time_at E nb na (d1, d2) now \<longleftrightarrow>
     (\<forall>s. nb = Some s \<longrightarrow> (\<exists>b. bound_ns E d1 s = Some b \<and> b \<le> odt_ns now)) \<and>
     (\<forall>s. na = Some s \<longrightarrow> (\<exists>b. bound_ns E d2 s = Some b \<and> odt_ns now < b))"
  using time_laws_add [OF assms]
  by (auto simp: verify_time_at_def bound_ns_def duration_ms_def less_eq_odt_def less_odt_def Let_def
      bind_eq_Some_conv split: option.splits)

lemma odt_ns_image: "{odt_ns now |now. odt_ns now \<in> A} = A"
proof
  show "A \<subseteq> {odt_ns now |now. odt_ns now \<in> A}"
  proof
    fix x assume "x \<in> A"
    then show "x \<in> {odt_ns now |now. odt_ns now \<in> A}" by (intro CollectI exI [of _ "Odt x"]) simp
  qed
qed auto

text \<open>
  the time check accepts exactly a half-open window of instants, from NotBefore plus its drift
  up to but excluding NotOnOrAfter plus its drift; an absent bound does not restrict, and a bound
  that cannot be parsed or leaves the supported range makes the window empty.
\<close>

theorem verify_time_at_window:
  assumes "time_laws E"
  shows "{odt_ns now |now. verify_time_at E nb na (d1, d2) now} =
     (case nb of None \<Rightarrow> UNIV
      | Some s \<Rightarrow> (case bound_ns E d1 s of None \<Rightarrow> {} | Some b \<Rightarrow> {b..})) \<inter>
     (case na of None \<Rightarrow> UNIV
      | Some s \<Rightarrow> (case bound_ns E d2 s of None \<Rightarrow> {} | Some b \<Rightarrow> {..<b}))"
  (is "?L = ?R")
proof -
  have "verify_time_at E nb na (d1, d2) now \<longleftrightarrow> odt_ns now \<in> ?R" for now
    unfolding verify_time_at_bounds [OF assms] by (auto split: option.splits)
  then have "?L = {odt_ns now |now. odt_ns now \<in> ?R}" by presburger
  also have "\<dots> = ?R" by (rule odt_ns_image)
  finally show ?thesis .
qed

definition sample_time :: "time_ext" where
  "sample_time =
     \<lparr>rfc3339_parse = (\<lambda>s.
        if s \<in> {''2024-01-01T00:00:00Z'', ''2024-01-01T00:00:00.000000000Z''}
        then Some (Odt (1704067200 * ns_per_sec)) else None),
      odt_checked_add = (\<lambda>t d. Some (Odt (odt_ns t + d))),
      duration_try_from = (\<lambda>d. Some (int d)),
      odt_civil = (\<lambda>t. \<lparr>cv_year = 2024, cv_month = 1, cv_day = 1, cv_hour = 0, cv_minute = 0, cv_second = 0,
        cv_nanosecond = 0\<rparr>)\<rparr>"

lemma time_laws_sample [simp]: "time_laws sample_time"
  by (simp add: time_laws_def sample_time_def)

lemma verify_time_at_window_witness:
  "{odt_ns now |now. verify_time_at sample_time (Some ''2024-01-01T00:00:00Z'') None (0, 0) now} =
     {1704067200 * ns_per_sec..}"
  by (subst verify_time_at_window [OF time_laws_sample]) (simp add: bound_ns_def sample_time_def)

definition conditions_time_bounds :: "saml_value \<Rightarrow> (string option \<times> string option) res" where
  "conditions_time_bounds extracted =
     (case get_path extracted ''conditions'' of
        None \<Rightarrow> Inr (None, None)
      | Some (VArray []) \<Rightarrow> Inr (None, None)
      | Some (VObject es) \<Rightarrow>
          Inr (get_str (VObject es) ''notBefore'', get_str (VObject es) ''notOnOrAfter'')
      | Some _ \<Rightarrow> Inl (Invalid ''Assertion Conditions must be absent or occur exactly once''))"

section \<open>Session expiry\<close>

fun earliest_loop ::
  "('e) time_ext_scheme \<Rightarrow> time_window_field \<Rightarrow> odt option \<Rightarrow> string list \<Rightarrow> odt option res" where
  "earliest_loop E field earliest [] = Inr earliest"
| "earliest_loop E field earliest (v # vs) =
     rbind (ok_or (rfc3339_parse E v) (TimeWindowInvalid field)) (\<lambda>candidate.
       earliest_loop E field
         (if (case earliest of None \<Rightarrow> True | Some current \<Rightarrow> candidate < current)
          then Some candidate else earliest) vs)"

definition earliest_authn_session_expiration ::
  "('e) time_ext_scheme \<Rightarrow> string list \<Rightarrow> time_window_field \<Rightarrow> odt option res" where
  "earliest_authn_session_expiration E vals error_field = earliest_loop E error_field None vals"

lemma earliest_loop_Some:
  "earliest_loop E field (Some e) vals = Inr r \<longleftrightarrow>
     list_all (\<lambda>v. rfc3339_parse E v \<noteq> None) vals \<and>
     r = Some (Min (insert e (set (map (\<lambda>v. the (rfc3339_parse E v)) vals))))"
proof (induction vals arbitrary: e)
  case Nil
  then show ?case by auto
next
  case (Cons v vs)
  show ?case
  proof (cases "rfc3339_parse E v")
    case None
    then show ?thesis by simp
  next
    case (Some c)
    have *: "(if c < e then Some c else Some e) = Some (min e c)" by (auto simp: min_def)
    have "Min (insert (min e c) A) = Min (insert e (insert c A))" if "finite A" for A :: "odt set"
      using that by (cases "A = {}") (auto simp: min.assoc)
    then show ?thesis using Some * Cons [of "min e c"] by simp
  qed
qed

lemma earliest_expiration_eq:
  "earliest_authn_session_expiration E vals field = Inr r \<longleftrightarrow>
     list_all (\<lambda>v. rfc3339_parse E v \<noteq> None) vals \<and>
     r = (if vals = [] then None else Some (Min (set (map (\<lambda>v. the (rfc3339_parse E v)) vals))))"
proof (cases vals)
  case Nil
  then show ?thesis by (auto simp: earliest_authn_session_expiration_def)
next
  case (Cons v vs)
  then show ?thesis
    by (cases "rfc3339_parse E v") (auto simp: earliest_authn_session_expiration_def earliest_loop_Some)
qed

text \<open>
  the earliest session expiry is the minimum of all SessionNotOnOrAfter values, and it is only
  returned when every one of them parses; no value gives no expiry.
\<close>

theorem earliest_authn_session_expiration_Min:
  "earliest_authn_session_expiration E vals field = Inr r \<longleftrightarrow>
     list_all (\<lambda>v. rfc3339_parse E v \<noteq> None) vals \<and>
     r = (if vals = [] then None else Some (Min (set (map (\<lambda>v. the (rfc3339_parse E v)) vals))))"
  by (rule earliest_expiration_eq)

end
