(* ===== verification/Dom.thy ===== *)
theory Dom
  imports Instants
begin

text \<open>
  The DOM builder of \<open>src/src/xml/dom.rs\<close>. The pull parser is the crate
  \<open>quick_xml\<close>: for a text it yields a list of steps, one per \<open>read_event\<close>, each
  with the reader positions bef and aft it; the end of the list is \<open>Eof\<close>, and a step
  may be a reader error. An event carries what the accessors the code calls on it return. The
  properties: the resource limits hold of every tree the parser returns, a DOCTYPE is always
  rejected, and the tree's tags are exactly those of the document.
\<close>

section \<open>The pull parser\<close>

text \<open>One item of \<open>BytesStart::attributes()\<close>: an error, or the qualified name, the decoded
  value or its error, and whether the name is a namespace binding.\<close>

datatype attr_item = AttrErr string | AttrItem string "string + string" bool

datatype xml_event =
  EvStart string "attr_item list"
| EvEmpty string "attr_item list"
| EvEnd
| EvText "string + string"
| EvCData string
| EvRef "string + string option" "string + string"
| EvDocType
| EvOther

datatype xml_step = XFail string | XEvent nat nat xml_event

record xml_ext = time_ext +
  xml_read :: "string \<Rightarrow> xml_step list"
  predefined_entity :: "string \<Rightarrow> string option"

section \<open>Limits and nodes\<close>

record xml_limits =
  max_bytes :: nat
  max_depth :: nat
  max_nodes :: nat
  max_attributes_per_element :: nat
  max_attribute_value_bytes :: nat
  max_text_bytes :: nat

definition xml_limits_default :: xml_limits where
  "xml_limits_default =
     \<lparr>max_bytes = 1024 * 1024, max_depth = 1024, max_nodes = 50000,
      max_attributes_per_element = 64, max_attribute_value_bytes = 16 * 1024,
      max_text_bytes = 1024 * 1024\<rparr>"

definition xml_limits_unbounded :: xml_limits where
  "xml_limits_unbounded =
     \<lparr>max_bytes = usize_max, max_depth = usize_max, max_nodes = usize_max,
      max_attributes_per_element = usize_max, max_attribute_value_bytes = usize_max,
      max_text_bytes = usize_max\<rparr>"

datatype node =
  Node (local_name: string) (attrs: "(string \<times> string) list") (children: "node list")
    (node_text: string) (node_start: nat) (node_end: nat)

definition node_attr :: "node \<Rightarrow> string \<Rightarrow> string option" where
  "node_attr n name = map_of (attrs n) name"

definition limit_exceeded :: "string \<Rightarrow> nat \<Rightarrow> saml_error" where
  "limit_exceeded limit m =
     Invalid (''ERR_XML_LIMIT_EXCEEDED: '' @ limit @ '' exceeded ('' @ show_nat m @ '')'')"

definition check_input_bytes :: "xml_limits \<Rightarrow> nat \<Rightarrow> unit res" where
  "check_input_bytes limits len =
     (if len > max_bytes limits then Inl (limit_exceeded ''max XML bytes'' (max_bytes limits)) else Inr ())"

definition checked_node_count :: "nat \<Rightarrow> xml_limits \<Rightarrow> nat res" where
  "checked_node_count count limits =
     (case usize_checked_add count 1 of
        None \<Rightarrow> Inl (limit_exceeded ''max XML nodes'' (max_nodes limits))
      | Some c \<Rightarrow>
          if c > max_nodes limits then Inl (limit_exceeded ''max XML nodes'' (max_nodes limits)) else Inr c)"

definition check_depth :: "nat \<Rightarrow> xml_limits \<Rightarrow> unit res" where
  "check_depth depth limits =
     (if depth > max_depth limits then Inl (limit_exceeded ''max XML depth'' (max_depth limits)) else Inr ())"

definition checked_append_text :: "string \<Rightarrow> string \<Rightarrow> xml_limits \<Rightarrow> string res" where
  "checked_append_text target txt limits =
     (case usize_checked_add (length target) (length txt) of
        None \<Rightarrow> Inl (limit_exceeded ''max XML text bytes'' (max_text_bytes limits))
      | Some next_len \<Rightarrow>
          if next_len > max_text_bytes limits
          then Inl (limit_exceeded ''max XML text bytes'' (max_text_bytes limits))
          else Inr (target @ txt))"

text \<open>\<open>read_attrs\<close>: the loop over the numbered attributes with the pairs kept so far.\<close>

fun read_attrs_loop :: "xml_limits \<Rightarrow> nat \<Rightarrow> attr_item list \<Rightarrow> (string \<times> string) list \<Rightarrow>
    (string \<times> string) list res" where
  "read_attrs_loop limits i [] out = Inr out"
| "read_attrs_loop limits i (item # items) out =
     (if i \<ge> max_attributes_per_element limits
      then Inl (limit_exceeded ''max XML attributes per element'' (max_attributes_per_element limits))
      else (case item of
          AttrErr e \<Rightarrow> Inl (Xml e)
        | AttrItem key val ns \<Rightarrow>
            (case val of
               Inl e \<Rightarrow> Inl (Xml e)
             | Inr v \<Rightarrow>
                 if length v > max_attribute_value_bytes limits
                 then Inl (limit_exceeded ''max XML attribute value bytes'' (max_attribute_value_bytes limits))
                 else read_attrs_loop limits (Suc i) items (if ns then out else out @ [(key, v)]))))"

definition read_attrs :: "attr_item list \<Rightarrow> xml_limits \<Rightarrow> (string \<times> string) list res" where
  "read_attrs items limits = read_attrs_loop limits 0 items []"

fun position_where :: "(char \<Rightarrow> bool) \<Rightarrow> string \<Rightarrow> nat option" where
  "position_where p [] = None"
| "position_where p (x # xs) = (if p x then Some 0 else map_option Suc (position_where p xs))"

definition slice :: "string \<Rightarrow> nat \<Rightarrow> nat \<Rightarrow> string" where
  "slice s a b = take (b - a) (drop a s)"

definition find_lt :: "string \<Rightarrow> nat \<Rightarrow> nat \<Rightarrow> nat" where
  "find_lt bytes bef aft =
     (case position_where (\<lambda>b. b = CHR ''<'') (slice bytes bef aft) of
        Some p \<Rightarrow> bef + p
      | None \<Rightarrow> bef)"

section \<open>The parser loop\<close>

datatype parse_mode = ModeDocument | ModeRoots

text \<open>The stack has the innermost open element first.\<close>

record dom_state =
  dom_stack :: "node list"
  dom_roots :: "node list"
  dom_count :: nat

definition add_child :: "node \<Rightarrow> node \<Rightarrow> node" where
  "add_child p c = Node (local_name p) (attrs p) (children p @ [c]) (node_text p) (node_start p) (node_end p)"

definition push_child :: "dom_state \<Rightarrow> node \<Rightarrow> dom_state" where
  "push_child st n =
     (case dom_stack st of
        p # rest \<Rightarrow> st\<lparr>dom_stack := add_child p n # rest\<rparr>
      | [] \<Rightarrow> st\<lparr>dom_roots := dom_roots st @ [n]\<rparr>)"

definition set_end :: "node \<Rightarrow> nat \<Rightarrow> node" where
  "set_end n e = Node (local_name n) (attrs n) (children n) (node_text n) (node_start n) e"

definition set_text :: "node \<Rightarrow> string \<Rightarrow> node" where
  "set_text n t = Node (local_name n) (attrs n) (children n) t (node_start n) (node_end n)"

definition is_xml_whitespace :: "string \<Rightarrow> bool" where
  "is_xml_whitespace t = list_all (\<lambda>b. b \<in> {CHR '' '', CHR 0x09, CHR 0x0D, CHR 0x0A}) t"

definition reject_non_document_content :: "parse_mode \<Rightarrow> unit res" where
  "reject_non_document_content mode =
     (case mode of
        ModeDocument \<Rightarrow> Inl (Xml ''content is not allowed outside the document element'')
      | ModeRoots \<Rightarrow> Inr ())"

text \<open>Append to the text of the innermost open element.\<close>

definition append_top :: "xml_limits \<Rightarrow> dom_state \<Rightarrow> string \<Rightarrow> dom_state res" where
  "append_top limits st t =
     (case dom_stack st of
        inner # rest \<Rightarrow>
          rbind (checked_append_text (node_text inner) t limits) (\<lambda>t'. Inr (st\<lparr>dom_stack := set_text inner t' # rest\<rparr>))
      | [] \<Rightarrow> Inr st)"

definition push_general_ref ::
  "('e) xml_ext_scheme \<Rightarrow> xml_limits \<Rightarrow> dom_state \<Rightarrow> string + string option \<Rightarrow> string + string \<Rightarrow> dom_state res" where
  "push_general_ref E limits st char_ref name =
     (case char_ref of
        Inl e \<Rightarrow> Inl (Xml e)
      | Inr (Some ch) \<Rightarrow> append_top limits st ch
      | Inr None \<Rightarrow>
          (case name of
             Inl e \<Rightarrow> Inl (Xml e)
           | Inr entity \<Rightarrow>
               (case predefined_entity E entity of
                  None \<Rightarrow> Inl (Xml (''unrecognized entity `'' @ entity @ ''`''))
                | Some r \<Rightarrow> append_top limits st r)))"

definition open_node :: "xml_limits \<Rightarrow> string \<Rightarrow> dom_state \<Rightarrow> nat \<Rightarrow> nat \<Rightarrow> string \<Rightarrow> attr_item list \<Rightarrow> nat \<Rightarrow>
    (nat \<times> node) res" where
  "open_node limits bytes st bef aft name items e =
     rbind (checked_node_count (dom_count st) limits) (\<lambda>count.
     rbind (check_depth (usize_sat_add (length (dom_stack st)) 1) limits) (\<lambda>_.
     rbind (read_attrs items limits) (\<lambda>ats.
       Inr (count, Node name ats [] [] (find_lt bytes bef aft) e))))"

text \<open>One iteration of the loop of \<open>parse_roots_inner\<close>.\<close>

fun dom_event :: "('e) xml_ext_scheme \<Rightarrow> xml_limits \<Rightarrow> parse_mode \<Rightarrow> string \<Rightarrow> dom_state \<Rightarrow> nat \<Rightarrow> nat \<Rightarrow>
    xml_event \<Rightarrow> dom_state res" where
  "dom_event E limits mode bytes st bef aft (EvStart name items) =
     rbind (open_node limits bytes st bef aft name items 0) (\<lambda>(count, n).
       Inr (st\<lparr>dom_stack := n # dom_stack st, dom_count := count\<rparr>))"
| "dom_event E limits mode bytes st bef aft (EvEmpty name items) =
     rbind (open_node limits bytes st bef aft name items aft) (\<lambda>(count, n).
       Inr (push_child (st\<lparr>dom_count := count\<rparr>) n))"
| "dom_event E limits mode bytes st bef aft EvEnd =
     (case dom_stack st of
        [] \<Rightarrow> Inr st
      | n # rest \<Rightarrow> Inr (push_child (st\<lparr>dom_stack := rest\<rparr>) (set_end n aft)))"
| "dom_event E limits mode bytes st bef aft (EvText decoded) =
     (case decoded of
        Inl e \<Rightarrow> Inl (Xml e)
      | Inr t \<Rightarrow>
          if dom_stack st \<noteq> [] then append_top limits st t
          else if \<not> is_xml_whitespace t then rbind (reject_non_document_content mode) (\<lambda>_. Inr st)
          else Inr st)"
| "dom_event E limits mode bytes st bef aft (EvCData t) =
     (if dom_stack st \<noteq> [] then append_top limits st t
      else rbind (reject_non_document_content mode) (\<lambda>_. Inr st))"
| "dom_event E limits mode bytes st bef aft (EvRef char_ref name) =
     (if dom_stack st \<noteq> [] then push_general_ref E limits st char_ref name
      else rbind (reject_non_document_content mode) (\<lambda>_. Inr st))"
| "dom_event E limits mode bytes st bef aft EvDocType = Inl (Xml ''DOCTYPE is not allowed'')"
| "dom_event E limits mode bytes st bef aft EvOther = Inr st"

fun dom_loop :: "('e) xml_ext_scheme \<Rightarrow> xml_limits \<Rightarrow> parse_mode \<Rightarrow> string \<Rightarrow> dom_state \<Rightarrow> xml_step list \<Rightarrow>
    node list res" where
  "dom_loop E limits mode bytes st [] =
     (if dom_stack st \<noteq> [] then Inl (Xml ''unclosed document element'') else Inr (dom_roots st))"
| "dom_loop E limits mode bytes st (XFail e # steps) = Inl (Xml e)"
| "dom_loop E limits mode bytes st (XEvent bef aft ev # steps) =
     rbind (dom_event E limits mode bytes st bef aft ev) (\<lambda>st'. dom_loop E limits mode bytes st' steps)"

definition parse_roots_inner :: "('e) xml_ext_scheme \<Rightarrow> string \<Rightarrow> xml_limits \<Rightarrow> parse_mode \<Rightarrow> node list res" where
  "parse_roots_inner E xml limits mode =
     rbind (check_input_bytes limits (length xml)) (\<lambda>_.
       dom_loop E limits mode xml \<lparr>dom_stack = [], dom_roots = [], dom_count = 0\<rparr> (xml_read E xml))"

definition parse_with_limits :: "('e) xml_ext_scheme \<Rightarrow> string \<Rightarrow> xml_limits \<Rightarrow> node res" where
  "parse_with_limits E xml limits =
     rbind (parse_roots_inner E xml limits ModeDocument) (\<lambda>roots.
       case roots of
         [] \<Rightarrow> Inl (Xml ''no document element'')
       | [r] \<Rightarrow> Inr r
       | _ \<Rightarrow> Inl (Xml ''multiple document elements''))"

definition parse_document :: "('e) xml_ext_scheme \<Rightarrow> string \<Rightarrow> node res" where
  "parse_document E xml = parse_with_limits E xml xml_limits_default"

definition parse_roots_with_limits :: "('e) xml_ext_scheme \<Rightarrow> string \<Rightarrow> xml_limits \<Rightarrow> node list res" where
  "parse_roots_with_limits E xml limits = parse_roots_inner E xml limits ModeRoots"

section \<open>Resource limits\<close>

fun node_size :: "node \<Rightarrow> nat" where
  "node_size (Node nm ats cs tx s e) = Suc (sum_list (map node_size cs))"

fun node_depth :: "node \<Rightarrow> nat" where
  "node_depth (Node nm ats cs tx s e) = Suc (foldr max (map node_depth cs) 0)"

fun subnodes :: "node \<Rightarrow> node list" where
  "subnodes (Node nm ats cs tx s e) = Node nm ats cs tx s e # concat (map subnodes cs)"

text \<open>One node respects the limits on attributes and text.\<close>

definition node_fits :: "xml_limits \<Rightarrow> node \<Rightarrow> bool" where
  "node_fits L n \<longleftrightarrow>
     length (attrs n) \<le> max_attributes_per_element L
     \<and> list_all (\<lambda>(k, v). length v \<le> max_attribute_value_bytes L) (attrs n)
     \<and> length (node_text n) \<le> max_text_bytes L"

fun fits_within :: "xml_limits \<Rightarrow> nat \<Rightarrow> node \<Rightarrow> bool" where
  "fits_within L d (Node nm ats cs tx s e) \<longleftrightarrow>
     0 < d \<and> node_fits L (Node nm ats cs tx s e) \<and> list_all (fits_within L (d - 1)) cs"

lemma fits_within_iff:
  "fits_within L d n \<longleftrightarrow> node_depth n \<le> d \<and> list_all (node_fits L) (subnodes n)"
proof (induction n arbitrary: d)
  case (Node nm ats cs tx s e)
  have d: "foldr max (map node_depth cs) 0 \<le> k \<longleftrightarrow> list_all (\<lambda>c. node_depth c \<le> k) cs" for k
    by (induction cs) auto
  have "list_all (fits_within L (d - 1)) cs \<longleftrightarrow>
      list_all (\<lambda>c. node_depth c \<le> d - 1 \<and> list_all (node_fits L) (subnodes c)) cs"
    using Node by (intro list.pred_cong) auto
  also have "\<dots> \<longleftrightarrow> foldr max (map node_depth cs) 0 \<le> d - 1 \<and> list_all (node_fits L) (concat (map subnodes cs))"
    unfolding d by (auto simp: list_all_iff)
  finally show ?case by auto
qed

lemma checked_append_text_Inr:
  "checked_append_text a b L = Inr c \<Longrightarrow> c = a @ b \<and> length c \<le> max_text_bytes L"
  by (auto simp: checked_append_text_def usize_checked_add_def split: if_splits option.splits)

lemma checked_node_count_Inr:
  "checked_node_count n L = Inr c \<longleftrightarrow> c = Suc n \<and> c \<le> max_nodes L \<and> c \<le> usize_max"
  by (auto simp: checked_node_count_def usize_checked_add_def split: if_splits option.splits)

definition kept_attrs :: "attr_item list \<Rightarrow> (string \<times> string) list" where
  "kept_attrs items = concat (map (\<lambda>i. case i of AttrItem k (Inr v) False \<Rightarrow> [(k, v)] | _ \<Rightarrow> []) items)"

lemma read_attrs_loop_Inr:
  "read_attrs_loop L i items out = Inr r \<Longrightarrow> i \<le> max_attributes_per_element L \<Longrightarrow> length out \<le> i \<Longrightarrow>
     list_all (\<lambda>(k, v). length v \<le> max_attribute_value_bytes L) out \<Longrightarrow>
     length r \<le> max_attributes_per_element L \<and> list_all (\<lambda>(k, v). length v \<le> max_attribute_value_bytes L) r
     \<and> r = out @ kept_attrs items"
proof (induction L i items out rule: read_attrs_loop.induct)
  case (2 L i item items out)
  then show ?case
    by (cases item) (auto simp: kept_attrs_def split: if_splits sum.splits)
qed (auto simp: kept_attrs_def)

lemma read_attrs_Inr:
  assumes "read_attrs items L = Inr r"
  shows "length r \<le> max_attributes_per_element L"
    "list_all (\<lambda>(k, v). length v \<le> max_attribute_value_bytes L) r" "r = kept_attrs items"
  using read_attrs_loop_Inr [of L 0 items "[]" r] assms by (auto simp: read_attrs_def)

lemma open_node_Inr:
  assumes "open_node L bytes st bef aft name items e = Inr (count, n)"
  shows "count = Suc (dom_count st) \<and> count \<le> max_nodes L \<and> count \<le> usize_max
     \<and> usize_sat_add (length (dom_stack st)) 1 \<le> max_depth L
     \<and> n = Node name (kept_attrs items) [] [] (find_lt bytes bef aft) e \<and> node_fits L n"
  using assms read_attrs_Inr [of items L]
  by (auto simp: open_node_def rbind_Inr_iff checked_node_count_Inr check_depth_def node_fits_def split: if_splits)

fun stack_fits :: "xml_limits \<Rightarrow> node list \<Rightarrow> bool" where
  "stack_fits L [] = True"
| "stack_fits L (n # rest) \<longleftrightarrow>
     length rest < max_depth L \<and> fits_within L (max_depth L - length rest) n \<and> stack_fits L rest"

definition total_size :: "node list \<Rightarrow> nat" where
  "total_size ns = sum_list (map node_size ns)"

definition dom_inv :: "xml_limits \<Rightarrow> dom_state \<Rightarrow> bool" where
  "dom_inv L st \<longleftrightarrow>
     stack_fits L (dom_stack st) \<and> list_all (fits_within L (max_depth L)) (dom_roots st)
     \<and> dom_count st = total_size (dom_stack st) + total_size (dom_roots st)
     \<and> dom_count st \<le> max_nodes L \<and> dom_count st \<le> usize_max"

lemma node_size_pos: "0 < node_size n"
  by (cases n) simp

lemma length_le_total_size: "length ns \<le> total_size ns"
proof (induction ns)
  case (Cons n ns)
  then show ?case using node_size_pos [of n] by (simp add: total_size_def)
qed (simp add: total_size_def)

lemma dom_inv_append_top:
  assumes "append_top L st t = Inr st'" "dom_inv L st"
  shows "dom_inv L st'"
proof (cases "dom_stack st")
  case Nil
  with assms show ?thesis by (simp add: append_top_def)
next
  case (Cons n rest)
  obtain nm ats cs tx s e where n: "n = Node nm ats cs tx s e" by (cases n)
  from assms(1) Cons obtain t' where t': "checked_append_text (node_text n) t L = Inr t'"
    "st' = st\<lparr>dom_stack := set_text n t' # rest\<rparr>"
    by (auto simp: append_top_def result_simps)
  have "fits_within L d n \<Longrightarrow> fits_within L d (set_text n t')" for d
    using checked_append_text_Inr [OF t'(1)] by (auto simp add: n set_text_def node_fits_def)
  moreover have "node_size (set_text n t') = node_size n" by (simp add: n set_text_def)
  ultimately show ?thesis using assms(2) Cons t' by (simp add: dom_inv_def total_size_def)
qed

lemma dom_inv_push_child:
  assumes "dom_inv L (st\<lparr>dom_stack := m # dom_stack st\<rparr>)" "node_size n = node_size m"
    "\<And>d. fits_within L d m \<Longrightarrow> fits_within L d n"
  shows "dom_inv L (push_child st n)"
proof (cases "dom_stack st")
  case Nil
  then show ?thesis using assms by (simp add: push_child_def dom_inv_def total_size_def)
next
  case (Cons p rest)
  obtain nm ats cs tx s e where p: "p = Node nm ats cs tx s e" by (cases p)
  let ?d = "max_depth L - length rest"
  have inv: "fits_within L (max_depth L - Suc (length rest)) m" "fits_within L ?d p" "length rest < max_depth L"
    "stack_fits L rest" "list_all (fits_within L (max_depth L)) (dom_roots st)"
    "dom_count st = node_size m + (node_size p + total_size rest) + total_size (dom_roots st)"
    "dom_count st \<le> max_nodes L" "dom_count st \<le> usize_max"
    using assms(1) Cons by (simp_all add: dom_inv_def total_size_def)
  have "max_depth L - Suc (length rest) = ?d - 1" by simp
  with assms(3) inv(1) have n: "fits_within L (?d - 1) n" by metis
  then have "fits_within L ?d (add_child p n)"
    using inv(2) by (simp add: p add_child_def node_fits_def)
  moreover have "node_size (add_child p n) = node_size p + node_size n" by (simp add: p add_child_def)
  ultimately show ?thesis
    using inv(3-) assms(2) Cons by (simp add: push_child_def dom_inv_def total_size_def)
qed

lemma dom_inv_open:
  assumes "open_node L bytes st bef aft name items e = Inr (count, n)" "dom_inv L st"
  shows "dom_inv L (st\<lparr>dom_stack := n # dom_stack st, dom_count := count\<rparr>)"
proof -
  note o = open_node_Inr [OF assms(1)]
  have "length (dom_stack st) \<le> dom_count st"
    using assms(2) length_le_total_size [of "dom_stack st"] by (simp add: dom_inv_def)
  then have "Suc (length (dom_stack st)) \<le> max_depth L"
    using o by (auto simp: usize_sat_add_def)
  then show ?thesis
    using o assms(2) by (auto simp: dom_inv_def total_size_def)
qed

lemma dom_event_inv:
  assumes "dom_event E L mode bytes st bef aft ev = Inr st'" "dom_inv L st"
  shows "dom_inv L st'"
proof (cases ev)
  case (EvStart name items)
  with assms show ?thesis by (auto simp: result_simps intro: dom_inv_open)
next
  case (EvEmpty name items)
  with assms obtain count n where o: "open_node L bytes st bef aft name items aft = Inr (count, n)"
    "st' = push_child (st\<lparr>dom_count := count\<rparr>) n"
    by (auto simp: result_simps)
  have "st\<lparr>dom_stack := n # dom_stack st, dom_count := count\<rparr>
      = st\<lparr>dom_count := count, dom_stack := n # dom_stack st\<rparr>" by simp
  with dom_inv_open [OF o(1) assms(2)]
  have "dom_inv L (st\<lparr>dom_count := count, dom_stack := n # dom_stack st\<rparr>)" by simp
  then show ?thesis
    using dom_inv_push_child [where L = L and st = "st\<lparr>dom_count := count\<rparr>" and m = n and n = n] o(2) by simp
next
  case EvEnd
  show ?thesis
  proof (cases "dom_stack st")
    case Nil
    with EvEnd assms show ?thesis by simp
  next
    case (Cons n rest)
    obtain nm ats cs tx s e where n: "n = Node nm ats cs tx s e" by (cases n)
    have "dom_inv L (push_child (st\<lparr>dom_stack := rest\<rparr>) (set_end n aft))"
      using dom_inv_push_child [where L = L and st = "st\<lparr>dom_stack := rest\<rparr>" and m = n and n = "set_end n aft"] assms(2) Cons
      by (simp add: n set_end_def node_fits_def dom_inv_def)
    with Cons EvEnd assms show ?thesis by simp
  qed
next
  case (EvText d)
  with assms show ?thesis
    by (auto simp: result_simps split: sum.splits if_splits intro: dom_inv_append_top)
next
  case (EvCData t)
  with assms show ?thesis
    by (auto simp: result_simps split: if_splits intro: dom_inv_append_top)
next
  case (EvRef c nm)
  with assms show ?thesis
    by (auto simp: result_simps push_general_ref_def split: if_splits sum.splits option.splits intro: dom_inv_append_top)
qed (use assms in auto)

lemma dom_loop_inv:
  "dom_loop E L mode bytes st steps = Inr roots \<Longrightarrow> dom_inv L st \<Longrightarrow>
     list_all (fits_within L (max_depth L)) roots \<and> total_size roots \<le> max_nodes L"
proof (induction E L mode bytes st steps rule: dom_loop.induct)
  case (1 E L mode bytes st)
  then show ?case by (auto simp: dom_inv_def split: if_splits)
next
  case (3 E L mode bytes st bef aft ev steps)
  then show ?case by (auto simp: rbind_Inr_iff dest: dom_event_inv)
qed simp

lemma parse_with_limits_Inr:
  "parse_with_limits E xml L = Inr r \<longleftrightarrow> parse_roots_inner E xml L ModeDocument = Inr [r]"
  by (cases "parse_roots_inner E xml L ModeDocument") (auto simp: parse_with_limits_def split: list.splits)

lemma parse_roots_inner_Inr:
  "parse_roots_inner E xml L mode = Inr rs \<longleftrightarrow>
     length xml \<le> max_bytes L
     \<and> dom_loop E L mode xml \<lparr>dom_stack = [], dom_roots = [], dom_count = 0\<rparr> (xml_read E xml) = Inr rs"
  by (auto simp: parse_roots_inner_def rbind_Inr_iff check_input_bytes_def)

text \<open>
  C32: every tree the parser returns respects the limits: input bytes, number of elements, nesting
  depth, and for each element its number of attributes, the length of each attribute value and of
  its direct text.
\<close>

theorem parse_with_limits_bounded:
  assumes "parse_with_limits E xml L = Inr r"
  shows "length xml \<le> max_bytes L \<and> node_size r \<le> max_nodes L \<and> node_depth r \<le> max_depth L
    \<and> list_all (node_fits L) (subnodes r)"
proof -
  have "dom_inv L \<lparr>dom_stack = [], dom_roots = [], dom_count = 0\<rparr>"
    by (simp add: dom_inv_def total_size_def)
  with assms show ?thesis
    unfolding parse_with_limits_Inr parse_roots_inner_Inr
    by (auto dest!: dom_loop_inv simp: fits_within_iff total_size_def)
qed


text \<open>A small document and the steps of its reader, to apply the theorems at.\<close>

definition sample_doc :: string where
  "sample_doc = ''<a b='1'>x<c/></a>''"

definition sample_steps :: "xml_step list" where
  "sample_steps =
     [XEvent 0 9 (EvStart ''a'' [AttrItem ''b'' (Inr ''1'') False]), XEvent 9 10 (EvText (Inr ''x'')),
      XEvent 10 14 (EvEmpty ''c'' []), XEvent 14 18 EvEnd]"

definition sample_dtd_steps :: "xml_step list" where
  "sample_dtd_steps = [XEvent 0 12 EvDocType, XEvent 12 16 (EvEmpty ''r'' [])]"

definition sample_xml :: "xml_ext" where
  "sample_xml = time_ext.extend sample_time
     \<lparr>xml_read = (\<lambda>s. if s = sample_doc then sample_steps else sample_dtd_steps),
      predefined_entity = (\<lambda>e. if e = ''amp'' then Some ''&'' else None)\<rparr>"

lemma sample_read [simp]: "xml_read sample_xml sample_doc = sample_steps"
  "xml_read sample_xml [] = sample_dtd_steps"
  by (simp_all add: sample_xml_def time_ext.defs sample_doc_def)

definition sample_limits :: xml_limits where
  "sample_limits =
     \<lparr>max_bytes = 100, max_depth = 3, max_nodes = 5, max_attributes_per_element = 2,
      max_attribute_value_bytes = 4, max_text_bytes = 4\<rparr>"

definition sample_tree :: node where
  "sample_tree = Node ''a'' [(''b'', ''1'')] [Node ''c'' [] [] [] 10 14] ''x'' 0 18"

lemma sample_parse: "parse_with_limits sample_xml sample_doc sample_limits = Inr sample_tree"
proof -
  have lt: "find_lt sample_doc 0 9 = 0" "find_lt sample_doc 10 14 = 10"
    by (simp_all add: find_lt_def slice_def sample_doc_def)
  show ?thesis
    unfolding parse_with_limits_Inr parse_roots_inner_Inr
    by (simp add: sample_steps_def open_node_def checked_node_count_def usize_checked_add_def usize_max_def
        check_depth_def usize_sat_add_def read_attrs_def append_top_def checked_append_text_def lt
        set_text_def push_child_def add_child_def set_end_def sample_limits_def sample_tree_def)
      (simp add: sample_doc_def)
qed

lemma parse_with_limits_bounded_witness:
  "node_size sample_tree \<le> 5 \<and> node_depth sample_tree \<le> 3"
  using parse_with_limits_bounded [OF sample_parse] by (simp add: sample_limits_def)

section \<open>No document type declaration\<close>

lemma dom_loop_doctype:
  "XEvent b a EvDocType \<in> set steps \<Longrightarrow> dom_loop E L mode bytes st steps \<noteq> Inr roots"
  by (induction E L mode bytes st steps rule: dom_loop.induct) (auto simp: rbind_Inr_iff)

text \<open>
  a document whose reader reports a DOCTYPE anywhere is rejected by both parsers, whatever the
  limits: no entity declaration of an input ever takes effect.
\<close>

theorem parse_rejects_doctype:
  assumes "XEvent b a EvDocType \<in> set (xml_read E xml)"
  shows "\<not> is_ok (parse_with_limits E xml L) \<and> \<not> is_ok (parse_roots_with_limits E xml L)"
  using assms
  by (auto simp: is_ok_iff parse_with_limits_Inr parse_roots_inner_Inr parse_roots_with_limits_def
      dest: dom_loop_doctype)

lemma parse_rejects_doctype_witness:
  "\<not> is_ok (parse_with_limits sample_xml [] sample_limits)"
  using parse_rejects_doctype [of 0 12 sample_xml "[]" sample_limits] by (simp add: sample_dtd_steps_def)

section \<open>The tree is the document\<close>

datatype xml_tok = TOpen string "(string \<times> string) list" | TClose

fun node_toks :: "node \<Rightarrow> xml_tok list" where
  "node_toks (Node nm ats cs tx s e) = TOpen nm ats # concat (map node_toks cs) @ [TClose]"

fun event_toks :: "xml_event \<Rightarrow> xml_tok list" where
  "event_toks (EvStart nm items) = [TOpen nm (kept_attrs items)]"
| "event_toks (EvEmpty nm items) = [TOpen nm (kept_attrs items), TClose]"
| "event_toks EvEnd = [TClose]"
| "event_toks _ = []"

fun step_toks :: "xml_step \<Rightarrow> xml_tok list" where
  "step_toks (XFail e) = []"
| "step_toks (XEvent b a ev) = event_toks ev"

text \<open>No end tag without an open element (\<open>quick_xml\<close> reports such a tag as an error).\<close>

fun ends_matched :: "nat \<Rightarrow> xml_step list \<Rightarrow> bool" where
  "ends_matched d [] = True"
| "ends_matched d (XFail e # steps) = True"
| "ends_matched d (XEvent b a (EvStart nm items) # steps) = ends_matched (Suc d) steps"
| "ends_matched d (XEvent b a EvEnd # steps) = (d \<noteq> 0 \<and> ends_matched (d - 1) steps)"
| "ends_matched d (XEvent b a ev # steps) = ends_matched d steps"

definition open_toks :: "node \<Rightarrow> xml_tok list" where
  "open_toks n = TOpen (local_name n) (attrs n) # concat (map node_toks (children n))"

definition state_toks :: "dom_state \<Rightarrow> xml_tok list" where
  "state_toks st = concat (map node_toks (dom_roots st)) @ concat (map open_toks (rev (dom_stack st)))"

lemma node_toks_open: "node_toks n = open_toks n @ [TClose]"
  by (cases n) (simp add: open_toks_def)

lemma append_top_toks:
  "append_top L st t = Inr st' \<Longrightarrow> state_toks st' = state_toks st \<and> length (dom_stack st') = length (dom_stack st)"
  by (auto simp: append_top_def result_simps state_toks_def open_toks_def set_text_def split: list.splits)

lemma push_child_toks:
  "state_toks (push_child st n) = state_toks st @ node_toks n"
  "length (dom_stack (push_child st n)) = length (dom_stack st)"
  by (auto simp: push_child_def state_toks_def open_toks_def add_child_def split: list.splits)

lemma dom_event_toks:
  assumes "dom_event E L mode bytes st bef aft ev = Inr st'"
    "ends_matched (length (dom_stack st)) (XEvent bef aft ev # steps)"
  shows "state_toks st' = state_toks st @ event_toks ev \<and> ends_matched (length (dom_stack st')) steps"
proof (cases ev)
  case (EvStart name items)
  with assms show ?thesis
    by (auto simp: rbind_Inr_iff state_toks_def open_toks_def dest!: open_node_Inr)
next
  case (EvEmpty name items)
  with assms obtain count n where "open_node L bytes st bef aft name items aft = Inr (count, n)"
    "st' = push_child (st\<lparr>dom_count := count\<rparr>) n"
    by (auto simp: result_simps)
  with assms EvEmpty show ?thesis
    by (auto simp: push_child_toks dest!: open_node_Inr) (simp add: state_toks_def)
next
  case EvEnd
  with assms obtain n rest where "dom_stack st = n # rest" by (cases "dom_stack st") auto
  with EvEnd assms show ?thesis
    by (auto simp: push_child_toks) (simp add: state_toks_def node_toks_open set_end_def open_toks_def)
next
  case (EvText d)
  with assms show ?thesis
    by (auto simp: result_simps split: sum.splits if_splits dest!: append_top_toks)
next
  case (EvCData t)
  with assms show ?thesis
    by (auto simp: result_simps split: if_splits dest!: append_top_toks)
next
  case (EvRef c nm)
  with assms show ?thesis
    by (auto simp: result_simps push_general_ref_def split: if_splits sum.splits option.splits dest!: append_top_toks)
qed (use assms in auto)

lemma dom_loop_toks:
  "dom_loop E L mode bytes st steps = Inr roots \<Longrightarrow> ends_matched (length (dom_stack st)) steps \<Longrightarrow>
     concat (map node_toks roots) = state_toks st @ concat (map step_toks steps)"
proof (induction E L mode bytes st steps rule: dom_loop.induct)
  case (1 E L mode bytes st)
  then show ?case by (auto simp: state_toks_def split: if_splits)
next
  case (3 E L mode bytes st bef aft ev steps)
  from 3(2) obtain st' where st': "dom_event E L mode bytes st bef aft ev = Inr st'"
    "dom_loop E L mode bytes st' steps = Inr roots" by (auto simp: rbind_Inr_iff)
  from dom_event_toks [OF st'(1) 3(3)] 3(1) [OF st'] show ?case by simp
qed simp

lemma parse_toks_eq:
  assumes "parse_with_limits E xml L = Inr r" "ends_matched 0 (xml_read E xml)"
  shows "node_toks r = concat (map step_toks (xml_read E xml))"
  using assms dom_loop_toks [of E L ModeDocument xml "\<lparr>dom_stack = [], dom_roots = [], dom_count = 0\<rparr>" "xml_read E xml" "[r]"]
  unfolding parse_with_limits_Inr parse_roots_inner_Inr by (simp add: state_toks_def)

text \<open>
  C24: a successful parse returns exactly the document: the opening and closing tags of the tree, in
  document order with their attributes (namespace declarations left out), are those the reader
  reported. No element is lost, duplicated, moved or re-parented.
\<close>

theorem parse_is_document:
  assumes "parse_with_limits E xml L = Inr r" "ends_matched 0 (xml_read E xml)"
  shows "node_toks r = concat (map step_toks (xml_read E xml))"
  using assms by (rule parse_toks_eq)

lemma parse_is_document_witness:
  "node_toks sample_tree = [TOpen ''a'' [(''b'', ''1'')], TOpen ''c'' [], TClose, TClose]"
  using parse_is_document [OF sample_parse] by (simp add: sample_steps_def kept_attrs_def)

section \<open>Source spans\<close>

text \<open>The reader moves forward inside the text.\<close>

fun positions_ok :: "nat \<Rightarrow> nat \<Rightarrow> xml_step list \<Rightarrow> bool" where
  "positions_ok pos len [] = (pos \<le> len)"
| "positions_ok pos len (XFail e # steps) = True"
| "positions_ok pos len (XEvent b a ev # steps) \<longleftrightarrow> b = pos \<and> b \<le> a \<and> positions_ok a len steps"

fun spans_within :: "nat \<Rightarrow> node \<Rightarrow> bool" where
  "spans_within len (Node nm ats cs tx s e) \<longleftrightarrow> s \<le> e \<and> e \<le> len \<and> list_all (spans_within len) cs"

fun open_spans :: "nat \<Rightarrow> node \<Rightarrow> bool" where
  "open_spans len (Node nm ats cs tx s e) \<longleftrightarrow> s \<le> len \<and> list_all (spans_within len) cs"

lemma spans_within_mono: "spans_within a n \<Longrightarrow> a \<le> b \<Longrightarrow> spans_within b n"
  by (induction n) (auto simp: list_all_iff)

lemma open_spans_mono: "open_spans a n \<Longrightarrow> a \<le> b \<Longrightarrow> open_spans b n"
  by (cases n) (auto simp: list_all_iff intro: spans_within_mono)

lemma position_where_less: "position_where p s = Some i \<Longrightarrow> i < length s"
  by (induction s arbitrary: i) (auto split: if_splits)

lemma find_lt_le: "bef \<le> aft \<Longrightarrow> find_lt bytes bef aft \<le> aft"
  by (auto simp: find_lt_def slice_def split: option.split dest!: position_where_less)

definition spans_inv :: "nat \<Rightarrow> dom_state \<Rightarrow> bool" where
  "spans_inv pos st \<longleftrightarrow> list_all (open_spans pos) (dom_stack st) \<and> list_all (spans_within pos) (dom_roots st)"

lemma spans_inv_mono: "spans_inv a st \<Longrightarrow> a \<le> b \<Longrightarrow> spans_inv b st"
  by (auto simp: spans_inv_def list_all_iff intro: spans_within_mono open_spans_mono)

lemma spans_inv_append_top: "append_top L st t = Inr st' \<Longrightarrow> spans_inv pos st \<Longrightarrow> spans_inv pos st'"
proof (cases "dom_stack st")
  case (Cons n rest)
  assume a: "append_top L st t = Inr st'" "spans_inv pos st"
  obtain nm ats cs tx s e where n: "n = Node nm ats cs tx s e" by (cases n)
  from a Cons show ?thesis by (auto simp: append_top_def result_simps spans_inv_def set_text_def n)
qed (simp add: append_top_def)

lemma spans_inv_push_child:
  assumes "spans_inv pos st" "spans_within pos n"
  shows "spans_inv pos (push_child st n)"
proof (cases "dom_stack st")
  case (Cons p rest)
  obtain nm ats cs tx s e where p: "p = Node nm ats cs tx s e" by (cases p)
  from assms Cons show ?thesis by (auto simp: push_child_def spans_inv_def add_child_def p)
qed (use assms in \<open>simp add: push_child_def spans_inv_def\<close>)

lemma dom_event_spans:
  assumes "dom_event E L mode bytes st bef aft ev = Inr st'" "spans_inv bef st" "bef \<le> aft"
  shows "spans_inv aft st'"
proof -
  have inv: "spans_inv aft st" using assms spans_inv_mono by blast
  show ?thesis
  proof (cases ev)
    case (EvStart name items)
    with assms inv show ?thesis
      by (auto simp: rbind_Inr_iff spans_inv_def find_lt_le dest!: open_node_Inr)
  next
    case (EvEmpty name items)
    with assms obtain count n where o: "open_node L bytes st bef aft name items aft = Inr (count, n)"
      "st' = push_child (st\<lparr>dom_count := count\<rparr>) n"
      by (auto simp: result_simps)
    have "spans_within aft n" using open_node_Inr [OF o(1)] assms(3) by (simp add: find_lt_le)
    moreover have "spans_inv aft (st\<lparr>dom_count := count\<rparr>)" using inv by (simp add: spans_inv_def)
    ultimately show ?thesis unfolding o(2) by (intro spans_inv_push_child)
  next
    case EvEnd
    show ?thesis
    proof (cases "dom_stack st")
      case Nil
      with EvEnd assms inv show ?thesis by simp
    next
      case (Cons n rest)
      obtain nm ats cs tx s e where n: "n = Node nm ats cs tx s e" by (cases n)
      have "spans_inv aft (push_child (st\<lparr>dom_stack := rest\<rparr>) (set_end n aft))"
        using inv Cons by (intro spans_inv_push_child) (auto simp: spans_inv_def n set_end_def)
      with Cons EvEnd assms show ?thesis by simp
    qed
  next
    case (EvText d)
    with assms inv show ?thesis
      by (auto simp: result_simps split: sum.splits if_splits intro: spans_inv_append_top)
  next
    case (EvCData t)
    with assms inv show ?thesis by (auto simp: result_simps split: if_splits intro: spans_inv_append_top)
  next
    case (EvRef c nm)
    with assms inv show ?thesis
      by (auto simp: result_simps push_general_ref_def split: if_splits sum.splits option.splits
          intro: spans_inv_append_top)
  qed (use assms inv in auto)
qed

lemma dom_loop_spans:
  "dom_loop E L mode bytes st steps = Inr roots \<Longrightarrow> spans_inv pos st \<Longrightarrow> positions_ok pos len steps \<Longrightarrow>
     list_all (spans_within len) roots"
proof (induction E L mode bytes st steps arbitrary: pos rule: dom_loop.induct)
  case (1 E L mode bytes st)
  then show ?case using spans_inv_mono [of pos st len] by (auto simp: spans_inv_def split: if_splits)
next
  case (3 E L mode bytes st bef aft ev steps)
  from 3(2) obtain st' where st': "dom_event E L mode bytes st bef aft ev = Inr st'"
    "dom_loop E L mode bytes st' steps = Inr roots" by (auto simp: rbind_Inr_iff)
  from 3(3,4) have "spans_inv aft st'" by (auto intro: dom_event_spans [OF st'(1)])
  then show ?case using 3(1) [OF st'] 3(4) by auto
qed simp

text \<open>
  the byte span of every element of a parsed tree lies inside the source text, with its start not
  after its end, so taking the element's source substring never goes out of range.
\<close>

theorem parse_spans:
  assumes "parse_with_limits E xml L = Inr r" "positions_ok 0 (length xml) (xml_read E xml)"
  shows "spans_within (length xml) r"
proof -
  have "spans_inv 0 \<lparr>dom_stack = [], dom_roots = [], dom_count = 0\<rparr>" by (simp add: spans_inv_def)
  with assms show ?thesis unfolding parse_with_limits_Inr parse_roots_inner_Inr by (auto dest: dom_loop_spans)
qed

lemma parse_spans_witness: "spans_within 18 sample_tree"
proof -
  have len: "length sample_doc = 18" by (simp add: sample_doc_def)
  show ?thesis using parse_spans [OF sample_parse] by (simp add: sample_steps_def len)
qed

section \<open>The limits do not change the tree\<close>

lemma read_attrs_loop_limits:
  "read_attrs_loop L i items out = Inr a \<Longrightarrow> read_attrs_loop L' i items out = Inr b \<Longrightarrow> a = b"
  by (induction items arbitrary: i out) (auto split: attr_item.splits sum.splits if_splits)

lemma open_node_limits:
  "open_node L src st x y n items e = Inr a \<Longrightarrow> open_node L' src st x y n items e = Inr b \<Longrightarrow> a = b"
  by (auto simp: open_node_def rbind_Inr_iff read_attrs_def checked_node_count_def
      dest: read_attrs_loop_limits split: option.splits if_splits)

lemma append_top_limits: "append_top L st t = Inr a \<Longrightarrow> append_top L' st t = Inr b \<Longrightarrow> a = b"
  by (auto simp: append_top_def rbind_Inr_iff checked_append_text_def split: list.splits option.splits if_splits)

lemma dom_event_limits:
  assumes "dom_event E L m src st x y ev = Inr a" "dom_event E L' m' src st x y ev = Inr b"
  shows "a = b"
  using assms
  by (cases ev)
    (auto simp: rbind_Inr_iff push_general_ref_def reject_non_document_content_def dest: open_node_limits append_top_limits
      split: list.splits sum.splits option.splits parse_mode.splits if_splits)

lemma dom_loop_limits:
  "dom_loop E L m src st steps = Inr a \<Longrightarrow> dom_loop E L' m' src st steps = Inr b \<Longrightarrow> a = b"
proof (induction steps arbitrary: st)
  case (Cons s steps)
  show ?case
  proof (cases s)
    case (XEvent x y ev)
    obtain s1 s2 where "dom_event E L m src st x y ev = Inr s1" "dom_loop E L m src s1 steps = Inr a"
      "dom_event E L' m' src st x y ev = Inr s2" "dom_loop E L' m' src s2 steps = Inr b"
      using Cons.prems XEvent by (auto simp: rbind_Inr_iff)
    with dom_event_limits Cons.IH show ?thesis by metis
  qed (use Cons.prems in simp)
qed (auto split: if_splits)

lemma parse_with_limits_eq:
  "parse_with_limits E xml L = Inr a \<Longrightarrow> parse_with_limits E xml L' = Inr b \<Longrightarrow> a = b"
  unfolding parse_with_limits_def parse_roots_inner_def rbind_Inr_iff
  by (elim exE conjE) (drule (1) dom_loop_limits, auto split: list.splits)

lemma parse_roots_eq:
  "parse_with_limits E xml L = Inr r \<Longrightarrow> parse_roots_with_limits E xml L' = Inr rs \<Longrightarrow> rs = [r]"
  unfolding parse_with_limits_def parse_roots_with_limits_def parse_roots_inner_def rbind_Inr_iff
  by (elim exE conjE) (drule (1) dom_loop_limits, auto split: list.splits)

end
