(* ===== verification/Extract.thy ===== *)
theory Extract
  imports Dom
begin

text \<open>
  Field extraction over the DOM (\<open>src/src/xml/extract.rs\<close>), the field sets of the SAML
  messages (\<open>src/src/xml/fields.rs\<close>) and the status check of
  \<open>src/src/validator.rs\<close>, which is their first user. The properties: path selection returns
  exactly the elements the path reaches, the cached shortcut document changes no result, and
  the status check accepts exactly the success code.
\<close>

section \<open>Fields\<close>

datatype local_path = LSingle "string list" | LMulti "string list list"

record extractor_field =
  f_key :: string
  f_local_path :: local_path
  f_attributes :: "string list"
  f_index :: "string list option"
  f_attribute_path :: "string list option"
  f_context :: bool
  f_shortcut :: "string option"

definition field_new :: "string \<Rightarrow> string list \<Rightarrow> extractor_field" where
  "field_new key path =
     \<lparr>f_key = key, f_local_path = LSingle path, f_attributes = [], f_index = None,
      f_attribute_path = None, f_context = False, f_shortcut = None\<rparr>"

definition field_multi :: "string \<Rightarrow> string list list \<Rightarrow> extractor_field" where
  "field_multi key paths =
     \<lparr>f_key = key, f_local_path = LMulti paths, f_attributes = [], f_index = None,
      f_attribute_path = None, f_context = False, f_shortcut = None\<rparr>"

definition with_attrs :: "string list \<Rightarrow> extractor_field \<Rightarrow> extractor_field" where
  "with_attrs as f = f\<lparr>f_attributes := as\<rparr>"

definition with_context :: "extractor_field \<Rightarrow> extractor_field" where
  "with_context f = f\<lparr>f_context := True\<rparr>"

definition with_aggregate :: "string list \<Rightarrow> string list \<Rightarrow> extractor_field \<Rightarrow> extractor_field" where
  "with_aggregate index path f = f\<lparr>f_index := Some index, f_attribute_path := Some path\<rparr>"

definition with_shortcut :: "string \<Rightarrow> extractor_field \<Rightarrow> extractor_field" where
  "with_shortcut xml f = f\<lparr>f_shortcut := Some xml\<rparr>"

lemmas field_simps = field_new_def field_multi_def with_attrs_def with_context_def with_aggregate_def
  with_shortcut_def

section \<open>Selection\<close>

definition seg_matches :: "string \<Rightarrow> string \<Rightarrow> bool" where
  "seg_matches local seg =
     (case strip_prefix ''~'' seg of Some sub \<Rightarrow> str_contains local sub | None \<Rightarrow> local = seg)"

definition select_step :: "node list \<Rightarrow> string \<Rightarrow> node list" where
  "select_step current seg =
     filter (\<lambda>c. seg_matches (local_name c) seg) (concat (map children current))"

definition descend :: "node \<Rightarrow> string list \<Rightarrow> node list" where
  "descend n names = foldl select_step [n] names"

fun select_path :: "node \<Rightarrow> string list \<Rightarrow> node list" where
  "select_path root [] = []"
| "select_path root (first # rest) =
     (if \<not> seg_matches (local_name root) first then [] else foldl select_step [root] rest)"

definition one_or_array :: "saml_value list \<Rightarrow> saml_value" where
  "one_or_array vs = (case vs of [v] \<Rightarrow> v | _ \<Rightarrow> VArray vs)"

definition str_or_empty :: "string option \<Rightarrow> string" where
  "str_or_empty v = (case v of Some s \<Rightarrow> s | None \<Rightarrow> [])"

definition some_values :: "('a \<Rightarrow> 'b option) \<Rightarrow> 'a list \<Rightarrow> 'b list" where
  "some_values f xs = concat (map (\<lambda>x. case f x of Some y \<Rightarrow> [y] | None \<Rightarrow> []) xs)"

definition aggregate_values :: "string list \<Rightarrow> string list \<Rightarrow> node \<Rightarrow> saml_value" where
  "aggregate_values attribute_path attributes n =
     (let targets = descend n attribute_path in
      one_or_array
        (case attributes of
           [] \<Rightarrow> map (\<lambda>t. VStr (node_text t)) targets
         | attr # _ \<Rightarrow> map VStr (some_values (\<lambda>t. node_attr t attr) targets)))"

definition aggregate :: "node list \<Rightarrow> string list \<Rightarrow> string list \<Rightarrow> string list \<Rightarrow> saml_value" where
  "aggregate nodes index attribute_path attributes =
     (let key_attr = (case index of k # _ \<Rightarrow> k | [] \<Rightarrow> []) in
      zip_object
        (map (\<lambda>n. str_or_empty (node_attr n key_attr)) nodes)
        (map (aggregate_values attribute_path attributes) nodes) False)"

definition attr_object :: "string list \<Rightarrow> node \<Rightarrow> saml_value" where
  "attr_object attributes n =
     VObject (some_values (\<lambda>a. map_option (\<lambda>v. (camel_case a, VStr v)) (node_attr n a)) attributes)"

fun find_map :: "('a \<Rightarrow> 'b option) \<Rightarrow> 'a list \<Rightarrow> 'b option" where
  "find_map f [] = None"
| "find_map f (x # xs) = (case f x of Some y \<Rightarrow> Some y | None \<Rightarrow> find_map f xs)"

definition extract_field :: "string \<Rightarrow> node \<Rightarrow> extractor_field \<Rightarrow> saml_value" where
  "extract_field src root field =
     (case f_local_path field of
        LMulti paths \<Rightarrow>
          VArray (map VStr (uniq (concat (map (\<lambda>p. map node_text (select_path root p)) paths))))
      | LSingle path \<Rightarrow>
          let nodes = select_path root path in
          case (f_index field, f_attribute_path field) of
            (Some index, Some attribute_path) \<Rightarrow>
              aggregate nodes index attribute_path (f_attributes field)
          | _ \<Rightarrow>
              if f_context field then
                (case nodes of
                   [] \<Rightarrow> VNull
                 | [n] \<Rightarrow> VStr (slice src (node_start n) (node_end n))
                 | _ \<Rightarrow> VArray (map (\<lambda>n. VStr (slice src (node_start n) (node_end n))) nodes))
              else
                (case f_attributes field of
                   [] \<Rightarrow>
                     (case nodes of
                        [] \<Rightarrow> VNull
                      | [n] \<Rightarrow> VStr (node_text n)
                      | _ \<Rightarrow> VArray (map (\<lambda>n. VStr (node_text n)) nodes))
                 | [attr] \<Rightarrow>
                     (case find_map (\<lambda>n. node_attr n attr) nodes of Some v \<Rightarrow> VStr v | None \<Rightarrow> VNull)
                 | _ \<Rightarrow> one_or_array (map (attr_object (f_attributes field)) nodes)))"

section \<open>Extraction\<close>

text \<open>The loop of \<open>extract_with_limits\<close>: at most one shortcut document is kept.\<close>

fun extract_loop :: "('e) xml_ext_scheme \<Rightarrow> xml_limits \<Rightarrow> string \<Rightarrow> node \<Rightarrow> (string \<times> node) option \<Rightarrow>
    extractor_field list \<Rightarrow> (string \<times> saml_value) list \<Rightarrow> (string \<times> saml_value) list res" where
  "extract_loop E limits xml root cache [] out = Inr out"
| "extract_loop E limits xml root cache (field # flds) out =
     (case f_shortcut field of
        None \<Rightarrow>
          extract_loop E limits xml root cache flds (out @ [(f_key field, extract_field xml root field)])
      | Some sc \<Rightarrow>
          (case (case cache of Some (source, doc) \<Rightarrow> if source = sc then Some doc else None | None \<Rightarrow> None) of
             Some doc \<Rightarrow>
               extract_loop E limits xml root cache flds (out @ [(f_key field, extract_field sc doc field)])
           | None \<Rightarrow>
               rbind (parse_with_limits E sc limits) (\<lambda>doc.
                 extract_loop E limits xml root (Some (sc, doc)) flds
                   (out @ [(f_key field, extract_field sc doc field)]))))"

definition extract_with_limits :: "('e) xml_ext_scheme \<Rightarrow> string \<Rightarrow> extractor_field list \<Rightarrow> xml_limits \<Rightarrow>
    saml_value res" where
  "extract_with_limits E xml flds limits =
     rbind (parse_with_limits E xml limits) (\<lambda>root.
     rbind (extract_loop E limits xml root None flds []) (\<lambda>out. Inr (VObject out)))"

definition extract_default :: "('e) xml_ext_scheme \<Rightarrow> string \<Rightarrow> extractor_field list \<Rightarrow> saml_value res" where
  "extract_default E xml flds = extract_with_limits E xml flds xml_limits_default"

section \<open>Field sets\<close>

definition login_request_fields :: "extractor_field list" where
  "login_request_fields =
     [with_attrs [''ID'', ''IssueInstant'', ''Destination'', ''AssertionConsumerServiceURL'',
        ''ProtocolBinding'', ''AssertionConsumerServiceIndex''] (field_new ''request'' [''AuthnRequest'']),
      field_new ''issuer'' [''AuthnRequest'', ''Issuer''],
      with_attrs [''Format'', ''AllowCreate''] (field_new ''nameIDPolicy'' [''AuthnRequest'', ''NameIDPolicy'']),
      field_new ''authnContextClassRef'' [''AuthnRequest'', ''AuthnContextClassRef''],
      with_context (field_new ''signature'' [''AuthnRequest'', ''Signature''])]"

definition login_response_status_fields :: "extractor_field list" where
  "login_response_status_fields =
     [with_attrs [''Value''] (field_new ''top'' [''Response'', ''Status'', ''StatusCode'']),
      with_attrs [''Value''] (field_new ''second'' [''Response'', ''Status'', ''StatusCode'', ''StatusCode''])]"

definition logout_response_status_fields :: "extractor_field list" where
  "logout_response_status_fields =
     [with_attrs [''Value''] (field_new ''top'' [''LogoutResponse'', ''Status'', ''StatusCode'']),
      with_attrs [''Value'']
        (field_new ''second'' [''LogoutResponse'', ''Status'', ''StatusCode'', ''StatusCode''])]"

definition login_response_fields :: "string \<Rightarrow> extractor_field list" where
  "login_response_fields assertion =
     [with_shortcut assertion (with_attrs [''ID'', ''IssueInstant''] (field_new ''assertion'' [''Assertion''])),
      with_shortcut assertion
        (with_attrs [''NotBefore'', ''NotOnOrAfter''] (field_new ''conditions'' [''Assertion'', ''Conditions''])),
      with_shortcut assertion
        (with_context (field_new ''oneTimeUse'' [''Assertion'', ''Conditions'', ''OneTimeUse''])),
      with_shortcut assertion
        (with_context (field_new ''proxyRestriction'' [''Assertion'', ''Conditions'', ''ProxyRestriction''])),
      with_attrs [''ID'', ''IssueInstant'', ''Destination'', ''InResponseTo''] (field_new ''response'' [''Response'']),
      with_shortcut assertion
        (field_new ''audience'' [''Assertion'', ''Conditions'', ''AudienceRestriction'', ''Audience'']),
      with_shortcut assertion (field_new ''issuer'' [''Assertion'', ''Issuer'']),
      with_shortcut assertion (field_new ''nameID'' [''Assertion'', ''Subject'', ''NameID'']),
      with_shortcut assertion
        (with_attrs [''Format''] (field_new ''nameIDFormat'' [''Assertion'', ''Subject'', ''NameID''])),
      with_shortcut assertion
        (with_context (field_new ''subjectConfirmation'' [''Assertion'', ''Subject'', ''SubjectConfirmation''])),
      with_shortcut assertion
        (with_attrs [''AuthnInstant'', ''SessionNotOnOrAfter'', ''SessionIndex'']
           (field_new ''sessionIndex'' [''Assertion'', ''AuthnStatement''])),
      with_shortcut assertion
        (with_aggregate [''Name''] [''AttributeValue'']
           (field_new ''attributes'' [''Assertion'', ''AttributeStatement'', ''Attribute'']))]"

definition logout_request_fields :: "extractor_field list" where
  "logout_request_fields =
     [with_attrs [''ID'', ''IssueInstant'', ''Destination'', ''NotOnOrAfter''] (field_new ''request'' [''LogoutRequest'']),
      field_new ''issuer'' [''LogoutRequest'', ''Issuer''],
      field_new ''nameID'' [''LogoutRequest'', ''NameID''],
      field_new ''sessionIndex'' [''LogoutRequest'', ''SessionIndex''],
      with_context (field_new ''signature'' [''LogoutRequest'', ''Signature''])]"

definition logout_response_fields :: "extractor_field list" where
  "logout_response_fields =
     [with_attrs [''ID'', ''IssueInstant'', ''Destination'', ''InResponseTo''] (field_new ''response'' [''LogoutResponse'']),
      field_new ''issuer'' [''LogoutResponse'', ''Issuer''],
      with_context (field_new ''signature'' [''LogoutResponse'', ''Signature''])]"

section \<open>Status and deadline of a message\<close>

definition check_status_with_limits :: "('e) xml_ext_scheme \<Rightarrow> string \<Rightarrow> parser_type \<Rightarrow> xml_limits \<Rightarrow> unit res" where
  "check_status_with_limits E content ptype limits =
     (case (case ptype of
              SamlResponse \<Rightarrow> Some login_response_status_fields
            | LogoutResponse \<Rightarrow> Some logout_response_status_fields
            | _ \<Rightarrow> None) of
        None \<Rightarrow> Inr ()
      | Some flds \<Rightarrow>
          rbind (extract_with_limits E content flds limits) (\<lambda>result.
            case get_str result ''top'' of
              Some code \<Rightarrow>
                if code = STATUS_SUCCESS then Inr ()
                else if code \<noteq> [] then
                  Inl (StatusNotSuccess code
                    (case get_str result ''second'' of
                       Some second \<Rightarrow> if second \<noteq> [] then Some second else None
                     | None \<Rightarrow> None))
                else Inl UndefinedStatus
            | None \<Rightarrow> Inl UndefinedStatus))"

definition check_status :: "('e) xml_ext_scheme \<Rightarrow> string \<Rightarrow> parser_type \<Rightarrow> unit res" where
  "check_status E content ptype = check_status_with_limits E content ptype xml_limits_default"

section \<open>Path selection\<close>

text \<open>A path reaches an element: each segment names the next element down.\<close>

inductive reaches :: "node \<Rightarrow> string list \<Rightarrow> node \<Rightarrow> bool" where
  reaches_root: "seg_matches (local_name n) seg \<Longrightarrow> reaches n [seg] n"
| reaches_child: "seg_matches (local_name n) seg \<Longrightarrow> c \<in> set (children n) \<Longrightarrow> reaches c path m \<Longrightarrow>
    reaches n (seg # path) m"

inductive_cases reaches_NilE [elim!]: "reaches n [] m"
inductive_simps reaches_single [simp]: "reaches n [seg] m"
inductive_simps reaches_Cons: "reaches n (seg # path) m"

lemma reaches_nonempty: "reaches n path m \<Longrightarrow> path \<noteq> []"
  by (induction rule: reaches.induct) auto

lemma foldl_select_step:
  "m \<in> set (foldl select_step current path) \<longleftrightarrow>
     (if path = [] then m \<in> set current
      else \<exists>n \<in> set current. \<exists>c \<in> set (children n). reaches c path m)"
proof (induction path arbitrary: current)
  case Nil
  then show ?case by simp
next
  case (Cons seg path)
  show ?case
  proof (cases "path = []")
    case True
    then show ?thesis by (auto simp: select_step_def)
  next
    case False
    then have c: "reaches c (seg # path) m \<longleftrightarrow>
        seg_matches (local_name c) seg \<and> (\<exists>d \<in> set (children c). reaches d path m)" for c
      unfolding reaches_Cons [of c seg path] by auto
    have "m \<in> set (foldl select_step current (seg # path)) \<longleftrightarrow>
        (\<exists>n \<in> set (select_step current seg). \<exists>d \<in> set (children n). reaches d path m)"
      using Cons [of "select_step current seg"] False by simp
    also have "\<dots> \<longleftrightarrow> (\<exists>n \<in> set current. \<exists>c \<in> set (children n). reaches c (seg # path) m)"
      unfolding c by (auto simp: select_step_def)
    finally show ?thesis by simp
  qed
qed

text \<open>
  C34: path selection returns exactly the elements the path reaches from the root: the first segment
  names the root itself and every further segment a child of the element before.
\<close>

theorem select_path_reaches: "m \<in> set (select_path root path) \<longleftrightarrow> reaches root path m"
proof (cases path)
  case Nil
  then show ?thesis by auto
next
  case (Cons seg rest)
  then show ?thesis
    by (cases "rest = []") (auto simp: foldl_select_step reaches_Cons [of _ seg rest] reaches_nonempty)
qed

section \<open>The shortcut cache\<close>

definition extract_each :: "('e) xml_ext_scheme \<Rightarrow> xml_limits \<Rightarrow> string \<Rightarrow> extractor_field \<Rightarrow> (string \<times> saml_value) res" where
  "extract_each E limits xml field =
     (let src = (case f_shortcut field of Some sc \<Rightarrow> sc | None \<Rightarrow> xml) in
      rbind (parse_with_limits E src limits) (\<lambda>doc. Inr (f_key field, extract_field src doc field)))"

lemma rbind_Inr_id [simp]: "rbind r Inr = r"
  by (cases r) auto

lemma rbind_assoc: "rbind (rbind r f) g = rbind r (\<lambda>x. rbind (f x) g)"
  by (cases r) auto

lemma extract_loop_each:
  assumes "parse_with_limits E xml limits = Inr root"
    "\<And>s d. cache = Some (s, d) \<Longrightarrow> parse_with_limits E s limits = Inr d"
  shows "extract_loop E limits xml root cache flds out =
     rbind (traverse (extract_each E limits xml) flds) (\<lambda>vs. Inr (out @ vs))"
  using assms(2)
proof (induction flds arbitrary: cache out)
  case Nil
  then show ?case by simp
next
  case (Cons field flds)
  show ?case
  proof (cases "f_shortcut field")
    case None
    then show ?thesis
      using Cons.IH [OF Cons.prems] assms(1) by (simp add: rbind_assoc extract_each_def [where field = field])
  next
    case (Some sc)
    show ?thesis
    proof (cases "\<exists>d. cache = Some (sc, d)")
      case True
      then obtain d where d: "cache = Some (sc, d)" by blast
      with Cons.prems have "parse_with_limits E sc limits = Inr d" by blast
      moreover have "extract_loop E limits xml root cache flds o' =
          rbind (traverse (extract_each E limits xml) flds) (\<lambda>vs. Inr (o' @ vs))" for o'
        by (rule Cons.IH [OF Cons.prems])
      ultimately show ?thesis using d Some by (simp add: rbind_assoc extract_each_def [where field = field])
    next
      case False
      then have "(case cache of Some (source, doc) \<Rightarrow> if source = sc then Some doc else None | None \<Rightarrow> None) = None"
        by (auto split: option.splits)
      moreover have "extract_loop E limits xml root (Some (sc, doc)) flds o' =
          rbind (traverse (extract_each E limits xml) flds) (\<lambda>vs. Inr (o' @ vs))"
        if "parse_with_limits E sc limits = Inr doc" for doc o'
        using that by (intro Cons.IH) auto
      ultimately show ?thesis
        using Some by (cases "parse_with_limits E sc limits") (simp_all add: rbind_assoc extract_each_def [where field = field])
    qed
  qed
qed

text \<open>
  the cached shortcut document is not observable: extraction gives what parsing the source of
  every field afresh gives, errors included and in the same order.
\<close>

theorem extract_cache_transparent:
  "extract_with_limits E xml flds limits =
     rbind (parse_with_limits E xml limits) (\<lambda>_.
     rbind (traverse (extract_each E limits xml) flds) (\<lambda>vs. Inr (VObject vs)))"
proof (cases "parse_with_limits E xml limits")
  case (Inr root)
  have "extract_loop E limits xml root None flds [] =
      rbind (traverse (extract_each E limits xml) flds) (\<lambda>vs. Inr ([] @ vs))"
    by (rule extract_loop_each [OF Inr]) simp
  with Inr show ?thesis by (simp add: extract_with_limits_def)
qed (simp add: extract_with_limits_def)

lemma extract_each_keys:
  "traverse (extract_each E limits xml) flds = Inr vs \<Longrightarrow> map fst vs = map f_key flds"
  by (induction flds arbitrary: vs) (auto simp: rbind_Inr_iff extract_each_def Let_def split: option.splits)

section \<open>Status\<close>

definition status_path :: "parser_type \<Rightarrow> string list" where
  "status_path ptype = [if ptype = SamlResponse then ''Response'' else ''LogoutResponse'', ''Status'', ''StatusCode'']"

definition status_code_of :: "node \<Rightarrow> string list \<Rightarrow> string option" where
  "status_code_of root path = find_map (\<lambda>n. node_attr n ''Value'') (select_path root path)"

lemma status_fields_extract:
  assumes "ptype = SamlResponse \<or> ptype = LogoutResponse"
  shows "check_status_with_limits E content ptype limits =
     rbind (parse_with_limits E content limits) (\<lambda>root.
       case status_code_of root (status_path ptype) of
         None \<Rightarrow> Inl UndefinedStatus
       | Some code \<Rightarrow>
           if code = STATUS_SUCCESS then Inr ()
           else if code = [] then Inl UndefinedStatus
           else Inl (StatusNotSuccess code
             (Option.bind (status_code_of root (status_path ptype @ [''StatusCode'']))
                (\<lambda>s. if s = [] then None else Some s))))"
proof -
  have key: "get_str (VObject [(''top'', a), (''second'', b)]) ''top'' = as_str a"
    "get_str (VObject [(''top'', a), (''second'', b)]) ''second'' = as_str b" for a b
    by (simp_all add: get_str_def get_path_flat)
  show ?thesis
  proof (cases "parse_with_limits E content limits")
    case (Inl e)
    with assms show ?thesis by (auto simp: check_status_with_limits_def extract_with_limits_def)
  next
    case (Inr root)
    with assms show ?thesis
      by (elim disjE)
        (simp_all add: check_status_with_limits_def extract_with_limits_def login_response_status_fields_def
          logout_response_status_fields_def field_simps extract_field_def key status_path_def status_code_of_def
          split: option.split)
  qed
qed

lemma check_status_eq:
  "check_status_with_limits E content ptype limits = Inr u \<longleftrightarrow>
     ptype \<in> {SamlRequest, LogoutRequest} \<or>
     (\<exists>root. parse_with_limits E content limits = Inr root \<and>
        status_code_of root (status_path ptype) = Some STATUS_SUCCESS)"
proof (cases "ptype = SamlResponse \<or> ptype = LogoutResponse")
  case True
  then show ?thesis
    unfolding status_fields_extract [OF True] rbind_Inr_iff by (auto split: option.split)
next
  case False
  then have "ptype \<in> {SamlRequest, LogoutRequest}" by (cases ptype) auto
  then show ?thesis by (auto simp: check_status_with_limits_def)
qed

text \<open>
  a response passes the status check iff it parses within the limits and the first top-level
  StatusCode with a Value has the success code; requests are not checked.
\<close>

theorem check_status_iff:
  "check_status_with_limits E content ptype limits = Inr u \<longleftrightarrow>
     ptype \<in> {SamlRequest, LogoutRequest} \<or>
     (\<exists>root. parse_with_limits E content limits = Inr root \<and>
        status_code_of root (status_path ptype) = Some STATUS_SUCCESS)"
  by (rule check_status_eq)

end
