(* ===== verification/Date_Time.thy ===== *)
theory Date_Time
  imports Saml_Base "HOL-Library.Word"
begin

text \<open>
  The SAML subset of \<open>xs:dateTime\<close> (\<open>src/src/xml/date_time.rs\<close>): a lexical check with a
  proleptic Gregorian calendar for years of any length. The model follows the index
  arithmetic of the code, with \<open>u8\<close> and \<open>u16\<close> as words. The second half states the
  grammar the check decides (\<open>utc_stamp\<close>, \<open>render_stamp\<close>) and proves that the
  parser accepts exactly the rendered valid stamps.
\<close>

type_synonym u8 = "8 word"
type_synonym u16 = "16 word"

section \<open>The code\<close>

definition byte_at :: "string \<Rightarrow> nat \<Rightarrow> char option" where
  "byte_at value i = (if i < length value then Some (value ! i) else None)"

text \<open>\<open>byte.checked_sub(b'0')\<close>\<close>

definition sub_zero :: "char \<Rightarrow> u8 option" where
  "sub_zero c = (if (of_char c :: nat) < 48 then None else Some (of_nat (of_char c - 48)))"

definition parse_two_ascii_digits :: "string \<Rightarrow> nat \<Rightarrow> u8 option" where
  "parse_two_ascii_digits value offset =
     Option.bind (Option.bind (byte_at value offset) sub_zero) (\<lambda>tens.
     Option.bind (Option.bind (byte_at value (offset + 1)) sub_zero) (\<lambda>ones.
       if tens \<le> 9 \<and> ones \<le> 9 then Some (tens * 10 + ones) else None))"

text \<open>
  \<open>then_some\<close> takes its argument by value, so \<open>tens * 10 + ones\<close> is computed in \<open>u8\<close>
  before the test. In a build with overflow checks (Cargo's default for \<open>dev\<close> and
  \<open>test\<close>) an overflow there panics; in a release build it wraps and the result is
  dropped. The second definition is the checked build, with the panic on the left.
\<close>

datatype panic = ArithmeticOverflow

definition checked_u8 :: "nat \<Rightarrow> panic + u8" where
  "checked_u8 n = (if n < 256 then Inr (of_nat n) else Inl ArithmeticOverflow)"

definition parse_two_ascii_digits_checked :: "string \<Rightarrow> nat \<Rightarrow> panic + u8 option" where
  "parse_two_ascii_digits_checked value offset =
     (case Option.bind (byte_at value offset) sub_zero of None \<Rightarrow> Inr None
      | Some tens \<Rightarrow>
     (case Option.bind (byte_at value (offset + 1)) sub_zero of None \<Rightarrow> Inr None
      | Some ones \<Rightarrow>
         rbind (checked_u8 (unat tens * 10)) (\<lambda>t.
         rbind (checked_u8 (unat t + unat ones)) (\<lambda>v.
           Inr (if tens \<le> 9 \<and> ones \<le> 9 then Some v else None)))))"

fun year_modulo_loop :: "u16 \<Rightarrow> string \<Rightarrow> u16 \<Rightarrow> u16 option" where
  "year_modulo_loop remainder [] modulus = Some remainder"
| "year_modulo_loop remainder (d # ds) modulus =
     (case sub_zero d of None \<Rightarrow> None
      | Some digit \<Rightarrow>
          if digit \<le> 9
          then year_modulo_loop ((remainder * 10 + ucast digit) mod modulus) ds modulus
          else None)"

definition year_modulo :: "string \<Rightarrow> u16 \<Rightarrow> u16 option" where
  "year_modulo year modulus = year_modulo_loop 0 year modulus"

definition signed_year_modulo :: "string \<Rightarrow> bool \<Rightarrow> u16 \<Rightarrow> u16 option" where
  "signed_year_modulo year negative modulus =
     (case year_modulo year modulus of None \<Rightarrow> None
      | Some magnitude \<Rightarrow>
          if negative then Some ((modulus + 1 - magnitude) mod modulus) else Some magnitude)"

definition is_leap_year :: "string \<Rightarrow> bool \<Rightarrow> bool" where
  "is_leap_year year negative \<longleftrightarrow>
     signed_year_modulo year negative 400 = Some 0 \<or>
     (signed_year_modulo year negative 4 = Some 0 \<and> signed_year_modulo year negative 100 \<noteq> Some 0)"

definition is_valid_calendar_day :: "string \<Rightarrow> bool \<Rightarrow> u8 \<Rightarrow> u8 \<Rightarrow> bool" where
  "is_valid_calendar_day year negative_year month day =
     (let max_day =
        (if month \<in> {1, 3, 5, 7, 8, 10, 12} then Some 31
         else if month \<in> {4, 6, 9, 11} then Some 30
         else if month = 2 \<and> is_leap_year year negative_year then Some 29
         else if month = 2 then Some 28
         else None)
      in case max_day of None \<Rightarrow> False | Some m \<Rightarrow> 1 \<le> day \<and> day \<le> m)"

definition is_xml_schema_whitespace :: "char \<Rightarrow> bool" where
  "is_xml_schema_whitespace c = (c \<in> {CHR '' '', CHR 0x09, CHR 0x0A, CHR 0x0D})"

definition is_ascii_digit :: "char \<Rightarrow> bool" where
  "is_ascii_digit c = ((of_char c :: nat) \<in> {48..57})"

fun position_of :: "char \<Rightarrow> string \<Rightarrow> nat option" where
  "position_of c [] = None"
| "position_of c (x # xs) = (if x = c then Some 0 else map_option Suc (position_of c xs))"

definition valid_fraction :: "string \<Rightarrow> bool" where
  "valid_fraction fractional \<longleftrightarrow>
     fractional = [] \<or>
     (byte_at fractional 0 = Some CHR ''.'' \<and> length fractional > 1 \<and>
      list_all is_ascii_digit (drop 1 fractional))"

definition parse_saml_utc_date_time_with_seconds :: "string \<Rightarrow> (string \<times> u8) option" where
  "parse_saml_utc_date_time_with_seconds raw =
     (let value = trim_by is_xml_schema_whitespace raw in
      case strip_suffix_char CHR ''Z'' value of None \<Rightarrow> None
      | Some bytes \<Rightarrow>
        let negative_year = (byte_at bytes 0 = Some CHR ''-'');
            year_start = (if negative_year then 1 else 0)
        in case position_of CHR ''-'' (drop year_start bytes) of None \<Rightarrow> None
        | Some offset \<Rightarrow>
          let year_separator = year_start + offset;
              year = take offset (drop year_start bytes)
          in if length year < 4
                \<or> (length year > 4 \<and> byte_at year 0 = Some CHR ''0'')
                \<or> list_all (\<lambda>d. d = CHR ''0'') year
                \<or> year_modulo year 400 = None
             then None
             else
               let time_end = year_separator + 15
               in if length bytes < time_end
                     \<or> byte_at bytes year_separator \<noteq> Some CHR ''-''
                     \<or> byte_at bytes (year_separator + 3) \<noteq> Some CHR ''-''
                     \<or> byte_at bytes (year_separator + 6) \<noteq> Some CHR ''T''
                     \<or> byte_at bytes (year_separator + 9) \<noteq> Some CHR '':''
                     \<or> byte_at bytes (year_separator + 12) \<noteq> Some CHR '':''
                  then None
                  else
                    Option.bind (parse_two_ascii_digits bytes (year_separator + 1)) (\<lambda>month.
                    Option.bind (parse_two_ascii_digits bytes (year_separator + 4)) (\<lambda>day.
                    Option.bind (parse_two_ascii_digits bytes (year_separator + 7)) (\<lambda>hour.
                    Option.bind (parse_two_ascii_digits bytes (year_separator + 10)) (\<lambda>minute.
                    Option.bind (parse_two_ascii_digits bytes (year_separator + 13)) (\<lambda>second.
                      if \<not> is_valid_calendar_day year negative_year month day
                         \<or> minute > 59 \<or> second > 60
                      then None
                      else
                        let fractional = drop time_end bytes
                        in if \<not> valid_fraction fractional then None
                           else if hour < 24
                                \<or> (hour = 24 \<and> minute = 0 \<and> second = 0
                                   \<and> (fractional = [] \<or> list_all (\<lambda>d. d = CHR ''0'') (drop 1 fractional)))
                                then Some (value, second) else None))))))"

definition parse_saml_utc_date_time :: "string \<Rightarrow> string option" where
  "parse_saml_utc_date_time value = map_option fst (parse_saml_utc_date_time_with_seconds value)"

definition parse_generated_saml_utc_date_time :: "string \<Rightarrow> string option" where
  "parse_generated_saml_utc_date_time value =
     (case parse_saml_utc_date_time_with_seconds value of
        Some (normalized, second) \<Rightarrow> if second < 60 then Some normalized else None
      | None \<Rightarrow> None)"

section \<open>Years of any length\<close>

definition digit_val :: "char \<Rightarrow> nat" where
  "digit_val c = of_char c - 48"

definition year_value_from :: "nat \<Rightarrow> string \<Rightarrow> nat" where
  "year_value_from n ds = foldl (\<lambda>n d. 10 * n + digit_val d) n ds"

lemma of_char_lt_256 [simp]: "(of_char c :: nat) < 256"
  using of_char_of [of 0] by (metis char_of_char nat_of_char_less_256 of_char_eq_iff)

lemma sub_zero_digit:
  "is_ascii_digit d \<Longrightarrow> sub_zero d = Some (of_nat (digit_val d)) \<and> digit_val d \<le> 9"
  by (auto simp: is_ascii_digit_def sub_zero_def digit_val_def)

lemma unat_sub_zero: "sub_zero d = Some x \<Longrightarrow> unat x = of_char d - 48 \<and> 48 \<le> (of_char d :: nat)"
  using of_char_lt_256 [of d]
  by (auto simp: sub_zero_def unat_of_nat simp del: of_nat_diff of_char_lt_256 split: if_splits)

lemma sub_zero_le_9_iff: "sub_zero d = Some x \<Longrightarrow> x \<le> 9 \<longleftrightarrow> is_ascii_digit d"
  using unat_sub_zero [of d x] by (auto simp: word_le_nat_alt is_ascii_digit_def)

lemma is_ascii_digit_sub_zero: "\<not> is_ascii_digit d \<Longrightarrow> sub_zero d = None \<or> (\<exists>x. sub_zero d = Some x \<and> \<not> x \<le> 9)"
  using sub_zero_le_9_iff by (cases "sub_zero d") auto

lemma year_step:
  assumes "unat r < unat m" "unat m \<le> 400" "is_ascii_digit d"
  shows "unat ((r * 10 + ucast (of_nat (digit_val d) :: u8)) mod m :: u16) = (10 * unat r + digit_val d) mod unat m"
proof -
  have d: "digit_val d \<le> 9" using assms(3) by (simp add: sub_zero_digit)
  have u: "unat (ucast (of_nat (digit_val d) :: u8) :: u16) = digit_val d"
    using d by (simp add: unsigned_ucast_eq unat_of_nat take_bit_nat_eq_self)
  have "unat (r * 10 + ucast (of_nat (digit_val d) :: u8) :: u16) = 10 * unat r + digit_val d"
    using assms d u by (simp add: unat_word_ariths)
  then show ?thesis by (simp add: unat_mod_distrib)
qed
lemma year_value_from_mod: "year_value_from (n mod m) ds mod m = year_value_from n ds mod m"
proof (induction ds arbitrary: n)
  case Nil
  then show ?case by (simp add: year_value_from_def)
next
  case (Cons d ds)
  have "(10 * (n mod m) + digit_val d) mod m = (10 * n + digit_val d) mod m"
    by (metis mod_add_left_eq mod_mult_right_eq)
  then show ?case
    using Cons [of "10 * (n mod m) + digit_val d"] Cons [of "10 * n + digit_val d"]
    by (simp add: year_value_from_def)
qed

lemma year_modulo_loop_eq:
  "unat r < unat m \<Longrightarrow> unat m \<le> 400 \<Longrightarrow> list_all is_ascii_digit ds \<Longrightarrow>
     \<exists>w. year_modulo_loop r ds m = Some w \<and> unat w = year_value_from (unat r) ds mod unat m"
proof (induction ds arbitrary: r)
  case Nil
  then show ?case by (simp add: year_value_from_def)
next
  case (Cons d ds)
  let ?r = "(r * 10 + ucast (of_nat (digit_val d) :: u8)) mod m"
  have d: "is_ascii_digit d" using Cons.prems by simp
  have r: "unat ?r = (10 * unat r + digit_val d) mod unat m"
    using Cons.prems d by (intro year_step) auto
  then have "unat ?r < unat m" using Cons.prems by simp
  then obtain w where w: "year_modulo_loop ?r ds m = Some w" "unat w = year_value_from (unat ?r) ds mod unat m"
    using Cons.IH [of ?r] Cons.prems by auto
  have le: "(of_nat (digit_val d) :: u8) \<le> 9"
    using sub_zero_digit [OF d] sub_zero_le_9_iff d by blast
  have "year_value_from (unat ?r) ds mod unat m = year_value_from (10 * unat r + digit_val d) ds mod unat m"
    unfolding r by (rule year_value_from_mod)
  with w le sub_zero_digit [OF d] show ?case
    by (auto simp: year_value_from_def)
qed

lemma year_modulo_loop_None: "\<not> list_all is_ascii_digit ds \<Longrightarrow> year_modulo_loop r ds m = None"
proof (induction ds arbitrary: r)
  case (Cons d ds)
  then show ?case
    using is_ascii_digit_sub_zero [of d] sub_zero_digit [of d] by (cases "is_ascii_digit d") auto
qed simp


definition year_value :: "string \<Rightarrow> nat" where
  "year_value ds = year_value_from 0 ds"

lemma year_modulo_Some:
  assumes "list_all is_ascii_digit ds" "0 < unat m" "unat m \<le> 400"
  obtains w where "year_modulo ds m = Some w" "unat w = year_value ds mod unat m"
  using year_modulo_loop_eq [of 0 m ds] assms by (auto simp: year_modulo_def year_value_def)

lemma year_modulo_None_iff:
  assumes "0 < unat m" "unat m \<le> 400"
  shows "year_modulo ds m = None \<longleftrightarrow> \<not> list_all is_ascii_digit ds"
  using year_modulo_loop_None [of ds 0 m] year_modulo_Some [of ds m] assms
  by (fastforce simp: year_modulo_def)

definition astronomical_year :: "bool \<Rightarrow> string \<Rightarrow> int" where
  "astronomical_year negative year = (if negative then 1 - int (year_value year) else int (year_value year))"

definition gregorian_leap :: "int \<Rightarrow> bool" where
  "gregorian_leap y \<longleftrightarrow> y mod 400 = 0 \<or> (y mod 4 = 0 \<and> y mod 100 \<noteq> 0)"

lemma signed_year_modulo_zero:
  assumes "list_all is_ascii_digit year" "m \<in> {4, 100, 400}"
  shows "signed_year_modulo year negative m = Some 0 \<longleftrightarrow> astronomical_year negative year mod int (unat m) = 0"
proof -
  have m: "0 < unat m" "unat m \<le> 400" using assms(2) by auto
  obtain w where w: "year_modulo year m = Some w" "unat w = year_value year mod unat m"
    using year_modulo_Some [OF assms(1) m] .
  show ?thesis
  proof (cases negative)
    case False
    have "w = 0 \<longleftrightarrow> int (year_value year mod unat m) = 0"
      using w(2) by (metis of_nat_0_eq_iff unat_eq_zero)
    then have "w = 0 \<longleftrightarrow> int (year_value year) mod int (unat m) = 0"
      by (simp only: of_nat_mod)
    with False w(1) show ?thesis
      by (simp add: signed_year_modulo_def astronomical_year_def)
  next
    case True
    have lt: "unat w < unat m" using w m by simp
    have "unat (m + 1 - w) = unat m + 1 - unat w"
      using assms(2) lt by (auto simp: unat_sub_if' unat_word_ariths)
    then have wm: "unat ((m + 1 - w) mod m) = (unat m + 1 - year_value year mod unat m) mod unat m"
      using w by (simp add: unat_mod_distrib)
    have key: "(1 + M - y) mod M = (1 - y) mod M" for M y :: int
      using mod_add_self2 [of "1 - y" M] by (simp add: algebra_simps)
    have "int ((unat m + 1 - year_value year mod unat m) mod unat m) = (1 - int (year_value year)) mod int (unat m)"
      using lt w by (simp add: zmod_int of_nat_diff mod_simps key)
    with wm have "((m + 1 - w) mod m = 0) = ((1 - int (year_value year)) mod int (unat m) = 0)"
      by (metis of_nat_0_eq_iff unat_eq_zero)
    with True w show ?thesis by (simp add: signed_year_modulo_def astronomical_year_def)
  qed
qed

lemma is_leap_year_gregorian:
  assumes "list_all is_ascii_digit year"
  shows "is_leap_year year negative \<longleftrightarrow> gregorian_leap (astronomical_year negative year)"
  using signed_year_modulo_zero [OF assms, of 400 negative] signed_year_modulo_zero [OF assms, of 4 negative]
    signed_year_modulo_zero [OF assms, of 100 negative]
  by (simp add: is_leap_year_def gregorian_leap_def)

section \<open>The grammar\<close>

text \<open>A UTC stamp by its fields; the year keeps its digits, since it has no size limit.\<close>

record utc_stamp =
  st_negative :: bool
  st_year :: string
  st_month :: nat
  st_day :: nat
  st_hour :: nat
  st_minute :: nat
  st_second :: nat
  st_fraction :: string

definition two_digits :: "nat \<Rightarrow> string" where
  "two_digits n = [digit_char (n div 10), digit_char (n mod 10)]"

definition render_body :: "utc_stamp \<Rightarrow> string" where
  "render_body s =
     (if st_negative s then ''-'' else []) @ st_year s @ ''-'' @ two_digits (st_month s) @ ''-''
       @ two_digits (st_day s) @ ''T'' @ two_digits (st_hour s) @ '':'' @ two_digits (st_minute s)
       @ '':'' @ two_digits (st_second s) @ st_fraction s"

definition render_stamp :: "utc_stamp \<Rightarrow> string" where
  "render_stamp s = render_body s @ ''Z''"

definition days_in_month :: "int \<Rightarrow> nat \<Rightarrow> nat" where
  "days_in_month y m =
     (if m \<in> {1, 3, 5, 7, 8, 10, 12} then 31 else if m \<in> {4, 6, 9, 11} then 30
      else if m = 2 then (if gregorian_leap y then 29 else 28) else 0)"

definition valid_year :: "string \<Rightarrow> bool" where
  "valid_year year \<longleftrightarrow>
     list_all is_ascii_digit year \<and> 4 \<le> length year \<and> (4 < length year \<longrightarrow> hd year \<noteq> CHR ''0'')
     \<and> \<not> list_all (\<lambda>d. d = CHR ''0'') year"

definition valid_clock :: "utc_stamp \<Rightarrow> bool" where
  "valid_clock s \<longleftrightarrow>
     st_hour s < 24 \<or> (st_hour s = 24 \<and> st_minute s = 0 \<and> st_second s = 0
        \<and> list_all (\<lambda>d. d = CHR ''0'') (drop 1 (st_fraction s)))"

definition valid_stamp :: "utc_stamp \<Rightarrow> bool" where
  "valid_stamp s \<longleftrightarrow>
     valid_year (st_year s)
     \<and> 1 \<le> st_day s
     \<and> st_day s \<le> days_in_month (astronomical_year (st_negative s) (st_year s)) (st_month s)
     \<and> st_minute s \<le> 59 \<and> st_second s \<le> 60 \<and> valid_fraction (st_fraction s) \<and> valid_clock s"

lemma digit_char_inverse:
  "d < 10 \<Longrightarrow> of_char (digit_char d) = 48 + d"
  "d < 10 \<Longrightarrow> is_ascii_digit (digit_char d)"
proof -
  assume "d < 10"
  then have "d = 0 \<or> d = 1 \<or> d = 2 \<or> d = 3 \<or> d = 4 \<or> d = 5 \<or> d = 6 \<or> d = 7 \<or> d = 8 \<or> d = 9"
    by arith
  then show a: "of_char (digit_char d) = 48 + d"
    by (elim disjE) (simp_all add: digit_char_def)
  then show "is_ascii_digit (digit_char d)"
    using \<open>d < 10\<close> by (simp add: is_ascii_digit_def)
qed

lemma digit_char_of_digit: "is_ascii_digit c \<Longrightarrow> digit_char (digit_val c) = c"
proof -
  assume c: "is_ascii_digit c"
  then have "digit_val c < 10" by (auto simp: is_ascii_digit_def digit_val_def)
  then have "of_char (digit_char (digit_val c)) = (of_char c :: nat)"
    using c by (simp add: digit_char_inverse digit_val_def is_ascii_digit_def)
  then show ?thesis by simp
qed

lemma two_digits_Some:
  assumes "byte_at v i = Some a" "byte_at v (i + 1) = Some b" "is_ascii_digit a" "is_ascii_digit b"
  shows "parse_two_ascii_digits v i = Some (of_nat (digit_val a * 10 + digit_val b))"
  using assms sub_zero_digit [of a] sub_zero_digit [of b] sub_zero_le_9_iff [of a] sub_zero_le_9_iff [of b]
  by (auto simp: parse_two_ascii_digits_def)

lemma parse_two_SomeE:
  assumes "parse_two_ascii_digits v i = Some w"
  obtains a b where "byte_at v i = Some a" "byte_at v (i + 1) = Some b" "is_ascii_digit a" "is_ascii_digit b"
    "w = of_nat (digit_val a * 10 + digit_val b)"
  using assms sub_zero_le_9_iff sub_zero_digit
  unfolding parse_two_ascii_digits_def
  by (fastforce simp: bind_eq_Some_conv split: if_splits)

lemma unat_two [simp]:
  "is_ascii_digit a \<Longrightarrow> is_ascii_digit b \<Longrightarrow>
     unat (of_nat (digit_val a * 10 + digit_val b) :: u8) = digit_val a * 10 + digit_val b"
  using sub_zero_digit [of a] sub_zero_digit [of b] by (simp add: unat_of_nat del: of_nat_add of_nat_mult)

definition two_val :: "char \<Rightarrow> char \<Rightarrow> nat" where
  "two_val a b = digit_val a * 10 + digit_val b"

lemma two_digits_two_val:
  "is_ascii_digit a \<Longrightarrow> is_ascii_digit b \<Longrightarrow> two_digits (two_val a b) = [a, b]"
  using sub_zero_digit [of a] sub_zero_digit [of b] digit_char_of_digit [of a] digit_char_of_digit [of b]
  by (simp add: two_digits_def two_val_def)

lemma two_digits_obtain:
  assumes "n < 100"
  obtains a b where "two_digits n = [a, b]" "is_ascii_digit a" "is_ascii_digit b" "two_val a b = n"
proof -
  have "n div 10 < 10" "n mod 10 < 10" using assms by auto
  then have "two_val (digit_char (n div 10)) (digit_char (n mod 10)) = n"
    by (simp add: two_val_def digit_val_def digit_char_inverse)
  with \<open>n div 10 < 10\<close> \<open>n mod 10 < 10\<close> show ?thesis
    using that [of "digit_char (n div 10)" "digit_char (n mod 10)"] by (simp add: two_digits_def digit_char_inverse)
qed

lemma is_valid_calendar_day_iff:
  assumes "list_all is_ascii_digit year" "m < 256" "d < 256"
  shows "is_valid_calendar_day year neg (of_nat m) (of_nat d) \<longleftrightarrow>
     1 \<le> d \<and> d \<le> days_in_month (astronomical_year neg year) m"
proof -
  have eq: "(of_nat m = (of_nat k :: u8)) = (m = k)" if "k < 256" for k
    using that assms(2) by (simp add: word_of_nat_eq_iff take_bit_nat_eq_self)
  have le: "(1 :: u8) \<le> of_nat d \<longleftrightarrow> 1 \<le> d" "(of_nat d :: u8) \<le> 31 \<longleftrightarrow> d \<le> 31"
    "(of_nat d :: u8) \<le> 30 \<longleftrightarrow> d \<le> 30" "(of_nat d :: u8) \<le> 29 \<longleftrightarrow> d \<le> 29"
    "(of_nat d :: u8) \<le> 28 \<longleftrightarrow> d \<le> 28"
    using assms(3) by (simp_all add: word_le_nat_alt unat_of_nat)
  have months: "(of_nat m :: u8) = 1 \<longleftrightarrow> m = 1" "(of_nat m :: u8) = 2 \<longleftrightarrow> m = 2" "(of_nat m :: u8) = 3 \<longleftrightarrow> m = 3"
    "(of_nat m :: u8) = 4 \<longleftrightarrow> m = 4" "(of_nat m :: u8) = 5 \<longleftrightarrow> m = 5" "(of_nat m :: u8) = 6 \<longleftrightarrow> m = 6"
    "(of_nat m :: u8) = 7 \<longleftrightarrow> m = 7" "(of_nat m :: u8) = 8 \<longleftrightarrow> m = 8" "(of_nat m :: u8) = 9 \<longleftrightarrow> m = 9"
    "(of_nat m :: u8) = 10 \<longleftrightarrow> m = 10" "(of_nat m :: u8) = 11 \<longleftrightarrow> m = 11" "(of_nat m :: u8) = 12 \<longleftrightarrow> m = 12"
    using eq [of 1] eq [of 2] eq [of 3] eq [of 4] eq [of 5] eq [of 6] eq [of 7] eq [of 8] eq [of 9]
      eq [of 10] eq [of 11] eq [of 12] by simp_all
  show ?thesis
    unfolding is_valid_calendar_day_def days_in_month_def
    by (simp only: insert_iff empty_iff simp_thms months is_leap_year_gregorian [OF assms(1)])
      (auto simp: le)
qed

section \<open>The parser decides the grammar\<close>

lemma byte_at_append [simp]: "byte_at (pre @ t) (length pre + k) = byte_at t k"
  by (simp add: byte_at_def)

lemma parse_two_append [simp]:
  "parse_two_ascii_digits (pre @ t) (length pre + k) = parse_two_ascii_digits t k"
  using byte_at_append [of pre t "Suc k"] by (simp add: parse_two_ascii_digits_def)

lemma position_of_Some:
  "position_of c s = Some i \<longleftrightarrow> (\<exists>a b. s = a @ c # b \<and> c \<notin> set a \<and> i = length a)"
proof (induction s arbitrary: i)
  case Nil
  then show ?case by simp
next
  case (Cons x xs)
  show ?case
  proof (cases "x = c")
    case True
    then show ?thesis by (auto simp: Cons_eq_append_conv)
  next
    case False
    then have "position_of c (x # xs) = Some i \<longleftrightarrow> (\<exists>j. i = Suc j \<and> position_of c xs = Some j)"
      by (cases "position_of c xs") auto
    also have "\<dots> \<longleftrightarrow> (\<exists>a b. x # xs = a @ c # b \<and> c \<notin> set a \<and> i = length a)"
    proof
      assume "\<exists>j. i = Suc j \<and> position_of c xs = Some j"
      then obtain a b where "xs = a @ c # b" "c \<notin> set a" "i = Suc (length a)" using Cons by auto
      then show "\<exists>a b. x # xs = a @ c # b \<and> c \<notin> set a \<and> i = length a"
        using False by (intro exI [of _ "x # a"] exI [of _ b]) auto
    next
      assume "\<exists>a b. x # xs = a @ c # b \<and> c \<notin> set a \<and> i = length a"
      then obtain a b where ab: "x # xs = a @ c # b" "c \<notin> set a" "i = length a" by auto
      with False obtain a' where a': "a = x # a'" by (cases a) auto
      with ab have "position_of c xs = Some (length a')" unfolding Cons by auto
      with ab a' show "\<exists>j. i = Suc j \<and> position_of c xs = Some j" by simp
    qed
    finally show ?thesis .
  qed
qed

lemma length_ge_15:
  assumes "\<not> length t < 15"
  obtains c0 c1 c2 c3 c4 c5 c6 c7 c8 c9 c10 c11 c12 c13 c14 f where
    "t = c0 # c1 # c2 # c3 # c4 # c5 # c6 # c7 # c8 # c9 # c10 # c11 # c12 # c13 # c14 # f"
proof -
  have "Suc (Suc (Suc (Suc (Suc (Suc (Suc (Suc (Suc (Suc (Suc (Suc (Suc (Suc (Suc 0)))))))))))))) \<le> length t"
    using assms by simp
  then show ?thesis using that unfolding Suc_le_length_iff by (elim exE conjE) simp
qed

text \<open>The part of the parser behind the year, on the text from the year's separator on.\<close>

definition parse_tail :: "string \<Rightarrow> bool \<Rightarrow> string \<Rightarrow> string \<Rightarrow> (string \<times> u8) option" where
  "parse_tail year neg value t =
     (if length t < 15 \<or> byte_at t 0 \<noteq> Some CHR ''-'' \<or> byte_at t 3 \<noteq> Some CHR ''-''
         \<or> byte_at t 6 \<noteq> Some CHR ''T'' \<or> byte_at t 9 \<noteq> Some CHR '':'' \<or> byte_at t 12 \<noteq> Some CHR '':''
      then None
      else
        Option.bind (parse_two_ascii_digits t 1) (\<lambda>month.
        Option.bind (parse_two_ascii_digits t 4) (\<lambda>day.
        Option.bind (parse_two_ascii_digits t 7) (\<lambda>hour.
        Option.bind (parse_two_ascii_digits t 10) (\<lambda>minute.
        Option.bind (parse_two_ascii_digits t 13) (\<lambda>second.
          if \<not> is_valid_calendar_day year neg month day \<or> minute > 59 \<or> second > 60 then None
          else if \<not> valid_fraction (drop 15 t) then None
          else if hour < 24 \<or> (hour = 24 \<and> minute = 0 \<and> second = 0
                 \<and> (drop 15 t = [] \<or> list_all (\<lambda>d. d = CHR ''0'') (drop 1 (drop 15 t))))
          then Some (value, second) else None))))))"

lemma parse_split:
  assumes trim: "trim_by is_xml_schema_whitespace raw = (sg @ year @ t) @ ''Z''"
    and sg: "sg = (if neg then ''-'' else [])" and t: "t \<noteq> []" "hd t = CHR ''-''"
    and year: "CHR ''-'' \<notin> set year" "year \<noteq> []" 
  shows "parse_saml_utc_date_time_with_seconds raw =
     (if length year < 4 \<or> (length year > 4 \<and> hd year = CHR ''0'')
         \<or> list_all (\<lambda>d. d = CHR ''0'') year \<or> year_modulo year 400 = None
      then None else parse_tail year neg ((sg @ year @ t) @ ''Z'') t)"
proof -
  let ?b = "sg @ year @ t"
  have strip: "strip_suffix_char CHR ''Z'' (?b @ ''Z'') = Some ?b"
    by (simp add: strip_suffix_char_def butlast_append)
  have neg: "(byte_at ?b 0 = Some CHR ''-'') = neg"
    using year t sg by (cases year) (auto simp: byte_at_def)
  have drop: "drop (if neg then 1 else 0) ?b = year @ t" using sg by simp
  obtain r where r: "t = CHR ''-'' # r" using t by (cases t) auto
  have pos: "position_of CHR ''-'' (year @ t) = Some (length year)"
    unfolding position_of_Some using year r by auto
  have hd: "byte_at year 0 = Some c \<longleftrightarrow> hd year = c" for c
    using year by (cases year) (auto simp: byte_at_def)
  let ?pre = "sg @ year"
  have len: "(if neg then 1 else 0) + length year = length ?pre" using sg by simp
  have at: "byte_at ?b (length ?pre + k) = byte_at t k" for k
    using byte_at_append [of ?pre t k] by simp
  have two: "parse_two_ascii_digits ?b (length ?pre + k) = parse_two_ascii_digits t k" for k
    using parse_two_append [of ?pre t k] by simp
  have dr: "drop (length ?pre + 15) ?b = drop 15 t" by simp
  have tk: "take (length year) (year @ t) = year" by simp
  have at0: "byte_at ?b (length ?pre) = byte_at t 0" using at [of 0] by simp
  have l15: "length ?b < length ?pre + 15 \<longleftrightarrow> length t < 15" by simp
  have tr: "trim_by is_xml_schema_whitespace raw = ?b @ ''Z''" using trim by simp
  show ?thesis
    unfolding parse_saml_utc_date_time_with_seconds_def parse_tail_def tr Let_def strip option.case neg drop pos
      tk len at at0 two dr l15 hd
    by simp
qed

lemma parse_two_iff:
  "parse_two_ascii_digits t k = Some w \<longleftrightarrow>
    (\<exists>a b. byte_at t k = Some a \<and> byte_at t (k + 1) = Some b \<and> is_ascii_digit a \<and> is_ascii_digit b
      \<and> w = of_nat (two_val a b))"
  unfolding two_val_def using two_digits_Some [of t k] by (auto elim!: parse_two_SomeE)

lemma two_val_less: "is_ascii_digit a \<Longrightarrow> is_ascii_digit b \<Longrightarrow> two_val a b < 100"
  using sub_zero_digit [of a] sub_zero_digit [of b] by (simp add: two_val_def)

lemma u8_compare:
  assumes "n < 256"
  shows "(of_nat n :: u8) > 59 \<longleftrightarrow> n > 59" "(of_nat n :: u8) > 60 \<longleftrightarrow> n > 60"
    "(of_nat n :: u8) < 24 \<longleftrightarrow> n < 24" "(of_nat n :: u8) < 60 \<longleftrightarrow> n < 60"
    "(of_nat n :: u8) = 24 \<longleftrightarrow> n = 24" "(of_nat n :: u8) = 0 \<longleftrightarrow> n = 0"
    "(of_nat n :: u8) \<le> 59 \<longleftrightarrow> n \<le> 59" "(of_nat n :: u8) \<le> 60 \<longleftrightarrow> n \<le> 60"
proof -
  have eq: "(of_nat n = (of_nat k :: u8)) = (n = k)" if "k < 256" for k
    using that assms by (simp add: word_of_nat_eq_iff take_bit_nat_eq_self)
  show "(of_nat n :: u8) = 24 \<longleftrightarrow> n = 24" "(of_nat n :: u8) = 0 \<longleftrightarrow> n = 0"
    using eq [of 24] eq [of 0] by simp_all
qed (use assms in \<open>simp_all add: word_less_nat_alt word_le_nat_alt unat_of_nat\<close>)

lemma parse_tail_explicit:
  assumes t: "t = c0 # c1 # c2 # c3 # c4 # c5 # c6 # c7 # c8 # c9 # c10 # c11 # c12 # c13 # c14 # f"
    and year: "list_all is_ascii_digit year"
  shows "parse_tail year neg v t = Some r \<longleftrightarrow>
    c0 = CHR ''-'' \<and> c3 = CHR ''-'' \<and> c6 = CHR ''T'' \<and> c9 = CHR '':'' \<and> c12 = CHR '':''
    \<and> list_all is_ascii_digit [c1, c2, c4, c5, c7, c8, c10, c11, c13, c14]
    \<and> 1 \<le> two_val c4 c5 \<and> two_val c4 c5 \<le> days_in_month (astronomical_year neg year) (two_val c1 c2)
    \<and> two_val c10 c11 \<le> 59 \<and> two_val c13 c14 \<le> 60 \<and> valid_fraction f
    \<and> (two_val c7 c8 < 24 \<or> (two_val c7 c8 = 24 \<and> two_val c10 c11 = 0 \<and> two_val c13 c14 = 0
         \<and> list_all (\<lambda>d. d = CHR ''0'') (drop 1 f)))
    \<and> r = (v, of_nat (two_val c13 c14))"
proof -
  have at: "byte_at t 0 = Some c0" "byte_at t 1 = Some c1" "byte_at t 2 = Some c2" "byte_at t 3 = Some c3"
    "byte_at t 4 = Some c4" "byte_at t 5 = Some c5" "byte_at t 6 = Some c6" "byte_at t 7 = Some c7"
    "byte_at t 8 = Some c8" "byte_at t 9 = Some c9" "byte_at t 10 = Some c10" "byte_at t 11 = Some c11"
    "byte_at t 12 = Some c12" "byte_at t 13 = Some c13" "byte_at t 14 = Some c14"
    by (simp_all add: t byte_at_def)
  have f: "drop 15 t = f" "\<not> length t < 15" by (simp_all add: t)
  have two: "parse_two_ascii_digits t 1 = Some w \<longleftrightarrow> is_ascii_digit c1 \<and> is_ascii_digit c2 \<and> w = of_nat (two_val c1 c2)"
    "parse_two_ascii_digits t 4 = Some w \<longleftrightarrow> is_ascii_digit c4 \<and> is_ascii_digit c5 \<and> w = of_nat (two_val c4 c5)"
    "parse_two_ascii_digits t 7 = Some w \<longleftrightarrow> is_ascii_digit c7 \<and> is_ascii_digit c8 \<and> w = of_nat (two_val c7 c8)"
    "parse_two_ascii_digits t 10 = Some w \<longleftrightarrow> is_ascii_digit c10 \<and> is_ascii_digit c11 \<and> w = of_nat (two_val c10 c11)"
    "parse_two_ascii_digits t 13 = Some w \<longleftrightarrow> is_ascii_digit c13 \<and> is_ascii_digit c14 \<and> w = of_nat (two_val c13 c14)" for w
    unfolding parse_two_iff by (simp_all add: at at [unfolded One_nat_def] numeral_2_eq_2 [symmetric])
  have if_None: "((if P then None else X) = Some r) = (\<not> P \<and> X = Some r)"
    "((if P then X else None) = Some r) = (P \<and> X = Some r)" for P and X :: "(string \<times> u8) option"
    by auto
  show ?thesis
  proof (cases "list_all is_ascii_digit [c1, c2, c4, c5, c7, c8, c10, c11, c13, c14]")
    case False
    then show ?thesis
      unfolding parse_tail_def if_None bind_eq_Some_conv two by auto
  next
    case True
    then have lt: "two_val c1 c2 < 256" "two_val c4 c5 < 256" "two_val c7 c8 < 256"
        "two_val c10 c11 < 256" "two_val c13 c14 < 256"
      using two_val_less by (auto intro: less_trans [of _ 100 256])
    note cal = is_valid_calendar_day_iff [OF year lt(1,2), of neg]
    have frac: "(f = [] \<or> list_all (\<lambda>d. d = CHR ''0'') (drop 1 f)) = list_all (\<lambda>d. d = CHR ''0'') (drop 1 f)"
      by auto
    have len: "15 \<le> length t" using f(2) by simp
    show ?thesis
      using True unfolding parse_tail_def if_None bind_eq_Some_conv two at f frac
      by (simp add: cal u8_compare [OF lt(3)] u8_compare [OF lt(4)] u8_compare [OF lt(5)] not_less len)
        blast
  qed
qed

lemma parse_tail_iff:
  assumes year: "list_all is_ascii_digit year"
  shows "parse_tail year neg v t = Some r \<longleftrightarrow>
    (\<exists>mo da ho mi se f. t = ''-'' @ two_digits mo @ ''-'' @ two_digits da @ ''T'' @ two_digits ho @ '':''
        @ two_digits mi @ '':'' @ two_digits se @ f
      \<and> mo < 100 \<and> da < 100 \<and> ho < 100 \<and> 1 \<le> da \<and> da \<le> days_in_month (astronomical_year neg year) mo
      \<and> mi \<le> 59 \<and> se \<le> 60 \<and> valid_fraction f
      \<and> (ho < 24 \<or> (ho = 24 \<and> mi = 0 \<and> se = 0 \<and> list_all (\<lambda>d. d = CHR ''0'') (drop 1 f)))
      \<and> r = (v, of_nat se))" (is "?L \<longleftrightarrow> ?R")
proof
  assume L: ?L
  then have "\<not> length t < 15" by (auto simp: parse_tail_def)
  then obtain c0 c1 c2 c3 c4 c5 c6 c7 c8 c9 c10 c11 c12 c13 c14 f where
    t: "t = c0 # c1 # c2 # c3 # c4 # c5 # c6 # c7 # c8 # c9 # c10 # c11 # c12 # c13 # c14 # f"
    by (rule length_ge_15)
  note L' = L [unfolded parse_tail_explicit [OF t year]]
  show ?R
    using L' two_val_less [of c1 c2] two_val_less [of c4 c5] two_val_less [of c7 c8]
    by (intro exI [of _ "two_val c1 c2"] exI [of _ "two_val c4 c5"] exI [of _ "two_val c7 c8"]
        exI [of _ "two_val c10 c11"] exI [of _ "two_val c13 c14"] exI [of _ f])
      (simp add: two_digits_two_val t)
next
  assume ?R
  then obtain mo da ho mi se f where t: "t = ''-'' @ two_digits mo @ ''-'' @ two_digits da @ ''T'' @ two_digits ho @ '':''
        @ two_digits mi @ '':'' @ two_digits se @ f"
    and *: "mo < 100" "da < 100" "ho < 100" "1 \<le> da" "da \<le> days_in_month (astronomical_year neg year) mo"
      "mi \<le> 59" "se \<le> 60" "valid_fraction f"
      "ho < 24 \<or> (ho = 24 \<and> mi = 0 \<and> se = 0 \<and> list_all (\<lambda>d. d = CHR ''0'') (drop 1 f))"
      "r = (v, of_nat se)"
    by blast
  obtain a1 b1 where m: "two_digits mo = [a1, b1]" "is_ascii_digit a1" "is_ascii_digit b1" "two_val a1 b1 = mo"
    using two_digits_obtain [OF *(1)] .
  obtain a2 b2 where d: "two_digits da = [a2, b2]" "is_ascii_digit a2" "is_ascii_digit b2" "two_val a2 b2 = da"
    using two_digits_obtain [OF *(2)] .
  obtain a3 b3 where h: "two_digits ho = [a3, b3]" "is_ascii_digit a3" "is_ascii_digit b3" "two_val a3 b3 = ho"
    using two_digits_obtain [OF *(3)] .
  have "mi < 100" "se < 100" using * by auto
  obtain a4 b4 where i: "two_digits mi = [a4, b4]" "is_ascii_digit a4" "is_ascii_digit b4" "two_val a4 b4 = mi"
    using two_digits_obtain [OF \<open>mi < 100\<close>] .
  obtain a5 b5 where s: "two_digits se = [a5, b5]" "is_ascii_digit a5" "is_ascii_digit b5" "two_val a5 b5 = se"
    using two_digits_obtain [OF \<open>se < 100\<close>] .
  have t': "t = CHR ''-'' # a1 # b1 # CHR ''-'' # a2 # b2 # CHR ''T'' # a3 # b3 # CHR '':'' # a4 # b4 # CHR '':'' # a5 # b5 # f"
    by (simp add: t m d h i s)
  show ?L
    unfolding parse_tail_explicit [OF t' year] using * m d h i s by simp
qed

lemma valid_year_modulo:
  "valid_year year \<longleftrightarrow>
     \<not> (length year < 4 \<or> (length year > 4 \<and> hd year = CHR ''0'')
        \<or> list_all (\<lambda>d. d = CHR ''0'') year \<or> year_modulo year 400 = None)"
  using year_modulo_None_iff [of 400 year] by (auto simp: valid_year_def)

lemma digit_not_dash: "list_all is_ascii_digit year \<Longrightarrow> CHR ''-'' \<notin> set year"
  by (auto simp: list_all_iff is_ascii_digit_def)

lemma parse_shape:
  assumes "parse_saml_utc_date_time_with_seconds raw = Some r"
  obtains neg year t where
    "trim_by is_xml_schema_whitespace raw = ((if neg then ''-'' else []) @ year @ t) @ ''Z''"
    "t \<noteq> []" "hd t = CHR ''-''" "CHR ''-'' \<notin> set year" "year \<noteq> []"
proof -
  let ?v = "trim_by is_xml_schema_whitespace raw"
  from assms obtain bytes where b: "strip_suffix_char CHR ''Z'' ?v = Some bytes"
    by (auto simp: parse_saml_utc_date_time_with_seconds_def Let_def split: option.splits)
  then have v: "?v = bytes @ ''Z''"
    by (auto simp: strip_suffix_char_def split: if_splits) (metis append_butlast_last_id)
  define neg where "neg \<longleftrightarrow> byte_at bytes 0 = Some CHR ''-''"
  from assms b obtain off where off: "position_of CHR ''-'' (drop (if neg then 1 else 0) bytes) = Some off"
    and len: "\<not> length (take off (drop (if neg then 1 else 0) bytes)) < 4"
    unfolding parse_saml_utc_date_time_with_seconds_def Let_def neg_def by (auto split: option.splits if_splits)
  from off obtain a c where ac: "drop (if neg then 1 else 0) bytes = a @ CHR ''-'' # c" "CHR ''-'' \<notin> set a" "off = length a"
    unfolding position_of_Some by blast
  have "bytes = (if neg then ''-'' else []) @ drop (if neg then 1 else 0) bytes"
    by (cases bytes) (auto simp: neg_def byte_at_def)
  with ac v have "?v = ((if neg then ''-'' else []) @ a @ (CHR ''-'' # c)) @ ''Z''" by simp
  moreover have "a \<noteq> []" using len ac by auto
  ultimately show ?thesis using that [of neg a "CHR ''-'' # c"] ac by auto
qed

lemma parse_with_seconds_iff:
  "parse_saml_utc_date_time_with_seconds raw = Some (v, sec) \<longleftrightarrow>
     (\<exists>st. valid_stamp st \<and> v = render_stamp st \<and> trim_by is_xml_schema_whitespace raw = v
        \<and> sec = of_nat (st_second st))" (is "?L \<longleftrightarrow> ?R")
proof
  assume L: ?L
  then obtain neg year t where sh:
    "trim_by is_xml_schema_whitespace raw = ((if neg then ''-'' else []) @ year @ t) @ ''Z''"
    "t \<noteq> []" "hd t = CHR ''-''" "CHR ''-'' \<notin> set year" "year \<noteq> []"
    by (rule parse_shape)
  note eq = parse_split [OF sh(1) refl sh(2-5)]
  from L eq have y: "valid_year year"
    unfolding valid_year_modulo by (auto split: if_splits)
  then have dig: "list_all is_ascii_digit year" by (simp add: valid_year_def)
  from L eq y have "parse_tail year neg (trim_by is_xml_schema_whitespace raw) t = Some (v, sec)"
    unfolding valid_year_modulo sh(1) by auto
  then obtain mo da ho mi se f where *:
    "t = ''-'' @ two_digits mo @ ''-'' @ two_digits da @ ''T'' @ two_digits ho @ '':''
        @ two_digits mi @ '':'' @ two_digits se @ f"
    "1 \<le> da" "da \<le> days_in_month (astronomical_year neg year) mo" "mi \<le> 59" "se \<le> 60" "valid_fraction f"
    "ho < 24 \<or> (ho = 24 \<and> mi = 0 \<and> se = 0 \<and> list_all (\<lambda>d. d = CHR ''0'') (drop 1 f))"
    "v = trim_by is_xml_schema_whitespace raw" "sec = of_nat se"
    unfolding parse_tail_iff [OF dig] by blast
  then show ?R
    using y sh(1)
    by (intro exI [of _ "\<lparr>st_negative = neg, st_year = year, st_month = mo, st_day = da, st_hour = ho,
          st_minute = mi, st_second = se, st_fraction = f\<rparr>"])
      (simp add: valid_stamp_def valid_clock_def render_stamp_def render_body_def)
next
  assume ?R
  then obtain st where st: "valid_stamp st" "v = render_stamp st" "trim_by is_xml_schema_whitespace raw = v"
    "sec = of_nat (st_second st)" by blast
  define t where "t = ''-'' @ two_digits (st_month st) @ ''-'' @ two_digits (st_day st) @ ''T'' @ two_digits (st_hour st) @ '':''
        @ two_digits (st_minute st) @ '':'' @ two_digits (st_second st) @ st_fraction st"
  have y: "valid_year (st_year st)" using st(1) by (simp add: valid_stamp_def)
  then have dig: "list_all is_ascii_digit (st_year st)" "st_year st \<noteq> []" by (auto simp: valid_year_def)
  have v: "v = ((if st_negative st then ''-'' else []) @ st_year st @ t) @ ''Z''"
    by (simp add: st t_def render_stamp_def render_body_def)
  have t: "t \<noteq> []" "hd t = CHR ''-''" by (simp_all add: t_def)
  have days: "days_in_month y m \<le> 31" "days_in_month y m \<noteq> 0 \<Longrightarrow> m \<le> 12" for y m
    by (auto simp: days_in_month_def split: if_splits)
  have b: "st_month st < 100" "st_day st < 100" "st_hour st < 100"
    using st(1) days(1) [of "astronomical_year (st_negative st) (st_year st)" "st_month st"]
      days(2) [of "astronomical_year (st_negative st) (st_year st)" "st_month st"]
    by (auto simp: valid_stamp_def valid_clock_def)
  have tail: "parse_tail (st_year st) (st_negative st) v t = Some (v, sec)"
    unfolding parse_tail_iff [OF dig(1)] using st(1) b
    by (intro exI [of _ "st_month st"] exI [of _ "st_day st"] exI [of _ "st_hour st"] exI [of _ "st_minute st"]
        exI [of _ "st_second st"] exI [of _ "st_fraction st"])
      (simp add: t_def st(4) valid_stamp_def valid_clock_def)
  show ?L
    using parse_split [OF st(3) [unfolded v] refl t digit_not_dash [OF dig(1)] dig(2)] y tail
    unfolding valid_year_modulo v [symmetric] by simp
qed

text \<open>
  C37: the date-time parser accepts exactly the rendered valid stamps: a text is accepted iff, with
  XML white space trimmed, it is the canonical rendering of a calendar-valid UTC stamp (leap
  years by the proleptic Gregorian rule, second 60 and 24:00:00 allowed), and the value returned is
  that rendering with its seconds.
\<close>

theorem parse_saml_utc_date_time_grammar:
  "parse_saml_utc_date_time_with_seconds raw = Some (v, sec) \<longleftrightarrow>
     (\<exists>st. valid_stamp st \<and> v = render_stamp st \<and> trim_by is_xml_schema_whitespace raw = v
        \<and> sec = of_nat (st_second st))"
  by (rule parse_with_seconds_iff)

text \<open>
  the parser for timestamps the crate itself may produce accepts the same stamps without leap
  seconds.
\<close>

theorem parse_generated_grammar:
  "parse_generated_saml_utc_date_time raw = Some v \<longleftrightarrow>
     (\<exists>st. valid_stamp st \<and> st_second st < 60 \<and> v = render_stamp st
        \<and> trim_by is_xml_schema_whitespace raw = v)"
proof -
  have "parse_generated_saml_utc_date_time raw = Some v \<longleftrightarrow>
      (\<exists>sec. parse_saml_utc_date_time_with_seconds raw = Some (v, sec) \<and> sec < 60)"
    by (auto simp: parse_generated_saml_utc_date_time_def split: option.splits if_splits)
  also have "\<dots> \<longleftrightarrow> (\<exists>st. valid_stamp st \<and> st_second st < 60 \<and> v = render_stamp st
        \<and> trim_by is_xml_schema_whitespace raw = v)"
    unfolding parse_with_seconds_iff
    using u8_compare(4) by (fastforce simp: valid_stamp_def)
  finally show ?thesis .
qed

section \<open>The eager argument of \<open>then_some\<close>\<close>

lemma parse_two_checked_Inr:
  assumes "parse_two_ascii_digits_checked v i = Inr r"
  shows "r = parse_two_ascii_digits v i"
proof (cases "Option.bind (byte_at v i) sub_zero")
  case None
  with assms show ?thesis by (simp add: parse_two_ascii_digits_checked_def parse_two_ascii_digits_def)
next
  case tens: (Some t)
  show ?thesis
  proof (cases "Option.bind (byte_at v (i + 1)) sub_zero")
    case None
    with assms tens show ?thesis by (simp add: parse_two_ascii_digits_checked_def parse_two_ascii_digits_def)
  next
    case ones: (Some u)
    with assms tens have a: "unat t * 10 < 256" "unat (of_nat (unat t * 10) :: u8) + unat u < 256"
      "r = (if t \<le> 9 \<and> u \<le> 9 then Some (of_nat (unat (of_nat (unat t * 10) :: u8) + unat u)) else None)"
      by (auto simp: parse_two_ascii_digits_checked_def checked_u8_def result_simps split: if_splits)
    with tens ones show ?thesis by (simp add: parse_two_ascii_digits_def)
  qed
qed

text \<open>
  a build with overflow checks agrees with the release build wherever it returns, but there is a
  field on which it panics instead of rejecting: \<open>then_some\<close> evaluates its argument before the
  digit test, and 42 * 10 does not fit \<open>u8\<close>.
\<close>

theorem parse_two_overflow_check:
  "(\<forall>v i. parse_two_ascii_digits_checked v i = Inl ArithmeticOverflow
      \<or> parse_two_ascii_digits_checked v i = Inr (parse_two_ascii_digits v i))
   \<and> parse_two_ascii_digits_checked ''ZZ'' 0 = Inl ArithmeticOverflow
   \<and> parse_two_ascii_digits ''ZZ'' 0 = None"
proof (intro conjI allI)
  fix v i
  show "parse_two_ascii_digits_checked v i = Inl ArithmeticOverflow
      \<or> parse_two_ascii_digits_checked v i = Inr (parse_two_ascii_digits v i)"
  proof (cases "parse_two_ascii_digits_checked v i")
    case (Inl e)
    then show ?thesis by (cases e) simp
  next
    case (Inr r)
    then show ?thesis using parse_two_checked_Inr [OF Inr] by simp
  qed
  show "parse_two_ascii_digits_checked ''ZZ'' 0 = Inl ArithmeticOverflow"
    by (simp add: parse_two_ascii_digits_checked_def byte_at_def sub_zero_def checked_u8_def)
  show "parse_two_ascii_digits ''ZZ'' 0 = None"
    by (simp add: parse_two_ascii_digits_def byte_at_def sub_zero_def)
qed

end
