(* ===== verification/Model.thy ===== *)
theory Model
  imports Extract Date_Time
begin

text \<open>
  The typed values of \<open>src/src/model/\<close> (identifiers, endpoint URLs, subjects,
  attributes, sessions) and how they are read from an extracted value tree
  (\<open>src/src/model/extract.rs\<close>). The validated string wrappers share one contract, the
  locale \<open>text_newtype\<close>: \<open>try_new\<close> accepts exactly the valid texts and keeps them.
\<close>

section \<open>The contract of a validated string\<close>

locale text_newtype =
  fixes try_new :: "string \<Rightarrow> 'a res"
    and as_str :: "'a \<Rightarrow> string"
    and valid :: "string \<Rightarrow> bool"
  assumes try_new_Inr: "try_new s = Inr x \<longleftrightarrow> valid s \<and> as_str x = s"
begin

lemma try_new_as_str: "valid (as_str x) \<Longrightarrow> try_new (as_str x) = Inr x"
  by (simp add: try_new_Inr)

lemma try_new_keeps: "try_new s = Inr x \<Longrightarrow> as_str x = s \<and> valid (as_str x)"
  by (auto simp: try_new_Inr)

lemma try_new_inj: "try_new s = Inr x \<Longrightarrow> try_new t = Inr x \<Longrightarrow> s = t"
  by (auto simp: try_new_Inr)

lemma try_new_error: "\<not> valid s \<Longrightarrow> \<exists>e. try_new s = Inl e"
  using try_new_Inr [of s] by (cases "try_new s") auto

lemma traverse_try_new:
  "traverse try_new ss = Inr xs \<longleftrightarrow> map as_str xs = ss \<and> list_all valid ss"
  by (induction ss arbitrary: xs) (auto simp: result_simps try_new_Inr)

lemma opt_try_new:
  "opt_traverse try_new v = Inr w \<longleftrightarrow> map_option as_str w = v \<and> (\<forall>s. v = Some s \<longrightarrow> valid s)"
  by (cases v; cases w) (auto simp: result_simps try_new_Inr)

end

section \<open>Identifiers\<close>

datatype message_id = MessageId (message_id_str: string)
datatype assertion_id = AssertionId (assertion_id_str: string)
datatype saml_instant = SamlInstant (saml_instant_str: string)
datatype session_index = SessionIndex (session_index_str: string)
datatype entity_id = EntityId (entity_id_str: string)
datatype endpoint_url = EndpointUrl (endpoint_url_str: string)

definition message_id_try_new :: "string \<Rightarrow> message_id res" where
  "message_id_try_new value =
     (if is_blank value then Inl (Invalid ''SAML message ID must not be empty'') else Inr (MessageId value))"

definition assertion_id_try_new :: "string \<Rightarrow> assertion_id res" where
  "assertion_id_try_new value =
     (if is_blank value then Inl (Invalid ''assertion ID must not be empty'') else Inr (AssertionId value))"

definition saml_instant_try_new :: "string \<Rightarrow> saml_instant res" where
  "saml_instant_try_new value =
     (if is_blank value then Inl (Invalid ''SAML instant must not be empty'') else Inr (SamlInstant value))"

definition session_index_try_new :: "string \<Rightarrow> session_index res" where
  "session_index_try_new value =
     (if is_blank value then Inl (Invalid ''SessionIndex must not be empty'') else Inr (SessionIndex value))"

definition validate_entity_id_text :: "string \<Rightarrow> unit res" where
  "validate_entity_id_text value =
     (if is_blank value then Inl (Invalid ''entity ID must not be empty'') else Inr ())"

definition entity_id_try_new :: "string \<Rightarrow> entity_id res" where
  "entity_id_try_new value = rbind (validate_entity_id_text value) (\<lambda>_. Inr (EntityId value))"

definition validate_entity_id :: "entity_id \<Rightarrow> unit res" where
  "validate_entity_id e = validate_entity_id_text (entity_id_str e)"

text \<open>The crate \<open>url\<close>: the scheme and whether a host is present, or the parse error.\<close>

record net_ext = xml_ext +
  url_parse :: "string \<Rightarrow> string + string \<times> bool"

definition endpoint_url_try_new :: "('e) net_ext_scheme \<Rightarrow> string \<Rightarrow> endpoint_url res" where
  "endpoint_url_try_new E value =
     (case url_parse E value of
        Inl err \<Rightarrow> Inl (Invalid err)
      | Inr (scheme, has_host) \<Rightarrow>
          if scheme \<in> {''http'', ''https''} \<and> has_host then Inr (EndpointUrl value)
          else Inl (Invalid ''endpoint URL must be absolute HTTP(S)''))"

definition http_url :: "('e) net_ext_scheme \<Rightarrow> string \<Rightarrow> bool" where
  "http_url E value = (case url_parse E value of Inl _ \<Rightarrow> False | Inr (s, h) \<Rightarrow> s \<in> {''http'', ''https''} \<and> h)"

interpretation mid: text_newtype message_id_try_new message_id_str "\<lambda>s. \<not> is_blank s"
  by unfold_locales (auto simp: message_id_try_new_def)

interpretation aid: text_newtype assertion_id_try_new assertion_id_str "\<lambda>s. \<not> is_blank s"
  by unfold_locales (auto simp: assertion_id_try_new_def)

interpretation ins: text_newtype saml_instant_try_new saml_instant_str "\<lambda>s. \<not> is_blank s"
  by unfold_locales (auto simp: saml_instant_try_new_def)

interpretation six: text_newtype session_index_try_new session_index_str "\<lambda>s. \<not> is_blank s"
  by unfold_locales (auto simp: session_index_try_new_def)

interpretation eid: text_newtype entity_id_try_new entity_id_str "\<lambda>s. \<not> is_blank s"
  by unfold_locales (auto simp: entity_id_try_new_def validate_entity_id_text_def)

interpretation url: text_newtype "endpoint_url_try_new E" endpoint_url_str "http_url E" for E
  by unfold_locales (auto simp: endpoint_url_try_new_def http_url_def split: sum.splits)

interpretation rel: text_newtype relay_state_try_new relay_state_str "\<lambda>s. length s \<le> MAX_RELAY_STATE_BYTES"
  by unfold_locales (auto simp: relay_state_try_new_def validate_relay_state_bytes_def)

section \<open>Subjects and attributes\<close>

datatype name_id_format =
  EmailAddress | Persistent | Transient | Entity | Unspecified | Kerberos
| WindowsDomainQualifiedName | X509SubjectName | CustomFormat string

fun name_id_format_uri :: "name_id_format \<Rightarrow> string" where
  "name_id_format_uri EmailAddress = ''urn:oasis:names:tc:SAML:1.1:nameid-format:emailAddress''"
| "name_id_format_uri Persistent = ''urn:oasis:names:tc:SAML:2.0:nameid-format:persistent''"
| "name_id_format_uri Transient = ''urn:oasis:names:tc:SAML:2.0:nameid-format:transient''"
| "name_id_format_uri Entity = ''urn:oasis:names:tc:SAML:2.0:nameid-format:entity''"
| "name_id_format_uri Unspecified = ''urn:oasis:names:tc:SAML:1.1:nameid-format:unspecified''"
| "name_id_format_uri Kerberos = ''urn:oasis:names:tc:SAML:2.0:nameid-format:kerberos''"
| "name_id_format_uri WindowsDomainQualifiedName =
     ''urn:oasis:names:tc:SAML:1.1:nameid-format:WindowsDomainQualifiedName''"
| "name_id_format_uri X509SubjectName = ''urn:oasis:names:tc:SAML:1.1:nameid-format:X509SubjectName''"
| "name_id_format_uri (CustomFormat uri) = uri"

definition standard_name_id_formats :: "name_id_format list" where
  "standard_name_id_formats =
     [EmailAddress, Persistent, Transient, Entity, Unspecified, Kerberos, WindowsDomainQualifiedName,
      X509SubjectName]"

definition name_id_format_from_uri :: "string \<Rightarrow> name_id_format" where
  "name_id_format_from_uri uri =
     (case find (\<lambda>f. name_id_format_uri f = uri) standard_name_id_formats of
        Some f \<Rightarrow> f
      | None \<Rightarrow> CustomFormat uri)"

lemma name_id_format_from_uri_uri [simp]: "name_id_format_uri (name_id_format_from_uri uri) = uri"
  by (auto simp: name_id_format_from_uri_def find_Some_iff split: option.split)

record name_id =
  nid_value :: string
  nid_format :: "name_id_format option"

datatype name_id_creation_request = CreationUnspecified | AllowCreate | DoNotAllowCreate

record name_id_policy =
  nip_format :: "name_id_format option"
  nip_creation :: name_id_creation_request

definition name_id_policy_from_parsed :: "name_id_format option \<Rightarrow> bool option \<Rightarrow> name_id_policy option" where
  "name_id_policy_from_parsed format allow_create =
     (if format = None \<and> allow_create = None then None
      else Some \<lparr>nip_format = format,
                 nip_creation = (case allow_create of
                    Some True \<Rightarrow> AllowCreate | Some False \<Rightarrow> DoNotAllowCreate | None \<Rightarrow> CreationUnspecified)\<rparr>)"

definition allow_create :: "name_id_policy \<Rightarrow> bool option" where
  "allow_create p =
     (case nip_creation p of CreationUnspecified \<Rightarrow> None | AllowCreate \<Rightarrow> Some True | DoNotAllowCreate \<Rightarrow> Some False)"

datatype subject_confirmation = SubjectConfirmation (raw_xml: string)

record subject =
  sub_name_id :: name_id
  sub_confirmations :: "subject_confirmation list"

record attribute =
  at_name :: string
  at_name_format :: "string option"
  at_values :: "string list"

definition attributes_get :: "attribute list \<Rightarrow> string \<Rightarrow> attribute option" where
  "attributes_get as name = find (\<lambda>a. at_name a = name) as"

record authn_session =
  as_session_index :: "session_index option"
  as_authn_instant :: "saml_instant option"
  as_not_on_or_after :: "saml_instant option"

definition empty_authn_session :: authn_session where
  "empty_authn_session = \<lparr>as_session_index = None, as_authn_instant = None, as_not_on_or_after = None\<rparr>"

section \<open>Reading the extracted tree\<close>

definition required_str :: "saml_value \<Rightarrow> string \<Rightarrow> string res" where
  "required_str ex path = ok_or (get_str ex path) (Invalid (''missing extracted field '' @ path))"

definition optional_request_id :: "saml_value \<Rightarrow> string \<Rightarrow> message_id option res" where
  "optional_request_id ex path =
     opt_traverse message_id_try_new
       (case get_str ex path of Some v \<Rightarrow> if v \<noteq> [] then Some v else None | None \<Rightarrow> None)"

definition optional_endpoint :: "('e) net_ext_scheme \<Rightarrow> saml_value \<Rightarrow> string \<Rightarrow> endpoint_url option res" where
  "optional_endpoint E ex path = opt_traverse (endpoint_url_try_new E) (get_str ex path)"

text \<open>\<open>str::parse::<u16>()\<close>: an optional plus sign, then digits, at most 65535.\<close>

definition parse_u16 :: "string \<Rightarrow> nat option" where
  "parse_u16 s =
     (let ds = (case s of c # cs \<Rightarrow> if c = CHR ''+'' then cs else s | [] \<Rightarrow> []) in
      if ds \<noteq> [] \<and> list_all is_ascii_digit ds \<and> year_value ds \<le> 65535 then Some (year_value ds) else None)"

definition optional_u16 :: "saml_value \<Rightarrow> string \<Rightarrow> nat option res" where
  "optional_u16 ex path =
     opt_traverse (\<lambda>v. ok_or (parse_u16 v) (Invalid (path @ '' must be an unsigned 16-bit integer'')))
       (get_str ex path)"

definition conditions_instants :: "saml_value \<Rightarrow> (saml_instant option \<times> saml_instant option) res" where
  "conditions_instants ex =
     rbind (conditions_time_bounds ex) (\<lambda>(not_before, not_on_or_after).
     rbind (opt_traverse saml_instant_try_new not_before) (\<lambda>nb.
     rbind (opt_traverse saml_instant_try_new not_on_or_after) (\<lambda>na.
       Inr (nb, na))))"

definition parse_bool :: "string \<Rightarrow> bool res" where
  "parse_bool value =
     (if value \<in> {''true'', ''1''} then Inr True
      else if value \<in> {''false'', ''0''} then Inr False
      else Inl (Invalid ''NameIDPolicy AllowCreate must be a boolean''))"

definition name_id_policy_from_extract :: "saml_value \<Rightarrow> name_id_policy option res" where
  "name_id_policy_from_extract ex =
     (let format = map_option name_id_format_from_uri (get_str ex ''nameIDPolicy.format'') in
      rbind (opt_traverse parse_bool (get_str ex ''nameIDPolicy.allowCreate'')) (\<lambda>allow.
        Inr (name_id_policy_from_parsed format allow)))"

fun value_strings :: "saml_value \<Rightarrow> string list" where
  "value_strings (VStr v) = [v]"
| "value_strings (VArray vs) = some_values as_str vs"
| "value_strings VNull = []"
| "value_strings (VObject es) = []"

definition attributes_from_extract :: "saml_value \<Rightarrow> attribute list" where
  "attributes_from_extract ex =
     (case get_path ex ''attributes'' of
        Some (VObject entries) \<Rightarrow>
          map (\<lambda>(name, v). \<lparr>at_name = name, at_name_format = None, at_values = value_strings v\<rparr>) entries
      | _ \<Rightarrow> [])"

definition subject_confirmations_from_extract :: "saml_value \<Rightarrow> subject_confirmation list" where
  "subject_confirmations_from_extract ex =
     (case get_path ex ''subjectConfirmation'' of
        Some (VStr xml) \<Rightarrow> [SubjectConfirmation xml]
      | Some (VArray vs) \<Rightarrow> map SubjectConfirmation (some_values as_str vs)
      | _ \<Rightarrow> [])"

definition authn_statement_values :: "saml_value \<Rightarrow> saml_value list res" where
  "authn_statement_values ex =
     (case get_path ex ''sessionIndex'' of
        Some (VObject es) \<Rightarrow> Inr [VObject es]
      | Some (VArray vs) \<Rightarrow>
          traverse (\<lambda>v. case v of VObject es \<Rightarrow> Inr v
             | _ \<Rightarrow> Inl (Invalid ''extracted AuthnStatement array must contain only objects'')) vs
      | Some (VStr s) \<Rightarrow> Inl (Invalid ''extracted AuthnStatement must be an object or array of objects'')
      | _ \<Rightarrow> Inr [])"

definition optional_authn_statement_str :: "saml_value \<Rightarrow> string \<Rightarrow> string option res" where
  "optional_authn_statement_str statement fld =
     (case get_path statement fld of
        Some (VStr v) \<Rightarrow> Inr (Some v)
      | Some VNull \<Rightarrow> Inr None
      | None \<Rightarrow> Inr None
      | _ \<Rightarrow> Inl (Invalid (''extracted AuthnStatement '' @ fld @ '' must be a string'')))"

definition authn_statement_not_on_or_after_values :: "saml_value \<Rightarrow> string list res" where
  "authn_statement_not_on_or_after_values ex =
     rbind (authn_statement_values ex) (\<lambda>sts.
     rbind (traverse (\<lambda>st. optional_authn_statement_str st ''sessionNotOnOrAfter'') sts) (\<lambda>vs.
       Inr (some_values id vs)))"

definition authn_sessions_from_extract :: "saml_value \<Rightarrow> authn_session list res" where
  "authn_sessions_from_extract ex =
     rbind (authn_statement_values ex) (traverse (\<lambda>statement.
       rbind (rbind (optional_authn_statement_str statement ''sessionIndex'') (opt_traverse session_index_try_new)) (\<lambda>si.
       rbind (rbind (optional_authn_statement_str statement ''authnInstant'') (opt_traverse saml_instant_try_new)) (\<lambda>ai.
       rbind (rbind (optional_authn_statement_str statement ''sessionNotOnOrAfter'')
                (opt_traverse saml_instant_try_new)) (\<lambda>na.
         Inr \<lparr>as_session_index = si, as_authn_instant = ai, as_not_on_or_after = na\<rparr>)))))"

definition entity_ids_from_value :: "saml_value option \<Rightarrow> entity_id list res" where
  "entity_ids_from_value v =
     (case v of None \<Rightarrow> Inr [] | Some x \<Rightarrow> traverse entity_id_try_new (value_strings x))"

definition session_indexes_from_value :: "saml_value option \<Rightarrow> session_index list res" where
  "session_indexes_from_value v =
     (case v of None \<Rightarrow> Inr [] | Some x \<Rightarrow> traverse session_index_try_new (value_strings x))"

section \<open>Attribute values\<close>

lemma some_values_simps [simp]:
  "some_values f [] = []"
  "some_values f (x # xs) = (case f x of Some y \<Rightarrow> y # some_values f xs | None \<Rightarrow> some_values f xs)"
  by (simp_all add: some_values_def split: option.split)

lemma some_values_append [simp]: "some_values f (xs @ ys) = some_values f xs @ some_values f ys"
  by (simp add: some_values_def)

text \<open>Every later occurrence of a name counts only when it is a single string.\<close>

lemma value_strings_aggregate:
  "value_strings (foldl aggregate_slot v vs) = value_strings v @ some_values as_str vs"
proof (cases "vs = [] \<or> as_array v \<noteq> None")
  case True
  then show ?thesis
    by (cases v) (auto simp: foldl_aggregate_array)
next
  case False
  then show ?thesis by (cases v) (auto simp: foldl_aggregate_scalar foldl_aggregate_array)
qed

lemma value_strings_one_or_array: "value_strings (one_or_array (map VStr ss)) = ss"
proof (cases ss)
  case (Cons s rest)
  have "some_values as_str (map VStr ss) = ss" for ss by (induction ss) auto
  with Cons show ?thesis by (cases rest) (auto simp: one_or_array_def)
qed (simp add: one_or_array_def)

lemma as_str_one_or_array: "as_str (one_or_array (map VStr ss)) = (if length ss = 1 then Some (hd ss) else None)"
  by (cases ss; cases "tl ss") (auto simp: one_or_array_def)

definition attribute_texts :: "string list \<Rightarrow> node \<Rightarrow> string list" where
  "attribute_texts attribute_path n = map node_text (descend n attribute_path)"

lemma aggregate_values_texts: "aggregate_values path [] n = one_or_array (map VStr (attribute_texts path n))"
  by (simp add: aggregate_values_def attribute_texts_def comp_def)

lemma values_for_zip_map:
  "values_for k (zip (map f ns) (map g ns)) = map g (filter (\<lambda>n. f n = k) ns)"
  by (induction ns) auto

lemma some_values_texts:
  "some_values as_str (map (aggregate_values path []) ns) =
     concat (map (\<lambda>n. if length (attribute_texts path n) = 1 then attribute_texts path n else []) ns)"
proof (induction ns)
  case (Cons n ns)
  show ?case
  proof (cases "length (attribute_texts path n) = 1")
    case True
    then obtain a where a: "attribute_texts path n = [a]" by (auto simp: length_Suc_conv)
    have "as_str (aggregate_values path [] n) = Some a"
      using as_str_one_or_array [of "[a]"] by (simp add: aggregate_values_texts a)
    with Cons a show ?thesis by simp
  next
    case False
    then have "as_str (aggregate_values path [] n) = None"
      by (simp add: aggregate_values_texts as_str_one_or_array)
    with Cons False show ?thesis by simp
  qed
qed simp

definition attribute_strings :: "saml_value \<Rightarrow> string \<Rightarrow> string list" where
  "attribute_strings v name = (case get_key v name of Some x \<Rightarrow> value_strings x | None \<Rightarrow> [])"

text \<open>
  C38: what the typed API sees of an attribute name that several Attribute elements share: all values
  of the first element, then of each later element its value when it has exactly one. A later
  element with two or more values is lost, since it is nested as an array the reader skips.
\<close>

theorem aggregate_attribute_strings:
  "attribute_strings (aggregate nodes [key] path []) name =
     (case filter (\<lambda>n. str_or_empty (node_attr n key) = name) nodes of
        [] \<Rightarrow> []
      | n # ns \<Rightarrow> attribute_texts path n @
          concat (map (\<lambda>m. if length (attribute_texts path m) = 1 then attribute_texts path m else []) ns))"
  by (simp add: attribute_strings_def aggregate_def zip_object_def zip_loop_aggregate_lookup
      values_for_zip_map value_strings_aggregate some_values_texts aggregate_values_texts
      value_strings_one_or_array split: list.split)

section \<open>The two readers of session bounds\<close>

lemma traverse_rbind_map:
  "traverse (\<lambda>x. rbind (f x) (\<lambda>y. Inr (g y))) xs = rbind (traverse f xs) (\<lambda>ys. Inr (map g ys))"
  by (induction xs) (auto simp: rbind_assoc)

lemma traverse_mono:
  "traverse f xs = Inr ys \<Longrightarrow> (\<And>x y. x \<in> set xs \<Longrightarrow> f x = Inr y \<Longrightarrow> g x = Inr (h y)) \<Longrightarrow>
     traverse g xs = Inr (map h ys)"
  by (induction xs arbitrary: ys) (auto simp: result_simps)

text \<open>The session bounds the response check reads are those of the typed sessions, in document order.\<close>

lemma authn_sessions_bounds:
  assumes "authn_sessions_from_extract ex = Inr ss"
  shows "authn_statement_not_on_or_after_values ex =
     Inr (map saml_instant_str (some_values as_not_on_or_after ss))"
proof -
  from assms obtain sts where sts: "authn_statement_values ex = Inr sts"
    unfolding authn_sessions_from_extract_def rbind_Inr_iff by blast
  have "traverse (\<lambda>st. optional_authn_statement_str st ''sessionNotOnOrAfter'') sts =
      Inr (map (\<lambda>s. map_option saml_instant_str (as_not_on_or_after s)) ss)"
  proof (rule traverse_mono)
    show "traverse (\<lambda>statement.
       rbind (rbind (optional_authn_statement_str statement ''sessionIndex'') (opt_traverse session_index_try_new)) (\<lambda>si.
       rbind (rbind (optional_authn_statement_str statement ''authnInstant'') (opt_traverse saml_instant_try_new)) (\<lambda>ai.
       rbind (rbind (optional_authn_statement_str statement ''sessionNotOnOrAfter'')
                (opt_traverse saml_instant_try_new)) (\<lambda>na.
         Inr \<lparr>as_session_index = si, as_authn_instant = ai, as_not_on_or_after = na\<rparr>)))) sts = Inr ss"
      using assms sts by (simp add: authn_sessions_from_extract_def)
  qed (auto simp: rbind_Inr_iff ins.opt_try_new)
  moreover have "some_values id (map (\<lambda>s. map_option saml_instant_str (as_not_on_or_after s)) ss) =
      map saml_instant_str (some_values as_not_on_or_after ss)"
    by (induction ss) (auto split: option.split)
  ultimately show ?thesis using sts by (simp add: authn_statement_not_on_or_after_values_def)
qed

end
