(* ===== verification/Replay.thy ===== *)
theory Replay
  imports Model
begin

text \<open>
  Replay protection (\<open>src/src/model/validation.rs\<close>). The cache is the caller's: the trait
  \<open>ReplayCache\<close> is a state with a \<open>check_and_store\<close> function, passed to every operation
  that uses it. What it promises is the locale \<open>retaining_cache\<close>: a key is kept until the deadline it was
  stored with. A cache that forgets nothing, like the example of the trait's documentation, also provides
  \<open>replay_cache\<close>: a key is accepted at most once.
\<close>

section \<open>Keys\<close>

record clock_skew =
  not_before_ms :: int
  not_on_or_after_ms :: int

definition clock_skew_strict :: clock_skew where
  "clock_skew_strict = \<lparr>not_before_ms = 0, not_on_or_after_ms = 0\<rparr>"

definition as_millis :: "clock_skew \<Rightarrow> int \<times> int" where
  "as_millis s = (not_before_ms s, not_on_or_after_ms s)"

datatype replay_key =
  CompletedAuthnRequestId message_id
| CompletedLogoutRequestId message_id
| AuthnRequestId message_id
| LogoutRequestId message_id
| LogoutResponseId message_id
| ResponseId message_id
| AssertionIdKey assertion_id

fun replay_kind :: "replay_key \<Rightarrow> string" where
  "replay_kind (CompletedAuthnRequestId _) = ''completed_authn_request_id''"
| "replay_kind (CompletedLogoutRequestId _) = ''completed_logout_request_id''"
| "replay_kind (AuthnRequestId _) = ''authn_request_id''"
| "replay_kind (LogoutRequestId _) = ''logout_request_id''"
| "replay_kind (LogoutResponseId _) = ''logout_response_id''"
| "replay_kind (ResponseId _) = ''response_id''"
| "replay_kind (AssertionIdKey _) = ''assertion_id''"

fun replay_value :: "replay_key \<Rightarrow> string" where
  "replay_value (CompletedAuthnRequestId i) = message_id_str i"
| "replay_value (CompletedLogoutRequestId i) = message_id_str i"
| "replay_value (AuthnRequestId i) = message_id_str i"
| "replay_value (LogoutRequestId i) = message_id_str i"
| "replay_value (LogoutResponseId i) = message_id_str i"
| "replay_value (ResponseId i) = message_id_str i"
| "replay_value (AssertionIdKey i) = assertion_id_str i"

definition cache_key :: "replay_key \<Rightarrow> string" where
  "cache_key k = replay_kind k @ '':'' @ replay_value k"

lemma replay_kind_no_colon: "CHR '':'' \<notin> set (replay_kind k)"
  by (cases k) simp_all

lemma split_at_colon:
  "c \<notin> set a \<Longrightarrow> c \<notin> set b \<Longrightarrow> a @ c # x = b @ c # y \<longleftrightarrow> a = b \<and> x = y"
proof (induction a arbitrary: b)
  case Nil
  then show ?case by (cases b) auto
next
  case (Cons d a)
  then show ?case by (cases b) auto
qed

lemma replay_key_eqI:
  "replay_kind k = replay_kind l \<Longrightarrow> replay_value k = replay_value l \<Longrightarrow> k = l"
  by (cases k; cases l) (auto intro: message_id.expand assertion_id.expand)

text \<open>
  cache keys separate the identifier families: two replay keys have the same cache key only when
  they are the same key, whatever the identifiers contain.
\<close>

theorem cache_key_inject: "cache_key k = cache_key l \<longleftrightarrow> k = l"
  using split_at_colon [OF replay_kind_no_colon replay_kind_no_colon, of k "replay_value k" l "replay_value l"]
  by (auto simp: cache_key_def intro: replay_key_eqI)

section \<open>The cache interface\<close>

type_synonym 'c check_and_store = "'c \<Rightarrow> replay_key \<Rightarrow> systime \<Rightarrow> 'c \<times> unit res"

locale replay_cache =
  fixes check_and_store :: "'c check_and_store"
    and seen :: "'c \<Rightarrow> string set"
  assumes accept_stores:
      "check_and_store c k t = (c', Inr ()) \<Longrightarrow> cache_key k \<notin> seen c \<and> seen c' = insert (cache_key k) (seen c)"
    and reject_keeps: "check_and_store c k t = (c', Inl e) \<Longrightarrow> seen c \<subseteq> seen c'"
begin

lemma seen_mono: "check_and_store c k t = (c', r) \<Longrightarrow> seen c \<subseteq> seen c'"
  using accept_stores reject_keeps by (cases r) auto

inductive cache_steps :: "'c \<Rightarrow> 'c \<Rightarrow> bool" where
  steps_refl: "cache_steps c c"
| steps_step: "cache_steps c d \<Longrightarrow> check_and_store d k t = (e, r) \<Longrightarrow> cache_steps c e"

lemma cache_steps_seen: "cache_steps c d \<Longrightarrow> seen c \<subseteq> seen d"
  by (induction rule: cache_steps.induct) (auto dest: seen_mono)

end

text \<open>
  The cache of the trait's documentation: a map from cache keys to their expiry, never emptied.
\<close>

definition minimal_check_and_store :: "(string, systime) map check_and_store" where
  "minimal_check_and_store seen key expires_at =
     (let k = cache_key key in
      if seen k \<noteq> None then (seen, Inl (ReplayDetected k)) else (seen(k \<mapsto> expires_at), Inr ()))"

interpretation minimal: replay_cache minimal_check_and_store dom
  by unfold_locales (auto simp: minimal_check_and_store_def Let_def split: if_splits)

section \<open>A cache that keeps a key until it expires\<close>

text \<open>
  The contract of the trait (\<open>src/src/model/validation.rs\<close>): a key is stored until \<open>expires_at\<close>. Until that
  instant on the clock of the cache the key is not accepted again and not dropped; afterwards the cache may
  do either.
\<close>

locale retaining_cache =
  fixes check_and_store :: "'c check_and_store"
    and deadlines :: "'c \<Rightarrow> string \<rightharpoonup> systime"
    and cache_now :: "'c \<Rightarrow> systime"
  assumes accept_free:
      "check_and_store c k t = (c', Inr ()) \<Longrightarrow> deadlines c (cache_key k) = Some d \<Longrightarrow> d \<le> cache_now c"
    and accept_holds: "check_and_store c k t = (c', Inr ()) \<Longrightarrow> deadlines c' (cache_key k) = Some t"
    and keeps: "check_and_store c k t = (c', r) \<Longrightarrow> deadlines c q = Some d \<Longrightarrow> cache_now c < d \<Longrightarrow> deadlines c' q = Some d"
    and clock_kept: "check_and_store c k t = (c', r) \<Longrightarrow> cache_now c' = cache_now c"

text \<open>
  What other workers and time do to the cache in between: operations with any keys and deadlines, and the
  clock moves on, at which keys whose deadline has passed may be dropped.
\<close>

inductive cache_run :: "'c check_and_store \<Rightarrow> ('c \<Rightarrow> string \<rightharpoonup> systime) \<Rightarrow> ('c \<Rightarrow> systime) \<Rightarrow> 'c \<Rightarrow> 'c \<Rightarrow> bool"
  for cas deadlines cache_now where
  run_refl: "cache_run cas deadlines cache_now c c"
| run_step: "cache_run cas deadlines cache_now c d \<Longrightarrow> cas d k t = (e, r) \<Longrightarrow> cache_run cas deadlines cache_now c e"
| run_time: "cache_run cas deadlines cache_now c d \<Longrightarrow> cache_now d \<le> cache_now e \<Longrightarrow>
    (\<And>q t. deadlines d q = Some t \<Longrightarrow> cache_now e < t \<Longrightarrow> deadlines e q = Some t) \<Longrightarrow> cache_run cas deadlines cache_now c e"

context retaining_cache
begin

definition retained :: "'c \<Rightarrow> string \<Rightarrow> systime \<Rightarrow> bool" where
  "retained c q t \<longleftrightarrow> deadlines c q = Some t \<or> t \<le> cache_now c"

lemma retained_step: "retained c q t \<Longrightarrow> check_and_store c k u = (c', r) \<Longrightarrow> retained c' q t"
  unfolding retained_def using keeps clock_kept by (metis not_le)

lemma retained_run: "cache_run check_and_store deadlines cache_now c d \<Longrightarrow> retained c q t \<Longrightarrow> retained d q t"
proof (induction rule: cache_run.induct)
  case (run_step c d k u e r)
  then show ?case using retained_step by blast
next
  case (run_time c d e)
  then show ?case unfolding retained_def by (meson not_le order_trans)
qed

lemma retained_new: "check_and_store c k t = (c', Inr ()) \<Longrightarrow> retained c' (cache_key k) t"
  unfolding retained_def using accept_holds by blast

lemma accepted_expired: "retained c (cache_key k) t \<Longrightarrow> check_and_store c k u = (c', Inr ()) \<Longrightarrow> t \<le> cache_now c"
  unfolding retained_def using accept_free by blast

end

text \<open>
  The cache of the repository's logout tests (\<open>src/tests/typed_slo.rs\<close>): it drops what has expired before it looks
  a key up.
\<close>

record expiring_cache =
  ec_now :: systime
  ec_seen :: "string \<rightharpoonup> systime"

definition expiring_check_and_store :: "expiring_cache check_and_store" where
  "expiring_check_and_store c key expires_at =
     (let live = (\<lambda>q. case ec_seen c q of Some d \<Rightarrow> if ec_now c < d then Some d else None | None \<Rightarrow> None);
          k = cache_key key in
      if live k \<noteq> None then (c\<lparr>ec_seen := live\<rparr>, Inl (ReplayDetected k))
      else (c\<lparr>ec_seen := live(k \<mapsto> expires_at)\<rparr>, Inr ()))"

interpretation expiring: retaining_cache expiring_check_and_store ec_seen ec_now
  by unfold_locales (auto simp: expiring_check_and_store_def Let_def split: if_splits option.splits)

text \<open>The documented cache, which never drops a key, keeps the contract with any clock that stands still.\<close>

interpretation minimal_retaining: retaining_cache minimal_check_and_store "\<lambda>c. c" "\<lambda>_. t" for t
  by unfold_locales (auto simp: minimal_check_and_store_def Let_def split: if_splits)

section \<open>Validation context\<close>

datatype 'c replay_policy = DisabledForCompatibility | RequireCache 'c

record 'c validation_context =
  vc_now :: systime
  vc_clock_skew :: clock_skew
  vc_replay :: "'c replay_policy"
  vc_replay_retention :: "nat option"

definition validation_context_new :: "systime \<Rightarrow> 'c replay_policy \<Rightarrow> 'c validation_context" where
  "validation_context_new now replay =
     \<lparr>vc_now = now, vc_clock_skew = clock_skew_strict, vc_replay = replay, vc_replay_retention = None\<rparr>"

definition with_clock_skew :: "clock_skew \<Rightarrow> 'c validation_context \<Rightarrow> 'c validation_context" where
  "with_clock_skew s v = v\<lparr>vc_clock_skew := s\<rparr>"

definition with_replay_retention :: "nat \<Rightarrow> 'c validation_context \<Rightarrow> 'c validation_context" where
  "with_replay_retention r v = v\<lparr>vc_replay_retention := Some r\<rparr>"

definition now_offset :: "('e) time_ext_scheme \<Rightarrow> 'c validation_context \<Rightarrow> odt res" where
  "now_offset E v = offset_datetime_from_system_time E (vc_now v)"

definition require_pending_expiration :: "'c validation_context \<Rightarrow> odt option \<Rightarrow> unit res" where
  "require_pending_expiration v deadline =
     (if (case vc_replay v of RequireCache _ \<Rightarrow> True | _ \<Rightarrow> False) \<and> deadline = None
      then Inl (TimeWindowInvalid PendingRequestExpiration) else Inr ())"

definition message_replay_expires_at :: "'c validation_context \<Rightarrow> systime res" where
  "message_replay_expires_at v =
     (case vc_replay_retention v of
        None \<Rightarrow> Inl (TimeWindowInvalid ReplayExpiration)
      | Some retention \<Rightarrow>
          if retention \<le> 0 then Inl (TimeWindowInvalid ReplayExpiration)
          else ok_or (sys_checked_add (vc_now v) retention) (TimeWindowInvalid ReplayExpiration))"

text \<open>One \<open>check_and_store\<close> on the cache of the context; the state is returned either way.\<close>

definition store_in_context :: "'c check_and_store \<Rightarrow> 'c validation_context \<Rightarrow> replay_key \<Rightarrow> systime \<Rightarrow>
    'c validation_context \<times> unit res" where
  "store_in_context cas v key expires_at =
     (case vc_replay v of
        DisabledForCompatibility \<Rightarrow> (v, Inr ())
      | RequireCache cache \<Rightarrow>
          let (cache', r) = cas cache key expires_at in (v\<lparr>vc_replay := RequireCache cache'\<rparr>, r))"

definition check_and_store_message_replay :: "'c check_and_store \<Rightarrow> 'c validation_context \<Rightarrow> replay_key \<Rightarrow>
    'c validation_context \<times> unit res" where
  "check_and_store_message_replay cas v key =
     (case vc_replay v of
        DisabledForCompatibility \<Rightarrow> (v, Inr ())
      | RequireCache _ \<Rightarrow>
          (case message_replay_expires_at v of
             Inl e \<Rightarrow> (v, Inl e)
           | Inr expires_at \<Rightarrow> store_in_context cas v key expires_at))"

definition check_and_store_message_replay_until :: "'c check_and_store \<Rightarrow> 'c validation_context \<Rightarrow> replay_key \<Rightarrow>
    odt option \<Rightarrow> 'c validation_context \<times> unit res" where
  "check_and_store_message_replay_until cas v key derived_deadline =
     (case vc_replay v of
        DisabledForCompatibility \<Rightarrow> (v, Inr ())
      | RequireCache _ \<Rightarrow>
          (case (case derived_deadline of
                   Some d \<Rightarrow> system_time_from_offset_datetime d
                 | None \<Rightarrow> message_replay_expires_at v) of
             Inl e \<Rightarrow> (v, Inl e)
           | Inr expires_at \<Rightarrow> store_in_context cas v key expires_at))"

lemma store_in_context_RequireCache:
  "vc_replay v = RequireCache c \<Longrightarrow>
     store_in_context cas v k t = (v\<lparr>vc_replay := RequireCache (fst (cas c k t))\<rparr>, snd (cas c k t))"
  by (simp add: store_in_context_def case_prod_unfold Let_def)

text \<open>
  a message whose replay check succeeds under a required cache was stored for longer than the
  instant of the check: until the derived deadline when there is one, otherwise for the configured,
  non-zero retention from now.
\<close>

theorem message_replay_until_stores:
  assumes "vc_replay v = RequireCache c"
    "check_and_store_message_replay_until cas v key deadline = (v', Inr ())"
  shows "\<exists>t. cas c key t = (fst (cas c key t), Inr ()) \<and> vc_replay v' = RequireCache (fst (cas c key t))
     \<and> (case deadline of
          Some d \<Rightarrow> sys_ns t = odt_ns d
        | None \<Rightarrow> \<exists>r. vc_replay_retention v = Some r \<and> 0 < r \<and> sys_ns t = sys_ns (vc_now v) + int r)"
proof -
  from assms obtain t where t:
    "(case deadline of Some d \<Rightarrow> system_time_from_offset_datetime d | None \<Rightarrow> message_replay_expires_at v) = Inr t"
    "store_in_context cas v key t = (v', Inr ())"
    by (auto simp: check_and_store_message_replay_until_def split: sum.splits)
  from t(2) have "cas c key t = (fst (cas c key t), Inr ()) \<and> vc_replay v' = RequireCache (fst (cas c key t))"
    using assms(1) by (cases "cas c key t") (auto simp: store_in_context_def)
  moreover have "case deadline of Some d \<Rightarrow> sys_ns t = odt_ns d
      | None \<Rightarrow> \<exists>r. vc_replay_retention v = Some r \<and> 0 < r \<and> sys_ns t = sys_ns (vc_now v) + int r"
    using t(1) by (auto simp: system_time_from_offset_datetime_eq message_replay_expires_at_def sys_checked_add_def
        ok_or_Inr_iff split: option.splits if_splits)
  ultimately show ?thesis by blast
qed

lemma message_replay_until_stores_witness:
  "\<exists>t. minimal_check_and_store Map.empty (ResponseId (MessageId ''r'')) t
       = (fst (minimal_check_and_store Map.empty (ResponseId (MessageId ''r'')) t), Inr ()) \<and> sys_ns t = 7"
  using message_replay_until_stores [of "validation_context_new (SysTime 3) (RequireCache Map.empty)" Map.empty
      minimal_check_and_store "ResponseId (MessageId ''r'')" "Some (Odt 7)"
      "validation_context_new (SysTime 3) (RequireCache [cache_key (ResponseId (MessageId ''r'')) \<mapsto> SysTime 7])"]
  by (auto simp: validation_context_new_def check_and_store_message_replay_until_def store_in_context_def
      system_time_from_offset_datetime_eq sys_in_range_def minimal_check_and_store_def)

section \<open>A cache that keeps keys, in a context\<close>

context retaining_cache
begin

text \<open>An operation on the context keeps what the cache has to keep.\<close>

definition keeps_context :: "'c validation_context \<Rightarrow> 'c validation_context \<Rightarrow> bool" where
  "keeps_context v v' \<longleftrightarrow> (\<forall>c. vc_replay v = RequireCache c \<longrightarrow>
     (\<exists>c'. vc_replay v' = RequireCache c' \<and> cache_now c' = cache_now c \<and> (\<forall>q t. retained c q t \<longrightarrow> retained c' q t)))"

lemma keeps_context_refl: "keeps_context v v"
  by (auto simp: keeps_context_def)

lemma keeps_context_trans: "keeps_context v v' \<Longrightarrow> keeps_context v' v'' \<Longrightarrow> keeps_context v v''"
  unfolding keeps_context_def by metis

lemma store_keeps_context: "store_in_context check_and_store v k t = (v', r) \<Longrightarrow> keeps_context v v'"
  unfolding keeps_context_def using retained_step clock_kept
  by (force simp: store_in_context_def split: prod.splits)

lemma message_keeps_context:
  "check_and_store_message_replay check_and_store v k = (v', r) \<Longrightarrow> keeps_context v v'"
  by (auto simp: check_and_store_message_replay_def intro: store_keeps_context keeps_context_refl
      split: replay_policy.splits sum.splits)

lemma stored_retained:
  assumes "store_in_context check_and_store v k t = (v', Inr ())" "vc_replay v = RequireCache c"
  shows "\<exists>c'. vc_replay v' = RequireCache c' \<and> retained c' (cache_key k) t"
  using assms retained_new by (force simp: store_in_context_def split: prod.splits)

lemma stored_expired:
  assumes "store_in_context check_and_store v k u = (v', Inr ())" "vc_replay v = RequireCache c" "retained c (cache_key k) t"
  shows "t \<le> cache_now c"
  using assms accepted_expired by (force simp: store_in_context_def split: prod.splits)

end

end
