(* ===== verification/Browser.thy ===== *)
theory Browser
  imports Replay
begin

text \<open>
  The binding and endpoint wrappers of \<open>src/src/browser/bindings.rs\<close> and
  \<open>src/src/browser/endpoints.rs\<close>. Each wrapper type is a subset of the bindings; the
  locale \<open>binding_wrapper\<close> is the contract the three share.
\<close>

section \<open>Bindings\<close>

datatype sso_request_binding = RequestRedirect | RequestPost | RequestSimpleSign
datatype sso_response_binding = ResponsePost | ResponseSimpleSign
datatype logout_binding = LogoutRedirect | LogoutPost | LogoutSimpleSign

fun sso_request_as_binding :: "sso_request_binding \<Rightarrow> binding" where
  "sso_request_as_binding RequestRedirect = Redirect"
| "sso_request_as_binding RequestPost = Post"
| "sso_request_as_binding RequestSimpleSign = SimpleSign"

fun sso_request_try_from :: "binding \<Rightarrow> sso_request_binding res" where
  "sso_request_try_from Redirect = Inr RequestRedirect"
| "sso_request_try_from Post = Inr RequestPost"
| "sso_request_try_from SimpleSign = Inr RequestSimpleSign"
| "sso_request_try_from Artifact = Inl UndefinedBinding"

fun sso_response_as_binding :: "sso_response_binding \<Rightarrow> binding" where
  "sso_response_as_binding ResponsePost = Post"
| "sso_response_as_binding ResponseSimpleSign = SimpleSign"

fun sso_response_try_from :: "binding \<Rightarrow> sso_response_binding res" where
  "sso_response_try_from Post = Inr ResponsePost"
| "sso_response_try_from SimpleSign = Inr ResponseSimpleSign"
| "sso_response_try_from Redirect = Inl UndefinedBinding"
| "sso_response_try_from Artifact = Inl UndefinedBinding"

fun logout_as_binding :: "logout_binding \<Rightarrow> binding" where
  "logout_as_binding LogoutRedirect = Redirect"
| "logout_as_binding LogoutPost = Post"
| "logout_as_binding LogoutSimpleSign = SimpleSign"

fun logout_try_from :: "binding \<Rightarrow> logout_binding res" where
  "logout_try_from Redirect = Inr LogoutRedirect"
| "logout_try_from Post = Inr LogoutPost"
| "logout_try_from SimpleSign = Inr LogoutSimpleSign"
| "logout_try_from Artifact = Inl UndefinedBinding"

text \<open>\<open>Binding::from_short_name(value).or_else(|| Binding::from_urn(value))\<close>\<close>

definition binding_from_snapshot_value :: "string \<Rightarrow> binding res" where
  "binding_from_snapshot_value v =
     ok_or (case from_short_name v of Some b \<Rightarrow> Some b | None \<Rightarrow> from_urn v) UndefinedBinding"

lemma binding_from_snapshot_value_short_name [simp]:
  "binding_from_snapshot_value (short_name b) = Inr b"
  by (simp add: binding_from_snapshot_value_def)

lemma binding_from_snapshot_value_Inr:
  "binding_from_snapshot_value v = Inr b \<Longrightarrow> v = short_name b \<or> v = binding_urn b"
  by (auto simp: binding_from_snapshot_value_def ok_or_Inr_iff dest: from_short_name_SomeD from_urn_SomeD
      split: option.splits)

locale binding_wrapper =
  fixes as_binding :: "'w \<Rightarrow> binding"
    and try_from :: "binding \<Rightarrow> 'w res"
  assumes try_from_Inr: "try_from b = Inr w \<longleftrightarrow> as_binding w = b"
begin

lemma try_from_as_binding [simp]: "try_from (as_binding w) = Inr w"
  by (simp add: try_from_Inr)

lemma as_binding_inject: "as_binding v = as_binding w \<longleftrightarrow> v = w"
  by (metis sum.inject(2) try_from_as_binding)

lemma snapshot_roundtrip: "rbind (binding_from_snapshot_value (short_name (as_binding w))) try_from = Inr w"
  by simp

lemma opt_snapshot_roundtrip:
  "opt_traverse (\<lambda>v. rbind (binding_from_snapshot_value v) try_from)
     (map_option (\<lambda>w. short_name (as_binding w)) x) = Inr x"
  by (cases x) simp_all

end

interpretation req: binding_wrapper sso_request_as_binding sso_request_try_from
proof
  show "sso_request_try_from b = Inr w \<longleftrightarrow> sso_request_as_binding w = b" for b w
    by (cases b; cases w) simp_all
qed

interpretation resp: binding_wrapper sso_response_as_binding sso_response_try_from
proof
  show "sso_response_try_from b = Inr w \<longleftrightarrow> sso_response_as_binding w = b" for b w
    by (cases b; cases w) simp_all
qed

interpretation lgo: binding_wrapper logout_as_binding logout_try_from
proof
  show "logout_try_from b = Inr w \<longleftrightarrow> logout_as_binding w = b" for b w
    by (cases b; cases w) simp_all
qed

section \<open>Endpoints\<close>

text \<open>A raw metadata endpoint (\<open>Endpoint\<close> of \<open>src/src/metadata\<close>).\<close>

record raw_endpoint =
  ep_binding :: binding
  ep_location :: string
  ep_index :: "nat option"
  ep_is_default :: bool

record sso_endpoint =
  sso_ep_binding :: sso_request_binding
  sso_ep_url :: endpoint_url

record acs_endpoint =
  acs_ep_binding :: sso_response_binding
  acs_ep_url :: endpoint_url
  acs_ep_index :: "nat option"
  acs_ep_is_default :: bool

record slo_endpoint =
  slo_ep_binding :: logout_binding
  slo_ep_url :: endpoint_url

definition sso_endpoint_new :: "sso_request_binding \<Rightarrow> endpoint_url \<Rightarrow> sso_endpoint" where
  "sso_endpoint_new b u = \<lparr>sso_ep_binding = b, sso_ep_url = u\<rparr>"

definition sso_endpoint_try_from_raw :: "('e) net_ext_scheme \<Rightarrow> raw_endpoint \<Rightarrow> sso_endpoint res" where
  "sso_endpoint_try_from_raw E ep =
     rbind (sso_request_try_from (ep_binding ep)) (\<lambda>b.
     rbind (endpoint_url_try_new E (ep_location ep)) (\<lambda>u. Inr (sso_endpoint_new b u)))"

definition sso_endpoint_to_raw :: "sso_endpoint \<Rightarrow> raw_endpoint" where
  "sso_endpoint_to_raw e =
     \<lparr>ep_binding = sso_request_as_binding (sso_ep_binding e), ep_location = endpoint_url_str (sso_ep_url e),
      ep_index = None, ep_is_default = False\<rparr>"

definition acs_endpoint_new :: "sso_response_binding \<Rightarrow> endpoint_url \<Rightarrow> acs_endpoint" where
  "acs_endpoint_new b u = \<lparr>acs_ep_binding = b, acs_ep_url = u, acs_ep_index = None, acs_ep_is_default = False\<rparr>"

definition acs_endpoint_try_from_raw :: "('e) net_ext_scheme \<Rightarrow> raw_endpoint \<Rightarrow> acs_endpoint res" where
  "acs_endpoint_try_from_raw E ep =
     rbind (sso_response_try_from (ep_binding ep)) (\<lambda>b.
     rbind (endpoint_url_try_new E (ep_location ep)) (\<lambda>u.
       Inr \<lparr>acs_ep_binding = b, acs_ep_url = u, acs_ep_index = ep_index ep, acs_ep_is_default = ep_is_default ep\<rparr>))"

definition acs_endpoint_to_raw :: "acs_endpoint \<Rightarrow> raw_endpoint" where
  "acs_endpoint_to_raw e =
     \<lparr>ep_binding = sso_response_as_binding (acs_ep_binding e), ep_location = endpoint_url_str (acs_ep_url e),
      ep_index = acs_ep_index e, ep_is_default = acs_ep_is_default e\<rparr>"

definition slo_endpoint_try_from_raw :: "('e) net_ext_scheme \<Rightarrow> raw_endpoint \<Rightarrow> slo_endpoint res" where
  "slo_endpoint_try_from_raw E ep =
     rbind (logout_try_from (ep_binding ep)) (\<lambda>b.
     rbind (endpoint_url_try_new E (ep_location ep)) (\<lambda>u. Inr \<lparr>slo_ep_binding = b, slo_ep_url = u\<rparr>))"

definition slo_endpoint_to_raw :: "slo_endpoint \<Rightarrow> raw_endpoint" where
  "slo_endpoint_to_raw e =
     \<lparr>ep_binding = logout_as_binding (slo_ep_binding e), ep_location = endpoint_url_str (slo_ep_url e),
      ep_index = None, ep_is_default = False\<rparr>"

text \<open>
  a typed ACS endpoint is exactly a raw metadata endpoint whose binding may carry a response and
  whose location is an absolute HTTP(S) URL: narrowing succeeds iff widening the result gives the
  endpoint back and its URL is valid.
\<close>

theorem acs_endpoint_narrowing:
  "acs_endpoint_try_from_raw E ep = Inr e \<longleftrightarrow>
     acs_endpoint_to_raw e = ep \<and> http_url E (ep_location ep)"
  by (cases ep; cases e)
    (auto simp: acs_endpoint_try_from_raw_def acs_endpoint_to_raw_def rbind_Inr_iff resp.try_from_Inr url.try_new_Inr)

lemma sso_endpoint_narrowing:
  "sso_endpoint_try_from_raw E ep = Inr e \<Longrightarrow>
     ep_binding (sso_endpoint_to_raw e) = ep_binding ep \<and> ep_location (sso_endpoint_to_raw e) = ep_location ep
     \<and> http_url E (ep_location ep)"
  by (auto simp: sso_endpoint_try_from_raw_def sso_endpoint_to_raw_def sso_endpoint_new_def rbind_Inr_iff
      req.try_from_Inr url.try_new_Inr)

lemma slo_endpoint_narrowing:
  "slo_endpoint_try_from_raw E ep = Inr e \<Longrightarrow>
     ep_binding (slo_endpoint_to_raw e) = ep_binding ep \<and> ep_location (slo_endpoint_to_raw e) = ep_location ep
     \<and> http_url E (ep_location ep)"
  by (auto simp: slo_endpoint_try_from_raw_def slo_endpoint_to_raw_def rbind_Inr_iff
      lgo.try_from_Inr url.try_new_Inr)

definition sample_url :: string where
  "sample_url = ''https://sp.example/acs''"

definition sample_net :: net_ext where
  "sample_net = xml_ext.extend sample_xml
     \<lparr>url_parse = (\<lambda>s. if s = sample_url then Inr (''https'', True) else Inl ''relative URL without a base'')\<rparr>"

lemma sample_net_url [simp]: "http_url sample_net sample_url"
  by (simp add: http_url_def sample_net_def xml_ext.defs)

end
