(* ===== verification/Profile.thy ===== *)
theory Profile
  imports Browser
begin

text \<open>
  The protocol profile of inbound messages (\<open>src/src/xml/profile.rs\<close>): one pass over the
  namespace-resolved events of the document that checks the root, the namespace of every
  element the extractors read, and the attributes they consume. The reader is
  \<open>quick_xml::NsReader\<close>: a list of steps with the resolved namespace of each event. The
  property that matters to the extractors: on every path the field sets use, an accepted
  document has only elements of the SAML namespace the path means.
\<close>

section \<open>The namespace reader\<close>

datatype resolve_result = Bound string | Unbound | UnknownPrefix string

text \<open>An attribute item: the error, or the qualified name, whether it binds a namespace, its
  resolved namespace, its local name and its decoded value or the error.\<close>

datatype ns_attr = NsAttrErr string | NsAttr string bool resolve_result string "string + string"

datatype ns_event = NsStart string "ns_attr list" | NsEmpty string "ns_attr list" | NsEnd | NsOther

datatype ns_step = NsFail string | NsEvent resolve_result ns_event

text \<open>\<open>ns_read limit xml\<close>: the steps of a reader with \<open>limit\<close> declarations per element.\<close>

record ns_ext = net_ext +
  ns_read :: "nat \<Rightarrow> string \<Rightarrow> ns_step list"

section \<open>Names\<close>

datatype namespace_kind = NkProtocol | NkAssertion | NkDsig | NkXmlEncryption | NkUnbound | NkOther | NkUnknown

record expanded_name =
  en_local :: string
  en_namespace :: namespace_kind
  conditions_seen :: bool
  one_time_use_seen :: bool
  proxy_restriction_seen :: bool

definition name_is :: "expanded_name \<Rightarrow> string \<Rightarrow> namespace_kind \<Rightarrow> bool" where
  "name_is e l ns = (en_local e = l \<and> en_namespace e = ns)"

definition new_name :: "string \<Rightarrow> namespace_kind \<Rightarrow> expanded_name" where
  "new_name l ns =
     \<lparr>en_local = l, en_namespace = ns, conditions_seen = False, one_time_use_seen = False,
      proxy_restriction_seen = False\<rparr>"

abbreviation "NS_DSIG \<equiv> ''http://www.w3.org/2000/09/xmldsig#''"
abbreviation "XML_ENCRYPTION_NS \<equiv> ''http://www.w3.org/2001/04/xmlenc#''"

fun classify_namespace :: "resolve_result \<Rightarrow> namespace_kind" where
  "classify_namespace (Bound v) =
     (if v = NS_PROTOCOL then NkProtocol
      else if v = NS_ASSERTION then NkAssertion
      else if v = NS_DSIG then NkDsig
      else if v = XML_ENCRYPTION_NS then NkXmlEncryption
      else NkOther)"
| "classify_namespace Unbound = NkUnbound"
| "classify_namespace (UnknownPrefix p) = NkUnknown"

fun parser_root :: "parser_type \<Rightarrow> string" where
  "parser_root SamlRequest = ''AuthnRequest''"
| "parser_root SamlResponse = ''Response''"
| "parser_root LogoutRequest = ''LogoutRequest''"
| "parser_root LogoutResponse = ''LogoutResponse''"

section \<open>Attributes\<close>

text \<open>The loop of \<open>validate_attributes\<close>; \<open>reject\<close> is the policy for unexpected attributes.\<close>

fun profile_attrs_loop :: "string \<Rightarrow> string list \<Rightarrow> bool \<Rightarrow> ns_attr list \<Rightarrow> (string \<times> string) list \<Rightarrow>
    (string \<times> string) list res" where
  "profile_attrs_loop label consumed reject [] vals = Inr vals"
| "profile_attrs_loop label consumed reject (a # as) vals =
     (case a of
        NsAttrErr e \<Rightarrow> Inl (Xml e)
      | NsAttr key binding resolved l val \<Rightarrow>
          if binding then profile_attrs_loop label consumed reject as vals
          else if l \<notin> set consumed then
            (if reject then Inl (ProtocolProfile (''unexpected attribute '' @ key @ '' on '' @ label))
             else profile_attrs_loop label consumed reject as vals)
          else if resolved \<noteq> Unbound then
            Inl (ProtocolProfile (''attribute '' @ l @ '' on '' @ label @ '' must be unqualified''))
          else
            (case val of
               Inl e \<Rightarrow> Inl (Xml e)
             | Inr v \<Rightarrow> profile_attrs_loop label consumed reject as (vals @ [(l, v)])))"

definition profile_validate_attributes :: "string \<Rightarrow> ns_attr list \<Rightarrow> string list \<Rightarrow> string list \<Rightarrow> bool \<Rightarrow>
    (string \<times> string) list res" where
  "profile_validate_attributes label as consumed required reject =
     rbind (profile_attrs_loop label consumed reject as []) (\<lambda>vals.
       case find (\<lambda>r. r \<notin> fst ` set vals) required of
         Some r \<Rightarrow> Inl (ProtocolProfile (label @ '' is missing required unqualified attribute '' @ r))
       | None \<Rightarrow> Inr vals)"

definition validate_unqualified_attributes where
  "validate_unqualified_attributes label as consumed required =
     profile_validate_attributes label as consumed required False"

definition validate_closed_unqualified_attributes where
  "validate_closed_unqualified_attributes label as consumed required =
     profile_validate_attributes label as consumed required True"

definition require_version_2 :: "(string \<times> string) list \<Rightarrow> string \<Rightarrow> unit res" where
  "require_version_2 vals label =
     (if map_of vals ''Version'' \<noteq> Some ''2.0'' then Inl (ProtocolProfile (label @ '' Version must be 2.0''))
      else Inr ())"

definition require_issue_instant :: "(string \<times> string) list \<Rightarrow> string \<Rightarrow> unit res" where
  "require_issue_instant vals label =
     (case map_of vals ''IssueInstant'' of
        None \<Rightarrow> Inl (ProtocolProfile (label @ '' is missing required unqualified attribute IssueInstant''))
      | Some t \<Rightarrow>
          if parse_saml_utc_date_time t = None
          then Inl (ProtocolProfile
            (label @ '' IssueInstant must use the SAML-conformant UTC xs:dateTime form ending in Z''))
          else Inr ())"

definition require_optional_saml_utc_date_time :: "(string \<times> string) list \<Rightarrow> string \<Rightarrow> string \<Rightarrow> unit res" where
  "require_optional_saml_utc_date_time vals label attr =
     (case map_of vals attr of
        None \<Rightarrow> Inr ()
      | Some t \<Rightarrow>
          if parse_saml_utc_date_time t = None
          then Inl (ProtocolProfile
            (label @ '' '' @ attr @ '' must use the SAML-conformant UTC xs:dateTime form ending in Z''))
          else Inr ())"

section \<open>Elements\<close>

fun root_consumed_attributes :: "parser_type \<Rightarrow> string list" where
  "root_consumed_attributes SamlRequest =
     [''ID'', ''Version'', ''IssueInstant'', ''Destination'', ''AssertionConsumerServiceURL'',
      ''ProtocolBinding'', ''AssertionConsumerServiceIndex'']"
| "root_consumed_attributes SamlResponse =
     [''ID'', ''Version'', ''IssueInstant'', ''Destination'', ''InResponseTo'']"
| "root_consumed_attributes LogoutRequest =
     [''ID'', ''Version'', ''IssueInstant'', ''Destination'', ''NotOnOrAfter'']"
| "root_consumed_attributes LogoutResponse =
     [''ID'', ''Version'', ''IssueInstant'', ''Destination'', ''InResponseTo'']"

definition validate_root :: "string \<Rightarrow> ns_attr list \<Rightarrow> namespace_kind \<Rightarrow> parser_type \<Rightarrow> unit res" where
  "validate_root l as ns ptype =
     (if l \<noteq> parser_root ptype \<or> ns \<noteq> NkProtocol
      then Inl (ProtocolProfile
        (''expected root {'' @ NS_PROTOCOL @ ''}'' @ parser_root ptype @ '', got '' @ l))
      else
        rbind (validate_unqualified_attributes l as (root_consumed_attributes ptype)
                 [''ID'', ''Version'', ''IssueInstant'']) (\<lambda>vals.
        rbind (require_version_2 vals l) (\<lambda>_.
        rbind (require_issue_instant vals l) (\<lambda>_.
          if ptype = LogoutRequest then require_optional_saml_utc_date_time vals l ''NotOnOrAfter''
          else Inr ()))))"

text \<open>The stack has the innermost open element first, so its last element is the root.\<close>

definition protocol_child_namespace :: "expanded_name \<Rightarrow> string \<Rightarrow> namespace_kind option" where
  "protocol_child_namespace root child =
     (if child = ''Issuer'' then Some NkAssertion
      else if child = ''Signature'' then Some NkDsig
      else if name_is root ''AuthnRequest'' NkProtocol then
        (if child \<in> {''NameIDPolicy'', ''RequestedAuthnContext''} then Some NkProtocol
         else if child = ''AuthnContextClassRef'' then Some NkAssertion else None)
      else if name_is root ''Response'' NkProtocol then
        (if child = ''Status'' then Some NkProtocol
         else if child \<in> {''Assertion'', ''EncryptedAssertion''} then Some NkAssertion else None)
      else if name_is root ''LogoutRequest'' NkProtocol then
        (if child = ''NameID'' then Some NkAssertion
         else if child = ''SessionIndex'' then Some NkProtocol else None)
      else None)"

definition nested_child_namespace :: "expanded_name \<Rightarrow> string \<Rightarrow> namespace_kind option" where
  "nested_child_namespace parent child =
     (if name_is parent ''Status'' NkProtocol \<or> name_is parent ''StatusCode'' NkProtocol then
        (if child = ''StatusCode'' then Some NkProtocol else None)
      else if name_is parent ''RequestedAuthnContext'' NkProtocol then
        (if child = ''AuthnContextClassRef'' then Some NkAssertion else None)
      else if name_is parent ''Assertion'' NkAssertion then
        (if child = ''Signature'' then Some NkDsig
         else if child \<in> {''Issuer'', ''Subject'', ''Conditions'', ''AuthnStatement'', ''AttributeStatement''}
         then Some NkAssertion else None)
      else if name_is parent ''Subject'' NkAssertion then
        (if child \<in> {''NameID'', ''SubjectConfirmation''} then Some NkAssertion else None)
      else if name_is parent ''SubjectConfirmation'' NkAssertion then
        (if child = ''SubjectConfirmationData'' then Some NkAssertion else None)
      else if name_is parent ''Conditions'' NkAssertion then
        (if child \<in> {''AudienceRestriction'', ''OneTimeUse'', ''ProxyRestriction''} then Some NkAssertion else None)
      else if name_is parent ''AudienceRestriction'' NkAssertion \<or> name_is parent ''ProxyRestriction'' NkAssertion then
        (if child = ''Audience'' then Some NkAssertion else None)
      else if name_is parent ''AttributeStatement'' NkAssertion then
        (if child = ''Attribute'' then Some NkAssertion else None)
      else if name_is parent ''Attribute'' NkAssertion then
        (if child = ''AttributeValue'' then Some NkAssertion else None)
      else if name_is parent ''EncryptedAssertion'' NkAssertion then
        (if child = ''EncryptedData'' then Some NkXmlEncryption else None)
      else None)"

text \<open>
  In the code the root block falls through for a LogoutResponse or an unlisted root, and returns
  from the function for the other three.
\<close>

definition expected_child_namespace :: "expanded_name list \<Rightarrow> string \<Rightarrow> namespace_kind option" where
  "expected_child_namespace stack child =
     (case stack of
        [] \<Rightarrow> None
      | parent # rest \<Rightarrow>
          let root = last stack in
          if rest = [] \<and> en_namespace parent = NkProtocol then
            (if child \<in> {''Issuer'', ''Signature''}
                \<or> name_is root ''AuthnRequest'' NkProtocol \<or> name_is root ''Response'' NkProtocol
                \<or> name_is root ''LogoutRequest'' NkProtocol
             then protocol_child_namespace root child
             else if name_is root ''LogoutResponse'' NkProtocol \<and> child = ''Status'' then Some NkProtocol
             else nested_child_namespace parent child)
          else nested_child_namespace parent child)"

definition consumed_attributes :: "expanded_name \<Rightarrow> string list" where
  "consumed_attributes e =
     (if name_is e ''Assertion'' NkAssertion then [''ID'', ''Version'', ''IssueInstant'']
      else if name_is e ''StatusCode'' NkProtocol then [''Value'']
      else if name_is e ''NameIDPolicy'' NkProtocol then [''Format'', ''AllowCreate'']
      else if name_is e ''Conditions'' NkAssertion then [''NotBefore'', ''NotOnOrAfter'']
      else if name_is e ''NameID'' NkAssertion then [''Format'']
      else if name_is e ''SubjectConfirmation'' NkAssertion then [''Method'']
      else if name_is e ''SubjectConfirmationData'' NkAssertion then
        [''NotOnOrAfter'', ''Recipient'', ''InResponseTo'']
      else if name_is e ''AuthnStatement'' NkAssertion then
        [''AuthnInstant'', ''SessionNotOnOrAfter'', ''SessionIndex'']
      else if name_is e ''Attribute'' NkAssertion then [''Name'']
      else [])"

definition valid_proxy_count :: "string \<Rightarrow> bool" where
  "valid_proxy_count raw =
     (let count = trim_by is_xml_schema_whitespace raw;
          digits = (case strip_prefix ''+'' count of Some d \<Rightarrow> d | None \<Rightarrow> count);
          negative_zero = (case strip_prefix ''-'' count of
             Some d \<Rightarrow> d \<noteq> [] \<and> list_all (\<lambda>b. b = CHR ''0'') d | None \<Rightarrow> False)
      in negative_zero \<or> (digits \<noteq> [] \<and> list_all is_ascii_digit digits))"

text \<open>The attribute checks of an element whose namespace is as expected.\<close>

definition validate_element_attributes :: "string \<Rightarrow> ns_attr list \<Rightarrow> namespace_kind \<Rightarrow> unit res" where
  "validate_element_attributes l as ns =
     (let expanded = new_name l ns; consumed = consumed_attributes expanded in
      if name_is expanded ''Assertion'' NkAssertion then
        rbind (validate_unqualified_attributes l as consumed [''ID'', ''Version'', ''IssueInstant'']) (\<lambda>vals.
        rbind (require_version_2 vals l) (\<lambda>_. require_issue_instant vals l))
      else if name_is expanded ''Conditions'' NkAssertion then
        rbind (validate_closed_unqualified_attributes l as consumed []) (\<lambda>_. Inr ())
      else if name_is expanded ''OneTimeUse'' NkAssertion \<or> name_is expanded ''AudienceRestriction'' NkAssertion then
        rbind (validate_closed_unqualified_attributes l as [] []) (\<lambda>_. Inr ())
      else if name_is expanded ''ProxyRestriction'' NkAssertion then
        rbind (validate_closed_unqualified_attributes l as [''Count''] []) (\<lambda>vals.
          case vals of
            [] \<Rightarrow> Inr ()
          | (_, count) # _ \<Rightarrow>
              if \<not> valid_proxy_count count
              then Inl (ProtocolProfile ''ProxyRestriction Count must be a non-negative integer'') else Inr ())
      else if consumed \<noteq> [] then
        rbind (validate_unqualified_attributes l as consumed []) (\<lambda>_. Inr ())
      else Inr ())"

definition validate_element :: "string \<Rightarrow> ns_attr list \<Rightarrow> namespace_kind \<Rightarrow> expanded_name list \<Rightarrow> parser_type \<Rightarrow>
    unit res" where
  "validate_element l as ns stack ptype =
     (case stack of
        [] \<Rightarrow> validate_root l as ns ptype
      | parent # _ \<Rightarrow>
          if name_is parent ''Conditions'' NkAssertion
             \<and> l \<notin> {''AudienceRestriction'', ''OneTimeUse'', ''ProxyRestriction''}
          then Inl (ProtocolProfile ''unsupported assertion condition'')
          else if name_is parent ''OneTimeUse'' NkAssertion
             \<or> (name_is parent ''ProxyRestriction'' NkAssertion \<or> name_is parent ''AudienceRestriction'' NkAssertion)
               \<and> l \<noteq> ''Audience''
          then Inl (ProtocolProfile ''unsupported child of assertion condition'')
          else
            (case expected_child_namespace stack l of
               None \<Rightarrow> Inr ()
             | Some expected \<Rightarrow>
                 if ns \<noteq> expected then Inl (ProtocolProfile (l @ '' has an invalid namespace''))
                 else validate_element_attributes l as ns))"

section \<open>The pass\<close>

text \<open>The bookkeeping at the start of an element: repeated use conditions, then repeated Conditions.\<close>

definition note_use_condition :: "string \<Rightarrow> namespace_kind \<Rightarrow> expanded_name list \<Rightarrow> expanded_name list res" where
  "note_use_condition l ns stack =
     (let err = ProtocolProfile ''repeated assertion use condition is unsupported'' in
      case stack of
        [] \<Rightarrow> Inr stack
      | parent # rest \<Rightarrow>
          if ns = NkAssertion \<and> name_is parent ''Conditions'' NkAssertion then
            (if l = ''OneTimeUse'' then
               (if one_time_use_seen parent then Inl err else Inr (parent\<lparr>one_time_use_seen := True\<rparr> # rest))
             else if l = ''ProxyRestriction'' then
               (if proxy_restriction_seen parent then Inl err
                else Inr (parent\<lparr>proxy_restriction_seen := True\<rparr> # rest))
             else Inr stack)
          else Inr stack)"

definition note_conditions :: "string \<Rightarrow> namespace_kind \<Rightarrow> expanded_name list \<Rightarrow> expanded_name list res" where
  "note_conditions l ns stack =
     (case stack of
        [] \<Rightarrow> Inr stack
      | parent # rest \<Rightarrow>
          if ns = NkAssertion \<and> l = ''Conditions'' \<and> name_is parent ''Assertion'' NkAssertion then
            (if conditions_seen parent then Inl (Invalid ''multiple assertion Conditions elements'')
             else Inr (parent\<lparr>conditions_seen := True\<rparr> # rest))
          else Inr stack)"

definition enter_element :: "parser_type \<Rightarrow> expanded_name list \<Rightarrow> string \<Rightarrow> ns_attr list \<Rightarrow> namespace_kind \<Rightarrow>
    expanded_name list res" where
  "enter_element ptype stack l as ns =
     rbind (note_use_condition l ns stack) (\<lambda>stack.
     rbind (note_conditions l ns stack) (\<lambda>stack.
     rbind (validate_element l as ns stack ptype) (\<lambda>_. Inr stack)))"

fun profile_loop :: "parser_type \<Rightarrow> expanded_name list \<Rightarrow> bool \<Rightarrow> ns_step list \<Rightarrow> unit res" where
  "profile_loop ptype stack saw_root [] =
     (if \<not> saw_root then Inl (ProtocolProfile ''missing SAML protocol root'') else Inr ())"
| "profile_loop ptype stack saw_root (NsFail e # steps) = Inl (Xml e)"
| "profile_loop ptype stack saw_root (NsEvent resolved (NsStart l as) # steps) =
     rbind (enter_element ptype stack l as (classify_namespace resolved)) (\<lambda>stack'.
       profile_loop ptype (new_name l (classify_namespace resolved) # stack') True steps)"
| "profile_loop ptype stack saw_root (NsEvent resolved (NsEmpty l as) # steps) =
     rbind (enter_element ptype stack l as (classify_namespace resolved)) (\<lambda>stack'.
       profile_loop ptype stack' True steps)"
| "profile_loop ptype stack saw_root (NsEvent resolved NsEnd # steps) =
     profile_loop ptype (tl stack) saw_root steps"
| "profile_loop ptype stack saw_root (NsEvent resolved NsOther # steps) =
     profile_loop ptype stack saw_root steps"

definition validate_protocol_profile :: "('e) ns_ext_scheme \<Rightarrow> string \<Rightarrow> parser_type \<Rightarrow> xml_limits \<Rightarrow> unit res" where
  "validate_protocol_profile E xml ptype limits =
     rbind (check_input_bytes limits (length xml)) (\<lambda>_.
       profile_loop ptype [] False (ns_read E (max_attributes_per_element limits) xml))"

section \<open>The namespace of every element on a known path\<close>

text \<open>The elements a document opens, each with its ancestors: names and namespaces, innermost first.\<close>

fun opened :: "(string \<times> namespace_kind) list \<Rightarrow> ns_step list \<Rightarrow> (string \<times> namespace_kind) list list" where
  "opened stack [] = []"
| "opened stack (NsFail e # steps) = []"
| "opened stack (NsEvent r (NsStart l as) # steps) =
     (let s = (l, classify_namespace r) # stack in s # opened s steps)"
| "opened stack (NsEvent r (NsEmpty l as) # steps) = ((l, classify_namespace r) # stack) # opened stack steps"
| "opened stack (NsEvent r NsEnd # steps) = opened (tl stack) steps"
| "opened stack (NsEvent r NsOther # steps) = opened stack steps"

definition names_of :: "expanded_name list \<Rightarrow> (string \<times> namespace_kind) list" where
  "names_of stack = map (\<lambda>e. (en_local e, en_namespace e)) stack"

definition expected_after :: "(string \<times> namespace_kind) list \<Rightarrow> string \<Rightarrow> namespace_kind option" where
  "expected_after names l = expected_child_namespace (map (\<lambda>(l, ns). new_name l ns) names) l"

text \<open>
  The namespace a path of local names (from the root) means: that of the root, then at each element
  the one expected below the ancestors.
\<close>

fun path_names :: "parser_type \<Rightarrow> (string \<times> namespace_kind) list \<Rightarrow> string list \<Rightarrow>
    (string \<times> namespace_kind) list option" where
  "path_names ptype names [] = Some names"
| "path_names ptype names (l # ls) =
     (if names = [] then
        (if l = parser_root ptype then path_names ptype [(l, NkProtocol)] ls else None)
      else
        (case expected_after names l of
           None \<Rightarrow> None
         | Some ns \<Rightarrow> path_names ptype ((l, ns) # names) ls))"

definition path_namespace :: "parser_type \<Rightarrow> string list \<Rightarrow> namespace_kind option" where
  "path_namespace ptype path =
     (case path_names ptype [] path of Some ((l, ns) # _) \<Rightarrow> Some ns | _ \<Rightarrow> None)"

fun chain_ok :: "parser_type \<Rightarrow> (string \<times> namespace_kind) list \<Rightarrow> bool" where
  "chain_ok ptype [] = True"
| "chain_ok ptype ((l, ns) # rest) \<longleftrightarrow>
     chain_ok ptype rest
     \<and> (if rest = [] then l = parser_root ptype \<and> ns = NkProtocol
        else (\<forall>e. expected_after rest l = Some e \<longrightarrow> ns = e))"

lemma name_is_new [simp]: "name_is (new_name l ns) l' ns' \<longleftrightarrow> l = l' \<and> ns = ns'"
  by (simp add: name_is_def new_name_def)

lemma expected_after_names_of: "expected_after (names_of stack) l = expected_child_namespace stack l"
proof (cases stack)
  case (Cons p rest)
  define f :: "expanded_name \<Rightarrow> expanded_name" where "f = (\<lambda>e. new_name (en_local e) (en_namespace e))"
  have n: "name_is (f e) = name_is e" for e
    by (simp add: f_def name_is_def new_name_def fun_eq_iff)
  have p: "protocol_child_namespace (f e) = protocol_child_namespace e"
    "nested_child_namespace (f e) = nested_child_namespace e" for e
    unfolding protocol_child_namespace_def nested_child_namespace_def fun_eq_iff n by simp_all
  have e: "en_namespace (f e) = en_namespace e" for e by (simp add: f_def new_name_def)
  have m: "map (\<lambda>(l, ns). new_name l ns) (names_of (p # rest)) = f p # map f rest"
    by (simp add: names_of_def f_def comp_def fun_eq_iff)
  have l: "last (f p # map f rest) = f (last (p # rest))"
    by (metis last_map list.discI list.simps(9))
  show ?thesis
    unfolding Cons expected_after_def m expected_child_namespace_def list.case Let_def l n p e by simp
qed (simp add: expected_after_def names_of_def expected_child_namespace_def)

lemma note_names [simp]:
  "note_use_condition l ns stack = Inr s \<Longrightarrow> names_of s = names_of stack"
  "note_conditions l ns stack = Inr s \<Longrightarrow> names_of s = names_of stack"
  by (auto simp: note_use_condition_def note_conditions_def names_of_def Let_def split: list.splits if_splits)

lemma validate_element_chain:
  assumes "validate_element l as ns stack ptype = Inr u" "chain_ok ptype (names_of stack)"
  shows "chain_ok ptype ((l, ns) # names_of stack)"
proof (cases stack)
  case Nil
  with assms show ?thesis
    by (auto simp: validate_element_def validate_root_def names_of_def split: if_splits)
next
  case (Cons p rest)
  with assms have "\<forall>e. expected_child_namespace stack l = Some e \<longrightarrow> ns = e"
    by (auto simp: validate_element_def split: if_splits option.splits)
  with assms Cons show ?thesis
    using expected_after_names_of [of stack l] by (auto simp: names_of_def)
qed

lemma enter_element_chain:
  assumes "enter_element ptype stack l as ns = Inr s" "chain_ok ptype (names_of stack)"
  shows "names_of s = names_of stack" "chain_ok ptype ((l, ns) # names_of stack)"
proof -
  from assms(1) obtain s1 u where s: "note_use_condition l ns stack = Inr s1" "note_conditions l ns s1 = Inr s"
    "validate_element l as ns s ptype = Inr u"
    by (auto simp: enter_element_def rbind_Inr_iff)
  then show n: "names_of s = names_of stack" by simp
  show "chain_ok ptype ((l, ns) # names_of stack)"
    using validate_element_chain [OF s(3)] assms(2) unfolding n by blast
qed

lemma chain_ok_tl: "chain_ok ptype names \<Longrightarrow> chain_ok ptype (tl names)"
  by (cases names) auto

lemma profile_loop_chain:
  "profile_loop ptype stack saw steps = Inr u \<Longrightarrow> chain_ok ptype (names_of stack) \<Longrightarrow>
     el \<in> set (opened (names_of stack) steps) \<Longrightarrow> chain_ok ptype el"
proof (induction ptype stack saw steps rule: profile_loop.induct)
  case (3 ptype stack saw r l as steps)
  let ?ns = "classify_namespace r"
  from 3(2) obtain s where s: "enter_element ptype stack l as ?ns = Inr s"
    "profile_loop ptype (new_name l ?ns # s) True steps = Inr u" by (auto simp: rbind_Inr_iff)
  note e = enter_element_chain [OF s(1) 3(3)]
  have "names_of (new_name l ?ns # s) = (l, ?ns) # names_of stack"
    using e(1) by (simp add: names_of_def new_name_def)
  with 3(1) [OF s] 3(4) e(2) show ?case by (auto simp: Let_def)
next
  case (4 ptype stack saw r l as steps)
  let ?ns = "classify_namespace r"
  from 4(2) obtain s where s: "enter_element ptype stack l as ?ns = Inr s"
    "profile_loop ptype s True steps = Inr u" by (auto simp: rbind_Inr_iff)
  note e = enter_element_chain [OF s(1) 4(3)]
  with 4(1) [OF s] 4(3,4) show ?case by auto
next
  case (5 ptype stack saw r steps)
  have "names_of (tl stack) = tl (names_of stack)" by (simp add: names_of_def map_tl)
  with 5 show ?case by (auto intro: chain_ok_tl)
qed auto

lemma path_names_chain:
  "chain_ok ptype (rev (zip ls nss) @ names) \<Longrightarrow> length ls = length nss \<Longrightarrow>
     path_names ptype names ls = Some r \<Longrightarrow> r = rev (zip ls nss) @ names"
proof (induction ls arbitrary: nss names)
  case (Cons l ls)
  then obtain ns nss' where nss: "nss = ns # nss'" by (cases nss) auto
  have c: "chain_ok ptype (rev (zip ls nss') @ (l, ns) # names)" using Cons.prems(1) nss by simp
  have suffix: "chain_ok ptype (a @ b) \<Longrightarrow> chain_ok ptype b" for a b by (induction a) auto
  have cs: "chain_ok ptype ((l, ns) # names)" using suffix [OF c] .
  show ?case
  proof (cases "names = []")
    case True
    with cs Cons.prems(3) Cons.IH [of nss' "[(l, NkProtocol)]"] c Cons.prems(2) nss show ?thesis
      by (auto split: if_splits)
  next
    case False
    with Cons.prems(3) obtain e where e: "expected_after names l = Some e"
      "path_names ptype ((l, e) # names) ls = Some r" by (auto split: option.splits)
    with False cs have "e = ns" by auto
    with e Cons.IH [of nss' "(l, ns) # names"] c Cons.prems(2) nss show ?thesis by auto
  qed
qed simp

text \<open>
  C23: in a document the profile accepts, every element whose path of local names from the root is a
  SAML path has exactly the namespace that path means; an element of another namespace that borrows
  a SAML name on such a path makes the document rejected.
\<close>

theorem profile_path_namespaces:
  assumes "validate_protocol_profile E xml ptype limits = Inr u"
    "el \<in> set (opened [] (ns_read E (max_attributes_per_element limits) xml))"
    "path_namespace ptype (rev (map fst el)) = Some ns"
  shows "snd (hd el) = ns"
proof -
  have "profile_loop ptype [] False (ns_read E (max_attributes_per_element limits) xml) = Inr u"
    using assms(1) by (auto simp: validate_protocol_profile_def rbind_Inr_iff)
  then have c: "chain_ok ptype el"
    using profile_loop_chain [of ptype "[]" False _ u el] assms(2) by (simp add: names_of_def)
  have el: "rev (zip (rev (map fst el)) (rev (map snd el))) = el"
    by (simp add: zip_rev zip_map_fst_snd)
  from assms(3) obtain r where r: "path_names ptype [] (rev (map fst el)) = Some r" "r \<noteq> []" "snd (hd r) = ns"
    by (auto simp: path_namespace_def split: option.splits list.splits)
  from path_names_chain [of ptype "rev (map fst el)" "rev (map snd el)" "[]" r] c el r show ?thesis by auto
qed

definition field_paths :: "extractor_field list \<Rightarrow> string list list" where
  "field_paths fs = concat (map (\<lambda>f. case f_local_path f of LSingle p \<Rightarrow> [p] | LMulti ps \<Rightarrow> ps) fs)"

text \<open>The path of a field from the message root: assertion fields are read below the Response.\<close>

definition message_path :: "string list \<Rightarrow> string list" where
  "message_path p = (if hd p = ''Assertion'' then ''Response'' # p else p)"

definition sample_ns_steps :: "ns_step list" where
  "sample_ns_steps =
     [NsEvent (Bound NS_PROTOCOL) (NsStart ''LogoutResponse''
        [NsAttr ''ID'' False Unbound ''ID'' (Inr ''_1''), NsAttr ''Version'' False Unbound ''Version'' (Inr ''2.0''),
         NsAttr ''IssueInstant'' False Unbound ''IssueInstant'' (Inr ''2024-01-01T00:00:00Z'')]),
      NsEvent (Bound NS_ASSERTION) (NsEmpty ''Issuer'' []), NsEvent Unbound NsEnd]"

definition sample_ns :: ns_ext where
  "sample_ns = net_ext.extend sample_net \<lparr>ns_read = (\<lambda>n xml. sample_ns_steps)\<rparr>"

lemma sample_ns_read [simp]: "ns_read sample_ns n xml = sample_ns_steps"
  by (simp add: sample_ns_def net_ext.defs)

lemma sample_date: "parse_saml_utc_date_time ''2024-01-01T00:00:00Z'' \<noteq> None"
proof -
  let ?st = "\<lparr>st_negative = False, st_year = ''2024'', st_month = 1, st_day = 1, st_hour = 0, st_minute = 0,
    st_second = 0, st_fraction = []\<rparr>"
  have r: "render_stamp ?st = ''2024-01-01T00:00:00Z''"
    by (simp add: render_stamp_def render_body_def two_digits_def digit_char_def)
  have t: "trim_by is_xml_schema_whitespace (render_stamp ?st) = render_stamp ?st"
    unfolding r by (simp add: trim_by_def is_xml_schema_whitespace_def)
  have "valid_stamp ?st"
    by (simp add: valid_stamp_def valid_year_def is_ascii_digit_def days_in_month_def valid_fraction_def valid_clock_def)
  with t have "parse_saml_utc_date_time_with_seconds (render_stamp ?st) = Some (render_stamp ?st, of_nat (st_second ?st))"
    unfolding parse_with_seconds_iff by blast
  then show ?thesis by (simp only: r parse_saml_utc_date_time_def) simp
qed

lemma sample_profile: "validate_protocol_profile sample_ns [] LogoutResponse sample_limits = Inr ()"
  using sample_date
  by (simp add: validate_protocol_profile_def check_input_bytes_def sample_ns_steps_def enter_element_def
      note_use_condition_def note_conditions_def validate_element_def validate_root_def
      validate_unqualified_attributes_def profile_validate_attributes_def require_version_2_def
      require_issue_instant_def new_name_def name_is_def expected_child_namespace_def protocol_child_namespace_def
      validate_element_attributes_def consumed_attributes_def)

lemma profile_path_namespaces_witness:
  "snd (hd [(''Issuer'', NkAssertion), (''LogoutResponse'', NkProtocol)]) = NkAssertion"
  by (rule profile_path_namespaces [OF sample_profile])
    (simp_all add: sample_ns_steps_def path_namespace_def expected_after_def expected_child_namespace_def
      protocol_child_namespace_def new_name_def Let_def)

text \<open>
  The paths of all field sets of the four messages, assertion paths read below the Response, are
  SAML paths in that sense, so no extracted field can come from an element of a foreign namespace.
\<close>

lemma field_paths_covered:
  "list_all (\<lambda>p. path_namespace SamlRequest p \<noteq> None) (field_paths login_request_fields)
   \<and> list_all (\<lambda>p. path_namespace SamlResponse (message_path p) \<noteq> None) (field_paths (login_response_fields a))
   \<and> list_all (\<lambda>p. path_namespace SamlResponse p \<noteq> None) (field_paths login_response_status_fields)
   \<and> list_all (\<lambda>p. path_namespace LogoutRequest p \<noteq> None) (field_paths logout_request_fields)
   \<and> list_all (\<lambda>p. path_namespace LogoutResponse p \<noteq> None)
       (field_paths (logout_response_fields @ logout_response_status_fields))"
proof (intro conjI)
  note defs = field_paths_def field_simps path_namespace_def expected_after_def expected_child_namespace_def
    protocol_child_namespace_def nested_child_namespace_def message_path_def
  have e: "en_namespace (new_name l ns) = ns" for l ns by (simp add: new_name_def)
  show "list_all (\<lambda>p. path_namespace SamlRequest p \<noteq> None) (field_paths login_request_fields)"
    by (simp add: login_request_fields_def defs e)
  show "list_all (\<lambda>p. path_namespace SamlResponse (message_path p) \<noteq> None) (field_paths (login_response_fields a))"
    by (simp add: login_response_fields_def defs e)
  show "list_all (\<lambda>p. path_namespace SamlResponse p \<noteq> None) (field_paths login_response_status_fields)"
    by (simp add: login_response_status_fields_def defs e)
  show "list_all (\<lambda>p. path_namespace LogoutRequest p \<noteq> None) (field_paths logout_request_fields)"
    by (simp add: logout_request_fields_def defs e)
  show "list_all (\<lambda>p. path_namespace LogoutResponse p \<noteq> None)
       (field_paths (logout_response_fields @ logout_response_status_fields))"
    by (simp add: logout_response_fields_def logout_response_status_fields_def defs e)
qed


section \<open>The root element\<close>

fun elements :: "ns_step list \<Rightarrow> (resolve_result \<times> string \<times> ns_attr list) list" where
  "elements [] = []"
| "elements (NsFail e # steps) = []"
| "elements (NsEvent r (NsStart l as) # steps) = (r, l, as) # elements steps"
| "elements (NsEvent r (NsEmpty l as) # steps) = (r, l, as) # elements steps"
| "elements (NsEvent r NsEnd # steps) = elements steps"
| "elements (NsEvent r NsOther # steps) = elements steps"

text \<open>The unqualified attributes of an element, with their values.\<close>

definition unqualified :: "ns_attr list \<Rightarrow> (string \<times> string) list" where
  "unqualified as = some_values (\<lambda>a. case a of
     NsAttr key False Unbound l (Inr v) \<Rightarrow> Some (l, v) | _ \<Rightarrow> None) as"

lemma profile_attrs_loop_Inr:
  "profile_attrs_loop label consumed reject as vals = Inr r \<Longrightarrow>
     r = vals @ filter (\<lambda>(l, v). l \<in> set consumed)  (unqualified as)"
proof (induction label consumed reject as vals rule: profile_attrs_loop.induct)
  case (2 label consumed reject a as vals)
  then show ?case
    by (cases a) (auto simp: unqualified_def split: if_splits sum.splits bool.splits resolve_result.splits)
qed (simp add: unqualified_def)

lemma map_of_filter_in: "l \<in> A \<Longrightarrow> map_of (filter (\<lambda>(k, v). k \<in> A) kvs) l = map_of kvs l"
  by (induction kvs) auto

lemma profile_validate_attributes_Inr:
  assumes "profile_validate_attributes label as consumed required reject = Inr vals"
  shows "vals = filter (\<lambda>(l, v). l \<in> set consumed) (unqualified as)"
    "r \<in> set required \<Longrightarrow> r \<in> fst ` set vals"
proof -
  from assms obtain w where w: "profile_attrs_loop label consumed reject as [] = Inr w"
    "find (\<lambda>r. r \<notin> fst ` set w) required = None" "w = vals"
    by (auto simp: profile_validate_attributes_def rbind_Inr_iff split: option.splits)
  from profile_attrs_loop_Inr [OF w(1)] w show "vals = filter (\<lambda>(l, v). l \<in> set consumed) (unqualified as)" by simp
  show "r \<in> set required \<Longrightarrow> r \<in> fst ` set vals" using w by (auto simp: find_None_iff)
qed

lemma profile_loop_first:
  "profile_loop ptype [] False steps = Inr u \<Longrightarrow>
     \<exists>r l as rest. elements steps = (r, l, as) # rest \<and> validate_root l as (classify_namespace r) ptype = Inr ()"
proof (induction ptype "[] :: expanded_name list" False steps rule: profile_loop.induct)
  case (3 ptype r l as steps)
  then show ?case
    by (auto simp: rbind_Inr_iff enter_element_def note_use_condition_def note_conditions_def validate_element_def
        Let_def)
next
  case (4 ptype r l as steps)
  then show ?case
    by (auto simp: rbind_Inr_iff enter_element_def note_use_condition_def note_conditions_def validate_element_def
        Let_def)
qed auto

text \<open>
  an accepted document starts with the root element of the expected message in the protocol
  namespace, with an ID, Version 2.0 and an IssueInstant that is a SAML UTC date-time, all as
  unqualified attributes.
\<close>

theorem profile_root_checked:
  assumes "validate_protocol_profile E xml ptype limits = Inr u"
  shows "\<exists>r l as rest. elements (ns_read E (max_attributes_per_element limits) xml) = (r, l, as) # rest
     \<and> l = parser_root ptype \<and> classify_namespace r = NkProtocol
     \<and> map_of (unqualified as) ''ID'' \<noteq> None \<and> map_of (unqualified as) ''Version'' = Some ''2.0''
     \<and> (\<exists>t v. map_of (unqualified as) ''IssueInstant'' = Some t \<and> parse_saml_utc_date_time t = Some v)"
proof -
  have "profile_loop ptype [] False (ns_read E (max_attributes_per_element limits) xml) = Inr u"
    using assms by (auto simp: validate_protocol_profile_def rbind_Inr_iff)
  from profile_loop_first [OF this] obtain r l as rest where
    el: "elements (ns_read E (max_attributes_per_element limits) xml) = (r, l, as) # rest"
    and root: "validate_root l as (classify_namespace r) ptype = Inr ()" by blast
  from root obtain vals where v: "l = parser_root ptype" "classify_namespace r = NkProtocol"
    "profile_validate_attributes l as (root_consumed_attributes ptype) [''ID'', ''Version'', ''IssueInstant''] False = Inr vals"
    "require_version_2 vals l = Inr ()" "require_issue_instant vals l = Inr ()"
    by (auto simp: validate_root_def validate_unqualified_attributes_def rbind_Inr_iff split: if_splits)
  note a = profile_validate_attributes_Inr [OF v(3)]
  have c: "''ID'' \<in> set (root_consumed_attributes ptype)" "''Version'' \<in> set (root_consumed_attributes ptype)"
    "''IssueInstant'' \<in> set (root_consumed_attributes ptype)" by (cases ptype; simp)+
  have lk: "map_of vals n = map_of (unqualified as) n" if "n \<in> set (root_consumed_attributes ptype)" for n
    using a(1) map_of_filter_in [OF that] by simp
  have "map_of vals ''ID'' \<noteq> None" using a(2) [of "''ID''"] by (simp add: map_of_eq_None_iff)
  with lk c v(4,5) el v(1,2) show ?thesis
    by (auto simp: require_version_2_def require_issue_instant_def split: option.splits if_splits)
qed

lemma profile_root_checked_witness:
  "map_of (unqualified [NsAttr ''ID'' False Unbound ''ID'' (Inr ''_1''),
     NsAttr ''Version'' False Unbound ''Version'' (Inr ''2.0''),
     NsAttr ''IssueInstant'' False Unbound ''IssueInstant'' (Inr ''2024-01-01T00:00:00Z'')]) ''Version'' = Some ''2.0''"
  using profile_root_checked [OF sample_profile] by (simp add: sample_ns_steps_def)

end
