(* ===== verification/Wire.thy ===== *)
theory Wire
  imports Profile
begin

text \<open>
  The binding helpers of \<open>src/src/binding/\<close>: base64 and raw DEFLATE with output limits,
  XML and HTML escaping, the POST form and the Redirect query. The codecs are the crates
  \<open>base64\<close>, \<open>flate2\<close> and \<open>url\<close>, seen through \<open>wire_ext\<close>. Properties: the limits
  are exact and never exceeded, the inflate loop always ends, escaping is reversible and
  leaves no markup.
\<close>

section \<open>The codecs\<close>

datatype inflate_status = InflateOk | InflateBufError | InflateStreamEnd

text \<open>
  \<open>inflate_call h rest n\<close> is one call of \<open>Decompress::decompress\<close> on the remaining input
  and an output buffer of \<open>n\<close> bytes, after the calls whose results are in \<open>h\<close>: the bytes
  consumed, the bytes written and the status, or the error text.
\<close>

record wire_ext = ns_ext +
  b64_encode :: "string \<Rightarrow> string"
  b64_decode :: "string \<Rightarrow> string + string"
  deflate_encode :: "string \<Rightarrow> string + string"
  inflate_call :: "(nat \<times> string) list \<Rightarrow> string \<Rightarrow> nat \<Rightarrow> string + nat \<times> string \<times> inflate_status"
  form_parse :: "string \<Rightarrow> (string \<times> string) list"
  form_byte_serialize :: "string \<Rightarrow> string"

section \<open>Base64\<close>

definition base64_encode :: "('e) wire_ext_scheme \<Rightarrow> string \<Rightarrow> string" where
  "base64_encode E input = b64_encode E input"

definition base64_decode :: "('e) wire_ext_scheme \<Rightarrow> string \<Rightarrow> string res" where
  "base64_decode E input =
     (if is_ascii input \<and> \<not> list_ex is_ascii_ws input then rmap_err Base64 (b64_decode E input)
      else rmap_err Base64 (b64_decode E (strip_ws input)))"

definition base64_decode_with_limit :: "('e) wire_ext_scheme \<Rightarrow> string \<Rightarrow> nat \<Rightarrow> string res" where
  "base64_decode_with_limit E input max_output_len =
     (let normalized_len = length (filter (\<lambda>b. \<not> is_ascii_ws b) input);
          max_encoded_len = usize_sat_mul (usize_sat_add max_output_len 2 div 3) 4
      in if normalized_len > max_encoded_len then Inl (Invalid ''ERR_BASE64_OUTPUT_LIMIT_EXCEEDED'')
         else
           let normalized = (if normalized_len = length input \<and> is_ascii input then input else strip_ws input)
           in rbind (rmap_err Base64 (b64_decode E normalized)) (\<lambda>out.
                if length out > max_output_len then Inl (Invalid ''ERR_BASE64_OUTPUT_LIMIT_EXCEEDED'')
                else Inr out))"

section \<open>Raw DEFLATE\<close>

definition MAX_DEFLATE_RAW_DECODE_BYTES :: nat where
  "MAX_DEFLATE_RAW_DECODE_BYTES = 1024 * 1024"

definition deflate_raw_encode :: "('e) wire_ext_scheme \<Rightarrow> string \<Rightarrow> string res" where
  "deflate_raw_encode E input = rmap_err Deflate (deflate_encode E input)"

text \<open>
  The decoding loop. Every call that does not end the loop consumes or writes a byte, so the
  fuel given below is never used up (\<open>inflate_terminates\<close>); \<open>None\<close> means it was.
\<close>

fun inflate_loop :: "('e) wire_ext_scheme \<Rightarrow> string \<Rightarrow> nat \<Rightarrow> nat \<Rightarrow> (nat \<times> string) list \<Rightarrow> nat \<Rightarrow> string \<Rightarrow>
    string res option" where
  "inflate_loop E input max_output_len 0 h input_offset out = None"
| "inflate_loop E input max_output_len (Suc fuel) h input_offset out =
     (let read_limit = usize_sat_add max_output_len 1;
          output_len = min 4096 (read_limit - length out)
      in case inflate_call E h (drop input_offset input) output_len of
           Inl e \<Rightarrow> Some (Inl (Deflate e))
         | Inr (consumed, written, status) \<Rightarrow>
             let out' = out @ written in
             if length out' > max_output_len then Some (Inl (Invalid ''ERR_DEFLATE_OUTPUT_LIMIT_EXCEEDED''))
             else if status = InflateStreamEnd then Some (Inr out')
             else if consumed = 0 \<and> written = [] then Some (Inl (Deflate ''incomplete DEFLATE stream''))
             else inflate_loop E input max_output_len fuel (h @ [(consumed, written)])
                    (input_offset + consumed) out')"

definition deflate_raw_decode_with_limit :: "('e) wire_ext_scheme \<Rightarrow> string \<Rightarrow> nat \<Rightarrow> string res" where
  "deflate_raw_decode_with_limit E input max_output_len =
     (case inflate_loop E input max_output_len (length input + max_output_len + 2) [] 0 [] of
        Some r \<Rightarrow> r
      | None \<Rightarrow> Inl (Deflate ''out of fuel''))"

definition deflate_raw_decode :: "('e) wire_ext_scheme \<Rightarrow> string \<Rightarrow> string res" where
  "deflate_raw_decode E input = deflate_raw_decode_with_limit E input MAX_DEFLATE_RAW_DECODE_BYTES"

section \<open>Escaping\<close>

definition xml_escape :: "string \<Rightarrow> string" where
  "xml_escape input =
     replace_str ''>'' ''&gt;'' (replace_str ''<'' ''&lt;'' (replace_str [CHR 0x27] ''&apos;''
       (replace_str [CHR 0x22] ''&quot;'' (replace_str ''&'' ''&amp;'' input))))"

definition html_escape :: "string \<Rightarrow> string" where
  "html_escape input =
     replace_str [CHR 0x27] ''&#39;'' (replace_str [CHR 0x22] ''&quot;'' (replace_str ''>'' ''&gt;''
       (replace_str ''<'' ''&lt;'' (replace_str ''&'' ''&amp;'' input))))"

section \<open>The POST form\<close>

type_synonym hidden_field = "string \<times> string"

definition dq :: string where
  "dq = [CHR 0x22]"

definition render_hidden_field :: "hidden_field \<Rightarrow> string" where
  "render_hidden_field f =
     ''<input type='' @ dq @ ''hidden'' @ dq @ '' name='' @ dq @ html_escape (fst f) @ dq
       @ '' value='' @ dq @ html_escape (snd f) @ dq @ ''/>''"

definition render_post_form :: "string \<Rightarrow> hidden_field list \<Rightarrow> string" where
  "render_post_form action fs =
     ''<!DOCTYPE html><html><body onload='' @ dq @ ''document.forms[0].submit()'' @ dq @ ''>''
     @ ''<form method='' @ dq @ ''post'' @ dq @ '' action='' @ dq @ html_escape action @ dq @ ''>''
     @ concat (map render_hidden_field fs)
     @ ''<noscript><input type='' @ dq @ ''submit'' @ dq @ '' value='' @ dq @ ''Continue'' @ dq
     @ ''/></noscript></form></body></html>''"

definition binding_fields :: "string \<Rightarrow> string \<Rightarrow> string option \<Rightarrow> string option \<Rightarrow> string option \<Rightarrow>
    hidden_field list" where
  "binding_fields param_name b64_value relay_state sig_alg signature =
     [(param_name, b64_value)]
     @ (case relay_state of Some state \<Rightarrow> [(''RelayState'', state)] | None \<Rightarrow> [])
     @ (case (sig_alg, signature) of
          (Some a, Some s) \<Rightarrow> [(''SigAlg'', a), (''Signature'', s)]
        | _ \<Rightarrow> [])"

definition validate_signature_fields :: "string option \<Rightarrow> string option \<Rightarrow> unit res" where
  "validate_signature_fields sig_alg signature =
     (case (sig_alg, signature) of
        (Some _, Some _) \<Rightarrow> Inr ()
      | (None, None) \<Rightarrow> Inr ()
      | _ \<Rightarrow> Inl (Invalid ''ERR_PARTIAL_POST_BINDING_SIGNATURE''))"

definition build_simplesign_octet :: "string \<Rightarrow> string \<Rightarrow> string option \<Rightarrow> string \<Rightarrow> string" where
  "build_simplesign_octet param_name xml relay_state sig_alg =
     (case relay_state of
        Some rs \<Rightarrow> param_name @ ''='' @ xml @ ''&RelayState='' @ rs @ ''&SigAlg='' @ sig_alg
      | None \<Rightarrow> param_name @ ''='' @ xml @ ''&SigAlg='' @ sig_alg)"

definition saml_post_binding_form_with_signature ::
  "string \<Rightarrow> string \<Rightarrow> string \<Rightarrow> string option \<Rightarrow> string option \<Rightarrow> string option \<Rightarrow> string" where
  "saml_post_binding_form_with_signature action param_name b64_value relay_state sig_alg signature =
     render_post_form action (binding_fields param_name b64_value relay_state sig_alg signature)"

definition saml_post_binding_form :: "string \<Rightarrow> string \<Rightarrow> string \<Rightarrow> string option \<Rightarrow> string" where
  "saml_post_binding_form action param_name b64_value relay_state =
     render_post_form action (binding_fields param_name b64_value relay_state None None)"

definition validate_post_form_action :: "('e) net_ext_scheme \<Rightarrow> string \<Rightarrow> unit res" where
  "validate_post_form_action E action =
     (case url_parse E action of
        Inl _ \<Rightarrow> Inl (Invalid ''ERR_UNSAFE_POST_BINDING_ACTION_URL'')
      | Inr (scheme, has_host) \<Rightarrow>
          if scheme \<in> {''http'', ''https''} \<and> has_host then Inr ()
          else Inl (Invalid ''ERR_UNSAFE_POST_BINDING_ACTION_URL''))"

definition try_saml_post_binding_form_with_signature ::
  "('e) net_ext_scheme \<Rightarrow> string \<Rightarrow> string \<Rightarrow> string \<Rightarrow> string option \<Rightarrow> string option \<Rightarrow> string option \<Rightarrow> string res" where
  "try_saml_post_binding_form_with_signature E action param_name b64_value relay_state sig_alg signature =
     rbind (validate_post_form_action E action) (\<lambda>_.
     rbind (validate_signature_fields sig_alg signature) (\<lambda>_.
       Inr (saml_post_binding_form_with_signature action param_name b64_value relay_state sig_alg signature)))"

definition try_saml_post_binding_form ::
  "('e) net_ext_scheme \<Rightarrow> string \<Rightarrow> string \<Rightarrow> string \<Rightarrow> string option \<Rightarrow> string res" where
  "try_saml_post_binding_form E action param_name b64_value relay_state =
     try_saml_post_binding_form_with_signature E action param_name b64_value relay_state None None"

section \<open>The Redirect query\<close>

definition url_encode :: "('e) wire_ext_scheme \<Rightarrow> string \<Rightarrow> string" where
  "url_encode E v = form_byte_serialize E v"

definition has_query :: "string \<Rightarrow> bool" where
  "has_query base_url = (case split_once CHR ''?'' base_url of Some (_, q) \<Rightarrow> q \<noteq> [] | None \<Rightarrow> False)"

definition redirect_binding_query :: "('e) wire_ext_scheme \<Rightarrow> string \<Rightarrow> string \<Rightarrow> string option \<Rightarrow> string" where
  "redirect_binding_query E saml_param b64_value relay_state =
     saml_param @ ''='' @ url_encode E b64_value
     @ (case relay_state of Some state \<Rightarrow> ''&RelayState='' @ url_encode E state | None \<Rightarrow> [])"

definition build_redirect_url :: "('e) wire_ext_scheme \<Rightarrow> string \<Rightarrow> parser_type \<Rightarrow> string \<Rightarrow> string option \<Rightarrow> string res" where
  "build_redirect_url E base_url ptype xml relay_state =
     rbind (deflate_raw_encode E xml) (\<lambda>deflated.
       let query = redirect_binding_query E (query_param ptype) (base64_encode E deflated) relay_state in
       Inr (base_url @ (if has_query base_url then ''&'' else ''?'') @ query))"

definition build_redirect_octet :: "('e) wire_ext_scheme \<Rightarrow> parser_type \<Rightarrow> string \<Rightarrow> string option \<Rightarrow> string \<Rightarrow> string res" where
  "build_redirect_octet E ptype xml relay_state sig_alg =
     rbind (deflate_raw_encode E xml) (\<lambda>deflated.
       Inr (query_param ptype @ ''='' @ url_encode E (base64_encode E deflated)
         @ (case relay_state of Some state \<Rightarrow> ''&RelayState='' @ url_encode E state | None \<Rightarrow> [])
         @ ''&SigAlg='' @ url_encode E sig_alg))"

definition append_signature :: "('e) wire_ext_scheme \<Rightarrow> string \<Rightarrow> string \<Rightarrow> string \<Rightarrow> string" where
  "append_signature E base_url octet signature_b64 =
     base_url @ (if has_query base_url then ''&'' else ''?'') @ octet @ ''&Signature='' @ url_encode E signature_b64"

section \<open>Base64\<close>

text \<open>The text the decoder is given: white space removed when there is any to remove.\<close>

definition b64_normal :: "string \<Rightarrow> string" where
  "b64_normal input = (if is_ascii input \<and> \<not> list_ex is_ascii_ws input then input else strip_ws input)"

lemma normalized_len_eq: "length (filter (\<lambda>b. \<not> is_ascii_ws b) s) = length s \<longleftrightarrow> \<not> list_ex is_ascii_ws s"
proof (induction s)
  case (Cons c s)
  have "length (filter (\<lambda>b. \<not> is_ascii_ws b) s) \<noteq> Suc (length s)"
    by (metis Suc_n_not_le_n length_filter_le)
  with Cons show ?case by (cases "is_ascii_ws c") auto
qed simp

lemma base64_decode_normal: "base64_decode E input = rmap_err Base64 (b64_decode E (b64_normal input))"
  by (simp add: base64_decode_def b64_normal_def)

lemma base64_limit_normal:
  "base64_decode_with_limit E input m =
     (if length (filter (\<lambda>b. \<not> is_ascii_ws b) input) > usize_sat_mul (usize_sat_add m 2 div 3) 4
      then Inl (Invalid ''ERR_BASE64_OUTPUT_LIMIT_EXCEEDED'')
      else rbind (base64_decode E input) (\<lambda>out.
        if length out > m then Inl (Invalid ''ERR_BASE64_OUTPUT_LIMIT_EXCEEDED'') else Inr out))"
  by (simp add: base64_decode_with_limit_def base64_decode_normal b64_normal_def normalized_len_eq Let_def conj_commute)

text \<open>Standard base64 with padding: four characters for every three bytes, the last group padded.\<close>

definition b64_padded :: "('e) wire_ext_scheme \<Rightarrow> bool" where
  "b64_padded E \<longleftrightarrow> (\<forall>s d. b64_decode E s = Inr d \<longrightarrow> length s \<le> 4 * ((length d + 2) div 3))"

lemma b64_len_fits:
  assumes "n \<le> 4 * ((k + 2) div 3)" "k \<le> m" "n \<le> usize_max"
  shows "n \<le> usize_sat_mul (usize_sat_add m 2 div 3) 4"
proof (cases "m + 2 \<le> usize_max")
  case True
  have "n \<le> 4 * ((m + 2) div 3)"
    using assms(1,2) by (intro order_trans [OF assms(1)] mult_le_mono2 div_le_mono) simp
  with True assms(3) show ?thesis by (simp add: usize_sat_add_def usize_sat_mul_def)
next
  case False
  have "usize_max \<le> usize_max div 3 * 4" by (simp add: usize_max_def)
  with False assms(3) show ?thesis by (simp add: usize_sat_add_def usize_sat_mul_def min_def)
qed

text \<open>
  decoding with a limit is decoding followed by the limit: for a text whose white space is ASCII,
  it succeeds with exactly the decoded bytes when they fit and never otherwise; the early test on
  the encoded length rejects nothing that would fit.
\<close>

theorem base64_limit_exact:
  assumes "b64_padded E" "length input \<le> usize_max"
    "length (filter (\<lambda>b. \<not> is_ascii_ws b) input) = length (b64_normal input)"
  shows "base64_decode_with_limit E input m = Inr out \<longleftrightarrow> base64_decode E input = Inr out \<and> length out \<le> m"
proof -
  have fits: "length (filter (\<lambda>b. \<not> is_ascii_ws b) input) \<le> usize_sat_mul (usize_sat_add m 2 div 3) 4"
    if "base64_decode E input = Inr out" "length out \<le> m"
  proof -
    have "b64_decode E (b64_normal input) = Inr out"
      using that(1) by (simp add: base64_decode_normal rmap_err_Inr_iff)
    then have "length (b64_normal input) \<le> 4 * ((length out + 2) div 3)"
      using assms(1) by (simp add: b64_padded_def)
    moreover have "length (b64_normal input) \<le> usize_max"
      using assms(2,3) length_filter_le [of "\<lambda>b. \<not> is_ascii_ws b" input] by simp
    ultimately show ?thesis using b64_len_fits [OF _ that(2)] assms(3) by simp
  qed
  then show ?thesis
    by (cases "base64_decode E input") (auto simp: base64_limit_normal split: if_splits)
qed

text \<open>A codec that knows one encoded text, to apply the theorems at.\<close>

definition sample_stream :: "string \<Rightarrow> (nat \<times> string) list \<Rightarrow> string \<Rightarrow> nat \<Rightarrow> string + nat \<times> string \<times> inflate_status" where
  "sample_stream d h rest n =
     (let left = drop (length (concat (map snd h))) d in
      Inr (0, take n left, if length left \<le> n then InflateStreamEnd else InflateOk))"

definition sample_wire :: wire_ext where
  "sample_wire = ns_ext.extend sample_ns
     \<lparr>b64_encode = (\<lambda>s. ''QUI=''), b64_decode = (\<lambda>s. if s = ''QUI='' then Inr ''AB'' else Inl ''Invalid byte''),
      deflate_encode = (\<lambda>s. Inr ''AB''), inflate_call = sample_stream ''<a/>'',
      form_parse = (\<lambda>s. [(''SAMLRequest'', ''QUI='')]), form_byte_serialize = (\<lambda>s. s)\<rparr>"

lemma sample_b64_padded: "b64_padded sample_wire"
  by (simp add: b64_padded_def sample_wire_def ns_ext.defs)

lemma base64_limit_exact_witness: "base64_decode_with_limit sample_wire ''QU I='' 5 = Inr ''AB''"
proof -
  have n: "b64_normal ''QU I='' = ''QUI=''"
    by (simp add: b64_normal_def is_ascii_ws_def strip_ws.simps ws_len.simps)
  show ?thesis
  proof (subst base64_limit_exact [OF sample_b64_padded])
    show "length ''QU I='' \<le> usize_max" by (simp add: usize_max_def)
    show "length (filter (\<lambda>b. \<not> is_ascii_ws b) ''QU I='') = length (b64_normal ''QU I='')"
      unfolding n by (simp add: is_ascii_ws_def)
    show "base64_decode sample_wire ''QU I='' = Inr ''AB'' \<and> length ''AB'' \<le> 5"
      unfolding base64_decode_normal n by (simp add: sample_wire_def ns_ext.defs)
  qed
qed

section \<open>Inflating\<close>

text \<open>The contract of one call: it reads at most what it is given and fills at most the buffer.\<close>

definition inflate_law :: "('e) wire_ext_scheme \<Rightarrow> bool" where
  "inflate_law E \<longleftrightarrow>
     (\<forall>h rest n c w st. inflate_call E h rest n = Inr (c, w, st) \<longrightarrow> c \<le> length rest \<and> length w \<le> n)"

lemma inflate_terminates:
  assumes "inflate_law E" "m < usize_max"
  shows "off \<le> length input \<Longrightarrow> length out \<le> m \<Longrightarrow> length input - off + (m - length out) < fuel \<Longrightarrow>
     \<exists>r. inflate_loop E input m fuel h off out = Some r \<and> (\<forall>d. r = Inr d \<longrightarrow> length d \<le> m)"
proof (induction fuel arbitrary: h off out)
  case (Suc fuel)
  let ?n = "min 4096 (usize_sat_add m 1 - length out)"
  show ?case
  proof (cases "inflate_call E h (drop off input) ?n")
    case (Inl e)
    then show ?thesis by (simp add: Let_def)
  next
    case (Inr r)
    obtain c w st where r: "r = (c, w, st)" by (cases r)
    have law: "c \<le> length input - off" "length w \<le> ?n"
      using assms(1) Inr r unfolding inflate_law_def by fastforce+
    show ?thesis
    proof (cases "length (out @ w) > m \<or> st = InflateStreamEnd \<or> (c = 0 \<and> w = [])")
      case True
      then show ?thesis using Inr r by (auto simp: Let_def)
    next
      case False
      have "\<exists>r. inflate_loop E input m fuel (h @ [(c, w)]) (off + c) (out @ w) = Some r \<and> (\<forall>d. r = Inr d \<longrightarrow> length d \<le> m)"
      proof (rule Suc.IH)
        show "off + c \<le> length input" using law(1) Suc.prems(1) by simp
        show "length (out @ w) \<le> m" using False by simp
        have "0 < c + length w" using False by (cases w) auto
        then show "length input - (off + c) + (m - length (out @ w)) < fuel"
          using Suc.prems law(1) False by (simp add: not_less del: add_gr_0) arith
      qed
      then show ?thesis using Inr r False by (auto simp: Let_def)
    qed
  qed
qed simp

text \<open>
  C33: inflating always ends and never returns more than the limit: the loop does not use up its fuel,
  whatever the decompressor does within its contract.
\<close>

theorem deflate_decode_ends_bounded:
  assumes "inflate_law E" "m < usize_max"
  shows "inflate_loop E input m (length input + m + 2) [] 0 [] \<noteq> None
     \<and> (\<forall>d. deflate_raw_decode_with_limit E input m = Inr d \<longrightarrow> length d \<le> m)"
proof -
  obtain r where "inflate_loop E input m (length input + m + 2) [] 0 [] = Some r" "\<forall>d. r = Inr d \<longrightarrow> length d \<le> m"
    using inflate_terminates [OF assms, of 0 input "[]" "length input + m + 2" "[]"] by auto
  then show ?thesis by (auto simp: deflate_raw_decode_with_limit_def)
qed

lemma stream_inflate_law: "inflate_call E = sample_stream d \<Longrightarrow> inflate_law E"
  by (auto simp: inflate_law_def sample_stream_def Let_def)

lemma sample_inflate_law: "inflate_law sample_wire"
  by (rule stream_inflate_law) (simp add: sample_wire_def ns_ext.defs)

text \<open>
  A streaming decoder of \<open>d\<close> on \<open>input\<close>: after any calls that produced a prefix of \<open>d\<close>, the next
  one produces more of \<open>d\<close>, ends only with all of it, and makes progress unless it ends.
\<close>

definition consumed_of :: "(nat \<times> string) list \<Rightarrow> nat" where
  "consumed_of h = sum_list (map fst h)"

definition written_of :: "(nat \<times> string) list \<Rightarrow> string" where
  "written_of h = concat (map snd h)"

definition inflates_to :: "('e) wire_ext_scheme \<Rightarrow> string \<Rightarrow> string \<Rightarrow> bool" where
  "inflates_to E input d \<longleftrightarrow>
     (\<forall>h n. 0 < n \<longrightarrow> prefix (written_of h) d \<longrightarrow>
        (\<exists>c w st. inflate_call E h (drop (consumed_of h) input) n = Inr (c, w, st)
           \<and> prefix (written_of h @ w) d \<and> (st = InflateStreamEnd \<longrightarrow> written_of h @ w = d)
           \<and> (st \<noteq> InflateStreamEnd \<longrightarrow> 0 < c \<or> w \<noteq> [])))"

lemma inflate_loop_streams:
  assumes "inflate_law E" "inflates_to E input d" "m < usize_max"
  shows "consumed_of h \<le> length input \<Longrightarrow> prefix (written_of h) d \<Longrightarrow> length (written_of h) \<le> m \<Longrightarrow>
     length input - consumed_of h + (m - length (written_of h)) < fuel \<Longrightarrow>
     inflate_loop E input m fuel h (consumed_of h) (written_of h) =
       Some (if length d \<le> m then Inr d else Inl (Invalid ''ERR_DEFLATE_OUTPUT_LIMIT_EXCEEDED''))"
proof (induction fuel arbitrary: h)
  case (Suc fuel)
  let ?n = "min 4096 (usize_sat_add m 1 - length (written_of h))"
  have n: "0 < ?n" using assms(3) Suc.prems(3) by (simp add: usize_sat_add_def)
  obtain c w st where call: "inflate_call E h (drop (consumed_of h) input) ?n = Inr (c, w, st)"
    and pre: "prefix (written_of h @ w) d" and fin: "st = InflateStreamEnd \<Longrightarrow> written_of h @ w = d"
    and prog: "st \<noteq> InflateStreamEnd \<Longrightarrow> 0 < c \<or> w \<noteq> []"
    using assms(2) n Suc.prems(2) unfolding inflates_to_def by blast
  have law: "c \<le> length input - consumed_of h" using assms(1) call unfolding inflate_law_def by fastforce
  have len: "length (written_of h @ w) \<le> length d" using pre by (rule prefix_length_le)
  show ?case
  proof (cases "length (written_of h @ w) > m")
    case True
    then show ?thesis using call len by (simp add: Let_def)
  next
    case le: False
    show ?thesis
    proof (cases "st = InflateStreamEnd")
      case True
      then show ?thesis using call le fin by (auto simp: Let_def)
    next
      case False
      have h': "consumed_of (h @ [(c, w)]) = consumed_of h + c" "written_of (h @ [(c, w)]) = written_of h @ w"
        by (simp_all add: consumed_of_def written_of_def)
      have "inflate_loop E input m fuel (h @ [(c, w)]) (consumed_of (h @ [(c, w)])) (written_of (h @ [(c, w)])) =
          Some (if length d \<le> m then Inr d else Inl (Invalid ''ERR_DEFLATE_OUTPUT_LIMIT_EXCEEDED''))"
      proof (rule Suc.IH)
        show "consumed_of (h @ [(c, w)]) \<le> length input" using law Suc.prems(1) by (simp add: h')
        show "prefix (written_of (h @ [(c, w)])) d" using pre by (simp add: h')
        show "length (written_of (h @ [(c, w)])) \<le> m" using le by (simp add: h')
        have "0 < c + length w" using prog [OF False] by (cases w) auto
        then show "length input - consumed_of (h @ [(c, w)]) + (m - length (written_of (h @ [(c, w)]))) < fuel"
          using Suc.prems law le by (simp add: h' not_less del: add_gr_0)
      qed
      then show ?thesis using call le False prog [OF False] by (auto simp: Let_def h')
    qed
  qed
qed simp

text \<open>
  the inflate limit is exact: on a stream that inflates to some bytes, the decoder returns exactly
  those bytes when they fit the limit, and the limit error when they do not.
\<close>

theorem deflate_decode_exact:
  assumes "inflate_law E" "inflates_to E input d" "m < usize_max"
  shows "deflate_raw_decode_with_limit E input m =
     (if length d \<le> m then Inr d else Inl (Invalid ''ERR_DEFLATE_OUTPUT_LIMIT_EXCEEDED''))"
  using inflate_loop_streams [OF assms, of "[]" "length input + m + 2"]
  by (simp add: deflate_raw_decode_with_limit_def consumed_of_def written_of_def)

lemma stream_inflates:
  assumes "inflate_call E = sample_stream d"
  shows "inflates_to E input d"
  unfolding inflates_to_def
proof (intro allI impI)
  fix h and n :: nat
  assume n: "0 < n" and "prefix (written_of h) d"
  then obtain r where r: "d = written_of h @ r" by (auto simp: prefix_def)
  then have left: "drop (length (concat (map snd h))) d = r" by (simp add: written_of_def)
  have pre: "prefix (written_of h @ take n r) d"
    unfolding r by (simp add: take_is_prefix)
  show "\<exists>c w st. inflate_call E h (drop (consumed_of h) input) n = Inr (c, w, st)
      \<and> prefix (written_of h @ w) d \<and> (st = InflateStreamEnd \<longrightarrow> written_of h @ w = d)
      \<and> (st \<noteq> InflateStreamEnd \<longrightarrow> 0 < c \<or> w \<noteq> [])"
    using n r pre left
    by (intro exI [of _ 0] exI [of _ "take n r"] exI [of _ "if length r \<le> n then InflateStreamEnd else InflateOk"])
      (auto simp: assms sample_stream_def Let_def)
qed

lemma sample_inflates: "inflates_to sample_wire input ''<a/>''"
  by (rule stream_inflates) (simp add: sample_wire_def ns_ext.defs)

lemma deflate_decode_exact_witness:
  "deflate_raw_decode_with_limit sample_wire ''AB'' 4 = Inr ''<a/>''
   \<and> deflate_raw_decode_with_limit sample_wire ''AB'' 3 = Inl (Invalid ''ERR_DEFLATE_OUTPUT_LIMIT_EXCEEDED'')"
  using deflate_decode_exact [OF sample_inflate_law sample_inflates, of 4 "''AB''"]
    deflate_decode_exact [OF sample_inflate_law sample_inflates, of 3 "''AB''"]
  by (simp add: usize_max_def)

lemma deflate_decode_ends_bounded_witness:
  "inflate_loop sample_wire ''AB'' 7 (length ''AB'' + 7 + 2) [] 0 [] \<noteq> None
     \<and> deflate_raw_decode_with_limit sample_wire ''AB'' 7 = Inr ''<a/>'' \<and> length ''<a/>'' \<le> 7"
proof -
  have "deflate_raw_decode_with_limit sample_wire ''AB'' 7 = Inr ''<a/>''"
    using inflate_loop_streams [OF sample_inflate_law sample_inflates, where m = 7 and h = "[]" and input = "''AB''" and fuel = "length ''AB'' + 7 + 2"]
    by (simp add: deflate_raw_decode_with_limit_def consumed_of_def written_of_def usize_max_def)
  then show ?thesis
    using deflate_decode_ends_bounded [OF sample_inflate_law, of 7 "''AB''"] by (simp add: usize_max_def)
qed

section \<open>Escaping\<close>

fun xml_char :: "char \<Rightarrow> string" where
  "xml_char c =
     (if c = CHR ''&'' then ''&amp;'' else if c = CHR 0x22 then ''&quot;'' else if c = CHR 0x27 then ''&apos;''
      else if c = CHR ''<'' then ''&lt;'' else if c = CHR ''>'' then ''&gt;'' else [c])"

fun html_char :: "char \<Rightarrow> string" where
  "html_char c =
     (if c = CHR ''&'' then ''&amp;'' else if c = CHR ''<'' then ''&lt;'' else if c = CHR ''>'' then ''&gt;''
      else if c = CHR 0x22 then ''&quot;'' else if c = CHR 0x27 then ''&#39;'' else [c])"

lemma xml_escape_map: "xml_escape s = concat (map xml_char s)"
  unfolding xml_escape_def replace_char by (induction s) auto

lemma html_escape_map: "html_escape s = concat (map html_char s)"
  unfolding html_escape_def replace_char by (induction s) auto

text \<open>The inverse: the five character references of HTML and XML attribute values.\<close>

fun unescape :: "string \<Rightarrow> string" where
  "unescape [] = []"
| "unescape (c # s) =
     (if prefix ''&amp;'' (c # s) then CHR ''&'' # unescape (drop 4 s)
      else if prefix ''&lt;'' (c # s) then CHR ''<'' # unescape (drop 3 s)
      else if prefix ''&gt;'' (c # s) then CHR ''>'' # unescape (drop 3 s)
      else if prefix ''&quot;'' (c # s) then CHR 0x22 # unescape (drop 5 s)
      else if prefix ''&apos;'' (c # s) then CHR 0x27 # unescape (drop 5 s)
      else if prefix ''&#39;'' (c # s) then CHR 0x27 # unescape (drop 4 s)
      else c # unescape s)"

definition markup :: "char set" where
  "markup = {CHR ''<'', CHR ''>'', CHR 0x22, CHR 0x27}"

lemma escape_no_markup:
  "set (xml_escape s) \<inter> markup = {}" "set (html_escape s) \<inter> markup = {}"
  unfolding xml_escape_map html_escape_map markup_def by (induction s) auto

lemma unescape_step:
  "unescape (xml_char c @ s) = c # unescape s" "unescape (html_char c @ s) = c # unescape s"
  by auto

lemma unescape_escape: "unescape (xml_escape s) = s" "unescape (html_escape s) = s"
  unfolding xml_escape_map html_escape_map by (induction s) (simp_all only: list.map concat.simps unescape_step unescape.simps)

text \<open>
  both escapers are reversible and leave no markup: unescaping gives the text back, and the result
  has no angle bracket and no quote, so it can neither close an attribute nor open a tag.
\<close>

theorem escape_safe:
  "unescape (xml_escape s) = s \<and> set (xml_escape s) \<inter> markup = {}
   \<and> unescape (html_escape s) = s \<and> set (html_escape s) \<inter> markup = {}"
  using unescape_escape escape_no_markup by blast

section \<open>The POST form\<close>

text \<open>What a browser reads of a rendered hidden field: the attribute values between the quotes.\<close>

definition read_hidden_field :: "string \<Rightarrow> (string \<times> string) option" where
  "read_hidden_field s =
     (case split_on CHR 0x22 s of
        [a, b, c, name, d, v, e] \<Rightarrow>
          if a = ''<input type='' \<and> b = ''hidden'' \<and> c = '' name='' \<and> d = '' value='' \<and> e = ''/>''
          then Some (unescape name, unescape v) else None
      | _ \<Rightarrow> None)"

lemma html_escape_no_quote: "CHR 0x22 \<notin> set (html_escape s)"
  using escape_no_markup(2) [of s] by (auto simp: markup_def)

text \<open>
  a hidden field of the POST form reads back as its name and value, whatever characters they
  contain: message and RelayState cannot break out of the form.
\<close>

theorem hidden_field_roundtrip: "read_hidden_field (render_hidden_field f) = Some f"
proof -
  have "split_on CHR 0x22 (render_hidden_field f) =
      [''<input type='', ''hidden'', '' name='', html_escape (fst f), '' value='', html_escape (snd f), ''/>'']"
    unfolding render_hidden_field_def dq_def
    using split_on_append [OF html_escape_no_quote [of "fst f"]] split_on_append [OF html_escape_no_quote [of "snd f"]]
    by simp
  then show ?thesis by (simp add: read_hidden_field_def unescape_escape)
qed

text \<open>
  the checked POST form is only rendered for an absolute HTTP(S) action, and carries a signature
  only together with its algorithm.
\<close>

theorem try_post_form_ok:
  assumes "try_saml_post_binding_form_with_signature E action param b64 relay sig_alg sig = Inr html"
  shows "http_url E action \<and> (sig_alg = None \<longleftrightarrow> sig = None)
     \<and> html = render_post_form action ([(param, b64)]
         @ (case relay of Some r \<Rightarrow> [(''RelayState'', r)] | None \<Rightarrow> [])
         @ (case sig of Some s \<Rightarrow> [(''SigAlg'', the sig_alg), (''Signature'', s)] | None \<Rightarrow> []))"
  using assms
  by (auto simp: try_saml_post_binding_form_with_signature_def validate_post_form_action_def
      validate_signature_fields_def rbind_Inr_iff http_url_def saml_post_binding_form_with_signature_def
      binding_fields_def split: sum.splits option.splits if_splits)

lemma try_post_form_ok_witness: "http_url sample_net sample_url"
  using try_post_form_ok [of sample_net sample_url "''SAMLRequest''" "''QUI=''" None None None
      "saml_post_binding_form_with_signature sample_url ''SAMLRequest'' ''QUI='' None None None"]
  by (simp add: try_saml_post_binding_form_with_signature_def validate_post_form_action_def
      validate_signature_fields_def sample_net_def xml_ext.defs)

end
