(* ===== verification/Input.thy ===== *)
theory Input
  imports Wire
begin

text \<open>
  Browser input: the request parameters of \<open>HttpRequest\<close> in \<open>src/src/flow.rs\<close> and the
  conversion of \<open>src/src/browser/input.rs\<close> from a raw query or form fields, which also
  rebuilds the octet string a detached signature covers. Properties: a field that occurs twice
  is an error, the message kind is unambiguous, and the octet string of a signed Redirect is
  exactly the one the sender signed.
\<close>

section \<open>Requests\<close>

record http_request =
  hr_query :: "(string \<times> string) list"
  hr_body :: "(string \<times> string) list"
  hr_octet_string :: "string option"

definition http_request_redirect :: "(string \<times> string) list \<Rightarrow> http_request" where
  "http_request_redirect query = \<lparr>hr_query = query, hr_body = [], hr_octet_string = None\<rparr>"

definition http_request_post :: "(string \<times> string) list \<Rightarrow> http_request" where
  "http_request_post body = \<lparr>hr_query = [], hr_body = body, hr_octet_string = None\<rparr>"

definition single_param :: "(string \<times> string) list \<Rightarrow> string \<Rightarrow> string option res" where
  "single_param params key =
     rmap (map_option snd)
       (unique_value (\<lambda>p. fst p = key) (Invalid ''ERR_AMBIGUOUS_FLOW_INPUT'') params)"

definition query_get :: "http_request \<Rightarrow> string \<Rightarrow> string option res" where
  "query_get r key = single_param (hr_query r) key"

definition body_get :: "http_request \<Rightarrow> string \<Rightarrow> string option res" where
  "body_get r key = single_param (hr_body r) key"

section \<open>Browser input\<close>

datatype message_field = FieldRequest | FieldResponse

fun param_name :: "message_field \<Rightarrow> string" where
  "param_name FieldRequest = ''SAMLRequest''"
| "param_name FieldResponse = ''SAMLResponse''"

fun opposite_param_name :: "message_field \<Rightarrow> string" where
  "opposite_param_name FieldRequest = ''SAMLResponse''"
| "opposite_param_name FieldResponse = ''SAMLRequest''"

type_synonym form_field = "string \<times> string"

datatype browser_input =
  InRedirect string
| InPost "form_field list"
| InSimpleSignPost string "form_field list"

definition parse_form_pairs :: "('e) wire_ext_scheme \<Rightarrow> string \<Rightarrow> (string \<times> string) list" where
  "parse_form_pairs E raw = form_parse E raw"

definition simple_sign_body_input :: "('e) wire_ext_scheme \<Rightarrow> string \<Rightarrow> browser_input" where
  "simple_sign_body_input E raw_body = InSimpleSignPost raw_body (parse_form_pairs E raw_body)"

definition raw_query_params :: "string \<Rightarrow> (string \<times> string) list" where
  "raw_query_params raw_query =
     map (\<lambda>segment. case split_once CHR ''='' segment of Some p \<Rightarrow> p | None \<Rightarrow> (segment, []))
       (filter (\<lambda>segment. segment \<noteq> []) (split_on CHR ''&'' raw_query))"

definition unique_encoded_query_value :: "(string \<times> string) list \<Rightarrow> string \<Rightarrow> string option res" where
  "unique_encoded_query_value params name =
     rmap (map_option snd)
       (unique_value (\<lambda>p. fst p = name) (Invalid (''ambiguous Redirect field '' @ name)) params)"

definition validate_query_message_kind :: "(string \<times> string) list \<Rightarrow> message_field \<Rightarrow> string res" where
  "validate_query_message_kind params expected_message =
     (let expected_name = param_name expected_message; opposite_name = opposite_param_name expected_message in
      rbind (unique_encoded_query_value params expected_name) (\<lambda>expected.
      rbind (unique_encoded_query_value params opposite_name) (\<lambda>opposite.
        case (expected, opposite) of
          (Some v, None) \<Rightarrow> Inr v
        | (None, None) \<Rightarrow> Inl (Invalid (''missing Redirect field '' @ expected_name))
        | _ \<Rightarrow> Inl (Invalid (''expected Redirect field '' @ expected_name @ '', found '' @ opposite_name)))))"

definition redirect_octet_from_raw_query :: "string \<Rightarrow> message_field \<Rightarrow> string option res" where
  "redirect_octet_from_raw_query raw_query expected_message =
     (let params = raw_query_params raw_query; message_name = param_name expected_message in
      rbind (validate_query_message_kind params expected_message) (\<lambda>message_value.
      rbind (unique_encoded_query_value params ''RelayState'') (\<lambda>relay_state.
      rbind (unique_encoded_query_value params ''SigAlg'') (\<lambda>sig_alg.
      rbind (unique_encoded_query_value params ''Signature'') (\<lambda>signature.
        case (sig_alg, signature) of
          (Some alg, Some _) \<Rightarrow>
            Inr (Some (case relay_state of
                Some rs \<Rightarrow> message_name @ ''='' @ message_value @ ''&RelayState='' @ rs @ ''&SigAlg='' @ alg
              | None \<Rightarrow> message_name @ ''='' @ message_value @ ''&SigAlg='' @ alg))
        | (None, None) \<Rightarrow> Inr None
        | _ \<Rightarrow> Inl (Invalid ''incomplete Redirect signature parameters''))))))"

definition field_value :: "form_field list \<Rightarrow> string \<Rightarrow> string option res" where
  "field_value fs name =
     rmap (map_option snd) (unique_value (\<lambda>p. fst p = name) (Invalid ''ambiguous form field'') fs)"

definition validate_form_message_kind :: "form_field list \<Rightarrow> message_field \<Rightarrow> string res" where
  "validate_form_message_kind fs expected_message =
     (let expected_name = param_name expected_message; opposite_name = opposite_param_name expected_message in
      rbind (field_value fs expected_name) (\<lambda>expected.
      rbind (field_value fs opposite_name) (\<lambda>opposite.
        case (expected, opposite) of
          (Some v, None) \<Rightarrow> Inr v
        | (None, None) \<Rightarrow> Inl (Invalid (''missing form field '' @ expected_name))
        | _ \<Rightarrow> Inl (Invalid (''expected form field '' @ expected_name @ '', found '' @ opposite_name)))))"

definition simplesign_octet_from_fields :: "('e) wire_ext_scheme \<Rightarrow> form_field list \<Rightarrow> message_field \<Rightarrow> string res" where
  "simplesign_octet_from_fields E fs expected_message =
     rbind (validate_form_message_kind fs expected_message) (\<lambda>encoded.
     rbind (base64_decode_with_limit E encoded (max_bytes xml_limits_default)) (\<lambda>bytes.
     rbind (rmap_err Xml (string_from_utf8 bytes)) (\<lambda>raw_xml.
     rbind (field_value fs ''SigAlg'') (\<lambda>alg.
     rbind (ok_or alg MissingSigAlg) (\<lambda>sig_alg.
     rbind (field_value fs ''RelayState'') (\<lambda>relay_state.
       Inr (build_simplesign_octet (param_name expected_message) raw_xml relay_state sig_alg)))))))"

definition http_request_from_input :: "('e) wire_ext_scheme \<Rightarrow> browser_input \<Rightarrow> bool \<Rightarrow> message_field \<Rightarrow>
    http_request res" where
  "http_request_from_input E input allow_redirect expected_message =
     (case input of
        InRedirect raw \<Rightarrow>
          if \<not> allow_redirect then Inl UndefinedBinding
          else
            let raw_query = dropWhile (\<lambda>c. c = CHR ''?'') raw in
            rbind (redirect_octet_from_raw_query raw_query expected_message) (\<lambda>octet_string.
              Inr \<lparr>hr_query = parse_form_pairs E raw_query, hr_body = [], hr_octet_string = octet_string\<rparr>)
      | InPost fs \<Rightarrow>
          rbind (validate_form_message_kind fs expected_message) (\<lambda>_. Inr (http_request_post fs))
      | InSimpleSignPost raw_body fs0 \<Rightarrow>
          let fs = (if fs0 = [] then parse_form_pairs E raw_body else fs0) in
          rbind (simplesign_octet_from_fields E fs expected_message) (\<lambda>octet_string.
            Inr ((http_request_post fs)\<lparr>hr_octet_string := Some octet_string\<rparr>)))"

text \<open>The four \<open>TryFrom<BrowserInput<_>>\<close> conversions.\<close>

fun http_request_for :: "('e) wire_ext_scheme \<Rightarrow> parser_type \<Rightarrow> browser_input \<Rightarrow> http_request res" where
  "http_request_for E SamlRequest input = http_request_from_input E input True FieldRequest"
| "http_request_for E SamlResponse input = http_request_from_input E input False FieldResponse"
| "http_request_for E LogoutRequest input = http_request_from_input E input True FieldRequest"
| "http_request_for E LogoutResponse input = http_request_from_input E input True FieldResponse"

section \<open>No ambiguity\<close>

lemma single_param_Inr_Some:
  "single_param params key = Inr (Some v) \<longleftrightarrow> filter (\<lambda>p. fst p = key) params = [(key, v)]"
proof -
  have "single_param params key = Inr (Some v) \<longleftrightarrow> (\<exists>p. filter (\<lambda>p. fst p = key) params = [p] \<and> v = snd p)"
    by (auto simp: single_param_def unique_value_def split: list.splits)
  also have "\<dots> \<longleftrightarrow> filter (\<lambda>p. fst p = key) params = [(key, v)]"
    by (auto simp: filter_eq_Cons_iff)
  finally show ?thesis .
qed

lemma single_param_Inr_None: "single_param params key = Inr None \<longleftrightarrow> key \<notin> fst ` set params"
  by (auto simp: single_param_def rmap_Inr_iff unique_value_Inr_None)

text \<open>
  a request parameter is read only when it is unambiguous: with a value when the key occurs exactly
  once, as absent when it does not occur, and in no other case.
\<close>

theorem single_param_unambiguous:
  "single_param params key = Inr r \<longleftrightarrow>
     (case r of
        Some v \<Rightarrow> filter (\<lambda>p. fst p = key) params = [(key, v)]
      | None \<Rightarrow> key \<notin> fst ` set params)"
  by (cases r) (simp_all add: single_param_Inr_Some single_param_Inr_None)

lemma unique_encoded_eq:
  "unique_encoded_query_value params name = Inr r \<longleftrightarrow> single_param params name = Inr r"
  "field_value params name = Inr r \<longleftrightarrow> single_param params name = Inr r"
  by (auto simp: unique_encoded_query_value_def field_value_def single_param_def rmap_Inr_iff unique_value_def
      split: list.splits)

section \<open>The signed octets of a Redirect\<close>

text \<open>Form encoding leaves no separator (\<open>form_urlencoded::byte_serialize\<close>).\<close>

definition url_encode_law :: "('e) wire_ext_scheme \<Rightarrow> bool" where
  "url_encode_law E \<longleftrightarrow> (\<forall>s. CHR ''&'' \<notin> set (form_byte_serialize E s))"

lemma split_once_None: "c \<notin> set a \<Longrightarrow> split_once c a = None"
  by (induction a) auto

lemma split_once_append: "c \<notin> set a \<Longrightarrow> split_once c (a @ c # b) = Some (a, b)"
  by (induction a) auto

fun message_field_of :: "parser_type \<Rightarrow> message_field" where
  "message_field_of SamlRequest = FieldRequest"
| "message_field_of LogoutRequest = FieldRequest"
| "message_field_of SamlResponse = FieldResponse"
| "message_field_of LogoutResponse = FieldResponse"

lemma param_name_of: "param_name (message_field_of t) = query_param t"
  by (cases t) simp_all

lemma raw_params_signed:
  assumes "CHR ''&'' \<notin> set m" "CHR ''&'' \<notin> set a" "CHR ''&'' \<notin> set s" "\<And>r. relay = Some r \<Longrightarrow> CHR ''&'' \<notin> set r"
  shows "raw_query_params (param_name f @ ''='' @ m
       @ (case relay of Some r \<Rightarrow> ''&RelayState='' @ r | None \<Rightarrow> []) @ ''&SigAlg='' @ a @ ''&Signature='' @ s) =
     [(param_name f, m)] @ (case relay of Some r \<Rightarrow> [(''RelayState'', r)] | None \<Rightarrow> [])
       @ [(''SigAlg'', a), (''Signature'', s)]"
proof -
  have sp: "split_on CHR ''&'' (x @ CHR ''&'' # y) = x # split_on CHR ''&'' y" if "CHR ''&'' \<notin> set x" for x y
    using that by (rule split_on_append)
  have n: "CHR ''&'' \<notin> set (param_name f)" by (cases f) simp_all
  have eq: "split_once CHR ''='' (param_name f @ CHR ''='' # x) = Some (param_name f, x)" for x
    by (intro split_once_append) (cases f, simp_all)
  have last: "split_on CHR ''&'' (''SigAlg='' @ a @ ''&Signature='' @ s) = [''SigAlg='' @ a, ''Signature='' @ s]"
    using sp [of "''SigAlg='' @ a" "''Signature='' @ s"] assms(2,3) by (simp add: split_on_no_sep)
  show ?thesis
  proof (cases relay)
    case None
    have "split_on CHR ''&'' (param_name f @ ''='' @ m @ ''&SigAlg='' @ a @ ''&Signature='' @ s) =
        [param_name f @ ''='' @ m, ''SigAlg='' @ a, ''Signature='' @ s]"
      using sp [of "param_name f @ ''='' @ m" "''SigAlg='' @ a @ ''&Signature='' @ s"] assms(1) n last by simp
    then show ?thesis by (simp add: raw_query_params_def None eq)
  next
    case (Some r)
    have "split_on CHR ''&'' (param_name f @ ''='' @ m @ ''&RelayState='' @ r @ ''&SigAlg='' @ a @ ''&Signature='' @ s) =
        [param_name f @ ''='' @ m, ''RelayState='' @ r, ''SigAlg='' @ a, ''Signature='' @ s]"
      using sp [of "param_name f @ ''='' @ m" "''RelayState='' @ r @ ''&SigAlg='' @ a @ ''&Signature='' @ s"]
        sp [of "''RelayState='' @ r" "''SigAlg='' @ a @ ''&Signature='' @ s"] assms(1) assms(4) [OF Some] n last by simp
    then show ?thesis by (simp add: raw_query_params_def Some eq)
  qed
qed

lemma redirect_octet_rebuilt:
  assumes "url_encode_law E" "build_redirect_octet E ptype xml relay sig_alg = Inr octet"
  shows "redirect_octet_from_raw_query (octet @ ''&Signature='' @ url_encode E sig) (message_field_of ptype) =
     Inr (Some octet)"
proof -
  let ?f = "message_field_of ptype"
  obtain d where d: "octet = param_name ?f @ ''='' @ url_encode E (base64_encode E d)
         @ (case map_option (url_encode E) relay of Some r \<Rightarrow> ''&RelayState='' @ r | None \<Rightarrow> [])
         @ ''&SigAlg='' @ url_encode E sig_alg"
    using assms(2) by (auto simp: build_redirect_octet_def rbind_Inr_iff param_name_of split: option.splits)
  have enc: "CHR ''&'' \<notin> set (url_encode E s)" for s
    using assms(1) by (simp add: url_encode_law_def url_encode_def)
  have params: "raw_query_params (octet @ ''&Signature='' @ url_encode E sig) =
      [(param_name ?f, url_encode E (base64_encode E d))]
      @ (case map_option (url_encode E) relay of Some r \<Rightarrow> [(''RelayState'', r)] | None \<Rightarrow> [])
      @ [(''SigAlg'', url_encode E sig_alg), (''Signature'', url_encode E sig)]"
    unfolding d using raw_params_signed [of "url_encode E (base64_encode E d)" "url_encode E sig_alg"
        "url_encode E sig" "map_option (url_encode E) relay" ?f] enc
    by (cases relay) simp_all
  have name: "param_name ?f \<in> {''SAMLRequest'', ''SAMLResponse''}"
    "opposite_param_name ?f = (if param_name ?f = ''SAMLRequest'' then ''SAMLResponse'' else ''SAMLRequest'')"
    by (cases ?f; simp)+
  show ?thesis
    unfolding redirect_octet_from_raw_query_def Let_def validate_query_message_kind_def params
    using name by (cases relay) (auto simp: unique_encoded_query_value_def unique_value_def d)
qed

text \<open>
  C30: the receiver rebuilds exactly the octets the sender signed: for every message, RelayState and
  algorithm, the octet string built for signing, followed by the signature parameter, is recovered
  unchanged from the raw query.
\<close>

theorem redirect_octet_roundtrip:
  assumes "url_encode_law E" "build_redirect_octet E ptype xml relay sig_alg = Inr octet"
  shows "redirect_octet_from_raw_query (octet @ ''&Signature='' @ url_encode E sig) (message_field_of ptype) =
     Inr (Some octet)"
  by (rule redirect_octet_rebuilt [OF assms])

lemma redirect_octet_roundtrip_witness:
  "redirect_octet_from_raw_query (''SAMLRequest=QUI=&SigAlg=alg'' @ ''&Signature='' @ url_encode (sample_wire\<lparr>form_byte_serialize := filter (\<lambda>c. c \<noteq> CHR ''&'')\<rparr>) ''sig'') FieldRequest
   = Inr (Some ''SAMLRequest=QUI=&SigAlg=alg'')"
proof -
  let ?E = "sample_wire\<lparr>form_byte_serialize := filter (\<lambda>c. c \<noteq> CHR ''&'')\<rparr>"
  have law: "url_encode_law ?E" by (simp add: url_encode_law_def)
  have build: "build_redirect_octet ?E SamlRequest ''<r/>'' None ''alg'' = Inr ''SAMLRequest=QUI=&SigAlg=alg''"
    by (simp add: build_redirect_octet_def deflate_raw_encode_def base64_encode_def url_encode_def sample_wire_def
        ns_ext.defs)
  from redirect_octet_roundtrip [OF law build, of "''sig''"] show ?thesis
    by (simp only: message_field_of.simps)
qed

text \<open>
  an accepted browser input has one message of the expected kind: the expected form or query field
  occurs exactly once and the field of the other kind not at all, and an SSO response never comes
  from a Redirect.
\<close>

theorem http_request_unambiguous:
  assumes "http_request_from_input E input allow_redirect f = Inr r"
  shows "\<exists>v. filter (\<lambda>p. fst p = param_name f)
           (case input of
              InRedirect raw \<Rightarrow> raw_query_params (dropWhile (\<lambda>c. c = CHR ''?'') raw)
            | _ \<Rightarrow> hr_body r) = [(param_name f, v)]
     \<and> opposite_param_name f \<notin> fst `
         set (case input of
                InRedirect raw \<Rightarrow> raw_query_params (dropWhile (\<lambda>c. c = CHR ''?'') raw)
              | _ \<Rightarrow> hr_body r)
     \<and> (\<not> allow_redirect \<longrightarrow> (\<forall>raw. input \<noteq> InRedirect raw))"
proof -
  have q: "filter (\<lambda>p. fst p = param_name f) ps = [(param_name f, v)] \<and> opposite_param_name f \<notin> fst ` set ps"
    if "validate_query_message_kind ps f = Inr v" for ps v
    using that by (auto simp: validate_query_message_kind_def Let_def rbind_Inr_iff unique_encoded_eq
        single_param_Inr_Some single_param_Inr_None split: option.splits)
  have b: "filter (\<lambda>p. fst p = param_name f) ps = [(param_name f, v)] \<and> opposite_param_name f \<notin> fst ` set ps"
    if "validate_form_message_kind ps f = Inr v" for ps v
    using that by (auto simp: validate_form_message_kind_def Let_def rbind_Inr_iff unique_encoded_eq
        single_param_Inr_Some single_param_Inr_None split: option.splits)
  show ?thesis
  proof (cases input)
    case (InRedirect raw)
    with assms obtain v where "validate_query_message_kind (raw_query_params (dropWhile (\<lambda>c. c = CHR ''?'') raw)) f = Inr v"
      "allow_redirect"
      by (auto simp: http_request_from_input_def redirect_octet_from_raw_query_def Let_def rbind_Inr_iff split: if_splits)
    with InRedirect q show ?thesis by auto
  next
    case (InPost fs)
    with assms obtain v where "validate_form_message_kind fs f = Inr v" "hr_body r = fs"
      by (auto simp: http_request_from_input_def http_request_post_def rbind_Inr_iff)
    with InPost b show ?thesis by auto
  next
    case (InSimpleSignPost raw fs)
    with assms obtain v where "validate_form_message_kind (hr_body r) f = Inr v"
      by (auto simp: http_request_from_input_def http_request_post_def simplesign_octet_from_fields_def rbind_Inr_iff
          Let_def)
    with InSimpleSignPost b show ?thesis by auto
  qed
qed

lemma http_request_unambiguous_witness:
  "\<exists>v. filter (\<lambda>p. fst p = ''SAMLResponse'') [(''RelayState'', ''x''), (''SAMLResponse'', ''QUI='')] = [(''SAMLResponse'', v)]"
  using http_request_unambiguous [of sample_wire "InPost [(''RelayState'', ''x''), (''SAMLResponse'', ''QUI='')]" False
      FieldResponse "http_request_post [(''RelayState'', ''x''), (''SAMLResponse'', ''QUI='')]"]
  by (auto simp: http_request_from_input_def validate_form_message_kind_def field_value_def unique_value_def
      http_request_post_def)

end
