(* ===== verification/Crypto.thy ===== *)
theory Crypto
  imports Input
begin

text \<open>
  The cryptographic back end as the crate calls it (\<open>src/src/crypto/provider.rs\<close>,
  \<open>keys.rs\<close>, \<open>xml_syntax.rs\<close>, \<open>sign.rs\<close>, \<open>enc.rs\<close>). The crate
  \<open>ribergshamra\<close> is not part of the repository: each function the code calls is a field of
  \<open>crypto_ext\<close>, with keys of an abstract type. What is modelled is everything around those
  calls: the order of the checks, the texts handed over, and how results and errors are combined.
\<close>

section \<open>The back end\<close>

datatype backend_id = BackendRustCrypto | BackendAwsLc
datatype backend_fips = FipsDisabled | FipsUninitialized | FipsActive

record backend_status =
  bs_document :: backend_id
  bs_fips :: backend_fips

record 'k dsig_context =
  dc_keys :: "'k list"
  trusted_keys_only :: bool
  strict_verification :: bool
  require_reference_digests :: bool
  hmac_min_out_len :: nat
  dc_insecure :: bool

text \<open>\<open>DsigContext::new\<close>.\<close>

definition dsig_context_new :: "'k list \<Rightarrow> 'k dsig_context" where
  "dsig_context_new keys =
     \<lparr>dc_keys = keys, trusted_keys_only = True, strict_verification = True, require_reference_digests = True,
      hmac_min_out_len = 160, dc_insecure = False\<rparr>"

record verified_reference =
  vr_uri :: string
  digest_verified :: bool
  resolved_node :: "nat option"

datatype verify_result = VrValid "verified_reference list" | VrInvalid

record 'k crypto_ext = wire_ext +
  feature_rustcrypto :: bool
  backend_info :: "string + backend_status"
  initialize_backend :: "string + backend_status"
  load_pem_auto :: "string \<Rightarrow> string option \<Rightarrow> string + 'k"
  load_x509_cert_pem :: "string \<Rightarrow> string + 'k"
  build_x509_key_info :: "string list \<Rightarrow> string"
  to_signing_key :: "'k \<Rightarrow> string + 'k option"
  sign_from_uri :: "string \<Rightarrow> string + unit"
  alg_sign :: "string \<Rightarrow> 'k \<Rightarrow> string \<Rightarrow> string + string"
  alg_verify :: "string \<Rightarrow> 'k \<Rightarrow> string \<Rightarrow> string \<Rightarrow> string + bool"
  dsig_sign :: "'k dsig_context \<Rightarrow> string \<Rightarrow> string + string"
  dsig_verify :: "'k dsig_context \<Rightarrow> string \<Rightarrow> string + verify_result"
  dsig_verify_all :: "'k dsig_context \<Rightarrow> string \<Rightarrow> string + verify_result list"
  xmlenc_encrypt :: "'k list \<Rightarrow> string \<Rightarrow> string \<Rightarrow> string + string"
  xmlenc_decrypt :: "'k list \<Rightarrow> string \<Rightarrow> string + string"
  ns_read_default :: "string \<Rightarrow> ns_step list"
  ns_normalize :: "string \<Rightarrow> string + string"

section \<open>Provider\<close>

datatype crypto_provider = RustCrypto | AwsLc
datatype crypto_fips_status = CfsDisabled | CfsUninitialized | CfsActive

record crypto_provider_status =
  cps_provider :: crypto_provider
  cps_fips :: crypto_fips_status

definition provider_info :: "backend_status \<Rightarrow> crypto_provider_status" where
  "provider_info i =
     \<lparr>cps_provider = (case bs_document i of BackendRustCrypto \<Rightarrow> RustCrypto | BackendAwsLc \<Rightarrow> AwsLc),
      cps_fips = (case bs_fips i of FipsDisabled \<Rightarrow> CfsDisabled | FipsUninitialized \<Rightarrow> CfsUninitialized
                  | FipsActive \<Rightarrow> CfsActive)\<rparr>"

definition provider_error :: "string \<Rightarrow> string \<Rightarrow> saml_error" where
  "provider_error action e = saml_error.Crypto (''crypto provider '' @ action @ '' failed: '' @ e)"

definition crypto_provider_info :: "('k, 'e) crypto_ext_scheme \<Rightarrow> crypto_provider_status res" where
  "crypto_provider_info E = rmap_err (provider_error ''inspection'') (rmap provider_info (backend_info E))"

definition initialize_crypto_provider :: "('k, 'e) crypto_ext_scheme \<Rightarrow> crypto_provider_status res" where
  "initialize_crypto_provider E =
     rmap_err (provider_error ''initialization'') (rmap provider_info (initialize_backend E))"

definition ensure_crypto_provider_initialized :: "('k, 'e) crypto_ext_scheme \<Rightarrow> unit res" where
  "ensure_crypto_provider_initialized E = rmap (\<lambda>_. ()) (initialize_crypto_provider E)"

section \<open>Keys\<close>

definition load_private_key :: "('k, 'e) crypto_ext_scheme \<Rightarrow> string \<Rightarrow> string option \<Rightarrow> 'k res" where
  "load_private_key E pem password =
     rbind (ensure_crypto_provider_initialized E) (\<lambda>_. rmap_err saml_error.Crypto (load_pem_auto E pem password))"

text \<open>
  A line break before every 64th character but the first. Characters are counted by the bytes that
  start one (a UTF-8 continuation byte stays with its character).
\<close>

fun wrap_64 :: "nat \<Rightarrow> string \<Rightarrow> string" where
  "wrap_64 i [] = []"
| "wrap_64 i (c # cs) =
     (if byte_in c 0x80 0xBF then c # wrap_64 i cs
      else (if i \<noteq> 0 \<and> i mod 64 = 0 then [CHR 0x0A] else []) @ c # wrap_64 (Suc i) cs)"

definition to_cert_pem :: "string \<Rightarrow> string" where
  "to_cert_pem cert =
     (if str_contains cert ''BEGIN CERTIFICATE'' then cert
      else
        let b64 = normalize_cert_string cert;
            body = wrap_64 0 b64 @ (if b64 \<noteq> [] then [CHR 0x0A] else [])
        in ''-----BEGIN CERTIFICATE-----'' @ [CHR 0x0A] @ body @ ''-----END CERTIFICATE-----'' @ [CHR 0x0A])"

definition load_certificate :: "('k, 'e) crypto_ext_scheme \<Rightarrow> string \<Rightarrow> 'k res" where
  "load_certificate E cert =
     rbind (ensure_crypto_provider_initialized E) (\<lambda>_.
       rmap_err saml_error.Crypto (load_x509_cert_pem E (to_cert_pem cert)))"

definition build_key_info :: "('k, 'e) crypto_ext_scheme \<Rightarrow> string \<Rightarrow> string" where
  "build_key_info E cert = build_x509_key_info E [normalize_cert_string cert]"

section \<open>XML prefixes\<close>

definition is_prefix_start :: "char \<Rightarrow> bool" where
  "is_prefix_start c = (ascii_lower c \<or> ascii_upper c \<or> c = CHR ''_'')"

definition is_prefix_char :: "char \<Rightarrow> bool" where
  "is_prefix_char c = (ascii_lower c \<or> ascii_upper c \<or> c \<in> set ''0123456789_-.'')"

definition validate_crypto_xml_prefix :: "string \<Rightarrow> string \<Rightarrow> unit res" where
  "validate_crypto_xml_prefix name pre =
     (if pre = [] then Inl (Invalid (name @ '' XML prefix cannot be empty''))
      else if map to_lower pre \<in> {''xml'', ''xmlns''} then Inl (Invalid (name @ '' XML prefix is reserved''))
      else if \<not> is_prefix_start (hd pre) then Inl (Invalid (name @ '' XML prefix contains an invalid character''))
      else if \<not> list_all is_prefix_char (tl pre)
      then Inl (Invalid (name @ '' XML prefix contains an invalid character''))
      else Inr ())"

section \<open>Signing\<close>

abbreviation "ENVELOPED_SIGNATURE \<equiv> ''http://www.w3.org/2000/09/xmldsig#enveloped-signature''"
abbreviation "EXC_C14N \<equiv> ''http://www.w3.org/2001/10/xml-exc-c14n#''"

datatype signature_action = SigAfter | SigBefore | SigPrepend | SigAppend

record signature_config =
  sc_prefix :: string
  sc_reference :: "string option"
  sc_action :: signature_action

definition signature_config_default :: signature_config where
  "signature_config_default = \<lparr>sc_prefix = ''ds'', sc_reference = None, sc_action = SigAfter\<rparr>"

definition require_operation_key :: "string + 'k option \<Rightarrow> string \<Rightarrow> 'k res" where
  "require_operation_key key missing =
     rbind (rmap_err saml_error.Crypto key) (\<lambda>k. ok_or k (MissingKey missing))"

definition child_named :: "node \<Rightarrow> string \<Rightarrow> node option" where
  "child_named n name = find (\<lambda>c. local_name c = name) (children n)"

definition find_assertion :: "node \<Rightarrow> node option" where
  "find_assertion r = (if local_name r = ''Assertion'' then Some r else child_named r ''Assertion'')"

abbreviation quote_char :: string where
  "quote_char \<equiv> [CHR 0x27]"

definition local_name_needle :: string where
  "local_name_needle = ''local-name(.)='' @ quote_char"

text \<open>The loop of \<open>parse_local_names\<close>.\<close>

function parse_local_names :: "string \<Rightarrow> string list" where
  "parse_local_names rest =
     (case str_find local_name_needle rest of
        None \<Rightarrow> []
      | Some i \<Rightarrow>
          let rest' = drop (i + length local_name_needle) rest in
          case str_find quote_char rest' of
            None \<Rightarrow> []
          | Some e \<Rightarrow> take e rest' # parse_local_names (drop (e + 1) rest'))"
  by pat_completeness auto
termination
proof (relation "measure length")
  fix rest i x e
  assume i: "str_find local_name_needle rest = Some i" "x = drop (i + length local_name_needle) rest"
    "str_find quote_char x = Some e"
  have "rest \<noteq> []" using i(1) by (auto simp: local_name_needle_def)
  then show "(drop (e + 1) x, rest) \<in> measure length" by (simp add: i(2) local_name_needle_def)
qed simp

declare parse_local_names.simps [simp del]

fun resolve_from :: "node \<Rightarrow> string list \<Rightarrow> node option" where
  "resolve_from n [] = Some n"
| "resolve_from n (name # names) = (case child_named n name of None \<Rightarrow> None | Some c \<Rightarrow> resolve_from c names)"

fun resolve_path :: "node \<Rightarrow> string list \<Rightarrow> node option" where
  "resolve_path r [] = None"
| "resolve_path r (name # names) = (if local_name r \<noteq> name then None else resolve_from r names)"

definition str_rfind :: "char \<Rightarrow> string \<Rightarrow> nat option" where
  "str_rfind c s = map_option (\<lambda>i. length s - 1 - i) (position_where (\<lambda>x. x = c) (rev s))"

fun insert_position :: "string \<Rightarrow> node \<Rightarrow> signature_action \<Rightarrow> nat" where
  "insert_position xml n SigAfter = node_end n"
| "insert_position xml n SigBefore = node_start n"
| "insert_position xml n SigAppend =
     (case str_rfind CHR ''<'' (Dom.slice xml (node_start n) (node_end n)) of
        Some i \<Rightarrow> node_start n + i
      | None \<Rightarrow> node_end n)"
| "insert_position xml n SigPrepend =
     (case position_where (\<lambda>x. x = CHR ''>'') (Dom.slice xml (node_start n) (node_end n)) of
        Some i \<Rightarrow> node_start n + i + 1
      | None \<Rightarrow> node_start n)"

definition node_saml_id :: "node \<Rightarrow> string option" where
  "node_saml_id n = (case node_attr n ''ID'' of Some v \<Rightarrow> Some v | None \<Rightarrow> node_attr n ''AssertionID'')"

definition transform_xml :: "string \<Rightarrow> string list \<Rightarrow> string" where
  "transform_xml p effective =
     concat (map (\<lambda>t. ''<'' @ p @ '':Transform Algorithm='' @ dq @ xml_escape t @ dq @ ''/>'') effective)"

text \<open>The signature template, before the back end fills digest and value.\<close>

definition signature_template :: "string \<Rightarrow> string \<Rightarrow> string \<Rightarrow> string \<Rightarrow> string \<Rightarrow> string \<Rightarrow> string" where
  "signature_template p sig_alg ident transforms digest cert =
     ''<'' @ p @ '':Signature xmlns:'' @ p @ ''='' @ dq @ NS_DSIG @ dq @ ''><'' @ p @ '':SignedInfo><'' @ p
       @ '':CanonicalizationMethod Algorithm='' @ dq @ EXC_C14N @ dq @ ''/><'' @ p
       @ '':SignatureMethod Algorithm='' @ dq @ sig_alg @ dq @ ''/><'' @ p @ '':Reference URI='' @ dq @ ''#'' @ ident @ dq
       @ ''><'' @ p @ '':Transforms>'' @ transforms @ ''</'' @ p @ '':Transforms><'' @ p @ '':DigestMethod Algorithm='' @ dq
       @ digest @ dq @ ''/><'' @ p @ '':DigestValue></'' @ p @ '':DigestValue></'' @ p @ '':Reference></'' @ p
       @ '':SignedInfo><'' @ p @ '':SignatureValue></'' @ p @ '':SignatureValue><'' @ p @ '':KeyInfo><'' @ p
       @ '':X509Data><'' @ p @ '':X509Certificate>'' @ cert @ ''</'' @ p @ '':X509Certificate></'' @ p
       @ '':X509Data></'' @ p @ '':KeyInfo></'' @ p @ '':Signature>''"

definition splice :: "string \<Rightarrow> nat \<Rightarrow> nat \<Rightarrow> string \<Rightarrow> string" where
  "splice xml a b new = take a xml @ new @ drop b xml"

definition signature_position_for :: "string \<Rightarrow> node \<Rightarrow> node \<Rightarrow> signature_config option \<Rightarrow> nat res" where
  "signature_position_for xml r target config =
     (case Option.bind config sc_reference of
        Some reference \<Rightarrow>
          rbind (ok_or (resolve_path r (parse_local_names reference)) (Invalid ''signatureConfig reference not found''))
            (\<lambda>n. Inr (insert_position xml n (case config of Some c \<Rightarrow> sc_action c | None \<Rightarrow> SigAfter)))
      | None \<Rightarrow> rbind (ok_or (child_named target ''Issuer'') (Invalid ''signing target has no Issuer'')) (\<lambda>n. Inr (node_end n)))"

text \<open>The document with the unsigned template in place, as it is handed to the back end.\<close>

definition templated_document :: "('k, 'e) crypto_ext_scheme \<Rightarrow> string \<Rightarrow> bool \<Rightarrow> string \<Rightarrow> string \<Rightarrow> string list \<Rightarrow>
    signature_config option \<Rightarrow> string res" where
  "templated_document E xml sign_message cert sig_alg transforms config =
     rbind (parse_document E xml) (\<lambda>r.
     rbind (if sign_message then Inr r else ok_or (find_assertion r) (MissingMetadata ''Assertion to sign'')) (\<lambda>target.
     rbind (ok_or (node_saml_id target) (Invalid ''signing target has no ID'')) (\<lambda>ident.
     rbind (ok_or (digest_for_signature sig_alg)
              (saml_error.Crypto (''unknown signature algorithm: '' @ sig_alg))) (\<lambda>digest.
     let pre = (case config of Some c \<Rightarrow> sc_prefix c | None \<Rightarrow> ''ds'') in
     rbind (validate_crypto_xml_prefix ''SignatureConfig.prefix'' pre) (\<lambda>_.
     let effective = (if transforms = [] then [ENVELOPED_SIGNATURE, EXC_C14N] else transforms);
         signature = signature_template pre (xml_escape sig_alg) (xml_escape ident) (transform_xml pre effective) digest
           (xml_escape (normalize_cert_string cert))
     in rbind (signature_position_for xml r target config) (\<lambda>pos. Inr (splice xml pos pos signature)))))))"

definition construct_saml_signature :: "('k, 'e) crypto_ext_scheme \<Rightarrow> string \<Rightarrow> bool \<Rightarrow> 'k \<Rightarrow> string \<Rightarrow> string \<Rightarrow>
    string list \<Rightarrow> signature_config option \<Rightarrow> string res" where
  "construct_saml_signature E xml sign_message key cert sig_alg transforms config =
     rbind (ensure_crypto_provider_initialized E) (\<lambda>_.
     rbind (templated_document E xml sign_message cert sig_alg transforms config) (\<lambda>templated.
       rmap_err saml_error.Crypto (dsig_sign E ((dsig_context_new [key])\<lparr>dc_insecure := True\<rparr>) templated)))"

definition construct_message_signature :: "('k, 'e) crypto_ext_scheme \<Rightarrow> string \<Rightarrow> 'k \<Rightarrow> string \<Rightarrow> string res" where
  "construct_message_signature E octet_string key sig_alg =
     rbind (ensure_crypto_provider_initialized E) (\<lambda>_.
     rbind (require_operation_key (to_signing_key E key) ''no signing key'') (\<lambda>signing.
     rbind (rmap_err saml_error.Crypto (sign_from_uri E sig_alg)) (\<lambda>_.
     rbind (rmap_err saml_error.Crypto (alg_sign E sig_alg signing octet_string)) (\<lambda>signature.
       Inr (base64_encode E signature)))))"

definition verify_message_signature :: "('k, 'e) crypto_ext_scheme \<Rightarrow> string \<Rightarrow> string \<Rightarrow> string \<Rightarrow> string \<Rightarrow> bool res" where
  "verify_message_signature E octet_string signature_b64 cert sig_alg =
     rbind (load_certificate E cert) (\<lambda>key.
     rbind (require_operation_key (to_signing_key E key) ''no verification key'') (\<lambda>verifying.
     rbind (rmap_err saml_error.Crypto (sign_from_uri E sig_alg)) (\<lambda>_.
     rbind (base64_decode E signature_b64) (\<lambda>signature.
       rmap_err saml_error.Crypto (alg_verify E sig_alg verifying octet_string signature)))))"

section \<open>Encryption\<close>

text \<open>\<open>AssertionDecryptionOptions\<close> is the flag that allows software RSA key transport.\<close>

type_synonym assertion_decryption_options = bool

definition software_rsa_decryption_disabled :: saml_error where
  "software_rsa_decryption_disabled = Unsupported
     (''XML-Enc RSA key-transport decryption with software private keys is disabled by default because ''
      @ ''the bundled RustCrypto rsa backend is affected by RUSTSEC-2023-0071. Both the ''
      @ ''crypto-legacy-rsa-decryption feature and allow_insecure_software_rsa_key_transport_decryption ''
      @ ''option are required for an explicit compatibility exception.'')"

definition require_software_rsa_opt_in :: "('k, 'e) crypto_ext_scheme \<Rightarrow> assertion_decryption_options \<Rightarrow> unit res" where
  "require_software_rsa_opt_in E allow =
     (if feature_rustcrypto E \<and> \<not> allow then Inl software_rsa_decryption_disabled else Inr ())"

definition encryption_template :: "string \<Rightarrow> string \<Rightarrow> string" where
  "encryption_template data_alg key_alg =
     ''<xenc:EncryptedData xmlns:xenc='' @ dq @ XML_ENCRYPTION_NS @ dq @ '' Type='' @ dq @ XML_ENCRYPTION_NS
       @ ''Element'' @ dq @ ''><xenc:EncryptionMethod Algorithm='' @ dq @ data_alg @ dq @ ''/><ds:KeyInfo xmlns:ds=''
       @ dq @ NS_DSIG @ dq @ ''><xenc:EncryptedKey><xenc:EncryptionMethod Algorithm='' @ dq @ key_alg @ dq
       @ ''/><xenc:CipherData><xenc:CipherValue></xenc:CipherValue></xenc:CipherData></xenc:EncryptedKey></ds:KeyInfo>''
       @ ''<xenc:CipherData><xenc:CipherValue></xenc:CipherValue></xenc:CipherData></xenc:EncryptedData>''"

definition encrypt_assertion :: "('k, 'e) crypto_ext_scheme \<Rightarrow> string \<Rightarrow> string \<Rightarrow> string \<Rightarrow> string \<Rightarrow> string \<Rightarrow> string res" where
  "encrypt_assertion E xml encrypt_cert data_alg key_alg tag_prefix =
     rbind (ensure_crypto_provider_initialized E) (\<lambda>_.
     rbind (validate_crypto_xml_prefix ''EncryptedAssertion'' tag_prefix) (\<lambda>_.
     rbind (parse_document E xml) (\<lambda>r.
     rbind (ok_or (child_named r ''Assertion'') (MissingMetadata ''Assertion to encrypt'')) (\<lambda>assertion.
     let assertion_xml = Dom.slice xml (node_start assertion) (node_end assertion);
         tmpl = encryption_template (xml_escape data_alg) (xml_escape key_alg)
     in rbind (load_certificate E encrypt_cert) (\<lambda>key.
        rbind (rmap_err saml_error.Crypto (xmlenc_encrypt E [key] tmpl assertion_xml)) (\<lambda>encrypted_data.
          Inr (splice xml (node_start assertion) (node_end assertion)
            (''<'' @ tag_prefix @ '':EncryptedAssertion xmlns:'' @ tag_prefix @ ''='' @ dq @ NS_ASSERTION @ dq @ ''>''
             @ encrypted_data @ ''</'' @ tag_prefix @ '':EncryptedAssertion>''))))))))"

definition strip_xml_declaration :: "string \<Rightarrow> string" where
  "strip_xml_declaration xml =
     (let trimmed = trim_start xml in
      case strip_prefix ''<?xml'' trimmed of
        Some rest \<Rightarrow> (case str_find ''?>'' rest of Some e \<Rightarrow> trim_start (drop (e + 2) rest) | None \<Rightarrow> trimmed)
      | None \<Rightarrow> trimmed)"

definition decrypt_assertion_with_limits :: "('k, 'e) crypto_ext_scheme \<Rightarrow> string \<Rightarrow> 'k \<Rightarrow>
    assertion_decryption_options \<Rightarrow> xml_limits \<Rightarrow> (string \<times> string) res" where
  "decrypt_assertion_with_limits E xml enc_key options limits =
     rbind (ensure_crypto_provider_initialized E) (\<lambda>_.
     rbind (require_software_rsa_opt_in E options) (\<lambda>_.
     rbind (parse_with_limits E xml limits) (\<lambda>r.
     rbind (ok_or (child_named r ''EncryptedAssertion'') (saml_error.Crypto ''ERR_UNDEFINED_ENCRYPTED_ASSERTION'')) (\<lambda>encrypted.
     rbind (ok_or (child_named encrypted ''EncryptedData'') (saml_error.Crypto ''ERR_UNDEFINED_ENCRYPTED_ASSERTION''))
       (\<lambda>encrypted_data.
     rbind (rmap_err saml_error.Crypto
              (xmlenc_decrypt E [enc_key] (Dom.slice xml (node_start encrypted_data) (node_end encrypted_data)))) (\<lambda>decrypted.
     let assertion = strip_xml_declaration decrypted;
         response = splice xml (node_start encrypted) (node_end encrypted) assertion
     in rbind (check_input_bytes limits (length response)) (\<lambda>_.
        rbind (check_input_bytes limits (length assertion)) (\<lambda>_.
          Inr (response, assertion)))))))))"

definition decrypt_assertion :: "('k, 'e) crypto_ext_scheme \<Rightarrow> string \<Rightarrow> 'k \<Rightarrow> assertion_decryption_options \<Rightarrow>
    (string \<times> string) res" where
  "decrypt_assertion E xml enc_key options = decrypt_assertion_with_limits E xml enc_key options xml_limits_default"

section \<open>Signature placement\<close>

text \<open>The absolute XPath the configuration writes for a chain of local names.\<close>

definition xpath_of :: "string list \<Rightarrow> string" where
  "xpath_of names = concat (map (\<lambda>n. ''/*['' @ local_name_needle @ n @ quote_char @ '']'') names)"

lemma str_find_Cons_char: "c \<notin> set s \<Longrightarrow> str_find [c] (s @ c # t) = Some (length s)"
  by (induction s) auto

lemma needle_at:
  "str_find local_name_needle (''/*['' @ local_name_needle @ t) = Some 3"
  by (simp add: local_name_needle_def)

text \<open>
  the placement configuration means what it says: from the XPath of a chain of local names, each
  free of the quote character, exactly that chain is read back.
\<close>

theorem parse_local_names_xpath:
  assumes "\<forall>n \<in> set names. CHR 0x27 \<notin> set n"
  shows "parse_local_names (xpath_of names) = names"
proof -
  have gen: "parse_local_names (pre @ xpath_of names) = names"
    if "pre = [] \<or> pre = '']''" for pre
    using assms that
  proof (induction names arbitrary: pre)
    case Nil
    have "str_find local_name_needle pre = None" using Nil(2) by (auto simp: local_name_needle_def)
    then show ?case by (simp add: parse_local_names.simps xpath_of_def)
  next
    case (Cons n ns)
    have rest: "pre @ xpath_of (n # ns) = pre @ ''/*['' @ local_name_needle @ n @ CHR 0x27 # '']'' @ xpath_of ns"
      by (simp add: xpath_of_def)
    have "str_find local_name_needle (pre @ ''/*['' @ local_name_needle @ t) = Some (length pre + 3)" for t
      using Cons(3) by (auto simp: local_name_needle_def)
    moreover have "drop (length pre + 3 + length local_name_needle)
        (pre @ ''/*['' @ local_name_needle @ n @ CHR 0x27 # '']'' @ xpath_of ns) = n @ CHR 0x27 # '']'' @ xpath_of ns"
      using Cons(3) by (auto simp: local_name_needle_def)
    moreover have "str_find quote_char (n @ CHR 0x27 # '']'' @ xpath_of ns) = Some (length n)"
      using Cons(2) by (intro str_find_Cons_char) simp
    ultimately show ?case
      using Cons(1) [of "'']''"] Cons(2) by (subst parse_local_names.simps) (simp add: rest)
  qed
  from gen [of "[]"] show ?thesis by simp
qed

lemma parse_local_names_xpath_witness:
  "parse_local_names (xpath_of [''Response'', ''Issuer'']) = [''Response'', ''Issuer'']"
  by (rule parse_local_names_xpath) simp

section \<open>Decryption\<close>

text \<open>
  decryption replaces exactly the EncryptedAssertion: the response returned is the input with that
  element's text replaced by the decrypted text, both results respect the size limit, and with
  the software RSA back end it only happens after the explicit opt-in.
\<close>

theorem decrypt_assertion_replaces:
  assumes "decrypt_assertion_with_limits E xml key allow L = Inr (response, assertion)"
  shows "(feature_rustcrypto E \<longrightarrow> allow)
     \<and> length response \<le> max_bytes L \<and> length assertion \<le> max_bytes L
     \<and> (\<exists>r enc d plain. parse_with_limits E xml L = Inr r \<and> child_named r ''EncryptedAssertion'' = Some enc
          \<and> child_named enc ''EncryptedData'' = Some d
          \<and> xmlenc_decrypt E [key] (Dom.slice xml (node_start d) (node_end d)) = Inr plain
          \<and> assertion = strip_xml_declaration plain
          \<and> response = take (node_start enc) xml @ assertion @ drop (node_end enc) xml)"
  using assms
  by (auto simp: decrypt_assertion_with_limits_def require_software_rsa_opt_in_def rbind_Inr_iff ok_or_Inr_iff
      rmap_err_Inr_iff Let_def check_input_bytes_def splice_def split: if_splits)

end
