(* ===== verification/Verify.thy ===== *)
theory Verify
  imports Crypto
begin

text \<open>
  XML signature verification and its defences against signature wrapping
  (\<open>src/src/crypto/verify.rs\<close>). The back end verifies digests and signature values; this file
  decides which signatures it may see, which references and transforms are acceptable, and which
  part of the document a verified reference covers. Properties: only a covered element is
  returned, it is the only one with its ID, signatures stand only where SAML puts them, and only
  pinned certificates are used.
\<close>

section \<open>Tree checks\<close>

definition children_named :: "node \<Rightarrow> string \<Rightarrow> node list" where
  "children_named n name = filter (\<lambda>c. local_name c = name) (children n)"

definition has_child :: "node \<Rightarrow> string \<Rightarrow> bool" where
  "has_child n name = list_ex (\<lambda>c. local_name c = name) (children n)"

definition saml_signature_candidates :: "node \<Rightarrow> node list" where
  "saml_signature_candidates r =
     children_named r ''Signature''
     @ concat (map (\<lambda>a. children_named a ''Signature'') (children_named r ''Assertion''))"

fun has_descendant :: "string list \<Rightarrow> node \<Rightarrow> bool" where
  "has_descendant names (Node nm ats cs tx s e) =
     list_ex (\<lambda>c. local_name c \<in> set names \<or> has_descendant names c) cs"

definition wrapping_detected :: "node \<Rightarrow> bool" where
  "wrapping_detected r =
     list_ex (\<lambda>assertion.
       list_ex (\<lambda>sub.
         list_ex (\<lambda>sc.
           list_ex (has_descendant [''Assertion'', ''Signature'']) (children_named sc ''SubjectConfirmationData''))
         (children_named sub ''SubjectConfirmation''))
       (children_named assertion ''Subject''))
     (children_named r ''Assertion'')"

definition saml_id_attr :: "string \<Rightarrow> bool" where
  "saml_id_attr name = (name \<in> {''ID'', ''AssertionID''})"

text \<open>
  \<open>duplicate_saml_id\<close>: the first repeated ID in document order, and the IDs seen on the way
  (the \<open>HashSet\<close> the recursion updates in place).
\<close>

fun dup_attrs :: "(string \<times> string) list \<Rightarrow> string list \<Rightarrow> string option \<times> string list" where
  "dup_attrs [] seen = (None, seen)"
| "dup_attrs ((name, v) # ats) seen =
     (if saml_id_attr (last (split_on CHR '':'' name)) \<and> v \<noteq> []
      then (if v \<in> set seen then (Some v, seen) else dup_attrs ats (v # seen))
      else dup_attrs ats seen)"

fun duplicate_saml_id :: "node \<Rightarrow> string list \<Rightarrow> string option \<times> string list"
  and duplicate_in_children :: "node list \<Rightarrow> string list \<Rightarrow> string option \<times> string list" where
  "duplicate_saml_id (Node nm ats cs tx s e) seen =
     (case dup_attrs ats seen of
        (Some d, seen') \<Rightarrow> (Some d, seen')
      | (None, seen') \<Rightarrow> duplicate_in_children cs seen')"
| "duplicate_in_children [] seen = (None, seen)"
| "duplicate_in_children (c # cs) seen =
     (case duplicate_saml_id c seen of
        (Some d, seen') \<Rightarrow> (Some d, seen')
      | (None, seen') \<Rightarrow> duplicate_in_children cs seen')"

section \<open>References\<close>

datatype verified_target = WholeDocument | TargetId string

definition strip_suffix :: "string \<Rightarrow> string \<Rightarrow> string option" where
  "strip_suffix p s = (if suffix p s then Some (take (length s - length p) s) else None)"

definition verified_target_from_uri :: "string \<Rightarrow> verified_target res" where
  "verified_target_from_uri uri =
     (if uri = [] \<or> uri = ''#xpointer(/)'' then Inr WholeDocument
      else
        (case strip_prefix ''#'' uri of
           None \<Rightarrow> Inl (ReferenceResolution ExternalReference)
         | Some fragment \<Rightarrow>
             if fragment = [] then Inl (ReferenceResolution UnsupportedReferenceUri)
             else
               (case Option.bind (strip_prefix (''xpointer(id('' @ quote_char) fragment) (strip_suffix (quote_char @ ''))'')) of
                  Some ident \<Rightarrow>
                    if ident = [] then Inl (ReferenceResolution UnsupportedReferenceUri) else Inr (TargetId ident)
                | None \<Rightarrow>
                    if prefix ''xpointer('' fragment then Inl (ReferenceResolution UnsupportedReferenceUri)
                    else Inr (TargetId fragment))))"

definition is_external_reference :: "string \<Rightarrow> bool" where
  "is_external_reference uri = (uri \<noteq> [] \<and> \<not> prefix ''#'' uri)"

definition verified_target_of :: "verified_reference \<Rightarrow> verified_target res" where
  "verified_target_of r =
     (if is_external_reference (vr_uri r) then Inl (ReferenceResolution ExternalReference)
      else if \<not> digest_verified r then Inl (SignatureVerification ReferenceDigest)
      else
        rbind (verified_target_from_uri (vr_uri r)) (\<lambda>t.
          case t of
            WholeDocument \<Rightarrow> Inr t
          | TargetId _ \<Rightarrow>
              if resolved_node r = None then Inl (ReferenceResolution UnresolvedReference) else Inr t))"

definition verified_targets :: "verified_reference list \<Rightarrow> verified_target list res" where
  "verified_targets refs =
     (if refs = [] then Inl (ReferenceResolution MissingSignatureReference) else traverse verified_target_of refs)"

definition target_matches_node :: "verified_target list \<Rightarrow> node \<Rightarrow> bool" where
  "target_matches_node ts n =
     list_ex (\<lambda>t. case t of WholeDocument \<Rightarrow> True | TargetId i \<Rightarrow> node_saml_id n = Some i) ts"

definition id_target_matches_node :: "verified_target list \<Rightarrow> node \<Rightarrow> bool" where
  "id_target_matches_node ts n =
     list_ex (\<lambda>t. case t of WholeDocument \<Rightarrow> False | TargetId i \<Rightarrow> node_saml_id n = Some i) ts"

definition response_is_covered :: "verified_target list \<Rightarrow> node \<Rightarrow> bool" where
  "response_is_covered ts r = target_matches_node ts r"

section \<open>Transforms\<close>

definition signature_transform_preserves_content :: "string \<Rightarrow> bool" where
  "signature_transform_preserves_content algorithm =
     (algorithm \<in>
       {ENVELOPED_SIGNATURE, EXC_C14N, ''http://www.w3.org/2001/10/xml-exc-c14n#WithComments'',
        ''http://www.w3.org/TR/2001/REC-xml-c14n-20010315'',
        ''http://www.w3.org/TR/2001/REC-xml-c14n-20010315#WithComments'',
        ''http://www.w3.org/2006/12/xml-c14n11'', ''http://www.w3.org/2006/12/xml-c14n11#WithComments''})"

definition preserves_attr :: "string option \<Rightarrow> bool" where
  "preserves_attr a = (case a of Some alg \<Rightarrow> signature_transform_preserves_content alg | None \<Rightarrow> False)"

definition ensure_reference_transforms_preserve_content :: "node \<Rightarrow> unit res" where
  "ensure_reference_transforms_preserve_content reference =
     (if list_all (\<lambda>ts. list_all (\<lambda>t. preserves_attr (node_attr t ''Algorithm'')) (children_named ts ''Transform''))
           (children_named reference ''Transforms'')
      then Inr () else Inl SignedReferenceMismatch)"

fun for_each :: "('a \<Rightarrow> unit res) \<Rightarrow> 'a list \<Rightarrow> unit res" where
  "for_each f [] = Inr ()"
| "for_each f (x # xs) = rbind (f x) (\<lambda>_. for_each f xs)"

definition signature_references :: "node \<Rightarrow> node list" where
  "signature_references sig =
     concat (map (\<lambda>si. children_named si ''Reference'') (children_named sig ''SignedInfo''))"

definition ensure_signature_transforms_preserve_content :: "node list \<Rightarrow> unit res" where
  "ensure_signature_transforms_preserve_content sigs =
     for_each (\<lambda>sig. for_each ensure_reference_transforms_preserve_content (signature_references sig)) sigs"

definition ensure_metadata_signature_transforms_preserve_descriptor :: "node \<Rightarrow> unit res" where
  "ensure_metadata_signature_transforms_preserve_descriptor r =
     (if local_name r \<noteq> ''EntityDescriptor'' then Inr ()
      else ensure_signature_transforms_preserve_content (children_named r ''Signature''))"

definition preflight_saml_reference_uris :: "node list \<Rightarrow> unit res" where
  "preflight_saml_reference_uris sigs =
     for_each (\<lambda>sig. for_each
       (\<lambda>reference. rmap (\<lambda>_. ()) (verified_target_from_uri (str_or_empty (node_attr reference ''URI''))))
       (signature_references sig)) sigs"

section \<open>Covered content\<close>

definition node_source :: "string \<Rightarrow> node \<Rightarrow> string" where
  "node_source xml n = Dom.slice xml (node_start n) (node_end n)"

definition verified_root_content :: "node \<Rightarrow> string \<Rightarrow> verified_target list \<Rightarrow> string res" where
  "verified_root_content r xml ts =
     (if target_matches_node ts r then Inr (node_source xml r) else Inl SignedReferenceMismatch)"

definition verified_content :: "node \<Rightarrow> string \<Rightarrow> verified_target list \<Rightarrow> string option res" where
  "verified_content r xml ts =
     (let assertions = children_named r ''Assertion'';
          other =
            (if local_name r = ''EntityDescriptor''
             then (if target_matches_node ts r then Inr (Some (node_source xml r)) else Inl SignedReferenceMismatch)
             else if local_name r \<in> {''AuthnRequest'', ''LogoutRequest'', ''LogoutResponse''}
             then rmap Some (verified_root_content r xml ts)
             else Inr None)
      in
      if local_name r = ''Assertion'' then rmap Some (verified_root_content r xml ts)
      else if str_contains (local_name r) ''Response'' then
        (case assertions of
           a # b # _ \<Rightarrow> Inl PotentialWrappingAttack
         | [a] \<Rightarrow>
             if id_target_matches_node ts a \<or> response_is_covered ts r then Inr (Some (node_source xml a))
             else Inl SignedReferenceMismatch
         | [] \<Rightarrow>
             if has_child r ''EncryptedAssertion'' then
               (if response_is_covered ts r then Inr (Some (node_source xml r)) else Inl SignedReferenceMismatch)
             else other)
      else other)"

definition assertion_is_directly_covered :: "node \<Rightarrow> verified_target list \<Rightarrow> bool" where
  "assertion_is_directly_covered r ts =
     (if local_name r = ''Assertion'' then target_matches_node ts r
      else if str_contains (local_name r) ''Response'' then
        (case children_named r ''Assertion'' of [a] \<Rightarrow> id_target_matches_node ts a | _ \<Rightarrow> False)
      else False)"

definition has_saml_xml_signature :: "node \<Rightarrow> bool" where
  "has_saml_xml_signature r = (saml_signature_candidates r \<noteq> [])"

section \<open>Preflight of the signatures the back end sees\<close>

datatype signature_scope = ScopeOther | ScopeSignature | ScopeSignedInfo | ScopeReference | ScopeTransforms
datatype signature_place = PlaceMessage | PlaceResponse | PlaceDirectAssertion | PlaceOther

fun permits_signature :: "signature_place \<Rightarrow> bool" where
  "permits_signature PlaceOther = False"
| "permits_signature _ = True"

record signature_frame =
  sf_scope :: signature_scope
  sf_place :: signature_place

definition protocol_messages :: "string list" where
  "protocol_messages =
     [''AuthnRequest'', ''LogoutRequest'', ''LogoutResponse'', ''ArtifactResolve'', ''ArtifactResponse'',
      ''AssertionIDRequest'', ''SubjectQuery'', ''AuthnQuery'', ''AttributeQuery'', ''AuthzDecisionQuery'',
      ''ManageNameIDRequest'', ''ManageNameIDResponse'', ''NameIDMappingRequest'', ''NameIDMappingResponse'']"

text \<open>\<open>ancestors\<close> has the innermost open element first.\<close>

definition signature_position :: "string \<Rightarrow> string option \<Rightarrow> signature_frame list \<Rightarrow> signature_place" where
  "signature_position name ns ancestors =
     (let in_namespace = (\<lambda>expected. case ns of None \<Rightarrow> True | Some u \<Rightarrow> u = expected) in
      case ancestors of
        [] \<Rightarrow>
          if name = ''Assertion'' \<and> in_namespace NS_ASSERTION then PlaceMessage
          else if name \<in> {''EntityDescriptor'', ''EntitiesDescriptor''} \<and> in_namespace NS_METADATA then PlaceMessage
          else if in_namespace NS_PROTOCOL then
            (if name = ''Response'' then PlaceResponse
             else if name \<in> set protocol_messages then PlaceMessage
             else PlaceOther)
          else PlaceOther
      | [f] \<Rightarrow>
          if sf_place f = PlaceResponse \<and> name = ''Assertion'' \<and> in_namespace NS_ASSERTION
          then PlaceDirectAssertion else PlaceOther
      | _ \<Rightarrow> PlaceOther)"

definition signature_namespace :: "('k, 'e) crypto_ext_scheme \<Rightarrow> resolve_result \<Rightarrow> string option res" where
  "signature_namespace E rr =
     (case rr of
        Unbound \<Rightarrow> Inr None
      | Bound raw \<Rightarrow> rmap_err Xml (rmap Some (ns_normalize E raw))
      | UnknownPrefix _ \<Rightarrow> Inr (Some []))"

fun signature_attribute_loop :: "string \<Rightarrow> ns_attr list \<Rightarrow> string option \<Rightarrow> string option res" where
  "signature_attribute_loop name [] value = Inr value"
| "signature_attribute_loop name (NsAttrErr e # as) value = Inl (Xml e)"
| "signature_attribute_loop name (NsAttr key binding resolved l val # as) value =
     (if binding \<or> l \<noteq> name then signature_attribute_loop name as value
      else if key \<noteq> name then Inl (Xml ''qualified XML signature reference attribute'')
      else (case val of Inl e \<Rightarrow> Inl (Xml e) | Inr v \<Rightarrow> signature_attribute_loop name as (Some v)))"

definition signature_attribute :: "ns_attr list \<Rightarrow> string \<Rightarrow> string option res" where
  "signature_attribute as name = signature_attribute_loop name as None"

definition preflight_signature_element :: "string \<Rightarrow> ns_attr list \<Rightarrow> bool \<Rightarrow> signature_scope \<Rightarrow> signature_scope res" where
  "preflight_signature_element name as is_dsig parent =
     (if \<not> is_dsig then Inr ScopeOther
      else if name = ''Signature'' then Inr ScopeSignature
      else if name = ''SignedInfo'' \<and> parent = ScopeSignature then Inr ScopeSignedInfo
      else if name = ''Reference'' \<and> parent = ScopeSignedInfo then
        rbind (signature_attribute as ''URI'') (\<lambda>uri.
        rbind (verified_target_from_uri (str_or_empty uri)) (\<lambda>_. Inr ScopeReference))
      else if name = ''Transforms'' \<and> parent = ScopeReference then Inr ScopeTransforms
      else if name = ''Transform'' \<and> parent = ScopeTransforms then
        rbind (signature_attribute as ''Algorithm'') (\<lambda>algorithm.
          if \<not> preserves_attr algorithm then Inl SignedReferenceMismatch else Inr ScopeOther)
      else Inr ScopeOther)"

definition preflight_open :: "string \<Rightarrow> ns_attr list \<Rightarrow> string option \<Rightarrow> signature_frame list \<Rightarrow> signature_frame res" where
  "preflight_open name as ns scopes =
     (let is_dsig = (ns = Some NS_DSIG);
          parent_scope = (case scopes of f # _ \<Rightarrow> sf_scope f | [] \<Rightarrow> ScopeOther)
      in
      if is_dsig \<and> name = ''Object'' \<and> list_ex (\<lambda>f. sf_scope f = ScopeSignature) scopes
      then Inl PotentialWrappingAttack
      else if is_dsig \<and> name = ''Signature''
        \<and> \<not> (case scopes of f # _ \<Rightarrow> permits_signature (sf_place f) | [] \<Rightarrow> False)
      then Inl PotentialWrappingAttack
      else
        rbind (preflight_signature_element name as is_dsig parent_scope) (\<lambda>scope.
          Inr \<lparr>sf_scope = scope, sf_place = signature_position name ns scopes\<rparr>))"

text \<open>The event loop; the end of the list is \<open>Eof\<close>.\<close>

fun preflight_loop :: "('k, 'e) crypto_ext_scheme \<Rightarrow> ns_step list \<Rightarrow> signature_frame list \<Rightarrow> unit res" where
  "preflight_loop E [] scopes = Inr ()"
| "preflight_loop E (NsFail e # steps) scopes = Inl (Xml e)"
| "preflight_loop E (NsEvent rr ev # steps) scopes =
     rbind (signature_namespace E rr) (\<lambda>ns.
       case ev of
         NsStart name as \<Rightarrow>
           rbind (preflight_open name as ns scopes) (\<lambda>f. preflight_loop E steps (f # scopes))
       | NsEmpty name as \<Rightarrow>
           rbind (preflight_open name as ns scopes) (\<lambda>_. preflight_loop E steps scopes)
       | NsEnd \<Rightarrow> preflight_loop E steps (tl scopes)
       | NsOther \<Rightarrow> preflight_loop E steps scopes)"

definition preflight_backend_signatures :: "('k, 'e) crypto_ext_scheme \<Rightarrow> string \<Rightarrow> unit res" where
  "preflight_backend_signatures E xml = preflight_loop E (ns_read_default E xml) []"

definition has_xml_signature_with_limits :: "('k, 'e) crypto_ext_scheme \<Rightarrow> string \<Rightarrow> xml_limits \<Rightarrow> bool res" where
  "has_xml_signature_with_limits E xml limits =
     rbind (parse_with_limits E xml limits) (\<lambda>r.
     rbind (preflight_backend_signatures E xml) (\<lambda>_. Inr (has_saml_xml_signature r)))"

section \<open>Verification\<close>

lemma find_map_cong [fundef_cong]:
  "xs = ys \<Longrightarrow> (\<And>y. y \<in> set ys \<Longrightarrow> f y = g y) \<Longrightarrow> find_map f xs = find_map g ys"
proof (induction xs arbitrary: ys)
  case (Cons x xs)
  then show ?case by (cases ys) (auto split: option.split)
qed auto

fun descendant_cert :: "node \<Rightarrow> string option" where
  "descendant_cert (Node nm ats cs tx s e) =
     (if nm = ''X509Certificate'' \<and> tx \<noteq> [] then Some tx else find_map descendant_cert cs)"

definition inline_signature_cert :: "node list \<Rightarrow> string option" where
  "inline_signature_cert sigs = find_map descendant_cert sigs"

definition inline_certificate_allowed :: "string list \<Rightarrow> node list \<Rightarrow> bool" where
  "inline_certificate_allowed metadata_certs candidates =
     (case inline_signature_cert candidates of
        None \<Rightarrow> True
      | Some inl \<Rightarrow>
          metadata_certs = []
          \<or> list_ex (\<lambda>c. normalize_cert_string c = normalize_cert_string inl) metadata_certs)"

text \<open>
  The checks both verification functions make before any certificate is tried, and whether the
  document has a candidate signature.
\<close>

definition verification_preamble :: "('k, 'e) crypto_ext_scheme \<Rightarrow> string \<Rightarrow> string list \<Rightarrow> xml_limits \<Rightarrow>
    (node \<times> bool) res" where
  "verification_preamble E xml metadata_certs limits =
     rbind (parse_with_limits E xml limits) (\<lambda>r.
       if str_contains (local_name r) ''Response'' \<and> wrapping_detected r then Inl PotentialWrappingAttack
       else if fst (duplicate_saml_id r []) \<noteq> None then Inl PotentialWrappingAttack
       else
         rbind (preflight_backend_signatures E xml) (\<lambda>_.
           let candidates = saml_signature_candidates r in
           if candidates = [] then Inr (r, False)
           else
             rbind (preflight_saml_reference_uris candidates) (\<lambda>_.
             rbind (ensure_signature_transforms_preserve_content candidates) (\<lambda>_.
               if \<not> inline_certificate_allowed metadata_certs candidates then Inl CertificateMismatch
               else rbind (ensure_crypto_provider_initialized E) (\<lambda>_. Inr (r, True))))))"

definition pinned_context :: "'k \<Rightarrow> 'k dsig_context" where
  "pinned_context key =
     (dsig_context_new [key])
       \<lparr>trusted_keys_only := True, strict_verification := True, require_reference_digests := True,
        hmac_min_out_len := 160, dc_insecure := True\<rparr>"

text \<open>The loop over the certificates: whether a key was loaded, the first load error, whether a
  signature was found invalid, the last back end error.\<close>

fun verify_loop :: "('k, 'e) crypto_ext_scheme \<Rightarrow> node \<Rightarrow> string \<Rightarrow> string list \<Rightarrow> bool \<Rightarrow> saml_error option \<Rightarrow> bool \<Rightarrow>
    saml_error option \<Rightarrow> (bool \<times> string option) res" where
  "verify_loop E r xml [] have_key key_load_error tried_invalid last_err =
     (if \<not> have_key then Inl (case key_load_error of Some e \<Rightarrow> e | None \<Rightarrow> NoTrustedCertificate)
      else (case last_err of
              Some err \<Rightarrow> if \<not> tried_invalid then Inl err else Inr (False, None)
            | None \<Rightarrow> Inr (False, None)))"
| "verify_loop E r xml (cert # certs) have_key key_load_error tried_invalid last_err =
     (case load_certificate E cert of
        Inl e \<Rightarrow>
          verify_loop E r xml certs have_key (Some (case key_load_error of Some e0 \<Rightarrow> e0 | None \<Rightarrow> e)) tried_invalid last_err
      | Inr key \<Rightarrow>
          (case dsig_verify E (pinned_context key) xml of
             Inr (VrValid refs) \<Rightarrow>
               rbind (verified_targets refs) (\<lambda>ts.
               rbind (verified_content r xml ts) (\<lambda>content. Inr (True, content)))
           | Inr VrInvalid \<Rightarrow> verify_loop E r xml certs True key_load_error True last_err
           | Inl e \<Rightarrow> verify_loop E r xml certs True key_load_error tried_invalid (Some (saml_error.Crypto e))))"

definition verify_signature_with_limits :: "('k, 'e) crypto_ext_scheme \<Rightarrow> string \<Rightarrow> string list \<Rightarrow> xml_limits \<Rightarrow>
    (bool \<times> string option) res" where
  "verify_signature_with_limits E xml metadata_certs limits =
     rbind (verification_preamble E xml metadata_certs limits) (\<lambda>(r, signed).
       if \<not> signed then Inr (False, None) else verify_loop E r xml metadata_certs False None False None)"

definition verify_signature :: "('k, 'e) crypto_ext_scheme \<Rightarrow> string \<Rightarrow> string list \<Rightarrow> (bool \<times> string option) res" where
  "verify_signature E xml metadata_certs = verify_signature_with_limits E xml metadata_certs xml_limits_default"

section \<open>Detailed verification\<close>

record signature_verification =
  sv_verified :: bool
  sv_signed_content :: "string option"
  sv_assertion_directly_covered :: bool
  sv_response_covered :: bool

definition sv_unverified :: signature_verification where
  "sv_unverified =
     \<lparr>sv_verified = False, sv_signed_content = None, sv_assertion_directly_covered = False,
      sv_response_covered = False\<rparr>"

record detailed_state =
  ds_have_key :: bool
  ds_key_load_error :: "saml_error option"
  ds_tried_invalid :: bool
  ds_last_err :: "saml_error option"
  ds_first_verified :: bool
  ds_targets :: "verified_target list"

fun collect_results :: "verify_result list \<Rightarrow> detailed_state \<Rightarrow> detailed_state res" where
  "collect_results [] st = Inr st"
| "collect_results (VrValid refs # rs) st =
     rbind (verified_targets refs) (\<lambda>ts. collect_results rs (st\<lparr>ds_targets := ds_targets st @ ts\<rparr>))"
| "collect_results (VrInvalid # rs) st = collect_results rs (st\<lparr>ds_tried_invalid := True\<rparr>)"

fun first_valid :: "verify_result list \<Rightarrow> bool" where
  "first_valid (VrValid refs # rs) = True"
| "first_valid _ = False"

fun detailed_loop :: "('k, 'e) crypto_ext_scheme \<Rightarrow> string \<Rightarrow> string list \<Rightarrow> detailed_state \<Rightarrow> detailed_state res" where
  "detailed_loop E xml [] st = Inr st"
| "detailed_loop E xml (cert # certs) st =
     (case load_certificate E cert of
        Inl e \<Rightarrow>
          detailed_loop E xml certs
            (st\<lparr>ds_key_load_error := Some (case ds_key_load_error st of Some e0 \<Rightarrow> e0 | None \<Rightarrow> e)\<rparr>)
      | Inr key \<Rightarrow>
          (case dsig_verify_all E (pinned_context key) xml of
             Inr results \<Rightarrow>
               rbind (collect_results results
                 (st\<lparr>ds_have_key := True, ds_first_verified := ds_first_verified st \<or> first_valid results\<rparr>))
               (detailed_loop E xml certs)
           | Inl e \<Rightarrow> detailed_loop E xml certs (st\<lparr>ds_have_key := True, ds_last_err := Some (saml_error.Crypto e)\<rparr>)))"

definition detailed_initial :: detailed_state where
  "detailed_initial =
     \<lparr>ds_have_key = False, ds_key_load_error = None, ds_tried_invalid = False, ds_last_err = None,
      ds_first_verified = False, ds_targets = []\<rparr>"

definition detailed_verdict :: "node \<Rightarrow> string \<Rightarrow> detailed_state \<Rightarrow> signature_verification res" where
  "detailed_verdict r xml st =
     (if \<not> ds_have_key st then Inl (case ds_key_load_error st of Some e \<Rightarrow> e | None \<Rightarrow> NoTrustedCertificate)
      else if ds_first_verified st \<and> ds_targets st \<noteq> [] then
        rbind (verified_content r xml (ds_targets st)) (\<lambda>content.
          Inr \<lparr>sv_verified = True, sv_signed_content = content,
            sv_assertion_directly_covered = assertion_is_directly_covered r (ds_targets st),
            sv_response_covered = (str_contains (local_name r) ''Response'' \<and> response_is_covered (ds_targets st) r)\<rparr>)
      else (case ds_last_err st of
              Some err \<Rightarrow> if \<not> ds_tried_invalid st then Inl err else Inr sv_unverified
            | None \<Rightarrow> Inr sv_unverified))"

definition verify_signatures_detailed_with_limits :: "('k, 'e) crypto_ext_scheme \<Rightarrow> string \<Rightarrow> string list \<Rightarrow> xml_limits \<Rightarrow>
    signature_verification res" where
  "verify_signatures_detailed_with_limits E xml metadata_certs limits =
     rbind (verification_preamble E xml metadata_certs limits) (\<lambda>(r, signed).
       if \<not> signed then Inr sv_unverified
       else rbind (detailed_loop E xml metadata_certs detailed_initial) (detailed_verdict r xml))"

section \<open>Metadata signatures\<close>

record metadata_signature_verification =
  msv_verified :: bool
  msv_signed_entity_descriptor_xml :: "string option"

definition verify_metadata_signature_detailed_with_limits :: "('k, 'e) crypto_ext_scheme \<Rightarrow> string \<Rightarrow> string list \<Rightarrow>
    xml_limits \<Rightarrow> metadata_signature_verification res" where
  "verify_metadata_signature_detailed_with_limits E xml trusted_certificates limits =
     rbind (parse_with_limits E xml limits) (\<lambda>r.
     rbind (ensure_metadata_signature_transforms_preserve_descriptor r) (\<lambda>_.
     rbind (verify_signature_with_limits E xml trusted_certificates limits) (\<lambda>(verified, signed).
       if \<not> verified then Inr \<lparr>msv_verified = False, msv_signed_entity_descriptor_xml = None\<rparr>
       else
         rbind (ok_or signed SignedReferenceMismatch) (\<lambda>x.
           Inr \<lparr>msv_verified = True, msv_signed_entity_descriptor_xml = Some x\<rparr>))))"

definition verify_metadata_signature_with_limits :: "('k, 'e) crypto_ext_scheme \<Rightarrow> string \<Rightarrow> string list \<Rightarrow>
    xml_limits \<Rightarrow> bool res" where
  "verify_metadata_signature_with_limits E xml trusted_certificates limits =
     rmap msv_verified (verify_metadata_signature_detailed_with_limits E xml trusted_certificates limits)"

definition verify_metadata_signature :: "('k, 'e) crypto_ext_scheme \<Rightarrow> string \<Rightarrow> string list \<Rightarrow> bool res" where
  "verify_metadata_signature E xml trusted_certificates =
     verify_metadata_signature_with_limits E xml trusted_certificates xml_limits_default"

section \<open>Unique IDs\<close>

definition id_values :: "(string \<times> string) list \<Rightarrow> string list" where
  "id_values ats = map snd (filter (\<lambda>(k, v). saml_id_attr (last (split_on CHR '':'' k)) \<and> v \<noteq> []) ats)"

text \<open>Every value of an ID attribute of a document, in document order.\<close>

definition saml_ids :: "node \<Rightarrow> string list" where
  "saml_ids r = concat (map (\<lambda>n. id_values (attrs n)) (subnodes r))"

lemma dup_attrs_None:
  "dup_attrs ats seen = (None, seen') \<longleftrightarrow>
     distinct (id_values ats) \<and> set (id_values ats) \<inter> set seen = {} \<and> seen' = rev (id_values ats) @ seen"
  by (induction ats seen arbitrary: seen' rule: dup_attrs.induct) (auto simp: id_values_def)

lemma subnodes_Node: "concat (map (\<lambda>n. id_values (attrs n)) (subnodes (Node nm ats cs tx s e))) =
    id_values ats @ concat (map saml_ids cs)"
proof -
  have "concat (map (\<lambda>n. id_values (attrs n)) (concat (map subnodes cs))) = concat (map saml_ids cs)"
    by (induction cs) (simp_all add: saml_ids_def)
  then show ?thesis by simp
qed

lemma duplicate_saml_id_None:
  "duplicate_saml_id n seen = (None, seen') \<longleftrightarrow>
     distinct (saml_ids n) \<and> set (saml_ids n) \<inter> set seen = {} \<and> seen' = rev (saml_ids n) @ seen"
  "duplicate_in_children cs seen = (None, seen') \<longleftrightarrow>
     distinct (concat (map saml_ids cs)) \<and> set (concat (map saml_ids cs)) \<inter> set seen = {}
       \<and> seen' = rev (concat (map saml_ids cs)) @ seen"
proof (induction n seen and cs seen arbitrary: seen' and seen' rule: duplicate_saml_id_duplicate_in_children.induct)
  case (1 nm ats cs tx s e seen)
  obtain d seen1 where d: "dup_attrs ats seen = (d, seen1)" by force
  have ids: "saml_ids (Node nm ats cs tx s e) = id_values ats @ concat (map saml_ids cs)"
    unfolding saml_ids_def [of "Node nm ats cs tx s e"] by (rule subnodes_Node)
  show ?case
  proof (cases d)
    case None
    with d have "distinct (id_values ats)" "set (id_values ats) \<inter> set seen = {}" "seen1 = rev (id_values ats) @ seen"
      by (simp_all add: dup_attrs_None)
    with 1 [OF d [symmetric] None] d None show ?thesis unfolding ids by (simp add: ids) blast
  next
    case (Some v)
    with d dup_attrs_None [of ats seen "rev (id_values ats) @ seen"]
    have "\<not> (distinct (id_values ats) \<and> set (id_values ats) \<inter> set seen = {})" by auto
    with d Some show ?thesis unfolding ids by (auto simp: ids)
  qed
next
  case (3 c cs seen)
  obtain d seen1 where d: "duplicate_saml_id c seen = (d, seen1)" by force
  show ?case
  proof (cases d)
    case None
    with d 3(1) have "distinct (saml_ids c)" "set (saml_ids c) \<inter> set seen = {}" "seen1 = rev (saml_ids c) @ seen"
      by simp_all
    with 3(2) [OF d [symmetric] None] d None show ?thesis by simp blast
  next
    case (Some v)
    with d 3(1) [of "rev (saml_ids c) @ seen"]
    have "\<not> (distinct (saml_ids c) \<and> set (saml_ids c) \<inter> set seen = {})" by auto
    with d Some show ?thesis by auto
  qed
qed auto

lemma duplicate_saml_id_eq: "fst (duplicate_saml_id r []) = None \<longleftrightarrow> distinct (saml_ids r)"
proof -
  have "fst (duplicate_saml_id r []) = None \<longleftrightarrow> (\<exists>seen'. duplicate_saml_id r [] = (None, seen'))"
    by (cases "duplicate_saml_id r []") auto
  then show ?thesis unfolding duplicate_saml_id_None by simp
qed

lemma filter_unique_id:
  assumes "distinct (concat (map f xs))" "\<And>x. g x = Some i \<Longrightarrow> i \<in> set (f x)" "m \<in> set xs" "g m = Some i"
  shows "filter (\<lambda>x. g x = Some i) xs = [m]"
  using assms(1,3)
proof (induction xs)
  case (Cons x xs)
  show ?case
  proof (cases "g x = Some i")
    case True
    with assms(2) have "i \<in> set (f x)" by simp
    with Cons.prems(1) have "\<forall>y \<in> set xs. i \<notin> set (f y)" by auto
    with assms(2) have "filter (\<lambda>x. g x = Some i) xs = []" by (auto simp: filter_empty_conv)
    moreover have "m \<notin> set xs" using \<open>\<forall>y \<in> set xs. i \<notin> set (f y)\<close> assms(2) [OF assms(4)] by auto
    ultimately show ?thesis using True Cons.prems(2) by simp
  next
    case False
    with Cons assms(4) show ?thesis by auto
  qed
qed simp

lemma node_saml_id_in: "node_saml_id n = Some i \<Longrightarrow> i \<noteq> [] \<Longrightarrow> i \<in> set (id_values (attrs n))"
  by (force simp: node_saml_id_def node_attr_def id_values_def saml_id_attr_def split: option.splits
      dest!: map_of_SomeD)

lemma self_in_subnodes: "n \<in> set (subnodes n)"
  by (cases n) simp

lemma child_in_subnodes: "c \<in> set (children n) \<Longrightarrow> c \<in> set (subnodes n)"
  using self_in_subnodes [of c] by (cases n) auto

section \<open>Covered content\<close>

lemma verified_target_from_uri_Inr:
  assumes "verified_target_from_uri uri = Inr t"
  shows "\<not> is_external_reference uri" "t \<noteq> TargetId []"
  using assms
  by (auto simp: verified_target_from_uri_def is_external_reference_def strip_prefix_def
      split: if_splits option.splits)

lemma verified_target_of_Inr:
  "verified_target_of ref = Inr t \<Longrightarrow> digest_verified ref \<and> verified_target_from_uri (vr_uri ref) = Inr t"
  by (auto simp: verified_target_of_def rbind_Inr_iff split: if_splits verified_target.splits)

lemma verified_targets_Inr:
  assumes "verified_targets refs = Inr ts"
  shows "refs \<noteq> []" "\<forall>ref \<in> set refs. digest_verified ref \<and> \<not> is_external_reference (vr_uri ref)"
    "\<forall>t \<in> set ts. t \<noteq> TargetId [] \<and> (\<exists>ref \<in> set refs. verified_target_from_uri (vr_uri ref) = Inr t)"
proof -
  have all: "list_all2 (\<lambda>ref t. verified_target_of ref = Inr t) refs ts" and "refs \<noteq> []"
    using assms by (auto simp: verified_targets_def traverse_Inr_iff split: if_splits)
  then show "refs \<noteq> []" by simp
  show "\<forall>ref \<in> set refs. digest_verified ref \<and> \<not> is_external_reference (vr_uri ref)"
    using all by (force simp: list_all2_conv_all_nth in_set_conv_nth dest!: verified_target_of_Inr
        dest: verified_target_from_uri_Inr(1))
  show "\<forall>t \<in> set ts. t \<noteq> TargetId [] \<and> (\<exists>ref \<in> set refs. verified_target_from_uri (vr_uri ref) = Inr t)"
    using all by (force simp: list_all2_conv_all_nth in_set_conv_nth dest!: verified_target_of_Inr
        dest: verified_target_from_uri_Inr(2))
qed

text \<open>A reference selects an element: the whole document, or an ID that no other element has.\<close>

definition reference_selects :: "verified_reference \<Rightarrow> node \<Rightarrow> node \<Rightarrow> bool" where
  "reference_selects ref r n \<longleftrightarrow>
     verified_target_from_uri (vr_uri ref) = Inr WholeDocument
     \<or> (\<exists>i. verified_target_from_uri (vr_uri ref) = Inr (TargetId i)
          \<and> filter (\<lambda>x. node_saml_id x = Some i) (subnodes r) = [n])"

lemma id_target_case:
  "(case t of WholeDocument \<Rightarrow> False | TargetId i \<Rightarrow> node_saml_id n = Some i) \<Longrightarrow>
   (case t of WholeDocument \<Rightarrow> True | TargetId i \<Rightarrow> node_saml_id n = Some i)"
  by (cases t) simp_all

lemma id_target_selects:
  assumes "verified_targets refs = Inr ts" "distinct (saml_ids r)" "n \<in> set (subnodes r)"
  shows "target_matches_node ts n \<Longrightarrow> \<exists>ref \<in> set refs. reference_selects ref r n"
    "id_target_matches_node ts n \<Longrightarrow> \<exists>ref \<in> set refs. reference_selects ref r n"
proof -
  have sel: "\<exists>ref \<in> set refs. reference_selects ref r n"
    if t: "t \<in> set ts" "case t of WholeDocument \<Rightarrow> True | TargetId i \<Rightarrow> node_saml_id n = Some i" for t
  proof -
    from verified_targets_Inr(3) [OF assms(1)] t(1) obtain ref
      where ref: "ref \<in> set refs" "verified_target_from_uri (vr_uri ref) = Inr t" "t \<noteq> TargetId []" by blast
    have "filter (\<lambda>x. node_saml_id x = Some i) (subnodes r) = [n]" if i: "t = TargetId i" "node_saml_id n = Some i" for i
    proof (rule filter_unique_id [where f = "\<lambda>n. id_values (attrs n)" and g = node_saml_id])
      show "distinct (concat (map (\<lambda>n. id_values (attrs n)) (subnodes r)))"
        using assms(2) by (simp add: saml_ids_def)
      show "i \<in> set (id_values (attrs x))" if "node_saml_id x = Some i" for x
        using node_saml_id_in [OF that] ref(3) i(1) by auto
    qed (use assms(3) i(2) in simp_all)
    with ref t(2) show ?thesis by (cases t) (auto simp: reference_selects_def)
  qed
  show "target_matches_node ts n \<Longrightarrow> \<exists>ref \<in> set refs. reference_selects ref r n"
    using sel by (auto simp: target_matches_node_def list_ex_iff)
  show "id_target_matches_node ts n \<Longrightarrow> \<exists>ref \<in> set refs. reference_selects ref r n"
    using sel by (force simp: id_target_matches_node_def list_ex_iff dest: id_target_case)
qed

lemma verified_content_Some:
  assumes "verified_content r xml ts = Inr (Some content)"
  shows "\<exists>n. content = node_source xml n \<and> (n = r \<or> children_named r ''Assertion'' = [n])
     \<and> (target_matches_node ts r \<or> id_target_matches_node ts n)"
  using assms
  by (auto simp: verified_content_def Let_def verified_root_content_def rmap_Inr_iff response_is_covered_def
      split: if_splits list.splits)

definition verified_by :: "('k, 'e) crypto_ext_scheme \<Rightarrow> node \<Rightarrow> string \<Rightarrow> string list \<Rightarrow> string option \<Rightarrow> bool" where
  "verified_by E r xml certs content \<longleftrightarrow>
     (\<exists>cert \<in> set certs. \<exists>key refs ts. load_certificate E cert = Inr key
        \<and> dsig_verify E (pinned_context key) xml = Inr (VrValid refs)
        \<and> verified_targets refs = Inr ts \<and> verified_content r xml ts = Inr content)"

lemma verified_by_Cons: "verified_by E r xml certs content \<Longrightarrow> verified_by E r xml (cert # certs) content"
  by (auto simp: verified_by_def)

lemma verify_loop_True:
  "verify_loop E r xml certs hk kle tried le = Inr (True, content) \<Longrightarrow> verified_by E r xml certs content"
proof (induction E r xml certs hk kle tried le rule: verify_loop.induct)
  case (2 E r xml cert certs hk kle tried le)
  show ?case
  proof (cases "load_certificate E cert")
    case (Inl e)
    with 2 show ?thesis by (simp add: verified_by_Cons)
  next
    case key: (Inr key)
    show ?thesis
    proof (cases "dsig_verify E (pinned_context key) xml")
      case (Inl e)
      with key 2 show ?thesis by (simp add: verified_by_Cons)
    next
      case v: (Inr v)
      show ?thesis
      proof (cases v)
        case (VrValid refs)
        with v key 2(4) show ?thesis by (auto simp: rbind_Inr_iff verified_by_def)
      next
        case VrInvalid
        with v key 2 show ?thesis by (simp add: verified_by_Cons)
      qed
    qed
  qed
qed (auto split: if_splits option.splits)

lemma verification_preamble_Inr:
  assumes "verification_preamble E xml certs L = Inr (r, sg)"
  shows "parse_with_limits E xml L = Inr r" "distinct (saml_ids r)" "preflight_backend_signatures E xml = Inr ()"
    "\<not> (str_contains (local_name r) ''Response'' \<and> wrapping_detected r)"
    "sg \<longleftrightarrow> saml_signature_candidates r \<noteq> []"
    "sg \<Longrightarrow> inline_certificate_allowed certs (saml_signature_candidates r)"
  using assms
  by (auto simp: verification_preamble_def rbind_Inr_iff Let_def duplicate_saml_id_eq split: if_splits)

text \<open>
  C18: what signature verification returns is what was signed. The returned text is the source of the
  document root or of its only Assertion; a loaded certificate of the given list verified it with
  only that key trusted; every reference of the signature is same-document with a verified digest;
  one of them selects the root or the returned element, and no other element of the document has
  the ID it names.
\<close>

theorem verify_signature_covered:
  assumes "verify_signature_with_limits E xml certs L = Inr (True, Some content)"
  shows "\<exists>r n cert key refs.
      parse_with_limits E xml L = Inr r
      \<and> content = node_source xml n \<and> (n = r \<or> children_named r ''Assertion'' = [n])
      \<and> cert \<in> set certs \<and> load_certificate E cert = Inr key
      \<and> dsig_verify E (pinned_context key) xml = Inr (VrValid refs)
      \<and> (\<forall>ref \<in> set refs. digest_verified ref \<and> \<not> is_external_reference (vr_uri ref))
      \<and> (\<exists>ref \<in> set refs. reference_selects ref r r \<or> reference_selects ref r n)"
proof -
  obtain r where pre: "verification_preamble E xml certs L = Inr (r, True)"
    and loop: "verify_loop E r xml certs False None False None = Inr (True, Some content)"
    using assms by (auto simp: verify_signature_with_limits_def rbind_Inr_iff split: if_splits)
  from verify_loop_True [OF loop] obtain cert key refs ts where c: "cert \<in> set certs" "load_certificate E cert = Inr key"
    "dsig_verify E (pinned_context key) xml = Inr (VrValid refs)" "verified_targets refs = Inr ts"
    "verified_content r xml ts = Inr (Some content)" by (auto simp: verified_by_def)
  from verified_content_Some [OF c(5)] obtain n where n: "content = node_source xml n"
    "n = r \<or> children_named r ''Assertion'' = [n]" "target_matches_node ts r \<or> id_target_matches_node ts n" by blast
  have "n \<in> set (subnodes r)"
  proof (cases "n = r")
    case False
    with n(2) have "n \<in> set (children_named r ''Assertion'')" by simp
    then show ?thesis by (intro child_in_subnodes) (simp add: children_named_def)
  qed (simp add: self_in_subnodes)
  with n(3) id_target_selects [OF c(4) verification_preamble_Inr(2) [OF pre]] self_in_subnodes
  have "\<exists>ref \<in> set refs. reference_selects ref r r \<or> reference_selects ref r n" by blast
  with c(1-3) n(1,2) verification_preamble_Inr(1) [OF pre] verified_targets_Inr(2) [OF c(4)]
  show ?thesis by blast
qed

section \<open>Where signatures stand\<close>

text \<open>Every element the reader reports, as its expanded name followed by those of its ancestors.\<close>

fun element_paths :: "('k, 'e) crypto_ext_scheme \<Rightarrow> ns_step list \<Rightarrow> (string \<times> string option) list \<Rightarrow>
    (string \<times> string option) list list" where
  "element_paths E [] open_names = []"
| "element_paths E (NsFail e # steps) open_names = []"
| "element_paths E (NsEvent rr ev # steps) open_names =
     (let ns = (case signature_namespace E rr of Inr n \<Rightarrow> n | Inl _ \<Rightarrow> None) in
      case ev of
        NsStart name as \<Rightarrow> ((name, ns) # open_names) # element_paths E steps ((name, ns) # open_names)
      | NsEmpty name as \<Rightarrow> ((name, ns) # open_names) # element_paths E steps open_names
      | NsEnd \<Rightarrow> element_paths E steps (tl open_names)
      | NsOther \<Rightarrow> element_paths E steps open_names)"

definition in_ns :: "string option \<Rightarrow> string \<Rightarrow> bool" where
  "in_ns ns expected \<longleftrightarrow> ns = None \<or> ns = Some expected"

text \<open>The elements the SAML schemas let carry a signature as a child.\<close>

fun signable :: "(string \<times> string option) list \<Rightarrow> bool" where
  "signable [(name, ns)] \<longleftrightarrow>
     name = ''Assertion'' \<and> in_ns ns NS_ASSERTION
     \<or> name \<in> {''EntityDescriptor'', ''EntitiesDescriptor''} \<and> in_ns ns NS_METADATA
     \<or> name \<in> insert ''Response'' (set protocol_messages) \<and> in_ns ns NS_PROTOCOL"
| "signable [(name, ns), (name', ns')] \<longleftrightarrow>
     name = ''Assertion'' \<and> in_ns ns NS_ASSERTION \<and> name' = ''Response'' \<and> in_ns ns' NS_PROTOCOL"
| "signable _ \<longleftrightarrow> False"

definition path_allowed :: "(string \<times> string option) list \<Rightarrow> bool" where
  "path_allowed path \<longleftrightarrow>
     (hd path = (''Signature'', Some NS_DSIG) \<longrightarrow> signable (tl path))
     \<and> (hd path = (''Object'', Some NS_DSIG) \<longrightarrow> (''Signature'', Some NS_DSIG) \<notin> set (tl path))"

fun frames_ok :: "signature_frame list \<Rightarrow> (string \<times> string option) list \<Rightarrow> bool" where
  "frames_ok [] [] \<longleftrightarrow> True"
| "frames_ok (f # fs) ((name, ns) # names) \<longleftrightarrow>
     sf_place f = signature_position name ns fs
     \<and> (sf_scope f = ScopeSignature \<longleftrightarrow> name = ''Signature'' \<and> ns = Some NS_DSIG) \<and> frames_ok fs names"
| "frames_ok _ _ \<longleftrightarrow> False"

lemma frames_ok_Nil [simp]: "frames_ok [] names \<longleftrightarrow> names = []" "frames_ok fs [] \<longleftrightarrow> fs = []"
  by (cases names; simp) (cases fs; simp)

lemma frames_ok_signature:
  "frames_ok fs names \<Longrightarrow> list_ex (\<lambda>f. sf_scope f = ScopeSignature) fs \<longleftrightarrow> (''Signature'', Some NS_DSIG) \<in> set names"
  by (induction fs names rule: frames_ok.induct) auto

lemma position_Response: "signature_position name ns [] = PlaceResponse \<Longrightarrow> name = ''Response'' \<and> in_ns ns NS_PROTOCOL"
  by (auto simp: signature_position_def Let_def in_ns_def split: if_splits option.splits)

lemma signable_root: "permits_signature (signature_position name ns []) \<Longrightarrow> signable [(name, ns)]"
  by (auto simp: signature_position_def Let_def in_ns_def split: if_splits option.splits)

lemma signable_child:
  assumes "permits_signature (signature_position name ns [f])" "frames_ok [f] names"
  shows "signable ((name, ns) # names)"
proof -
  obtain nm2 ns2 where n: "names = [(nm2, ns2)]" "sf_place f = signature_position nm2 ns2 []"
    using assms(2) by (cases names) auto
  have "sf_place f = PlaceResponse" "name = ''Assertion''" "in_ns ns NS_ASSERTION"
    using assms(1) by (auto simp: signature_position_def Let_def in_ns_def split: if_splits option.splits)
  with n position_Response [of nm2 ns2] show ?thesis by auto
qed

lemma frames_ok_permits:
  assumes "frames_ok (f # fs) names" "permits_signature (sf_place f)"
  shows "signable names"
proof -
  obtain name ns names' where n: "names = (name, ns) # names'" "sf_place f = signature_position name ns fs" "frames_ok fs names'"
    using assms(1) by (cases names) auto
  show ?thesis
  proof (cases fs)
    case Nil
    with n assms(2) signable_root show ?thesis by auto
  next
    case (Cons g gs)
    show ?thesis
    proof (cases gs)
      case Nil
      with n assms(2) Cons signable_child [of name ns g names'] show ?thesis by simp
    next
      case (Cons h hs)
      with n assms(2) \<open>fs = g # gs\<close> show ?thesis by (simp add: signature_position_def)
    qed
  qed
qed

lemma preflight_element_scope:
  "preflight_signature_element name as d parent = Inr s \<Longrightarrow> s = ScopeSignature \<longleftrightarrow> name = ''Signature'' \<and> d"
  by (auto simp: preflight_signature_element_def rbind_Inr_iff split: if_splits)

lemma preflight_open_Inr:
  assumes "preflight_open name as ns scopes = Inr f" "frames_ok scopes names"
  shows "frames_ok (f # scopes) ((name, ns) # names) \<and> path_allowed ((name, ns) # names)"
proof -
  have f: "sf_place f = signature_position name ns scopes"
    "sf_scope f = ScopeSignature \<longleftrightarrow> name = ''Signature'' \<and> ns = Some NS_DSIG"
    using assms(1)
    by (auto simp: preflight_open_def Let_def rbind_Inr_iff dest: preflight_element_scope split: if_splits)
  have obj: "(''Signature'', Some NS_DSIG) \<notin> set names" if "name = ''Object''" "ns = Some NS_DSIG"
    using that assms(1) frames_ok_signature [OF assms(2)] by (auto simp: preflight_open_def split: if_splits)
  have "signable names" if "name = ''Signature''" "ns = Some NS_DSIG"
  proof (cases scopes)
    case Nil
    with that assms(1) show ?thesis by (simp add: preflight_open_def)
  next
    case (Cons g gs)
    with that assms(1) have "permits_signature (sf_place g)" by (auto simp: preflight_open_def split: if_splits)
    with Cons assms(2) frames_ok_permits show ?thesis by blast
  qed
  with f obj assms(2) show ?thesis by (simp add: path_allowed_def)
qed

lemma preflight_loop_paths:
  "preflight_loop E steps scopes = Inr () \<Longrightarrow> frames_ok scopes names \<Longrightarrow> list_all path_allowed (element_paths E steps names)"
proof (induction E steps scopes arbitrary: names rule: preflight_loop.induct)
  case (3 E rr ev steps scopes)
  from 3(5) obtain ns where ns: "signature_namespace E rr = Inr ns" by (auto simp: rbind_Inr_iff)
  show ?case
  proof (cases ev)
    case (NsStart name as)
    with 3(5) ns obtain f where f: "preflight_open name as ns scopes = Inr f" "preflight_loop E steps (f # scopes) = Inr ()"
      by (auto simp: rbind_Inr_iff)
    from preflight_open_Inr [OF f(1) 3(6)] 3(1) [OF ns NsStart f] show ?thesis by (simp add: NsStart ns)
  next
    case (NsEmpty name as)
    with 3(5) ns obtain f where f: "preflight_open name as ns scopes = Inr f" "preflight_loop E steps scopes = Inr ()"
      by (auto simp: rbind_Inr_iff)
    from preflight_open_Inr [OF f(1) 3(6)] 3(2) [OF ns NsEmpty f] 3(6) show ?thesis by (simp add: NsEmpty ns)
  next
    case NsEnd
    have "frames_ok (tl scopes) (tl names)" using 3(6) by (cases scopes; cases names) auto
    with 3(3) [OF ns NsEnd] 3(5) ns NsEnd show ?thesis by simp
  next
    case NsOther
    with 3(4) [OF ns NsOther] 3(5,6) ns show ?thesis by simp
  qed
qed auto

text \<open>
  C22: the back end only ever sees signatures where SAML puts them: when the preflight passes, every
  XML-DSig Signature of the document is a child of the root message or descriptor or of a direct
  Assertion of a Response, and no XML-DSig Object stands inside a Signature.
\<close>

theorem preflight_signature_places:
  assumes "preflight_backend_signatures E xml = Inr ()"
  shows "\<forall>path \<in> set (element_paths E (ns_read_default E xml) []). path_allowed path"
  using preflight_loop_paths [of E "ns_read_default E xml" "[]" "[]"] assms
  by (simp add: preflight_backend_signatures_def list_all_iff)

section \<open>Rolling certificates\<close>

lemma verify_loop_key_error:
  "have_key \<or> (\<exists>c \<in> set certs. is_ok (load_certificate E c)) \<Longrightarrow>
     verify_loop E r xml certs have_key e1 tried le = verify_loop E r xml certs have_key e2 tried le"
proof (induction certs arbitrary: have_key e1 e2 tried le)
  case (Cons c certs)
  then show ?case
    by (cases "load_certificate E c") (auto split: sum.splits verify_result.splits)
qed auto

text \<open>
  a certificate that does not load never changes the verdict: as soon as one certificate of the list
  loads, verification gives exactly what it gives with the certificates that load.
\<close>

theorem verify_ignores_unloadable:
  assumes "\<exists>c \<in> set certs. is_ok (load_certificate E c)"
  shows "verify_loop E r xml certs False None False None =
    verify_loop E r xml (filter (\<lambda>c. is_ok (load_certificate E c)) certs) False None False None"
proof -
  have "verify_loop E r xml certs hk e1 tried le =
      verify_loop E r xml (filter (\<lambda>c. is_ok (load_certificate E c)) certs) hk e2 tried le"
    if "hk \<or> (\<exists>c \<in> set certs. is_ok (load_certificate E c))" for hk e1 e2 tried le
    using that
  proof (induction certs arbitrary: hk e1 e2 tried le)
    case (Cons c certs)
    then show ?case
      by (cases "load_certificate E c") (auto split: sum.splits verify_result.splits)
  qed auto
  with assms show ?thesis by blast
qed

section \<open>Detailed verdict\<close>

lemma collect_results_Inr:
  "collect_results rs st = Inr st' \<Longrightarrow>
     ds_first_verified st' = ds_first_verified st \<and> ds_have_key st' = ds_have_key st"
  by (induction rs st rule: collect_results.induct) (auto simp: rbind_Inr_iff)

lemma collect_results_targets:
  "collect_results rs st = Inr st' \<Longrightarrow> t \<in> set (ds_targets st') \<Longrightarrow> t \<notin> set (ds_targets st) \<Longrightarrow>
     \<exists>refs ts. VrValid refs \<in> set rs \<and> verified_targets refs = Inr ts \<and> t \<in> set ts"
proof (induction rs st rule: collect_results.induct)
  case (2 refs rs st)
  from 2(2) obtain ts where ts: "verified_targets refs = Inr ts"
    "collect_results rs (st\<lparr>ds_targets := ds_targets st @ ts\<rparr>) = Inr st'" by (auto simp: rbind_Inr_iff)
  show ?case
  proof (cases "t \<in> set ts")
    case True
    with ts(1) show ?thesis by auto
  next
    case False
    with 2(1) [OF ts 2(3)] 2(4) show ?thesis by auto
  qed
next
  case (3 rs st)
  then show ?case by auto
qed simp

text \<open>A target some signature that a pinned certificate verified gave.\<close>

definition pinned_target :: "('k, 'e) crypto_ext_scheme \<Rightarrow> string \<Rightarrow> string list \<Rightarrow> verified_target \<Rightarrow> bool" where
  "pinned_target E xml certs t \<longleftrightarrow>
     (\<exists>cert \<in> set certs. \<exists>key results refs ts. load_certificate E cert = Inr key
        \<and> dsig_verify_all E (pinned_context key) xml = Inr results
        \<and> VrValid refs \<in> set results \<and> verified_targets refs = Inr ts \<and> t \<in> set ts)"

lemma pinned_target_Cons: "pinned_target E xml certs t \<Longrightarrow> pinned_target E xml (c # certs) t"
  by (auto simp: pinned_target_def)

lemma detailed_loop_targets:
  "detailed_loop E xml certs st = Inr st' \<Longrightarrow> t \<in> set (ds_targets st') \<Longrightarrow> t \<notin> set (ds_targets st) \<Longrightarrow>
     pinned_target E xml certs t"
proof (induction E xml certs st rule: detailed_loop.induct)
  case (2 E xml cert certs st)
  show ?case
  proof (cases "load_certificate E cert")
    case (Inl e)
    with 2 show ?thesis by (auto intro: pinned_target_Cons)
  next
    case key: (Inr key)
    show ?thesis
    proof (cases "dsig_verify_all E (pinned_context key) xml")
      case (Inl e)
      with key 2 show ?thesis by (auto intro: pinned_target_Cons)
    next
      case res: (Inr results)
      with key 2(4) obtain st1 where st1: "collect_results results
          (st\<lparr>ds_have_key := True, ds_first_verified := ds_first_verified st \<or> first_valid results\<rparr>) = Inr st1"
        "detailed_loop E xml certs st1 = Inr st'" by (auto simp: rbind_Inr_iff)
      show ?thesis
      proof (cases "t \<in> set (ds_targets st1)")
        case True
        with collect_results_targets [OF st1(1)] 2(6) key res show ?thesis by (auto simp: pinned_target_def)
      next
        case False
        with 2(3) [OF key res st1 2(5) False] show ?thesis by (auto intro: pinned_target_Cons)
      qed
    qed
  qed
qed simp

lemma detailed_Inr:
  assumes "verify_signatures_detailed_with_limits E xml certs L = Inr v" "sv_verified v"
  shows "\<exists>r ts. parse_with_limits E xml L = Inr r \<and> distinct (saml_ids r)
     \<and> preflight_backend_signatures E xml = Inr () \<and> (\<forall>t \<in> set ts. pinned_target E xml certs t)
     \<and> verified_content r xml ts = Inr (sv_signed_content v)
     \<and> sv_assertion_directly_covered v = assertion_is_directly_covered r ts
     \<and> sv_response_covered v = (str_contains (local_name r) ''Response'' \<and> response_is_covered ts r)"
proof -
  obtain r sg where pre: "verification_preamble E xml certs L = Inr (r, sg)"
    and v: "(if \<not> sg then Inr sv_unverified
       else rbind (detailed_loop E xml certs detailed_initial) (detailed_verdict r xml)) = Inr v"
    using assms(1) by (auto simp: verify_signatures_detailed_with_limits_def rbind_Inr_iff split: prod.splits)
  from v assms(2) obtain st where st: "detailed_loop E xml certs detailed_initial = Inr st"
    "detailed_verdict r xml st = Inr v"
    by (auto simp: rbind_Inr_iff sv_unverified_def split: if_splits)
  from st(2) assms(2) have c: "verified_content r xml (ds_targets st) = Inr (sv_signed_content v)"
    "sv_assertion_directly_covered v = assertion_is_directly_covered r (ds_targets st)"
    "sv_response_covered v = (str_contains (local_name r) ''Response'' \<and> response_is_covered (ds_targets st) r)"
    by (auto simp: detailed_verdict_def rbind_Inr_iff sv_unverified_def split: if_splits option.splits)
  have "\<forall>t \<in> set (ds_targets st). pinned_target E xml certs t"
    using detailed_loop_targets [OF st(1)] by (simp add: detailed_initial_def)
  with c verification_preamble_Inr [OF pre] show ?thesis by blast
qed

section \<open>A signed sample\<close>

definition sample_signed :: string where
  "sample_signed = ''<Assertion ID='a'><Signature/></Assertion>''"

definition sample_signed_steps :: "xml_step list" where
  "sample_signed_steps =
     [XEvent 0 18 (EvStart ''Assertion'' [AttrItem ''ID'' (Inr ''a'') False]),
      XEvent 18 30 (EvEmpty ''Signature'' []), XEvent 30 42 EvEnd]"

definition sample_signed_ns :: "ns_step list" where
  "sample_signed_ns =
     [NsEvent Unbound (NsStart ''Assertion'' [NsAttr ''ID'' False Unbound ''ID'' (Inr ''a'')]),
      NsEvent (Bound NS_DSIG) (NsEmpty ''Signature'' []), NsEvent Unbound NsEnd]"

definition sample_reference :: verified_reference where
  "sample_reference = \<lparr>vr_uri = ''#a'', digest_verified = True, resolved_node = Some 0\<rparr>"

definition sample_cert :: string where
  "sample_cert = ''BEGIN CERTIFICATE''"

definition sample_crypto :: "unit crypto_ext" where
  "sample_crypto = wire_ext.extend (sample_wire\<lparr>xml_read := (\<lambda>_. sample_signed_steps)\<rparr>)
     \<lparr>feature_rustcrypto = False, backend_info = Inl [],
      initialize_backend = Inr \<lparr>bs_document = BackendAwsLc, bs_fips = FipsDisabled\<rparr>,
      load_pem_auto = (\<lambda>_ _. Inr ()),
      load_x509_cert_pem = (\<lambda>pem. if pem = sample_cert then Inr () else Inl ''not a certificate''),
      build_x509_key_info = concat, to_signing_key = (\<lambda>_. Inr (Some ())), sign_from_uri = (\<lambda>_. Inr ()),
      alg_sign = (\<lambda>_ _ s. Inr s), alg_verify = (\<lambda>_ _ s t. Inr (s = t)),
      dsig_sign = (\<lambda>_ s. Inr s), dsig_verify = (\<lambda>_ _. Inr (VrValid [sample_reference])),
      dsig_verify_all = (\<lambda>_ _. Inr [VrValid [sample_reference]]), xmlenc_encrypt = (\<lambda>_ _ _. Inl []),
      xmlenc_decrypt = (\<lambda>_ s. Inr s), ns_read_default = (\<lambda>_. sample_signed_ns), ns_normalize = Inr\<rparr>"

lemma sample_crypto_simps [simp]:
  "xml_read sample_crypto s = sample_signed_steps" "ns_read_default sample_crypto s = sample_signed_ns"
  "dsig_verify sample_crypto c s = Inr (VrValid [sample_reference])"
  "initialize_backend sample_crypto = Inr \<lparr>bs_document = BackendAwsLc, bs_fips = FipsDisabled\<rparr>"
  "load_x509_cert_pem sample_crypto p = (if p = sample_cert then Inr () else Inl ''not a certificate'')"
  "ns_normalize sample_crypto = Inr"
  by (simp_all add: sample_crypto_def wire_ext.defs sample_wire_def ns_ext.defs)

definition sample_signed_tree :: node where
  "sample_signed_tree = Node ''Assertion'' [(''ID'', ''a'')] [Node ''Signature'' [] [] [] 18 30] [] 0 42"

lemma sample_signed_parse: "parse_with_limits sample_crypto sample_signed xml_limits_default = Inr sample_signed_tree"
proof -
  have lt: "find_lt sample_signed 0 18 = 0" "find_lt sample_signed 18 30 = 18"
    by (simp_all add: find_lt_def Dom.slice_def sample_signed_def)
  show ?thesis
    unfolding parse_with_limits_Inr parse_roots_inner_Inr
    by (simp add: sample_signed_steps_def open_node_def checked_node_count_def usize_checked_add_def usize_max_def
        check_depth_def usize_sat_add_def read_attrs_def lt
        push_child_def add_child_def set_end_def xml_limits_default_def sample_signed_tree_def)
      (simp add: sample_signed_def)
qed

lemma sample_load: "load_certificate sample_crypto sample_cert = Inr ()"
  by (simp add: load_certificate_def ensure_crypto_provider_initialized_def initialize_crypto_provider_def
      to_cert_pem_def str_contains_def sample_cert_def)

lemma sample_preflight: "preflight_backend_signatures sample_crypto sample_signed = Inr ()"
  by (simp add: preflight_backend_signatures_def sample_signed_ns_def signature_namespace_def preflight_open_def
      preflight_signature_element_def signature_position_def)

lemma sample_preamble:
  "verification_preamble sample_crypto sample_signed [sample_cert] xml_limits_default = Inr (sample_signed_tree, True)"
  by (simp add: verification_preamble_def sample_signed_parse sample_preflight duplicate_saml_id_eq)
    (simp add: sample_signed_tree_def wrapping_detected_def saml_ids_def id_values_def saml_id_attr_def
      saml_signature_candidates_def children_named_def preflight_saml_reference_uris_def signature_references_def
      ensure_signature_transforms_preserve_content_def inline_certificate_allowed_def inline_signature_cert_def
      ensure_crypto_provider_initialized_def initialize_crypto_provider_def)

lemma sample_verified:
  "verify_signature_with_limits sample_crypto sample_signed [sample_cert] xml_limits_default = Inr (True, Some sample_signed)"
proof -
  have "node_source sample_signed sample_signed_tree = sample_signed"
    by (simp add: node_source_def Dom.slice_def sample_signed_tree_def sample_signed_def)
  then have "verified_content sample_signed_tree sample_signed [TargetId ''a''] = Inr (Some sample_signed)"
    by (simp add: verified_content_def verified_root_content_def target_matches_node_def node_saml_id_def
        node_attr_def sample_signed_tree_def)
  then show ?thesis
    by (simp add: verify_signature_with_limits_def sample_preamble sample_load verified_targets_def verified_target_of_def
        sample_reference_def is_external_reference_def verified_target_from_uri_def strip_prefix_def)
qed

lemma verify_signature_covered_witness:
  "\<exists>ref r. verified_target_from_uri (vr_uri ref) = Inr WholeDocument \<or> reference_selects ref r r
     \<or> (\<exists>n. children_named r ''Assertion'' = [n])"
  using verify_signature_covered [OF sample_verified] by blast

lemma preflight_signature_places_witness:
  "path_allowed [(''Signature'', Some NS_DSIG), (''Assertion'', None)]"
  using preflight_signature_places [OF sample_preflight]
  by (simp add: sample_signed_ns_def signature_namespace_def)

lemma verify_ignores_unloadable_witness:
  "verify_loop sample_crypto sample_signed_tree sample_signed [[], sample_cert] False None False None
   = verify_loop sample_crypto sample_signed_tree sample_signed
       (filter (\<lambda>c. is_ok (load_certificate sample_crypto c)) [[], sample_cert]) False None False None"
  by (rule verify_ignores_unloadable) (simp add: sample_load)

text \<open>
  The recursive search with its growing set of seen values finds a duplicate exactly when the SAML
  identifiers of all elements of the tree, in document order, are not distinct.
\<close>

theorem duplicate_saml_id_iff: "fst (duplicate_saml_id r []) = None \<longleftrightarrow> distinct (saml_ids r)"
  by (rule duplicate_saml_id_eq)

end
