(* ===== verification/Flow.thy ===== *)
theory Flow
  imports Verify
begin

text \<open>
  The inbound message flow (\<open>src/src/flow.rs\<close>, with \<open>src/src/context.rs\<close> and the logout
  deadline of \<open>src/src/validator.rs\<close>): decode, parse, check the profile and status, verify
  detached or embedded signatures, decrypt, extract the fields and validate them in context. The
  process clock, which the raw interface reads when no instant is given, is one reading per
  place that asks for it; a registered schema validator is a parameter. Properties: what holds
  of every accepted message, and what an authenticated one rests on.
\<close>

section \<open>Options\<close>

record 'k flow_ext = "'k crypto_ext" +
  schema_validator :: "(string \<Rightarrow> string + unit) option"

record flow_options =
  fo_binding :: "binding option"
  fo_parser_type :: "parser_type option"
  fo_redirect_inflate_max_bytes :: nat
  fo_xml_limits :: xml_limits
  fo_check_signature :: bool
  fo_from_issuer :: "string option"
  fo_signing_certs :: "string list"
  fo_decrypt_key :: "string option"
  fo_decrypt_key_pass :: "string option"
  fo_allow_insecure_software_rsa :: bool
  fo_clock_drifts :: "int \<times> int"
  fo_now :: "systime option"
  fo_expected_audience :: "string option"
  fo_expected_in_response_to :: "string option"

definition flow_options_default :: flow_options where
  "flow_options_default =
     \<lparr>fo_binding = None, fo_parser_type = None, fo_redirect_inflate_max_bytes = MAX_DEFLATE_RAW_DECODE_BYTES,
      fo_xml_limits = xml_limits_default, fo_check_signature = False, fo_from_issuer = None, fo_signing_certs = [],
      fo_decrypt_key = None, fo_decrypt_key_pass = None, fo_allow_insecure_software_rsa = False,
      fo_clock_drifts = (0, 0), fo_now = None, fo_expected_audience = None, fo_expected_in_response_to = None\<rparr>"

text \<open>The places that read the process clock.\<close>

datatype clock_read = ReadConfirmation nat | ReadSession | ReadConditions | ReadLogout

type_synonym clock = "clock_read \<Rightarrow> odt"

definition validation_now :: "('e) time_ext_scheme \<Rightarrow> flow_options \<Rightarrow> odt \<Rightarrow> odt res" where
  "validation_now E opts now_utc =
     (case fo_now opts of None \<Rightarrow> Inr now_utc | Some t \<Rightarrow> offset_datetime_from_system_time E t)"

datatype assertion_signature_requirement = Compatible | Direct
datatype response_signature_requirement = SigOptional | RequiredForEncryptedCbc | Required

record prepared_message =
  pm_saml_content :: string
  pm_assertion :: "string option"
  pm_response_authenticated :: bool

record flow_result =
  fr_saml_content :: string
  fr_extract :: saml_value
  fr_sig_alg :: "string option"

section \<open>Decoding and validation\<close>

definition default_fields :: "parser_type \<Rightarrow> string option \<Rightarrow> extractor_field list res" where
  "default_fields ptype assertion =
     (case ptype of
        SamlRequest \<Rightarrow> Inr login_request_fields
      | SamlResponse \<Rightarrow> rbind (ok_or assertion (Xml ''ERR_EMPTY_ASSERTION'')) (\<lambda>a. Inr (login_response_fields a))
      | LogoutRequest \<Rightarrow> Inr logout_request_fields
      | LogoutResponse \<Rightarrow> Inr logout_response_fields)"

definition decode_message :: "('e) wire_ext_scheme \<Rightarrow> binding \<Rightarrow> parser_type \<Rightarrow> http_request \<Rightarrow> nat \<Rightarrow> xml_limits \<Rightarrow>
    string res" where
  "decode_message E b ptype request redirect_inflate_max_bytes limits =
     (let direction = query_param ptype in
      rbind
        (case b of
           Redirect \<Rightarrow>
             rbind (query_get request direction) (\<lambda>v.
             rbind (ok_or v (MissingBindingParameter direction)) (\<lambda>content.
               let redirect_max_bytes = min redirect_inflate_max_bytes (max_bytes limits) in
               rbind (base64_decode_with_limit E content redirect_max_bytes) (\<lambda>compressed.
                 deflate_raw_decode_with_limit E compressed redirect_max_bytes)))
         | Artifact \<Rightarrow> Inl (UnsupportedBinding Artifact)
         | _ \<Rightarrow>
             rbind (body_get request direction) (\<lambda>v.
             rbind (ok_or v (MissingBindingParameter direction)) (\<lambda>content.
               base64_decode_with_limit E content (max_bytes limits))))
        (\<lambda>bytes.
          rbind (check_input_bytes limits (length bytes)) (\<lambda>_. rmap_err Xml (string_from_utf8 bytes))))"

definition is_valid_xml_with_limits :: "('k, 'e) flow_ext_scheme \<Rightarrow> string \<Rightarrow> xml_limits \<Rightarrow> unit res" where
  "is_valid_xml_with_limits E xml limits =
     rbind (parse_with_limits E xml limits) (\<lambda>_.
       case schema_validator E of
         None \<Rightarrow> Inr ()
       | Some validate \<Rightarrow> rmap_err Invalid (validate xml))"

definition is_valid_xml :: "('k, 'e) flow_ext_scheme \<Rightarrow> string \<Rightarrow> unit res" where
  "is_valid_xml E xml = is_valid_xml_with_limits E xml xml_limits_default"

definition assertion_shortcut :: "('e) xml_ext_scheme \<Rightarrow> string \<Rightarrow> xml_limits \<Rightarrow> string option res" where
  "assertion_shortcut E xml limits =
     rmap (\<lambda>v. get_str v ''assertion'')
       (extract_with_limits E xml [with_context (field_new ''assertion'' [''Response'', ''Assertion''])] limits)"

section \<open>Detached signatures\<close>

definition decoded_octet_params :: "('e) wire_ext_scheme \<Rightarrow> string \<Rightarrow> (string \<times> string) list" where
  "decoded_octet_params E octet = form_parse E octet"

definition flow_relay_state_param :: "string option \<Rightarrow> relay_state_param option" where
  "flow_relay_state_param value =
     (case relay_param_try_from_option value of Inr p \<Rightarrow> Some p | Inl _ \<Rightarrow> None)"

definition detached_relay_state_mismatch :: "string option \<Rightarrow> string option \<Rightarrow> saml_error" where
  "detached_relay_state_mismatch expected actual =
     (case (flow_relay_state_param expected, flow_relay_state_param actual) of
        (Some e, Some a) \<Rightarrow> RelayStateMismatch e a
      | _ \<Rightarrow> SignatureVerification RelayStateCorrelation)"

abbreviation "detached_signature_verification \<equiv> SignatureVerification DetachedMessageSignature"

definition ensure_redirect_octet_matches_consumed_fields :: "('e) wire_ext_scheme \<Rightarrow> parser_type \<Rightarrow> http_request \<Rightarrow>
    string \<Rightarrow> string \<Rightarrow> unit res" where
  "ensure_redirect_octet_matches_consumed_fields E ptype request sig_alg octet =
     (let direction = query_param ptype; sp = decoded_octet_params E octet in
      rbind (single_param sp ''Signature'') (\<lambda>sig.
        if sig \<noteq> None then Inl detached_signature_verification
        else
          rbind (single_param sp direction) (\<lambda>sm.
          rbind (ok_or sm (MissingBindingParameter direction)) (\<lambda>signed_message.
          rbind (query_get request direction) (\<lambda>cm.
          rbind (ok_or cm (MissingBindingParameter direction)) (\<lambda>consumed_message.
            if signed_message \<noteq> consumed_message then Inl detached_signature_verification
            else
              rbind (single_param sp ''SigAlg'') (\<lambda>sa.
              rbind (ok_or sa (MissingBindingParameter ''SigAlg'')) (\<lambda>signed_sig_alg.
                if signed_sig_alg \<noteq> sig_alg then Inl detached_signature_verification
                else
                  rbind (single_param sp ''RelayState'') (\<lambda>signed_relay_state.
                  rbind (query_get request ''RelayState'') (\<lambda>consumed_relay_state.
                    if signed_relay_state \<noteq> consumed_relay_state
                    then Inl (detached_relay_state_mismatch signed_relay_state consumed_relay_state)
                    else Inr ()))))))))))"

definition ensure_simplesign_octet_matches_consumed_fields :: "parser_type \<Rightarrow> http_request \<Rightarrow> string \<Rightarrow> string \<Rightarrow>
    string \<Rightarrow> unit res" where
  "ensure_simplesign_octet_matches_consumed_fields ptype request xml sig_alg octet =
     (let direction = query_param ptype in
      rbind (body_get request direction) (\<lambda>m.
      rbind (ok_or m (MissingBindingParameter direction)) (\<lambda>_.
      rbind (body_get request ''RelayState'') (\<lambda>relay.
        let matches = (case relay of
            Some relay_state \<Rightarrow>
              octet = direction @ ''='' @ xml @ ''&RelayState='' @ relay_state @ ''&SigAlg='' @ sig_alg
          | None \<Rightarrow>
              octet = direction @ ''='' @ xml @ ''&SigAlg='' @ sig_alg
              \<or> octet = direction @ ''='' @ xml @ ''&RelayState=&SigAlg='' @ sig_alg)
        in if matches then Inr () else Inl detached_signature_verification))))"

definition ensure_detached_octet_matches_consumed_fields :: "('e) wire_ext_scheme \<Rightarrow> binding \<Rightarrow> parser_type \<Rightarrow>
    http_request \<Rightarrow> string \<Rightarrow> string \<Rightarrow> string \<Rightarrow> unit res" where
  "ensure_detached_octet_matches_consumed_fields E b ptype request xml sig_alg octet =
     (case b of
        Redirect \<Rightarrow> ensure_redirect_octet_matches_consumed_fields E ptype request sig_alg octet
      | SimpleSign \<Rightarrow> ensure_simplesign_octet_matches_consumed_fields ptype request xml sig_alg octet
      | _ \<Rightarrow> Inr ())"

definition is_crypto_error :: "saml_error \<Rightarrow> bool" where
  "is_crypto_error e = (case e of saml_error.Crypto _ \<Rightarrow> True | _ \<Rightarrow> False)"

fun detached_loop :: "('k, 'e) crypto_ext_scheme \<Rightarrow> string \<Rightarrow> string \<Rightarrow> string \<Rightarrow> string list \<Rightarrow> saml_error option \<Rightarrow> bool \<Rightarrow>
    string res" where
  "detached_loop E octet signature sig_alg [] perr tried_invalid =
     (case perr of
        Some e \<Rightarrow> if \<not> tried_invalid then Inl e else Inl detached_signature_verification
      | None \<Rightarrow> Inl detached_signature_verification)"
| "detached_loop E octet signature sig_alg (cert # certs) perr tried_invalid =
     (case verify_message_signature E octet signature cert sig_alg of
        Inr True \<Rightarrow> Inr sig_alg
      | Inr False \<Rightarrow> detached_loop E octet signature sig_alg certs perr True
      | Inl e \<Rightarrow>
          detached_loop E octet signature sig_alg certs
            (if is_crypto_error e then Some (case perr of Some e0 \<Rightarrow> e0 | None \<Rightarrow> e) else perr) tried_invalid)"

definition verify_detached :: "('k, 'e) crypto_ext_scheme \<Rightarrow> binding \<Rightarrow> parser_type \<Rightarrow> http_request \<Rightarrow> flow_options \<Rightarrow>
    string \<Rightarrow> string res" where
  "verify_detached E b ptype request opts xml =
     (let get = (\<lambda>k. if b = Redirect then query_get request k else body_get request k) in
      rbind (get ''Signature'') (\<lambda>s.
      rbind (ok_or s SignatureMissing) (\<lambda>signature.
      rbind (get ''SigAlg'') (\<lambda>a.
      rbind (ok_or a (MissingBindingParameter ''SigAlg'')) (\<lambda>sig_alg.
      rbind (ok_or (hr_octet_string request) (MissingBindingParameter ''octet_string'')) (\<lambda>octet.
      rbind (ensure_detached_octet_matches_consumed_fields E b ptype request xml sig_alg octet) (\<lambda>_.
      rbind (initialize_crypto_provider E) (\<lambda>_.
        detached_loop E octet signature sig_alg (fo_signing_certs opts) None False))))))))"

section \<open>Embedded signatures\<close>

definition required_xml_signature_failed :: "bool \<Rightarrow> saml_error" where
  "required_xml_signature_failed signature_present =
     (if signature_present then SignatureVerification XmlSignature else SignatureMissing)"

text \<open>The evidence is the detailed verification result.\<close>

definition verify_embedded_signature :: "('k, 'e) crypto_ext_scheme \<Rightarrow> string \<Rightarrow> flow_options \<Rightarrow>
    signature_verification res" where
  "verify_embedded_signature E xml opts =
     verify_signatures_detailed_with_limits E xml (fo_signing_certs opts) (fo_xml_limits opts)"

definition require_direct_assertion_coverage :: "assertion_signature_requirement \<Rightarrow> bool \<Rightarrow> unit res" where
  "require_direct_assertion_coverage assertion_signature directly_covered =
     (if assertion_signature = Direct \<and> \<not> directly_covered then Inl AssertionSignatureRequired else Inr ())"

definition require_response_coverage :: "bool \<Rightarrow> bool \<Rightarrow> unit res" where
  "require_response_coverage required covered =
     (if required \<and> \<not> covered then Inl SignedReferenceMismatch else Inr ())"

definition response_uses_cbc_encrypted_assertion :: "('e) xml_ext_scheme \<Rightarrow> string \<Rightarrow> xml_limits \<Rightarrow> bool res" where
  "response_uses_cbc_encrypted_assertion E xml limits =
     rbind (parse_with_limits E xml limits) (\<lambda>r.
       Inr (list_ex is_xml_encryption_cbc_algorithm
         (some_values (\<lambda>m. node_attr m ''Algorithm'')
           (some_values (\<lambda>d. child_named d ''EncryptionMethod'')
             (some_values (\<lambda>a. child_named a ''EncryptedData'') (children_named r ''EncryptedAssertion''))))))"

definition response_signature_is_required :: "('e) xml_ext_scheme \<Rightarrow> response_signature_requirement \<Rightarrow> string \<Rightarrow>
    xml_limits \<Rightarrow> bool res" where
  "response_signature_is_required E requirement xml limits =
     (case requirement of
        SigOptional \<Rightarrow> Inr False
      | RequiredForEncryptedCbc \<Rightarrow> response_uses_cbc_encrypted_assertion E xml limits
      | Required \<Rightarrow> Inr True)"

definition load_decrypt_key :: "('k, 'e) crypto_ext_scheme \<Rightarrow> flow_options \<Rightarrow> 'k res" where
  "load_decrypt_key E opts = load_private_key E (str_or_empty (fo_decrypt_key opts)) (fo_decrypt_key_pass opts)"

text \<open>Decrypt a document and check the result again.\<close>

definition decrypt_and_check :: "('k, 'e) flow_ext_scheme \<Rightarrow> flow_options \<Rightarrow> parser_type \<Rightarrow> string \<Rightarrow>
    (string \<times> string) res" where
  "decrypt_and_check E opts ptype xml =
     rbind (load_decrypt_key E opts) (\<lambda>key.
     rbind (decrypt_assertion_with_limits E xml key (fo_allow_insecure_software_rsa opts) (fo_xml_limits opts))
       (\<lambda>(content, assertion).
     rbind (is_valid_xml_with_limits E content (fo_xml_limits opts)) (\<lambda>_.
     rbind (validate_protocol_profile E content ptype (fo_xml_limits opts)) (\<lambda>_. Inr (content, assertion)))))"

text \<open>Signed, then encrypted: the verified content is the Response with an EncryptedAssertion.\<close>

definition prepare_signed_encrypted :: "('k, 'e) flow_ext_scheme \<Rightarrow> flow_options \<Rightarrow> parser_type \<Rightarrow>
    assertion_signature_requirement \<Rightarrow> bool \<Rightarrow> string \<Rightarrow> prepared_message res" where
  "prepare_signed_encrypted E opts ptype assertion_signature response_covered verified_node =
     rbind (decrypt_and_check E opts ptype verified_node) (\<lambda>(content, assertion).
     rbind
       (if assertion_signature = Direct then
          rbind (has_xml_signature_with_limits E assertion (fo_xml_limits opts)) (\<lambda>present.
          rbind (verify_embedded_signature E assertion opts) (\<lambda>ev.
            if \<not> sv_verified ev then Inl (required_xml_signature_failed present)
            else require_direct_assertion_coverage assertion_signature (sv_assertion_directly_covered ev)))
        else Inr ())
       (\<lambda>_. Inr \<lparr>pm_saml_content = content, pm_assertion = Some assertion, pm_response_authenticated = response_covered\<rparr>))"

text \<open>Encrypted, then signed: decrypt first, then verify.\<close>

definition prepare_encrypted_signed :: "('k, 'e) flow_ext_scheme \<Rightarrow> flow_options \<Rightarrow> parser_type \<Rightarrow>
    assertion_signature_requirement \<Rightarrow> string \<Rightarrow> prepared_message res" where
  "prepare_encrypted_signed E opts ptype assertion_signature xml =
     rbind (decrypt_and_check E opts ptype xml) (\<lambda>(content, assertion).
     let verification_xml = (if assertion_signature = Direct then assertion else content) in
     rbind (has_xml_signature_with_limits E verification_xml (fo_xml_limits opts)) (\<lambda>present.
     rbind (verify_embedded_signature E verification_xml opts) (\<lambda>ev.
       if sv_verified ev then
         rbind (require_direct_assertion_coverage assertion_signature (sv_assertion_directly_covered ev)) (\<lambda>_.
           Inr \<lparr>pm_saml_content = content,
             pm_assertion = (if assertion_signature = Direct then Some assertion else sv_signed_content ev),
             pm_response_authenticated = False\<rparr>)
       else Inl (required_xml_signature_failed present))))"

definition prepare_plain :: "assertion_signature_requirement \<Rightarrow> parser_type \<Rightarrow> string \<Rightarrow> signature_verification \<Rightarrow>
    prepared_message res" where
  "prepare_plain assertion_signature ptype xml ev =
     rbind (require_direct_assertion_coverage assertion_signature (sv_assertion_directly_covered ev)) (\<lambda>_.
       if ptype \<noteq> SamlResponse then
         rbind (ok_or (sv_signed_content ev) SignedReferenceMismatch) (\<lambda>content.
           Inr \<lparr>pm_saml_content = content, pm_assertion = None, pm_response_authenticated = sv_response_covered ev\<rparr>)
       else
         Inr \<lparr>pm_saml_content = xml, pm_assertion = sv_signed_content ev,
           pm_response_authenticated = sv_response_covered ev\<rparr>)"

definition verify_and_prepare :: "('k, 'e) flow_ext_scheme \<Rightarrow> string \<Rightarrow> parser_type \<Rightarrow> flow_options \<Rightarrow>
    assertion_signature_requirement \<Rightarrow> response_signature_requirement \<Rightarrow> prepared_message res" where
  "verify_and_prepare E xml ptype opts assertion_signature response_signature =
     rbind (has_xml_signature_with_limits E xml (fo_xml_limits opts)) (\<lambda>signature_present.
     rbind (verify_embedded_signature E xml opts) (\<lambda>evidence.
     rbind (response_signature_is_required E response_signature xml (fo_xml_limits opts)) (\<lambda>required.
     rbind
       (if required then
          (if \<not> sv_verified evidence then Inl (required_xml_signature_failed signature_present)
           else require_response_coverage required (sv_response_covered evidence))
        else Inr ()) (\<lambda>_.
     let decrypt_required = (fo_decrypt_key opts \<noteq> None) in
     rbind (if decrypt_required then require_software_rsa_opt_in E (fo_allow_insecure_software_rsa opts) else Inr ()) (\<lambda>_.
       case (if decrypt_required \<and> sv_verified evidence \<and> ptype = SamlResponse then sv_signed_content evidence else None) of
         Some verified_node \<Rightarrow>
           prepare_signed_encrypted E opts ptype assertion_signature (sv_response_covered evidence) verified_node
       | None \<Rightarrow>
           if decrypt_required \<and> \<not> sv_verified evidence
           then prepare_encrypted_signed E opts ptype assertion_signature xml
           else if sv_verified evidence then prepare_plain assertion_signature ptype xml evidence
           else Inl (required_xml_signature_failed signature_present))))))"

section \<open>Audience\<close>

definition audience_restriction_contains :: "('e) xml_ext_scheme \<Rightarrow> string \<Rightarrow> string \<Rightarrow> xml_limits \<Rightarrow> bool res" where
  "audience_restriction_contains E audience_restriction expected limits =
     rbind (extract_with_limits E audience_restriction
              [field_new ''audience'' [''AudienceRestriction'', ''Audience'']] limits) (\<lambda>ex.
       Inr (case get_path ex ''audience'' of
              Some (VStr audience) \<Rightarrow> audience = expected
            | Some (VArray audiences) \<Rightarrow> list_ex (\<lambda>a. as_str a = Some expected) audiences
            | _ \<Rightarrow> False))"

fun all_restrictions_contain :: "('e) xml_ext_scheme \<Rightarrow> string \<Rightarrow> xml_limits \<Rightarrow> saml_value list \<Rightarrow> bool res" where
  "all_restrictions_contain E expected limits [] = Inr True"
| "all_restrictions_contain E expected limits (v # vs) =
     (case as_str v of
        None \<Rightarrow> Inr False
      | Some ar \<Rightarrow>
          rbind (audience_restriction_contains E ar expected limits) (\<lambda>ok.
            if \<not> ok then Inr False else all_restrictions_contain E expected limits vs))"

definition audience_restrictions_contain :: "('e) xml_ext_scheme \<Rightarrow> string option \<Rightarrow> string \<Rightarrow> xml_limits \<Rightarrow>
    bool res" where
  "audience_restrictions_contain E assertion expected limits =
     (case assertion of
        None \<Rightarrow> Inr False
      | Some a \<Rightarrow>
          rbind (extract_with_limits E a
                   [with_context (field_new ''audienceRestriction'' [''Assertion'', ''Conditions'', ''AudienceRestriction''])]
                   limits) (\<lambda>ex.
            case get_path ex ''audienceRestriction'' of
              Some (VStr ar) \<Rightarrow> audience_restriction_contains E ar expected limits
            | Some (VArray ars) \<Rightarrow> if ars = [] then Inr False else all_restrictions_contain E expected limits ars
            | _ \<Rightarrow> Inr False))"

section \<open>Subject confirmation\<close>

abbreviation "BEARER_SUBJECT_CONFIRMATION_METHOD \<equiv> ''urn:oasis:names:tc:SAML:2.0:cm:bearer''"

definition subject_confirmation_xmls :: "saml_value \<Rightarrow> string list" where
  "subject_confirmation_xmls ex =
     (case get_path ex ''subjectConfirmation'' of
        Some (VStr xml) \<Rightarrow> [xml]
      | Some (VArray items) \<Rightarrow> some_values as_str items
      | _ \<Rightarrow> [])"

datatype subject_confirmation_check = ScValid | ScInvalid subject_confirmation_reason

definition subject_confirmation_fields :: "extractor_field list" where
  "subject_confirmation_fields =
     [with_attrs [''Method''] (field_new ''subjectConfirmation'' [''SubjectConfirmation'']),
      with_attrs [''NotOnOrAfter'', ''Recipient'', ''InResponseTo'']
        (field_new ''subjectConfirmationData'' [''SubjectConfirmation'', ''SubjectConfirmationData''])]"

definition check_bearer_subject_confirmation :: "('e) xml_ext_scheme \<Rightarrow> odt \<Rightarrow> string \<Rightarrow> flow_options \<Rightarrow> string option \<Rightarrow>
    subject_confirmation_check res" where
  "check_bearer_subject_confirmation E now_utc xml opts expected_recipient =
     rbind (extract_with_limits E xml subject_confirmation_fields (fo_xml_limits opts)) (\<lambda>ex.
       if get_str ex ''subjectConfirmation'' \<noteq> Some BEARER_SUBJECT_CONFIRMATION_METHOD
       then Inr (ScInvalid InvalidMethod)
       else
         (case get_str ex ''subjectConfirmationData.notOnOrAfter'' of
            None \<Rightarrow> Inr (ScInvalid MissingNotOnOrAfter)
          | Some not_on_or_after \<Rightarrow>
              rbind (validation_now E opts now_utc) (\<lambda>now.
                if \<not> verify_time_at E None (Some not_on_or_after) (fo_clock_drifts opts) now
                then Inr (ScInvalid ScTimeWindowInvalid)
                else if expected_recipient \<noteq> None
                  \<and> get_str ex ''subjectConfirmationData.recipient'' \<noteq> expected_recipient
                then Inr (ScInvalid RecipientMismatch)
                else if fo_expected_in_response_to opts \<noteq> None
                  \<and> get_str ex ''subjectConfirmationData.inResponseTo'' \<noteq> fo_expected_in_response_to opts
                then Inr (ScInvalid ScInResponseToMismatch)
                else Inr ScValid)))"

text \<open>The loop of \<open>validate_subject_confirmation\<close>, with the number of the confirmation and the last reason.\<close>

fun confirmation_loop :: "('e) xml_ext_scheme \<Rightarrow> clock \<Rightarrow> flow_options \<Rightarrow> string option \<Rightarrow> nat \<Rightarrow>
    subject_confirmation_reason option \<Rightarrow> string list \<Rightarrow> unit res" where
  "confirmation_loop E clk opts expected_recipient i reason [] =
     Inl (SubjectConfirmationInvalid (case reason of Some r \<Rightarrow> r | None \<Rightarrow> MissingBearerConfirmation))"
| "confirmation_loop E clk opts expected_recipient i reason (xml # xmls) =
     rbind (check_bearer_subject_confirmation E (clk (ReadConfirmation i)) xml opts expected_recipient) (\<lambda>c.
       case c of
         ScValid \<Rightarrow> Inr ()
       | ScInvalid r \<Rightarrow> confirmation_loop E clk opts expected_recipient (Suc i) (Some r) xmls)"

definition validate_subject_confirmation :: "('e) xml_ext_scheme \<Rightarrow> clock \<Rightarrow> saml_value \<Rightarrow> flow_options \<Rightarrow> string option \<Rightarrow>
    unit res" where
  "validate_subject_confirmation E clk ex opts expected_recipient =
     confirmation_loop E clk opts expected_recipient 0 None (subject_confirmation_xmls ex)"

section \<open>Context\<close>

definition validate_response_destination :: "saml_value \<Rightarrow> string option \<Rightarrow> bool \<Rightarrow> unit res" where
  "validate_response_destination ex expected_recipient response_authenticated =
     (case expected_recipient of
        None \<Rightarrow> Inr ()
      | Some expected \<Rightarrow>
          let destination = get_str ex ''response.destination'' in
          if response_authenticated \<and> destination = None then Inl (DestinationMismatch expected None)
          else if destination \<noteq> None \<and> destination \<noteq> Some expected then Inl (DestinationMismatch expected destination)
          else Inr ())"

definition logout_request_not_on_or_after_deadline :: "('e) time_ext_scheme \<Rightarrow> saml_value \<Rightarrow> odt \<Rightarrow> int \<Rightarrow>
    odt option res" where
  "logout_request_not_on_or_after_deadline E ex now skew_ms =
     (case get_str ex ''request.notOnOrAfter'' of
        None \<Rightarrow> Inr None
      | Some v \<Rightarrow>
          rbind (ok_or (parse_saml_utc_date_time v) (TimeWindowInvalid LogoutRequestNotOnOrAfter)) (\<lambda>normalized.
          rbind (ok_or (rfc3339_parse E normalized) (TimeWindowInvalid LogoutRequestNotOnOrAfter)) (\<lambda>deadline.
          rbind (ok_or (odt_checked_add E deadline (duration_ms skew_ms)) (TimeWindowInvalid LogoutRequestNotOnOrAfter))
            (\<lambda>effective_deadline.
            if now \<ge> effective_deadline then Inl (TimeWindowInvalid LogoutRequestNotOnOrAfter)
            else Inr (Some effective_deadline)))))"

definition validate_sessions :: "('e) time_ext_scheme \<Rightarrow> odt \<Rightarrow> saml_value \<Rightarrow> flow_options \<Rightarrow> unit res" where
  "validate_sessions E now_utc ex opts =
     rbind (authn_statement_not_on_or_after_values ex) (\<lambda>session_bounds.
     rbind (earliest_authn_session_expiration E session_bounds SessionNotOnOrAfter) (\<lambda>earliest.
       case earliest of
         None \<Rightarrow> Inr ()
       | Some raw_expiration \<Rightarrow>
           rbind (ok_or (odt_checked_add E raw_expiration (duration_ms (snd (fo_clock_drifts opts))))
                    (TimeWindowInvalid SessionNotOnOrAfter)) (\<lambda>expiration.
           rbind (validation_now E opts now_utc) (\<lambda>now.
             if now \<ge> expiration then Inl (TimeWindowInvalid SessionNotOnOrAfter) else Inr ()))))"

definition validate_conditions :: "('e) time_ext_scheme \<Rightarrow> odt \<Rightarrow> saml_value \<Rightarrow> flow_options \<Rightarrow> unit res" where
  "validate_conditions E now_utc ex opts =
     rbind (conditions_time_bounds ex) (\<lambda>(not_before, not_on_or_after).
     rbind (validation_now E opts now_utc) (\<lambda>now.
       if \<not> verify_time_at E not_before not_on_or_after (fo_clock_drifts opts) now
       then Inl (TimeWindowInvalid Conditions) else Inr ()))"

text \<open>The part of \<open>validate_context\<close> for an SSO response.\<close>

definition validate_sso_response :: "('e) xml_ext_scheme \<Rightarrow> clock \<Rightarrow> string option \<Rightarrow> saml_value \<Rightarrow> flow_options \<Rightarrow>
    string option \<Rightarrow> bool \<Rightarrow> unit res" where
  "validate_sso_response E clk assertion ex opts expected_recipient response_authenticated =
     rbind (validate_response_destination ex expected_recipient response_authenticated) (\<lambda>_.
     rbind (validate_subject_confirmation E clk ex opts expected_recipient) (\<lambda>_.
     rbind
       (case fo_expected_audience opts of
          None \<Rightarrow> Inr ()
        | Some expected \<Rightarrow>
            rbind (audience_restrictions_contain E assertion expected (fo_xml_limits opts)) (\<lambda>ok.
              if \<not> ok then Inl (AudienceMismatch expected) else Inr ())) (\<lambda>_.
     rbind (validate_sessions E (clk ReadSession) ex opts) (\<lambda>_.
       validate_conditions E (clk ReadConditions) ex opts))))"

definition validate_context :: "('e) xml_ext_scheme \<Rightarrow> clock \<Rightarrow> parser_type \<Rightarrow> string option \<Rightarrow> saml_value \<Rightarrow>
    flow_options \<Rightarrow> string option \<Rightarrow> bool \<Rightarrow> unit res" where
  "validate_context E clk ptype assertion ex opts expected_recipient response_authenticated =
     rbind
       (case fo_from_issuer opts of
          Some expected \<Rightarrow>
            if get_str ex ''issuer'' \<noteq> Some expected then Inl (IssuerMismatch expected (get_str ex ''issuer'')) else Inr ()
        | None \<Rightarrow> Inr ()) (\<lambda>_.
     rbind
       (if ptype \<in> {SamlResponse, LogoutResponse} then
          (case fo_expected_in_response_to opts of
             Some expected \<Rightarrow>
               if get_str ex ''response.inResponseTo'' \<noteq> Some expected
               then Inl (InResponseToMismatch (Some expected) (get_str ex ''response.inResponseTo'')) else Inr ()
           | None \<Rightarrow> Inr ())
        else Inr ()) (\<lambda>_.
     rbind
       (if ptype = SamlResponse
        then validate_sso_response E clk assertion ex opts expected_recipient response_authenticated
        else Inr ()) (\<lambda>_.
       if ptype = LogoutRequest then
         rbind (validation_now E opts (clk ReadLogout)) (\<lambda>now.
         rbind (logout_request_not_on_or_after_deadline E ex now (snd (fo_clock_drifts opts))) (\<lambda>_. Inr ()))
       else Inr ())))"

section \<open>The flow\<close>

text \<open>
  The message without an embedded signature check: an SSO response's assertion is taken from the
  document.
\<close>

definition prepare_unverified :: "('e) xml_ext_scheme \<Rightarrow> parser_type \<Rightarrow> string \<Rightarrow> xml_limits \<Rightarrow> prepared_message res" where
  "prepare_unverified E ptype xml limits =
     rbind (if ptype = SamlResponse then assertion_shortcut E xml limits else Inr None) (\<lambda>assertion.
       Inr \<lparr>pm_saml_content = xml, pm_assertion = assertion, pm_response_authenticated = False\<rparr>)"

text \<open>The prepared message, the verified signature algorithm, and whether the response is authenticated.\<close>

definition authenticate_message :: "('k, 'e) flow_ext_scheme \<Rightarrow> binding \<Rightarrow> parser_type \<Rightarrow> http_request \<Rightarrow> flow_options \<Rightarrow>
    string \<Rightarrow> assertion_signature_requirement \<Rightarrow> response_signature_requirement \<Rightarrow>
    (prepared_message \<times> string option \<times> bool) res" where
  "authenticate_message E b ptype request opts xml assertion_signature response_signature =
     (if fo_check_signature opts then
        (if b \<in> {Redirect, SimpleSign} then
           rbind (verify_detached E b ptype request opts xml) (\<lambda>sig_alg.
           rbind
             (if ptype = SamlResponse \<and> assertion_signature = Direct
              then verify_and_prepare E xml ptype opts assertion_signature SigOptional
              else prepare_unverified E ptype xml (fo_xml_limits opts)) (\<lambda>prepared.
             Inr (prepared, Some sig_alg, True)))
         else
           rbind (verify_and_prepare E xml ptype opts assertion_signature response_signature) (\<lambda>prepared.
             Inr (prepared, None, pm_response_authenticated prepared)))
      else
        rbind (prepare_unverified E ptype xml (fo_xml_limits opts)) (\<lambda>prepared. Inr (prepared, None, False)))"

definition flow_inner :: "('k, 'e) flow_ext_scheme \<Rightarrow> clock \<Rightarrow> flow_options \<Rightarrow> http_request \<Rightarrow> string option \<Rightarrow>
    assertion_signature_requirement \<Rightarrow> response_signature_requirement \<Rightarrow> flow_result res" where
  "flow_inner E clk opts request expected_recipient assertion_signature response_signature =
     rbind (ok_or (fo_binding opts) (MissingBindingParameter ''binding'')) (\<lambda>b.
     rbind (ok_or (fo_parser_type opts) (Invalid ''ERR_UNDEFINED_PARSERTYPE'')) (\<lambda>ptype.
     rbind (decode_message E b ptype request (fo_redirect_inflate_max_bytes opts) (fo_xml_limits opts)) (\<lambda>xml.
     rbind (is_valid_xml_with_limits E xml (fo_xml_limits opts)) (\<lambda>_.
     rbind (validate_protocol_profile E xml ptype (fo_xml_limits opts)) (\<lambda>_.
     rbind (check_status_with_limits E xml ptype (fo_xml_limits opts)) (\<lambda>_.
     rbind (authenticate_message E b ptype request opts xml assertion_signature response_signature)
       (\<lambda>(prepared, sig_alg, response_authenticated).
     rbind (default_fields ptype (pm_assertion prepared)) (\<lambda>flds.
     rbind (extract_with_limits E (pm_saml_content prepared) flds (fo_xml_limits opts)) (\<lambda>ex.
     rbind (validate_context E clk ptype (pm_assertion prepared) ex opts expected_recipient response_authenticated) (\<lambda>_.
       Inr \<lparr>fr_saml_content = pm_saml_content prepared, fr_extract = ex, fr_sig_alg = sig_alg\<rparr>))))))))))"

definition flow :: "('k, 'e) flow_ext_scheme \<Rightarrow> clock \<Rightarrow> flow_options \<Rightarrow> http_request \<Rightarrow> flow_result res" where
  "flow E clk opts request = flow_inner E clk opts request None Compatible SigOptional"

definition flow_with_expected_recipient :: "('k, 'e) flow_ext_scheme \<Rightarrow> clock \<Rightarrow> flow_options \<Rightarrow> http_request \<Rightarrow> string \<Rightarrow>
    assertion_signature_requirement \<Rightarrow> response_signature_requirement \<Rightarrow> flow_result res" where
  "flow_with_expected_recipient E clk opts request expected_recipient assertion_signature response_signature =
     flow_inner E clk opts request (Some expected_recipient) assertion_signature response_signature"

section \<open>What an accepted message satisfies\<close>

lemma flow_inner_Inr:
  "flow_inner E clk opts request rcpt asr rsr = Inr fr \<longleftrightarrow>
     (\<exists>b ptype xml prepared alg auth flds.
        fo_binding opts = Some b \<and> fo_parser_type opts = Some ptype
        \<and> decode_message E b ptype request (fo_redirect_inflate_max_bytes opts) (fo_xml_limits opts) = Inr xml
        \<and> is_valid_xml_with_limits E xml (fo_xml_limits opts) = Inr ()
        \<and> validate_protocol_profile E xml ptype (fo_xml_limits opts) = Inr ()
        \<and> check_status_with_limits E xml ptype (fo_xml_limits opts) = Inr ()
        \<and> authenticate_message E b ptype request opts xml asr rsr = Inr (prepared, alg, auth)
        \<and> default_fields ptype (pm_assertion prepared) = Inr flds
        \<and> extract_with_limits E (pm_saml_content prepared) flds (fo_xml_limits opts) = Inr (fr_extract fr)
        \<and> validate_context E clk ptype (pm_assertion prepared) (fr_extract fr) opts rcpt auth = Inr ()
        \<and> fr_saml_content fr = pm_saml_content prepared \<and> fr_sig_alg fr = alg)"
  by (cases fr) (auto simp: flow_inner_def rbind_Inr_iff ok_or_Inr_iff)

text \<open>A bearer confirmation that satisfies the options at an instant.\<close>

definition bearer_confirmed :: "('e) xml_ext_scheme \<Rightarrow> flow_options \<Rightarrow> string option \<Rightarrow> odt \<Rightarrow> string \<Rightarrow> bool" where
  "bearer_confirmed E opts rcpt now xml \<longleftrightarrow>
     (\<exists>ex limit b. extract_with_limits E xml subject_confirmation_fields (fo_xml_limits opts) = Inr ex
        \<and> get_str ex ''subjectConfirmation'' = Some BEARER_SUBJECT_CONFIRMATION_METHOD
        \<and> get_str ex ''subjectConfirmationData.notOnOrAfter'' = Some limit
        \<and> bound_ns E (snd (fo_clock_drifts opts)) limit = Some b \<and> odt_ns now < b
        \<and> (rcpt = None \<or> get_str ex ''subjectConfirmationData.recipient'' = rcpt)
        \<and> (fo_expected_in_response_to opts = None
           \<or> get_str ex ''subjectConfirmationData.inResponseTo'' = fo_expected_in_response_to opts))"

lemma check_bearer_valid:
  assumes "time_laws E" "validation_now E opts t = Inr now"
    "check_bearer_subject_confirmation E t xml opts rcpt = Inr ScValid"
  shows "bearer_confirmed E opts rcpt now xml"
  using assms(2,3) verify_time_at_bounds [OF assms(1), of None _ "fst (fo_clock_drifts opts)" "snd (fo_clock_drifts opts)"]
  by (auto simp: check_bearer_subject_confirmation_def bearer_confirmed_def rbind_Inr_iff split: if_splits option.splits)

lemma confirmation_loop_Inr:
  assumes "time_laws E" "\<And>t. validation_now E opts t = Inr now"
  shows "confirmation_loop E clk opts rcpt i reason xmls = Inr () \<Longrightarrow>
     \<exists>xml \<in> set xmls. bearer_confirmed E opts rcpt now xml"
proof (induction xmls arbitrary: i reason)
  case (Cons xml xmls)
  from Cons(2) obtain c where c: "check_bearer_subject_confirmation E (clk (ReadConfirmation i)) xml opts rcpt = Inr c"
    "(case c of ScValid \<Rightarrow> Inr () | ScInvalid r \<Rightarrow> confirmation_loop E clk opts rcpt (Suc i) (Some r) xmls) = Inr ()"
    by (auto simp: rbind_Inr_iff)
  show ?case
  proof (cases c)
    case ScValid
    with c(1) check_bearer_valid [OF assms] show ?thesis by auto
  next
    case (ScInvalid r)
    with c(2) Cons(1) show ?thesis by auto
  qed
qed simp

lemma validate_sessions_Inr:
  assumes "time_laws E" "validation_now E opts t = Inr now" "validate_sessions E t ex opts = Inr ()"
  shows "\<exists>vs. authn_statement_not_on_or_after_values ex = Inr vs
     \<and> (\<forall>v \<in> set vs. \<exists>e. rfc3339_parse E v = Some e
          \<and> odt_ns now < odt_ns e + snd (fo_clock_drifts opts) * 1000000)"
proof -
  obtain vs e where vs: "authn_statement_not_on_or_after_values ex = Inr vs"
    "earliest_authn_session_expiration E vs SessionNotOnOrAfter = Inr e"
    and rest: "(case e of None \<Rightarrow> Inr ()
       | Some raw \<Rightarrow>
           rbind (ok_or (odt_checked_add E raw (duration_ms (snd (fo_clock_drifts opts))))
                    (TimeWindowInvalid SessionNotOnOrAfter)) (\<lambda>expiration.
           rbind (validation_now E opts t) (\<lambda>now.
             if now \<ge> expiration then Inl (TimeWindowInvalid SessionNotOnOrAfter) else Inr ()))) = Inr ()"
    using assms(3) by (auto simp: validate_sessions_def rbind_Inr_iff)
  show ?thesis
  proof (cases "vs = []")
    case True
    with vs(1) show ?thesis by auto
  next
    case False
    let ?ts = "map (\<lambda>v. the (rfc3339_parse E v)) vs"
    have all: "\<forall>v \<in> set vs. rfc3339_parse E v \<noteq> None" and e: "e = Some (Min (set ?ts))"
      using vs(2) False unfolding earliest_expiration_eq by (auto simp: list_all_iff)
    from rest e obtain x where x: "odt_checked_add E (Min (set ?ts)) (duration_ms (snd (fo_clock_drifts opts))) = Some x"
      "now < x"
      using assms(2) by (auto simp: rbind_Inr_iff ok_or_Inr_iff not_le split: if_splits)
    have "odt_ns now < odt_ns (Min (set ?ts)) + snd (fo_clock_drifts opts) * 1000000"
      using x time_laws_add [OF assms(1) x(1)] by (simp add: less_odt_def duration_ms_def)
    moreover have "odt_ns (Min (set ?ts)) \<le> odt_ns (the (rfc3339_parse E v))" if "v \<in> set vs" for v
      using that Min_le [of "set ?ts" "the (rfc3339_parse E v)"] by (simp add: less_eq_odt_def)
    ultimately show ?thesis using vs(1) all by force
  qed
qed

lemma sso_response_accepted:
  assumes "flow_with_expected_recipient E clk opts request rcpt asr rsr = Inr fr"
    "fo_parser_type opts = Some SamlResponse" "time_laws E"
    "fo_now opts = Some t" "offset_datetime_from_system_time E t = Inr now"
  shows "\<exists>b xml prepared auth vs nb na.
     decode_message E b SamlResponse request (fo_redirect_inflate_max_bytes opts) (fo_xml_limits opts) = Inr xml
     \<and> check_status_with_limits E xml SamlResponse (fo_xml_limits opts) = Inr ()
     \<and> authenticate_message E b SamlResponse request opts xml asr rsr = Inr (prepared, fr_sig_alg fr, auth)
     \<and> fo_from_issuer opts \<in> {None, get_str (fr_extract fr) ''issuer''}
     \<and> fo_expected_in_response_to opts \<in> {None, get_str (fr_extract fr) ''response.inResponseTo''}
     \<and> get_str (fr_extract fr) ''response.destination'' \<in> (if auth then {Some rcpt} else {None, Some rcpt})
     \<and> (\<exists>c \<in> set (subject_confirmation_xmls (fr_extract fr)). bearer_confirmed E opts (Some rcpt) now c)
     \<and> (\<forall>aud. fo_expected_audience opts = Some aud \<longrightarrow>
          audience_restrictions_contain E (pm_assertion prepared) aud (fo_xml_limits opts) = Inr True)
     \<and> authn_statement_not_on_or_after_values (fr_extract fr) = Inr vs
     \<and> (\<forall>v \<in> set vs. \<exists>e. rfc3339_parse E v = Some e
          \<and> odt_ns now < odt_ns e + snd (fo_clock_drifts opts) * 1000000)
     \<and> conditions_time_bounds (fr_extract fr) = Inr (nb, na)
     \<and> verify_time_at E nb na (fo_clock_drifts opts) now"
proof -
  have now: "validation_now E opts u = Inr now" for u using assms(4,5) by (simp add: validation_now_def)
  from assms(1,2) obtain b xml prepared auth where f:
    "decode_message E b SamlResponse request (fo_redirect_inflate_max_bytes opts) (fo_xml_limits opts) = Inr xml"
    "check_status_with_limits E xml SamlResponse (fo_xml_limits opts) = Inr ()"
    "authenticate_message E b SamlResponse request opts xml asr rsr = Inr (prepared, fr_sig_alg fr, auth)"
    and ctx: "validate_context E clk SamlResponse (pm_assertion prepared) (fr_extract fr) opts (Some rcpt) auth = Inr ()"
    unfolding flow_with_expected_recipient_def flow_inner_Inr by auto
  from ctx have iss: "fo_from_issuer opts \<in> {None, get_str (fr_extract fr) ''issuer''}"
    and irt: "fo_expected_in_response_to opts \<in> {None, get_str (fr_extract fr) ''response.inResponseTo''}"
    and sso: "validate_sso_response E clk (pm_assertion prepared) (fr_extract fr) opts (Some rcpt) auth = Inr ()"
    by (auto simp: validate_context_def rbind_Inr_iff split: option.splits if_splits)
  from sso have dest: "validate_response_destination (fr_extract fr) (Some rcpt) auth = Inr ()"
    and conf: "validate_subject_confirmation E clk (fr_extract fr) opts (Some rcpt) = Inr ()"
    and aud: "\<forall>aud. fo_expected_audience opts = Some aud \<longrightarrow>
          audience_restrictions_contain E (pm_assertion prepared) aud (fo_xml_limits opts) = Inr True"
    and sess: "validate_sessions E (clk ReadSession) (fr_extract fr) opts = Inr ()"
    and cond: "validate_conditions E (clk ReadConditions) (fr_extract fr) opts = Inr ()"
    by (auto simp: validate_sso_response_def rbind_Inr_iff split: option.splits if_splits)
  have d: "get_str (fr_extract fr) ''response.destination'' \<in> (if auth then {Some rcpt} else {None, Some rcpt})"
    using dest by (auto simp: validate_response_destination_def Let_def split: if_splits)
  have c: "\<exists>c \<in> set (subject_confirmation_xmls (fr_extract fr)). bearer_confirmed E opts (Some rcpt) now c"
    using conf confirmation_loop_Inr [OF assms(3) now] by (simp add: validate_subject_confirmation_def)
  obtain nb na where w: "conditions_time_bounds (fr_extract fr) = Inr (nb, na)"
    "verify_time_at E nb na (fo_clock_drifts opts) now"
    using cond now by (auto simp: validate_conditions_def rbind_Inr_iff split: if_splits)
  obtain vs where v: "authn_statement_not_on_or_after_values (fr_extract fr) = Inr vs"
    "\<forall>v \<in> set vs. \<exists>e. rfc3339_parse E v = Some e \<and> odt_ns now < odt_ns e + snd (fo_clock_drifts opts) * 1000000"
    using validate_sessions_Inr [OF assms(3) now sess] by blast
  from f iss irt d c aud v w show ?thesis by blast
qed

text \<open>
  C1: an SSO response is accepted only when all of this holds: its status is success; the issuer and
  InResponseTo of the extracted fields are the expected ones where the options expect one; the
  Destination is the expected recipient, and present when the response is authenticated; a bearer
  confirmation names that recipient and request and has not expired; the audience restrictions of
  the prepared assertion contain the expected audience; and no session and no Conditions window
  has passed.
\<close>

theorem flow_sso_response_accepted:
  assumes "flow_with_expected_recipient E clk opts request rcpt asr rsr = Inr fr"
    "fo_parser_type opts = Some SamlResponse" "time_laws E"
    "fo_now opts = Some t" "offset_datetime_from_system_time E t = Inr now"
  shows "\<exists>b xml prepared auth vs nb na.
     decode_message E b SamlResponse request (fo_redirect_inflate_max_bytes opts) (fo_xml_limits opts) = Inr xml
     \<and> check_status_with_limits E xml SamlResponse (fo_xml_limits opts) = Inr ()
     \<and> authenticate_message E b SamlResponse request opts xml asr rsr = Inr (prepared, fr_sig_alg fr, auth)
     \<and> fo_from_issuer opts \<in> {None, get_str (fr_extract fr) ''issuer''}
     \<and> fo_expected_in_response_to opts \<in> {None, get_str (fr_extract fr) ''response.inResponseTo''}
     \<and> get_str (fr_extract fr) ''response.destination'' \<in> (if auth then {Some rcpt} else {None, Some rcpt})
     \<and> (\<exists>c \<in> set (subject_confirmation_xmls (fr_extract fr)). bearer_confirmed E opts (Some rcpt) now c)
     \<and> (\<forall>aud. fo_expected_audience opts = Some aud \<longrightarrow>
          audience_restrictions_contain E (pm_assertion prepared) aud (fo_xml_limits opts) = Inr True)
     \<and> authn_statement_not_on_or_after_values (fr_extract fr) = Inr vs
     \<and> (\<forall>v \<in> set vs. \<exists>e. rfc3339_parse E v = Some e
          \<and> odt_ns now < odt_ns e + snd (fo_clock_drifts opts) * 1000000)
     \<and> conditions_time_bounds (fr_extract fr) = Inr (nb, na)
     \<and> verify_time_at E nb na (fo_clock_drifts opts) now"
  by (rule sso_response_accepted [OF assms])

section \<open>Detached signatures\<close>

lemma detached_loop_Inr:
  "detached_loop E octet signature sig_alg certs perr tried = Inr alg \<Longrightarrow>
     alg = sig_alg \<and> (\<exists>cert \<in> set certs. verify_message_signature E octet signature cert sig_alg = Inr True)"
  by (induction E octet signature sig_alg certs perr tried rule: detached_loop.induct)
    (auto split: sum.splits bool.splits if_splits option.splits)

text \<open>
  C21: a detached Redirect signature is accepted only over what the flow goes on to use: the verified
  octets carry, each exactly once, the same message, the same algorithm and the same RelayState
  as the request's query, no Signature parameter, and a pinned certificate verified them.
\<close>

theorem verify_detached_redirect_sound:
  assumes "verify_detached E Redirect ptype request opts xml = Inr alg"
  shows "\<exists>octet signature cert message relay.
      hr_octet_string request = Some octet \<and> cert \<in> set (fo_signing_certs opts)
      \<and> verify_message_signature E octet signature cert alg = Inr True
      \<and> query_get request ''Signature'' = Inr (Some signature)
      \<and> single_param (form_parse E octet) ''Signature'' = Inr None
      \<and> single_param (form_parse E octet) (query_param ptype) = Inr (Some message)
      \<and> query_get request (query_param ptype) = Inr (Some message)
      \<and> single_param (form_parse E octet) ''SigAlg'' = Inr (Some alg)
      \<and> query_get request ''SigAlg'' = Inr (Some alg)
      \<and> single_param (form_parse E octet) ''RelayState'' = Inr relay
      \<and> query_get request ''RelayState'' = Inr relay"
proof -
  from assms obtain signature sig_alg octet where d: "query_get request ''Signature'' = Inr (Some signature)"
    "query_get request ''SigAlg'' = Inr (Some sig_alg)" "hr_octet_string request = Some octet"
    "ensure_redirect_octet_matches_consumed_fields E ptype request sig_alg octet = Inr ()"
    "detached_loop E octet signature sig_alg (fo_signing_certs opts) None False = Inr alg"
    by (auto simp: verify_detached_def Let_def rbind_Inr_iff ok_or_Inr_iff ensure_detached_octet_matches_consumed_fields_def)
  from detached_loop_Inr [OF d(5)] obtain cert where cert: "alg = sig_alg" "cert \<in> set (fo_signing_certs opts)"
    "verify_message_signature E octet signature cert sig_alg = Inr True" by blast
  from d(4) obtain message relay where "single_param (form_parse E octet) ''Signature'' = Inr None"
      "single_param (form_parse E octet) (query_param ptype) = Inr (Some message)"
      "query_get request (query_param ptype) = Inr (Some message)"
      "single_param (form_parse E octet) ''SigAlg'' = Inr (Some sig_alg)"
      "single_param (form_parse E octet) ''RelayState'' = Inr relay"
      "query_get request ''RelayState'' = Inr relay"
    by (auto simp: ensure_redirect_octet_matches_consumed_fields_def Let_def rbind_Inr_iff ok_or_Inr_iff
        decoded_octet_params_def split: if_splits)
  with d cert show ?thesis by blast
qed

section \<open>What authentication rests on\<close>

lemma verified_content_targets: "verified_content r xml [] = Inr (Some c) \<Longrightarrow> False"
  by (drule verified_content_Some) (auto simp: target_matches_node_def id_target_matches_node_def)

lemma detailed_loop_first:
  "detailed_loop E xml certs st = Inr st' \<Longrightarrow> ds_first_verified st' \<Longrightarrow> \<not> ds_first_verified st \<Longrightarrow>
     \<exists>cert \<in> set certs. \<exists>key results refs. load_certificate E cert = Inr key
        \<and> dsig_verify_all E (pinned_context key) xml = Inr results \<and> VrValid refs \<in> set results"
proof (induction E xml certs st rule: detailed_loop.induct)
  case (2 E xml cert certs st)
  let ?P = "\<lambda>cs. \<exists>cert \<in> set cs. \<exists>key results refs. load_certificate E cert = Inr key
        \<and> dsig_verify_all E (pinned_context key) xml = Inr results \<and> VrValid refs \<in> set results"
  have cons: "?P certs \<Longrightarrow> ?P (cert # certs)" by auto
  show ?case
  proof (cases "load_certificate E cert")
    case (Inl e)
    show ?thesis by (rule cons, rule 2(1) [OF Inl]) (use Inl 2(4-6) in auto)
  next
    case key: (Inr key)
    show ?thesis
    proof (cases "dsig_verify_all E (pinned_context key) xml")
      case (Inl e)
      show ?thesis by (rule cons, rule 2(2) [OF key Inl]) (use key Inl 2(4-6) in auto)
    next
      case res: (Inr results)
      with key 2(4) obtain st1 where st1: "collect_results results
          (st\<lparr>ds_have_key := True, ds_first_verified := ds_first_verified st \<or> first_valid results\<rparr>) = Inr st1"
        "detailed_loop E xml certs st1 = Inr st'" by (auto simp: rbind_Inr_iff)
      show ?thesis
      proof (cases "first_valid results")
        case True
        then obtain refs rs where "results = VrValid refs # rs" by (cases results rule: first_valid.cases) auto
        with key res show ?thesis by auto
      next
        case False
        with collect_results_Inr [OF st1(1)] 2(6) have "\<not> ds_first_verified st1" by simp
        with 2(3) [OF key res st1(1) st1(2) 2(5)] show ?thesis by (auto intro: cons)
      qed
    qed
  qed
qed simp

text \<open>
  The parameters of a message with a detached signature, from the query or from the body; its octets are those
  of the request, agree with the parameters the flow goes on to use, and a certificate of the list verified the
  signature parameter over them.
\<close>

definition detached_param :: "binding \<Rightarrow> http_request \<Rightarrow> string \<Rightarrow> string option res" where
  "detached_param b request name = (if b = Redirect then query_get request name else body_get request name)"

definition octets_of_message :: "('k, 'e) crypto_ext_scheme \<Rightarrow> binding \<Rightarrow> parser_type \<Rightarrow> http_request \<Rightarrow> string \<Rightarrow> string \<Rightarrow>
    string \<Rightarrow> bool" where
  "octets_of_message E b ptype request xml alg octet \<longleftrightarrow>
     (\<exists>message relay. detached_param b request (query_param ptype) = Inr (Some message)
        \<and> detached_param b request ''RelayState'' = Inr relay
        \<and> (if b = Redirect
           then single_param (form_parse E octet) (query_param ptype) = Inr (Some message)
              \<and> single_param (form_parse E octet) ''RelayState'' = Inr relay
              \<and> single_param (form_parse E octet) ''SigAlg'' = Inr (Some alg)
              \<and> single_param (form_parse E octet) ''Signature'' = Inr None
           else (let signed = (\<lambda>r. query_param ptype @ ''='' @ xml @ r @ ''&SigAlg='' @ alg) in
                 case relay of Some v \<Rightarrow> octet = signed (''&RelayState='' @ v)
                 | None \<Rightarrow> octet \<in> {signed [], signed ''&RelayState=''})))"

definition detached_evidence :: "('k, 'e) crypto_ext_scheme \<Rightarrow> flow_options \<Rightarrow> binding \<Rightarrow> parser_type \<Rightarrow> http_request \<Rightarrow> string \<Rightarrow>
    string \<Rightarrow> bool" where
  "detached_evidence E opts b ptype request xml alg \<longleftrightarrow>
     (\<exists>octet signature cert. hr_octet_string request = Some octet
        \<and> detached_param b request ''Signature'' = Inr (Some signature) \<and> detached_param b request ''SigAlg'' = Inr (Some alg)
        \<and> octets_of_message E b ptype request xml alg octet
        \<and> cert \<in> set (fo_signing_certs opts) \<and> verify_message_signature E octet signature cert alg = Inr True)"

lemma verify_detached_evidence:
  assumes "verify_detached E b ptype request opts xml = Inr alg" "b \<in> {Redirect, SimpleSign}"
  shows "detached_evidence E opts b ptype request xml alg"
proof -
  from assms(1) obtain signature sig_alg octet where d: "detached_param b request ''Signature'' = Inr (Some signature)"
    "detached_param b request ''SigAlg'' = Inr (Some sig_alg)" "hr_octet_string request = Some octet"
    "ensure_detached_octet_matches_consumed_fields E b ptype request xml sig_alg octet = Inr ()"
    "detached_loop E octet signature sig_alg (fo_signing_certs opts) None False = Inr alg"
    by (auto simp: verify_detached_def Let_def rbind_Inr_iff ok_or_Inr_iff detached_param_def)
  from detached_loop_Inr [OF d(5)] obtain cert where cert: "alg = sig_alg" "cert \<in> set (fo_signing_certs opts)"
    "verify_message_signature E octet signature cert sig_alg = Inr True" by blast
  from assms(2) have "octets_of_message E b ptype request xml sig_alg octet"
  proof (cases "b = Redirect")
    case True
    with d(4) show ?thesis
      by (auto simp: ensure_detached_octet_matches_consumed_fields_def ensure_redirect_octet_matches_consumed_fields_def Let_def
          rbind_Inr_iff ok_or_Inr_iff decoded_octet_params_def octets_of_message_def detached_param_def split: if_splits)
  next
    case False
    with assms(2) d(4) show ?thesis
      by (auto simp: ensure_detached_octet_matches_consumed_fields_def ensure_simplesign_octet_matches_consumed_fields_def Let_def
          rbind_Inr_iff ok_or_Inr_iff octets_of_message_def detached_param_def Let_def split: if_splits option.splits)
  qed
  with d cert show ?thesis unfolding detached_evidence_def by blast
qed

text \<open>A certificate of the list verified a signature of the document, as the only trusted key.\<close>

definition document_evidence :: "('k, 'e) crypto_ext_scheme \<Rightarrow> flow_options \<Rightarrow> string \<Rightarrow> bool" where
  "document_evidence E opts doc \<longleftrightarrow>
     (\<exists>cert \<in> set (fo_signing_certs opts). \<exists>key results refs. load_certificate E cert = Inr key
        \<and> dsig_verify_all E (pinned_context key) doc = Inr results \<and> VrValid refs \<in> set results)"

text \<open>The document, or what the decryption of the document yields: as a whole, or its assertion where that is to be signed.\<close>

definition verified_document :: "('k, 'e) flow_ext_scheme \<Rightarrow> flow_options \<Rightarrow> parser_type \<Rightarrow> assertion_signature_requirement \<Rightarrow>
    string \<Rightarrow> string \<Rightarrow> bool" where
  "verified_document E opts ptype asr xml doc \<longleftrightarrow>
     doc = xml
     \<or> fo_decrypt_key opts \<noteq> None
       \<and> (\<exists>content assertion. decrypt_and_check E opts ptype xml = Inr (content, assertion)
            \<and> doc = (if asr = Direct then assertion else content))"

definition message_evidence :: "('k, 'e) flow_ext_scheme \<Rightarrow> flow_options \<Rightarrow> assertion_signature_requirement \<Rightarrow> binding \<Rightarrow>
    parser_type \<Rightarrow> http_request \<Rightarrow> string \<Rightarrow> string option \<Rightarrow> bool" where
  "message_evidence E opts asr b ptype request xml alg \<longleftrightarrow>
     (if b \<in> {Redirect, SimpleSign} then \<exists>a. alg = Some a \<and> detached_evidence E opts b ptype request xml a
      else \<exists>doc. verified_document E opts ptype asr xml doc \<and> document_evidence E opts doc)"

lemma detailed_verified_evidence:
  assumes "verify_embedded_signature E xml opts = Inr v" "sv_verified v"
  shows "document_evidence E opts xml"
proof -
  obtain r sg where v: "(if \<not> sg then Inr sv_unverified
       else rbind (detailed_loop E xml (fo_signing_certs opts) detailed_initial) (detailed_verdict r xml)) = Inr v"
    using assms(1) by (auto simp: verify_embedded_signature_def verify_signatures_detailed_with_limits_def rbind_Inr_iff split: prod.splits)
  from v assms(2) obtain st where st: "detailed_loop E xml (fo_signing_certs opts) detailed_initial = Inr st"
    "detailed_verdict r xml st = Inr v"
    by (auto simp: rbind_Inr_iff sv_unverified_def split: if_splits)
  from st(2) assms(2) have "ds_first_verified st"
    by (auto simp: detailed_verdict_def sv_unverified_def split: if_splits option.splits)
  with detailed_loop_first [OF st(1)] show ?thesis
    by (force simp: detailed_initial_def document_evidence_def)
qed

lemma verify_and_prepare_evidence:
  assumes "verify_and_prepare E xml ptype opts asr rsr = Inr pm"
  shows "\<exists>doc. verified_document E opts ptype asr xml doc \<and> document_evidence E opts doc"
proof -
  from assms obtain ev where ev: "verify_embedded_signature E xml opts = Inr ev"
    by (auto simp: verify_and_prepare_def rbind_Inr_iff)
  show ?thesis
  proof (cases "sv_verified ev")
    case True
    with detailed_verified_evidence [OF ev] show ?thesis by (auto simp: verified_document_def)
  next
    case False
    with assms ev have d: "fo_decrypt_key opts \<noteq> None" "prepare_encrypted_signed E opts ptype asr xml = Inr pm"
      by (auto simp: verify_and_prepare_def rbind_Inr_iff Let_def split: if_splits)
    from d(2) obtain content assertion ev' where "decrypt_and_check E opts ptype xml = Inr (content, assertion)"
      "verify_embedded_signature E (if asr = Direct then assertion else content) opts = Inr ev'" "sv_verified ev'"
      by (cases "asr = Direct") (auto simp: prepare_encrypted_signed_def rbind_Inr_iff Let_def split: if_splits)
    with d(1) detailed_verified_evidence show ?thesis unfolding verified_document_def by blast
  qed
qed

lemma authenticated_evidence:
  assumes "authenticate_message E b ptype request opts xml asr rsr = Inr (prepared, alg, auth)" "fo_check_signature opts"
  shows "message_evidence E opts asr b ptype request xml alg"
proof (cases "b \<in> {Redirect, SimpleSign}")
  case True
  with assms obtain a where a: "verify_detached E b ptype request opts xml = Inr a" "alg = Some a"
    by (auto simp: authenticate_message_def rbind_Inr_iff)
  show ?thesis using True verify_detached_evidence [OF a(1) True] a(2) by (simp add: message_evidence_def)
next
  case False
  with assms have "verify_and_prepare E xml ptype opts asr rsr = Inr prepared"
    by (auto simp: authenticate_message_def rbind_Inr_iff)
  with False verify_and_prepare_evidence show ?thesis by (auto simp: message_evidence_def)
qed

text \<open>
  C19: with signature checking on, an accepted message, of any kind and over any binding, is one that a certificate
  of the configured list verified. Over HTTP-Redirect and SimpleSign its own Signature parameter verifies over
  its own octets, which carry the message, RelayState and algorithm of its parameters. Over HTTP-POST the only
  trusted key of a certificate verifies a signature in the document decoded from the message, or in what the
  decryption of that document yields. So a message without a signature, with one that fails under every
  certificate, or from a peer without certificates is rejected.
\<close>

theorem flow_requires_pinned_signature:
  assumes "flow_inner E clk opts request rcpt asr rsr = Inr fr" "fo_check_signature opts"
  shows "\<exists>b ptype xml. fo_binding opts = Some b \<and> fo_parser_type opts = Some ptype
     \<and> decode_message E b ptype request (fo_redirect_inflate_max_bytes opts) (fo_xml_limits opts) = Inr xml
     \<and> message_evidence E opts asr b ptype request xml (fr_sig_alg fr)"
proof -
  from assms(1) obtain b ptype xml prepared auth where "fo_binding opts = Some b" "fo_parser_type opts = Some ptype"
    "decode_message E b ptype request (fo_redirect_inflate_max_bytes opts) (fo_xml_limits opts) = Inr xml"
    "authenticate_message E b ptype request opts xml asr rsr = Inr (prepared, fr_sig_alg fr, auth)"
    unfolding flow_inner_Inr by auto
  with authenticated_evidence [OF _ assms(2)] show ?thesis by blast
qed


section \<open>What the flow returns\<close>

text \<open>A part of a document that a pinned signature covers: its root or its only Assertion.\<close>

definition covered_part :: "('k, 'e) crypto_ext_scheme \<Rightarrow> flow_options \<Rightarrow> string \<Rightarrow> string \<Rightarrow> bool" where
  "covered_part E opts xml content \<longleftrightarrow>
     (\<exists>r n t. parse_with_limits E xml (fo_xml_limits opts) = Inr r
        \<and> content = node_source xml n \<and> (n = r \<or> children_named r ''Assertion'' = [n])
        \<and> distinct (saml_ids r) \<and> pinned_target E xml (fo_signing_certs opts) t
        \<and> (target_matches_node [t] r \<or> id_target_matches_node [t] n))"

lemma target_matches_single:
  "target_matches_node ts n \<Longrightarrow> \<exists>t \<in> set ts. target_matches_node [t] n"
  "id_target_matches_node ts n \<Longrightarrow> \<exists>t \<in> set ts. id_target_matches_node [t] n"
  by (auto simp: target_matches_node_def id_target_matches_node_def list_ex_iff)

lemma verified_covered_part:
  assumes "verify_embedded_signature E xml opts = Inr v" "sv_verified v" "sv_signed_content v = Some content"
  shows "covered_part E opts xml content"
proof -
  from detailed_Inr [OF assms(1) [unfolded verify_embedded_signature_def] assms(2)] assms(3) obtain r ts where
    d: "parse_with_limits E xml (fo_xml_limits opts) = Inr r" "distinct (saml_ids r)"
      "\<forall>t \<in> set ts. pinned_target E xml (fo_signing_certs opts) t" "verified_content r xml ts = Inr (Some content)"
    by auto
  from verified_content_Some [OF d(4)] obtain n where n: "content = node_source xml n"
    "n = r \<or> children_named r ''Assertion'' = [n]" "target_matches_node ts r \<or> id_target_matches_node ts n" by blast
  from n(3) target_matches_single obtain t where "t \<in> set ts" "target_matches_node [t] r \<or> id_target_matches_node [t] n"
    by blast
  with d n show ?thesis unfolding covered_part_def by blast
qed

text \<open>
  C20: over the POST binding with signature checking and no decryption, the flow works only on signed
  text: for requests and logout messages the content the fields are extracted from, and for an SSO
  response the assertion they are extracted from, is the root or the only Assertion of the decoded
  document that a pinned signature covers.
\<close>

theorem flow_post_uses_covered_text:
  assumes "flow_inner E clk opts request rcpt asr rsr = Inr fr" "fo_check_signature opts"
    "fo_binding opts = Some Post" "fo_decrypt_key opts = None" "fo_parser_type opts = Some ptype"
  shows "\<exists>xml covered. decode_message E Post ptype request (fo_redirect_inflate_max_bytes opts) (fo_xml_limits opts) = Inr xml
     \<and> covered_part E opts xml covered
     \<and> (if ptype = SamlResponse
        then extract_with_limits E xml (login_response_fields covered) (fo_xml_limits opts) = Inr (fr_extract fr)
        else fr_saml_content fr = covered)"
proof -
  from assms(1,3,5) obtain xml prepared alg auth flds where
    f: "decode_message E Post ptype request (fo_redirect_inflate_max_bytes opts) (fo_xml_limits opts) = Inr xml"
      "authenticate_message E Post ptype request opts xml asr rsr = Inr (prepared, alg, auth)"
      "default_fields ptype (pm_assertion prepared) = Inr flds"
      "extract_with_limits E (pm_saml_content prepared) flds (fo_xml_limits opts) = Inr (fr_extract fr)"
      "fr_saml_content fr = pm_saml_content prepared"
    unfolding flow_inner_Inr by auto
  from f(2) assms(2) have "verify_and_prepare E xml ptype opts asr rsr = Inr prepared"
    by (auto simp: authenticate_message_def rbind_Inr_iff)
  then obtain ev where ev: "verify_embedded_signature E xml opts = Inr ev" "sv_verified ev"
    "prepare_plain asr ptype xml ev = Inr prepared"
    using assms(4) by (auto simp: verify_and_prepare_def rbind_Inr_iff Let_def split: if_splits)
  show ?thesis
  proof (cases "ptype = SamlResponse")
    case True
    with ev(3) have p: "prepared = \<lparr>pm_saml_content = xml, pm_assertion = sv_signed_content ev,
           pm_response_authenticated = sv_response_covered ev\<rparr>"
      by (auto simp: prepare_plain_def rbind_Inr_iff)
    with f(3) True obtain a where a: "sv_signed_content ev = Some a" "flds = login_response_fields a"
      by (auto simp: default_fields_def rbind_Inr_iff ok_or_Inr_iff)
    from verified_covered_part [OF ev(1,2) a(1)] f(1,4) p a(2) True show ?thesis by auto
  next
    case False
    with ev(3) obtain c where c: "sv_signed_content ev = Some c" "pm_saml_content prepared = c"
      by (auto simp: prepare_plain_def rbind_Inr_iff ok_or_Inr_iff)
    from verified_covered_part [OF ev(1,2) c(1)] f(1,5) c(2) False show ?thesis by auto
  qed
qed

text \<open>
  C29: no decryption oracle for CBC: when the policy asks for outer integrity of CBC-encrypted
  assertions and the Response of a message that contains one is not covered by a verified
  signature, the result is the same error whatever the decryption key and the plaintext.
\<close>

theorem cbc_needs_response_signature:
  assumes "response_uses_cbc_encrypted_assertion E xml (fo_xml_limits opts) = Inr True"
    "has_xml_signature_with_limits E xml (fo_xml_limits opts) = Inr present"
    "verify_embedded_signature E xml opts = Inr ev" "\<not> (sv_verified ev \<and> sv_response_covered ev)"
  shows "verify_and_prepare E xml ptype opts asr RequiredForEncryptedCbc =
    Inl (if sv_verified ev then SignedReferenceMismatch else required_xml_signature_failed present)"
  using assms
  by (auto simp: verify_and_prepare_def response_signature_is_required_def require_response_coverage_def)

text \<open>
  an accepted LogoutRequest that carries a NotOnOrAfter has not expired at the validation instant,
  with the configured skew.
\<close>

theorem flow_logout_not_expired:
  assumes "flow_inner E clk opts request rcpt asr rsr = Inr fr" "fo_parser_type opts = Some LogoutRequest"
    "time_laws E" "fo_now opts = Some t" "offset_datetime_from_system_time E t = Inr now"
    "get_str (fr_extract fr) ''request.notOnOrAfter'' = Some limit"
  shows "\<exists>normalized d. parse_saml_utc_date_time limit = Some normalized \<and> rfc3339_parse E normalized = Some d
     \<and> odt_ns now < odt_ns d + snd (fo_clock_drifts opts) * 1000000"
proof -
  from assms(1,2) obtain assertion auth where
    "validate_context E clk LogoutRequest assertion (fr_extract fr) opts rcpt auth = Inr ()"
    unfolding flow_inner_Inr by auto
  then obtain x where "logout_request_not_on_or_after_deadline E (fr_extract fr) now (snd (fo_clock_drifts opts)) = Inr x"
    using assms(4,5) by (auto simp: validate_context_def validation_now_def rbind_Inr_iff)
  then obtain normalized d e where "parse_saml_utc_date_time limit = Some normalized" "rfc3339_parse E normalized = Some d"
    "odt_checked_add E d (duration_ms (snd (fo_clock_drifts opts))) = Some e" "now < e"
    using assms(6) by (auto simp: logout_request_not_on_or_after_deadline_def rbind_Inr_iff ok_or_Inr_iff not_le
        split: if_splits)
  with time_laws_add [OF assms(3)] show ?thesis by (auto simp: less_odt_def duration_ms_def)
qed

section \<open>Sample messages\<close>

text \<open>A signed LogoutRequest and an SSO response, each a short stand-in text with the steps of its reader.\<close>

definition lr_text :: string where "lr_text = ''<r><s/></r>''"

definition lr_steps :: "xml_step list" where
  "lr_steps =
     [XEvent 0 3 (EvStart ''LogoutRequest'' [AttrItem ''ID'' (Inr ''_1'') False,
        AttrItem ''NotOnOrAfter'' (Inr ''2024-01-01T00:00:00Z'') False]),
      XEvent 3 7 (EvEmpty ''Signature'' []), XEvent 7 11 EvEnd]"

definition lr_ns :: "ns_step list" where
  "lr_ns =
     [NsEvent (Bound NS_PROTOCOL) (NsStart ''LogoutRequest''
        [NsAttr ''ID'' False Unbound ''ID'' (Inr ''_1''), NsAttr ''Version'' False Unbound ''Version'' (Inr ''2.0''),
         NsAttr ''IssueInstant'' False Unbound ''IssueInstant'' (Inr ''2024-01-01T00:00:00Z'')]),
      NsEvent (Bound NS_DSIG) (NsEmpty ''Signature'' []), NsEvent (Bound NS_PROTOCOL) NsEnd]"

definition sso_text :: string where "sso_text = ''<R><S/><A><C/></A></R>''"

definition conf_events :: "nat \<Rightarrow> xml_step list" where
  "conf_events i =
     [XEvent i (i + 2) (EvStart ''SubjectConfirmation''
        [AttrItem ''Method'' (Inr BEARER_SUBJECT_CONFIRMATION_METHOD) False]),
      XEvent (i + 2) (i + 3) (EvEmpty ''SubjectConfirmationData''
        [AttrItem ''NotOnOrAfter'' (Inr ''2024-01-01T00:00:00Z'') False, AttrItem ''Recipient'' (Inr ''acs'') False,
         AttrItem ''InResponseTo'' (Inr ''_r'') False]),
      XEvent (i + 3) (i + 4) EvEnd]"

definition assertion_events :: "nat \<Rightarrow> xml_step list" where
  "assertion_events i =
     [XEvent i (i + 3) (EvStart ''Assertion''
        [AttrItem ''ID'' (Inr ''_a'') False, AttrItem ''IssueInstant'' (Inr ''2024-01-01T00:00:00Z'') False]),
      XEvent (i + 3) (i + 3) (EvStart ''Issuer'' []), XEvent (i + 3) (i + 3) (EvText (Inr ''idp'')),
      XEvent (i + 3) (i + 3) EvEnd, XEvent (i + 3) (i + 3) (EvStart ''Subject'' []),
      XEvent (i + 3) (i + 3) (EvStart ''NameID'' []), XEvent (i + 3) (i + 3) (EvText (Inr ''user'')),
      XEvent (i + 3) (i + 3) EvEnd] @ conf_events (i + 3)
     @ [XEvent (i + 7) (i + 7) EvEnd, XEvent (i + 7) (i + 11) EvEnd]"

definition sso_steps :: "xml_step list" where
  "sso_steps =
     [XEvent 0 3 (EvStart ''Response''
        [AttrItem ''ID'' (Inr ''_2'') False, AttrItem ''IssueInstant'' (Inr ''2024-01-01T00:00:00Z'') False,
         AttrItem ''InResponseTo'' (Inr ''_r'') False,
         AttrItem ''Destination'' (Inr ''acs'') False]),
      XEvent 3 3 (EvStart ''Status'' []),
      XEvent 3 7 (EvEmpty ''StatusCode'' [AttrItem ''Value'' (Inr STATUS_SUCCESS) False]), XEvent 7 7 EvEnd]
     @ assertion_events 7 @ [XEvent 18 22 EvEnd]"

definition sso_ns :: "ns_step list" where
  "sso_ns =
     [NsEvent (Bound NS_PROTOCOL) (NsStart ''Response''
        [NsAttr ''ID'' False Unbound ''ID'' (Inr ''_2''), NsAttr ''Version'' False Unbound ''Version'' (Inr ''2.0''),
         NsAttr ''IssueInstant'' False Unbound ''IssueInstant'' (Inr ''2024-01-01T00:00:00Z'')]),
      NsEvent (Bound NS_PROTOCOL) NsEnd]"

definition sample_flow_ext :: "unit flow_ext" where
  "sample_flow_ext = crypto_ext.extend (sample_crypto
     \<lparr>xml_read := (\<lambda>s. if s = lr_text then lr_steps else if s = sso_text then sso_steps
        else if s = ''<C/>'' then conf_events 0 else assertion_events 0),
      ns_read := (\<lambda>_ s. if s = lr_text then lr_ns else sso_ns),
      ns_read_default := (\<lambda>s. if s = lr_text then lr_ns else sso_ns),
      b64_decode := (\<lambda>s. Inr (if s = ''QUI='' then lr_text else sso_text)),
      dsig_verify_all := (\<lambda>_ _. Inr [VrValid [sample_reference\<lparr>vr_uri := ''#_1''\<rparr>]])\<rparr>)
     \<lparr>schema_validator = None\<rparr>"

definition lr_options :: flow_options where
  "lr_options = flow_options_default
     \<lparr>fo_binding := Some Post, fo_parser_type := Some LogoutRequest, fo_check_signature := True,
      fo_signing_certs := [sample_cert], fo_now := Some (SysTime 0)\<rparr>"

definition sso_options :: flow_options where
  "sso_options = flow_options_default
     \<lparr>fo_binding := Some Post, fo_parser_type := Some SamlResponse, fo_now := Some (SysTime 0),
      fo_expected_in_response_to := Some ''_r''\<rparr>"

definition lr_request :: http_request where
  "lr_request = http_request_post [(''SAMLRequest'', ''QUI='')]"

definition sso_request :: http_request where
  "sso_request = http_request_post [(''SAMLResponse'', ''QUJD'')]"


lemma flow_sample_simps [simp]:
  "xml_read sample_flow_ext s = (if s = lr_text then lr_steps else if s = sso_text then sso_steps
        else if s = ''<C/>'' then conf_events 0 else assertion_events 0)"
  "ns_read sample_flow_ext n s = (if s = lr_text then lr_ns else sso_ns)"
  "ns_read_default sample_flow_ext s = (if s = lr_text then lr_ns else sso_ns)"
  "b64_decode sample_flow_ext s = Inr (if s = ''QUI='' then lr_text else sso_text)"
  "dsig_verify_all sample_flow_ext c s = Inr [VrValid [sample_reference\<lparr>vr_uri := ''#_1''\<rparr>]]"
  "schema_validator sample_flow_ext = None"
  "initialize_backend sample_flow_ext = Inr \<lparr>bs_document = BackendAwsLc, bs_fips = FipsDisabled\<rparr>"
  "load_x509_cert_pem sample_flow_ext p = (if p = sample_cert then Inr () else Inl ''not a certificate'')"
  "ns_normalize sample_flow_ext = Inr"
  "odt_checked_add sample_flow_ext x d = Some (Odt (odt_ns x + d))"
  "duration_try_from sample_flow_ext k = Some (int k)"
  "rfc3339_parse sample_flow_ext u = rfc3339_parse sample_time u"
  by (simp_all add: sample_flow_ext_def crypto_ext.defs sample_crypto_def wire_ext.defs sample_wire_def ns_ext.defs
      sample_ns_def net_ext.defs sample_net_def xml_ext.defs sample_xml_def time_ext.defs sample_time_def)

lemmas parse_eval = parse_with_limits_Inr parse_roots_inner_Inr

lemmas dom_eval = open_node_def checked_node_count_def usize_checked_add_def usize_max_def
  check_depth_def usize_sat_add_def read_attrs_def push_child_def add_child_def set_end_def xml_limits_default_def
  find_lt_def Dom.slice_def append_top_def set_text_def checked_append_text_def

definition conf_node :: "nat \<Rightarrow> node" where
  "conf_node i = Node ''SubjectConfirmation'' [(''Method'', BEARER_SUBJECT_CONFIRMATION_METHOD)]
     [Node ''SubjectConfirmationData'' [(''NotOnOrAfter'', ''2024-01-01T00:00:00Z''), (''Recipient'', ''acs''),
        (''InResponseTo'', ''_r'')] [] [] (i + 2) (i + 3)] [] i (i + 4)"

definition assertion_node :: "nat \<Rightarrow> node" where
  "assertion_node i = Node ''Assertion'' [(''ID'', ''_a''), (''IssueInstant'', ''2024-01-01T00:00:00Z'')]
     [Node ''Issuer'' [] [] ''idp'' (i + 3) (i + 3),
      Node ''Subject'' [] [Node ''NameID'' [] [] ''user'' (i + 3) (i + 3), conf_node (i + 3)] [] (i + 3) (i + 7)] [] i (i + 11)"

lemma lr_parse: "parse_with_limits sample_flow_ext lr_text xml_limits_default =
    Inr (Node ''LogoutRequest'' [(''ID'', ''_1''), (''NotOnOrAfter'', ''2024-01-01T00:00:00Z'')]
      [Node ''Signature'' [] [] [] 3 7] [] 0 11)"
  unfolding parse_eval by (simp add: lr_steps_def dom_eval) (simp add: lr_text_def)

text \<open>A reader that knows the sample response and its pieces.\<close>

definition reads_sample :: "('k, 'e) flow_ext_scheme \<Rightarrow> bool" where
  "reads_sample E \<longleftrightarrow>
     xml_read E sso_text = sso_steps \<and> xml_read E ''<C/>'' = conf_events 0 \<and> xml_read E ''<A><C/></A>'' = assertion_events 0
     \<and> (\<forall>n. ns_read E n sso_text = sso_ns) \<and> b64_decode E ''QUJD'' = Inr sso_text \<and> schema_validator E = None
     \<and> rfc3339_parse E = rfc3339_parse sample_time
     \<and> odt_checked_add E = (\<lambda>x d. Some (Odt (odt_ns x + d))) \<and> duration_try_from E = (\<lambda>k. Some (int k))"

lemma reads_sampleD:
  assumes "reads_sample E"
  shows "xml_read E sso_text = sso_steps" "xml_read E ''<C/>'' = conf_events 0" "xml_read E ''<A><C/></A>'' = assertion_events 0"
    "ns_read E n sso_text = sso_ns" "b64_decode E ''QUJD'' = Inr sso_text" "schema_validator E = None"
    "rfc3339_parse E = rfc3339_parse sample_time" "odt_checked_add E x d = Some (Odt (odt_ns x + d))"
    "duration_try_from E k = Some (int k)"
  using assms by (simp_all add: reads_sample_def)

lemma sample_flow_reads: "reads_sample sample_flow_ext"
proof -
  have "rfc3339_parse sample_flow_ext = rfc3339_parse sample_time"
    "odt_checked_add sample_flow_ext = (\<lambda>x d. Some (Odt (odt_ns x + d)))"
    "duration_try_from sample_flow_ext = (\<lambda>k. Some (int k))"
    by (intro ext; simp)+
  then show ?thesis by (simp add: reads_sample_def sso_text_def lr_text_def)
qed

lemma conf_parse: "reads_sample E \<Longrightarrow> parse_with_limits E ''<C/>'' xml_limits_default = Inr (conf_node 0)"
  unfolding parse_eval by (simp add: reads_sampleD conf_events_def dom_eval conf_node_def)

lemma assertion_parse: "reads_sample E \<Longrightarrow> parse_with_limits E ''<A><C/></A>'' xml_limits_default = Inr (assertion_node 0)"
  unfolding parse_eval
  by (simp add: reads_sampleD assertion_events_def conf_events_def dom_eval conf_node_def assertion_node_def)

lemma sso_parse: "reads_sample E \<Longrightarrow> parse_with_limits E sso_text xml_limits_default =
    Inr (Node ''Response'' [(''ID'', ''_2''), (''IssueInstant'', ''2024-01-01T00:00:00Z''), (''InResponseTo'', ''_r''),
        (''Destination'', ''acs'')]
      [Node ''Status'' [] [Node ''StatusCode'' [(''Value'', STATUS_SUCCESS)] [] [] 3 7] [] 3 7, assertion_node 7] [] 0 22)"
  unfolding parse_eval
  by (simp add: reads_sampleD sso_steps_def assertion_events_def conf_events_def dom_eval conf_node_def assertion_node_def)
    (simp add: sso_text_def)

lemma sample_base64:
  "base64_decode_with_limit sample_flow_ext ''QUI='' (max_bytes xml_limits_default) = Inr lr_text"
  "reads_sample E \<Longrightarrow> base64_decode_with_limit E ''QUJD'' (max_bytes xml_limits_default) = Inr sso_text"
  by (simp_all add: reads_sampleD base64_decode_with_limit_def base64_decode_def Let_def strip_ws.simps ws_len.simps is_ascii_ws_def
      xml_limits_default_def usize_max_def usize_checked_add_def usize_sat_mul_def usize_sat_add_def lr_text_def sso_text_def)

lemma sample_utf8: "string_from_utf8 lr_text = Inr lr_text" "string_from_utf8 sso_text = Inr sso_text"
  by (simp_all add: string_from_utf8_def utf8_error.simps byte_in_def lr_text_def sso_text_def)

lemma lr_decode: "decode_message sample_flow_ext Post LogoutRequest lr_request MAX_DEFLATE_RAW_DECODE_BYTES xml_limits_default = Inr lr_text"
  by (simp add: decode_message_def lr_request_def http_request_post_def body_get_def single_param_def unique_value_def
      sample_base64 sample_utf8) (simp add: check_input_bytes_def xml_limits_default_def lr_text_def)

lemma sso_decode: "reads_sample E \<Longrightarrow> decode_message E Post SamlResponse sso_request MAX_DEFLATE_RAW_DECODE_BYTES xml_limits_default = Inr sso_text"
  by (simp add: decode_message_def sso_request_def http_request_post_def body_get_def single_param_def unique_value_def
      sample_base64 sample_utf8) (simp add: check_input_bytes_def xml_limits_default_def sso_text_def)

lemma date_ok: "parse_saml_utc_date_time ''2024-01-01T00:00:00Z'' \<noteq> None"
  using sample_date by simp

lemma sample_bytes: "check_input_bytes xml_limits_default (length lr_text) = Inr ()"
  "check_input_bytes xml_limits_default (length sso_text) = Inr ()"
  by (simp_all add: check_input_bytes_def xml_limits_default_def lr_text_def sso_text_def)

lemma lr_profile: "validate_protocol_profile sample_flow_ext lr_text LogoutRequest xml_limits_default = Inr ()"
  using date_ok
  by (simp add: validate_protocol_profile_def sample_bytes lr_ns_def enter_element_def note_use_condition_def
      note_conditions_def validate_element_def validate_root_def validate_unqualified_attributes_def
      profile_validate_attributes_def require_version_2_def require_issue_instant_def
      require_optional_saml_utc_date_time_def expected_child_namespace_def protocol_child_namespace_def name_is_def
      new_name_def validate_element_attributes_def consumed_attributes_def split: option.splits)

lemma sso_profile: "validate_protocol_profile E sso_text SamlResponse xml_limits_default = Inr ()" if "reads_sample E"
proof -
  show ?thesis
    using date_ok
    by (simp add: reads_sampleD [OF that] validate_protocol_profile_def sample_bytes sso_ns_def enter_element_def note_use_condition_def
      note_conditions_def validate_element_def validate_root_def validate_unqualified_attributes_def
      profile_validate_attributes_def require_version_2_def require_issue_instant_def
      new_name_def split: option.splits)
qed

lemma sso_status: "reads_sample E \<Longrightarrow> check_status_with_limits E sso_text SamlResponse xml_limits_default = Inr ()"
  unfolding check_status_eq
  by (simp add: sso_parse status_code_of_def status_path_def seg_matches_def strip_prefix_def select_step_def assertion_node_def
      node_attr_def)

lemma lr_slice: "node_source lr_text (Node a b c d 0 11) = lr_text"
  by (simp add: node_source_def Dom.slice_def lr_text_def)

lemma sso_slice: "Dom.slice sso_text 7 18 = ''<A><C/></A>''" "Dom.slice ''<A><C/></A>'' 3 7 = ''<C/>''"
  by (simp_all add: Dom.slice_def sso_text_def)

lemma sample_flow_load: "load_certificate sample_flow_ext sample_cert = Inr ()"
  by (simp add: load_certificate_def ensure_crypto_provider_initialized_def initialize_crypto_provider_def
      to_cert_pem_def str_contains_def sample_cert_def)

definition lr_evidence :: signature_verification where
  "lr_evidence = \<lparr>sv_verified = True, sv_signed_content = Some lr_text, sv_assertion_directly_covered = False,
     sv_response_covered = False\<rparr>"

lemma lr_preflight: "preflight_backend_signatures sample_flow_ext lr_text = Inr ()"
  by (simp add: preflight_backend_signatures_def lr_ns_def signature_namespace_def preflight_open_def
      preflight_signature_element_def signature_position_def protocol_messages_def)

lemma lr_preamble:
  "verification_preamble sample_flow_ext lr_text [sample_cert] xml_limits_default =
     Inr (Node ''LogoutRequest'' [(''ID'', ''_1''), (''NotOnOrAfter'', ''2024-01-01T00:00:00Z'')]
      [Node ''Signature'' [] [] [] 3 7] [] 0 11, True)"
  by (simp add: verification_preamble_def lr_parse lr_preflight duplicate_saml_id_eq)
    (simp add: wrapping_detected_def saml_ids_def id_values_def saml_id_attr_def
      saml_signature_candidates_def children_named_def preflight_saml_reference_uris_def signature_references_def
      ensure_signature_transforms_preserve_content_def inline_certificate_allowed_def inline_signature_cert_def
      ensure_crypto_provider_initialized_def initialize_crypto_provider_def)

lemma lr_verified:
  "verify_embedded_signature sample_flow_ext lr_text lr_options = Inr lr_evidence"
proof -
  have t: "verified_targets [sample_reference\<lparr>vr_uri := ''#_1''\<rparr>] = Inr [TargetId ''_1'']"
    by (simp add: verified_targets_def verified_target_of_def sample_reference_def is_external_reference_def
        verified_target_from_uri_def strip_prefix_def)
  show ?thesis
    unfolding verify_embedded_signature_def verify_signatures_detailed_with_limits_def
    by (simp add: lr_options_def flow_options_default_def lr_preamble sample_flow_load t detailed_initial_def
        detailed_verdict_def verified_content_def verified_root_content_def target_matches_node_def node_saml_id_def
        node_attr_def lr_slice str_contains_def assertion_is_directly_covered_def lr_evidence_def sublist_Cons_right)
qed

lemma lr_prepared:
  "authenticate_message sample_flow_ext Post LogoutRequest lr_request lr_options lr_text Compatible SigOptional =
     Inr (\<lparr>pm_saml_content = lr_text, pm_assertion = None, pm_response_authenticated = False\<rparr>, None, False)"
proof -
  have "has_xml_signature_with_limits sample_flow_ext lr_text xml_limits_default = Inr True"
    by (simp add: has_xml_signature_with_limits_def lr_parse lr_preflight has_saml_xml_signature_def
        saml_signature_candidates_def children_named_def)
  moreover have "fo_xml_limits lr_options = xml_limits_default" "fo_check_signature lr_options" "fo_decrypt_key lr_options = None"
    by (simp_all add: lr_options_def flow_options_default_def)
  ultimately show ?thesis
    by (simp add: authenticate_message_def verify_and_prepare_def lr_verified response_signature_is_required_def
        lr_evidence_def prepare_plain_def require_direct_assertion_coverage_def)
qed

lemma lr_flow: "\<exists>fr. flow_inner sample_flow_ext (\<lambda>_. Odt 0) lr_options lr_request None Compatible SigOptional = Inr fr
     \<and> get_str (fr_extract fr) ''request.notOnOrAfter'' = Some ''2024-01-01T00:00:00Z''"
proof -
  have cc: "camel_case ''ID'' = ''id''" "camel_case ''IssueInstant'' = ''issueInstant''"
    "camel_case ''Destination'' = ''destination''" "camel_case ''NotOnOrAfter'' = ''notOnOrAfter''"
    by code_simp+
  have ext: "\<exists>v. extract_with_limits sample_flow_ext lr_text logout_request_fields xml_limits_default = Inr v
      \<and> get_str v ''request.notOnOrAfter'' = Some ''2024-01-01T00:00:00Z''"
    by (simp add: extract_with_limits_def lr_parse logout_request_fields_def field_simps extract_field_def
        seg_matches_def strip_prefix_def select_step_def attr_object_def node_attr_def cc get_str_def get_path_def one_or_array_def)
  then obtain v where v: "extract_with_limits sample_flow_ext lr_text logout_request_fields xml_limits_default = Inr v"
    "get_str v ''request.notOnOrAfter'' = Some ''2024-01-01T00:00:00Z''" by blast
  have p: "parse_saml_utc_date_time ''2024-01-01T00:00:00Z'' = Some ''2024-01-01T00:00:00Z''"
    by code_simp
  have "validate_context sample_flow_ext (\<lambda>_. Odt 0) LogoutRequest None v lr_options None False = Inr ()"
    by (simp add: validate_context_def lr_options_def flow_options_default_def validation_now_def
        offset_datetime_from_system_time_def since_unix_epoch_def unix_epoch_def ok_or_def
        logout_request_not_on_or_after_deadline_def v(2) p sample_time_def duration_ms_def less_eq_odt_def)
  with v lr_decode lr_profile lr_prepared show ?thesis
    by (simp add: flow_inner_def is_valid_xml_with_limits_def lr_parse check_status_eq default_fields_def
        lr_options_def flow_options_default_def check_status_with_limits_def)
qed

lemma sso_camel:
  "camel_case ''ID'' = ''id''" "camel_case ''IssueInstant'' = ''issueInstant''"
  "camel_case ''Destination'' = ''destination''" "camel_case ''NotOnOrAfter'' = ''notOnOrAfter''"
  "camel_case ''NotBefore'' = ''notBefore''" "camel_case ''InResponseTo'' = ''inResponseTo''"
  "camel_case ''AuthnInstant'' = ''authnInstant''" "camel_case ''SessionNotOnOrAfter'' = ''sessionNotOnOrAfter''"
  "camel_case ''SessionIndex'' = ''sessionIndex''" "camel_case ''Recipient'' = ''recipient''"
  by code_simp+

definition sso_extract :: saml_value where
  "sso_extract = VObject
     [(''assertion'', VObject [(''id'', VStr ''_a''), (''issueInstant'', VStr ''2024-01-01T00:00:00Z'')]), (''conditions'', VArray []), (''oneTimeUse'', VNull),
      (''proxyRestriction'', VNull),
      (''response'', VObject [(''id'', VStr ''_2''), (''issueInstant'', VStr ''2024-01-01T00:00:00Z''), (''destination'', VStr ''acs''), (''inResponseTo'', VStr ''_r'')]),
      (''audience'', VNull), (''issuer'', VStr ''idp''), (''nameID'', VStr ''user''), (''nameIDFormat'', VNull),
      (''subjectConfirmation'', VStr ''<C/>''), (''sessionIndex'', VArray []), (''attributes'', VObject [])]"

lemmas extract_eval = extract_with_limits_def field_simps extract_field_def seg_matches_def strip_prefix_def
  select_step_def attr_object_def node_attr_def one_or_array_def sso_camel

lemma sso_extracted:
  "reads_sample E \<Longrightarrow> extract_with_limits E sso_text (login_response_fields ''<A><C/></A>'') xml_limits_default = Inr sso_extract"
  by (simp add: extract_eval sso_parse assertion_parse login_response_fields_def assertion_node_def conf_node_def
      sso_slice sso_extract_def aggregate_def zip_object_def)

definition sample_confirming :: "flow_options \<Rightarrow> bool" where
  "sample_confirming opts \<longleftrightarrow> fo_xml_limits opts = xml_limits_default \<and> fo_expected_in_response_to opts = Some ''_r''
     \<and> fo_clock_drifts opts = (0, 0) \<and> fo_now opts = Some (SysTime 0)"

lemma sso_confirmed:
  assumes "reads_sample E" "sample_confirming opts"
  shows "check_bearer_subject_confirmation E (Odt 0) ''<C/>'' opts (Some ''acs'') = Inr ScValid"
  using assms(2)
  by (simp add: sample_confirming_def check_bearer_subject_confirmation_def subject_confirmation_fields_def extract_eval
      conf_parse [OF assms(1)] conf_node_def reads_sampleD [OF assms(1)] get_str_def get_path_def validation_now_def
      offset_datetime_from_system_time_def since_unix_epoch_def unix_epoch_def verify_time_at_def sample_time_def
      duration_ms_def less_odt_def)

lemma sso_shortcut: "reads_sample E \<Longrightarrow> assertion_shortcut E sso_text xml_limits_default = Inr (Some ''<A><C/></A>'')"
  by (simp add: assertion_shortcut_def extract_eval sso_parse assertion_node_def sso_slice get_str_def get_path_def)

lemma sso_values:
  "get_str sso_extract ''response.inResponseTo'' = Some ''_r''" "get_str sso_extract ''response.destination'' = Some ''acs''"
  "subject_confirmation_xmls sso_extract = [''<C/>'']" "conditions_time_bounds sso_extract = Inr (None, None)"
  "authn_statement_not_on_or_after_values sso_extract = Inr []"
  by (simp_all add: sso_extract_def get_str_def get_path_def subject_confirmation_xmls_def conditions_time_bounds_def
      authn_statement_not_on_or_after_values_def authn_statement_values_def)

lemma sso_flow:
  "flow_with_expected_recipient sample_flow_ext (\<lambda>_. Odt 0) sso_options sso_request ''acs'' Compatible SigOptional =
     Inr \<lparr>fr_saml_content = sso_text, fr_extract = sso_extract, fr_sig_alg = None\<rparr>"
proof -
  have o: "fo_xml_limits sso_options = xml_limits_default" "\<not> fo_check_signature sso_options" "fo_binding sso_options = Some Post"
    "fo_parser_type sso_options = Some SamlResponse" "fo_redirect_inflate_max_bytes sso_options = MAX_DEFLATE_RAW_DECODE_BYTES"
    "fo_expected_in_response_to sso_options = Some ''_r''" "fo_from_issuer sso_options = None"
    "fo_expected_audience sso_options = None" "fo_clock_drifts sso_options = (0, 0)" "fo_now sso_options = Some (SysTime 0)"
    by (simp_all add: sso_options_def flow_options_default_def)
  have c: "sample_confirming sso_options" by (simp add: sample_confirming_def o)
  have now: "validation_now sample_flow_ext sso_options x = Inr (Odt 0)" for x
    by (simp add: validation_now_def o offset_datetime_from_system_time_def since_unix_epoch_def unix_epoch_def)
  have ctx: "validate_context sample_flow_ext (\<lambda>_. Odt 0) SamlResponse (Some ''<A><C/></A>'') sso_extract sso_options
      (Some ''acs'') False = Inr ()"
    by (simp add: validate_context_def o sso_values validate_sso_response_def validate_response_destination_def
        validate_subject_confirmation_def sso_confirmed [OF sample_flow_reads c] validate_sessions_def earliest_authn_session_expiration_def
        validate_conditions_def now verify_time_at_def)
  show ?thesis
    using sample_flow_reads
    by (simp add: flow_with_expected_recipient_def flow_inner_def o sso_decode is_valid_xml_with_limits_def sso_parse
        sso_profile sso_status authenticate_message_def prepare_unverified_def sso_shortcut default_fields_def
        sso_extracted ctx)
qed

section \<open>The theorems at the samples\<close>

lemma flow_time_laws: "time_laws sample_flow_ext"
  by (simp add: time_laws_def)

lemma sample_epoch: "offset_datetime_from_system_time sample_flow_ext (SysTime 0) = Inr (Odt 0)"
  by (simp add: offset_datetime_from_system_time_def since_unix_epoch_def unix_epoch_def)

lemma option_values:
  "fo_parser_type sso_options = Some SamlResponse" "fo_now sso_options = Some (SysTime 0)"
  "fo_parser_type lr_options = Some LogoutRequest" "fo_now lr_options = Some (SysTime 0)"
  "fo_check_signature lr_options" "fo_binding lr_options = Some Post" "fo_decrypt_key lr_options = None"
  "fo_signing_certs lr_options = [sample_cert]" "fo_clock_drifts lr_options = (0, 0)"
  by (simp_all add: sso_options_def lr_options_def flow_options_default_def)

lemma flow_sso_response_accepted_witness:
  "bearer_confirmed sample_flow_ext sso_options (Some ''acs'') (Odt 0) ''<C/>''"
proof -
  from flow_sso_response_accepted [OF sso_flow option_values(1) flow_time_laws option_values(2) sample_epoch]
  have "\<exists>c \<in> set (subject_confirmation_xmls sso_extract). bearer_confirmed sample_flow_ext sso_options (Some ''acs'') (Odt 0) c"
    by auto
  then show ?thesis by (simp add: sso_values)
qed

lemma flow_requires_pinned_signature_witness:
  "\<exists>xml alg. message_evidence sample_flow_ext lr_options Compatible Post LogoutRequest lr_request xml alg"
proof -
  from lr_flow obtain fr where
    "flow_inner sample_flow_ext (\<lambda>_. Odt 0) lr_options lr_request None Compatible SigOptional = Inr fr" by blast
  from flow_requires_pinned_signature [OF this option_values(5)] show ?thesis by (auto simp: option_values)
qed

lemma flow_post_uses_covered_text_witness:
  "\<exists>xml covered. covered_part sample_flow_ext lr_options xml covered"
proof -
  from lr_flow obtain fr where
    "flow_inner sample_flow_ext (\<lambda>_. Odt 0) lr_options lr_request None Compatible SigOptional = Inr fr" by blast
  from flow_post_uses_covered_text [OF this option_values(5,6,7,3)] show ?thesis by blast
qed

lemma flow_logout_not_expired_witness:
  "\<exists>d. rfc3339_parse sample_flow_ext ''2024-01-01T00:00:00Z'' = Some d \<and> 0 < odt_ns d"
proof -
  from lr_flow obtain fr where fr:
    "flow_inner sample_flow_ext (\<lambda>_. Odt 0) lr_options lr_request None Compatible SigOptional = Inr fr"
    "get_str (fr_extract fr) ''request.notOnOrAfter'' = Some ''2024-01-01T00:00:00Z''" by blast
  have p: "parse_saml_utc_date_time ''2024-01-01T00:00:00Z'' = Some ''2024-01-01T00:00:00Z''" by code_simp
  from flow_logout_not_expired [OF fr(1) option_values(3) flow_time_laws option_values(4) sample_epoch fr(2)]
  show ?thesis by (auto simp: option_values p)
qed

text \<open>A detached signature: the back end accepts a signature equal to the octets.\<close>

definition detached_octet :: string where "detached_octet = ''SAMLRequest=x&SigAlg=a''"

definition detached_ext :: "unit flow_ext" where
  "detached_ext = sample_flow_ext
     \<lparr>form_parse := (\<lambda>_. [(''SAMLRequest'', ''x''), (''SigAlg'', ''a'')]), b64_decode := (\<lambda>_. Inr detached_octet)\<rparr>"

definition detached_request :: http_request where
  "detached_request = (http_request_redirect [(''SAMLRequest'', ''x''), (''SigAlg'', ''a''), (''Signature'', ''AA==='')])
     \<lparr>hr_octet_string := Some detached_octet\<rparr>"

lemma verify_detached_redirect_sound_witness:
  "\<exists>signature. verify_message_signature detached_ext detached_octet signature sample_cert ''a'' = Inr True"
proof -
  have load: "load_certificate detached_ext sample_cert = Inr ()"
    using sample_flow_load
    by (simp add: load_certificate_def ensure_crypto_provider_initialized_def initialize_crypto_provider_def
        detached_ext_def)
  have keys: "to_signing_key detached_ext () = Inr (Some ())" "sign_from_uri detached_ext ''a'' = Inr ()"
    "alg_verify detached_ext x y s t = Inr (s = t)" "form_parse detached_ext z = [(''SAMLRequest'', ''x''), (''SigAlg'', ''a'')]"
    "b64_decode detached_ext z = Inr detached_octet" "initialize_backend detached_ext = initialize_backend sample_flow_ext"
    for x y s t z
    by (simp_all add: detached_ext_def sample_flow_ext_def crypto_ext.defs sample_crypto_def wire_ext.defs)
  have v: "verify_message_signature detached_ext detached_octet ''AA==='' sample_cert ''a'' = Inr True"
    by (simp add: verify_message_signature_def load require_operation_key_def keys base64_decode_def)
  have "verify_detached detached_ext Redirect SamlRequest detached_request lr_options ''<x/>'' = Inr ''a''"
    by (simp add: verify_detached_def detached_request_def http_request_redirect_def query_get_def single_param_def
        unique_value_def ensure_detached_octet_matches_consumed_fields_def
        ensure_redirect_octet_matches_consumed_fields_def decoded_octet_params_def keys initialize_crypto_provider_def
        option_values v)
  from verify_detached_redirect_sound [OF this] show ?thesis
    by (auto simp: option_values detached_request_def)
qed

text \<open>A response with a CBC-encrypted assertion and no signature.\<close>

definition cbc_ext :: "unit flow_ext" where
  "cbc_ext = sample_flow_ext
     \<lparr>xml_read := (\<lambda>_.
        [XEvent 0 3 (EvStart ''Response'' []), XEvent 3 3 (EvStart ''EncryptedAssertion'' []),
         XEvent 3 3 (EvStart ''EncryptedData'' []),
         XEvent 3 7 (EvEmpty ''EncryptionMethod'' [AttrItem ''Algorithm'' (Inr AES_128) False]),
         XEvent 7 7 EvEnd, XEvent 7 7 EvEnd, XEvent 7 11 EvEnd]),
      ns_read_default := (\<lambda>_. [])\<rparr>"

lemma cbc_parse: "parse_with_limits cbc_ext lr_text xml_limits_default =
    Inr (Node ''Response'' [] [Node ''EncryptedAssertion'' [] [Node ''EncryptedData'' []
      [Node ''EncryptionMethod'' [(''Algorithm'', AES_128)] [] [] 3 7] [] 3 7] [] 3 7] [] 0 11)"
proof -
  have "xml_read cbc_ext lr_text =
       [XEvent 0 3 (EvStart ''Response'' []), XEvent 3 3 (EvStart ''EncryptedAssertion'' []),
         XEvent 3 3 (EvStart ''EncryptedData'' []),
         XEvent 3 7 (EvEmpty ''EncryptionMethod'' [AttrItem ''Algorithm'' (Inr AES_128) False]),
         XEvent 7 7 EvEnd, XEvent 7 7 EvEnd, XEvent 7 11 EvEnd]" by (simp add: cbc_ext_def)
  then show ?thesis unfolding parse_eval by (simp add: dom_eval) (simp add: lr_text_def)
qed

lemma cbc_needs_response_signature_witness:
  "verify_and_prepare cbc_ext lr_text SamlResponse lr_options Compatible RequiredForEncryptedCbc = Inl SignatureMissing"
proof -
  have lim: "fo_xml_limits lr_options = xml_limits_default" by (simp add: lr_options_def flow_options_default_def)
  have "ns_read_default cbc_ext lr_text = []" by (simp add: cbc_ext_def)
  then have pre: "preflight_backend_signatures cbc_ext lr_text = Inr ()" by (simp add: preflight_backend_signatures_def)
  have cbc: "response_uses_cbc_encrypted_assertion cbc_ext lr_text (fo_xml_limits lr_options) = Inr True"
    by (simp add: lim response_uses_cbc_encrypted_assertion_def cbc_parse children_named_def child_named_def node_attr_def
        is_xml_encryption_cbc_algorithm_def)
  have sig: "has_xml_signature_with_limits cbc_ext lr_text (fo_xml_limits lr_options) = Inr False"
    by (simp add: lim has_xml_signature_with_limits_def cbc_parse pre has_saml_xml_signature_def
        saml_signature_candidates_def children_named_def)
  have ev: "verify_embedded_signature cbc_ext lr_text lr_options = Inr sv_unverified"
    by (simp add: verify_embedded_signature_def verify_signatures_detailed_with_limits_def verification_preamble_def lim
        cbc_parse pre duplicate_saml_id_eq)
      (simp add: wrapping_detected_def children_named_def saml_ids_def id_values_def saml_id_attr_def
        saml_signature_candidates_def)
  have "\<not> (sv_verified sv_unverified \<and> sv_response_covered sv_unverified)" by (simp add: sv_unverified_def)
  from cbc_needs_response_signature [OF cbc sig ev this] show ?thesis
    by (simp add: sv_unverified_def required_xml_signature_failed_def)
qed

end
