(* ===== verification/Writer.thy ===== *)
theory Writer
  imports Flow
begin

text \<open>
  The XML writers of generated messages (\<open>src/src/xml/write.rs\<close>) and of generated metadata
  (\<open>src/src/metadata/write.rs\<close>). Both wrap \<open>quick_xml::Writer\<close>: the model of a writer is the list of
  the events written so far, and the text of a finished list is the parameter \<open>xml_write\<close>.
  \<open>crypto_enabled\<close> says that one of the crate's crypto features is compiled in.
\<close>

section \<open>The writer of the crate quick-xml\<close>

text \<open>\<open>Event::Start\<close>, \<open>Empty\<close>, \<open>End\<close> and \<open>Text\<close> with unescaped attribute values and text.\<close>

datatype write_event =
  WStart string "(string \<times> string) list"
| WEmpty string "(string \<times> string) list"
| WEnd string
| WText string

text \<open>
  The checks of generated messages read them with \<open>quick_xml::NsReader\<close>: an item is a reader error, or an
  event with the resolved namespace of its element; text is decoded or the error, a reference is the
  character it stands for, if any.
\<close>

datatype out_event =
  OeStart string "ns_attr list"
| OeEmpty string "ns_attr list"
| OeEnd
| OeText "string + string"
| OeCData string
| OeRef "string + string option"
| OeDocType
| OeOther

datatype out_step = OeFail string | OeEvent resolve_result out_event

record 'k out_ext = "'k flow_ext" +
  xml_write :: "write_event list \<Rightarrow> string"
  out_read :: "string \<Rightarrow> out_step list"
  crypto_enabled :: bool

type_synonym xml_writer = "write_event list"

section \<open>Operations\<close>

definition writer_new :: xml_writer where
  "writer_new = []"

definition writer_finish :: "('k, 'e) out_ext_scheme \<Rightarrow> xml_writer \<Rightarrow> string" where
  "writer_finish E w = xml_write E w"

definition write_start :: "string \<Rightarrow> (string \<times> string) list \<Rightarrow> xml_writer \<Rightarrow> xml_writer" where
  "write_start name ats w = w @ [WStart name ats]"

definition write_end :: "string \<Rightarrow> xml_writer \<Rightarrow> xml_writer" where
  "write_end name w = w @ [WEnd name]"

definition write_empty :: "string \<Rightarrow> (string \<times> string) list \<Rightarrow> xml_writer \<Rightarrow> xml_writer" where
  "write_empty name ats w = w @ [WEmpty name ats]"

definition write_text :: "string \<Rightarrow> xml_writer \<Rightarrow> xml_writer" where
  "write_text t w = w @ [WText t]"

definition write_text_element :: "string \<Rightarrow> (string \<times> string) list \<Rightarrow> string \<Rightarrow> xml_writer \<Rightarrow> xml_writer" where
  "write_text_element name ats t w = write_end name (write_text t (write_start name ats w))"

text \<open>The metadata writer's text element has no attributes.\<close>

definition metadata_text_element :: "string \<Rightarrow> string \<Rightarrow> xml_writer \<Rightarrow> xml_writer" where
  "metadata_text_element name t w = write_end name (write_text t (write_start name [] w))"

lemmas writer_defs =
  writer_new_def write_start_def write_end_def write_empty_def write_text_def write_text_element_def
  metadata_text_element_def

section \<open>Balanced output\<close>

text \<open>The open elements after a list of events, or none when an end tag does not fit.\<close>

fun open_after :: "string list \<Rightarrow> xml_writer \<Rightarrow> string list option" where
  "open_after stack [] = Some stack"
| "open_after stack (WStart n ats # w) = open_after (n # stack) w"
| "open_after stack (WEmpty n ats # w) = open_after stack w"
| "open_after stack (WText t # w) = open_after stack w"
| "open_after stack (WEnd n # w) =
     (case stack of [] \<Rightarrow> None | m # rest \<Rightarrow> if m = n then open_after rest w else None)"

lemma open_after_append:
  "open_after stack (v @ w) = Option.bind (open_after stack v) (\<lambda>s. open_after s w)"
  by (induction stack v rule: open_after.induct) (auto split: list.splits)

text \<open>A piece of output that leaves the open elements as they are.\<close>

definition balanced :: "xml_writer \<Rightarrow> bool" where
  "balanced w \<longleftrightarrow> (\<forall>stack. open_after stack w = Some stack)"

lemma balanced_Nil [simp, intro]: "balanced []"
  by (simp add: balanced_def)

lemma balanced_append [intro]: "balanced v \<Longrightarrow> balanced w \<Longrightarrow> balanced (v @ w)"
  by (simp add: balanced_def open_after_append)

lemma balanced_concat: "(\<And>v. v \<in> set vs \<Longrightarrow> balanced v) \<Longrightarrow> balanced (concat vs)"
  by (induction vs) auto

lemma balanced_empty [intro]: "balanced [WEmpty n ats]"
  by (simp add: balanced_def)

lemma balanced_text [intro]: "balanced [WText t]"
  by (simp add: balanced_def)

lemma balanced_element: "balanced w \<Longrightarrow> balanced (WStart n ats # w @ [WEnd n])"
  by (simp add: balanced_def open_after_append)

end
