(* ===== verification/Template.thy ===== *)
theory Template
  imports Writer
begin

text \<open>
  Message templates (\<open>src/src/template.rs\<close>): substitution of \<open>{Tag}\<close> placeholders, removal of optional
  attributes and elements, tag prefixes, and the attribute statement of a login response.
\<close>

section \<open>Templates\<close>

definition quoted :: "string \<Rightarrow> string \<Rightarrow> string" where
  "quoted name v = '' '' @ name @ ''='' @ dq @ v @ dq"

abbreviation "protocol_xmlns \<equiv> quoted ''xmlns:samlp'' NS_PROTOCOL @ quoted ''xmlns:saml'' NS_ASSERTION"

definition LOGIN_REQUEST_TEMPLATE :: string where
  "LOGIN_REQUEST_TEMPLATE =
     ''<samlp:AuthnRequest'' @ protocol_xmlns @ quoted ''ID'' ''{ID}'' @ quoted ''Version'' ''2.0''
     @ quoted ''IssueInstant'' ''{IssueInstant}'' @ quoted ''Destination'' ''{Destination}''
     @ quoted ''ForceAuthn'' ''{ForceAuthn}'' @ quoted ''ProtocolBinding'' ''{ProtocolBinding}''
     @ quoted ''AssertionConsumerServiceURL'' ''{AssertionConsumerServiceURL}''
     @ quoted ''AssertionConsumerServiceIndex'' ''{AssertionConsumerServiceIndex}''
     @ ''><saml:Issuer>{Issuer}</saml:Issuer><samlp:NameIDPolicy'' @ quoted ''Format'' ''{NameIDFormat}''
     @ quoted ''AllowCreate'' ''{AllowCreate}'' @ ''/></samlp:AuthnRequest>''"

definition LOGOUT_REQUEST_TEMPLATE :: string where
  "LOGOUT_REQUEST_TEMPLATE =
     ''<samlp:LogoutRequest'' @ protocol_xmlns @ quoted ''ID'' ''{ID}'' @ quoted ''Version'' ''2.0''
     @ quoted ''IssueInstant'' ''{IssueInstant}'' @ quoted ''Destination'' ''{Destination}''
     @ ''><saml:Issuer>{Issuer}</saml:Issuer><saml:NameID'' @ quoted ''Format'' ''{NameIDFormat}''
     @ ''>{NameID}</saml:NameID><samlp:SessionIndex>{SessionIndex}</samlp:SessionIndex></samlp:LogoutRequest>''"

definition LOGOUT_RESPONSE_TEMPLATE :: string where
  "LOGOUT_RESPONSE_TEMPLATE =
     ''<samlp:LogoutResponse'' @ protocol_xmlns @ quoted ''ID'' ''{ID}'' @ quoted ''Version'' ''2.0''
     @ quoted ''IssueInstant'' ''{IssueInstant}'' @ quoted ''Destination'' ''{Destination}''
     @ quoted ''InResponseTo'' ''{InResponseTo}''
     @ ''><saml:Issuer>{Issuer}</saml:Issuer><samlp:Status><samlp:StatusCode'' @ quoted ''Value'' ''{StatusCode}''
     @ ''/></samlp:Status></samlp:LogoutResponse>''"

definition ATTRIBUTE_STATEMENT_TEMPLATE :: string where
  "ATTRIBUTE_STATEMENT_TEMPLATE = ''<saml:AttributeStatement>{Attributes}</saml:AttributeStatement>''"

definition ATTRIBUTE_TEMPLATE :: string where
  "ATTRIBUTE_TEMPLATE =
     ''<saml:Attribute'' @ quoted ''Name'' ''{Name}'' @ quoted ''NameFormat'' ''{NameFormat}''
     @ ''><saml:AttributeValue'' @ quoted ''xmlns:xs'' ''{ValueXmlnsXs}'' @ quoted ''xmlns:xsi'' ''{ValueXmlnsXsi}''
     @ quoted ''xsi:type'' ''{ValueXsiType}'' @ ''>{Value}</saml:AttributeValue></saml:Attribute>''"

abbreviation "DEFAULT_XS \<equiv> ''http://www.w3.org/2001/XMLSchema''"
abbreviation "DEFAULT_XSI \<equiv> ''http://www.w3.org/2001/XMLSchema-instance''"

definition LOGIN_RESPONSE_TEMPLATE :: string where
  "LOGIN_RESPONSE_TEMPLATE =
     ''<samlp:Response'' @ protocol_xmlns @ quoted ''ID'' ''{ID}'' @ quoted ''Version'' ''2.0''
     @ quoted ''IssueInstant'' ''{IssueInstant}'' @ quoted ''Destination'' ''{Destination}''
     @ quoted ''InResponseTo'' ''{InResponseTo}''
     @ ''><saml:Issuer>{Issuer}</saml:Issuer><samlp:Status><samlp:StatusCode'' @ quoted ''Value'' ''{StatusCode}''
     @ ''/></samlp:Status><saml:Assertion'' @ quoted ''xmlns:xsi'' DEFAULT_XSI @ quoted ''xmlns:xs'' DEFAULT_XS
     @ quoted ''xmlns:saml'' NS_ASSERTION @ quoted ''ID'' ''{AssertionID}'' @ quoted ''Version'' ''2.0''
     @ quoted ''IssueInstant'' ''{IssueInstant}''
     @ ''><saml:Issuer>{Issuer}</saml:Issuer><saml:Subject><saml:NameID'' @ quoted ''Format'' ''{NameIDFormat}''
     @ ''>{NameID}</saml:NameID><saml:SubjectConfirmation''
     @ quoted ''Method'' ''urn:oasis:names:tc:SAML:2.0:cm:bearer'' @ ''><saml:SubjectConfirmationData''
     @ quoted ''NotOnOrAfter'' ''{SubjectConfirmationDataNotOnOrAfter}'' @ quoted ''Recipient'' ''{SubjectRecipient}''
     @ quoted ''InResponseTo'' ''{InResponseTo}'' @ ''/></saml:SubjectConfirmation></saml:Subject><saml:Conditions''
     @ quoted ''NotBefore'' ''{ConditionsNotBefore}'' @ quoted ''NotOnOrAfter'' ''{ConditionsNotOnOrAfter}''
     @ ''><saml:AudienceRestriction><saml:Audience>{Audience}</saml:Audience></saml:AudienceRestriction>''
     @ ''</saml:Conditions>{AuthnStatement}{AttributeStatement}</saml:Assertion></samlp:Response>''"

section \<open>Prefixes\<close>

definition apply_tag_prefixes :: "string \<Rightarrow> string \<Rightarrow> string \<Rightarrow> string" where
  "apply_tag_prefixes xml protocol_prefix assertion_prefix =
     replace_str ''xmlns:saml='' (''xmlns:'' @ assertion_prefix @ ''='')
       (replace_str ''</saml:'' (''</'' @ assertion_prefix @ '':'')
         (replace_str ''<saml:'' (''<'' @ assertion_prefix @ '':'')
           (replace_str ''xmlns:samlp='' (''xmlns:'' @ protocol_prefix @ ''='')
             (replace_str ''</samlp:'' (''</'' @ protocol_prefix @ '':'')
               (replace_str ''<samlp:'' (''<'' @ protocol_prefix @ '':'') xml)))))"

text \<open>Some character of the text is white space (multi-byte characters included).\<close>

fun has_whitespace :: "string \<Rightarrow> bool" where
  "has_whitespace [] = False"
| "has_whitespace (c # s) \<longleftrightarrow> ws_len (c # s) \<noteq> 0 \<or> has_whitespace s"

definition validate_tag_prefix :: "string \<Rightarrow> string \<Rightarrow> unit res" where
  "validate_tag_prefix name pre =
     (if pre = [] then Inl (Invalid (name @ '' tag prefix cannot be empty''))
      else if has_whitespace pre \<or> list_ex (\<lambda>c. c \<in> {CHR ''<'', CHR ''>'', CHR 0x22, CHR 0x27, CHR ''/'', CHR '':''}) pre
      then Inl (Invalid (name @ '' tag prefix contains an invalid character''))
      else Inr ())"

section \<open>Substitution\<close>

lemma str_find_bound: "str_find needle s = Some pos \<Longrightarrow> pos + length needle \<le> length s"
  using str_find_Some_prefix [of needle s pos] prefix_length_le [of needle "drop pos s"] by auto

text \<open>The needle is a placeholder in braces, so it is never empty.\<close>

function replace_all :: "string \<Rightarrow> string \<Rightarrow> string \<Rightarrow> string" where
  "replace_all raw needle replacement =
     (case str_find needle raw of
        None \<Rightarrow> raw
      | Some pos \<Rightarrow>
          if needle = [] then raw
          else take pos raw @ replacement @ replace_all (drop (pos + length needle) raw) needle replacement)"
  by pat_completeness auto
termination
  by (relation "measure (\<lambda>(r, n, p). length r)") (auto dest!: str_find_bound simp flip: length_greater_0_conv)

declare replace_all.simps [simp del]

text \<open>The end of a run to the left of a position, and to its right.\<close>

definition back_while :: "(char \<Rightarrow> bool) \<Rightarrow> string \<Rightarrow> nat \<Rightarrow> nat" where
  "back_while p s n = n - length (takeWhile p (rev (take n s)))"

definition forward_while :: "(char \<Rightarrow> bool) \<Rightarrow> string \<Rightarrow> nat \<Rightarrow> nat" where
  "forward_while p s n = n + length (takeWhile p (drop n s))"

definition is_attribute_name_byte :: "char \<Rightarrow> bool" where
  "is_attribute_name_byte c =
     (ascii_lower c \<or> ascii_upper c \<or> is_ascii_digit c \<or> c \<in> {CHR '':'', CHR ''_'', CHR ''-'', CHR ''.''})"

definition optional_attribute_range :: "string \<Rightarrow> nat \<Rightarrow> nat \<Rightarrow> (nat \<times> nat) option" where
  "optional_attribute_range raw needle_start needle_len =
     (let needle_end = needle_start + needle_len in
      if needle_start = 0 \<or> needle_end \<ge> length raw then None
      else
        let quote = raw ! (needle_start - 1) in
        if quote \<notin> {CHR 0x22, CHR 0x27} \<or> raw ! needle_end \<noteq> quote then None
        else
          let cursor = back_while is_ascii_ws raw (needle_start - 1) in
          if cursor = 0 \<or> raw ! (cursor - 1) \<noteq> CHR ''='' then None
          else
            let name_end = back_while is_ascii_ws raw (cursor - 1);
                name_start = back_while is_attribute_name_byte raw name_end in
            if name_start = name_end then None
            else Some (back_while is_ascii_ws raw name_start, needle_end + 1))"

definition optional_element_range :: "string \<Rightarrow> nat \<Rightarrow> nat \<Rightarrow> (nat \<times> nat) option" where
  "optional_element_range raw needle_start needle_len =
     (let needle_end = needle_start + needle_len in
      if needle_start = 0 \<or> needle_end \<ge> length raw \<or> raw ! (needle_start - 1) \<noteq> CHR ''>''
         \<or> raw ! needle_end \<noteq> CHR ''<'' then None
      else
        Option.bind (str_rfind CHR ''<'' (take (needle_start - 1) raw)) (\<lambda>open_start.
          let name_start = open_start + 1 in
          if name_start \<ge> length raw \<or> raw ! name_start \<in> {CHR ''/'', CHR ''!'', CHR ''?''} then None
          else
            let name_end = forward_while (\<lambda>c. \<not> is_ascii_ws c \<and> c \<notin> {CHR ''/'', CHR ''>''}) raw name_start in
            if name_start = name_end then None
            else
              let close_tag = ''</'' @ Dom.slice raw name_start name_end @ ''>'' in
              if prefix close_tag (drop needle_end raw) then Some (open_start, needle_end + length close_tag)
              else None))"

text \<open>The function parameter of \<open>remove_optional_ranges\<close> is one of the two above.\<close>

datatype optional_kind = OptionalAttribute | OptionalElement

fun range_for_match :: "optional_kind \<Rightarrow> string \<Rightarrow> nat \<Rightarrow> nat \<Rightarrow> (nat \<times> nat) option" where
  "range_for_match OptionalAttribute = optional_attribute_range"
| "range_for_match OptionalElement = optional_element_range"

lemma range_for_match_end: "range_for_match k raw pos n = Some (s, e) \<Longrightarrow> pos < e \<and> pos < length raw"
  by (cases k) (auto simp: optional_attribute_range_def optional_element_range_def Let_def
      split: if_splits bind_splits)

text \<open>The loop, from the cursor on.\<close>

function remove_optional_from :: "optional_kind \<Rightarrow> string \<Rightarrow> string \<Rightarrow> nat \<Rightarrow> string" where
  "remove_optional_from k raw needle cursor =
     (case str_find needle (drop cursor raw) of
        None \<Rightarrow> drop cursor raw
      | Some relative_pos \<Rightarrow>
          if needle = [] then drop cursor raw
          else
            let pos = cursor + relative_pos; next = pos + length needle in
            (case range_for_match k raw pos (length needle) of
               Some (s, e) \<Rightarrow>
                 if s \<ge> cursor then Dom.slice raw cursor s @ remove_optional_from k raw needle e
                 else Dom.slice raw cursor next @ remove_optional_from k raw needle next
             | None \<Rightarrow> Dom.slice raw cursor next @ remove_optional_from k raw needle next))"
  by pat_completeness auto
termination
  apply (relation "measure (\<lambda>(k, r, n, c). length r - c)")
     apply simp
    apply (auto dest!: str_find_bound range_for_match_end simp flip: length_greater_0_conv)
  done

declare remove_optional_from.simps [simp del]

definition remove_optional_attributes :: "string \<Rightarrow> string \<Rightarrow> string" where
  "remove_optional_attributes raw needle = remove_optional_from OptionalAttribute raw needle 0"

definition remove_optional_elements :: "string \<Rightarrow> string \<Rightarrow> string" where
  "remove_optional_elements raw needle = remove_optional_from OptionalElement raw needle 0"

definition placeholder :: "string \<Rightarrow> string" where
  "placeholder key = ''{'' @ key @ ''}''"

definition replace_tag :: "string \<Rightarrow> string \<Rightarrow> string option \<Rightarrow> string" where
  "replace_tag raw key v =
     (case v of
        Some value \<Rightarrow> replace_all raw (placeholder key) (xml_escape value)
      | None \<Rightarrow>
          replace_all (remove_optional_elements (remove_optional_attributes raw (placeholder key)) (placeholder key))
            (placeholder key) [])"

definition replace_tags_by_value :: "string \<Rightarrow> (string \<times> string) list \<Rightarrow> string" where
  "replace_tags_by_value raw tags = foldl (\<lambda>xml (key, v). replace_tag xml key (Some v)) raw tags"

definition replace_tags_by_optional_value :: "string \<Rightarrow> (string \<times> string option) list \<Rightarrow> string" where
  "replace_tags_by_optional_value raw tags = foldl (\<lambda>xml (key, v). replace_tag xml key v) raw tags"

section \<open>Attribute statements\<close>

record login_response_attribute =
  la_name :: string
  la_name_format :: string
  la_value_xsi_type :: string
  la_value_tag :: string
  la_value_xmlns_xs :: "string option"
  la_value_xmlns_xsi :: "string option"

record login_response_template =
  lt_context :: "string option"
  lt_attributes :: "login_response_attribute list"

definition tagging :: "string \<Rightarrow> string \<Rightarrow> string" where
  "tagging pre content =
     (case camel_case content of
        [] \<Rightarrow> pre
      | c # cs \<Rightarrow> pre @ to_upper c # cs)"

definition attr_tag :: "string \<Rightarrow> string" where
  "attr_tag value_tag = tagging ''attr'' value_tag"

text \<open>\<open>replacen\<close> with the count 1.\<close>

definition replace_first :: "string \<Rightarrow> string \<Rightarrow> string \<Rightarrow> string" where
  "replace_first needle replacement s =
     (case str_find needle s of
        None \<Rightarrow> s
      | Some pos \<Rightarrow> take pos s @ replacement @ drop (pos + length needle) s)"

definition unwrap_or :: "'a option \<Rightarrow> 'a \<Rightarrow> 'a" where
  "unwrap_or v d = (case v of Some x \<Rightarrow> x | None \<Rightarrow> d)"

definition attribute_text :: "string \<Rightarrow> login_response_attribute \<Rightarrow> string" where
  "attribute_text attribute_template a =
     replace_first ''{Value}'' (placeholder (tagging ''attr'' (la_value_tag a)))
       (replace_first ''{ValueXsiType}'' (xml_escape (la_value_xsi_type a))
         (replace_first ''{ValueXmlnsXsi}'' (xml_escape (unwrap_or (la_value_xmlns_xsi a) DEFAULT_XSI))
           (replace_first ''{ValueXmlnsXs}'' (xml_escape (unwrap_or (la_value_xmlns_xs a) DEFAULT_XS))
             (replace_first ''{NameFormat}'' (xml_escape (la_name_format a))
               (replace_first ''{Name}'' (xml_escape (la_name a)) attribute_template)))))"

definition attribute_statement_builder :: "login_response_attribute list \<Rightarrow> string \<Rightarrow> string \<Rightarrow> string" where
  "attribute_statement_builder as attribute_template attribute_statement_template =
     replace_first ''{Attributes}'' (concat (map (attribute_text attribute_template) as)) attribute_statement_template"

text \<open>The loop of \<open>write_login_response_attribute_statement\<close> over the attributes.\<close>

fun write_attributes :: "(string \<times> string) list \<Rightarrow> string \<Rightarrow> login_response_attribute list \<Rightarrow> xml_writer \<Rightarrow>
    xml_writer res" where
  "write_attributes user_attributes pre [] w = Inr w"
| "write_attributes user_attributes pre (a # as) w =
     (case map_of user_attributes (la_value_tag a) of
        None \<Rightarrow> Inl (Invalid (''missing login response attribute value for `'' @ la_value_tag a @ ''`''))
      | Some value \<Rightarrow>
          write_attributes user_attributes pre as
            (write_end (pre @ '':Attribute'')
              (write_text_element (pre @ '':AttributeValue'')
                [(''xmlns:xs'', unwrap_or (la_value_xmlns_xs a) DEFAULT_XS),
                 (''xmlns:xsi'', unwrap_or (la_value_xmlns_xsi a) DEFAULT_XSI),
                 (''xsi:type'', la_value_xsi_type a)] value
                (write_start (pre @ '':Attribute'') [(''Name'', la_name a), (''NameFormat'', la_name_format a)] w))))"

definition write_login_response_attribute_statement :: "login_response_attribute list \<Rightarrow> (string \<times> string) list \<Rightarrow>
    string \<Rightarrow> xml_writer \<Rightarrow> xml_writer res" where
  "write_login_response_attribute_statement as user_attributes pre w =
     (if as = [] then Inr w
      else
        rmap (write_end (pre @ '':AttributeStatement''))
          (write_attributes user_attributes pre as (write_start (pre @ '':AttributeStatement'') [] w)))"

section \<open>Substitution as a reference definition\<close>

text \<open>A template is literal text and holes; filling it replaces each hole by the first value of its key.\<close>

datatype piece = Lit string | Hole string

fun piece_text :: "piece \<Rightarrow> string" where
  "piece_text (Lit s) = s"
| "piece_text (Hole k) = placeholder k"

definition template_text :: "piece list \<Rightarrow> string" where
  "template_text ps = concat (map piece_text ps)"

definition brace_free :: "string \<Rightarrow> bool" where
  "brace_free s \<longleftrightarrow> list_all (\<lambda>c. c \<noteq> CHR ''{'' \<and> c \<noteq> CHR ''}'') s"

fun piece_ok :: "piece \<Rightarrow> bool" where
  "piece_ok (Lit s) \<longleftrightarrow> CHR ''{'' \<notin> set s"
| "piece_ok (Hole k) \<longleftrightarrow> brace_free k"

fun fill :: "(string \<rightharpoonup> string) \<Rightarrow> piece \<Rightarrow> string" where
  "fill f (Lit s) = s"
| "fill f (Hole k) = (case f k of Some v \<Rightarrow> xml_escape v | None \<Rightarrow> placeholder k)"

lemma replace_all_eq: "needle \<noteq> [] \<Longrightarrow> replace_all raw needle r = replace_str needle r raw"
proof (induction "length raw" arbitrary: raw rule: less_induct)
  case less
  show ?case
  proof (cases raw)
    case Nil
    then show ?thesis using less.prems by (subst replace_all.simps) simp
  next
    case (Cons c cs)
    show ?thesis
    proof (cases "prefix needle raw")
      case True
      then have "replace_all raw needle r = r @ replace_all (drop (length needle) raw) needle r"
        using less.prems Cons by (subst replace_all.simps) simp
      also have "replace_all (drop (length needle) raw) needle r = replace_str needle r (drop (length needle) raw)"
        using less Cons by (intro less.hyps) auto
      finally show ?thesis using True less.prems Cons by (simp add: replace_str_Cons)
    next
      case False
      have cs: "replace_all cs needle r = replace_str needle r cs"
        using less Cons by (intro less.hyps) auto
      have "replace_all raw needle r = c # replace_all cs needle r"
        using False less.prems Cons
        by (subst (1 2) replace_all.simps) (auto split: option.splits)
      then show ?thesis using False cs Cons by (simp add: replace_str_Cons)
    qed
  qed
qed

lemma replace_str_skip:
  "needle = CHR ''{'' # n \<Longrightarrow> CHR ''{'' \<notin> set s \<Longrightarrow> replace_str needle r (s @ t) = s @ replace_str needle r t"
  by (induction s) (auto simp: replace_str_Cons)

lemma brace_free_iff: "brace_free s \<longleftrightarrow> CHR ''{'' \<notin> set s \<and> CHR ''}'' \<notin> set s"
  by (auto simp: brace_free_def list_all_iff)

lemma prefix_closed:
  "c \<notin> set k \<Longrightarrow> c \<notin> set l \<Longrightarrow> prefix (k @ [c]) (l @ c # t) \<longleftrightarrow> k = l"
proof (induction k arbitrary: l)
  case Nil
  then show ?case by (cases l) auto
next
  case (Cons x k)
  then show ?case by (cases l) auto
qed

lemma replace_hole:
  assumes "brace_free key" "brace_free k"
  shows "replace_str (placeholder key) r (placeholder k @ t)
    = (if k = key then r else placeholder k) @ replace_str (placeholder key) r t"
proof -
  have p: "prefix (placeholder key) (placeholder k @ t) \<longleftrightarrow> k = key"
    using prefix_closed [of "CHR ''}''" key k t] assms by (auto simp: placeholder_def brace_free_iff)
  show ?thesis
  proof (cases "k = key")
    case True
    then have "replace_str (placeholder key) r (placeholder k @ t)
        = r @ replace_str (placeholder key) r (drop (length (placeholder key)) (placeholder k @ t))"
      using p by (simp add: replace_str_Cons placeholder_def)
    then show ?thesis using True by simp
  next
    case False
    have "replace_str (placeholder key) r (placeholder k @ t)
        = CHR ''{'' # replace_str (placeholder key) r ((k @ ''}'') @ t)"
      using p False by (simp add: replace_str_Cons placeholder_def)
    also have "replace_str (placeholder key) r ((k @ ''}'') @ t) = (k @ ''}'') @ replace_str (placeholder key) r t"
      using assms by (intro replace_str_skip) (auto simp: placeholder_def brace_free_iff)
    finally show ?thesis using False by (simp add: placeholder_def)
  qed
qed

text \<open>One substitution turns the holes of its key into literal text.\<close>

definition fill_one :: "string \<Rightarrow> string \<Rightarrow> piece \<Rightarrow> piece" where
  "fill_one key v p = (if p = Hole key then Lit (xml_escape v) else p)"

lemma escape_brace_free: "CHR ''{'' \<notin> set v \<Longrightarrow> CHR ''{'' \<notin> set (xml_escape v)"
  unfolding xml_escape_map by (induction v) auto

lemma replace_tag_pieces:
  assumes "list_all piece_ok ps" "brace_free key"
  shows "replace_tag (template_text ps) key (Some v) = template_text (map (fill_one key v) ps)"
proof -
  have "replace_str (placeholder key) (xml_escape v) (template_text ps) = template_text (map (fill_one key v) ps)"
    using assms(1)
  proof (induction ps)
    case (Cons p ps)
    then show ?case
    proof (cases p)
      case (Lit s)
      then show ?thesis
        using Cons replace_str_skip [of "placeholder key" "key @ ''}''" s "xml_escape v" "template_text ps"]
        by (simp add: template_text_def fill_one_def placeholder_def)
    next
      case (Hole k)
      then show ?thesis
        using Cons replace_hole [OF assms(2), of k "xml_escape v" "template_text ps"]
        by (simp add: template_text_def fill_one_def)
    qed
  qed (simp add: template_text_def)
  then show ?thesis by (simp add: replace_tag_def replace_all_eq placeholder_def)
qed

text \<open>
  filling a template. When the literal text and the values contain no brace, replacing the tags one
  after the other is the simultaneous substitution: every hole becomes the escaped first value of its
  key, holes without a value and the literal text stay as they are.
\<close>

theorem template_substitution:
  assumes "list_all piece_ok ps" "\<forall>(k, v) \<in> set tags. brace_free k \<and> brace_free v"
  shows "replace_tags_by_value (template_text ps) tags = concat (map (fill (map_of tags)) ps)"
  using assms
proof (induction tags arbitrary: ps)
  case Nil
  have "piece_text = fill (map_of [])"
  proof
    show "piece_text p = fill (map_of []) p" for p by (cases p) simp_all
  qed
  then show ?case by (simp add: replace_tags_by_value_def template_text_def)
next
  case (Cons t tags)
  obtain k v where t: "t = (k, v)" by fastforce
  have ok: "list_all piece_ok (map (fill_one k v) ps)"
    using Cons.prems t by (auto simp: list_all_iff fill_one_def brace_free_iff escape_brace_free)
  have f: "fill (map_of tags) (fill_one k v p) = fill (map_of (t # tags)) p" for p
    by (cases p) (auto simp: fill_one_def t)
  have "replace_tags_by_value (template_text ps) (t # tags)
      = replace_tags_by_value (template_text (map (fill_one k v) ps)) tags"
    using Cons.prems t by (simp add: replace_tags_by_value_def replace_tag_pieces)
  also have "\<dots> = concat (map (fill (map_of tags)) (map (fill_one k v) ps))"
    using Cons.prems by (intro Cons.IH ok) simp
  also have "map (fill (map_of tags)) (map (fill_one k v) ps) = map (fill (map_of (t # tags))) ps"
    by (simp only: map_map o_def f)
  finally show ?case .
qed

lemma template_substitution_witness:
  "replace_tags_by_value ''<a b=({X})>{Y}{Z}</a>'' [(''X'', ''<''), (''Y'', ''1''), (''X'', ''2'')] = ''<a b=(&lt;)>1{Z}</a>''"
proof -
  have "template_text [Lit ''<a b=('', Hole ''X'', Lit '')>'', Hole ''Y'', Hole ''Z'', Lit ''</a>''] = ''<a b=({X})>{Y}{Z}</a>''"
    by (simp add: template_text_def placeholder_def)
  then show ?thesis
    using template_substitution [of "[Lit ''<a b=('', Hole ''X'', Lit '')>'', Hole ''Y'', Hole ''Z'', Lit ''</a>'']"
        "[(''X'', ''<''), (''Y'', ''1''), (''X'', ''2'')]"]
    by (simp add: brace_free_def placeholder_def xml_escape_map)
qed

text \<open>
  C39: a substituted value is scanned again. When a value is the placeholder of a later tag, that tag's
  value is inserted in its place: the text that a subject or a user attribute supplies is not opaque.
\<close>

theorem replaced_values_are_rescanned:
  assumes "brace_free k1" "brace_free k2" "xml_escape k2 = k2" "CHR ''{'' \<notin> set pre" "CHR ''{'' \<notin> set post"
  shows "replace_tags_by_value (pre @ placeholder k1 @ post) [(k1, placeholder k2), (k2, v2)]
    = pre @ xml_escape v2 @ post"
proof -
  have e: "xml_escape (placeholder k2) = placeholder k2"
    using assms(3) by (simp add: placeholder_def xml_escape_map)
  have "replace_tag (template_text [Lit pre, Hole k1, Lit post]) k1 (Some (placeholder k2))
      = template_text [Lit pre, Hole k2, Lit post]"
    by (subst replace_tag_pieces) (use assms in \<open>simp_all add: fill_one_def e template_text_def\<close>)
  moreover have "replace_tag (template_text [Lit pre, Hole k2, Lit post]) k2 (Some v2) = pre @ xml_escape v2 @ post"
    by (subst replace_tag_pieces) (use assms in \<open>simp_all add: fill_one_def template_text_def\<close>)
  ultimately show ?thesis by (simp add: replace_tags_by_value_def template_text_def)
qed

lemma replaced_values_are_rescanned_witness:
  "replace_tags_by_value ''<NameID>{NameID}</NameID>'' [(''NameID'', ''{attrRole}''), (''attrRole'', ''admin'')]
    = ''<NameID>admin</NameID>''"
  using replaced_values_are_rescanned [of "''NameID''" "''attrRole''" "''<NameID>''" "''</NameID>''" "''admin''"]
  by (simp add: brace_free_def placeholder_def xml_escape_map)

section \<open>Optional placeholders\<close>

lemma str_find_None: "\<not> sublist needle s \<Longrightarrow> str_find needle s = None"
  by (induction s) (auto simp: sublist_Cons_right)

lemma sublist_placeholder_append:
  assumes "sublist (placeholder key) (x @ r)" "CHR ''}'' \<notin> set r"
  shows "sublist (placeholder key) x"
proof -
  have l: "CHR ''}'' \<in> set (placeholder key)" "last (placeholder key) = CHR ''}''"
    by (simp_all add: placeholder_def)
  from assms(1) consider "sublist (placeholder key) x" | "sublist (placeholder key) r"
    | a b where "placeholder key = a @ b" "suffix a x" "prefix b r"
    by (auto simp: sublist_append)
  then show ?thesis
  proof cases
    case 2
    then show ?thesis using l(1) assms(2) set_mono_sublist by blast
  next
    case 3
    have "b = []"
    proof (rule ccontr)
      assume "b \<noteq> []"
      then have "CHR ''}'' \<in> set b" using l(2) 3(1) by (metis last_appendR last_in_set)
      then show False using 3(3) assms(2) set_mono_prefix by blast
    qed
    then show ?thesis using 3 by auto
  qed
qed

lemma str_find_placeholder:
  assumes "brace_free key" "\<not> sublist (placeholder key) a"
  shows "str_find (placeholder key) (a @ placeholder key @ b) = Some (length a)"
  using assms(2)
proof (induction a)
  case Nil
  then show ?case by (cases "placeholder key @ b") (auto simp: placeholder_def)
next
  case (Cons c a)
  have "\<not> prefix (placeholder key) ((c # a) @ placeholder key @ b)"
  proof
    assume "prefix (placeholder key) ((c # a) @ placeholder key @ b)"
    then consider "prefix (placeholder key) (c # a)"
      | z where "placeholder key = (c # a) @ z" "prefix z (placeholder key @ b)"
      unfolding prefix_append by blast
    then show False
    proof cases
      case 1
      then show ?thesis using Cons.prems by auto
    next
      case 2
      then have "key @ ''}'' = a @ z" by (simp add: placeholder_def)
      then have "set z \<subseteq> set (key @ ''}'')" by simp
      moreover have "z \<noteq> []" using 2(1) Cons.prems by auto
      then have "CHR ''{'' \<in> set z" using 2(2) by (cases z) (auto simp: placeholder_def)
      ultimately show ?thesis using assms(1) by (auto simp: brace_free_iff)
    qed
  qed
  then show ?case using Cons by (auto simp: sublist_Cons_right)
qed

lemma back_while_append:
  assumes "list_all p m" "a = [] \<or> \<not> p (last a)"
  shows "back_while p (a @ m @ t) (length a + length m) = length a"
proof -
  have "takeWhile p (rev a) = []"
    using assms(2) by (cases a rule: rev_cases) auto
  then have "takeWhile p (rev m @ rev a) = rev m"
    using assms(1) by (subst takeWhile_append2) (auto simp: list_all_iff)
  then show ?thesis by (simp add: back_while_def)
qed

lemma name_byte_not_ws: "is_attribute_name_byte c \<Longrightarrow> \<not> is_ascii_ws c"
  by (auto simp: is_attribute_name_byte_def is_ascii_ws_def ascii_lower_def ascii_upper_def is_ascii_digit_def)

lemma attribute_range_quoted:
  assumes "name \<noteq> []" "list_all is_attribute_name_byte name" "pre = [] \<or> \<not> is_ascii_ws (last pre)"
  shows "optional_attribute_range (pre @ '' '' @ name @ ''='' @ dq @ n @ dq @ post) (length pre + length name + 3) (length n)
    = Some (length pre, length pre + length name + length n + 4)"
proof -
  let ?r = "pre @ '' '' @ name @ ''='' @ dq @ n @ dq @ post"
  have q: "?r ! (length pre + length name + 2) = CHR 0x22" "?r ! (length pre + length name + 3 + length n) = CHR 0x22"
    "?r ! (length pre + length name + 1) = CHR ''=''"
    by (simp_all add: dq_def nth_append nth_Cons')
  have c: "back_while is_ascii_ws ?r (length pre + length name + 2) = length pre + length name + 2"
    using back_while_append [of is_ascii_ws "[]" "pre @ '' '' @ name @ ''=''" "dq @ n @ dq @ post"]
    by (simp add: is_ascii_ws_def)
  have e: "back_while is_ascii_ws ?r (length pre + length name + 1) = length pre + length name + 1"
    using back_while_append [of is_ascii_ws "[]" "pre @ '' '' @ name" "''='' @ dq @ n @ dq @ post"] assms(1, 2)
    by (simp add: name_byte_not_ws list_all_iff)
  have s: "back_while is_attribute_name_byte ?r (length pre + length name + 1) = length pre + 1"
    using back_while_append [of is_attribute_name_byte name "pre @ '' ''" "''='' @ dq @ n @ dq @ post"] assms(2)
    by (simp add: is_attribute_name_byte_def ascii_lower_def ascii_upper_def is_ascii_digit_def)
  have w: "back_while is_ascii_ws ?r (length pre + 1) = length pre"
    using back_while_append [of is_ascii_ws "'' ''" pre "name @ ''='' @ dq @ n @ dq @ post"] assms(3)
    by (simp add: is_ascii_ws_def)
  have l: "length pre + length name + 3 + length n < length ?r" by (simp add: dq_def)
  show ?thesis
    using q c e s w l assms(1) unfolding optional_attribute_range_def Let_def
    by simp
qed

lemma remove_optional_None: "\<not> sublist needle (drop c raw) \<Longrightarrow> remove_optional_from k raw needle c = drop c raw"
  by (subst remove_optional_from.simps) (simp add: str_find_None)

text \<open>
  an optional attribute. An absent value removes the attribute whose whole value is the placeholder,
  together with the white space before it; a present value is inserted in its place, escaped.
\<close>

theorem optional_attribute_removed:
  assumes "name \<noteq> []" "list_all is_attribute_name_byte name" "brace_free key"
    "pre = [] \<or> \<not> is_ascii_ws (last pre)" "\<not> sublist (placeholder key) (pre @ post)"
  shows "replace_tags_by_optional_value (pre @ quoted name (placeholder key) @ post) [(key, None)] = pre @ post"
proof -
  let ?n = "placeholder key" and ?a = "pre @ '' '' @ name @ ''='' @ dq" and ?e = "length pre + length name + length (placeholder key) + 4"
  let ?raw = "pre @ '' '' @ name @ ''='' @ dq @ ?n @ dq @ post"
  have parts: "\<not> sublist ?n pre" "\<not> sublist ?n post"
    using assms(5) sublist_append by blast+
  have "CHR ''}'' \<notin> set ('' '' @ name @ ''='' @ dq)"
  proof -
    have "\<not> is_attribute_name_byte CHR ''}''"
      by (simp add: is_attribute_name_byte_def ascii_lower_def ascii_upper_def is_ascii_digit_def)
    then show ?thesis using assms(2) by (auto simp: list_all_iff dq_def)
  qed
  then have "\<not> sublist ?n ?a" using sublist_placeholder_append parts(1) by blast
  then have f: "str_find ?n ?raw = Some (length pre + length name + 3)"
    using str_find_placeholder [OF assms(3), of ?a "dq @ post"] by (simp add: dq_def)
  have "?raw = (pre @ '' '' @ name @ ''='' @ dq @ ?n @ dq) @ post" "length (pre @ '' '' @ name @ ''='' @ dq @ ?n @ dq) = ?e"
    by (simp_all add: dq_def)
  then have d: "drop ?e ?raw = post" by (metis append_eq_conv_conj)
  have "remove_optional_attributes ?raw ?n = Dom.slice ?raw 0 (length pre) @ remove_optional_from OptionalAttribute ?raw ?n ?e"
    unfolding remove_optional_attributes_def
    using f attribute_range_quoted [OF assms(1, 2, 4), of ?n post]
    by (subst remove_optional_from.simps) (simp add: placeholder_def)
  also have "\<dots> = pre @ post"
    using parts(2) d by (simp add: remove_optional_None Dom.slice_def)
  finally have r: "remove_optional_attributes ?raw ?n = pre @ post" .
  have "remove_optional_elements (pre @ post) ?n = pre @ post"
    unfolding remove_optional_elements_def using assms(5) by (subst remove_optional_None) simp_all
  moreover have "replace_all (pre @ post) ?n [] = pre @ post"
    using str_find_None [OF assms(5)] by (subst replace_all.simps) simp
  ultimately show ?thesis
    using r by (simp add: replace_tags_by_optional_value_def replace_tag_def quoted_def)
qed

lemma optional_attribute_removed_witness:
  "replace_tags_by_optional_value (''<a'' @ quoted ''id'' (placeholder ''Id'') @ ''>{T}</a>'') [(''Id'', None)] = ''<a>{T}</a>''"
proof -
  have "placeholder ''Id'' = ''{Id}''" by (simp add: placeholder_def)
  then have "\<not> sublist (placeholder ''Id'') (''<a'' @ ''>{T}</a>'')"
    by (simp only: append.simps sublist_Cons_right) simp
  then show ?thesis
    using optional_attribute_removed [of "''id''" "''Id''" "''<a''" "''>{T}</a>''"]
    by (simp add: brace_free_def is_attribute_name_byte_def ascii_lower_def is_ascii_ws_def)
qed

end
