(* ===== verification/Metadata.thy ===== *)
theory Metadata
  imports Verify
begin

text \<open>
  Entity metadata (\<open>src/src/metadata/mod.rs\<close>, \<open>policy.rs\<close>, \<open>sp.rs\<close>, \<open>idp.rs\<close>) and its import under
  a trust policy (\<open>src/src/config/metadata_trust.rs\<close>, \<open>descriptors.rs\<close>). Properties: keys are used
  for their declared purpose only, the deadline is the earliest of the entity and its role, nothing
  is read from the descriptor of another role, and with a signature policy everything that is read
  comes from the element that a pinned certificate signed.
\<close>

section \<open>Policy\<close>

text \<open>\<open>effective_expiration\<close>: the loop over the root and the roles.\<close>

fun expiration_loop :: "('e) time_ext_scheme \<Rightarrow> odt option \<Rightarrow> node list \<Rightarrow> odt option res" where
  "expiration_loop E earliest [] = Inr earliest"
| "expiration_loop E earliest (n # ns) =
     (case node_attr n ''validUntil'' of
        None \<Rightarrow> expiration_loop E earliest ns
      | Some value \<Rightarrow>
          rbind (ok_or (parse_saml_utc_date_time value) (TimeWindowInvalid MetadataValidUntil)) (\<lambda>v.
          rbind (ok_or (rfc3339_parse E v) (TimeWindowInvalid MetadataValidUntil)) (\<lambda>deadline.
            expiration_loop E
              (Some (case earliest of None \<Rightarrow> deadline | Some current \<Rightarrow> min current deadline)) ns)))"

definition effective_expiration :: "('e) time_ext_scheme \<Rightarrow> node \<Rightarrow> node list \<Rightarrow> odt option res" where
  "effective_expiration E root roles = expiration_loop E None (root # roles)"

text \<open>The certificates of one \<open>KeyDescriptor\<close>, then the loop over all of them.\<close>

definition descriptor_certificates :: "node \<Rightarrow> string list" where
  "descriptor_certificates d =
     map node_text
       (concat (map (\<lambda>data. children_named data ''X509Certificate'')
         (concat (map (\<lambda>info. children_named info ''X509Data'') (children_named d ''KeyInfo'')))))"

fun key_descriptor_loop :: "node list \<Rightarrow> string list \<Rightarrow> string list \<Rightarrow> (string list \<times> string list) res" where
  "key_descriptor_loop [] signing encryption = Inr (signing, encryption)"
| "key_descriptor_loop (d # ds) signing encryption =
     (let purpose = node_attr d ''use'' in
      if purpose \<notin> {None, Some ''signing'', Some ''encryption''}
      then Inl (ProtocolProfile ''invalid metadata KeyDescriptor use'')
      else
        key_descriptor_loop ds
          (if purpose \<noteq> Some ''encryption'' then signing @ descriptor_certificates d else signing)
          (if purpose \<noteq> Some ''signing'' then encryption @ descriptor_certificates d else encryption))"

definition certificates_for_roles :: "node list \<Rightarrow> saml_value res" where
  "certificates_for_roles roles =
     rbind (key_descriptor_loop (concat (map (\<lambda>r. children_named r ''KeyDescriptor'') roles)) [] [])
       (\<lambda>(signing, encryption).
         Inr (VObject [(''signing'', VArray (map VStr signing)), (''encryption'', VArray (map VStr encryption))]))"

definition metadata_vocabulary :: "string option \<Rightarrow> string \<Rightarrow> bool" where
  "metadata_vocabulary parent l \<longleftrightarrow>
     parent = None \<and> l = ''EntityDescriptor''
     \<or> parent = Some ''EntityDescriptor'' \<and> l \<in> {''SPSSODescriptor'', ''IDPSSODescriptor''}
     \<or> parent \<in> {Some ''SPSSODescriptor'', Some ''IDPSSODescriptor''}
        \<and> l \<in> {''KeyDescriptor'', ''SingleLogoutService'', ''NameIDFormat'', ''SingleSignOnService'',
          ''AssertionConsumerService''}"

definition metadata_attributes :: "string list" where
  "metadata_attributes =
     [''entityID'', ''validUntil'', ''use'', ''Binding'', ''Location'', ''index'', ''isDefault'',
      ''WantAuthnRequestsSigned'', ''WantAssertionsSigned'', ''AuthnRequestsSigned'']"

fun metadata_attrs_ok :: "ns_attr list \<Rightarrow> unit res" where
  "metadata_attrs_ok [] = Inr ()"
| "metadata_attrs_ok (NsAttrErr e # as) = Inl (Xml e)"
| "metadata_attrs_ok (NsAttr key binding resolved l val # as) =
     (if \<not> binding \<and> CHR '':'' \<in> set key \<and> l \<in> set metadata_attributes
      then Inl (ProtocolProfile ''consumed metadata attributes must be unqualified'')
      else metadata_attrs_ok as)"

definition metadata_element_ok :: "string option \<Rightarrow> string option \<Rightarrow> string \<Rightarrow> ns_attr list \<Rightarrow> unit res" where
  "metadata_element_ok parent ns l as =
     (if metadata_vocabulary parent l then
        if ns \<notin> {None, Some NS_METADATA}
        then Inl (ProtocolProfile ''metadata element has an invalid namespace'')
        else metadata_attrs_ok as
      else Inr ())"

text \<open>The loop of \<open>validate_metadata_namespaces\<close>, with the local names of the open elements.\<close>

definition stack_parent :: "string list \<Rightarrow> string option" where
  "stack_parent stack = (case stack of [] \<Rightarrow> None | p # _ \<Rightarrow> Some p)"

fun metadata_loop :: "('k, 'e) crypto_ext_scheme \<Rightarrow> string list \<Rightarrow> ns_step list \<Rightarrow> unit res" where
  "metadata_loop E stack [] = Inr ()"
| "metadata_loop E stack (NsFail e # steps) = Inl (Xml e)"
| "metadata_loop E stack (NsEvent rr ev # steps) =
     rbind (signature_namespace E rr) (\<lambda>ns.
       case ev of
         NsStart l as \<Rightarrow>
           rbind (metadata_element_ok (stack_parent stack) ns l as) (\<lambda>_. metadata_loop E (l # stack) steps)
       | NsEmpty l as \<Rightarrow>
           rbind (metadata_element_ok (stack_parent stack) ns l as) (\<lambda>_. metadata_loop E stack steps)
       | NsEnd \<Rightarrow> metadata_loop E (tl stack) steps
       | NsOther \<Rightarrow> metadata_loop E stack steps)"

definition validate_metadata_namespaces :: "('k, 'e) crypto_ext_scheme \<Rightarrow> string \<Rightarrow> unit res" where
  "validate_metadata_namespaces E xml = metadata_loop E [] (ns_read_default E xml)"

section \<open>Metadata\<close>

record metadata =
  md_xml :: string
  md_meta :: saml_value
  md_valid_until :: "odt option"

definition base_fields :: "extractor_field list" where
  "base_fields =
     [with_attrs [''entityID''] (field_new ''entityID'' [''EntityDescriptor'']),
      field_new ''sharedCertificate''
        [''EntityDescriptor'', ''~SSODescriptor'', ''KeyDescriptor'', ''KeyInfo'', ''X509Data'', ''X509Certificate''],
      with_aggregate [''use''] [''KeyInfo'', ''X509Data'', ''X509Certificate'']
        (field_new ''certificate'' [''EntityDescriptor'', ''~SSODescriptor'', ''KeyDescriptor'']),
      with_attrs [''Binding'', ''Location'']
        (field_new ''singleLogoutService'' [''EntityDescriptor'', ''~SSODescriptor'', ''SingleLogoutService'']),
      field_new ''nameIDFormat'' [''EntityDescriptor'', ''~SSODescriptor'', ''NameIDFormat'']]"

definition as_object_list :: "saml_value \<Rightarrow> saml_value list" where
  "as_object_list v = (case v of VArray items \<Rightarrow> items | VObject es \<Rightarrow> [v] | _ \<Rightarrow> [])"

definition location_for_binding :: "saml_value option \<Rightarrow> binding \<Rightarrow> string option" where
  "location_for_binding v b =
     Option.bind v (\<lambda>value.
       Option.bind (List.find (\<lambda>obj. get_str obj ''binding'' = Some (binding_urn b)) (as_object_list value))
         (\<lambda>obj. get_str obj ''location''))"

text \<open>The role replaces the wildcard segment of every single path.\<close>

definition field_for_role :: "string \<Rightarrow> extractor_field \<Rightarrow> extractor_field" where
  "field_for_role role f =
     (case f_local_path f of
        LSingle path \<Rightarrow>
          f\<lparr>f_local_path := LSingle (map (\<lambda>seg. if seg = ''~SSODescriptor'' then role else seg) path)\<rparr>
      | LMulti _ \<Rightarrow> f)"

definition role_children :: "node \<Rightarrow> string option \<Rightarrow> node list" where
  "role_children root role =
     filter
       (\<lambda>c. case role of
          None \<Rightarrow> local_name c \<in> {''SPSSODescriptor'', ''IDPSSODescriptor''}
        | Some r \<Rightarrow> local_name c = r) (children root)"

definition standalone_entity :: "node list \<Rightarrow> node res" where
  "standalone_entity roots =
     (if length (filter (\<lambda>n. local_name n = ''EntityDescriptor'') roots) > 1
      then Inl (Xml ''ERR_MULTIPLE_METADATA_ENTITYDESCRIPTOR'')
      else
        (case roots of
           [r] \<Rightarrow> if local_name r = ''EntityDescriptor'' then Inr r
                else Inl (Unsupported (''metadata import requires a standalone EntityDescriptor; aggregate parent ''
                       @ ''validity cannot be discarded''))
         | _ \<Rightarrow> Inl (Unsupported (''metadata import requires a standalone EntityDescriptor; aggregate parent ''
                       @ ''validity cannot be discarded''))))"

definition parse_for_role_with_limits :: "('k, 'e) crypto_ext_scheme \<Rightarrow> string \<Rightarrow> extractor_field list \<Rightarrow> xml_limits \<Rightarrow>
    string option \<Rightarrow> metadata res" where
  "parse_for_role_with_limits E xml extra limits role =
     rbind (rbind (parse_roots_with_limits E xml limits) standalone_entity) (\<lambda>root.
     rbind (validate_metadata_namespaces E xml) (\<lambda>_.
     let roles = role_children root role in
     if role \<noteq> None \<and> roles = [] then Inl (MissingMetadata (str_or_empty role))
     else
       rbind (effective_expiration E root roles) (\<lambda>valid_until.
       let flds = (case role of None \<Rightarrow> base_fields @ extra | Some r \<Rightarrow> map (field_for_role r) (base_fields @ extra)) in
       rbind (extract_with_limits E xml flds limits) (\<lambda>meta.
       rbind (certificates_for_roles roles) (\<lambda>certs.
         Inr \<lparr>md_xml = xml, md_meta = insert_key meta ''certificate'' certs, md_valid_until = valid_until\<rparr>)))))"

definition parse_metadata_with_limits :: "('k, 'e) crypto_ext_scheme \<Rightarrow> string \<Rightarrow> extractor_field list \<Rightarrow> xml_limits \<Rightarrow>
    metadata res" where
  "parse_metadata_with_limits E xml extra limits = parse_for_role_with_limits E xml extra limits None"

definition get_entity_id :: "metadata \<Rightarrow> string option" where
  "get_entity_id m = get_str (md_meta m) ''entityID''"

definition metadata_validate_at :: "('k, 'e) crypto_ext_scheme \<Rightarrow> metadata \<Rightarrow> systime \<Rightarrow> unit res" where
  "metadata_validate_at E m now =
     rbind (offset_datetime_from_system_time E now) (\<lambda>n.
       if (case md_valid_until m of Some deadline \<Rightarrow> n \<ge> deadline | None \<Rightarrow> False)
       then Inl (TimeWindowInvalid MetadataValidUntil) else Inr ())"

definition get_name_id_format :: "metadata \<Rightarrow> string list" where
  "get_name_id_format m =
     (case get_path (md_meta m) ''nameIDFormat'' of
        Some (VArray items) \<Rightarrow> some_values as_str items
      | Some (VStr s) \<Rightarrow> [s]
      | _ \<Rightarrow> [])"

definition certificate_value :: "metadata \<Rightarrow> cert_use \<Rightarrow> saml_value option" where
  "certificate_value m u =
     Option.bind (get_path (md_meta m) ''certificate'') (\<lambda>c. get_key c (cert_use_str u))"

definition x509_certificates :: "metadata \<Rightarrow> cert_use \<Rightarrow> string list" where
  "x509_certificates m u =
     (case certificate_value m u of
        Some (VStr s) \<Rightarrow> [s]
      | Some (VArray items) \<Rightarrow> some_values as_str items
      | _ \<Rightarrow> [])"

definition get_x509_certificate :: "metadata \<Rightarrow> cert_use \<Rightarrow> string option" where
  "get_x509_certificate m u =
     (case certificate_value m u of
        Some (VStr c) \<Rightarrow> Some c
      | Some (VArray cs) \<Rightarrow> find_map as_str cs
      | _ \<Rightarrow> None)"

definition get_single_logout_service :: "metadata \<Rightarrow> binding \<Rightarrow> string option" where
  "get_single_logout_service m b = location_for_binding (get_path (md_meta m) ''singleLogoutService'') b"

definition get_support_bindings :: "metadata \<Rightarrow> binding list" where
  "get_support_bindings m =
     filter (\<lambda>b. get_single_logout_service m b \<noteq> None) [Redirect, Post, SimpleSign]"

section \<open>Service provider metadata\<close>

record acs_metadata_endpoint =
  am_binding :: binding
  am_location :: string
  am_index :: "nat option"
  am_is_default :: bool

datatype sp_metadata = SpMetadata (sp_inner: metadata)

definition sp_extra_fields :: "extractor_field list" where
  "sp_extra_fields =
     [with_attrs [''WantAssertionsSigned'', ''AuthnRequestsSigned'']
        (field_new ''spSSODescriptor'' [''EntityDescriptor'', ''SPSSODescriptor'']),
      with_attrs [''Binding'', ''Location'', ''isDefault'', ''index'']
        (field_new ''assertionConsumerService'' [''EntityDescriptor'', ''SPSSODescriptor'', ''AssertionConsumerService''])]"

definition sp_from_xml_with_limits :: "('k, 'e) crypto_ext_scheme \<Rightarrow> string \<Rightarrow> xml_limits \<Rightarrow> sp_metadata res" where
  "sp_from_xml_with_limits E xml limits =
     rmap SpMetadata (parse_for_role_with_limits E xml sp_extra_fields limits (Some ''SPSSODescriptor''))"

definition sp_from_xml :: "('k, 'e) crypto_ext_scheme \<Rightarrow> string \<Rightarrow> sp_metadata res" where
  "sp_from_xml E xml = sp_from_xml_with_limits E xml xml_limits_default"

definition is_want_assertions_signed :: "sp_metadata \<Rightarrow> bool" where
  "is_want_assertions_signed m = (get_str (md_meta (sp_inner m)) ''spSSODescriptor.wantAssertionsSigned'' = Some ''true'')"

definition is_authn_request_signed :: "sp_metadata \<Rightarrow> bool" where
  "is_authn_request_signed m = (get_str (md_meta (sp_inner m)) ''spSSODescriptor.authnRequestsSigned'' = Some ''true'')"

definition acs_metadata_endpoint_from_value :: "saml_value \<Rightarrow> acs_metadata_endpoint option" where
  "acs_metadata_endpoint_from_value v =
     Option.bind (get_str v ''binding'') (\<lambda>urn.
     Option.bind (from_urn urn) (\<lambda>b.
     Option.bind (get_str v ''location'') (\<lambda>l.
       Some \<lparr>am_binding = b, am_location = l, am_index = Option.bind (get_str v ''index'') parse_u16,
         am_is_default = (get_str v ''isDefault'' = Some ''true'')\<rparr>)))"

definition assertion_consumer_service_endpoints :: "sp_metadata \<Rightarrow> acs_metadata_endpoint list" where
  "assertion_consumer_service_endpoints m =
     (case get_path (md_meta (sp_inner m)) ''assertionConsumerService'' of
        None \<Rightarrow> []
      | Some acs \<Rightarrow> some_values acs_metadata_endpoint_from_value (as_object_list acs))"

definition get_assertion_consumer_service_endpoint :: "sp_metadata \<Rightarrow> binding \<Rightarrow> acs_metadata_endpoint option" where
  "get_assertion_consumer_service_endpoint m b =
     List.find (\<lambda>e. am_binding e = b) (assertion_consumer_service_endpoints m)"

definition get_assertion_consumer_service :: "sp_metadata \<Rightarrow> binding \<Rightarrow> string option" where
  "get_assertion_consumer_service m b = map_option am_location (get_assertion_consumer_service_endpoint m b)"

definition get_assertion_consumer_service_by_index :: "sp_metadata \<Rightarrow> nat \<Rightarrow> acs_metadata_endpoint option res" where
  "get_assertion_consumer_service_by_index m i =
     (case filter (\<lambda>e. am_index e = Some i) (assertion_consumer_service_endpoints m) of
        [] \<Rightarrow> Inr None
      | [e] \<Rightarrow> Inr (Some e)
      | _ \<Rightarrow> Inl (Invalid (''duplicate AssertionConsumerService index '' @ show_nat i)))"

definition has_assertion_consumer_service :: "sp_metadata \<Rightarrow> binding \<Rightarrow> string \<Rightarrow> bool" where
  "has_assertion_consumer_service m b l =
     list_ex (\<lambda>e. am_binding e = b \<and> am_location e = l) (assertion_consumer_service_endpoints m)"

section \<open>Identity provider metadata\<close>

datatype idp_metadata = IdpMetadata (idp_inner: metadata)

definition idp_extra_fields :: "extractor_field list" where
  "idp_extra_fields =
     [with_attrs [''WantAuthnRequestsSigned'']
        (field_new ''wantAuthnRequestsSigned'' [''EntityDescriptor'', ''IDPSSODescriptor'']),
      with_attrs [''Location''] (with_aggregate [''Binding''] []
        (field_new ''singleSignOnService'' [''EntityDescriptor'', ''IDPSSODescriptor'', ''SingleSignOnService'']))]"

definition idp_from_xml_with_limits :: "('k, 'e) crypto_ext_scheme \<Rightarrow> string \<Rightarrow> xml_limits \<Rightarrow> idp_metadata res" where
  "idp_from_xml_with_limits E xml limits =
     rmap IdpMetadata (parse_for_role_with_limits E xml idp_extra_fields limits (Some ''IDPSSODescriptor''))"

definition idp_from_xml :: "('k, 'e) crypto_ext_scheme \<Rightarrow> string \<Rightarrow> idp_metadata res" where
  "idp_from_xml E xml = idp_from_xml_with_limits E xml xml_limits_default"

definition is_want_authn_requests_signed :: "idp_metadata \<Rightarrow> bool" where
  "is_want_authn_requests_signed m = (get_str (md_meta (idp_inner m)) ''wantAuthnRequestsSigned'' = Some ''true'')"

definition get_single_sign_on_service :: "idp_metadata \<Rightarrow> binding \<Rightarrow> string option" where
  "get_single_sign_on_service m b =
     Option.bind (get_path (md_meta (idp_inner m)) ''singleSignOnService'') (\<lambda>v.
     Option.bind (get_key v (binding_urn b)) as_str)"

section \<open>Trust and descriptors\<close>

datatype metadata_trust_policy = UnsignedForCompatibility | RequireSignature "string list"

datatype applied_metadata_trust = AppliedUnsigned | SignedByPinnedCertificates string

definition metadata_entity_id :: "metadata \<Rightarrow> string res" where
  "metadata_entity_id m = ok_or (get_entity_id m) (MissingMetadata ''entityID'')"

definition ensure_expected_entity_id :: "entity_id \<Rightarrow> string \<Rightarrow> unit res" where
  "ensure_expected_entity_id expected actual =
     (if entity_id_str expected = actual then Inr ()
      else Inl (Invalid (''metadata entityID `'' @ actual @ ''` did not match expected `'' @ entity_id_str expected @ ''`'')))"

definition verify_pinned_metadata_signature :: "('k, 'e) crypto_ext_scheme \<Rightarrow> metadata \<Rightarrow> string list \<Rightarrow>
    applied_metadata_trust res" where
  "verify_pinned_metadata_signature E m trusted_certificates =
     rbind (verify_metadata_signature_detailed_with_limits E (md_xml m) trusted_certificates xml_limits_default) (\<lambda>v.
       if msv_verified v then
         rbind (ok_or (msv_signed_entity_descriptor_xml v) SignedReferenceMismatch) (\<lambda>x.
           Inr (SignedByPinnedCertificates x))
       else Inl (SignatureVerification XmlSignature))"

definition ensure_metadata_trust :: "('k, 'e) crypto_ext_scheme \<Rightarrow> metadata \<Rightarrow> metadata_trust_policy \<Rightarrow>
    applied_metadata_trust res" where
  "ensure_metadata_trust E m trust =
     (case trust of
        UnsignedForCompatibility \<Rightarrow> Inr AppliedUnsigned
      | RequireSignature trusted_certificates \<Rightarrow> verify_pinned_metadata_signature E m trusted_certificates)"

record 'm peer_descriptor =
  pd_entity_id :: entity_id
  pd_metadata_xml :: string
  pd_metadata :: 'm
  pd_trust :: applied_metadata_trust

type_synonym idp_descriptor = "idp_metadata peer_descriptor"
type_synonym sp_descriptor = "sp_metadata peer_descriptor"

definition idp_from_metadata_xml_for :: "('k, 'e) crypto_ext_scheme \<Rightarrow> entity_id \<Rightarrow> string \<Rightarrow> metadata_trust_policy \<Rightarrow>
    idp_descriptor res" where
  "idp_from_metadata_xml_for E expected xml trust =
     rbind (validate_entity_id expected) (\<lambda>_.
     rbind (idp_from_xml E xml) (\<lambda>m.
     rbind (metadata_entity_id (idp_inner m)) (\<lambda>actual.
     rbind (ensure_expected_entity_id expected actual) (\<lambda>_.
     rbind (ensure_metadata_trust E (idp_inner m) trust) (\<lambda>t.
       Inr \<lparr>pd_entity_id = expected, pd_metadata_xml = xml, pd_metadata = m, pd_trust = t\<rparr>)))))"

definition idp_from_metadata_xml :: "('k, 'e) crypto_ext_scheme \<Rightarrow> string \<Rightarrow> metadata_trust_policy \<Rightarrow> idp_descriptor res" where
  "idp_from_metadata_xml E xml trust =
     rbind (idp_from_xml E xml) (\<lambda>m.
     rbind (rbind (metadata_entity_id (idp_inner m)) entity_id_try_new) (\<lambda>i.
     rbind (ensure_metadata_trust E (idp_inner m) trust) (\<lambda>t.
       Inr \<lparr>pd_entity_id = i, pd_metadata_xml = xml, pd_metadata = m, pd_trust = t\<rparr>)))"

definition sp_from_metadata_xml_for :: "('k, 'e) crypto_ext_scheme \<Rightarrow> entity_id \<Rightarrow> string \<Rightarrow> metadata_trust_policy \<Rightarrow>
    sp_descriptor res" where
  "sp_from_metadata_xml_for E expected xml trust =
     rbind (validate_entity_id expected) (\<lambda>_.
     rbind (sp_from_xml E xml) (\<lambda>m.
     rbind (metadata_entity_id (sp_inner m)) (\<lambda>actual.
     rbind (ensure_expected_entity_id expected actual) (\<lambda>_.
     rbind (ensure_metadata_trust E (sp_inner m) trust) (\<lambda>t.
       Inr \<lparr>pd_entity_id = expected, pd_metadata_xml = xml, pd_metadata = m, pd_trust = t\<rparr>)))))"

definition sp_from_metadata_xml :: "('k, 'e) crypto_ext_scheme \<Rightarrow> string \<Rightarrow> metadata_trust_policy \<Rightarrow> sp_descriptor res" where
  "sp_from_metadata_xml E xml trust =
     rbind (sp_from_xml E xml) (\<lambda>m.
     rbind (rbind (metadata_entity_id (sp_inner m)) entity_id_try_new) (\<lambda>i.
     rbind (ensure_metadata_trust E (sp_inner m) trust) (\<lambda>t.
       Inr \<lparr>pd_entity_id = i, pd_metadata_xml = xml, pd_metadata = m, pd_trust = t\<rparr>)))"

definition was_verified_with_pinned_certificates :: "'m peer_descriptor \<Rightarrow> bool" where
  "was_verified_with_pinned_certificates d =
     (case pd_trust d of SignedByPinnedCertificates _ \<Rightarrow> True | AppliedUnsigned \<Rightarrow> False)"

definition signed_entity_descriptor_xml :: "'m peer_descriptor \<Rightarrow> string option" where
  "signed_entity_descriptor_xml d =
     (case pd_trust d of SignedByPinnedCertificates x \<Rightarrow> Some x | AppliedUnsigned \<Rightarrow> None)"

section \<open>What an import reads\<close>

lemma extract_plain:
  assumes "parse_with_limits E xml L = Inr r" "\<forall>f \<in> set flds. f_shortcut f = None"
  shows "extract_with_limits E xml flds L = Inr (VObject (map (\<lambda>f. (f_key f, extract_field xml r f)) flds))"
proof -
  have "traverse (extract_each E L xml) flds = Inr (map (\<lambda>f. (f_key f, extract_field xml r f)) flds)"
    using assms(2) by (induction flds) (auto simp: extract_each_def assms(1))
  with assms(1) extract_loop_each [of E xml L r None flds "[]"] show ?thesis
    by (auto simp: extract_with_limits_def)
qed

lemma parse_for_role_Inr:
  assumes "parse_for_role_with_limits E xml extra L (Some role) = Inr m" "\<forall>f \<in> set extra. f_shortcut f = None"
  shows "\<exists>root certs. parse_with_limits E xml L = Inr root \<and> local_name root = ''EntityDescriptor''
     \<and> role_children root (Some role) \<noteq> []
     \<and> effective_expiration E root (role_children root (Some role)) = Inr (md_valid_until m)
     \<and> certificates_for_roles (role_children root (Some role)) = Inr certs
     \<and> validate_metadata_namespaces E xml = Inr () \<and> md_xml m = xml
     \<and> md_meta m = insert_key
         (VObject (map (\<lambda>f. (f_key f, extract_field xml root f)) (map (field_for_role role) (base_fields @ extra))))
         ''certificate'' certs"
proof -
  from assms(1) obtain roots root v certs where r: "parse_roots_with_limits E xml L = Inr roots"
    "standalone_entity roots = Inr root" "validate_metadata_namespaces E xml = Inr ()"
    "role_children root (Some role) \<noteq> []"
    "effective_expiration E root (role_children root (Some role)) = Inr (md_valid_until m)"
    "extract_with_limits E xml (map (field_for_role role) (base_fields @ extra)) L = Inr v"
    "certificates_for_roles (role_children root (Some role)) = Inr certs"
    "md_xml m = xml" "md_meta m = insert_key v ''certificate'' certs"
    by (auto simp: parse_for_role_with_limits_def rbind_Inr_iff Let_def split: if_splits)
  from r(6) obtain root' where root': "parse_with_limits E xml L = Inr root'"
    by (auto simp: extract_with_limits_def rbind_Inr_iff)
  with r(1,2) parse_roots_eq [OF root' r(1)] have "root' = root" "local_name root = ''EntityDescriptor''"
    by (auto simp: standalone_entity_def split: if_splits)
  moreover have "\<forall>f \<in> set (map (field_for_role role) (base_fields @ extra)). f_shortcut f = None"
    using assms(2) by (auto simp: base_fields_def field_simps field_for_role_def split: local_path.split)
  ultimately show ?thesis using r root' extract_plain [OF root'] by auto
qed

lemma extra_fields_plain:
  "\<forall>f \<in> set sp_extra_fields. f_shortcut f = None" "\<forall>f \<in> set idp_extra_fields. f_shortcut f = None"
  by (simp_all add: sp_extra_fields_def idp_extra_fields_def field_simps)

definition role_fields :: "string \<Rightarrow> extractor_field list \<Rightarrow> bool" where
  "role_fields role extra \<longleftrightarrow>
     role = ''SPSSODescriptor'' \<and> extra = sp_extra_fields \<or> role = ''IDPSSODescriptor'' \<and> extra = idp_extra_fields"

lemma role_fields_plain: "role_fields role extra \<Longrightarrow> \<forall>f \<in> set extra. f_shortcut f = None"
  using extra_fields_plain by (auto simp: role_fields_def)

section \<open>Keys\<close>

lemma key_descriptor_loop_Inr:
  "key_descriptor_loop ds a b = Inr (sg, en) \<longleftrightarrow>
     (\<forall>d \<in> set ds. node_attr d ''use'' \<in> {None, Some ''signing'', Some ''encryption''})
     \<and> sg = a @ concat (map descriptor_certificates (filter (\<lambda>d. node_attr d ''use'' \<noteq> Some ''encryption'') ds))
     \<and> en = b @ concat (map descriptor_certificates (filter (\<lambda>d. node_attr d ''use'' \<noteq> Some ''signing'') ds))"
  by (induction ds arbitrary: a b) (auto simp: Let_def)

lemma some_values_as_str [simp]: "some_values as_str (map VStr ss) = ss"
  by (induction ss) auto

text \<open>The key descriptors of the imported role, and the purposes a use attribute allows.\<close>

definition role_key_descriptors :: "node \<Rightarrow> string \<Rightarrow> node list" where
  "role_key_descriptors root role =
     concat (map (\<lambda>r. children_named r ''KeyDescriptor'') (role_children root (Some role)))"

fun allows_use :: "cert_use \<Rightarrow> string option \<Rightarrow> bool" where
  "allows_use u None \<longleftrightarrow> True"
| "allows_use u (Some v) \<longleftrightarrow> v = cert_use_str u"

text \<open>
  keys are used for their declared purpose only: the certificates of imported metadata for a
  purpose are exactly those of the key descriptors of the imported role whose use attribute names
  that purpose or is absent, in document order.
\<close>

theorem metadata_keys_by_use:
  assumes "parse_for_role_with_limits E xml extra L (Some role) = Inr m" "role_fields role extra"
  shows "\<exists>root. parse_with_limits E xml L = Inr root \<and> x509_certificates m u =
     concat (map descriptor_certificates
       (filter (\<lambda>d. allows_use u (node_attr d ''use'')) (role_key_descriptors root role)))"
proof -
  from parse_for_role_Inr [OF assms(1) role_fields_plain [OF assms(2)]] obtain root certs es where r:
    "parse_with_limits E xml L = Inr root"
    "certificates_for_roles (role_children root (Some role)) = Inr certs"
    "md_meta m = insert_key (VObject es) ''certificate'' certs" by blast
  then have path: "get_path (md_meta m) ''certificate'' = Some certs"
    by (simp add: get_path_def get_key_insert_key del: insert_key.simps)
  let ?ds = "role_key_descriptors root role"
  from r(2) have ok: "\<forall>d \<in> set ?ds. node_attr d ''use'' \<in> {None, Some ''signing'', Some ''encryption''}"
    and certs: "certs = VObject
       [(''signing'', VArray (map VStr (concat (map descriptor_certificates
            (filter (\<lambda>d. node_attr d ''use'' \<noteq> Some ''encryption'') ?ds))))),
        (''encryption'', VArray (map VStr (concat (map descriptor_certificates
            (filter (\<lambda>d. node_attr d ''use'' \<noteq> Some ''signing'') ?ds)))))]"
    by (auto simp: certificates_for_roles_def rbind_Inr_iff key_descriptor_loop_Inr role_key_descriptors_def)
  have "filter (\<lambda>d. node_attr d ''use'' \<noteq> Some ''encryption'') ?ds = filter (\<lambda>d. allows_use Signing (node_attr d ''use'')) ?ds"
    "filter (\<lambda>d. node_attr d ''use'' \<noteq> Some ''signing'') ?ds = filter (\<lambda>d. allows_use Encryption (node_attr d ''use'')) ?ds"
    using ok by (auto intro!: filter_cong)
  with r(1) certs path show ?thesis
    by (cases u) (auto simp: x509_certificates_def certificate_value_def)
qed

section \<open>Validity\<close>

lemma expiration_loop_Inr:
  "expiration_loop E x ns = Inr r \<Longrightarrow>
     (\<forall>n \<in> set ns. \<forall>v. node_attr n ''validUntil'' = Some v \<longrightarrow>
        (\<exists>s d. parse_saml_utc_date_time v = Some s \<and> rfc3339_parse E s = Some d))
     \<and> (\<forall>t. (\<exists>m. r = Some m \<and> m \<le> t) \<longleftrightarrow>
          (\<exists>m. x = Some m \<and> m \<le> t)
          \<or> (\<exists>n \<in> set ns. \<exists>v s d. node_attr n ''validUntil'' = Some v \<and> parse_saml_utc_date_time v = Some s
               \<and> rfc3339_parse E s = Some d \<and> d \<le> t))"
proof (induction ns arbitrary: x)
  case (Cons n ns)
  show ?case
  proof (cases "node_attr n ''validUntil''")
    case None
    with Cons show ?thesis by simp
  next
    case (Some v)
    with Cons.prems obtain s d where d: "parse_saml_utc_date_time v = Some s" "rfc3339_parse E s = Some d"
      "expiration_loop E (Some (case x of None \<Rightarrow> d | Some c \<Rightarrow> min c d)) ns = Inr r"
      by (auto simp: rbind_Inr_iff ok_or_Inr_iff)
    have "(\<exists>m. Some (case x of None \<Rightarrow> d | Some c \<Rightarrow> min c d) = Some m \<and> m \<le> t) \<longleftrightarrow> (\<exists>m. x = Some m \<and> m \<le> t) \<or> d \<le> t" for t
      by (cases x) (auto simp: min_le_iff_disj)
    with Cons.IH [OF d(3)] d(1,2) Some show ?thesis by auto
  qed
qed auto

text \<open>
  imported metadata is usable exactly before its earliest deadline: the use check passes at an
  instant iff that instant lies strictly before every validUntil of the entity and of its imported
  role descriptors, and the import itself requires all of them to parse.
\<close>

theorem metadata_deadline:
  assumes "parse_for_role_with_limits E xml extra L (Some role) = Inr m" "role_fields role extra"
    "offset_datetime_from_system_time E now = Inr n"
  shows "\<exists>root. parse_with_limits E xml L = Inr root
     \<and> (\<forall>x \<in> insert root (set (role_children root (Some role))). \<forall>v. node_attr x ''validUntil'' = Some v \<longrightarrow>
          (\<exists>s d. parse_saml_utc_date_time v = Some s \<and> rfc3339_parse E s = Some d))
     \<and> (metadata_validate_at E m now = Inr () \<longleftrightarrow>
          (\<forall>x \<in> insert root (set (role_children root (Some role))). \<forall>v s d.
             node_attr x ''validUntil'' = Some v \<longrightarrow> parse_saml_utc_date_time v = Some s \<longrightarrow>
             rfc3339_parse E s = Some d \<longrightarrow> n < d))"
proof -
  from parse_for_role_Inr [OF assms(1) role_fields_plain [OF assms(2)]] obtain root where r:
    "parse_with_limits E xml L = Inr root"
    "expiration_loop E None (root # role_children root (Some role)) = Inr (md_valid_until m)"
    by (auto simp: effective_expiration_def)
  have "metadata_validate_at E m now = Inr () \<longleftrightarrow> \<not> (\<exists>d. md_valid_until m = Some d \<and> d \<le> n)"
    by (auto simp: metadata_validate_at_def assms(3) split: option.split)
  with expiration_loop_Inr [OF r(2)] r(1) show ?thesis by (auto simp: not_less)
qed

section \<open>Namespaces\<close>

fun path_parent :: "(string \<times> string option) list \<Rightarrow> string option" where
  "path_parent (x # y # _) = Some (fst y)"
| "path_parent _ = None"

definition metadata_path_ok :: "(string \<times> string option) list \<Rightarrow> bool" where
  "metadata_path_ok path \<longleftrightarrow>
     (metadata_vocabulary (path_parent path) (fst (hd path)) \<longrightarrow> in_ns (snd (hd path)) NS_METADATA)"

lemma metadata_element_path:
  "metadata_element_ok (stack_parent (map fst names)) ns l as = Inr () \<Longrightarrow> metadata_path_ok ((l, ns) # names)"
  by (cases names) (auto simp: metadata_element_ok_def metadata_path_ok_def stack_parent_def in_ns_def split: if_splits)

lemma metadata_loop_paths:
  "metadata_loop E (map fst names) steps = Inr () \<Longrightarrow> list_all metadata_path_ok (element_paths E steps names)"
proof (induction E steps names rule: element_paths.induct)
  case (3 E rr ev steps names)
  from 3(5) obtain ns where ns: "signature_namespace E rr = Inr ns" by (auto simp: rbind_Inr_iff)
  show ?case
    using 3 ns by (cases ev) (auto simp: rbind_Inr_iff map_tl dest: metadata_element_path)
qed auto

text \<open>
  The paths of local names under which the import finds elements: those of the fields of a role, down to the
  elements of a key, which are not of the metadata vocabulary.
\<close>

definition imported_paths :: "string \<Rightarrow> string list list" where
  "imported_paths role =
     map (\<lambda>f. case f_local_path (field_for_role role f) of
            LSingle p \<Rightarrow> takeWhile (\<lambda>n. n \<noteq> ''KeyInfo'') p | LMulti ps \<Rightarrow> [])
       (base_fields @ (if role = ''SPSSODescriptor'' then sp_extra_fields else idp_extra_fields))"

lemma imported_paths_simps:
  "imported_paths ''SPSSODescriptor'' =
     [[''EntityDescriptor''], [''EntityDescriptor'', ''SPSSODescriptor'', ''KeyDescriptor''],
      [''EntityDescriptor'', ''SPSSODescriptor'', ''KeyDescriptor''], [''EntityDescriptor'', ''SPSSODescriptor'', ''SingleLogoutService''],
      [''EntityDescriptor'', ''SPSSODescriptor'', ''NameIDFormat''], [''EntityDescriptor'', ''SPSSODescriptor''],
      [''EntityDescriptor'', ''SPSSODescriptor'', ''AssertionConsumerService'']]"
  "imported_paths ''IDPSSODescriptor'' =
     [[''EntityDescriptor''], [''EntityDescriptor'', ''IDPSSODescriptor'', ''KeyDescriptor''],
      [''EntityDescriptor'', ''IDPSSODescriptor'', ''KeyDescriptor''], [''EntityDescriptor'', ''IDPSSODescriptor'', ''SingleLogoutService''],
      [''EntityDescriptor'', ''IDPSSODescriptor'', ''NameIDFormat''], [''EntityDescriptor'', ''IDPSSODescriptor''],
      [''EntityDescriptor'', ''IDPSSODescriptor'', ''SingleSignOnService'']]"
  by (simp_all add: imported_paths_def base_fields_def sp_extra_fields_def idp_extra_fields_def field_for_role_def field_simps)

lemma element_paths_open: "path \<in> set (element_paths E steps names) \<Longrightarrow> path \<noteq> []"
  by (induction E steps names rule: element_paths.induct) (auto simp: Let_def split: ns_event.splits)

lemma imported_vocabulary:
  assumes "role \<in> {''SPSSODescriptor'', ''IDPSSODescriptor''}" "p \<in> set (imported_paths role)" "prefix (r @ [l]) p"
  shows "metadata_vocabulary (if r = [] then None else Some (last r)) l"
proof -
  consider "r = []" | a where "r = [a]" | a b where "r = [a, b]" | a b c d where "r = a # b # c # d"
    by (metis neq_Nil_conv)
  then show ?thesis
    using assms by cases (auto simp: imported_paths_simps metadata_vocabulary_def)
qed

text \<open>
  C35: in metadata that passes the namespace check, every element that stands on the path of an imported field of a
  role, by the local names from the root down to the key descriptors, endpoints and formats, is in the metadata
  namespace or in no namespace. The elements inside a key descriptor are not checked.
\<close>

theorem metadata_namespaces:
  assumes "validate_metadata_namespaces E xml = Inr ()" "path \<in> set (element_paths E (ns_read_default E xml) [])"
    "role \<in> {''SPSSODescriptor'', ''IDPSSODescriptor''}" "p \<in> set (imported_paths role)" "prefix (rev (map fst path)) p"
  shows "in_ns (snd (hd path)) NS_METADATA"
proof -
  obtain l ns rest where path: "path = (l, ns) # rest"
    using element_paths_open [OF assms(2)] by (cases path) auto
  have "path_parent path = (if rev (map fst rest) = [] then None else Some (last (rev (map fst rest))))"
    by (cases rest) (simp_all add: path)
  moreover have "metadata_path_ok path"
    using metadata_loop_paths [of E "[]"] assms(1,2) by (simp add: validate_metadata_namespaces_def list_all_iff)
  ultimately show ?thesis
    using imported_vocabulary [OF assms(3,4), of "rev (map fst rest)" l] assms(5) by (simp add: path metadata_path_ok_def split: if_splits)
qed

section \<open>One role\<close>

definition own_role :: "string \<Rightarrow> node \<Rightarrow> node" where
  "own_role role root =
     Node (local_name root) (attrs root) (role_children root (Some role)) (node_text root) (node_start root) (node_end root)"

lemma own_role_simps [simp]:
  "local_name (own_role role root) = local_name root" "attrs (own_role role root) = attrs root"
  "node_text (own_role role root) = node_text root" "node_attr (own_role role root) a = node_attr root a"
  "role_children (own_role role root) (Some role) = role_children root (Some role)"
  by (simp_all add: own_role_def node_attr_def role_children_def)

lemma own_role_step:
  "seg_matches role role \<Longrightarrow> (\<And>l. seg_matches l role \<longleftrightarrow> l = role) \<Longrightarrow>
     select_step [own_role role root] role = select_step [root] role"
  by (simp add: select_step_def own_role_def role_children_def)

lemma select_own_role:
  assumes "role \<in> {''SPSSODescriptor'', ''IDPSSODescriptor''}"
  shows "select_path (own_role role root) (e # role # rest) = select_path root (e # role # rest)"
proof -
  have "\<And>l. seg_matches l role \<longleftrightarrow> l = role" using assms by (auto simp: seg_matches_def strip_prefix_def)
  then show ?thesis using own_role_step by simp
qed

lemma extract_own_role:
  assumes "role_fields role extra" "f \<in> set (map (field_for_role role) (base_fields @ extra))"
  shows "extract_field src (own_role role root) f = extract_field src root f"
proof -
  have r: "role \<in> {''SPSSODescriptor'', ''IDPSSODescriptor''}" using assms(1) by (auto simp: role_fields_def)
  have root: "find_map (\<lambda>n. node_attr n a) (select_path (own_role role root) [e]) =
      find_map (\<lambda>n. node_attr n a) (select_path root [e])" for a e
    by simp
  show ?thesis
    using assms select_own_role [OF r] root
    by (auto simp: role_fields_def base_fields_def sp_extra_fields_def idp_extra_fields_def field_for_role_def
        field_simps extract_field_def Let_def simp del: select_path.simps split: option.split)
qed

text \<open>
  nothing is read from the descriptor of another role: the values of imported metadata are those
  extracted from the document without the descriptors of other roles, and its certificates are those
  of the imported role.
\<close>

theorem metadata_reads_own_role:
  assumes "parse_for_role_with_limits E xml extra L (Some role) = Inr m" "role_fields role extra"
  shows "\<exists>root certs. parse_with_limits E xml L = Inr root
     \<and> certificates_for_roles (role_children (own_role role root) (Some role)) = Inr certs
     \<and> md_meta m = insert_key
         (VObject (map (\<lambda>f. (f_key f, extract_field xml (own_role role root) f))
           (map (field_for_role role) (base_fields @ extra)))) ''certificate'' certs"
proof -
  let ?flds = "map (field_for_role role) (base_fields @ extra)"
  from parse_for_role_Inr [OF assms(1) role_fields_plain [OF assms(2)]] obtain root certs where r:
    "parse_with_limits E xml L = Inr root" "certificates_for_roles (role_children root (Some role)) = Inr certs"
    "md_meta m = insert_key (VObject (map (\<lambda>f. (f_key f, extract_field xml root f)) ?flds)) ''certificate'' certs"
    by blast
  have "map (\<lambda>f. (f_key f, extract_field xml (own_role role root) f)) ?flds =
      map (\<lambda>f. (f_key f, extract_field xml root f)) ?flds"
    by (rule map_cong [OF refl]) (simp only: extract_own_role [OF assms(2)])
  with r show ?thesis
    by (intro exI [of _ root] exI [of _ certs]) (simp only: own_role_simps simp_thms)
qed

section \<open>Signed metadata\<close>

lemma verified_entity:
  assumes "verified_content r xml ts = Inr (Some x)" "local_name r = ''EntityDescriptor''"
  shows "target_matches_node ts r \<and> x = node_source xml r"
proof -
  have "\<not> str_contains ''EntityDescriptor'' ''Response''" by (simp add: str_contains_def sublist_Cons_right)
  with assms show ?thesis by (auto simp: verified_content_def split: if_splits)
qed

lemma pinned_import:
  assumes "ensure_metadata_trust E m (RequireSignature certs) = Inr t" "parse_with_limits E (md_xml m) xml_limits_default = Inr root"
    "local_name root = ''EntityDescriptor''"
  shows "t = SignedByPinnedCertificates (node_source (md_xml m) root)
     \<and> (\<exists>cert \<in> set certs. \<exists>key refs. load_certificate E cert = Inr key
          \<and> dsig_verify E (pinned_context key) (md_xml m) = Inr (VrValid refs)
          \<and> (\<exists>ref \<in> set refs. reference_selects ref root root))"
proof -
  from assms(1) obtain x where x: "verify_signature_with_limits E (md_xml m) certs xml_limits_default = Inr (True, Some x)"
    "t = SignedByPinnedCertificates x"
    by (auto simp: ensure_metadata_trust_def verify_pinned_metadata_signature_def rbind_Inr_iff ok_or_Inr_iff
        verify_metadata_signature_detailed_with_limits_def split: if_splits)
  then obtain r where pre: "verification_preamble E (md_xml m) certs xml_limits_default = Inr (r, True)"
    and loop: "verify_loop E r (md_xml m) certs False None False None = Inr (True, Some x)"
    by (auto simp: verify_signature_with_limits_def rbind_Inr_iff split: if_splits)
  have r: "r = root" using verification_preamble_Inr(1) [OF pre] assms(2) by simp
  from verify_loop_True [OF loop] obtain cert key refs ts where c: "cert \<in> set certs" "load_certificate E cert = Inr key"
    "dsig_verify E (pinned_context key) (md_xml m) = Inr (VrValid refs)" "verified_targets refs = Inr ts"
    "verified_content r (md_xml m) ts = Inr (Some x)" by (auto simp: verified_by_def)
  from verified_entity [OF c(5)] assms(3) r have "target_matches_node ts root" "x = node_source (md_xml m) root" by simp_all
  with id_target_selects(1) [OF c(4) verification_preamble_Inr(2) [OF pre] self_in_subnodes] r c(1-3) x(2)
  show ?thesis by blast
qed

text \<open>
  C27: metadata imported under a signature policy is what was signed: the descriptor kept as signed is
  the source of the document root from which every value was read, a pinned certificate that is the
  only trusted key verified it, a verified reference selects the root, and the root carries the
  expected entity identifier.
\<close>

theorem metadata_import_signed:
  assumes "idp_from_metadata_xml_for E expected xml (RequireSignature certs) = Inr d"
  shows "\<exists>root. parse_with_limits E xml xml_limits_default = Inr root
     \<and> pd_trust d = SignedByPinnedCertificates (node_source xml root)
     \<and> (\<exists>cert \<in> set certs. \<exists>key refs. load_certificate E cert = Inr key
          \<and> dsig_verify E (pinned_context key) xml = Inr (VrValid refs)
          \<and> (\<exists>ref \<in> set refs. reference_selects ref root root))
     \<and> node_attr root ''entityID'' = Some (entity_id_str expected)"
proof -
  from assms obtain m where m: "parse_for_role_with_limits E xml idp_extra_fields xml_limits_default (Some ''IDPSSODescriptor'') = Inr m"
    "get_entity_id m = Some (entity_id_str expected)"
    "ensure_metadata_trust E m (RequireSignature certs) = Inr (pd_trust d)"
    by (auto simp: idp_from_metadata_xml_for_def idp_from_xml_def idp_from_xml_with_limits_def rbind_Inr_iff
        rmap_Inr_iff metadata_entity_id_def ok_or_Inr_iff ensure_expected_entity_id_def split: if_splits)
  from parse_for_role_Inr [OF m(1) extra_fields_plain(2)] obtain root certs' where r:
    "parse_with_limits E xml xml_limits_default = Inr root" "local_name root = ''EntityDescriptor''" "md_xml m = xml"
    "md_meta m = insert_key
         (VObject (map (\<lambda>f. (f_key f, extract_field xml root f))
            (map (field_for_role ''IDPSSODescriptor'') (base_fields @ idp_extra_fields))))
         ''certificate'' certs'" by blast
  have "get_entity_id m = node_attr root ''entityID''"
    using r(2)
    by (simp add: get_entity_id_def get_str_def get_path_def r(4) get_key_insert_key base_fields_def
        field_for_role_def field_simps extract_field_def seg_matches_def strip_prefix_def
        del: insert_key.simps split: option.split)
  with pinned_import [OF m(3)] r m(2) show ?thesis by auto
qed

section \<open>Single sign-on endpoints\<close>

definition sso_services :: "node \<Rightarrow> node list" where
  "sso_services root = select_path root [''EntityDescriptor'', ''IDPSSODescriptor'', ''SingleSignOnService'']"

lemma foldl_aggregate_as_str: "vs \<noteq> [] \<Longrightarrow> as_str (foldl aggregate_slot v vs) = None"
proof -
  have "as_str (foldl aggregate_slot (VArray ws) vs) = None" for ws vs
    by (simp add: foldl_aggregate_array)
  moreover assume "vs \<noteq> []"
  then obtain u us where "vs = u # us" by (cases vs) auto
  moreover have "\<exists>ws. aggregate_slot v u = VArray ws" by (cases v) auto
  ultimately show ?thesis by auto
qed

lemma aggregated_location:
  assumes "get_path (md_meta m) ''singleSignOnService'' = Some (aggregate ns [''Binding''] [] [''Location''])"
  shows "get_single_sign_on_service (IdpMetadata m) b =
    (case filter (\<lambda>n. node_attr n ''Binding'' = Some (binding_urn b)) ns of [n] \<Rightarrow> node_attr n ''Location'' | _ \<Rightarrow> None)"
proof -
  let ?g = "\<lambda>n. str_or_empty (node_attr n ''Binding'')" and ?u = "binding_urn b"
  let ?h = "aggregate_values [] [''Location'']"
  have ns: "filter (\<lambda>n. ?g n = ?u) ns = filter (\<lambda>n. node_attr n ''Binding'' = Some ?u) ns"
    by (rule filter_cong) (cases b; auto simp: str_or_empty_def split: option.split)+
  have h: "as_str (?h n) = node_attr n ''Location''" for n
    by (auto simp: aggregate_values_def descend_def one_or_array_def split: option.split)
  have "get_single_sign_on_service (IdpMetadata m) b =
      (case filter (\<lambda>n. node_attr n ''Binding'' = Some ?u) ns of
         [] \<Rightarrow> None | n # ns \<Rightarrow> as_str (foldl aggregate_slot (?h n) (map ?h ns)))"
    by (simp add: get_single_sign_on_service_def assms aggregate_def zip_object_def zip_loop_aggregate_lookup
        values_for_zip_map ns split: list.split)
  moreover have "as_str (foldl aggregate_slot (?h n) (map ?h ns)) = (if ns = [] then node_attr n ''Location'' else None)" for n ns
    using h foldl_aggregate_as_str by simp
  ultimately show ?thesis by (auto split: list.splits)
qed

text \<open>
  C36: the single sign-on location of a binding is found exactly when one SingleSignOnService element
  of the identity provider descriptor has that binding and it has a Location: two endpoints of the
  same binding, which the metadata schema allows, give none.
\<close>

theorem idp_sso_lookup:
  assumes "idp_from_xml_with_limits E xml L = Inr m"
  shows "\<exists>root. parse_with_limits E xml L = Inr root
     \<and> (get_single_sign_on_service m b = Some l \<longleftrightarrow>
          (\<exists>n. filter (\<lambda>n. node_attr n ''Binding'' = Some (binding_urn b)) (sso_services root) = [n]
             \<and> node_attr n ''Location'' = Some l))"
proof -
  from assms obtain m' where m: "m = IdpMetadata m'"
    "parse_for_role_with_limits E xml idp_extra_fields L (Some ''IDPSSODescriptor'') = Inr m'"
    by (auto simp: idp_from_xml_with_limits_def rmap_Inr_iff)
  from parse_for_role_Inr [OF m(2) extra_fields_plain(2)] obtain root certs where r:
    "parse_with_limits E xml L = Inr root"
    "md_meta m' = insert_key (VObject (map (\<lambda>f. (f_key f, extract_field xml root f))
        (map (field_for_role ''IDPSSODescriptor'') (base_fields @ idp_extra_fields)))) ''certificate'' certs" by blast
  have "get_path (md_meta m') ''singleSignOnService'' = Some (aggregate (sso_services root) [''Binding''] [] [''Location''])"
    by (simp add: r(2) get_path_def get_key_insert_key base_fields_def idp_extra_fields_def field_for_role_def field_simps
        extract_field_def sso_services_def del: insert_key.simps select_path.simps)
  from aggregated_location [OF this] show ?thesis
    using r(1) by (auto simp: m(1) split: list.splits)
qed

section \<open>A signed identity provider\<close>

definition meta_text :: string where
  "meta_text = ''<E><S/><I><V/><K/></I></E>''"

definition meta_steps :: "xml_step list" where
  "meta_steps =
     [XEvent 0 3 (EvStart ''EntityDescriptor''
        [AttrItem ''ID'' (Inr ''a'') False, AttrItem ''entityID'' (Inr ''idp'') False,
         AttrItem ''validUntil'' (Inr ''2024-01-01T00:00:00Z'') False]),
      XEvent 3 7 (EvEmpty ''Signature'' []), XEvent 7 10 (EvStart ''IDPSSODescriptor'' []),
      XEvent 10 14 (EvEmpty ''SingleSignOnService''
        [AttrItem ''Binding'' (Inr (binding_urn Redirect)) False, AttrItem ''Location'' (Inr ''sso'') False]),
      XEvent 14 14 (EvStart ''KeyDescriptor'' []), XEvent 14 14 (EvStart ''KeyInfo'' []),
      XEvent 14 14 (EvStart ''X509Data'' []), XEvent 14 14 (EvStart ''X509Certificate'' []),
      XEvent 14 18 (EvText (Inr ''C'')), XEvent 18 18 EvEnd, XEvent 18 18 EvEnd, XEvent 18 18 EvEnd, XEvent 18 18 EvEnd,
      XEvent 18 22 EvEnd, XEvent 22 26 EvEnd]"

definition meta_ns :: "ns_step list" where
  "meta_ns =
     [NsEvent (Bound NS_METADATA) (NsStart ''EntityDescriptor'' []), NsEvent (Bound NS_DSIG) (NsEmpty ''Signature'' []),
      NsEvent (Bound NS_METADATA) NsEnd]"

definition meta_ext :: "unit crypto_ext" where
  "meta_ext = sample_crypto\<lparr>xml_read := (\<lambda>_. meta_steps), ns_read_default := (\<lambda>_. meta_ns)\<rparr>"

lemma meta_ext_simps [simp]:
  "xml_read meta_ext s = meta_steps" "ns_read_default meta_ext s = meta_ns" "ns_normalize meta_ext = Inr"
  "dsig_verify meta_ext c s = Inr (VrValid [sample_reference])" "load_certificate meta_ext sample_cert = Inr ()"
  "rfc3339_parse meta_ext = rfc3339_parse sample_time" "ensure_crypto_provider_initialized meta_ext = Inr ()"
  using sample_load
  by (simp_all add: meta_ext_def sample_crypto_def wire_ext.defs sample_wire_def ns_ext.defs sample_ns_def net_ext.defs
      sample_net_def xml_ext.defs sample_xml_def time_ext.defs sample_time_def load_certificate_def
      ensure_crypto_provider_initialized_def initialize_crypto_provider_def)

definition meta_role :: node where
  "meta_role = Node ''IDPSSODescriptor'' []
     [Node ''SingleSignOnService'' [(''Binding'', binding_urn Redirect), (''Location'', ''sso'')] [] [] 10 14,
      Node ''KeyDescriptor'' [] [Node ''KeyInfo'' [] [Node ''X509Data'' []
        [Node ''X509Certificate'' [] [] ''C'' 14 18] [] 14 18] [] 14 18] [] 14 18] [] 7 22"

definition meta_tree :: node where
  "meta_tree = Node ''EntityDescriptor'' [(''ID'', ''a''), (''entityID'', ''idp''), (''validUntil'', ''2024-01-01T00:00:00Z'')]
     [Node ''Signature'' [] [] [] 3 7, meta_role] [] 0 26"

text \<open>A reader that knows the sample metadata.\<close>

definition reads_meta :: "('k, 'e) crypto_ext_scheme \<Rightarrow> bool" where
  "reads_meta E \<longleftrightarrow> xml_read E meta_text = meta_steps \<and> ns_read_default E meta_text = meta_ns
     \<and> ns_normalize E = Inr \<and> rfc3339_parse E = rfc3339_parse sample_time"

lemma meta_reads: "reads_meta meta_ext"
  by (simp add: reads_meta_def)

lemma meta_parse:
  assumes "reads_meta E"
  shows "parse_with_limits E meta_text xml_limits_default = Inr meta_tree"
    "parse_roots_with_limits E meta_text xml_limits_default = Inr [meta_tree]"
  using assms
  unfolding parse_roots_with_limits_def parse_with_limits_Inr parse_roots_inner_Inr reads_meta_def
  by (simp_all add: meta_steps_def open_node_def checked_node_count_def usize_checked_add_def usize_max_def
      check_depth_def usize_sat_add_def read_attrs_def push_child_def add_child_def set_end_def append_top_def
      set_text_def checked_append_text_def xml_limits_default_def find_lt_def Dom.slice_def meta_tree_def meta_role_def)
    (simp_all add: meta_text_def)

lemma meta_role_children: "role_children meta_tree (Some ''IDPSSODescriptor'') = [meta_role]"
  by (simp add: role_children_def meta_tree_def meta_role_def)

lemma meta_date: "parse_saml_utc_date_time ''2024-01-01T00:00:00Z'' = Some ''2024-01-01T00:00:00Z''"
  by code_simp

lemma meta_namespaces: "reads_meta E \<Longrightarrow> validate_metadata_namespaces E meta_text = Inr ()"
  by (simp add: reads_meta_def validate_metadata_namespaces_def meta_ns_def signature_namespace_def metadata_element_ok_def
      metadata_vocabulary_def stack_parent_def)

text \<open>The metadata value of the sample.\<close>

definition meta_value :: saml_value where
  "meta_value = VObject
     [(''entityID'', VStr ''idp''), (''sharedCertificate'', VStr ''C''),
      (''certificate'', VObject [(''signing'', VArray [VStr ''C'']), (''encryption'', VArray [VStr ''C''])]),
      (''singleLogoutService'', VArray []), (''nameIDFormat'', VNull), (''wantAuthnRequestsSigned'', VNull),
      (''singleSignOnService'', VObject [(binding_urn Redirect, VStr ''sso'')])]"

definition meta_model :: metadata where
  "meta_model = \<lparr>md_xml = meta_text, md_meta = meta_value, md_valid_until = Some (Odt (1704067200 * ns_per_sec))\<rparr>"

lemma meta_idp:
  assumes "reads_meta E"
  shows "parse_for_role_with_limits E meta_text idp_extra_fields xml_limits_default (Some ''IDPSSODescriptor'') = Inr meta_model"
    "get_entity_id meta_model = Some ''idp''" "md_xml meta_model = meta_text"
proof -
  have plain: "\<forall>f \<in> set (map (field_for_role ''IDPSSODescriptor'') (base_fields @ idp_extra_fields)). f_shortcut f = None"
    by (auto simp: base_fields_def idp_extra_fields_def field_simps field_for_role_def)
  let ?flds = "map (field_for_role ''IDPSSODescriptor'') (base_fields @ idp_extra_fields)"
  have x: "extract_with_limits E meta_text ?flds xml_limits_default =
      Inr (VObject (map (\<lambda>f. (f_key f, extract_field meta_text meta_tree f)) ?flds))"
    by (rule extract_plain [OF meta_parse(1) [OF assms] plain])
  have l: "local_name meta_tree = ''EntityDescriptor''" by (simp add: meta_tree_def)
  have e: "effective_expiration E meta_tree [meta_role] = Inr (Some (Odt (1704067200 * ns_per_sec)))"
    using assms
    by (simp add: effective_expiration_def meta_tree_def meta_role_def node_attr_def meta_date sample_time_def reads_meta_def)
  have c: "certificates_for_roles [meta_role] =
      Inr (VObject [(''signing'', VArray [VStr ''C'']), (''encryption'', VArray [VStr ''C''])])"
    by (simp add: certificates_for_roles_def meta_role_def children_named_def node_attr_def descriptor_certificates_def)
  have v: "insert_key (VObject (map (\<lambda>f. (f_key f, extract_field meta_text meta_tree f)) ?flds)) ''certificate''
      (VObject [(''signing'', VArray [VStr ''C'']), (''encryption'', VArray [VStr ''C''])]) = meta_value"
    by (simp add: base_fields_def idp_extra_fields_def field_for_role_def field_simps extract_field_def meta_tree_def
        meta_role_def seg_matches_def strip_prefix_def node_attr_def select_step_def meta_value_def aggregate_def
        zip_object_def descend_def aggregate_values_def one_or_array_def str_or_empty_def zip_step_def)
  show "parse_for_role_with_limits E meta_text idp_extra_fields xml_limits_default (Some ''IDPSSODescriptor'') = Inr meta_model"
    using x l e c v
    by (simp add: parse_for_role_with_limits_def meta_parse [OF assms] standalone_entity_def meta_namespaces [OF assms]
        meta_role_children meta_model_def del: map_append map_map insert_key.simps)
  show "get_entity_id meta_model = Some ''idp''" "md_xml meta_model = meta_text"
    by (simp_all add: get_entity_id_def get_str_def get_path_def meta_model_def meta_value_def)
qed

lemmas meta_idp_sample = meta_idp [OF meta_reads]
lemmas meta_parse_sample = meta_parse [OF meta_reads]

lemma meta_role_fields: "role_fields ''IDPSSODescriptor'' idp_extra_fields"
  by (simp add: role_fields_def)

lemma metadata_keys_by_use_witness:
  "\<exists>m. parse_for_role_with_limits meta_ext meta_text idp_extra_fields xml_limits_default (Some ''IDPSSODescriptor'') = Inr m
     \<and> x509_certificates m Signing = [''C'']"
proof -
  obtain m where m: "parse_for_role_with_limits meta_ext meta_text idp_extra_fields xml_limits_default
      (Some ''IDPSSODescriptor'') = Inr m" using meta_idp_sample by blast
  from metadata_keys_by_use [OF m meta_role_fields, of Signing] m show ?thesis
    by (auto simp: meta_parse_sample role_key_descriptors_def meta_role_children)
      (simp add: meta_role_def children_named_def node_attr_def descriptor_certificates_def)
qed

lemma meta_instant: "offset_datetime_from_system_time meta_ext (SysTime 0) = Inr (Odt 0)"
  by (simp add: offset_datetime_from_system_time_def since_unix_epoch_def unix_epoch_def meta_ext_def sample_crypto_def
      wire_ext.defs sample_wire_def ns_ext.defs sample_ns_def net_ext.defs sample_net_def xml_ext.defs sample_xml_def
      time_ext.defs sample_time_def)

lemma metadata_deadline_witness:
  "\<exists>m. parse_for_role_with_limits meta_ext meta_text idp_extra_fields xml_limits_default (Some ''IDPSSODescriptor'') = Inr m
     \<and> metadata_validate_at meta_ext m (SysTime 0) = Inr ()"
proof -
  obtain m where m: "parse_for_role_with_limits meta_ext meta_text idp_extra_fields xml_limits_default
      (Some ''IDPSSODescriptor'') = Inr m" using meta_idp_sample by blast
  from metadata_deadline [OF m meta_role_fields meta_instant] m show ?thesis
    by (auto simp: meta_parse_sample meta_role_children)
      (auto simp: meta_tree_def meta_role_def node_attr_def meta_date sample_time_def less_odt_def)
qed

lemma metadata_namespaces_witness: "in_ns (Some NS_METADATA) NS_METADATA"
proof -
  have "[(''EntityDescriptor'', Some NS_METADATA)] \<in> set (element_paths meta_ext (ns_read_default meta_ext meta_text) [])"
    using meta_reads by (simp add: reads_meta_def meta_ns_def signature_namespace_def Let_def)
  from metadata_namespaces [OF meta_namespaces [OF meta_reads] this, of "''IDPSSODescriptor''" "[''EntityDescriptor'']"] show ?thesis
    by (simp add: imported_paths_simps)
qed

lemma metadata_reads_own_role_witness:
  "\<exists>root. parse_with_limits meta_ext meta_text xml_limits_default = Inr root
     \<and> children (own_role ''IDPSSODescriptor'' root) = [meta_role]"
proof -
  obtain m where m: "parse_for_role_with_limits meta_ext meta_text idp_extra_fields xml_limits_default
      (Some ''IDPSSODescriptor'') = Inr m" using meta_idp_sample by blast
  from metadata_reads_own_role [OF m meta_role_fields] show ?thesis
    by (auto simp: meta_parse_sample own_role_def meta_role_children)
qed

lemma idp_sso_lookup_witness:
  "\<exists>m. idp_from_xml_with_limits meta_ext meta_text xml_limits_default = Inr m
     \<and> get_single_sign_on_service m Redirect = Some ''sso''"
proof -
  obtain m where m: "idp_from_xml_with_limits meta_ext meta_text xml_limits_default = Inr m"
    using meta_idp_sample by (auto simp: idp_from_xml_with_limits_def)
  have "sso_services meta_tree =
      [Node ''SingleSignOnService'' [(''Binding'', binding_urn Redirect), (''Location'', ''sso'')] [] [] 10 14]"
    by (simp add: sso_services_def meta_tree_def meta_role_def seg_matches_def strip_prefix_def select_step_def)
  with idp_sso_lookup [OF m, of Redirect "''sso''"] m show ?thesis
    by (auto simp: meta_parse_sample node_attr_def)
qed

lemma metadata_import_signed_witness:
  "\<exists>d. idp_from_metadata_xml_for meta_ext (EntityId ''idp'') meta_text (RequireSignature [sample_cert]) = Inr d
     \<and> pd_trust d = SignedByPinnedCertificates meta_text"
proof -
  obtain m where m: "parse_for_role_with_limits meta_ext meta_text idp_extra_fields xml_limits_default
      (Some ''IDPSSODescriptor'') = Inr m" "get_entity_id m = Some ''idp''" "md_xml m = meta_text" using meta_idp_sample by blast
  have src: "node_source meta_text meta_tree = meta_text"
    by (simp add: node_source_def Dom.slice_def meta_tree_def meta_text_def)
  have pre: "preflight_backend_signatures meta_ext meta_text = Inr ()"
    by (simp add: preflight_backend_signatures_def meta_ns_def signature_namespace_def preflight_open_def
        preflight_signature_element_def signature_position_def)
  have nr: "\<not> str_contains ''EntityDescriptor'' ''Response''" by (simp add: str_contains_def sublist_Cons_right)
  have "verification_preamble meta_ext meta_text [sample_cert] xml_limits_default = Inr (meta_tree, True)"
    using nr
    by (simp add: verification_preamble_def meta_parse_sample pre duplicate_saml_id_eq)
      (simp add: meta_tree_def meta_role_def saml_ids_def id_values_def saml_id_attr_def
        saml_signature_candidates_def children_named_def preflight_saml_reference_uris_def signature_references_def
        ensure_signature_transforms_preserve_content_def inline_certificate_allowed_def inline_signature_cert_def)
  moreover have "verified_content meta_tree meta_text [TargetId ''a''] = Inr (Some meta_text)"
    using nr by (simp add: verified_content_def src target_matches_node_def) (simp add: meta_tree_def node_saml_id_def node_attr_def)
  ultimately have "verify_signature_with_limits meta_ext meta_text [sample_cert] xml_limits_default = Inr (True, Some meta_text)"
    by (simp add: verify_signature_with_limits_def verified_targets_def verified_target_of_def
        sample_reference_def is_external_reference_def verified_target_from_uri_def strip_prefix_def)
  moreover have "ensure_metadata_signature_transforms_preserve_descriptor meta_tree = Inr ()"
    by (simp add: ensure_metadata_signature_transforms_preserve_descriptor_def meta_tree_def meta_role_def children_named_def
        ensure_signature_transforms_preserve_content_def signature_references_def)
  ultimately have t: "ensure_metadata_trust meta_ext m (RequireSignature [sample_cert]) = Inr (SignedByPinnedCertificates meta_text)"
    by (simp add: ensure_metadata_trust_def verify_pinned_metadata_signature_def m(3)
        verify_metadata_signature_detailed_with_limits_def meta_parse_sample)
  have "\<not> is_blank ''idp''" by code_simp
  with m t obtain d where d: "idp_from_metadata_xml_for meta_ext (EntityId ''idp'') meta_text (RequireSignature [sample_cert]) = Inr d"
    by (simp add: idp_from_metadata_xml_for_def idp_from_xml_def idp_from_xml_with_limits_def metadata_entity_id_def
        ensure_expected_entity_id_def validate_entity_id_def validate_entity_id_text_def)
  from metadata_import_signed [OF d] d show ?thesis by (auto simp: meta_parse_sample src)
qed

end
