(* ===== verification/Metadata_Gen.thy ===== *)
theory Metadata_Gen
  imports Writer Metadata
begin

text \<open>
  Generated entity metadata (\<open>src/src/metadata/generate.rs\<close>). The generated text is what the writer of
  \<open>quick_xml\<close> makes of the events written; reading it back is the contract between that crate's
  writer and its readers.
\<close>

section \<open>Configuration\<close>

record sp_metadata_config =
  sc_entity_id :: string
  sc_signing_certs :: "string list"
  sc_encrypt_certs :: "string list"
  sc_authn_requests_signed :: bool
  sc_want_assertions_signed :: bool
  sc_name_id_format :: "string list"
  sc_single_logout_service :: "raw_endpoint list"
  sc_assertion_consumer_service :: "raw_endpoint list"
  sc_elements_order :: "string list option"

record idp_metadata_config =
  ic_entity_id :: string
  ic_signing_certs :: "string list"
  ic_encrypt_certs :: "string list"
  ic_want_authn_requests_signed :: bool
  ic_name_id_format :: "string list"
  ic_single_sign_on_service :: "raw_endpoint list"
  ic_single_logout_service :: "raw_endpoint list"
  ic_elements_order :: "string list option"

definition ELEMENTS_ORDER_DEFAULT :: "string list" where
  "ELEMENTS_ORDER_DEFAULT =
     [''KeyDescriptor'', ''NameIDFormat'', ''SingleLogoutService'', ''AssertionConsumerService'']"

definition IDP_ELEMENTS_ORDER_DEFAULT :: "string list" where
  "IDP_ELEMENTS_ORDER_DEFAULT =
     [''KeyDescriptor'', ''NameIDFormat'', ''SingleSignOnService'', ''SingleLogoutService'']"

section \<open>Elements\<close>

definition write_key_descriptor :: "string \<Rightarrow> string \<Rightarrow> xml_writer \<Rightarrow> xml_writer" where
  "write_key_descriptor use cert w =
     (let w = write_start ''KeyDescriptor'' [(''use'', use)] w;
          w = write_start ''ds:KeyInfo'' [(''xmlns:ds'', NS_DSIG)] w;
          w = write_start ''ds:X509Data'' [] w;
          w = metadata_text_element ''ds:X509Certificate'' (normalize_cert_string cert) w
      in write_end ''KeyDescriptor'' (write_end ''ds:KeyInfo'' (write_end ''ds:X509Data'' w)))"

definition write_key_descriptors :: "string list \<Rightarrow> string list \<Rightarrow> xml_writer \<Rightarrow> xml_writer" where
  "write_key_descriptors signing encrypt w =
     fold (write_key_descriptor ''encryption'') encrypt (fold (write_key_descriptor ''signing'') signing w)"

definition write_name_id_formats :: "string list \<Rightarrow> bool \<Rightarrow> xml_writer \<Rightarrow> xml_writer" where
  "write_name_id_formats formats default_to_email w =
     (if formats \<noteq> [] then fold (metadata_text_element ''NameIDFormat'') formats w
      else if default_to_email then metadata_text_element ''NameIDFormat'' (name_id_format_uri EmailAddress) w
      else w)"

definition endpoint_attrs :: "raw_endpoint \<Rightarrow> string option \<Rightarrow> (string \<times> string) list" where
  "endpoint_attrs e i =
     (case i of Some n \<Rightarrow> [(''index'', n)] | None \<Rightarrow> [])
     @ (if ep_is_default e then [(''isDefault'', ''true'')] else [])
     @ [(''Binding'', binding_urn (ep_binding e)), (''Location'', ep_location e)]"

definition write_endpoint_attrs :: "string \<Rightarrow> raw_endpoint \<Rightarrow> string option \<Rightarrow> xml_writer \<Rightarrow> xml_writer" where
  "write_endpoint_attrs name e i w = write_empty name (endpoint_attrs e i) w"

definition write_single_logout :: "raw_endpoint list \<Rightarrow> xml_writer \<Rightarrow> xml_writer" where
  "write_single_logout es w = fold (\<lambda>e. write_endpoint_attrs ''SingleLogoutService'' e None) es w"

definition acs_index_text :: "nat \<Rightarrow> raw_endpoint \<Rightarrow> string" where
  "acs_index_text i e = (case ep_index e of Some n \<Rightarrow> show_nat n | None \<Rightarrow> show_nat i)"

definition write_assertion_consumer_service :: "raw_endpoint list \<Rightarrow> xml_writer \<Rightarrow> xml_writer" where
  "write_assertion_consumer_service es w =
     fold (\<lambda>(i, e). write_endpoint_attrs ''AssertionConsumerService'' e (Some (acs_index_text i e)))
       (List.enumerate 0 es) w"

definition write_single_sign_on_service :: "raw_endpoint list \<Rightarrow> xml_writer \<Rightarrow> xml_writer" where
  "write_single_sign_on_service es w = fold (\<lambda>e. write_endpoint_attrs ''SingleSignOnService'' e None) es w"

definition write_sp_group :: "sp_metadata_config \<Rightarrow> string \<Rightarrow> xml_writer \<Rightarrow> xml_writer" where
  "write_sp_group cfg name w =
     (if name = ''KeyDescriptor'' then write_key_descriptors (sc_signing_certs cfg) (sc_encrypt_certs cfg) w
      else if name = ''NameIDFormat'' then write_name_id_formats (sc_name_id_format cfg) True w
      else if name = ''SingleLogoutService'' then write_single_logout (sc_single_logout_service cfg) w
      else if name = ''AssertionConsumerService''
      then write_assertion_consumer_service (sc_assertion_consumer_service cfg) w
      else w)"

definition idp_group_has_content :: "idp_metadata_config \<Rightarrow> string \<Rightarrow> bool" where
  "idp_group_has_content cfg name =
     (if name = ''KeyDescriptor'' then ic_signing_certs cfg \<noteq> [] \<or> ic_encrypt_certs cfg \<noteq> []
      else if name = ''NameIDFormat'' then ic_name_id_format cfg \<noteq> []
      else if name = ''SingleSignOnService'' then ic_single_sign_on_service cfg \<noteq> []
      else if name = ''SingleLogoutService'' then ic_single_logout_service cfg \<noteq> []
      else False)"

definition write_idp_group :: "idp_metadata_config \<Rightarrow> string \<Rightarrow> xml_writer \<Rightarrow> xml_writer" where
  "write_idp_group cfg name w =
     (if name = ''KeyDescriptor'' then write_key_descriptors (ic_signing_certs cfg) (ic_encrypt_certs cfg) w
      else if name = ''NameIDFormat'' then write_name_id_formats (ic_name_id_format cfg) False w
      else if name = ''SingleSignOnService'' then write_single_sign_on_service (ic_single_sign_on_service cfg) w
      else if name = ''SingleLogoutService'' then write_single_logout (ic_single_logout_service cfg) w
      else w)"

definition elements_order_or_default :: "string list option \<Rightarrow> string list \<Rightarrow> string list" where
  "elements_order_or_default order fallback = (case order of Some names \<Rightarrow> names | None \<Rightarrow> fallback)"

definition bool_str :: "bool \<Rightarrow> string" where
  "bool_str v = (if v then ''true'' else ''false'')"

definition entity_descriptor_attrs :: "string \<Rightarrow> (string \<times> string) list" where
  "entity_descriptor_attrs i =
     [(''entityID'', i), (''xmlns'', NS_METADATA), (''xmlns:assertion'', NS_ASSERTION), (''xmlns:ds'', NS_DSIG)]"

section \<open>Documents\<close>

definition sp_metadata_events :: "sp_metadata_config \<Rightarrow> xml_writer" where
  "sp_metadata_events cfg =
     (let is_custom_order = (sc_elements_order cfg \<noteq> None);
          order = elements_order_or_default (sc_elements_order cfg) ELEMENTS_ORDER_DEFAULT;
          w = write_start ''EntityDescriptor'' (entity_descriptor_attrs (sc_entity_id cfg)) writer_new;
          w = write_start ''SPSSODescriptor''
                [(''AuthnRequestsSigned'', bool_str (sc_authn_requests_signed cfg)),
                 (''WantAssertionsSigned'', bool_str (sc_want_assertions_signed cfg)),
                 (''protocolSupportEnumeration'', NS_PROTOCOL)] w;
          w = fold (write_sp_group cfg) order w;
          w = (if is_custom_order \<and> ''AssertionConsumerService'' \<notin> set order
               then write_sp_group cfg ''AssertionConsumerService'' w else w)
      in write_end ''EntityDescriptor'' (write_end ''SPSSODescriptor'' w))"

definition generate_sp_metadata :: "('k, 'e) out_ext_scheme \<Rightarrow> sp_metadata_config \<Rightarrow> string" where
  "generate_sp_metadata E cfg = writer_finish E (sp_metadata_events cfg)"

definition idp_descriptors :: "string list" where
  "idp_descriptors = [''KeyDescriptor'', ''NameIDFormat'', ''SingleSignOnService'', ''SingleLogoutService'']"

definition write_idp_ordered :: "idp_metadata_config \<Rightarrow> string list \<Rightarrow> xml_writer \<Rightarrow> xml_writer" where
  "write_idp_ordered cfg order w =
     fold (\<lambda>name w. if name \<in> set idp_descriptors \<and> idp_group_has_content cfg name then write_idp_group cfg name w else w)
       order w"

definition write_idp_rest :: "idp_metadata_config \<Rightarrow> string list \<Rightarrow> xml_writer \<Rightarrow> xml_writer" where
  "write_idp_rest cfg order w =
     (if ic_elements_order cfg \<noteq> None then
        (if ''SingleSignOnService'' \<notin> set order then write_idp_group cfg ''SingleSignOnService'' w else w)
      else
        fold (\<lambda>name w. if idp_group_has_content cfg name \<and> name \<notin> set order then write_idp_group cfg name w else w)
          idp_descriptors w)"

definition idp_metadata_events :: "idp_metadata_config \<Rightarrow> xml_writer" where
  "idp_metadata_events cfg =
     (let order = elements_order_or_default (ic_elements_order cfg) IDP_ELEMENTS_ORDER_DEFAULT;
          w = write_start ''EntityDescriptor'' (entity_descriptor_attrs (ic_entity_id cfg)) writer_new;
          w = write_start ''IDPSSODescriptor''
                [(''WantAuthnRequestsSigned'', bool_str (ic_want_authn_requests_signed cfg)),
                 (''protocolSupportEnumeration'', NS_PROTOCOL)] w;
          w = write_idp_rest cfg order (write_idp_ordered cfg order w)
      in write_end ''EntityDescriptor'' (write_end ''IDPSSODescriptor'' w))"

definition generate_idp_metadata :: "('k, 'e) out_ext_scheme \<Rightarrow> idp_metadata_config \<Rightarrow> string" where
  "generate_idp_metadata E cfg = writer_finish E (idp_metadata_events cfg)"

definition try_generate_idp_metadata :: "('k, 'e) out_ext_scheme \<Rightarrow> idp_metadata_config \<Rightarrow> string res" where
  "try_generate_idp_metadata E cfg =
     (if ic_single_sign_on_service cfg = [] then Inl (MissingMetadata ''SingleSignOnService'')
      else Inr (generate_idp_metadata E cfg))"

end
