(* ===== verification/Settings.thy ===== *)
theory Settings
  imports Template Metadata_Gen
begin

text \<open>
  The runtime settings of an entity and the product of building a message (\<open>src/src/entity.rs\<close>), and
  the typed configuration they are derived from (\<open>src/src/config/algorithms.rs\<close>, \<open>policies.rs\<close>,
  \<open>credentials.rs\<close>, \<open>descriptors.rs\<close>, \<open>builders.rs\<close>). Durations are in nanoseconds.
\<close>

section \<open>Entity settings\<close>

abbreviation "RSA_OAEP_MGF1P \<equiv> ''http://www.w3.org/2001/04/xmlenc#rsa-oaep-mgf1p''"
abbreviation "RSA_1_5 \<equiv> ''http://www.w3.org/2001/04/xmlenc#rsa-1_5''"
abbreviation "AES_128_GCM \<equiv> ''http://www.w3.org/2009/xmlenc11#aes128-gcm''"

record entity_setting =
  es_entity_id :: "string option"
  es_request_signature_algorithm :: string
  es_data_encryption_algorithm :: string
  es_key_encryption_algorithm :: string
  es_message_signing_order :: message_signature_order
  es_allow_create :: bool
  es_is_assertion_encrypted :: bool
  es_allow_insecure_rsa :: bool
  es_relay_state :: string
  es_authn_requests_signed :: bool
  es_want_assertions_signed :: bool
  es_validate_audience :: bool
  es_want_message_signed :: bool
  es_want_encrypted_cbc_response_signed :: bool
  es_want_authn_requests_signed :: bool
  es_want_logout_request_signed :: bool
  es_want_logout_response_signed :: bool
  es_name_id_format :: "string list"
  es_private_key :: "string option"
  es_private_key_pass :: "string option"
  es_signing_cert :: "string option"
  es_encrypt_cert :: "string option"
  es_enc_private_key :: "string option"
  es_enc_private_key_pass :: "string option"
  es_clock_drifts :: "int \<times> int"
  es_redirect_inflate_max_bytes :: nat
  es_xml_limits :: xml_limits
  es_tag_prefix_protocol :: string
  es_tag_prefix_assertion :: string
  es_tag_prefix_encrypted_assertion :: string
  es_login_response_template :: "login_response_template option"
  es_login_request_template :: "string option"
  es_logout_request_template :: "string option"
  es_logout_response_template :: "string option"
  es_signature_config :: "signature_config option"
  es_transformation_algorithms :: "string list"

definition entity_setting_default :: entity_setting where
  "entity_setting_default =
     \<lparr>es_entity_id = None, es_request_signature_algorithm = RSA_SHA256, es_data_encryption_algorithm = AES_256,
      es_key_encryption_algorithm = RSA_OAEP_MGF1P, es_message_signing_order = SignThenEncrypt,
      es_allow_create = False, es_is_assertion_encrypted = False, es_allow_insecure_rsa = False,
      es_relay_state = [], es_authn_requests_signed = False, es_want_assertions_signed = False,
      es_validate_audience = True, es_want_message_signed = False,
      es_want_encrypted_cbc_response_signed = False, es_want_authn_requests_signed = False,
      es_want_logout_request_signed = True, es_want_logout_response_signed = True, es_name_id_format = [],
      es_private_key = None, es_private_key_pass = None, es_signing_cert = None, es_encrypt_cert = None,
      es_enc_private_key = None, es_enc_private_key_pass = None, es_clock_drifts = (0, 0),
      es_redirect_inflate_max_bytes = MAX_DEFLATE_RAW_DECODE_BYTES, es_xml_limits = xml_limits_default,
      es_tag_prefix_protocol = ''samlp'', es_tag_prefix_assertion = ''saml'',
      es_tag_prefix_encrypted_assertion = ''saml'', es_login_response_template = None,
      es_login_request_template = None, es_logout_request_template = None, es_logout_response_template = None,
      es_signature_config = None, es_transformation_algorithms = [ENVELOPED_SIGNATURE, EXC_C14N]\<rparr>"

text \<open>The random UUID is an argument.\<close>

definition generate_id :: "string \<Rightarrow> string" where
  "generate_id uuid = ''_'' @ uuid"

record user =
  u_name_id :: string
  u_attributes :: "(string \<times> string) list"
  u_session_index :: "string option"

definition user_new :: "string \<Rightarrow> user" where
  "user_new n = \<lparr>u_name_id = n, u_attributes = [], u_session_index = None\<rparr>"

text \<open>\<open>now_iso8601\<close> at the instant read from the clock.\<close>

definition now_iso8601 :: "('e) time_ext_scheme \<Rightarrow> odt \<Rightarrow> string" where
  "now_iso8601 E now_utc = format_saml_utc_date_time E now_utc"

record binding_context =
  bc_id :: string
  bc_context :: string
  bc_relay_state :: "string option"
  bc_entity_endpoint :: string
  bc_binding :: binding
  bc_request_type :: string
  bc_signature :: "string option"
  bc_sig_alg :: "string option"

definition bc_post_form :: "binding_context \<Rightarrow> string" where
  "bc_post_form c =
     saml_post_binding_form_with_signature (bc_entity_endpoint c) (bc_request_type c) (bc_context c)
       (bc_relay_state c) (bc_sig_alg c) (bc_signature c)"

definition bc_try_post_form :: "('e) net_ext_scheme \<Rightarrow> binding_context \<Rightarrow> string res" where
  "bc_try_post_form E c =
     try_saml_post_binding_form_with_signature E (bc_entity_endpoint c) (bc_request_type c) (bc_context c)
       (bc_relay_state c) (bc_sig_alg c) (bc_signature c)"

section \<open>Algorithms\<close>

datatype signature_algorithm = RsaSha256 | RsaSha384 | RsaSha512 | CustomSignature string

fun signature_algorithm_uri :: "signature_algorithm \<Rightarrow> string" where
  "signature_algorithm_uri RsaSha256 = RSA_SHA256"
| "signature_algorithm_uri RsaSha384 = RSA_SHA384"
| "signature_algorithm_uri RsaSha512 = RSA_SHA512"
| "signature_algorithm_uri (CustomSignature uri) = uri"

datatype digest_algorithm = Sha1ForCompatibility | Sha1 | Sha256 | Sha384 | Sha512 | CustomDigest string

fun digest_algorithm_uri :: "digest_algorithm \<Rightarrow> string" where
  "digest_algorithm_uri Sha1ForCompatibility = ''http://www.w3.org/2000/09/xmldsig#sha1''"
| "digest_algorithm_uri Sha1 = ''http://www.w3.org/2000/09/xmldsig#sha1''"
| "digest_algorithm_uri Sha256 = ''http://www.w3.org/2001/04/xmlenc#sha256''"
| "digest_algorithm_uri Sha384 = ''http://www.w3.org/2001/04/xmldsig-more#sha384''"
| "digest_algorithm_uri Sha512 = ''http://www.w3.org/2001/04/xmlenc#sha512''"
| "digest_algorithm_uri (CustomDigest uri) = uri"

datatype data_encryption_algorithm =
  Aes128 | Aes256 | TripleDesForCompatibility | TripleDes | Aes128Gcm | CustomData string

fun data_encryption_algorithm_uri :: "data_encryption_algorithm \<Rightarrow> string" where
  "data_encryption_algorithm_uri Aes128 = AES_128"
| "data_encryption_algorithm_uri Aes256 = AES_256"
| "data_encryption_algorithm_uri TripleDesForCompatibility = TRIPLE_DES"
| "data_encryption_algorithm_uri TripleDes = TRIPLE_DES"
| "data_encryption_algorithm_uri Aes128Gcm = AES_128_GCM"
| "data_encryption_algorithm_uri (CustomData uri) = uri"

datatype key_encryption_algorithm = RsaOaepMgf1p | Rsa15ForCompatibility | Rsa15 | CustomKey string

fun key_encryption_algorithm_uri :: "key_encryption_algorithm \<Rightarrow> string" where
  "key_encryption_algorithm_uri RsaOaepMgf1p = RSA_OAEP_MGF1P"
| "key_encryption_algorithm_uri Rsa15ForCompatibility = RSA_1_5"
| "key_encryption_algorithm_uri Rsa15 = RSA_1_5"
| "key_encryption_algorithm_uri (CustomKey uri) = uri"

datatype transform_algorithm = EnvelopedSignature | ExclusiveCanonicalization | CustomTransform string

fun transform_algorithm_uri :: "transform_algorithm \<Rightarrow> string" where
  "transform_algorithm_uri EnvelopedSignature = ENVELOPED_SIGNATURE"
| "transform_algorithm_uri ExclusiveCanonicalization = EXC_C14N"
| "transform_algorithm_uri (CustomTransform uri) = uri"

definition name_id_format_uris :: "name_id_format list \<Rightarrow> string list" where
  "name_id_format_uris formats = map name_id_format_uri formats"

definition transform_algorithm_uris :: "transform_algorithm list \<Rightarrow> string list" where
  "transform_algorithm_uris algorithms = map transform_algorithm_uri algorithms"

section \<open>Policies\<close>

datatype assertion_signature_policy = AssertionsRequireSigned | AssertionsAllowUnsigned
datatype response_signature_policy = ResponsesAllowUnsignedCbc | ResponsesRequireForCbc | ResponsesRequireSigned
datatype authn_request_signing_policy = SignAuthnRequests | DoNotSignAuthnRequests
datatype authn_request_validation_policy = RequestsRequireSigned | RequestsAllowUnsigned
datatype logout_signature_policy = LogoutRequireSigned | LogoutAllowUnsigned
datatype audience_validation_policy = ValidateAudience | SkipAudience
datatype name_id_creation_policy = NameIdAllowCreate | NameIdDoNotAllowCreate
datatype assertion_encryption_policy = PlaintextAssertions | EncryptAssertions

record logout_policy =
  lp_requests :: logout_signature_policy
  lp_responses :: logout_signature_policy

definition logout_policy_strict :: logout_policy where
  "logout_policy_strict = \<lparr>lp_requests = LogoutRequireSigned, lp_responses = LogoutRequireSigned\<rparr>"

definition logout_policy_compatibility :: logout_policy where
  "logout_policy_compatibility = \<lparr>lp_requests = LogoutAllowUnsigned, lp_responses = LogoutAllowUnsigned\<rparr>"

record sp_validation_policy =
  sv_assertions :: assertion_signature_policy
  sv_responses :: response_signature_policy
  sv_authn_requests :: authn_request_signing_policy
  sv_audience :: audience_validation_policy
  sv_name_id_creation :: name_id_creation_policy
  sv_logout :: logout_policy

definition sp_policy_strict :: sp_validation_policy where
  "sp_policy_strict =
     \<lparr>sv_assertions = AssertionsRequireSigned, sv_responses = ResponsesRequireForCbc,
      sv_authn_requests = SignAuthnRequests, sv_audience = ValidateAudience,
      sv_name_id_creation = NameIdDoNotAllowCreate, sv_logout = logout_policy_strict\<rparr>"

definition sp_policy_compatibility :: sp_validation_policy where
  "sp_policy_compatibility =
     \<lparr>sv_assertions = AssertionsAllowUnsigned, sv_responses = ResponsesAllowUnsignedCbc,
      sv_authn_requests = DoNotSignAuthnRequests, sv_audience = SkipAudience,
      sv_name_id_creation = NameIdDoNotAllowCreate, sv_logout = logout_policy_compatibility\<rparr>"

record idp_validation_policy =
  iv_authn_requests :: authn_request_validation_policy
  iv_logout :: logout_policy

definition idp_policy_strict :: idp_validation_policy where
  "idp_policy_strict = \<lparr>iv_authn_requests = RequestsRequireSigned, iv_logout = logout_policy_strict\<rparr>"

definition idp_policy_compatibility :: idp_validation_policy where
  "idp_policy_compatibility = \<lparr>iv_authn_requests = RequestsAllowUnsigned, iv_logout = logout_policy_compatibility\<rparr>"

record xml_encryption_policy =
  xe_assertions :: assertion_encryption_policy
  xe_allow_insecure_rsa :: bool

definition xml_encryption_default :: xml_encryption_policy where
  "xml_encryption_default = \<lparr>xe_assertions = PlaintextAssertions, xe_allow_insecure_rsa = False\<rparr>"

definition xml_encrypt_assertions :: xml_encryption_policy where
  "xml_encrypt_assertions = xml_encryption_default\<lparr>xe_assertions := EncryptAssertions\<rparr>"

definition with_insecure_rsa_allowed :: "xml_encryption_policy \<Rightarrow> xml_encryption_policy" where
  "with_insecure_rsa_allowed p = p\<lparr>xe_allow_insecure_rsa := True\<rparr>"

record xml_policy =
  xp_clock_drifts :: "int \<times> int"
  xp_redirect_inflate_max_bytes :: nat
  xp_limits :: xml_limits
  xp_encryption :: xml_encryption_policy

definition xml_policy_default :: xml_policy where
  "xml_policy_default =
     \<lparr>xp_clock_drifts = (0, 0), xp_redirect_inflate_max_bytes = MAX_DEFLATE_RAW_DECODE_BYTES,
      xp_limits = xml_limits_default, xp_encryption = xml_encryption_default\<rparr>"

record algorithm_policy =
  ap_signature :: signature_algorithm
  ap_data_encryption :: data_encryption_algorithm
  ap_key_encryption :: key_encryption_algorithm
  ap_message_signing_order :: message_signature_order
  ap_signed_reference_transforms :: "transform_algorithm list"

definition algorithm_policy_default :: algorithm_policy where
  "algorithm_policy_default =
     \<lparr>ap_signature = RsaSha256, ap_data_encryption = Aes256, ap_key_encryption = RsaOaepMgf1p,
      ap_message_signing_order = SignThenEncrypt,
      ap_signed_reference_transforms = [EnvelopedSignature, ExclusiveCanonicalization]\<rparr>"

record template_policy =
  tp_relay_state :: string
  tp_tag_prefix_protocol :: string
  tp_tag_prefix_assertion :: string
  tp_tag_prefix_encrypted_assertion :: string
  tp_login_response_template :: "login_response_template option"
  tp_login_request_template :: "string option"
  tp_logout_request_template :: "string option"
  tp_logout_response_template :: "string option"
  tp_signature_config :: "signature_config option"

definition template_policy_default :: template_policy where
  "template_policy_default =
     \<lparr>tp_relay_state = [], tp_tag_prefix_protocol = ''samlp'', tp_tag_prefix_assertion = ''saml'',
      tp_tag_prefix_encrypted_assertion = ''saml'', tp_login_response_template = None,
      tp_login_request_template = None, tp_logout_request_template = None, tp_logout_response_template = None,
      tp_signature_config = None\<rparr>"

definition authn_request_signing_enabled :: "authn_request_signing_policy \<Rightarrow> bool" where
  "authn_request_signing_enabled p = (p = SignAuthnRequests)"

definition authn_request_signature_required :: "authn_request_validation_policy \<Rightarrow> bool" where
  "authn_request_signature_required p = (p = RequestsRequireSigned)"

definition assertion_signature_required :: "assertion_signature_policy \<Rightarrow> bool" where
  "assertion_signature_required p = (p = AssertionsRequireSigned)"

definition response_signature_required :: "response_signature_policy \<Rightarrow> bool" where
  "response_signature_required p = (p = ResponsesRequireSigned)"

definition encrypted_cbc_response_signature_required :: "response_signature_policy \<Rightarrow> bool" where
  "encrypted_cbc_response_signature_required p = (p = ResponsesRequireForCbc)"

fun logout_signature_required :: "logout_signature_policy \<Rightarrow> bool res" where
  "logout_signature_required LogoutRequireSigned = Inr True"
| "logout_signature_required LogoutAllowUnsigned = Inr False"

definition name_id_creation_allowed :: "name_id_creation_policy \<Rightarrow> bool" where
  "name_id_creation_allowed p = (p = NameIdAllowCreate)"

definition audience_validation_enabled :: "audience_validation_policy \<Rightarrow> bool" where
  "audience_validation_enabled p = (p = ValidateAudience)"

section \<open>Credentials and metadata inputs\<close>

datatype private_key_pem = PrivateKeyPem (private_key_str: string)
datatype certificate_pem = CertificatePem (certificate_str: string)
datatype passphrase = Passphrase (passphrase_str: string)

record credentials =
  cr_signing_key :: "private_key_pem option"
  cr_signing_key_passphrase :: "passphrase option"
  cr_signing_certificate :: "certificate_pem option"
  cr_encryption_certificate :: "certificate_pem option"
  cr_decryption_key :: "private_key_pem option"
  cr_decryption_key_passphrase :: "passphrase option"

definition credentials_default :: credentials where
  "credentials_default =
     \<lparr>cr_signing_key = None, cr_signing_key_passphrase = None, cr_signing_certificate = None,
      cr_encryption_certificate = None, cr_decryption_key = None, cr_decryption_key_passphrase = None\<rparr>"

record typed_sp_metadata =
  ts_name_id_format :: "name_id_format list"
  ts_single_logout_service :: "slo_endpoint list"
  ts_assertion_consumer_service :: "acs_endpoint list"
  ts_elements_order :: "string list option"

definition typed_sp_metadata_new :: "acs_endpoint list \<Rightarrow> typed_sp_metadata" where
  "typed_sp_metadata_new acs =
     \<lparr>ts_name_id_format = [], ts_single_logout_service = [], ts_assertion_consumer_service = acs,
      ts_elements_order = None\<rparr>"

definition typed_sp_metadata_validate :: "typed_sp_metadata \<Rightarrow> unit res" where
  "typed_sp_metadata_validate m =
     (if ts_assertion_consumer_service m = [] then Inl (MissingMetadata ''AssertionConsumerService'') else Inr ())"

definition typed_sp_metadata_try_new :: "acs_endpoint list \<Rightarrow> typed_sp_metadata res" where
  "typed_sp_metadata_try_new acs =
     (let config = typed_sp_metadata_new acs in rbind (typed_sp_metadata_validate config) (\<lambda>_. Inr config))"

record typed_idp_metadata =
  ti_name_id_format :: "name_id_format list"
  ti_single_sign_on_service :: "sso_endpoint list"
  ti_single_logout_service :: "slo_endpoint list"
  ti_elements_order :: "string list option"

definition typed_idp_metadata_new :: "sso_endpoint list \<Rightarrow> typed_idp_metadata" where
  "typed_idp_metadata_new sso =
     \<lparr>ti_name_id_format = [], ti_single_sign_on_service = sso, ti_single_logout_service = [],
      ti_elements_order = None\<rparr>"

definition typed_idp_metadata_validate :: "typed_idp_metadata \<Rightarrow> unit res" where
  "typed_idp_metadata_validate m =
     (if ti_single_sign_on_service m = [] then Inl (MissingMetadata ''SingleSignOnService'') else Inr ())"

definition typed_idp_metadata_try_new :: "sso_endpoint list \<Rightarrow> typed_idp_metadata res" where
  "typed_idp_metadata_try_new sso =
     (let config = typed_idp_metadata_new sso in rbind (typed_idp_metadata_validate config) (\<lambda>_. Inr config))"

end
