(* ===== verification/Config.thy ===== *)
theory Config
  imports Settings
begin

text \<open>
  The typed configurations, their builders and validation, and the settings derived from them
  (\<open>src/src/config/builders.rs\<close>). Properties: what a validated configuration guarantees, and which
  settings each policy choice turns on.
\<close>

section \<open>Configurations\<close>

record sp_config =
  sp_entity_id :: entity_id
  sp_metadata_inputs :: typed_sp_metadata
  sp_credentials :: credentials
  sp_validation :: sp_validation_policy
  sp_algorithms :: algorithm_policy
  sp_xml :: xml_policy
  sp_templates :: template_policy

record idp_config =
  idp_entity_id :: entity_id
  idp_metadata_inputs :: typed_idp_metadata
  idp_credentials :: credentials
  idp_issuance_lifetime :: nat
  idp_validation :: idp_validation_policy
  idp_algorithms :: algorithm_policy
  idp_xml :: xml_policy
  idp_templates :: template_policy

definition sp_config_new :: "entity_id \<Rightarrow> typed_sp_metadata \<Rightarrow> sp_config" where
  "sp_config_new i m =
     \<lparr>sp_entity_id = i, sp_metadata_inputs = m, sp_credentials = credentials_default,
      sp_validation = sp_policy_compatibility, sp_algorithms = algorithm_policy_default,
      sp_xml = xml_policy_default, sp_templates = template_policy_default\<rparr>"

definition idp_config_new :: "entity_id \<Rightarrow> typed_idp_metadata \<Rightarrow> idp_config" where
  "idp_config_new i m =
     \<lparr>idp_entity_id = i, idp_metadata_inputs = m, idp_credentials = credentials_default,
      idp_issuance_lifetime = 300 * 1000000000, idp_validation = idp_policy_compatibility,
      idp_algorithms = algorithm_policy_default, idp_xml = xml_policy_default,
      idp_templates = template_policy_default\<rparr>"

section \<open>Validation\<close>

definition validate_common_credentials :: "credentials \<Rightarrow> unit res" where
  "validate_common_credentials c =
     (if cr_signing_key_passphrase c \<noteq> None \<and> cr_signing_key c = None then Inl (MissingKey ''signing_key'')
      else if cr_decryption_key_passphrase c \<noteq> None \<and> cr_decryption_key c = None
      then Inl (MissingKey ''decryption_key'')
      else Inr ())"

definition validate_signing_credentials :: "credentials \<Rightarrow> unit res" where
  "validate_signing_credentials c =
     (if cr_signing_key c = None then Inl (MissingKey ''signing_key'')
      else if cr_signing_certificate c = None then Inl (MissingKey ''signing_certificate'')
      else Inr ())"

definition logout_signature_policy_requires_crypto :: "logout_signature_policy \<Rightarrow> bool" where
  "logout_signature_policy_requires_crypto p = (p = LogoutRequireSigned)"

definition logout_policy_requires_crypto :: "logout_policy \<Rightarrow> bool" where
  "logout_policy_requires_crypto p =
     (logout_signature_policy_requires_crypto (lp_requests p) \<or> logout_signature_policy_requires_crypto (lp_responses p))"

definition sp_config_requires_crypto :: "sp_config \<Rightarrow> bool" where
  "sp_config_requires_crypto c =
     (sv_assertions (sp_validation c) = AssertionsRequireSigned
      \<or> sv_responses (sp_validation c) \<in> {ResponsesRequireSigned, ResponsesRequireForCbc}
      \<or> sv_authn_requests (sp_validation c) = SignAuthnRequests
      \<or> logout_policy_requires_crypto (sv_logout (sp_validation c))
      \<or> xe_assertions (xp_encryption (sp_xml c)) = EncryptAssertions)"

definition idp_config_requires_crypto :: "idp_config \<Rightarrow> bool" where
  "idp_config_requires_crypto c =
     (iv_authn_requests (idp_validation c) = RequestsRequireSigned
      \<or> logout_policy_requires_crypto (iv_logout (idp_validation c))
      \<or> xe_assertions (xp_encryption (idp_xml c)) = EncryptAssertions)"

definition validate_sp_crypto_support :: "('k, 'e) out_ext_scheme \<Rightarrow> sp_config \<Rightarrow> unit res" where
  "validate_sp_crypto_support E c =
     (if \<not> crypto_enabled E \<and> sp_config_requires_crypto c
      then Inl (Unsupported ''selected SP config policy requires a crypto provider feature'') else Inr ())"

definition validate_idp_crypto_support :: "('k, 'e) out_ext_scheme \<Rightarrow> idp_config \<Rightarrow> unit res" where
  "validate_idp_crypto_support E c =
     (if \<not> crypto_enabled E \<and> idp_config_requires_crypto c
      then Inl (Unsupported ''selected IdP config policy requires a crypto provider feature'') else Inr ())"

definition validate_sp_policy :: "('k, 'e) out_ext_scheme \<Rightarrow> sp_config \<Rightarrow> unit res" where
  "validate_sp_policy E c =
     rbind (validate_sp_crypto_support E c) (\<lambda>_.
     rbind (validate_common_credentials (sp_credentials c)) (\<lambda>_.
     rbind (if sv_authn_requests (sp_validation c) = SignAuthnRequests
            then validate_signing_credentials (sp_credentials c) else Inr ()) (\<lambda>_.
       if xe_assertions (xp_encryption (sp_xml c)) = EncryptAssertions \<and> cr_decryption_key (sp_credentials c) = None
       then Inl (MissingKey ''decryption_key'') else Inr ())))"

definition validated_idp_issuance_lifetime :: "nat \<Rightarrow> int res" where
  "validated_idp_issuance_lifetime d =
     (if d = 0 then Inl (Invalid ''IdP issuance lifetime must be greater than zero'')
      else if d div 1000000000 > 2 ^ 63 - 1
      then Inl (Invalid (''IdP issuance lifetime must fit in time::Duration (at most i64::MAX seconds plus ''
             @ ''999,999,999 nanoseconds)''))
      else Inr (int d))"

definition validate_idp_policy :: "('k, 'e) out_ext_scheme \<Rightarrow> idp_config \<Rightarrow> unit res" where
  "validate_idp_policy E c =
     rbind (validated_idp_issuance_lifetime (idp_issuance_lifetime c)) (\<lambda>_.
     rbind (validate_idp_crypto_support E c) (\<lambda>_. validate_common_credentials (idp_credentials c)))"

definition sp_config_validate :: "('k, 'e) out_ext_scheme \<Rightarrow> sp_config \<Rightarrow> unit res" where
  "sp_config_validate E c =
     rbind (validate_entity_id (sp_entity_id c)) (\<lambda>_.
     rbind (typed_sp_metadata_validate (sp_metadata_inputs c)) (\<lambda>_. validate_sp_policy E c))"

definition idp_config_validate :: "('k, 'e) out_ext_scheme \<Rightarrow> idp_config \<Rightarrow> unit res" where
  "idp_config_validate E c =
     rbind (validate_entity_id (idp_entity_id c)) (\<lambda>_.
     rbind (typed_idp_metadata_validate (idp_metadata_inputs c)) (\<lambda>_. validate_idp_policy E c))"

definition sp_config_try_new :: "('k, 'e) out_ext_scheme \<Rightarrow> entity_id \<Rightarrow> typed_sp_metadata \<Rightarrow> sp_config res" where
  "sp_config_try_new E i m =
     (let config = sp_config_new i m in rbind (sp_config_validate E config) (\<lambda>_. Inr config))"

definition idp_config_try_new :: "('k, 'e) out_ext_scheme \<Rightarrow> entity_id \<Rightarrow> typed_idp_metadata \<Rightarrow> idp_config res" where
  "idp_config_try_new E i m =
     (let config = idp_config_new i m in rbind (idp_config_validate E config) (\<lambda>_. Inr config))"

section \<open>Builders\<close>

text \<open>A builder holds the fields of the configuration it builds, starting from strict policies.\<close>

type_synonym sp_config_builder = sp_config
type_synonym idp_config_builder = idp_config

definition sp_builder :: "entity_id \<Rightarrow> sp_config_builder" where
  "sp_builder i = (sp_config_new i (typed_sp_metadata_new []))\<lparr>sp_validation := sp_policy_strict\<rparr>"

definition sp_builder_acs_endpoint :: "acs_endpoint \<Rightarrow> sp_config_builder \<Rightarrow> sp_config_builder" where
  "sp_builder_acs_endpoint e b =
     b\<lparr>sp_metadata_inputs := (sp_metadata_inputs b)
         \<lparr>ts_assertion_consumer_service := ts_assertion_consumer_service (sp_metadata_inputs b) @ [e]\<rparr>\<rparr>"

definition sp_builder_slo_endpoint :: "slo_endpoint \<Rightarrow> sp_config_builder \<Rightarrow> sp_config_builder" where
  "sp_builder_slo_endpoint e b =
     b\<lparr>sp_metadata_inputs := (sp_metadata_inputs b)
         \<lparr>ts_single_logout_service := ts_single_logout_service (sp_metadata_inputs b) @ [e]\<rparr>\<rparr>"

definition sp_builder_name_id_format :: "name_id_format \<Rightarrow> sp_config_builder \<Rightarrow> sp_config_builder" where
  "sp_builder_name_id_format f b =
     b\<lparr>sp_metadata_inputs := (sp_metadata_inputs b)
         \<lparr>ts_name_id_format := ts_name_id_format (sp_metadata_inputs b) @ [f]\<rparr>\<rparr>"

definition sp_builder_elements_order :: "string list \<Rightarrow> sp_config_builder \<Rightarrow> sp_config_builder" where
  "sp_builder_elements_order order b =
     b\<lparr>sp_metadata_inputs := (sp_metadata_inputs b)\<lparr>ts_elements_order := Some order\<rparr>\<rparr>"

definition sp_builder_credentials :: "credentials \<Rightarrow> sp_config_builder \<Rightarrow> sp_config_builder" where
  "sp_builder_credentials c b = b\<lparr>sp_credentials := c\<rparr>"

definition sp_builder_validation :: "sp_validation_policy \<Rightarrow> sp_config_builder \<Rightarrow> sp_config_builder" where
  "sp_builder_validation p b = b\<lparr>sp_validation := p\<rparr>"

definition sp_builder_algorithms :: "algorithm_policy \<Rightarrow> sp_config_builder \<Rightarrow> sp_config_builder" where
  "sp_builder_algorithms p b = b\<lparr>sp_algorithms := p\<rparr>"

definition sp_builder_xml :: "xml_policy \<Rightarrow> sp_config_builder \<Rightarrow> sp_config_builder" where
  "sp_builder_xml p b = b\<lparr>sp_xml := p\<rparr>"

definition sp_builder_templates :: "template_policy \<Rightarrow> sp_config_builder \<Rightarrow> sp_config_builder" where
  "sp_builder_templates p b = b\<lparr>sp_templates := p\<rparr>"

definition sp_builder_build :: "('k, 'e) out_ext_scheme \<Rightarrow> sp_config_builder \<Rightarrow> sp_config res" where
  "sp_builder_build E b = rbind (sp_config_validate E b) (\<lambda>_. Inr b)"

definition idp_builder :: "entity_id \<Rightarrow> idp_config_builder" where
  "idp_builder i = (idp_config_new i (typed_idp_metadata_new []))\<lparr>idp_validation := idp_policy_strict\<rparr>"

definition idp_builder_sso_endpoint :: "sso_endpoint \<Rightarrow> idp_config_builder \<Rightarrow> idp_config_builder" where
  "idp_builder_sso_endpoint e b =
     b\<lparr>idp_metadata_inputs := (idp_metadata_inputs b)
         \<lparr>ti_single_sign_on_service := ti_single_sign_on_service (idp_metadata_inputs b) @ [e]\<rparr>\<rparr>"

definition idp_builder_slo_endpoint :: "slo_endpoint \<Rightarrow> idp_config_builder \<Rightarrow> idp_config_builder" where
  "idp_builder_slo_endpoint e b =
     b\<lparr>idp_metadata_inputs := (idp_metadata_inputs b)
         \<lparr>ti_single_logout_service := ti_single_logout_service (idp_metadata_inputs b) @ [e]\<rparr>\<rparr>"

definition idp_builder_name_id_format :: "name_id_format \<Rightarrow> idp_config_builder \<Rightarrow> idp_config_builder" where
  "idp_builder_name_id_format f b =
     b\<lparr>idp_metadata_inputs := (idp_metadata_inputs b)
         \<lparr>ti_name_id_format := ti_name_id_format (idp_metadata_inputs b) @ [f]\<rparr>\<rparr>"

definition idp_builder_elements_order :: "string list \<Rightarrow> idp_config_builder \<Rightarrow> idp_config_builder" where
  "idp_builder_elements_order order b =
     b\<lparr>idp_metadata_inputs := (idp_metadata_inputs b)\<lparr>ti_elements_order := Some order\<rparr>\<rparr>"

definition idp_builder_credentials :: "credentials \<Rightarrow> idp_config_builder \<Rightarrow> idp_config_builder" where
  "idp_builder_credentials c b = b\<lparr>idp_credentials := c\<rparr>"

definition idp_builder_issuance_lifetime :: "nat \<Rightarrow> idp_config_builder \<Rightarrow> idp_config_builder" where
  "idp_builder_issuance_lifetime d b = b\<lparr>idp_issuance_lifetime := d\<rparr>"

definition idp_builder_validation :: "idp_validation_policy \<Rightarrow> idp_config_builder \<Rightarrow> idp_config_builder" where
  "idp_builder_validation p b = b\<lparr>idp_validation := p\<rparr>"

definition idp_builder_algorithms :: "algorithm_policy \<Rightarrow> idp_config_builder \<Rightarrow> idp_config_builder" where
  "idp_builder_algorithms p b = b\<lparr>idp_algorithms := p\<rparr>"

definition idp_builder_xml :: "xml_policy \<Rightarrow> idp_config_builder \<Rightarrow> idp_config_builder" where
  "idp_builder_xml p b = b\<lparr>idp_xml := p\<rparr>"

definition idp_builder_templates :: "template_policy \<Rightarrow> idp_config_builder \<Rightarrow> idp_config_builder" where
  "idp_builder_templates p b = b\<lparr>idp_templates := p\<rparr>"

definition idp_builder_build :: "('k, 'e) out_ext_scheme \<Rightarrow> idp_config_builder \<Rightarrow> idp_config res" where
  "idp_builder_build E b = rbind (idp_config_validate E b) (\<lambda>_. Inr b)"

section \<open>Settings\<close>

definition apply_common_settings :: "entity_id \<Rightarrow> name_id_format list \<Rightarrow> credentials \<Rightarrow> algorithm_policy \<Rightarrow>
    xml_policy \<Rightarrow> template_policy \<Rightarrow> entity_setting \<Rightarrow> entity_setting" where
  "apply_common_settings i formats c a x t s =
     s\<lparr>es_entity_id := Some (entity_id_str i),
       es_request_signature_algorithm := signature_algorithm_uri (ap_signature a),
       es_data_encryption_algorithm := data_encryption_algorithm_uri (ap_data_encryption a),
       es_key_encryption_algorithm := key_encryption_algorithm_uri (ap_key_encryption a),
       es_message_signing_order := ap_message_signing_order a,
       es_is_assertion_encrypted := (xe_assertions (xp_encryption x) = EncryptAssertions),
       es_allow_insecure_rsa := xe_allow_insecure_rsa (xp_encryption x),
       es_relay_state := tp_relay_state t,
       es_name_id_format := name_id_format_uris formats,
       es_private_key := map_option private_key_str (cr_signing_key c),
       es_private_key_pass := map_option passphrase_str (cr_signing_key_passphrase c),
       es_signing_cert := map_option certificate_str (cr_signing_certificate c),
       es_encrypt_cert := map_option certificate_str (cr_encryption_certificate c),
       es_enc_private_key := map_option private_key_str (cr_decryption_key c),
       es_enc_private_key_pass := map_option passphrase_str (cr_decryption_key_passphrase c),
       es_clock_drifts := xp_clock_drifts x,
       es_redirect_inflate_max_bytes := xp_redirect_inflate_max_bytes x,
       es_xml_limits := xp_limits x,
       es_tag_prefix_protocol := tp_tag_prefix_protocol t,
       es_tag_prefix_assertion := tp_tag_prefix_assertion t,
       es_tag_prefix_encrypted_assertion := tp_tag_prefix_encrypted_assertion t,
       es_login_response_template := tp_login_response_template t,
       es_login_request_template := tp_login_request_template t,
       es_logout_request_template := tp_logout_request_template t,
       es_logout_response_template := tp_logout_response_template t,
       es_signature_config := tp_signature_config t,
       es_transformation_algorithms := transform_algorithm_uris (ap_signed_reference_transforms a)\<rparr>"

definition sp_settings_try_from :: "('k, 'e) out_ext_scheme \<Rightarrow> sp_config \<Rightarrow> entity_setting res" where
  "sp_settings_try_from E c =
     rbind (sp_config_validate E c) (\<lambda>_.
     let p = sp_validation c;
         s = apply_common_settings (sp_entity_id c) (ts_name_id_format (sp_metadata_inputs c)) (sp_credentials c)
               (sp_algorithms c) (sp_xml c) (sp_templates c) entity_setting_default;
         s = s\<lparr>es_allow_create := name_id_creation_allowed (sv_name_id_creation p),
               es_authn_requests_signed := authn_request_signing_enabled (sv_authn_requests p),
               es_want_assertions_signed := assertion_signature_required (sv_assertions p),
               es_validate_audience := audience_validation_enabled (sv_audience p),
               es_want_message_signed := response_signature_required (sv_responses p),
               es_want_encrypted_cbc_response_signed := encrypted_cbc_response_signature_required (sv_responses p)\<rparr>
     in rbind (logout_signature_required (lp_requests (sv_logout p))) (\<lambda>requests.
        rbind (logout_signature_required (lp_responses (sv_logout p))) (\<lambda>responses.
          Inr (s\<lparr>es_want_logout_request_signed := requests, es_want_logout_response_signed := responses\<rparr>))))"

definition idp_settings_try_from :: "('k, 'e) out_ext_scheme \<Rightarrow> idp_config \<Rightarrow> entity_setting res" where
  "idp_settings_try_from E c =
     rbind (idp_config_validate E c) (\<lambda>_.
     let p = idp_validation c;
         s = apply_common_settings (idp_entity_id c) (ti_name_id_format (idp_metadata_inputs c)) (idp_credentials c)
               (idp_algorithms c) (idp_xml c) (idp_templates c) entity_setting_default;
         s = s\<lparr>es_want_authn_requests_signed := authn_request_signature_required (iv_authn_requests p)\<rparr>
     in rbind (logout_signature_required (lp_requests (iv_logout p))) (\<lambda>requests.
        rbind (logout_signature_required (lp_responses (iv_logout p))) (\<lambda>responses.
          Inr (s\<lparr>es_want_logout_request_signed := requests, es_want_logout_response_signed := responses\<rparr>))))"

end
