(* ===== verification/Providers.thy ===== *)
theory Providers
  imports Config
begin

text \<open>
  The two raw entities: the service provider (\<open>src/src/sp.rs\<close>) builds AuthnRequests and parses login
  responses; the identity provider (\<open>src/src/idp.rs\<close>, \<open>src/src/idp/login_response.rs\<close>) parses
  AuthnRequests and builds login responses. The clock and the random UUIDs a call reads are the fields
  of \<open>issue_env\<close>; a build without a crypto feature is \<open>\<not> crypto_enabled\<close>.
\<close>

record issue_env =
  ie_now :: systime
  ie_now_utc :: odt
  ie_uuid :: string
  ie_assertion_uuid :: string

type_synonym custom_tag_replacement = "string \<Rightarrow> string \<times> string"

section \<open>Entities\<close>

record service_provider =
  spr_setting :: entity_setting
  spr_metadata :: sp_metadata

record identity_provider =
  idr_setting :: entity_setting
  idr_metadata :: idp_metadata

definition sp_from_metadata :: "('k, 'e) crypto_ext_scheme \<Rightarrow> string \<Rightarrow> entity_setting \<Rightarrow> service_provider res" where
  "sp_from_metadata E xml setting =
     rbind (sp_from_xml E xml) (\<lambda>m.
       let s = setting\<lparr>es_authn_requests_signed := is_authn_request_signed m,
                       es_want_assertions_signed := is_want_assertions_signed m\<rparr>;
           formats = get_name_id_format (sp_inner m);
           s = (if formats \<noteq> [] then s\<lparr>es_name_id_format := formats\<rparr> else s);
           s = (if es_entity_id s = None then s\<lparr>es_entity_id := get_entity_id (sp_inner m)\<rparr> else s)
       in Inr \<lparr>spr_setting = s, spr_metadata = m\<rparr>)"

definition sp_from_config :: "('k, 'e) out_ext_scheme \<Rightarrow> sp_metadata_config \<Rightarrow> entity_setting \<Rightarrow> service_provider res" where
  "sp_from_config E config setting = sp_from_metadata E (generate_sp_metadata E config) setting"

definition idp_from_metadata :: "('k, 'e) crypto_ext_scheme \<Rightarrow> string \<Rightarrow> entity_setting \<Rightarrow> identity_provider res" where
  "idp_from_metadata E xml setting =
     rbind (idp_from_xml E xml) (\<lambda>m.
       let s = setting\<lparr>es_want_authn_requests_signed := is_want_authn_requests_signed m\<rparr>;
           formats = get_name_id_format (idp_inner m);
           s = (if formats \<noteq> [] then s\<lparr>es_name_id_format := formats\<rparr> else s);
           s = (if es_entity_id s = None then s\<lparr>es_entity_id := get_entity_id (idp_inner m)\<rparr> else s)
       in Inr \<lparr>idr_setting = s, idr_metadata = m\<rparr>)"

definition idp_from_config :: "('k, 'e) out_ext_scheme \<Rightarrow> idp_metadata_config \<Rightarrow> entity_setting \<Rightarrow>
    identity_provider res" where
  "idp_from_config E config setting =
     rbind (try_generate_idp_metadata E config) (\<lambda>xml. idp_from_metadata E xml setting)"

text \<open>\<open>metadata_xml\<close> and \<open>entity_id\<close> of both entities.\<close>

definition sp_metadata_xml :: "service_provider \<Rightarrow> string" where
  "sp_metadata_xml sp = md_xml (sp_inner (spr_metadata sp))"

definition idp_metadata_xml :: "identity_provider \<Rightarrow> string" where
  "idp_metadata_xml idp = md_xml (idp_inner (idr_metadata idp))"

definition entity_id_text :: "entity_setting \<Rightarrow> metadata \<Rightarrow> string" where
  "entity_id_text s m =
     (case es_entity_id s of Some i \<Rightarrow> i | None \<Rightarrow> str_or_empty (get_entity_id m))"

definition sp_entity_text :: "service_provider \<Rightarrow> string" where
  "sp_entity_text sp = entity_id_text (spr_setting sp) (sp_inner (spr_metadata sp))"

definition idp_entity_text :: "identity_provider \<Rightarrow> string" where
  "idp_entity_text idp = entity_id_text (idr_setting idp) (idp_inner (idr_metadata idp))"

section \<open>AuthnRequests\<close>

record login_request_options =
  lo_relay_state :: "string option"
  lo_custom :: "custom_tag_replacement option"
  lo_force_authn :: "bool option"
  lo_acs_index :: "nat option"
  lo_response_binding :: "binding option"

definition login_request_options_default :: login_request_options where
  "login_request_options_default =
     \<lparr>lo_relay_state = None, lo_custom = None, lo_force_authn = None, lo_acs_index = None,
      lo_response_binding = None\<rparr>"

record authn_request_xml =
  ax_id :: string
  ax_issue_instant :: string
  ax_destination :: string
  ax_force_authn :: "bool option"
  ax_protocol_binding :: "string option"
  ax_acs_url :: "string option"
  ax_acs_index :: "nat option"
  ax_issuer :: string
  ax_name_id_format :: string
  ax_allow_create :: bool

definition opt_attr :: "string \<Rightarrow> string option \<Rightarrow> (string \<times> string) list" where
  "opt_attr name v = (case v of Some x \<Rightarrow> [(name, x)] | None \<Rightarrow> [])"

definition authn_request_attrs :: "authn_request_xml \<Rightarrow> (string \<times> string) list" where
  "authn_request_attrs i =
     [(''xmlns:samlp'', NS_PROTOCOL), (''xmlns:saml'', NS_ASSERTION), (''ID'', ax_id i), (''Version'', ''2.0''),
      (''IssueInstant'', ax_issue_instant i), (''Destination'', ax_destination i)]
     @ opt_attr ''ForceAuthn'' (map_option bool_str (ax_force_authn i))
     @ opt_attr ''ProtocolBinding'' (ax_protocol_binding i)
     @ opt_attr ''AssertionConsumerServiceURL'' (ax_acs_url i)
     @ opt_attr ''AssertionConsumerServiceIndex'' (map_option show_nat (ax_acs_index i))"

definition render_default_authn_request_xml :: "('k, 'e) out_ext_scheme \<Rightarrow> authn_request_xml \<Rightarrow> string" where
  "render_default_authn_request_xml E i =
     (let w = write_start ''samlp:AuthnRequest'' (authn_request_attrs i) writer_new;
          w = write_text_element ''saml:Issuer'' [] (ax_issuer i) w;
          w = write_empty ''samlp:NameIDPolicy''
                [(''Format'', ax_name_id_format i), (''AllowCreate'', bool_str (ax_allow_create i))] w
      in writer_finish E (write_end ''samlp:AuthnRequest'' w))"

definition first_or_empty :: "string list \<Rightarrow> string" where
  "first_or_empty xs = (case xs of [] \<Rightarrow> [] | x # _ \<Rightarrow> x)"

text \<open>The message and its ID: the custom hook, the default renderer, or the custom template.\<close>

definition login_request_message :: "('k, 'e) out_ext_scheme \<Rightarrow> issue_env \<Rightarrow> service_provider \<Rightarrow> string \<Rightarrow>
    login_request_options \<Rightarrow> (string \<times> string) res" where
  "login_request_message E env sp destination opts =
     (let s = spr_setting sp;
          custom_template = es_login_request_template s;
          tmpl = unwrap_or custom_template LOGIN_REQUEST_TEMPLATE in
      case lo_custom opts of
        Some f \<Rightarrow> Inr (f tmpl)
      | None \<Rightarrow>
          let uses_acs_index = (lo_acs_index opts \<noteq> None);
              response_binding = unwrap_or (lo_response_binding opts) Post in
          rbind
            (if uses_acs_index then Inr None
             else rmap Some (ok_or (get_assertion_consumer_service (spr_metadata sp) response_binding)
                    (MissingMetadata ''AssertionConsumerService''))) (\<lambda>acs_url.
          let protocol_binding = (if uses_acs_index then None else Some (binding_urn response_binding));
              name_id_format = first_or_empty (es_name_id_format s);
              i = generate_id (ie_uuid env);
              issue_instant = now_iso8601 E (ie_now_utc env);
              xml =
                (if custom_template = None then
                   render_default_authn_request_xml E
                     \<lparr>ax_id = i, ax_issue_instant = issue_instant, ax_destination = destination,
                      ax_force_authn = lo_force_authn opts, ax_protocol_binding = protocol_binding,
                      ax_acs_url = acs_url, ax_acs_index = lo_acs_index opts, ax_issuer = sp_entity_text sp,
                      ax_name_id_format = name_id_format, ax_allow_create = es_allow_create s\<rparr>
                 else
                   replace_tags_by_optional_value tmpl
                     [(''ID'', Some i), (''IssueInstant'', Some issue_instant), (''Destination'', Some destination),
                      (''ForceAuthn'', map_option bool_str (lo_force_authn opts)),
                      (''ProtocolBinding'', protocol_binding), (''AssertionConsumerServiceURL'', acs_url),
                      (''AssertionConsumerServiceIndex'', map_option show_nat (lo_acs_index opts)),
                      (''Issuer'', Some (sp_entity_text sp)), (''NameIDFormat'', Some name_id_format),
                      (''AllowCreate'', Some (bool_str (es_allow_create s)))])
          in Inr (i, xml)))"

definition signed_request_context :: "('k, 'e) out_ext_scheme \<Rightarrow> service_provider \<Rightarrow> binding \<Rightarrow> string \<Rightarrow> string \<Rightarrow>
    string option \<Rightarrow> string \<Rightarrow> binding_context res" where
  "signed_request_context E sp b xml destination relay_state i =
     (if \<not> crypto_enabled E then Inl (Unsupported ''signing AuthnRequest requires a crypto provider feature'')
      else
        let s = spr_setting sp; sig_alg = es_request_signature_algorithm s in
        rbind (ok_or (es_private_key s) (MissingKey ''private_key'')) (\<lambda>key_pem.
        rbind (ok_or (es_signing_cert s) (MissingKey ''signing_cert'')) (\<lambda>cert.
        rbind (load_private_key E key_pem (es_private_key_pass s)) (\<lambda>key.
        rbind
          (case b of
             Redirect \<Rightarrow>
               rbind (build_redirect_octet E SamlRequest xml relay_state sig_alg) (\<lambda>octet.
               rbind (construct_message_signature E octet key sig_alg) (\<lambda>sig.
                 Inr (append_signature E destination octet sig, None, None)))
           | Post \<Rightarrow>
               rbind (construct_saml_signature E xml True key cert sig_alg (es_transformation_algorithms s)
                        (es_signature_config s)) (\<lambda>signed.
                 Inr (base64_encode E signed, None, None))
           | SimpleSign \<Rightarrow>
               rbind (construct_message_signature E
                        (build_simplesign_octet (query_param SamlRequest) xml relay_state sig_alg) key sig_alg) (\<lambda>sig.
                 Inr (base64_encode E xml, Some sig, Some sig_alg))
           | Artifact \<Rightarrow> Inl (UnsupportedBinding Artifact)) (\<lambda>(context, signature, sig_alg_out).
          Inr \<lparr>bc_id = i, bc_context = context, bc_relay_state = relay_state, bc_entity_endpoint = destination,
               bc_binding = b, bc_request_type = ''SAMLRequest'', bc_signature = signature,
               bc_sig_alg = sig_alg_out\<rparr>)))))"

definition create_login_request_with_options :: "('k, 'e) out_ext_scheme \<Rightarrow> issue_env \<Rightarrow> service_provider \<Rightarrow>
    identity_provider \<Rightarrow> binding \<Rightarrow> login_request_options \<Rightarrow> binding_context res" where
  "create_login_request_with_options E env sp idp b opts =
     rbind (metadata_validate_at E (sp_inner (spr_metadata sp)) (ie_now env)) (\<lambda>_.
     rbind (metadata_validate_at E (idp_inner (idr_metadata idp)) (ie_now env)) (\<lambda>_.
     let signs = is_authn_request_signed (spr_metadata sp); wants = is_want_authn_requests_signed (idr_metadata idp) in
     if signs \<noteq> wants then
       Inl (Invalid (''ERR_METADATA_CONFLICT_REQUEST_SIGNED_FLAG: SP AuthnRequestsSigned='' @ bool_str signs
              @ '' but IdP WantAuthnRequestsSigned='' @ bool_str wants))
     else
       rbind (ok_or (get_single_sign_on_service (idr_metadata idp) b) (MissingMetadata ''SingleSignOnService'')) (\<lambda>destination.
       rbind (login_request_message E env sp destination opts) (\<lambda>(i, xml).
       let relay_state =
         (case lo_relay_state opts of
            Some v \<Rightarrow> Some v
          | None \<Rightarrow> if es_relay_state (spr_setting sp) \<noteq> [] then Some (es_relay_state (spr_setting sp)) else None) in
       if signs then signed_request_context E sp b xml destination relay_state i
       else
         rbind
           (case b of
              Redirect \<Rightarrow> build_redirect_url E destination SamlRequest xml relay_state
            | Post \<Rightarrow> Inr (base64_encode E xml)
            | SimpleSign \<Rightarrow> Inr (base64_encode E xml)
            | Artifact \<Rightarrow> Inl (UnsupportedBinding Artifact)) (\<lambda>context.
           Inr \<lparr>bc_id = i, bc_context = context, bc_relay_state = relay_state, bc_entity_endpoint = destination,
                bc_binding = b, bc_request_type = ''SAMLRequest'', bc_signature = None, bc_sig_alg = None\<rparr>)))))"

definition create_login_request :: "('k, 'e) out_ext_scheme \<Rightarrow> issue_env \<Rightarrow> service_provider \<Rightarrow> identity_provider \<Rightarrow>
    binding \<Rightarrow> custom_tag_replacement option \<Rightarrow> binding_context res" where
  "create_login_request E env sp idp b custom =
     create_login_request_with_options E env sp idp b (login_request_options_default\<lparr>lo_custom := custom\<rparr>)"

section \<open>Login responses at the service provider\<close>

datatype login_response_correlation = Unsolicited | CorrelateMessageId string

record login_response_parse_options =
  lr_expected_recipient :: "string option"
  lr_now :: "systime option"
  lr_clock_drifts :: "int \<times> int"

definition parse_options_compatibility :: "int \<times> int \<Rightarrow> login_response_parse_options" where
  "parse_options_compatibility drifts = \<lparr>lr_expected_recipient = None, lr_now = None, lr_clock_drifts = drifts\<rparr>"

definition parse_options_at :: "systime \<Rightarrow> int \<times> int \<Rightarrow> login_response_parse_options" where
  "parse_options_at now drifts = \<lparr>lr_expected_recipient = None, lr_now = Some now, lr_clock_drifts = drifts\<rparr>"

definition with_expected_recipient :: "string \<Rightarrow> login_response_parse_options \<Rightarrow> login_response_parse_options" where
  "with_expected_recipient r o' = o'\<lparr>lr_expected_recipient := Some r\<rparr>"

definition unsolicited_confirmation_fields :: "extractor_field list" where
  "unsolicited_confirmation_fields =
     [with_attrs [''Method''] (field_new ''subjectConfirmation'' [''SubjectConfirmation'']),
      with_attrs [''InResponseTo''] (field_new ''subjectConfirmationData'' [''SubjectConfirmation'', ''SubjectConfirmationData''])]"

fun reject_request_bound :: "('e) xml_ext_scheme \<Rightarrow> xml_limits \<Rightarrow> string list \<Rightarrow> unit res" where
  "reject_request_bound E limits [] = Inr ()"
| "reject_request_bound E limits (xml # xmls) =
     rbind (extract_with_limits E xml unsolicited_confirmation_fields limits) (\<lambda>confirmation.
       let data = get_str confirmation ''subjectConfirmationData'' in
       if get_str confirmation ''subjectConfirmation'' = Some BEARER_SUBJECT_CONFIRMATION_METHOD
          \<and> (case data of Some actual \<Rightarrow> actual \<noteq> [] | None \<Rightarrow> False)
       then Inl (InResponseToMismatch None data)
       else reject_request_bound E limits xmls)"

definition reject_unsolicited_request_bound_bearer_confirmations :: "('e) xml_ext_scheme \<Rightarrow> saml_value \<Rightarrow> xml_limits \<Rightarrow>
    unit res" where
  "reject_unsolicited_request_bound_bearer_confirmations E ex limits =
     reject_request_bound E limits (subject_confirmation_xmls ex)"

definition login_response_flow_options :: "service_provider \<Rightarrow> identity_provider \<Rightarrow> binding \<Rightarrow>
    login_response_correlation \<Rightarrow> login_response_parse_options \<Rightarrow> flow_options" where
  "login_response_flow_options sp idp b correlation opts =
     (let s = spr_setting sp in
      \<lparr>fo_binding = Some b, fo_parser_type = Some SamlResponse,
       fo_redirect_inflate_max_bytes = es_redirect_inflate_max_bytes s, fo_xml_limits = es_xml_limits s,
       fo_check_signature = True, fo_from_issuer = get_entity_id (idp_inner (idr_metadata idp)),
       fo_signing_certs = x509_certificates (idp_inner (idr_metadata idp)) Signing,
       fo_decrypt_key = (if es_is_assertion_encrypted s then es_enc_private_key s else None),
       fo_decrypt_key_pass = es_enc_private_key_pass s, fo_allow_insecure_software_rsa = es_allow_insecure_rsa s,
       fo_clock_drifts = lr_clock_drifts opts, fo_now = lr_now opts,
       fo_expected_audience = (if es_validate_audience s then Some (sp_entity_text sp) else None),
       fo_expected_in_response_to =
         (case correlation of CorrelateMessageId i \<Rightarrow> Some i | Unsolicited \<Rightarrow> None)\<rparr>)"

definition sp_assertion_requirement :: "entity_setting \<Rightarrow> assertion_signature_requirement" where
  "sp_assertion_requirement s = (if es_want_assertions_signed s then Direct else Compatible)"

definition sp_response_requirement :: "entity_setting \<Rightarrow> response_signature_requirement" where
  "sp_response_requirement s =
     (if es_want_message_signed s then Required
      else if es_want_encrypted_cbc_response_signed s then RequiredForEncryptedCbc
      else SigOptional)"

definition parse_login_response_inner :: "('k, 'e) flow_ext_scheme \<Rightarrow> clock \<Rightarrow> systime \<Rightarrow> service_provider \<Rightarrow>
    identity_provider \<Rightarrow> binding \<Rightarrow> http_request \<Rightarrow> login_response_correlation \<Rightarrow>
    login_response_parse_options \<Rightarrow> flow_result res" where
  "parse_login_response_inner E clk sys_now sp idp b request correlation opts =
     (let now = unwrap_or (lr_now opts) sys_now in
      rbind (metadata_validate_at E (sp_inner (spr_metadata sp)) now) (\<lambda>_.
      rbind (metadata_validate_at E (idp_inner (idr_metadata idp)) now) (\<lambda>_.
      rbind
        (case lr_expected_recipient opts of
           Some r \<Rightarrow> Inr r
         | None \<Rightarrow> ok_or (get_assertion_consumer_service (spr_metadata sp) b)
                     (MissingMetadata ''AssertionConsumerService'')) (\<lambda>recipient.
      rbind (flow_with_expected_recipient E clk (login_response_flow_options sp idp b correlation opts) request recipient
               (sp_assertion_requirement (spr_setting sp)) (sp_response_requirement (spr_setting sp))) (\<lambda>result.
      let irt = get_str (fr_extract result) ''response.inResponseTo'' in
      if correlation = Unsolicited \<and> (case irt of Some actual \<Rightarrow> actual \<noteq> [] | None \<Rightarrow> False)
      then Inl (InResponseToMismatch None irt)
      else if correlation = Unsolicited then
        rbind (reject_unsolicited_request_bound_bearer_confirmations E (fr_extract result)
                 (es_xml_limits (spr_setting sp))) (\<lambda>_. Inr result)
      else Inr result)))))"

definition parse_unsolicited_login_response :: "('k, 'e) flow_ext_scheme \<Rightarrow> clock \<Rightarrow> systime \<Rightarrow> service_provider \<Rightarrow>
    identity_provider \<Rightarrow> binding \<Rightarrow> http_request \<Rightarrow> flow_result res" where
  "parse_unsolicited_login_response E clk sys_now sp idp b request =
     parse_login_response_inner E clk sys_now sp idp b request Unsolicited
       (parse_options_compatibility (es_clock_drifts (spr_setting sp)))"

definition parse_login_response :: "('k, 'e) flow_ext_scheme \<Rightarrow> clock \<Rightarrow> systime \<Rightarrow> service_provider \<Rightarrow>
    identity_provider \<Rightarrow> binding \<Rightarrow> http_request \<Rightarrow> flow_result res" where
  "parse_login_response E clk sys_now sp idp b request = parse_unsolicited_login_response E clk sys_now sp idp b request"

definition parse_unsolicited_login_response_at :: "('k, 'e) flow_ext_scheme \<Rightarrow> clock \<Rightarrow> service_provider \<Rightarrow>
    identity_provider \<Rightarrow> binding \<Rightarrow> http_request \<Rightarrow> systime \<Rightarrow> int \<times> int \<Rightarrow> flow_result res" where
  "parse_unsolicited_login_response_at E clk sp idp b request now drifts =
     parse_login_response_inner E clk now sp idp b request Unsolicited (parse_options_at now drifts)"

definition parse_login_response_with_request_id :: "('k, 'e) flow_ext_scheme \<Rightarrow> clock \<Rightarrow> systime \<Rightarrow> service_provider \<Rightarrow>
    identity_provider \<Rightarrow> binding \<Rightarrow> http_request \<Rightarrow> string \<Rightarrow> flow_result res" where
  "parse_login_response_with_request_id E clk sys_now sp idp b request request_id =
     (if request_id = [] then Inl InvalidInResponseTo
      else parse_login_response_inner E clk sys_now sp idp b request (CorrelateMessageId request_id)
             (parse_options_compatibility (es_clock_drifts (spr_setting sp))))"

definition parse_login_response_with_request_id_at :: "('k, 'e) flow_ext_scheme \<Rightarrow> clock \<Rightarrow> systime \<Rightarrow> service_provider \<Rightarrow>
    identity_provider \<Rightarrow> binding \<Rightarrow> http_request \<Rightarrow> string \<Rightarrow> login_response_parse_options \<Rightarrow> flow_result res" where
  "parse_login_response_with_request_id_at E clk sys_now sp idp b request request_id opts =
     (if request_id = [] then Inl InvalidInResponseTo
      else parse_login_response_inner E clk sys_now sp idp b request (CorrelateMessageId request_id) opts)"

end
