(* ===== verification/Idp.thy ===== *)
theory Idp
  imports Providers
begin

text \<open>
  The raw identity provider (\<open>src/src/idp.rs\<close> and \<open>src/src/idp/login_response.rs\<close>): login responses are
  rendered, signed, encrypted and bound to their transport, and AuthnRequests are parsed.
\<close>

section \<open>The default login response\<close>

record login_response_xml =
  rx_protocol_prefix :: string
  rx_assertion_prefix :: string
  rx_response_id :: string
  rx_assertion_id :: string
  rx_issue_instant :: string
  rx_destination :: string
  rx_subject_recipient :: string
  rx_issuer :: string
  rx_status_code :: string
  rx_subject_not_on_or_after :: string
  rx_conditions_not_before :: string
  rx_conditions_not_on_or_after :: string
  rx_audience :: string
  rx_name_id_format :: string
  rx_name_id :: string
  rx_in_response_to :: string
  rx_attributes :: "login_response_attribute list"
  rx_user_attributes :: "(string \<times> string) list"

definition qname :: "string \<Rightarrow> string \<Rightarrow> string" where
  "qname pre l = pre @ '':'' @ l"

text \<open>The response up to the assertion, the assertion up to its attribute statement, and the ends.\<close>

definition write_response_head :: "login_response_xml \<Rightarrow> xml_writer \<Rightarrow> xml_writer" where
  "write_response_head i w =
     (let p = rx_protocol_prefix i; a = rx_assertion_prefix i;
          w = write_start (qname p ''Response'')
                [(''xmlns:'' @ p, NS_PROTOCOL), (''xmlns:'' @ a, NS_ASSERTION), (''ID'', rx_response_id i),
                 (''Version'', ''2.0''), (''IssueInstant'', rx_issue_instant i), (''Destination'', rx_destination i),
                 (''InResponseTo'', rx_in_response_to i)] w;
          w = write_text_element (qname a ''Issuer'') [] (rx_issuer i) w;
          w = write_start (qname p ''Status'') [] w;
          w = write_empty (qname p ''StatusCode'') [(''Value'', rx_status_code i)] w
      in write_end (qname p ''Status'') w)"

definition write_assertion_head :: "login_response_xml \<Rightarrow> xml_writer \<Rightarrow> xml_writer" where
  "write_assertion_head i w =
     (let a = rx_assertion_prefix i;
          w = write_start (qname a ''Assertion'')
                [(''xmlns:xsi'', DEFAULT_XSI), (''xmlns:xs'', DEFAULT_XS), (''xmlns:'' @ a, NS_ASSERTION),
                 (''ID'', rx_assertion_id i), (''Version'', ''2.0''), (''IssueInstant'', rx_issue_instant i)] w;
          w = write_text_element (qname a ''Issuer'') [] (rx_issuer i) w;
          w = write_start (qname a ''Subject'') [] w;
          w = write_text_element (qname a ''NameID'') [(''Format'', rx_name_id_format i)] (rx_name_id i) w;
          w = write_start (qname a ''SubjectConfirmation'') [(''Method'', BEARER_SUBJECT_CONFIRMATION_METHOD)] w;
          w = write_empty (qname a ''SubjectConfirmationData'')
                [(''NotOnOrAfter'', rx_subject_not_on_or_after i), (''Recipient'', rx_subject_recipient i),
                 (''InResponseTo'', rx_in_response_to i)] w;
          w = write_end (qname a ''SubjectConfirmation'') w;
          w = write_end (qname a ''Subject'') w;
          w = write_start (qname a ''Conditions'')
                [(''NotBefore'', rx_conditions_not_before i), (''NotOnOrAfter'', rx_conditions_not_on_or_after i)] w;
          w = write_start (qname a ''AudienceRestriction'') [] w;
          w = write_text_element (qname a ''Audience'') [] (rx_audience i) w;
          w = write_end (qname a ''AudienceRestriction'') w
      in write_end (qname a ''Conditions'') w)"

definition render_default_login_response :: "('k, 'e) out_ext_scheme \<Rightarrow> login_response_xml \<Rightarrow> string res" where
  "render_default_login_response E i =
     rbind (write_login_response_attribute_statement (rx_attributes i) (rx_user_attributes i) (rx_assertion_prefix i)
              (write_assertion_head i (write_response_head i writer_new))) (\<lambda>w.
       Inr (writer_finish E
         (write_end (qname (rx_protocol_prefix i) ''Response'')
           (write_end (qname (rx_assertion_prefix i) ''Assertion'') w))))"

section \<open>Rendering\<close>

record login_response_options =
  ro_in_response_to :: "string option"
  ro_relay_state :: "string option"
  ro_encrypt_then_sign :: bool
  ro_custom :: "custom_tag_replacement option"

record login_response_overrides =
  ov_acs :: "string option"
  ov_name_id_format :: "string option"
  ov_issuance_lifetime :: "int option"

definition login_response_overrides_default :: login_response_overrides where
  "login_response_overrides_default = \<lparr>ov_acs = None, ov_name_id_format = None, ov_issuance_lifetime = None\<rparr>"

record login_response_rendering =
  rr_name_id_format :: "string option"
  rr_custom :: "custom_tag_replacement option"
  rr_issuance_lifetime :: int

definition default_login_response_xml :: "issue_env \<Rightarrow> identity_provider \<Rightarrow> service_provider \<Rightarrow> string option \<Rightarrow> user \<Rightarrow>
    string \<Rightarrow> string \<Rightarrow> idp_issuance_window \<Rightarrow> login_response_attribute list \<Rightarrow> login_response_xml" where
  "default_login_response_xml env idp sp in_response_to u acs name_id_format window attributes =
     (let s = idr_setting idp in
      \<lparr>rx_protocol_prefix = es_tag_prefix_protocol s, rx_assertion_prefix = es_tag_prefix_assertion s,
       rx_response_id = generate_id (ie_uuid env), rx_assertion_id = generate_id (ie_assertion_uuid env),
       rx_issue_instant = iw_issue_instant window, rx_destination = acs, rx_subject_recipient = acs,
       rx_issuer = idp_entity_text idp, rx_status_code = STATUS_SUCCESS,
       rx_subject_not_on_or_after = iw_expiration window, rx_conditions_not_before = iw_issue_instant window,
       rx_conditions_not_on_or_after = iw_expiration window,
       rx_audience = str_or_empty (get_entity_id (sp_inner (spr_metadata sp))), rx_name_id_format = name_id_format,
       rx_name_id = u_name_id u, rx_in_response_to = str_or_empty in_response_to, rx_attributes = attributes,
       rx_user_attributes = u_attributes u\<rparr>)"

text \<open>The tags of a custom template, with the user's attributes last.\<close>

definition login_response_tags :: "issue_env \<Rightarrow> identity_provider \<Rightarrow> service_provider \<Rightarrow> string option \<Rightarrow> user \<Rightarrow>
    string \<Rightarrow> string \<Rightarrow> idp_issuance_window \<Rightarrow> (string \<times> string) list" where
  "login_response_tags env idp sp in_response_to u acs name_id_format window =
     [(''ID'', generate_id (ie_uuid env)), (''AssertionID'', generate_id (ie_assertion_uuid env)),
      (''Destination'', acs), (''SubjectRecipient'', acs), (''AssertionConsumerServiceURL'', acs),
      (''Audience'', str_or_empty (get_entity_id (sp_inner (spr_metadata sp)))), (''Issuer'', idp_entity_text idp),
      (''IssueInstant'', iw_issue_instant window), (''StatusCode'', STATUS_SUCCESS),
      (''ConditionsNotBefore'', iw_issue_instant window), (''ConditionsNotOnOrAfter'', iw_expiration window),
      (''SubjectConfirmationDataNotOnOrAfter'', iw_expiration window), (''NameIDFormat'', name_id_format),
      (''NameID'', u_name_id u), (''InResponseTo'', str_or_empty in_response_to), (''AuthnStatement'', [])]
     @ map (\<lambda>(tag, value). (attr_tag tag, value)) (u_attributes u)"

definition prepared_template :: "identity_provider \<Rightarrow> login_response_attribute list \<Rightarrow> string option \<Rightarrow> string" where
  "prepared_template idp attributes context =
     (let base = unwrap_or context LOGIN_RESPONSE_TEMPLATE;
          attribute_statement =
            (if attributes = [] then []
             else attribute_statement_builder attributes ATTRIBUTE_TEMPLATE ATTRIBUTE_STATEMENT_TEMPLATE)
      in apply_tag_prefixes (replace_first ''{AttributeStatement}'' attribute_statement base)
           (es_tag_prefix_protocol (idr_setting idp)) (es_tag_prefix_assertion (idr_setting idp)))"

definition render_login_response :: "('k, 'e) out_ext_scheme \<Rightarrow> issue_env \<Rightarrow> identity_provider \<Rightarrow> service_provider \<Rightarrow>
    string option \<Rightarrow> user \<Rightarrow> string \<Rightarrow> login_response_rendering \<Rightarrow> (string \<times> string) res" where
  "render_login_response E env idp sp in_response_to u acs rendering =
     (let s = idr_setting idp in
      rbind (validate_tag_prefix ''protocol'' (es_tag_prefix_protocol s)) (\<lambda>_.
      rbind (validate_tag_prefix ''assertion'' (es_tag_prefix_assertion s)) (\<lambda>_.
      let attributes = (case es_login_response_template s of Some t \<Rightarrow> lt_attributes t | None \<Rightarrow> []);
          context = Option.bind (es_login_response_template s) lt_context;
          name_id_format = unwrap_or (rr_name_id_format rendering) (first_or_empty (es_name_id_format s)) in
      if rr_custom rendering = None \<and> context = None then
        rbind (capture_idp_issuance_window E (ie_now_utc env) (rr_issuance_lifetime rendering)) (\<lambda>window.
        rbind (render_default_login_response E
                 (default_login_response_xml env idp sp in_response_to u acs name_id_format window attributes)) (\<lambda>xml.
          Inr (generate_id (ie_uuid env), xml)))
      else
        let prepared = prepared_template idp attributes context in
        (case rr_custom rendering of
           Some f \<Rightarrow> Inr (f prepared)
         | None \<Rightarrow>
             rbind (capture_idp_issuance_window E (ie_now_utc env) (rr_issuance_lifetime rendering)) (\<lambda>window.
               Inr (generate_id (ie_uuid env),
                 replace_tags_by_value prepared
                   (login_response_tags env idp sp in_response_to u acs name_id_format window)))))))"

section \<open>Signing, encrypting and binding\<close>

definition bind_response :: "('k, 'e) out_ext_scheme \<Rightarrow> identity_provider \<Rightarrow> binding \<Rightarrow> string \<Rightarrow> string \<Rightarrow> string option \<Rightarrow>
    (string \<times> string option \<times> string option) res" where
  "bind_response E idp b xml acs relay_state =
     (if \<not> crypto_enabled E then Inl (Unsupported ''createLoginResponse requires a crypto provider feature'')
      else
        let s = idr_setting idp; sig_alg = es_request_signature_algorithm s;
            signing_key = load_private_key E (str_or_empty (es_private_key s)) (es_private_key_pass s) in
        (case b of
           Post \<Rightarrow> Inr (base64_encode E xml, None, None)
         | Redirect \<Rightarrow>
             rbind signing_key (\<lambda>key.
             rbind (build_redirect_octet E SamlResponse xml relay_state sig_alg) (\<lambda>octet.
             rbind (construct_message_signature E octet key sig_alg) (\<lambda>sig.
               Inr (append_signature E acs octet sig, None, None))))
         | SimpleSign \<Rightarrow>
             rbind signing_key (\<lambda>key.
             rbind (construct_message_signature E
                      (build_simplesign_octet (query_param SamlResponse) xml relay_state sig_alg) key sig_alg) (\<lambda>sig.
               Inr (base64_encode E xml, Some sig, Some sig_alg)))
         | Artifact \<Rightarrow> Inl (UnsupportedBinding Artifact)))"

text \<open>
  The order of the steps: the assertion is signed first; without encryption the message is signed next;
  with encryption the assertion is encrypted and the message signed after it. The caller's
  \<open>encrypt_then_sign\<close> is not read.
\<close>

definition finalize_login_response :: "('k, 'e) out_ext_scheme \<Rightarrow> identity_provider \<Rightarrow> service_provider \<Rightarrow> binding \<Rightarrow>
    string \<Rightarrow> bool \<Rightarrow> string res" where
  "finalize_login_response E idp sp b raw encrypt_then_sign =
     (if \<not> crypto_enabled E then Inl (Unsupported ''createLoginResponse requires a crypto provider feature'')
      else
        let s = idr_setting idp; sig_alg = es_request_signature_algorithm s;
            transforms = es_transformation_algorithms (spr_setting sp);
            want_assertions_signed = is_want_assertions_signed (spr_metadata sp);
            sign_message = (b = Post \<and> (es_want_message_signed (spr_setting sp) \<or> \<not> want_assertions_signed)) in
        rbind (ok_or (es_private_key s) (MissingKey ''private_key'')) (\<lambda>key_pem.
        rbind (ok_or (es_signing_cert s) (MissingKey ''signing_cert'')) (\<lambda>cert.
        rbind (load_private_key E key_pem (es_private_key_pass s)) (\<lambda>key.
        rbind (if want_assertions_signed
               then construct_saml_signature E raw False key cert sig_alg transforms None else Inr raw) (\<lambda>xml.
        rbind (if sign_message \<and> \<not> es_is_assertion_encrypted s
               then construct_saml_signature E xml True key cert sig_alg transforms (es_signature_config s)
               else Inr xml) (\<lambda>xml.
        rbind
          (if es_is_assertion_encrypted s then
             rbind (ok_or (get_x509_certificate (sp_inner (spr_metadata sp)) Encryption)
                      (MissingMetadata ''encryption certificate'')) (\<lambda>encrypt_cert.
               encrypt_assertion E xml encrypt_cert (es_data_encryption_algorithm s) (es_key_encryption_algorithm s)
                 (es_tag_prefix_encrypted_assertion s))
           else Inr xml) (\<lambda>xml.
          if sign_message \<and> es_is_assertion_encrypted s
          then construct_saml_signature E xml True key cert sig_alg transforms (es_signature_config s)
          else Inr xml)))))))"

definition create_login_response_inner :: "('k, 'e) out_ext_scheme \<Rightarrow> issue_env \<Rightarrow> identity_provider \<Rightarrow>
    service_provider \<Rightarrow> binding \<Rightarrow> user \<Rightarrow> login_response_options \<Rightarrow> login_response_overrides \<Rightarrow>
    binding_context res" where
  "create_login_response_inner E env idp sp b u opts overrides =
     rbind (metadata_validate_at E (idp_inner (idr_metadata idp)) (ie_now env)) (\<lambda>_.
     rbind (metadata_validate_at E (sp_inner (spr_metadata sp)) (ie_now env)) (\<lambda>_.
     if b = Artifact then Inl (UnsupportedBinding Artifact)
     else
       rbind
         (case ov_acs overrides of
            Some acs \<Rightarrow> Inr acs
          | None \<Rightarrow> ok_or (get_assertion_consumer_service (spr_metadata sp) b)
                      (MissingMetadata ''AssertionConsumerService'')) (\<lambda>acs.
       rbind (render_login_response E env idp sp (ro_in_response_to opts) u acs
                \<lparr>rr_name_id_format = ov_name_id_format overrides, rr_custom = ro_custom opts,
                 rr_issuance_lifetime = unwrap_or (ov_issuance_lifetime overrides) (300 * ns_per_sec)\<rparr>)
         (\<lambda>(i, raw).
       rbind (finalize_login_response E idp sp b raw (ro_encrypt_then_sign opts)) (\<lambda>signed.
       rbind (bind_response E idp b signed acs (ro_relay_state opts)) (\<lambda>(context, signature, sig_alg).
         Inr \<lparr>bc_id = i, bc_context = context, bc_relay_state = ro_relay_state opts, bc_entity_endpoint = acs,
              bc_binding = b, bc_request_type = ''SAMLResponse'', bc_signature = signature,
              bc_sig_alg = sig_alg\<rparr>))))))"

definition create_login_response :: "('k, 'e) out_ext_scheme \<Rightarrow> issue_env \<Rightarrow> identity_provider \<Rightarrow> service_provider \<Rightarrow>
    binding \<Rightarrow> user \<Rightarrow> login_response_options \<Rightarrow> binding_context res" where
  "create_login_response E env idp sp b u opts =
     create_login_response_inner E env idp sp b u opts login_response_overrides_default"

definition create_login_response_with_overrides :: "('k, 'e) out_ext_scheme \<Rightarrow> issue_env \<Rightarrow> identity_provider \<Rightarrow>
    service_provider \<Rightarrow> binding \<Rightarrow> user \<Rightarrow> login_response_options \<Rightarrow> login_response_overrides \<Rightarrow>
    binding_context res" where
  "create_login_response_with_overrides E env idp sp b u opts overrides =
     create_login_response_inner E env idp sp b u opts overrides"

section \<open>AuthnRequests at the identity provider\<close>

definition login_request_flow_options :: "identity_provider \<Rightarrow> service_provider \<Rightarrow> binding \<Rightarrow> systime option \<Rightarrow>
    int \<times> int \<Rightarrow> flow_options" where
  "login_request_flow_options idp sp b now drifts =
     flow_options_default
       \<lparr>fo_binding := Some b, fo_parser_type := Some SamlRequest,
        fo_check_signature := is_want_authn_requests_signed (idr_metadata idp),
        fo_from_issuer := get_entity_id (sp_inner (spr_metadata sp)),
        fo_signing_certs := x509_certificates (sp_inner (spr_metadata sp)) Signing,
        fo_clock_drifts := drifts, fo_now := now,
        fo_redirect_inflate_max_bytes := es_redirect_inflate_max_bytes (idr_setting idp),
        fo_xml_limits := es_xml_limits (idr_setting idp)\<rparr>"

definition parse_login_request_at_inner :: "('k, 'e) flow_ext_scheme \<Rightarrow> clock \<Rightarrow> systime \<Rightarrow> identity_provider \<Rightarrow>
    service_provider \<Rightarrow> binding \<Rightarrow> http_request \<Rightarrow> systime option \<Rightarrow> int \<times> int \<Rightarrow> flow_result res" where
  "parse_login_request_at_inner E clk sys_now idp sp b request now drifts =
     (let validation_now = unwrap_or now sys_now in
      rbind (metadata_validate_at E (idp_inner (idr_metadata idp)) validation_now) (\<lambda>_.
      rbind (metadata_validate_at E (sp_inner (spr_metadata sp)) validation_now) (\<lambda>_.
        flow E clk (login_request_flow_options idp sp b now drifts) request)))"

definition parse_login_request :: "('k, 'e) flow_ext_scheme \<Rightarrow> clock \<Rightarrow> systime \<Rightarrow> identity_provider \<Rightarrow>
    service_provider \<Rightarrow> binding \<Rightarrow> http_request \<Rightarrow> flow_result res" where
  "parse_login_request E clk sys_now idp sp b request =
     parse_login_request_at_inner E clk sys_now idp sp b request None (es_clock_drifts (idr_setting idp))"

definition parse_login_request_at :: "('k, 'e) flow_ext_scheme \<Rightarrow> clock \<Rightarrow> identity_provider \<Rightarrow> service_provider \<Rightarrow>
    binding \<Rightarrow> http_request \<Rightarrow> systime \<Rightarrow> int \<times> int \<Rightarrow> flow_result res" where
  "parse_login_request_at E clk idp sp b request now drifts =
     parse_login_request_at_inner E clk now idp sp b request (Some now) drifts"

end
