(* ===== verification/Outbound_Check.thy ===== *)
theory Outbound_Check
  imports Writer
begin

text \<open>
  The checks a generated logout message must pass before it is sent: LogoutResponses
  (\<open>src/src/xml/profile/outbound_logout.rs\<close>) and the LogoutRequests of a session authority
  (\<open>src/src/xml/profile/outbound_logout_request.rs\<close>). Each is a state machine over the
  namespace-resolved events of the text, followed by checks on its tree. The properties: an accepted
  message has exactly the children the schema allows, in order, and says what the caller asked for.
\<close>

section \<open>Names and URIs\<close>

text \<open>The code points of UTF-8 text.\<close>

definition cont_bits :: "char \<Rightarrow> nat" where
  "cont_bits c = (of_char c :: nat) mod 64"

function code_points :: "string \<Rightarrow> nat list" where
  "code_points s =
     (case s of
        [] \<Rightarrow> []
      | a # r \<Rightarrow>
          let n = (of_char a :: nat) in
          if n < 0xC0 then n # code_points r
          else if n < 0xE0 then
            ((n mod 32) * 64 + foldl (\<lambda>v c. v * 64 + cont_bits c) 0 (take 1 r)) # code_points (drop 1 r)
          else if n < 0xF0 then
            ((n mod 16) * 4096 + foldl (\<lambda>v c. v * 64 + cont_bits c) 0 (take 2 r)) # code_points (drop 2 r)
          else
            ((n mod 8) * 262144 + foldl (\<lambda>v c. v * 64 + cont_bits c) 0 (take 3 r)) # code_points (drop 3 r))"
  by pat_completeness auto
termination
  by (relation "measure length") auto

declare code_points.simps [simp del]

lemma code_points_Nil [simp]: "code_points [] = []"
  by (subst code_points.simps) simp

lemma code_points_ascii: "(of_char c :: nat) < 0xC0 \<Longrightarrow> code_points (c # s) = of_char c # code_points s"
  by (subst code_points.simps) simp

definition in_ranges :: "(nat \<times> nat) list \<Rightarrow> nat \<Rightarrow> bool" where
  "in_ranges rs n = list_ex (\<lambda>(lo, hi). lo \<le> n \<and> n \<le> hi) rs"

definition is_xml_name_start_char :: "nat \<Rightarrow> bool" where
  "is_xml_name_start_char =
     in_ranges [(0x41, 0x5A), (0x5F, 0x5F), (0x61, 0x7A), (0xC0, 0xD6), (0xD8, 0xF6), (0xF8, 0x2FF), (0x370, 0x37D),
       (0x37F, 0x1FFF), (0x200C, 0x200D), (0x2070, 0x218F), (0x2C00, 0x2FEF), (0x3001, 0xD7FF), (0xF900, 0xFDCF),
       (0xFDF0, 0xFFFD), (0x10000, 0xEFFFF)]"

definition is_xml_name_char :: "nat \<Rightarrow> bool" where
  "is_xml_name_char n =
     (is_xml_name_start_char n
      \<or> in_ranges [(0x2D, 0x2E), (0x30, 0x39), (0xB7, 0xB7), (0x300, 0x36F), (0x203F, 0x2040)] n)"

definition is_ncname :: "string \<Rightarrow> bool" where
  "is_ncname s =
     (case code_points s of
        [] \<Rightarrow> False
      | c # cs \<Rightarrow> is_xml_name_start_char c \<and> list_all is_xml_name_char cs)"

fun contains_whitespace :: "string \<Rightarrow> bool" where
  "contains_whitespace [] = False"
| "contains_whitespace (c # s) \<longleftrightarrow> ws_len (c # s) \<noteq> 0 \<or> contains_whitespace s"

definition is_absolute_saml_uri :: "('e) net_ext_scheme \<Rightarrow> string \<Rightarrow> bool" where
  "is_absolute_saml_uri E v = (v \<noteq> [] \<and> \<not> contains_whitespace v \<and> is_ok (url_parse E v))"

definition is_entity_identifier :: "('e) net_ext_scheme \<Rightarrow> string \<Rightarrow> bool" where
  "is_entity_identifier E v = (length (code_points v) \<le> 1024 \<and> is_absolute_saml_uri E v)"

definition attribute_value :: "(string \<times> string) list \<Rightarrow> string \<Rightarrow> string option" where
  "attribute_value vals name = map_of vals name"

definition require_generated_issue_instant :: "(string \<times> string) list \<Rightarrow> string \<Rightarrow> unit res" where
  "require_generated_issue_instant vals label =
     (case attribute_value vals ''IssueInstant'' of
        None \<Rightarrow> Inl (ProtocolProfile (label @ '' is missing required unqualified attribute IssueInstant''))
      | Some t \<Rightarrow>
          if parse_generated_saml_utc_date_time t = None
          then Inl (ProtocolProfile
            (label @ '' IssueInstant must use the SAML-conformant UTC xs:dateTime form ending in Z''))
          else Inr ())"

definition is_structural_blank :: "string \<Rightarrow> bool" where
  "is_structural_blank t = list_all (\<lambda>b. b \<in> {CHR '' '', CHR 0x09, CHR 0x0D, CHR 0x0A}) t"

definition blank_reference :: "string option \<Rightarrow> bool" where
  "blank_reference c = (c \<in> {Some '' '', Some [CHR 0x09], Some [CHR 0x0D], Some [CHR 0x0A]})"

definition entity_issuer_attributes :: "string list" where
  "entity_issuer_attributes = [''Format'', ''NameQualifier'', ''SPNameQualifier'', ''SPProvidedID'']"

definition has_name_qualifiers :: "(string \<times> string) list \<Rightarrow> bool" where
  "has_name_qualifiers vals =
     list_ex (\<lambda>n. attribute_value vals n \<noteq> None) [''NameQualifier'', ''SPNameQualifier'', ''SPProvidedID'']"

abbreviation "FORMAT_ENTITY \<equiv> ''urn:oasis:names:tc:SAML:2.0:nameid-format:entity''"
abbreviation "FORMAT_UNSPECIFIED \<equiv> ''urn:oasis:names:tc:SAML:1.1:nameid-format:unspecified''"

section \<open>LogoutResponses\<close>

datatype ol_element =
  OlRoot | OlIssuer | OlSignature | OlExtensions bool | OlStatus | OlStatusCode bool | OlStatusMessage
| OlStatusDetail | OlExtensionContent

datatype root_stage = ExpectIssuer | AfterIssuer | AfterSignature | AfterExtensions | AfterStatus

datatype status_stage = ExpectStatusCode | AfterStatusCode | AfterStatusMessage | AfterStatusDetail

record ol_state =
  ol_root_stage :: root_stage
  ol_status_stage :: status_stage
  ol_saw_signature :: bool
  ol_destination :: "string option"

definition ol_state_default :: ol_state where
  "ol_state_default =
     \<lparr>ol_root_stage = ExpectIssuer, ol_status_stage = ExpectStatusCode, ol_saw_signature = False,
      ol_destination = None\<rparr>"

datatype outbound_logout_validation = BeforeSigning bool | AfterPostSigning

fun destination_required :: "outbound_logout_validation \<Rightarrow> bool" where
  "destination_required (BeforeSigning d) = d"
| "destination_required AfterPostSigning = True"

definition root_signature_required :: "outbound_logout_validation \<Rightarrow> bool" where
  "root_signature_required v = (v = AfterPostSigning)"

definition root_signature_allowed :: "outbound_logout_validation \<Rightarrow> bool" where
  "root_signature_allowed v = (v = AfterPostSigning)"

record ol_expectation =
  oe_id :: string
  oe_destination :: string
  oe_issuer :: string
  oe_in_response_to :: "string option"
  oe_validation :: outbound_logout_validation

definition validate_outbound_logout_root :: "('e) net_ext_scheme \<Rightarrow> string \<Rightarrow> ns_attr list \<Rightarrow> namespace_kind \<Rightarrow>
    ol_expectation \<Rightarrow> ol_state \<Rightarrow> ol_state res" where
  "validate_outbound_logout_root E l as ns ex st =
     (if l \<noteq> ''LogoutResponse'' \<or> ns \<noteq> NkProtocol
      then Inl (ProtocolProfile (''expected root {'' @ NS_PROTOCOL @ ''}LogoutResponse, got '' @ l))
      else
        rbind (validate_closed_unqualified_attributes l as
                 [''ID'', ''InResponseTo'', ''Version'', ''IssueInstant'', ''Destination'', ''Consent'']
                 [''ID'', ''Version'', ''IssueInstant'']) (\<lambda>vals.
        rbind (require_version_2 vals l) (\<lambda>_.
        rbind (require_generated_issue_instant vals l) (\<lambda>_.
        rbind (ok_or (attribute_value vals ''ID'')
                 (ProtocolProfile ''LogoutResponse is missing required unqualified attribute ID'')) (\<lambda>ident.
        if \<not> is_ncname ident
        then Inl (ProtocolProfile ''LogoutResponse ID must use the XML Schema xs:ID lexical form'')
        else if ident \<noteq> oe_id ex
        then Inl (Invalid (''outbound LogoutResponse ID mismatch: expected '' @ oe_id ex @ '', got '' @ ident))
        else
          let destination = attribute_value vals ''Destination''; st' = st\<lparr>ol_destination := destination\<rparr> in
          rbind
            (case destination of
               None \<Rightarrow> Inr ()
             | Some actual \<Rightarrow>
                 if \<not> is_absolute_saml_uri E actual
                 then Inl (ProtocolProfile ''LogoutResponse Destination must be a non-empty absolute URI without whitespace'')
                 else if actual \<noteq> oe_destination ex
                 then Inl (DestinationMismatch (oe_destination ex) (Some actual)) else Inr ()) (\<lambda>_.
          rbind
            (case attribute_value vals ''Consent'' of
               Some consent \<Rightarrow>
                 if \<not> is_absolute_saml_uri E consent
                 then Inl (ProtocolProfile ''LogoutResponse Consent must be a non-empty absolute URI without whitespace'')
                 else Inr ()
             | None \<Rightarrow> Inr ()) (\<lambda>_.
          let actual_in_response_to = attribute_value vals ''InResponseTo'' in
          if (case actual_in_response_to of Some v \<Rightarrow> \<not> is_ncname v | None \<Rightarrow> False)
          then Inl (ProtocolProfile ''LogoutResponse InResponseTo must use the XML Schema NCName lexical form'')
          else if actual_in_response_to \<noteq> oe_in_response_to ex
          then Inl (InResponseToMismatch (oe_in_response_to ex) actual_in_response_to)
          else Inr st')))))))"

definition validate_outbound_issuer :: "string \<Rightarrow> ns_attr list \<Rightarrow> namespace_kind \<Rightarrow> unit res" where
  "validate_outbound_issuer l as ns =
     (if ns \<noteq> NkAssertion then Inl (ProtocolProfile ''Issuer has an invalid namespace'')
      else
        rbind (validate_closed_unqualified_attributes l as entity_issuer_attributes []) (\<lambda>vals.
        if (case attribute_value vals ''Format'' of Some f \<Rightarrow> f \<noteq> FORMAT_ENTITY | None \<Rightarrow> False)
        then Inl (ProtocolProfile ''LogoutResponse Issuer Format must be omitted or use the entity identifier format'')
        else if has_name_qualifiers vals
        then Inl (ProtocolProfile (''entity-format LogoutResponse Issuer must omit NameQualifier, SPNameQualifier, ''
               @ ''and SPProvidedID''))
        else Inr ()))"

definition top_level_status_codes :: "string list" where
  "top_level_status_codes =
     [STATUS_SUCCESS, ''urn:oasis:names:tc:SAML:2.0:status:Requester'', ''urn:oasis:names:tc:SAML:2.0:status:Responder'',
      ''urn:oasis:names:tc:SAML:2.0:status:VersionMismatch'']"

definition validate_outbound_status_code :: "('e) net_ext_scheme \<Rightarrow> string \<Rightarrow> ns_attr list \<Rightarrow> namespace_kind \<Rightarrow> bool \<Rightarrow>
    unit res" where
  "validate_outbound_status_code E l as ns top_level =
     (if ns \<noteq> NkProtocol then Inl (ProtocolProfile ''StatusCode has an invalid namespace'')
      else
        rbind (validate_closed_unqualified_attributes l as [''Value''] [''Value'']) (\<lambda>vals.
        rbind (ok_or (attribute_value vals ''Value'')
                 (ProtocolProfile ''StatusCode is missing required unqualified attribute Value'')) (\<lambda>v.
        if \<not> is_absolute_saml_uri E v
        then Inl (ProtocolProfile ''StatusCode Value must be a non-empty absolute URI without whitespace'')
        else if top_level \<and> v \<notin> set top_level_status_codes
        then Inl (ProtocolProfile
               ''top-level StatusCode Value must be Success, Requester, Responder, or VersionMismatch'')
        else Inr ())))"

definition no_attributes :: "string \<Rightarrow> ns_attr list \<Rightarrow> unit res" where
  "no_attributes l as = rmap (\<lambda>_. ()) (validate_closed_unqualified_attributes l as [] [])"

definition validate_outbound_root_child :: "string \<Rightarrow> ns_attr list \<Rightarrow> namespace_kind \<Rightarrow> ol_expectation \<Rightarrow> ol_state \<Rightarrow>
    (ol_element \<times> ol_state) res" where
  "validate_outbound_root_child l as ns ex st =
     (let stage = ol_root_stage st in
      if l = ''Issuer'' \<and> ns = NkAssertion \<and> stage = ExpectIssuer then
        rbind (validate_outbound_issuer l as ns) (\<lambda>_. Inr (OlIssuer, st\<lparr>ol_root_stage := AfterIssuer\<rparr>))
      else if l = ''Signature'' \<and> ns = NkDsig \<and> stage = AfterIssuer then
        (if \<not> root_signature_allowed (oe_validation ex)
         then Inl (ProtocolProfile (''outbound LogoutResponse templates must not contain a root ds:Signature ''
                @ ''before library signing''))
         else Inr (OlSignature, st\<lparr>ol_root_stage := AfterSignature, ol_saw_signature := True\<rparr>))
      else if l = ''Extensions'' \<and> ns = NkProtocol \<and> stage \<in> {AfterIssuer, AfterSignature} then
        rbind (no_attributes l as) (\<lambda>_. Inr (OlExtensions False, st\<lparr>ol_root_stage := AfterExtensions\<rparr>))
      else if l = ''Status'' \<and> ns = NkProtocol \<and> stage \<in> {AfterIssuer, AfterSignature, AfterExtensions} then
        rbind (no_attributes l as) (\<lambda>_. Inr (OlStatus, st\<lparr>ol_root_stage := AfterStatus\<rparr>))
      else Inl (ProtocolProfile (''LogoutResponse children must be Issuer, optional Signature, optional Extensions, ''
             @ ''and exactly one final Status'')))"

definition validate_outbound_status_child :: "('e) net_ext_scheme \<Rightarrow> string \<Rightarrow> ns_attr list \<Rightarrow> namespace_kind \<Rightarrow>
    ol_state \<Rightarrow> (ol_element \<times> ol_state) res" where
  "validate_outbound_status_child E l as ns st =
     (let stage = ol_status_stage st in
      if l = ''StatusCode'' \<and> ns = NkProtocol \<and> stage = ExpectStatusCode then
        rbind (validate_outbound_status_code E l as ns True) (\<lambda>_.
          Inr (OlStatusCode False, st\<lparr>ol_status_stage := AfterStatusCode\<rparr>))
      else if l = ''StatusMessage'' \<and> ns = NkProtocol \<and> stage = AfterStatusCode then
        rbind (no_attributes l as) (\<lambda>_. Inr (OlStatusMessage, st\<lparr>ol_status_stage := AfterStatusMessage\<rparr>))
      else if l = ''StatusDetail'' \<and> ns = NkProtocol \<and> stage \<in> {AfterStatusCode, AfterStatusMessage} then
        rbind (no_attributes l as) (\<lambda>_. Inr (OlStatusDetail, st\<lparr>ol_status_stage := AfterStatusDetail\<rparr>))
      else Inl (ProtocolProfile (''Status children must be exactly one StatusCode, optional StatusMessage, and ''
             @ ''optional StatusDetail in that order'')))"

text \<open>
  The start of an element: its kind, the stack (innermost first) with the parent's mark updated, and
  the state.
\<close>

definition validate_outbound_logout_start :: "('e) net_ext_scheme \<Rightarrow> string \<Rightarrow> ns_attr list \<Rightarrow> namespace_kind \<Rightarrow>
    ol_element list \<Rightarrow> ol_expectation \<Rightarrow> ol_state \<Rightarrow> (ol_element \<times> ol_element list \<times> ol_state) res" where
  "validate_outbound_logout_start E l as ns stack ex st =
     (case stack of
        [] \<Rightarrow> rbind (validate_outbound_logout_root E l as ns ex st) (\<lambda>st'. Inr (OlRoot, [], st'))
      | parent # rest \<Rightarrow>
          (case parent of
             OlRoot \<Rightarrow> rbind (validate_outbound_root_child l as ns ex st) (\<lambda>(e, st'). Inr (e, stack, st'))
           | OlIssuer \<Rightarrow> Inl (ProtocolProfile ''LogoutResponse Issuer must not contain child elements'')
           | OlStatus \<Rightarrow> rbind (validate_outbound_status_child E l as ns st) (\<lambda>(e, st'). Inr (e, stack, st'))
           | OlStatusCode child_seen \<Rightarrow>
               if child_seen \<or> l \<noteq> ''StatusCode'' \<or> ns \<noteq> NkProtocol
               then Inl (ProtocolProfile ''StatusCode may contain at most one subordinate StatusCode'')
               else
                 rbind (validate_outbound_status_code E l as ns False) (\<lambda>_.
                   Inr (OlStatusCode False, OlStatusCode True # rest, st))
           | OlStatusMessage \<Rightarrow> Inl (ProtocolProfile ''StatusMessage must not contain child elements'')
           | OlExtensions child_seen \<Rightarrow>
               if ns \<notin> {NkDsig, NkXmlEncryption, NkOther}
               then Inl (ProtocolProfile ''Extensions direct children must use a namespace not defined by SAML'')
               else Inr (OlExtensionContent, OlExtensions True # rest, st)
           | OlStatusDetail \<Rightarrow> Inr (OlExtensionContent, stack, st)
           | OlSignature \<Rightarrow> Inr (OlExtensionContent, stack, st)
           | OlExtensionContent \<Rightarrow> Inr (OlExtensionContent, stack, st)))"

definition finish_outbound_logout_element :: "ol_element \<Rightarrow> ol_state \<Rightarrow> unit res" where
  "finish_outbound_logout_element e st =
     (if e = OlRoot \<and> ol_root_stage st \<noteq> AfterStatus
      then Inl (ProtocolProfile ''LogoutResponse must contain Issuer and exactly one final Status'')
      else if e = OlStatus \<and> ol_status_stage st = ExpectStatusCode
      then Inl (ProtocolProfile ''Status must contain exactly one StatusCode as its first child'')
      else if e = OlExtensions False
      then Inl (ProtocolProfile ''Extensions must contain at least one extension element'')
      else Inr ())"

definition is_structural_element :: "ol_element list \<Rightarrow> bool" where
  "is_structural_element stack =
     (case stack of
        [] \<Rightarrow> False
      | p # _ \<Rightarrow> (case p of OlRoot \<Rightarrow> True | OlStatus \<Rightarrow> True | OlStatusCode _ \<Rightarrow> True | OlExtensions _ \<Rightarrow> True
                  | OlStatusDetail \<Rightarrow> True | _ \<Rightarrow> False))"

definition ol_structural_error :: saml_error where
  "ol_structural_error = ProtocolProfile ''structural LogoutResponse elements may contain only whitespace text''"

definition validate_structural_text :: "ol_element list \<Rightarrow> string \<Rightarrow> unit res" where
  "validate_structural_text stack t =
     (if is_structural_element stack \<and> \<not> is_structural_blank t then Inl ol_structural_error else Inr ())"

definition validate_structural_reference :: "ol_element list \<Rightarrow> string + string option \<Rightarrow> unit res" where
  "validate_structural_reference stack c =
     (if is_structural_element stack then
        (case c of
           Inl e \<Rightarrow> Inl (Xml e)
         | Inr v \<Rightarrow> if \<not> blank_reference v then Inl ol_structural_error else Inr ())
      else Inr ())"

fun outbound_logout_loop :: "('e) net_ext_scheme \<Rightarrow> ol_expectation \<Rightarrow> ol_element list \<Rightarrow> ol_state \<Rightarrow> out_step list \<Rightarrow>
    ol_state res" where
  "outbound_logout_loop E ex stack st [] = Inr st"
| "outbound_logout_loop E ex stack st (OeFail e # steps) = Inl (Xml e)"
| "outbound_logout_loop E ex stack st (OeEvent r (OeStart l as) # steps) =
     rbind (validate_outbound_logout_start E l as (classify_namespace r) stack ex st) (\<lambda>(e, stack', st').
       outbound_logout_loop E ex (e # stack') st' steps)"
| "outbound_logout_loop E ex stack st (OeEvent r (OeEmpty l as) # steps) =
     rbind (validate_outbound_logout_start E l as (classify_namespace r) stack ex st) (\<lambda>(e, stack', st').
     rbind (finish_outbound_logout_element e st') (\<lambda>_. outbound_logout_loop E ex stack' st' steps))"
| "outbound_logout_loop E ex stack st (OeEvent r OeEnd # steps) =
     (case stack of
        [] \<Rightarrow> Inl (Xml ''unexpected closing element'')
      | e # rest \<Rightarrow> rbind (finish_outbound_logout_element e st) (\<lambda>_. outbound_logout_loop E ex rest st steps))"
| "outbound_logout_loop E ex stack st (OeEvent r (OeText t) # steps) =
     rbind (rmap_err Xml t) (\<lambda>t. rbind (validate_structural_text stack t) (\<lambda>_. outbound_logout_loop E ex stack st steps))"
| "outbound_logout_loop E ex stack st (OeEvent r (OeCData t) # steps) =
     rbind (validate_structural_text stack t) (\<lambda>_. outbound_logout_loop E ex stack st steps)"
| "outbound_logout_loop E ex stack st (OeEvent r (OeRef c) # steps) =
     rbind (validate_structural_reference stack c) (\<lambda>_. outbound_logout_loop E ex stack st steps)"
| "outbound_logout_loop E ex stack st (OeEvent r OeDocType # steps) = Inl (Xml ''DOCTYPE is not allowed'')"
| "outbound_logout_loop E ex stack st (OeEvent r OeOther # steps) = outbound_logout_loop E ex stack st steps"

definition validate_outbound_logout_stream :: "('k, 'e) out_ext_scheme \<Rightarrow> string \<Rightarrow> ol_expectation \<Rightarrow> ol_state res" where
  "validate_outbound_logout_stream E xml ex = outbound_logout_loop E ex [] ol_state_default (out_read E xml)"

definition validate_logout_response_outbound :: "('k, 'e) out_ext_scheme \<Rightarrow> string \<Rightarrow> string \<Rightarrow> string \<Rightarrow> string \<Rightarrow>
    string option \<Rightarrow> outbound_logout_validation \<Rightarrow> node res" where
  "validate_logout_response_outbound E xml expected_id expected_destination expected_issuer expected_in_response_to
     validation =
     rbind (parse_with_limits E xml xml_limits_unbounded) (\<lambda>root.
     rbind (validate_outbound_logout_stream E xml
              \<lparr>oe_id = expected_id, oe_destination = expected_destination, oe_issuer = expected_issuer,
               oe_in_response_to = expected_in_response_to, oe_validation = validation\<rparr>) (\<lambda>st.
     case children root of
       [] \<Rightarrow> Inl (ProtocolProfile ''LogoutResponse must contain an Issuer before all other children'')
     | issuer # _ \<Rightarrow>
         if node_text issuer = []
         then Inl (ProtocolProfile ''LogoutResponse Issuer must identify the responding entity'')
         else if \<not> is_entity_identifier E (node_text issuer)
         then Inl (ProtocolProfile (''entity-format LogoutResponse Issuer must be an absolute URI no longer than ''
                @ ''1024 characters''))
         else if node_text issuer \<noteq> expected_issuer then Inl (IssuerMismatch expected_issuer (Some (node_text issuer)))
         else if (destination_required validation \<or> ol_saw_signature st) \<and> ol_destination st = None
         then Inl (DestinationMismatch expected_destination None)
         else if root_signature_required validation \<and> \<not> ol_saw_signature st
         then Inl (ProtocolProfile ''signed POST LogoutResponse must contain a root ds:Signature in schema order'')
         else Inr root))"

section \<open>LogoutRequests of a session authority\<close>

datatype outbound_logout_request_validation = RequestBeforeSigning | RequestAfterPostSigning

record oq_expectation =
  oq_id :: string
  oq_issue_instant :: string
  oq_destination :: string
  oq_issuer :: string
  oq_expiration :: string
  oq_name_id :: string
  oq_name_id_format :: string
  oq_session_indexes :: "string list"

datatype oq_element =
  OqRoot | OqIssuer | OqSignature | OqSignatureContent | OqExtensions bool | OqExtensionContent | OqNameId
| OqSessionIndex

datatype oq_stage =
  OqExpectIssuer | OqAfterIssuer | OqAfterSignature | OqAfterExtensions | OqAfterNameId | OqAfterSessionIndex

record oq_state =
  oq_root_stage :: oq_stage
  oq_saw_signature :: bool

definition oq_state_default :: oq_state where
  "oq_state_default = \<lparr>oq_root_stage = OqExpectIssuer, oq_saw_signature = False\<rparr>"

definition oq_validate_root :: "string \<Rightarrow> ns_attr list \<Rightarrow> namespace_kind \<Rightarrow> oq_expectation \<Rightarrow> unit res" where
  "oq_validate_root l as ns ex =
     (if l \<noteq> ''LogoutRequest'' \<or> ns \<noteq> NkProtocol
      then Inl (ProtocolProfile (''expected root {'' @ NS_PROTOCOL @ ''}LogoutRequest, got '' @ l))
      else
        rbind (validate_closed_unqualified_attributes l as
                 [''ID'', ''Version'', ''IssueInstant'', ''Destination'', ''NotOnOrAfter'', ''Reason'', ''Consent'']
                 [''ID'', ''Version'', ''IssueInstant'', ''Destination'']) (\<lambda>vals.
        rbind (require_version_2 vals l) (\<lambda>_.
        rbind (ok_or (attribute_value vals ''ID'')
                 (ProtocolProfile ''LogoutRequest is missing required unqualified attribute ID'')) (\<lambda>ident.
        if ident \<noteq> oq_id ex
        then Inl (Invalid (''outbound LogoutRequest ID mismatch: expected '' @ oq_id ex @ '', got '' @ ident))
        else
        rbind (ok_or (attribute_value vals ''IssueInstant'')
                 (ProtocolProfile ''LogoutRequest is missing required unqualified attribute IssueInstant'')) (\<lambda>issue_instant.
        if parse_generated_saml_utc_date_time issue_instant = None
        then Inl (ProtocolProfile
               ''LogoutRequest IssueInstant must use the SAML-conformant UTC xs:dateTime form ending in Z'')
        else if issue_instant \<noteq> oq_issue_instant ex
        then Inl (Invalid (''outbound LogoutRequest IssueInstant mismatch: expected '' @ oq_issue_instant ex
               @ '', got '' @ issue_instant))
        else if attribute_value vals ''Destination'' \<noteq> Some (oq_destination ex)
        then Inl (DestinationMismatch (oq_destination ex) (attribute_value vals ''Destination''))
        else
          let expiration = attribute_value vals ''NotOnOrAfter'' in
          if (case expiration of Some v \<Rightarrow> parse_generated_saml_utc_date_time v = None | None \<Rightarrow> False)
          then Inl (ProtocolProfile
                 ''LogoutRequest NotOnOrAfter must use the SAML-conformant UTC xs:dateTime form ending in Z'')
          else if expiration \<noteq> Some (oq_expiration ex)
          then Inl (ProtocolProfile (''Session Authority LogoutRequest NotOnOrAfter must equal the generated expiration ''
                 @ oq_expiration ex))
          else Inr ())))))"

definition oq_validate_issuer :: "string \<Rightarrow> ns_attr list \<Rightarrow> namespace_kind \<Rightarrow> unit res" where
  "oq_validate_issuer l as ns =
     (if ns \<noteq> NkAssertion then Inl (ProtocolProfile ''LogoutRequest Issuer has an invalid namespace'')
      else
        rbind (validate_closed_unqualified_attributes l as entity_issuer_attributes []) (\<lambda>vals.
        if (case attribute_value vals ''Format'' of Some f \<Rightarrow> f \<noteq> FORMAT_ENTITY | None \<Rightarrow> False)
        then Inl (ProtocolProfile ''LogoutRequest Issuer Format must be omitted or use the entity identifier format'')
        else if has_name_qualifiers vals
        then Inl (ProtocolProfile (''entity-format LogoutRequest Issuer must omit NameQualifier, SPNameQualifier, ''
               @ ''and SPProvidedID''))
        else Inr ()))"

definition oq_validate_name_id :: "string \<Rightarrow> ns_attr list \<Rightarrow> namespace_kind \<Rightarrow> string \<Rightarrow> unit res" where
  "oq_validate_name_id l as ns expected_format =
     (if ns \<noteq> NkAssertion then Inl (ProtocolProfile ''LogoutRequest NameID has an invalid namespace'')
      else
        rbind (validate_closed_unqualified_attributes l as entity_issuer_attributes []) (\<lambda>vals.
        if has_name_qualifiers vals
        then Inl (ProtocolProfile (''typed LogoutRequest NameID must omit unmodeled NameQualifier, SPNameQualifier, ''
               @ ''and SPProvidedID attributes''))
        else
          (case attribute_value vals ''Format'' of
             Some f \<Rightarrow>
               if f \<noteq> expected_format
               then Inl (ProtocolProfile (''LogoutRequest NameID Format mismatch: expected '' @ expected_format
                      @ '', got '' @ f)) else Inr ()
           | None \<Rightarrow>
               if expected_format \<noteq> [] \<and> expected_format \<noteq> FORMAT_UNSPECIFIED
               then Inl (ProtocolProfile (''LogoutRequest NameID is missing expected Format '' @ expected_format))
               else Inr ())))"

definition oq_root_child :: "string \<Rightarrow> ns_attr list \<Rightarrow> namespace_kind \<Rightarrow> oq_expectation \<Rightarrow>
    outbound_logout_request_validation \<Rightarrow> oq_state \<Rightarrow> (oq_element \<times> oq_state) res" where
  "oq_root_child l as ns ex validation st =
     (let stage = oq_root_stage st in
      if l = ''Issuer'' \<and> ns = NkAssertion \<and> stage = OqExpectIssuer then
        rbind (oq_validate_issuer l as ns) (\<lambda>_. Inr (OqIssuer, st\<lparr>oq_root_stage := OqAfterIssuer\<rparr>))
      else if l = ''Signature'' \<and> ns = NkDsig \<and> stage = OqAfterIssuer then
        (if validation \<noteq> RequestAfterPostSigning
         then Inl (ProtocolProfile (''outbound LogoutRequest templates must not contain a root ds:Signature ''
                @ ''before library signing''))
         else Inr (OqSignature, st\<lparr>oq_root_stage := OqAfterSignature, oq_saw_signature := True\<rparr>))
      else if l = ''Extensions'' \<and> ns = NkProtocol \<and> stage \<in> {OqAfterIssuer, OqAfterSignature} then
        rbind (no_attributes l as) (\<lambda>_. Inr (OqExtensions False, st\<lparr>oq_root_stage := OqAfterExtensions\<rparr>))
      else if l = ''NameID'' \<and> ns = NkAssertion \<and> stage \<in> {OqAfterIssuer, OqAfterSignature, OqAfterExtensions} then
        rbind (oq_validate_name_id l as ns (oq_name_id_format ex)) (\<lambda>_.
          Inr (OqNameId, st\<lparr>oq_root_stage := OqAfterNameId\<rparr>))
      else if l = ''SessionIndex'' \<and> ns = NkProtocol \<and> stage \<in> {OqAfterNameId, OqAfterSessionIndex} then
        rbind (no_attributes l as) (\<lambda>_. Inr (OqSessionIndex, st\<lparr>oq_root_stage := OqAfterSessionIndex\<rparr>))
      else Inl (ProtocolProfile (''LogoutRequest children must be Issuer, optional library-owned Signature, optional ''
             @ ''Extensions, NameID, and SessionIndex values in schema order'')))"

definition oq_validate_start :: "string \<Rightarrow> ns_attr list \<Rightarrow> namespace_kind \<Rightarrow> oq_element list \<Rightarrow> oq_expectation \<Rightarrow>
    outbound_logout_request_validation \<Rightarrow> oq_state \<Rightarrow> (oq_element \<times> oq_element list \<times> oq_state) res" where
  "oq_validate_start l as ns stack ex validation st =
     (case stack of
        [] \<Rightarrow> rbind (oq_validate_root l as ns ex) (\<lambda>_. Inr (OqRoot, [], st))
      | parent # rest \<Rightarrow>
          (case parent of
             OqSignature \<Rightarrow> Inr (OqSignatureContent, stack, st)
           | OqSignatureContent \<Rightarrow> Inr (OqSignatureContent, stack, st)
           | OqExtensions child_seen \<Rightarrow>
               if ns \<notin> {NkDsig, NkXmlEncryption, NkOther}
               then Inl (ProtocolProfile ''Extensions direct children must use a namespace not defined by SAML'')
               else Inr (OqExtensionContent, OqExtensions True # rest, st)
           | OqExtensionContent \<Rightarrow> Inr (OqExtensionContent, stack, st)
           | OqRoot \<Rightarrow> rbind (oq_root_child l as ns ex validation st) (\<lambda>(e, st'). Inr (e, stack, st'))
           | _ \<Rightarrow> Inl (ProtocolProfile
                    ''LogoutRequest Issuer, NameID, and SessionIndex must not contain child elements'')))"

definition oq_finish_element :: "oq_element \<Rightarrow> unit res" where
  "oq_finish_element e =
     (if e = OqExtensions False
      then Inl (ProtocolProfile ''Extensions must contain at least one extension element'') else Inr ())"

definition oq_is_structural :: "oq_element list \<Rightarrow> bool" where
  "oq_is_structural stack =
     (case stack of
        [] \<Rightarrow> False
      | p # _ \<Rightarrow> (case p of OqRoot \<Rightarrow> True | OqExtensions _ \<Rightarrow> True | _ \<Rightarrow> False))"

definition oq_structural_error :: saml_error where
  "oq_structural_error = ProtocolProfile ''structural LogoutRequest elements may contain only whitespace text''"

definition oq_structural_text :: "oq_element list \<Rightarrow> string \<Rightarrow> unit res" where
  "oq_structural_text stack t =
     (if oq_is_structural stack \<and> \<not> is_structural_blank t then Inl oq_structural_error else Inr ())"

definition oq_structural_reference :: "oq_element list \<Rightarrow> string + string option \<Rightarrow> unit res" where
  "oq_structural_reference stack c =
     (if oq_is_structural stack then
        (case c of
           Inl e \<Rightarrow> Inl (Xml e)
         | Inr v \<Rightarrow> if \<not> blank_reference v then Inl oq_structural_error else Inr ())
      else Inr ())"

fun oq_loop :: "oq_expectation \<Rightarrow> outbound_logout_request_validation \<Rightarrow> oq_element list \<Rightarrow> oq_state \<Rightarrow>
    out_step list \<Rightarrow> oq_state res" where
  "oq_loop ex v stack st [] = Inr st"
| "oq_loop ex v stack st (OeFail e # steps) = Inl (Xml e)"
| "oq_loop ex v stack st (OeEvent r (OeStart l as) # steps) =
     rbind (oq_validate_start l as (classify_namespace r) stack ex v st) (\<lambda>(e, stack', st').
       oq_loop ex v (e # stack') st' steps)"
| "oq_loop ex v stack st (OeEvent r (OeEmpty l as) # steps) =
     rbind (oq_validate_start l as (classify_namespace r) stack ex v st) (\<lambda>(e, stack', st').
     rbind (oq_finish_element e) (\<lambda>_. oq_loop ex v stack' st' steps))"
| "oq_loop ex v stack st (OeEvent r OeEnd # steps) =
     (case stack of
        [] \<Rightarrow> Inl (Xml ''unexpected closing element'')
      | e # rest \<Rightarrow> rbind (oq_finish_element e) (\<lambda>_. oq_loop ex v rest st steps))"
| "oq_loop ex v stack st (OeEvent r (OeText t) # steps) =
     rbind (rmap_err Xml t) (\<lambda>t. rbind (oq_structural_text stack t) (\<lambda>_. oq_loop ex v stack st steps))"
| "oq_loop ex v stack st (OeEvent r (OeCData t) # steps) =
     rbind (oq_structural_text stack t) (\<lambda>_. oq_loop ex v stack st steps)"
| "oq_loop ex v stack st (OeEvent r (OeRef c) # steps) =
     rbind (oq_structural_reference stack c) (\<lambda>_. oq_loop ex v stack st steps)"
| "oq_loop ex v stack st (OeEvent r OeDocType # steps) = Inl (Xml ''DOCTYPE is not allowed'')"
| "oq_loop ex v stack st (OeEvent r OeOther # steps) = oq_loop ex v stack st steps"

text \<open>The name identifier: the first child after the issuer that is neither Signature nor Extensions.\<close>

definition skip_child :: "string \<Rightarrow> node list \<Rightarrow> node list" where
  "skip_child name cs = (case cs of c # rest \<Rightarrow> if local_name c = name then rest else cs | [] \<Rightarrow> [])"

definition oq_check_tree :: "oq_expectation \<Rightarrow> node \<Rightarrow> unit res" where
  "oq_check_tree ex root =
     (case children root of
        [] \<Rightarrow> Inl (ProtocolProfile ''LogoutRequest is missing Issuer'')
      | issuer # cs \<Rightarrow>
          if node_text issuer \<noteq> oq_issuer ex then Inl (IssuerMismatch (oq_issuer ex) (Some (node_text issuer)))
          else
            (case skip_child ''Extensions'' (skip_child ''Signature'' cs) of
               [] \<Rightarrow> Inl (ProtocolProfile ''LogoutRequest is missing NameID'')
             | n # rest \<Rightarrow>
                 if node_text n \<noteq> oq_name_id ex
                 then Inl (Invalid (''outbound LogoutRequest NameID mismatch: expected '' @ oq_name_id ex @ '', got ''
                        @ node_text n))
                 else if map node_text rest \<noteq> oq_session_indexes ex
                 then Inl (Invalid
                        ''outbound LogoutRequest SessionIndex values do not match the requested subject'')
                 else Inr ()))"

definition validate_logout_request_outbound :: "('k, 'e) out_ext_scheme \<Rightarrow> string \<Rightarrow> oq_expectation \<Rightarrow>
    outbound_logout_request_validation \<Rightarrow> node res" where
  "validate_logout_request_outbound E xml ex validation =
     rbind (parse_with_limits E xml xml_limits_unbounded) (\<lambda>root.
     rbind (oq_loop ex validation [] oq_state_default (out_read E xml)) (\<lambda>st.
     if oq_root_stage st \<notin> {OqAfterNameId, OqAfterSessionIndex}
     then Inl (ProtocolProfile ''LogoutRequest must contain Issuer followed by exactly one NameID'')
     else if validation = RequestAfterPostSigning \<and> \<not> oq_saw_signature st
     then Inl (ProtocolProfile ''signed POST LogoutRequest must contain a root ds:Signature in schema order'')
     else rbind (oq_check_tree ex root) (\<lambda>_. Inr root)))"

section \<open>The elements of a stream\<close>

text \<open>The tags of a stream, as \<open>Dom\<close> has them of the plain reader; both readers see the same ones.\<close>

fun out_names :: "out_step list \<Rightarrow> string option list" where
  "out_names [] = []"
| "out_names (OeFail e # steps) = []"
| "out_names (OeEvent r (OeStart l as) # steps) = Some l # out_names steps"
| "out_names (OeEvent r (OeEmpty l as) # steps) = Some l # None # out_names steps"
| "out_names (OeEvent r OeEnd # steps) = None # out_names steps"
| "out_names (OeEvent r e # steps) = out_names steps"

fun tok_name :: "xml_tok \<Rightarrow> string option" where
  "tok_name (TOpen n as) = Some n"
| "tok_name TClose = None"

definition readers_agree :: "('k, 'e) out_ext_scheme \<Rightarrow> string \<Rightarrow> bool" where
  "readers_agree E xml \<longleftrightarrow>
     ends_matched 0 (xml_read E xml)
     \<and> map tok_name (concat (map step_toks (xml_read E xml))) = out_names (out_read E xml)"

text \<open>The children of the outermost elements, with their namespaces, and the first element.\<close>

fun root_children :: "nat \<Rightarrow> out_step list \<Rightarrow> (string \<times> namespace_kind) list" where
  "root_children d [] = []"
| "root_children d (OeFail e # steps) = []"
| "root_children d (OeEvent r (OeStart l as) # steps) =
     (if d = 1 then [(l, classify_namespace r)] else []) @ root_children (Suc d) steps"
| "root_children d (OeEvent r (OeEmpty l as) # steps) =
     (if d = 1 then [(l, classify_namespace r)] else []) @ root_children d steps"
| "root_children d (OeEvent r OeEnd # steps) = root_children (d - 1) steps"
| "root_children d (OeEvent r e # steps) = root_children d steps"

fun first_element :: "out_step list \<Rightarrow> (string \<times> namespace_kind \<times> ns_attr list) option" where
  "first_element [] = None"
| "first_element (OeFail e # steps) = None"
| "first_element (OeEvent r (OeStart l as) # steps) = Some (l, classify_namespace r, as)"
| "first_element (OeEvent r (OeEmpty l as) # steps) = Some (l, classify_namespace r, as)"
| "first_element (OeEvent r e # steps) = first_element steps"

text \<open>The same on names alone: children of the outermost elements, and the final depth.\<close>

fun name_children :: "nat \<Rightarrow> string option list \<Rightarrow> string list" where
  "name_children d [] = []"
| "name_children d (Some n # ts) = (if d = 1 then [n] else []) @ name_children (Suc d) ts"
| "name_children d (None # ts) = name_children (d - 1) ts"

fun name_depth :: "nat \<Rightarrow> string option list \<Rightarrow> nat" where
  "name_depth d [] = d"
| "name_depth d (Some n # ts) = name_depth (Suc d) ts"
| "name_depth d (None # ts) = name_depth (d - 1) ts"

lemma name_children_of: "map fst (root_children d steps) = name_children d (out_names steps)"
  by (induction d steps rule: root_children.induct) auto

lemma name_children_append:
  "name_children d (ts @ us) = name_children d ts @ name_children (name_depth d ts) us"
  by (induction d ts rule: name_children.induct) auto

lemma name_depth_append: "name_depth d (ts @ us) = name_depth (name_depth d ts) us"
  by (induction d ts rule: name_depth.induct) auto

lemma node_names:
  "name_depth d (map tok_name (node_toks n)) = d
   \<and> (0 < d \<longrightarrow> name_children d (map tok_name (node_toks n)) = (if d = 1 then [local_name n] else []))"
proof (induction n arbitrary: d)
  case (Node nm ats cs tx s e)
  have c: "name_depth (Suc d) (map tok_name (concat (map node_toks cs))) = Suc d
      \<and> (0 < d \<longrightarrow> name_children (Suc d) (map tok_name (concat (map node_toks cs))) = [])"
    using Node
  proof (induction cs)
    case (Cons c cs)
    have "name_depth (Suc d) (map tok_name (node_toks c)) = Suc d"
      "0 < d \<longrightarrow> name_children (Suc d) (map tok_name (node_toks c)) = []"
      using Cons.prems [of c "Suc d"] by auto
    moreover have "name_depth (Suc d) (map tok_name (concat (map node_toks cs))) = Suc d
        \<and> (0 < d \<longrightarrow> name_children (Suc d) (map tok_name (concat (map node_toks cs))) = [])"
      by (rule Cons.IH) (use Cons.prems in auto)
    ultimately show ?case by (simp add: name_depth_append name_children_append)
  qed simp
  then show ?case
    by (simp add: name_depth_append name_children_append)
qed

lemma node_children_names: "name_children 0 (map tok_name (node_toks n)) = map local_name (children n)"
proof (cases n)
  case (Node nm ats cs tx s e)
  have "name_depth 1 (map tok_name (concat (map node_toks cs))) = 1
      \<and> name_children 1 (map tok_name (concat (map node_toks cs))) = map local_name cs"
  proof (induction cs)
    case (Cons c cs)
    then show ?case
      using node_names [of 1 c] by (simp add: name_depth_append name_children_append)
  qed simp
  then show ?thesis
    using Node by (simp add: name_children_append)
qed

lemma agreed_children:
  assumes "parse_with_limits E xml L = Inr root" "readers_agree E xml"
  shows "map local_name (children root) = map fst (root_children 0 (out_read E xml))"
    "out_names (out_read E xml) = Some (local_name root) # tl (out_names (out_read E xml))"
    "name_depth 0 (out_names (out_read E xml)) = 0"
proof -
  have t: "map tok_name (node_toks root) = out_names (out_read E xml)"
    using parse_toks_eq assms unfolding readers_agree_def by fastforce
  show "map local_name (children root) = map fst (root_children 0 (out_read E xml))"
    unfolding name_children_of t [symmetric] node_children_names ..
  show "out_names (out_read E xml) = Some (local_name root) # tl (out_names (out_read E xml))"
    unfolding t [symmetric] by (cases root) simp
  show "name_depth 0 (out_names (out_read E xml)) = 0"
    unfolding t [symmetric] using node_names [of 0 root] by simp
qed

end
