(* ===== verification/Logout.thy ===== *)
theory Logout
  imports Providers Outbound_Check
begin

text \<open>
  Raw single logout (\<open>src/src/logout/\<close>): messages are rendered from the default writer or a custom
  template, checked by \<open>Outbound_Check\<close>, signed or bound unsigned, and checked again after embedding a
  POST signature; incoming messages go through the flow.
\<close>

section \<open>Rendering\<close>

definition issuer_of :: "entity_setting \<Rightarrow> metadata \<Rightarrow> string" where
  "issuer_of setting meta =
     (case es_entity_id setting of Some i \<Rightarrow> i | None \<Rightarrow> str_or_empty (get_entity_id meta))"

record logout_request_subject =
  lrs_name_id :: string
  lrs_session_indexes :: "string list"

record logout_request_time =
  lrt_issue_instant :: string
  lrt_not_on_or_after :: "string option"

definition subject_from_user :: "user \<Rightarrow> logout_request_subject" where
  "subject_from_user u =
     \<lparr>lrs_name_id = u_name_id u,
      lrs_session_indexes = (case u_session_index u of Some i \<Rightarrow> [i] | None \<Rightarrow> [])\<rparr>"

definition render_default_logout_response :: "('k, 'e) out_ext_scheme \<Rightarrow> entity_setting \<Rightarrow> string \<Rightarrow> string \<Rightarrow> string \<Rightarrow>
    string option \<Rightarrow> string \<Rightarrow> string res" where
  "render_default_logout_response E setting i issue_instant destination in_response_to issuer =
     (let p = es_tag_prefix_protocol setting; a = es_tag_prefix_assertion setting in
      rbind (validate_tag_prefix ''protocol'' p) (\<lambda>_.
      rbind (validate_tag_prefix ''assertion'' a) (\<lambda>_.
      let root = p @ '':LogoutResponse'';
          w = write_start root
                ([(''xmlns:'' @ p, NS_PROTOCOL), (''xmlns:'' @ a, NS_ASSERTION), (''ID'', i), (''Version'', ''2.0''),
                  (''IssueInstant'', issue_instant), (''Destination'', destination)]
                 @ opt_attr ''InResponseTo'' in_response_to) writer_new;
          w = write_text_element (a @ '':Issuer'') [] issuer w;
          w = write_start (p @ '':Status'') [] w;
          w = write_empty (p @ '':StatusCode'') [(''Value'', STATUS_SUCCESS)] w;
          w = write_end (p @ '':Status'') w
      in Inr (writer_finish E (write_end root w)))))"

definition render_default_logout_request :: "('k, 'e) out_ext_scheme \<Rightarrow> entity_setting \<Rightarrow> metadata \<Rightarrow> string \<Rightarrow>
    logout_request_time \<Rightarrow> string \<Rightarrow> logout_request_subject \<Rightarrow> string \<Rightarrow> string res" where
  "render_default_logout_request E setting meta i timing destination subj name_id_format =
     (let p = es_tag_prefix_protocol setting; a = es_tag_prefix_assertion setting in
      rbind (validate_tag_prefix ''protocol'' p) (\<lambda>_.
      rbind (validate_tag_prefix ''assertion'' a) (\<lambda>_.
      let root = p @ '':LogoutRequest'';
          w = write_start root
                ([(''xmlns:'' @ p, NS_PROTOCOL), (''xmlns:'' @ a, NS_ASSERTION), (''ID'', i), (''Version'', ''2.0''),
                  (''IssueInstant'', lrt_issue_instant timing), (''Destination'', destination)]
                 @ opt_attr ''NotOnOrAfter'' (lrt_not_on_or_after timing)) writer_new;
          w = write_text_element (a @ '':Issuer'') [] (issuer_of setting meta) w;
          w = write_text_element (a @ '':NameID'') [(''Format'', name_id_format)] (lrs_name_id subj) w;
          w = foldl (\<lambda>w s. write_text_element (p @ '':SessionIndex'') [] s w) w (lrs_session_indexes subj)
      in Inr (writer_finish E (write_end root w)))))"

section \<open>Binding\<close>

definition unsigned_context :: "('k, 'e) out_ext_scheme \<Rightarrow> binding \<Rightarrow> string \<Rightarrow> string \<Rightarrow> parser_type \<Rightarrow> string option \<Rightarrow>
    string res" where
  "unsigned_context E b xml destination ptype relay =
     (case b of
        Redirect \<Rightarrow> build_redirect_url E destination ptype xml relay
      | Post \<Rightarrow> Inr (base64_encode E xml)
      | SimpleSign \<Rightarrow> Inr (base64_encode E xml)
      | Artifact \<Rightarrow> Inl (UnsupportedBinding Artifact))"

definition sign_logout :: "('k, 'e) out_ext_scheme \<Rightarrow> entity_setting \<Rightarrow> binding \<Rightarrow> string \<Rightarrow> string \<Rightarrow> string option \<Rightarrow>
    parser_type \<Rightarrow> (string \<times> string option \<times> string option) res" where
  "sign_logout E setting b xml destination relay ptype =
     (if \<not> crypto_enabled E then Inl (Unsupported ''signing logout messages requires a crypto provider feature'')
      else if b = Artifact then Inl (UnsupportedBinding Artifact)
      else
        let sig_alg = es_request_signature_algorithm setting in
        rbind (ok_or (es_private_key setting) (MissingKey ''private_key'')) (\<lambda>key_pem.
        rbind (load_private_key E key_pem (es_private_key_pass setting)) (\<lambda>key.
        (case b of
           Redirect \<Rightarrow>
             rbind (build_redirect_octet E ptype xml relay sig_alg) (\<lambda>octet.
             rbind (construct_message_signature E octet key sig_alg) (\<lambda>sig.
               Inr (append_signature E destination octet sig, None, None)))
         | Post \<Rightarrow>
             rbind (ok_or (es_signing_cert setting) (MissingKey ''signing_cert'')) (\<lambda>cert.
             rbind (construct_saml_signature E xml True key cert sig_alg (es_transformation_algorithms setting)
                      (es_signature_config setting)) (\<lambda>signed.
               Inr (base64_encode E signed, None, None)))
         | SimpleSign \<Rightarrow>
             rbind (construct_message_signature E (build_simplesign_octet (query_param ptype) xml relay sig_alg) key
                      sig_alg) (\<lambda>sig.
               Inr (base64_encode E xml, Some sig, Some sig_alg))
         | Artifact \<Rightarrow> Inl (UnsupportedBinding Artifact)))))"

text \<open>\<open>if want_signed \{ sign_logout \} else \{ unsigned_context \}\<close> of both creations.\<close>

definition logout_context :: "('k, 'e) out_ext_scheme \<Rightarrow> entity_setting \<Rightarrow> binding \<Rightarrow> string \<Rightarrow> string \<Rightarrow> string option \<Rightarrow>
    parser_type \<Rightarrow> bool \<Rightarrow> (string \<times> string option \<times> string option) res" where
  "logout_context E setting b xml destination relay ptype want_signed =
     (if want_signed then sign_logout E setting b xml destination relay ptype
      else rmap (\<lambda>c. (c, None, None)) (unsigned_context E b xml destination ptype relay))"

definition signed_post_text :: "('k, 'e) out_ext_scheme \<Rightarrow> string \<Rightarrow> string res" where
  "signed_post_text E context = rbind (base64_decode E context) (\<lambda>bytes. rmap_err Xml (string_from_utf8 bytes))"

definition message_id_or_new :: "string option \<Rightarrow> issue_env \<Rightarrow> string" where
  "message_id_or_new message_id env =
     (case message_id of Some i \<Rightarrow> if i \<noteq> [] then i else generate_id (ie_uuid env) | None \<Rightarrow> generate_id (ie_uuid env))"

section \<open>LogoutRequests\<close>

datatype logout_request_validation = Compatibility | SessionAuthority

record logout_request_input =
  li_setting :: entity_setting
  li_meta :: metadata
  li_target :: metadata
  li_binding :: binding
  li_subject :: logout_request_subject
  li_relay_state :: "string option"
  li_want_signed :: bool
  li_message_id :: "string option"
  li_name_id_format :: string
  li_issue_instant :: string
  li_not_on_or_after :: "string option"
  li_validation :: logout_request_validation

record created_logout_request =
  cl_context :: binding_context
  cl_issue_instant :: string
  cl_not_on_or_after :: "string option"

definition logout_request_tags :: "logout_request_input \<Rightarrow> string \<Rightarrow> string \<Rightarrow> string \<Rightarrow> (string \<times> string option) list" where
  "logout_request_tags i ident destination issuer =
     [(''ID'', Some ident), (''IssueInstant'', Some (li_issue_instant i)), (''Destination'', Some destination),
      (''Issuer'', Some issuer), (''NameIDFormat'', Some (li_name_id_format i)),
      (''NameID'', Some (lrs_name_id (li_subject i))),
      (''SessionIndex'', case lrs_session_indexes (li_subject i) of s # _ \<Rightarrow> Some s | [] \<Rightarrow> None)]
     @ (if li_validation i = SessionAuthority then [(''NotOnOrAfter'', li_not_on_or_after i)] else [])"

definition logout_request_text :: "('k, 'e) out_ext_scheme \<Rightarrow> logout_request_input \<Rightarrow> string \<Rightarrow> string \<Rightarrow> string \<Rightarrow>
    string res" where
  "logout_request_text E i ident destination issuer =
     (let s = li_setting i in
      case es_logout_request_template s of
        Some template \<Rightarrow>
          if length (lrs_session_indexes (li_subject i)) > 1
          then Inl (Unsupported ''custom LogoutRequest templates cannot render multiple SessionIndex values'')
          else
            rbind (validate_tag_prefix ''protocol'' (es_tag_prefix_protocol s)) (\<lambda>_.
            rbind (validate_tag_prefix ''assertion'' (es_tag_prefix_assertion s)) (\<lambda>_.
              Inr (replace_tags_by_optional_value
                     (apply_tag_prefixes template (es_tag_prefix_protocol s) (es_tag_prefix_assertion s))
                     (logout_request_tags i ident destination issuer))))
      | None \<Rightarrow>
          render_default_logout_request E s (li_meta i) ident
            \<lparr>lrt_issue_instant = li_issue_instant i, lrt_not_on_or_after = li_not_on_or_after i\<rparr> destination
            (li_subject i) (li_name_id_format i))"

definition logout_request_expectation :: "logout_request_input \<Rightarrow> string \<Rightarrow> string \<Rightarrow> string \<Rightarrow>
    oq_expectation option res" where
  "logout_request_expectation i ident destination issuer =
     (case li_validation i of
        Compatibility \<Rightarrow> Inr None
      | SessionAuthority \<Rightarrow>
          rbind (ok_or (li_not_on_or_after i)
                   (Invalid ''Session Authority LogoutRequest is missing its generated expiration'')) (\<lambda>expiration.
            Inr (Some \<lparr>oq_id = ident, oq_issue_instant = li_issue_instant i, oq_destination = destination,
                       oq_issuer = issuer, oq_expiration = expiration, oq_name_id = lrs_name_id (li_subject i),
                       oq_name_id_format = li_name_id_format i,
                       oq_session_indexes = lrs_session_indexes (li_subject i)\<rparr>)))"

definition create_logout_request_for_subject_inner :: "('k, 'e) out_ext_scheme \<Rightarrow> issue_env \<Rightarrow> logout_request_input \<Rightarrow>
    created_logout_request res" where
  "create_logout_request_for_subject_inner E env i =
     rbind (metadata_validate_at E (li_meta i) (ie_now env)) (\<lambda>_.
     rbind (metadata_validate_at E (li_target i) (ie_now env)) (\<lambda>_.
     rbind (ok_or (get_single_logout_service (li_target i) (li_binding i)) (MissingMetadata ''SingleLogoutService'')) (\<lambda>destination.
     let ident = message_id_or_new (li_message_id i) env; issuer = issuer_of (li_setting i) (li_meta i) in
     rbind (logout_request_text E i ident destination issuer) (\<lambda>xml.
     rbind (logout_request_expectation i ident destination issuer) (\<lambda>expectation.
     rbind (case expectation of
              Some ex \<Rightarrow> rmap (\<lambda>_. ()) (validate_logout_request_outbound E xml ex RequestBeforeSigning)
            | None \<Rightarrow> Inr ()) (\<lambda>_.
     rbind (logout_context E (li_setting i) (li_binding i) xml destination (li_relay_state i) LogoutRequest
              (li_want_signed i)) (\<lambda>(context, signature, sig_alg).
     rbind (case expectation of
              Some ex \<Rightarrow>
                if li_want_signed i \<and> li_binding i = Post then
                  rbind (signed_post_text E context) (\<lambda>signed_xml.
                    rmap (\<lambda>_. ()) (validate_logout_request_outbound E signed_xml ex RequestAfterPostSigning))
                else Inr ()
            | None \<Rightarrow> Inr ()) (\<lambda>_.
       Inr \<lparr>cl_context =
              \<lparr>bc_id = ident, bc_context = context, bc_relay_state = li_relay_state i, bc_entity_endpoint = destination,
               bc_binding = li_binding i, bc_request_type = ''SAMLRequest'', bc_signature = signature,
               bc_sig_alg = sig_alg\<rparr>,
            cl_issue_instant = li_issue_instant i, cl_not_on_or_after = li_not_on_or_after i\<rparr>))))))))"

definition create_logout_request_with_id :: "('k, 'e) out_ext_scheme \<Rightarrow> issue_env \<Rightarrow> entity_setting \<Rightarrow> metadata \<Rightarrow>
    metadata \<Rightarrow> binding \<Rightarrow> user \<Rightarrow> string option \<Rightarrow> bool \<Rightarrow> string option \<Rightarrow> binding_context res" where
  "create_logout_request_with_id E env setting meta target b u relay_state want_signed message_id =
     rmap cl_context
       (create_logout_request_for_subject_inner E env
          \<lparr>li_setting = setting, li_meta = meta, li_target = target, li_binding = b, li_subject = subject_from_user u,
           li_relay_state = relay_state, li_want_signed = want_signed, li_message_id = message_id,
           li_name_id_format = first_or_empty (es_name_id_format setting),
           li_issue_instant = now_iso8601 E (ie_now_utc env), li_not_on_or_after = None,
           li_validation = Compatibility\<rparr>)"

definition create_logout_request :: "('k, 'e) out_ext_scheme \<Rightarrow> issue_env \<Rightarrow> entity_setting \<Rightarrow> metadata \<Rightarrow> metadata \<Rightarrow>
    binding \<Rightarrow> user \<Rightarrow> string option \<Rightarrow> bool \<Rightarrow> binding_context res" where
  "create_logout_request E env setting meta target b u relay_state want_signed =
     create_logout_request_with_id E env setting meta target b u relay_state want_signed None"

definition create_logout_request_with_session_indexes :: "('k, 'e) out_ext_scheme \<Rightarrow> issue_env \<Rightarrow> entity_setting \<Rightarrow>
    metadata \<Rightarrow> metadata \<Rightarrow> binding \<Rightarrow> string \<Rightarrow> string list \<Rightarrow> string option \<Rightarrow> bool \<Rightarrow> string \<Rightarrow> string option \<Rightarrow>
    logout_request_validation \<Rightarrow> created_logout_request res" where
  "create_logout_request_with_session_indexes E env setting meta target b name_id session_indexes relay_state want_signed
     issue_instant not_on_or_after validation =
     create_logout_request_for_subject_inner E env
       \<lparr>li_setting = setting, li_meta = meta, li_target = target, li_binding = b,
        li_subject = \<lparr>lrs_name_id = name_id, lrs_session_indexes = session_indexes\<rparr>, li_relay_state = relay_state,
        li_want_signed = want_signed, li_message_id = None,
        li_name_id_format = first_or_empty (es_name_id_format setting), li_issue_instant = issue_instant,
        li_not_on_or_after = not_on_or_after, li_validation = validation\<rparr>"

section \<open>LogoutResponses\<close>

definition logout_response_text :: "('k, 'e) out_ext_scheme \<Rightarrow> entity_setting \<Rightarrow> string \<Rightarrow> string \<Rightarrow> string \<Rightarrow> string \<Rightarrow>
    string option \<Rightarrow> string res" where
  "logout_response_text E s ident issue_instant destination issuer in_response_to =
     (case es_logout_response_template s of
        Some template \<Rightarrow>
          rbind (validate_tag_prefix ''protocol'' (es_tag_prefix_protocol s)) (\<lambda>_.
          rbind (validate_tag_prefix ''assertion'' (es_tag_prefix_assertion s)) (\<lambda>_.
            let t = apply_tag_prefixes template (es_tag_prefix_protocol s) (es_tag_prefix_assertion s);
                xml = replace_tags_by_value t
                  [(''ID'', ident), (''IssueInstant'', issue_instant), (''Destination'', destination),
                   (''Issuer'', issuer), (''StatusCode'', STATUS_SUCCESS)]
            in Inr (replace_tags_by_optional_value xml [(''InResponseTo'', in_response_to)])))
      | None \<Rightarrow> render_default_logout_response E s ident issue_instant destination in_response_to issuer)"

definition create_logout_response_with_id :: "('k, 'e) out_ext_scheme \<Rightarrow> issue_env \<Rightarrow> entity_setting \<Rightarrow> metadata \<Rightarrow>
    metadata \<Rightarrow> binding \<Rightarrow> string option \<Rightarrow> string option \<Rightarrow> bool \<Rightarrow> string option \<Rightarrow> binding_context res" where
  "create_logout_response_with_id E env setting meta target b in_response_to relay_state want_signed message_id =
     rbind (metadata_validate_at E meta (ie_now env)) (\<lambda>_.
     rbind (metadata_validate_at E target (ie_now env)) (\<lambda>_.
     if b = Artifact then Inl (UnsupportedBinding Artifact)
     else
       rbind (ok_or (get_single_logout_service target b) (MissingMetadata ''SingleLogoutService'')) (\<lambda>destination.
       let ident = message_id_or_new message_id env; issuer = issuer_of setting meta in
       rbind (logout_response_text E setting ident (now_iso8601 E (ie_now_utc env)) destination issuer in_response_to) (\<lambda>xml.
       rbind (validate_logout_response_outbound E xml ident destination issuer in_response_to (BeforeSigning want_signed)) (\<lambda>_.
       rbind (logout_context E setting b xml destination relay_state LogoutResponse want_signed) (\<lambda>(context, signature, sig_alg).
       rbind (if want_signed \<and> b = Post then
                rbind (signed_post_text E context) (\<lambda>signed_xml.
                  rmap (\<lambda>_. ()) (validate_logout_response_outbound E signed_xml ident destination issuer in_response_to
                    AfterPostSigning))
              else Inr ()) (\<lambda>_.
         Inr \<lparr>bc_id = ident, bc_context = context, bc_relay_state = relay_state, bc_entity_endpoint = destination,
              bc_binding = b, bc_request_type = ''SAMLResponse'', bc_signature = signature,
              bc_sig_alg = sig_alg\<rparr>)))))))"

definition create_logout_response :: "('k, 'e) out_ext_scheme \<Rightarrow> issue_env \<Rightarrow> entity_setting \<Rightarrow> metadata \<Rightarrow>
    metadata \<Rightarrow> binding \<Rightarrow> string option \<Rightarrow> string option \<Rightarrow> bool \<Rightarrow> binding_context res" where
  "create_logout_response E env setting meta target b in_response_to relay_state want_signed =
     create_logout_response_with_id E env setting meta target b in_response_to relay_state want_signed None"

section \<open>Incoming messages\<close>

definition logout_flow_options :: "entity_setting \<Rightarrow> metadata \<Rightarrow> binding \<Rightarrow> parser_type \<Rightarrow> bool \<Rightarrow> systime option \<Rightarrow>
    int \<times> int \<Rightarrow> string option \<Rightarrow> flow_options" where
  "logout_flow_options setting meta b ptype check_signature now drifts expected_in_response_to =
     \<lparr>fo_binding = Some b, fo_parser_type = Some ptype,
      fo_redirect_inflate_max_bytes = es_redirect_inflate_max_bytes setting, fo_xml_limits = es_xml_limits setting,
      fo_check_signature = check_signature, fo_from_issuer = get_entity_id meta,
      fo_signing_certs = x509_certificates meta Signing, fo_decrypt_key = None, fo_decrypt_key_pass = None,
      fo_allow_insecure_software_rsa = False, fo_clock_drifts = drifts, fo_now = now, fo_expected_audience = None,
      fo_expected_in_response_to = expected_in_response_to\<rparr>"

definition parse_logout_request_inner :: "('k, 'e) flow_ext_scheme \<Rightarrow> clock \<Rightarrow> systime \<Rightarrow> entity_setting \<Rightarrow> metadata \<Rightarrow>
    binding \<Rightarrow> http_request \<Rightarrow> systime option \<Rightarrow> int \<times> int \<Rightarrow> flow_result res" where
  "parse_logout_request_inner E clk sys_now setting meta b request now drifts =
     rbind (metadata_validate_at E meta (unwrap_or now sys_now)) (\<lambda>_.
       flow E clk (logout_flow_options setting meta b LogoutRequest (es_want_logout_request_signed setting) now drifts None)
         request)"

definition parse_logout_request :: "('k, 'e) flow_ext_scheme \<Rightarrow> clock \<Rightarrow> systime \<Rightarrow> entity_setting \<Rightarrow> metadata \<Rightarrow>
    binding \<Rightarrow> http_request \<Rightarrow> flow_result res" where
  "parse_logout_request E clk sys_now setting meta b request =
     parse_logout_request_inner E clk sys_now setting meta b request None (es_clock_drifts setting)"

definition parse_logout_request_at :: "('k, 'e) flow_ext_scheme \<Rightarrow> clock \<Rightarrow> entity_setting \<Rightarrow> metadata \<Rightarrow>
    binding \<Rightarrow> http_request \<Rightarrow> systime \<Rightarrow> int \<times> int \<Rightarrow> flow_result res" where
  "parse_logout_request_at E clk setting meta b request now drifts =
     parse_logout_request_inner E clk now setting meta b request (Some now) drifts"

definition parse_logout_response_inner :: "('k, 'e) flow_ext_scheme \<Rightarrow> clock \<Rightarrow> systime \<Rightarrow> entity_setting \<Rightarrow> metadata \<Rightarrow>
    binding \<Rightarrow> http_request \<Rightarrow> string option \<Rightarrow> systime option \<Rightarrow> int \<times> int \<Rightarrow> flow_result res" where
  "parse_logout_response_inner E clk sys_now setting meta b request expected_in_response_to now drifts =
     rbind (metadata_validate_at E meta (unwrap_or now sys_now)) (\<lambda>_.
       flow E clk (logout_flow_options setting meta b LogoutResponse (es_want_logout_response_signed setting) now drifts
                     expected_in_response_to) request)"

definition parse_logout_response :: "('k, 'e) flow_ext_scheme \<Rightarrow> clock \<Rightarrow> systime \<Rightarrow> entity_setting \<Rightarrow> metadata \<Rightarrow>
    binding \<Rightarrow> http_request \<Rightarrow> string \<Rightarrow> flow_result res" where
  "parse_logout_response E clk sys_now setting meta b request request_id =
     (if request_id = [] then Inl InvalidInResponseTo
      else parse_logout_response_inner E clk sys_now setting meta b request (Some request_id) None (es_clock_drifts setting))"

definition parse_logout_response_at :: "('k, 'e) flow_ext_scheme \<Rightarrow> clock \<Rightarrow> entity_setting \<Rightarrow> metadata \<Rightarrow> binding \<Rightarrow>
    http_request \<Rightarrow> string \<Rightarrow> systime \<Rightarrow> int \<times> int \<Rightarrow> flow_result res" where
  "parse_logout_response_at E clk setting meta b request request_id now drifts =
     (if request_id = [] then Inl InvalidInResponseTo
      else parse_logout_response_inner E clk now setting meta b request (Some request_id) (Some now) drifts)"

definition parse_logout_response_without_request_id :: "('k, 'e) flow_ext_scheme \<Rightarrow> clock \<Rightarrow> systime \<Rightarrow> entity_setting \<Rightarrow>
    metadata \<Rightarrow> binding \<Rightarrow> http_request \<Rightarrow> flow_result res" where
  "parse_logout_response_without_request_id E clk sys_now setting meta b request =
     parse_logout_response_inner E clk sys_now setting meta b request None None (es_clock_drifts setting)"

end
