(* ===== verification/Pending.thy ===== *)
theory Pending
  imports Browser
begin

text \<open>
  Pending request state and its persistable snapshots (\<open>src/src/browser/pending.rs\<close>). A
  pending request correlates a response with the request it answers; it is stored by the
  caller as a snapshot of plain strings between the two. The properties: a snapshot restores
  exactly the state it was taken from, a restored state satisfies the invariant of a created
  one, and a local lifetime bounds the completion deadline.
\<close>

section \<open>State\<close>

record authn_pending_details =
  pd_request_binding :: "sso_request_binding option"
  pd_response_binding :: sso_response_binding
  pd_acs :: acs_endpoint

record logout_pending_details =
  pd_binding :: logout_binding

record 'd pending =
  pe_id :: message_id
  pe_relay_state :: relay_state_param
  pe_details :: 'd
  pe_peer_entity_id :: entity_id
  pe_issued_at :: "saml_instant option"
  pe_expires_at :: "saml_instant option"

type_synonym pending_authn_request = "authn_pending_details pending"
type_synonym pending_logout_request = "logout_pending_details pending"

record pending_snapshot =
  sn_id :: string
  sn_relay_state :: relay_state_param
  sn_peer_entity_id :: string
  sn_expected_binding :: string
  sn_request_binding :: "string option"
  sn_acs_url :: string
  sn_acs_binding :: string
  sn_acs_index :: "nat option"
  sn_acs_is_default :: bool
  sn_issued_at :: "saml_instant option"
  sn_expires_at :: "saml_instant option"

definition snapshot_authn_request ::
  "string \<Rightarrow> relay_state_param \<Rightarrow> string \<Rightarrow> string \<Rightarrow> string \<Rightarrow> string \<Rightarrow> pending_snapshot" where
  "snapshot_authn_request i relay_state peer expected_binding acs_url acs_binding =
     \<lparr>sn_id = i, sn_relay_state = relay_state, sn_peer_entity_id = peer,
      sn_expected_binding = expected_binding, sn_request_binding = None, sn_acs_url = acs_url,
      sn_acs_binding = acs_binding, sn_acs_index = None, sn_acs_is_default = False,
      sn_issued_at = None, sn_expires_at = None\<rparr>"

definition snapshot_logout_request ::
  "string \<Rightarrow> relay_state_param \<Rightarrow> string \<Rightarrow> logout_binding \<Rightarrow> pending_snapshot" where
  "snapshot_logout_request i relay_state peer binding =
     \<lparr>sn_id = i, sn_relay_state = relay_state, sn_peer_entity_id = peer,
      sn_expected_binding = short_name (logout_as_binding binding),
      sn_request_binding = Some (short_name (logout_as_binding binding)), sn_acs_url = [],
      sn_acs_binding = [], sn_acs_index = None, sn_acs_is_default = False,
      sn_issued_at = None, sn_expires_at = None\<rparr>"

section \<open>Validation\<close>

definition pending_validate_common :: "relay_state_param \<Rightarrow> entity_id \<Rightarrow> unit res" where
  "pending_validate_common relay_state peer =
     rbind (relay_param_validate relay_state) (\<lambda>_.
     rbind (entity_id_try_new (entity_id_str peer)) (\<lambda>_. Inr ()))"

definition validate_snapshot_timing :: "saml_instant option \<Rightarrow> saml_instant option \<Rightarrow> unit res" where
  "validate_snapshot_timing issued_at expires_at =
     (if expires_at \<noteq> None \<and> issued_at = None
      then Inl (Invalid ''pending snapshot expiration requires an issue instant'') else Inr ())"

definition completion_deadline :: "('e) time_ext_scheme \<Rightarrow> 'd pending \<Rightarrow> odt option res" where
  "completion_deadline E p =
     opt_traverse
       (\<lambda>deadline. ok_or (rfc3339_parse E (saml_instant_str deadline)) (TimeWindowInvalid PendingRequestExpiration))
       (pe_expires_at p)"

definition pending_validate_at :: "('e) time_ext_scheme \<Rightarrow> 'd pending \<Rightarrow> systime \<Rightarrow> unit res" where
  "pending_validate_at E p now =
     rbind (offset_datetime_from_system_time E now) (\<lambda>now.
       case pe_expires_at p of
         None \<Rightarrow> Inr ()
       | Some deadline \<Rightarrow>
           rbind (ok_or (rfc3339_parse E (saml_instant_str deadline))
                    (TimeWindowInvalid PendingRequestExpiration)) (\<lambda>deadline.
             if now \<ge> deadline then Inl (TimeWindowInvalid PendingRequestExpiration) else Inr ()))"

text \<open>\<open>serialize\<close> in \<open>with_local_lifetime\<close>: the second-resolution text with nanoseconds.\<close>

definition trim_end_char :: "char \<Rightarrow> string \<Rightarrow> string" where
  "trim_end_char c s = rev (dropWhile (\<lambda>x. x = c) (rev s))"

definition serialize_instant :: "('e) time_ext_scheme \<Rightarrow> odt \<Rightarrow> string" where
  "serialize_instant E t =
     trim_end_char CHR ''Z'' (format_saml_utc_date_time E t) @ ''.''
       @ show_padded 9 (int (cv_nanosecond (odt_civil E t))) @ ''Z''"

definition with_local_lifetime :: "('e) time_ext_scheme \<Rightarrow> 'd pending \<Rightarrow> systime \<Rightarrow> nat \<Rightarrow> 'd pending res" where
  "with_local_lifetime E p now lifetime =
     (let err = TimeWindowInvalid PendingRequestExpiration in
      if lifetime = 0 then Inl err
      else
        rbind (ok_or (sys_checked_add now lifetime) err) (\<lambda>expires_at.
        rbind (rmap_err (\<lambda>_. err) (offset_datetime_from_system_time E now)) (\<lambda>now.
        rbind (rmap_err (\<lambda>_. err) (offset_datetime_from_system_time E expires_at)) (\<lambda>expires_at.
        rbind (if pe_issued_at p = None
               then rbind (saml_instant_try_new (serialize_instant E now)) (\<lambda>i. Inr (p\<lparr>pe_issued_at := Some i\<rparr>))
               else Inr p) (\<lambda>p.
        rbind (completion_deadline E p) (\<lambda>existing.
          if (case existing of None \<Rightarrow> True | Some deadline \<Rightarrow> deadline > expires_at)
          then rbind (saml_instant_try_new (serialize_instant E expires_at)) (\<lambda>i.
                 Inr (p\<lparr>pe_expires_at := Some i\<rparr>))
          else Inr p))))))"

section \<open>Pending AuthnRequest\<close>

definition pending_authn_try_new ::
  "message_id \<Rightarrow> relay_state_param \<Rightarrow> acs_endpoint \<Rightarrow> sso_response_binding \<Rightarrow> entity_id \<Rightarrow>
   pending_authn_request res" where
  "pending_authn_try_new request_id relay_state acs response_binding idp_entity_id =
     rbind (pending_validate_common relay_state idp_entity_id) (\<lambda>_.
       if acs_ep_binding acs \<noteq> response_binding
       then Inl (Invalid ''ACS binding must match expected response binding'')
       else Inr \<lparr>pe_id = request_id, pe_relay_state = relay_state,
                 pe_details = \<lparr>pd_request_binding = None, pd_response_binding = response_binding, pd_acs = acs\<rparr>,
                 pe_peer_entity_id = idp_entity_id, pe_issued_at = None, pe_expires_at = None\<rparr>)"

definition sso_response_binding_from_snapshot_value :: "string \<Rightarrow> sso_response_binding res" where
  "sso_response_binding_from_snapshot_value v = rbind (binding_from_snapshot_value v) sso_response_try_from"

definition sso_request_binding_from_snapshot_value :: "string \<Rightarrow> sso_request_binding res" where
  "sso_request_binding_from_snapshot_value v = rbind (binding_from_snapshot_value v) sso_request_try_from"

definition logout_binding_from_snapshot_value :: "string \<Rightarrow> logout_binding res" where
  "logout_binding_from_snapshot_value v = rbind (binding_from_snapshot_value v) logout_try_from"

definition pending_authn_from_snapshot ::
  "('e) net_ext_scheme \<Rightarrow> pending_snapshot \<Rightarrow> pending_authn_request res" where
  "pending_authn_from_snapshot E snapshot =
     rbind (relay_param_validate (sn_relay_state snapshot)) (\<lambda>_.
     rbind (validate_snapshot_timing (sn_issued_at snapshot) (sn_expires_at snapshot)) (\<lambda>_.
     rbind (message_id_try_new (sn_id snapshot)) (\<lambda>request_id.
     rbind (entity_id_try_new (sn_peer_entity_id snapshot)) (\<lambda>idp_entity_id.
     rbind (sso_response_binding_from_snapshot_value (sn_expected_binding snapshot)) (\<lambda>response_binding.
     rbind (sso_response_binding_from_snapshot_value (sn_acs_binding snapshot)) (\<lambda>acs_binding.
     rbind (endpoint_url_try_new E (sn_acs_url snapshot)) (\<lambda>u.
     let acs0 = (acs_endpoint_new acs_binding u)\<lparr>acs_ep_is_default := sn_acs_is_default snapshot\<rparr>;
         acs = (case sn_acs_index snapshot of Some i \<Rightarrow> acs0\<lparr>acs_ep_index := Some i\<rparr> | None \<Rightarrow> acs0) in
     rbind (opt_traverse sso_request_binding_from_snapshot_value (sn_request_binding snapshot)) (\<lambda>request_binding.
     rbind (pending_authn_try_new request_id (sn_relay_state snapshot) acs response_binding idp_entity_id) (\<lambda>p.
       Inr (p\<lparr>pe_details := (pe_details p)\<lparr>pd_request_binding := request_binding\<rparr>,
              pe_issued_at := sn_issued_at snapshot, pe_expires_at := sn_expires_at snapshot\<rparr>))))))))))"

definition pending_authn_snapshot :: "pending_authn_request \<Rightarrow> pending_snapshot" where
  "pending_authn_snapshot p =
     (let d = pe_details p; acs = pd_acs d;
          s = snapshot_authn_request (message_id_str (pe_id p)) (pe_relay_state p)
                (entity_id_str (pe_peer_entity_id p))
                (short_name (sso_response_as_binding (pd_response_binding d)))
                (endpoint_url_str (acs_ep_url acs))
                (short_name (sso_response_as_binding (acs_ep_binding acs))) in
      s\<lparr>sn_request_binding :=
           map_option (\<lambda>b. short_name (sso_request_as_binding b)) (pd_request_binding d),
         sn_acs_index := acs_ep_index acs, sn_acs_is_default := acs_ep_is_default acs,
         sn_issued_at := pe_issued_at p, sn_expires_at := pe_expires_at p\<rparr>)"

section \<open>Pending LogoutRequest\<close>

definition pending_logout_try_new ::
  "message_id \<Rightarrow> relay_state_param \<Rightarrow> logout_binding \<Rightarrow> entity_id \<Rightarrow> pending_logout_request res" where
  "pending_logout_try_new request_id relay_state binding peer =
     rbind (pending_validate_common relay_state peer) (\<lambda>_.
       Inr \<lparr>pe_id = request_id, pe_relay_state = relay_state, pe_details = \<lparr>pd_binding = binding\<rparr>,
            pe_peer_entity_id = peer, pe_issued_at = None, pe_expires_at = None\<rparr>)"

definition pending_logout_from_snapshot :: "pending_snapshot \<Rightarrow> pending_logout_request res" where
  "pending_logout_from_snapshot snapshot =
     rbind (relay_param_validate (sn_relay_state snapshot)) (\<lambda>_.
     rbind (validate_snapshot_timing (sn_issued_at snapshot) (sn_expires_at snapshot)) (\<lambda>_.
     rbind (message_id_try_new (sn_id snapshot)) (\<lambda>request_id.
     rbind (entity_id_try_new (sn_peer_entity_id snapshot)) (\<lambda>peer.
     rbind (logout_binding_from_snapshot_value (sn_expected_binding snapshot)) (\<lambda>response_binding.
     rbind (opt_traverse logout_binding_from_snapshot_value (sn_request_binding snapshot)) (\<lambda>rb.
     let request_binding = (case rb of Some b \<Rightarrow> b | None \<Rightarrow> response_binding) in
     if request_binding \<noteq> response_binding
     then Inl (Invalid ''logout request and response bindings must match'')
     else
       rbind (pending_logout_try_new request_id (sn_relay_state snapshot) response_binding peer) (\<lambda>p.
         Inr (p\<lparr>pe_issued_at := sn_issued_at snapshot, pe_expires_at := sn_expires_at snapshot\<rparr>))))))))"

definition pending_logout_snapshot :: "pending_logout_request \<Rightarrow> pending_snapshot" where
  "pending_logout_snapshot p =
     (snapshot_logout_request (message_id_str (pe_id p)) (pe_relay_state p)
        (entity_id_str (pe_peer_entity_id p)) (pd_binding (pe_details p)))
       \<lparr>sn_issued_at := pe_issued_at p, sn_expires_at := pe_expires_at p\<rparr>"

section \<open>The invariant\<close>

text \<open>What every pending state the constructors return satisfies, for either kind of request.\<close>

definition pending_ok :: "'d pending \<Rightarrow> bool" where
  "pending_ok p \<longleftrightarrow>
     \<not> is_blank (message_id_str (pe_id p)) \<and> relay_param_ok (pe_relay_state p)
     \<and> \<not> is_blank (entity_id_str (pe_peer_entity_id p))
     \<and> (pe_expires_at p \<noteq> None \<longrightarrow> pe_issued_at p \<noteq> None)"

definition pending_authn_ok :: "('e) net_ext_scheme \<Rightarrow> pending_authn_request \<Rightarrow> bool" where
  "pending_authn_ok E p \<longleftrightarrow>
     pending_ok p \<and> acs_ep_binding (pd_acs (pe_details p)) = pd_response_binding (pe_details p)
     \<and> http_url E (endpoint_url_str (acs_ep_url (pd_acs (pe_details p))))"

lemma pending_validate_common_iff:
  "pending_validate_common r e = Inr u \<longleftrightarrow> relay_param_ok r \<and> \<not> is_blank (entity_id_str e)"
  by (auto simp: pending_validate_common_def rbind_Inr_iff relay_param_validate_iff eid.try_new_Inr)

lemma validate_snapshot_timing_iff [simp]:
  "validate_snapshot_timing i e = Inr u \<longleftrightarrow> (e \<noteq> None \<longrightarrow> i \<noteq> None)"
  by (auto simp: validate_snapshot_timing_def)

text \<open>
  C28: a snapshot restores the pending AuthnRequest it was taken from: for every state that satisfies
  the invariant, rebuilding from its snapshot succeeds and gives the same state, ACS endpoint,
  bindings and instants included.
\<close>

theorem pending_authn_roundtrip:
  assumes "pending_authn_ok E p"
  shows "pending_authn_from_snapshot E (pending_authn_snapshot p) = Inr p"
proof -
  let ?a = "pd_acs (pe_details p)"
  have steps:
    "relay_param_validate (pe_relay_state p) = Inr ()"
    "message_id_try_new (message_id_str (pe_id p)) = Inr (pe_id p)"
    "entity_id_try_new (entity_id_str (pe_peer_entity_id p)) = Inr (pe_peer_entity_id p)"
    "endpoint_url_try_new E (endpoint_url_str (acs_ep_url ?a)) = Inr (acs_ep_url ?a)"
    "pending_validate_common (pe_relay_state p) (pe_peer_entity_id p) = Inr ()"
    "validate_snapshot_timing (pe_issued_at p) (pe_expires_at p) = Inr ()"
    using assms by (auto simp: pending_authn_ok_def pending_ok_def relay_param_validate_iff mid.try_new_as_str
        eid.try_new_as_str url.try_new_as_str pending_validate_common_iff)
  have acs: "(case acs_ep_index ?a of
       Some i \<Rightarrow> ((acs_endpoint_new (acs_ep_binding ?a) (acs_ep_url ?a))
                   \<lparr>acs_ep_is_default := acs_ep_is_default ?a\<rparr>)\<lparr>acs_ep_index := Some i\<rparr>
     | None \<Rightarrow> (acs_endpoint_new (acs_ep_binding ?a) (acs_ep_url ?a))\<lparr>acs_ep_is_default := acs_ep_is_default ?a\<rparr>) = ?a"
    by (simp add: acs_endpoint_new_def split: option.split)
  have "opt_traverse sso_request_binding_from_snapshot_value
      (map_option (\<lambda>b. short_name (sso_request_as_binding b)) x) = Inr x" for x
    using req.opt_snapshot_roundtrip unfolding sso_request_binding_from_snapshot_value_def by simp
  moreover have "pd_response_binding (pe_details p) = acs_ep_binding ?a"
    using assms by (simp add: pending_authn_ok_def)
  ultimately show ?thesis
    using steps acs
    by (simp add: pending_authn_from_snapshot_def pending_authn_snapshot_def snapshot_authn_request_def Let_def
        sso_response_binding_from_snapshot_value_def pending_authn_try_new_def
        del: validate_snapshot_timing_iff)
qed

definition sample_pending :: pending_authn_request where
  "sample_pending =
     \<lparr>pe_id = MessageId ''_r1'', pe_relay_state = PresentValue (RelayState ''state''),
      pe_details = \<lparr>pd_request_binding = Some RequestRedirect, pd_response_binding = ResponsePost,
        pd_acs = \<lparr>acs_ep_binding = ResponsePost, acs_ep_url = EndpointUrl sample_url, acs_ep_index = Some 2,
          acs_ep_is_default = True\<rparr>\<rparr>,
      pe_peer_entity_id = EntityId ''idp'', pe_issued_at = Some (SamlInstant ''2024-01-01T00:00:00Z''),
      pe_expires_at = Some (SamlInstant ''2024-01-01T00:00:00Z'')\<rparr>"

lemma sample_pending_ok: "pending_authn_ok sample_net sample_pending"
  by (simp add: pending_authn_ok_def pending_ok_def sample_pending_def MAX_RELAY_STATE_BYTES_def
      not_blank_Cons ws_len.simps)

lemma pending_authn_roundtrip_witness:
  "pending_authn_from_snapshot sample_net (pending_authn_snapshot sample_pending) = Inr sample_pending"
  by (rule pending_authn_roundtrip [OF sample_pending_ok])

text \<open>
  the same for a pending LogoutRequest.
\<close>

theorem pending_logout_roundtrip:
  assumes "pending_ok p"
  shows "pending_logout_from_snapshot (pending_logout_snapshot p) = Inr p"
proof -
  have steps:
    "relay_param_validate (pe_relay_state p) = Inr ()"
    "message_id_try_new (message_id_str (pe_id p)) = Inr (pe_id p)"
    "entity_id_try_new (entity_id_str (pe_peer_entity_id p)) = Inr (pe_peer_entity_id p)"
    "pending_validate_common (pe_relay_state p) (pe_peer_entity_id p) = Inr ()"
    "validate_snapshot_timing (pe_issued_at p) (pe_expires_at p) = Inr ()"
    using assms by (auto simp: pending_ok_def relay_param_validate_iff mid.try_new_as_str
        eid.try_new_as_str pending_validate_common_iff)
  then show ?thesis
    by (simp add: pending_logout_from_snapshot_def pending_logout_snapshot_def snapshot_logout_request_def
        Let_def logout_binding_from_snapshot_value_def pending_logout_try_new_def
        del: validate_snapshot_timing_iff)
qed

definition sample_logout_pending :: pending_logout_request where
  "sample_logout_pending =
     \<lparr>pe_id = MessageId ''_l1'', pe_relay_state = Absent, pe_details = \<lparr>pd_binding = LogoutPost\<rparr>,
      pe_peer_entity_id = EntityId ''idp'', pe_issued_at = None, pe_expires_at = None\<rparr>"

lemma pending_logout_roundtrip_witness:
  "pending_logout_from_snapshot (pending_logout_snapshot sample_logout_pending) = Inr sample_logout_pending"
  by (rule pending_logout_roundtrip)
    (simp add: pending_ok_def sample_logout_pending_def not_blank_Cons ws_len.simps)

text \<open>
  C40: every pending AuthnRequest rebuilt from a snapshot, whatever its strings, satisfies the
  invariant: non-blank identifiers, a valid RelayState, an absolute HTTP(S) ACS URL whose binding is
  the expected one, and no expiry without an issue instant.
\<close>

theorem pending_authn_from_snapshot_ok:
  assumes "pending_authn_from_snapshot E s = Inr p"
  shows "pending_authn_ok E p \<and> message_id_str (pe_id p) = sn_id s \<and> pe_relay_state p = sn_relay_state s"
proof -
  from assms obtain rid peer rb ab u q qb where
    *: "relay_param_validate (sn_relay_state s) = Inr ()"
    "sn_expires_at s \<noteq> None \<longrightarrow> sn_issued_at s \<noteq> None"
    "message_id_try_new (sn_id s) = Inr rid" "entity_id_try_new (sn_peer_entity_id s) = Inr peer"
    "endpoint_url_try_new E (sn_acs_url s) = Inr u"
    "pending_authn_try_new rid (sn_relay_state s)
       (case sn_acs_index s of
          Some i \<Rightarrow> ((acs_endpoint_new ab u)\<lparr>acs_ep_is_default := sn_acs_is_default s\<rparr>)\<lparr>acs_ep_index := Some i\<rparr>
        | None \<Rightarrow> (acs_endpoint_new ab u)\<lparr>acs_ep_is_default := sn_acs_is_default s\<rparr>) rb peer = Inr q"
    "p = q\<lparr>pe_details := (pe_details q)\<lparr>pd_request_binding := qb\<rparr>,
           pe_issued_at := sn_issued_at s, pe_expires_at := sn_expires_at s\<rparr>"
    by (auto simp: pending_authn_from_snapshot_def rbind_Inr_iff Let_def)
  then show ?thesis
    by (auto simp: pending_authn_ok_def pending_ok_def relay_param_validate_iff mid.try_new_Inr eid.try_new_Inr
        url.try_new_Inr pending_authn_try_new_def rbind_Inr_iff acs_endpoint_new_def split: option.splits if_splits)
qed

lemma sample_pending_restored:
  "pending_authn_from_snapshot sample_net (pending_authn_snapshot sample_pending) = Inr sample_pending"
proof -
  have "message_id_try_new ''_r1'' = Inr (MessageId ''_r1'')" "entity_id_try_new ''idp'' = Inr (EntityId ''idp'')"
    "endpoint_url_try_new sample_net sample_url = Inr (EndpointUrl sample_url)"
    "relay_param_validate (PresentValue (RelayState ''state'')) = Inr ()"
    by (simp_all add: mid.try_new_Inr eid.try_new_Inr url.try_new_Inr not_blank_Cons ws_len.simps
        relay_param_validate_iff MAX_RELAY_STATE_BYTES_def)
  then show ?thesis
    by (simp add: pending_authn_from_snapshot_def pending_authn_snapshot_def snapshot_authn_request_def
        sample_pending_def Let_def sso_response_binding_from_snapshot_value_def pending_authn_try_new_def
        sso_request_binding_from_snapshot_value_def pending_validate_common_def validate_snapshot_timing_def
        acs_endpoint_new_def binding_from_snapshot_value_def from_short_name_def)
qed

lemma pending_authn_from_snapshot_ok_witness: "message_id_str (pe_id sample_pending) = ''_r1''"
  using pending_authn_from_snapshot_ok [OF sample_pending_restored]
  by (simp add: pending_authn_snapshot_def snapshot_authn_request_def sample_pending_def)

section \<open>Deadlines\<close>

text \<open>
  a pending request is completable exactly before its expiry: the check at an instant in range
  succeeds iff there is no expiry, or the expiry parses and lies strictly later, with no skew.
\<close>

theorem pending_validate_at_iff:
  assumes "time_laws E" "offset_datetime_from_system_time E now = Inr t"
  shows "pending_validate_at E p now = Inr u \<longleftrightarrow>
     (\<exists>d. completion_deadline E p = Inr d \<and> (\<forall>deadline. d = Some deadline \<longrightarrow> sys_ns now < odt_ns deadline))"
proof (cases "pe_expires_at p")
  case None
  then show ?thesis by (simp add: pending_validate_at_def completion_deadline_def assms(2))
next
  case (Some i)
  then show ?thesis
    using offset_datetime_from_system_time_ns [OF assms] assms(2)
    by (cases "rfc3339_parse E (saml_instant_str i)")
      (auto simp: pending_validate_at_def completion_deadline_def less_eq_odt_def)
qed

text \<open>
  a local lifetime bounds the completion deadline: afterwards the request has an issue instant
  and a deadline, the deadline is at most the lifetime away from now, and an earlier deadline it
  already had is kept. Assumed of the \<open>time\<close> crate: parsing the text written for that deadline
  gives the deadline back.
\<close>

theorem with_local_lifetime_bounds:
  assumes "time_laws E"
    "rfc3339_parse E (serialize_instant E (Odt (sys_ns now + int lifetime))) = Some (Odt (sys_ns now + int lifetime))"
    "with_local_lifetime E p now lifetime = Inr q"
  shows "0 < lifetime \<and> pe_issued_at q \<noteq> None
     \<and> (\<exists>d. completion_deadline E q = Inr (Some d)
          \<and> odt_ns d \<le> sys_ns now + int lifetime
          \<and> (\<forall>old. completion_deadline E p = Inr (Some old) \<longrightarrow>
               d = (if odt_ns old \<le> sys_ns now + int lifetime then old else Odt (sys_ns now + int lifetime))))"
proof -
  have lt: "lifetime \<noteq> 0" using assms(3) by (cases "lifetime = 0") (simp_all add: with_local_lifetime_def Let_def)
  from assms(3) lt obtain x n e p1 existing where
    x: "sys_checked_add now lifetime = Some x" "offset_datetime_from_system_time E now = Inr n"
      "offset_datetime_from_system_time E x = Inr e"
    and p1': "(if pe_issued_at p = None
        then rbind (saml_instant_try_new (serialize_instant E n)) (\<lambda>i. Inr (p\<lparr>pe_issued_at := Some i\<rparr>))
        else Inr p) = Inr p1"
    and ex: "completion_deadline E p1 = Inr existing"
    and q: "(if (case existing of None \<Rightarrow> True | Some deadline \<Rightarrow> deadline > e)
          then rbind (saml_instant_try_new (serialize_instant E e)) (\<lambda>i. Inr (p1\<lparr>pe_expires_at := Some i\<rparr>))
          else Inr p1) = Inr q"
    by (simp add: with_local_lifetime_def Let_def rbind_Inr_iff ok_or_Inr_iff rmap_err_Inr_iff split del: if_split)
      blast
  have p1: "p1 = p \<and> pe_issued_at p \<noteq> None \<or> (\<exists>i. p1 = p\<lparr>pe_issued_at := Some i\<rparr>)"
    using p1' by (auto simp: rbind_Inr_iff split: if_splits)
  have e: "odt_ns e = sys_ns now + int lifetime"
    using offset_datetime_from_system_time_ns [OF assms(1) x(3)] x(1)
    by (auto simp: sys_checked_add_def split: if_splits)
  then have eo: "e = Odt (sys_ns now + int lifetime)" by (cases e) simp
  have same: "completion_deadline E p = Inr existing" "pe_issued_at p1 \<noteq> None"
    using p1 ex by (auto simp: completion_deadline_def)
  have "\<exists>d. completion_deadline E q = Inr (Some d) \<and> odt_ns d \<le> odt_ns e
      \<and> (\<forall>old. existing = Some old \<longrightarrow> d = (if odt_ns old \<le> odt_ns e then old else e))"
  proof (cases "case existing of None \<Rightarrow> True | Some deadline \<Rightarrow> deadline > e")
    case True
    with q obtain i where i: "saml_instant_try_new (serialize_instant E e) = Inr i" "q = p1\<lparr>pe_expires_at := Some i\<rparr>"
      by (auto simp: rbind_Inr_iff)
    have "rfc3339_parse E (serialize_instant E e) = Some e"
      using assms(2) eo by simp
    with i have "completion_deadline E q = Inr (Some e)"
      by (simp add: completion_deadline_def ins.try_new_Inr)
    with True show ?thesis by (auto simp: less_odt_def)
  next
    case False
    with q ex show ?thesis by (auto simp: less_odt_def split: option.splits)
  qed
  moreover have "pe_issued_at q \<noteq> None"
    using q same(2) by (auto simp: rbind_Inr_iff split: if_splits)
  ultimately show ?thesis using lt same(1) unfolding eo by auto
qed


lemma sample_time_now: "offset_datetime_from_system_time sample_time (SysTime n) = Inr (Odt n)"
  by (simp add: offset_datetime_from_system_time_def since_unix_epoch_def sample_time_def odt_checked_sub_def
      unix_epoch_def)

lemma pending_validate_at_iff_witness:
  "pending_validate_at sample_time sample_logout_pending (SysTime 5) = Inr ()"
  by (rule pending_validate_at_iff [OF time_laws_sample sample_time_now, THEN iffD2])
    (simp add: completion_deadline_def sample_logout_pending_def)

lemma with_local_lifetime_bounds_witness:
  "\<exists>q d. with_local_lifetime sample_time sample_logout_pending (SysTime (1704067190 * ns_per_sec)) (10 * 10 ^ 9) = Inr q
     \<and> completion_deadline sample_time q = Inr (Some d) \<and> odt_ns d \<le> 1704067200 * ns_per_sec"
proof -
  let ?now = "SysTime (1704067190 * ns_per_sec)"
  have ser: "serialize_instant sample_time t = ''2024-01-01T00:00:00.000000000Z''" for t
    by (simp add: serialize_instant_def format_saml_utc_date_time_def sample_time_def show_padded_def pad_zero_def
        show_nat.simps digit_char_def trim_end_char_def)
      (simp add: numeral_eq_Suc)
  have i: "saml_instant_try_new ''2024-01-01T00:00:00.000000000Z'' = Inr (SamlInstant ''2024-01-01T00:00:00.000000000Z'')"
    by (simp add: ins.try_new_Inr not_blank_Cons ws_len.simps)
  have parse: "rfc3339_parse sample_time ''2024-01-01T00:00:00.000000000Z'' = Some (Odt (1704067200 * ns_per_sec))"
    by (simp add: sample_time_def)
  obtain q where q: "with_local_lifetime sample_time sample_logout_pending ?now (10 * 10 ^ 9) = Inr q"
    by (simp add: with_local_lifetime_def sample_logout_pending_def sys_checked_add_def sys_in_range_def
        sample_time_now ser i completion_deadline_def)
  from with_local_lifetime_bounds [OF time_laws_sample _ q] q show ?thesis
    by (auto simp: ser parse)
qed

end
