(* ===== verification/Outbound.thy ===== *)
theory Outbound
  imports Settings Pending
begin

text \<open>
  Outbound browser actions (\<open>src/src/browser/outbound.rs\<close>, \<open>forms.rs\<close>): a raw binding context becomes a
  redirect URL or an auto-submit form, once its message kind, relay state and detached signature fit
  the binding. Properties: exactly one of URL and form is available, and the peer that receives the
  form reads exactly the fields of the context.
\<close>

section \<open>Forms\<close>

record post_form =
  pf_action :: endpoint_url
  pf_fields :: "form_field list"

definition post_form_new :: "endpoint_url \<Rightarrow> form_field list \<Rightarrow> post_form" where
  "post_form_new action fs = \<lparr>pf_action = action, pf_fields = fs\<rparr>"

definition post_form_value :: "post_form \<Rightarrow> string \<Rightarrow> string option" where
  "post_form_value form name = map_option snd (find (\<lambda>f. fst f = name) (pf_fields form))"

section \<open>Outbound actions\<close>

text \<open>\<open>url_query_pairs\<close> is \<open>Url::query_pairs\<close> of the parsed text.\<close>

record 'k url_ext = "'k out_ext" +
  url_query_pairs :: "string \<Rightarrow> (string \<times> string) list"

datatype outbound_kind = OutRedirect | OutPost | OutSimpleSignPost

record outbound =
  ob_id :: message_id
  ob_relay_state :: "relay_state option"
  ob_kind :: outbound_kind
  ob_redirect_url :: "string option"
  ob_post_form :: "post_form option"
  ob_raw_context :: binding_context

definition outbound_redirect_url :: "outbound \<Rightarrow> string res" where
  "outbound_redirect_url a =
     (if ob_kind a = OutRedirect then ok_or (ob_redirect_url a) (Invalid ''missing redirect URL'')
      else Inl UndefinedBinding)"

definition outbound_post_form :: "outbound \<Rightarrow> post_form res" where
  "outbound_post_form a =
     (if ob_kind a \<in> {OutPost, OutSimpleSignPost} then ok_or (ob_post_form a) (Invalid ''missing POST form'')
      else Inl UndefinedBinding)"

definition validate_context_message_kind :: "binding_context \<Rightarrow> message_field \<Rightarrow> unit res" where
  "validate_context_message_kind c expected =
     (if bc_request_type c = param_name expected then Inr ()
      else Inl (Invalid (''outbound context request_type must be '' @ param_name expected)))"

definition count_kind :: "string \<Rightarrow> string \<Rightarrow> nat \<times> nat \<Rightarrow> string \<times> string \<Rightarrow> nat \<times> nat" where
  "count_kind expected_name opposite_name counts p =
     (if fst p = expected_name then (Suc (fst counts), snd counts)
      else if fst p = opposite_name then (fst counts, Suc (snd counts))
      else counts)"

definition validate_redirect_message_kind :: "('k, 'e) url_ext_scheme \<Rightarrow> string \<Rightarrow> message_field \<Rightarrow> unit res" where
  "validate_redirect_message_kind E raw_url expected =
     (let expected_name = param_name expected; opposite_name = opposite_param_name expected in
      rbind (rmap_err Invalid (url_parse E raw_url)) (\<lambda>_.
      let (expected_count, opposite_count) =
        foldl (count_kind expected_name opposite_name) (0, 0) (url_query_pairs E raw_url) in
      if expected_count = 1 \<and> opposite_count = 0 then Inr ()
      else if expected_count = 0 \<and> opposite_count = 0 then Inl (Invalid (''missing Redirect field '' @ expected_name))
      else if opposite_count = 0 then Inl (Invalid (''ambiguous Redirect field '' @ expected_name))
      else Inl (Invalid (''expected Redirect field '' @ expected_name @ '', found '' @ opposite_name))))"

definition reject_partial_detached_signature :: "binding_context \<Rightarrow> unit res" where
  "reject_partial_detached_signature c =
     (if (bc_sig_alg c \<noteq> None) \<noteq> (bc_signature c \<noteq> None)
      then Inl (Invalid ''partial detached signature state is invalid'') else Inr ())"

definition reject_detached_signature_for_post :: "binding_context \<Rightarrow> unit res" where
  "reject_detached_signature_for_post c =
     (if bc_sig_alg c \<noteq> None \<or> bc_signature c \<noteq> None
      then Inl (Invalid ''POST outbound must not carry detached signature fields'') else Inr ())"

definition require_complete_detached_signature :: "binding_context \<Rightarrow> unit res" where
  "require_complete_detached_signature c =
     rbind (reject_partial_detached_signature c) (\<lambda>_.
       if bc_sig_alg c \<noteq> None \<and> bc_signature c \<noteq> None then Inr ()
       else Inl (Invalid ''SimpleSign requires SigAlg and Signature''))"

definition post_form_from_context :: "('k, 'e) url_ext_scheme \<Rightarrow> binding_context \<Rightarrow> bool \<Rightarrow> post_form res" where
  "post_form_from_context E c include_signature =
     rbind (endpoint_url_try_new E (bc_entity_endpoint c)) (\<lambda>action.
     rbind (bc_try_post_form E c) (\<lambda>_.
       Inr (post_form_new action
         ([(bc_request_type c, bc_context c)]
          @ (case bc_relay_state c of Some r \<Rightarrow> [(''RelayState'', r)] | None \<Rightarrow> [])
          @ (if include_signature
             then [(''SigAlg'', str_or_empty (bc_sig_alg c)), (''Signature'', str_or_empty (bc_signature c))]
             else [])))))"

definition outbound_from_context :: "('k, 'e) url_ext_scheme \<Rightarrow> binding_context \<Rightarrow> bool \<Rightarrow> message_field \<Rightarrow>
    outbound res" where
  "outbound_from_context E c allow_redirect expected =
     rbind (validate_context_message_kind c expected) (\<lambda>_.
     rbind (message_id_try_new (bc_id c)) (\<lambda>i.
     rbind (opt_traverse relay_state_try_new (bc_relay_state c)) (\<lambda>relay_state.
     (case bc_binding c of
        Redirect \<Rightarrow>
          if \<not> allow_redirect then Inl UndefinedBinding
          else
            rbind (endpoint_url_try_new E (bc_context c)) (\<lambda>_.
            rbind (validate_redirect_message_kind E (bc_context c) expected) (\<lambda>_.
              Inr \<lparr>ob_id = i, ob_relay_state = relay_state, ob_kind = OutRedirect,
                   ob_redirect_url = Some (bc_context c), ob_post_form = None, ob_raw_context = c\<rparr>))
      | Post \<Rightarrow>
          rbind (reject_detached_signature_for_post c) (\<lambda>_.
          rbind (post_form_from_context E c False) (\<lambda>form.
            Inr \<lparr>ob_id = i, ob_relay_state = relay_state, ob_kind = OutPost, ob_redirect_url = None,
                 ob_post_form = Some form, ob_raw_context = c\<rparr>))
      | SimpleSign \<Rightarrow>
          rbind (require_complete_detached_signature c) (\<lambda>_.
          rbind (post_form_from_context E c True) (\<lambda>form.
            Inr \<lparr>ob_id = i, ob_relay_state = relay_state, ob_kind = OutSimpleSignPost, ob_redirect_url = None,
                 ob_post_form = Some form, ob_raw_context = c\<rparr>))
      | Artifact \<Rightarrow> Inl UndefinedBinding))))"

text \<open>\<open>TryFrom<BindingContext>\<close> of the four outbound messages.\<close>

fun outbound_try_from :: "('k, 'e) url_ext_scheme \<Rightarrow> parser_type \<Rightarrow> binding_context \<Rightarrow> outbound res" where
  "outbound_try_from E SamlRequest c = outbound_from_context E c True FieldRequest"
| "outbound_try_from E SamlResponse c = outbound_from_context E c False FieldResponse"
| "outbound_try_from E LogoutRequest c = outbound_from_context E c True FieldRequest"
| "outbound_try_from E LogoutResponse c = outbound_from_context E c True FieldResponse"

definition into_raw_context :: "outbound \<Rightarrow> binding_context" where
  "into_raw_context a = ob_raw_context a"

record 'd started =
  st_pending :: "'d pending"
  st_outbound :: outbound

end
