(* ===== verification/Sso.thy ===== *)
theory Sso
  imports Flow
begin

text \<open>
  The typed views of validated messages (\<open>src/src/model/sso.rs\<close>, \<open>authn.rs\<close>,
  \<open>logout.rs\<close>, \<open>received.rs\<close>): each is built from the result of the flow, and the SSO
  session decides until when its identifiers must be remembered. Properties: that deadline covers
  every instant at which the flow would accept the response again, and a session is accepted at
  most once.
\<close>

section \<open>Instants of messages\<close>

definition issue_instant_from_extract :: "saml_value \<Rightarrow> string \<Rightarrow> string \<Rightarrow> saml_instant res" where
  "issue_instant_from_extract ex path element =
     rbind (ok_or (get_str ex path)
              (ProtocolProfile (element @ '' is missing required unqualified attribute IssueInstant''))) (\<lambda>v.
     rbind (ok_or (parse_saml_utc_date_time v)
              (ProtocolProfile
                (element @ '' IssueInstant must use the SAML-conformant UTC xs:dateTime form ending in Z''))) (\<lambda>t.
       saml_instant_try_new t))"

section \<open>Logout subject\<close>

record logout_subject =
  ls_name_id :: name_id
  ls_session_indexes :: "session_index list"

definition from_name_id :: "name_id \<Rightarrow> logout_subject" where
  "from_name_id n = \<lparr>ls_name_id = n, ls_session_indexes = []\<rparr>"

definition with_session_index :: "name_id \<Rightarrow> session_index \<Rightarrow> logout_subject" where
  "with_session_index n i = \<lparr>ls_name_id = n, ls_session_indexes = [i]\<rparr>"

section \<open>SSO response and session\<close>

record sso_response =
  srp_response_id :: message_id
  srp_issue_instant :: saml_instant
  srp_issuer :: entity_id
  srp_in_response_to :: "message_id option"
  srp_raw_flow :: flow_result

definition sso_response_view_try_from :: "flow_result \<Rightarrow> sso_response res" where
  "sso_response_view_try_from raw =
     (let ex = fr_extract raw in
      rbind (rbind (required_str ex ''response.id'') message_id_try_new) (\<lambda>rid.
      rbind (issue_instant_from_extract ex ''response.issueInstant'' ''Response'') (\<lambda>ii.
      rbind (rbind (required_str ex ''issuer'') entity_id_try_new) (\<lambda>iss.
      rbind (optional_request_id ex ''response.inResponseTo'') (\<lambda>irt.
        Inr \<lparr>srp_response_id = rid, srp_issue_instant = ii, srp_issuer = iss, srp_in_response_to = irt,
          srp_raw_flow = raw\<rparr>)))))"

record assertion_view =
  av_id :: "assertion_id option"
  av_issuer :: entity_id
  av_subject :: subject

record sso_session =
  ss_response_id :: message_id
  ss_response_issue_instant :: saml_instant
  ss_assertion_id :: assertion_id
  ss_assertion_issue_instant :: saml_instant
  ss_issuer :: entity_id
  ss_in_response_to :: "message_id option"
  ss_subject :: subject
  ss_attributes :: "attribute list"
  ss_authn_sessions :: "authn_session list"
  ss_audience :: "entity_id list"
  ss_not_before :: "saml_instant option"
  ss_not_on_or_after :: "saml_instant option"
  ss_sig_alg :: "string option"
  ss_raw_flow :: flow_result

definition sso_session_try_from :: "flow_result \<Rightarrow> sso_session res" where
  "sso_session_try_from raw =
     (let ex = fr_extract raw in
      rbind (rbind (required_str ex ''response.id'') message_id_try_new) (\<lambda>rid.
      rbind (issue_instant_from_extract ex ''response.issueInstant'' ''Response'') (\<lambda>rii.
      rbind (rbind (required_str ex ''assertion.id'') assertion_id_try_new) (\<lambda>aid.
      rbind (issue_instant_from_extract ex ''assertion.issueInstant'' ''Assertion'') (\<lambda>aii.
      rbind (rbind (required_str ex ''issuer'') entity_id_try_new) (\<lambda>iss.
      rbind (optional_request_id ex ''response.inResponseTo'') (\<lambda>irt.
      let format = map_option name_id_format_from_uri (get_str ex ''nameIDFormat'') in
      rbind (required_str ex ''nameID'') (\<lambda>nid.
      rbind (authn_sessions_from_extract ex) (\<lambda>sessions.
      rbind (entity_ids_from_value (get_path ex ''audience'')) (\<lambda>audience.
      rbind (conditions_instants ex) (\<lambda>(nb, na).
        Inr \<lparr>ss_response_id = rid, ss_response_issue_instant = rii, ss_assertion_id = aid,
          ss_assertion_issue_instant = aii, ss_issuer = iss, ss_in_response_to = irt,
          ss_subject = \<lparr>sub_name_id = \<lparr>nid_value = nid, nid_format = format\<rparr>,
            sub_confirmations = subject_confirmations_from_extract ex\<rparr>,
          ss_attributes = attributes_from_extract ex, ss_authn_sessions = sessions, ss_audience = audience,
          ss_not_before = nb, ss_not_on_or_after = na, ss_sig_alg = fr_sig_alg raw, ss_raw_flow = raw\<rparr>)))))))))))"

definition authn_session_of :: "sso_session \<Rightarrow> authn_session" where
  "authn_session_of s = (case ss_authn_sessions s of a # _ \<Rightarrow> a | [] \<Rightarrow> empty_authn_session)"

definition one_time_use :: "sso_session \<Rightarrow> bool" where
  "one_time_use s =
     (case get_path (fr_extract (ss_raw_flow s)) ''oneTimeUse'' of
        Some (VStr _) \<Rightarrow> True
      | Some (VArray vs) \<Rightarrow> vs \<noteq> []
      | _ \<Rightarrow> False)"

definition proxy_restriction_xml :: "sso_session \<Rightarrow> string option" where
  "proxy_restriction_xml s = get_str (fr_extract (ss_raw_flow s)) ''proxyRestriction''"

definition assertion_of :: "sso_session \<Rightarrow> assertion_view" where
  "assertion_of s = \<lparr>av_id = Some (ss_assertion_id s), av_issuer = ss_issuer s, av_subject = ss_subject s\<rparr>"

definition logout_subject_of :: "sso_session \<Rightarrow> logout_subject option" where
  "logout_subject_of s =
     (let n = sub_name_id (ss_subject s) in
      if is_blank (nid_value n) then None
      else Some \<lparr>ls_name_id = n, ls_session_indexes = some_values as_session_index (ss_authn_sessions s)\<rparr>)"

section \<open>Replay of a session\<close>

definition replay_keys :: "sso_session \<Rightarrow> replay_key list" where
  "replay_keys s = [ResponseId (ss_response_id s), AssertionIdKey (ss_assertion_id s)]"

definition parse_replay_expiration :: "('e) time_ext_scheme \<Rightarrow> string \<Rightarrow> odt res" where
  "parse_replay_expiration E v = ok_or (rfc3339_parse E v) (TimeWindowInvalid ReplayExpiration)"

definition bearer_expiry_fields :: "extractor_field list" where
  "bearer_expiry_fields =
     [with_attrs [''Method''] (field_new ''subjectConfirmation'' [''SubjectConfirmation'']),
      with_attrs [''NotOnOrAfter'']
        (field_new ''subjectConfirmationData'' [''SubjectConfirmation'', ''SubjectConfirmationData''])]"

text \<open>The loop over the confirmations keeps the latest bearer expiry.\<close>

fun bearer_expiry_loop :: "('e) xml_ext_scheme \<Rightarrow> odt option \<Rightarrow> subject_confirmation list \<Rightarrow> odt option res" where
  "bearer_expiry_loop E expires_at [] = Inr expires_at"
| "bearer_expiry_loop E expires_at (c # cs) =
     rbind (extract_with_limits E (raw_xml c) bearer_expiry_fields xml_limits_default) (\<lambda>ex.
       if get_str ex ''subjectConfirmation'' \<noteq> Some BEARER_SUBJECT_CONFIRMATION_METHOD
       then bearer_expiry_loop E expires_at cs
       else
         (case get_str ex ''subjectConfirmationData'' of
            None \<Rightarrow> bearer_expiry_loop E expires_at cs
          | Some not_on_or_after \<Rightarrow>
              rbind (parse_replay_expiration E not_on_or_after) (\<lambda>candidate.
                bearer_expiry_loop E
                  (case expires_at of
                     Some current \<Rightarrow> if current \<ge> candidate then expires_at else Some candidate
                   | None \<Rightarrow> Some candidate) cs)))"

definition bearer_subject_confirmation_expires_at :: "('e) xml_ext_scheme \<Rightarrow> sso_session \<Rightarrow> odt option res" where
  "bearer_subject_confirmation_expires_at E s = bearer_expiry_loop E None (sub_confirmations (ss_subject s))"

definition option_list :: "'a option \<Rightarrow> 'a list" where
  "option_list v = (case v of Some x \<Rightarrow> [x] | None \<Rightarrow> [])"

fun list_min :: "odt list \<Rightarrow> odt option" where
  "list_min [] = None"
| "list_min (x # xs) = Some (foldl min x xs)"

definition replay_candidates :: "('e) xml_ext_scheme \<Rightarrow> sso_session \<Rightarrow> odt list res" where
  "replay_candidates E s =
     rbind (opt_traverse (\<lambda>i. parse_replay_expiration E (saml_instant_str i)) (ss_not_on_or_after s)) (\<lambda>a.
     rbind (earliest_authn_session_expiration E
              (map saml_instant_str (some_values as_not_on_or_after (ss_authn_sessions s))) ReplayExpiration) (\<lambda>b.
     rbind (bearer_subject_confirmation_expires_at E s) (\<lambda>c.
       Inr (option_list a @ option_list b @ option_list c))))"

definition replay_expires_at :: "('e) xml_ext_scheme \<Rightarrow> sso_session \<Rightarrow> odt \<Rightarrow> int \<Rightarrow> odt res" where
  "replay_expires_at E s now skew_ms =
     rbind (replay_candidates E s) (\<lambda>candidates.
     rbind (ok_or (list_min candidates) (TimeWindowInvalid ReplayExpiration)) (\<lambda>raw_expires_at.
     rbind (ok_or (odt_checked_add E raw_expires_at (duration_ms skew_ms)) (TimeWindowInvalid ReplayExpiration))
       (\<lambda>expires_at.
       if now \<ge> expires_at then Inl (TimeWindowInvalid ReplayExpiration) else Inr expires_at)))"

fun store_keys :: "'c check_and_store \<Rightarrow> 'c validation_context \<Rightarrow> replay_key list \<Rightarrow> systime \<Rightarrow>
    'c validation_context \<times> unit res" where
  "store_keys cas v [] t = (v, Inr ())"
| "store_keys cas v (k # ks) t =
     (case store_in_context cas v k t of
        (v', Inl e) \<Rightarrow> (v', Inl e)
      | (v', Inr _) \<Rightarrow> store_keys cas v' ks t)"

definition sso_check_and_store_replay :: "('e) xml_ext_scheme \<Rightarrow> 'c check_and_store \<Rightarrow> sso_session \<Rightarrow>
    'c validation_context \<Rightarrow> 'c validation_context \<times> unit res" where
  "sso_check_and_store_replay E cas s v =
     (case now_offset E v of
        Inl e \<Rightarrow> (v, Inl e)
      | Inr now \<Rightarrow>
          (case vc_replay v of
             DisabledForCompatibility \<Rightarrow>
               if one_time_use s
               then (v, Inl (ProtocolProfile ''OneTimeUse requires an assertion replay cache''))
               else (v, Inr ())
           | RequireCache _ \<Rightarrow>
               (case rbind (replay_expires_at E s now (not_on_or_after_ms (vc_clock_skew v)))
                       system_time_from_offset_datetime of
                  Inl e \<Rightarrow> (v, Inl e)
                | Inr expires_at \<Rightarrow> store_keys cas v (replay_keys s) expires_at)))"

section \<open>Requests and logout messages\<close>

record authn_request =
  ar_id :: message_id
  ar_issue_instant :: saml_instant
  ar_issuer :: entity_id
  ar_destination :: "endpoint_url option"
  ar_acs_url :: "endpoint_url option"
  ar_protocol_binding :: "sso_response_binding option"
  ar_acs_index :: "nat option"
  ar_name_id_policy :: "name_id_policy option"
  ar_raw_flow :: flow_result

definition optional_response_binding :: "saml_value \<Rightarrow> sso_response_binding option res" where
  "optional_response_binding ex =
     (case get_str ex ''request.protocolBinding'' of
        None \<Rightarrow> Inr None
      | Some v \<Rightarrow>
          rbind (ok_or (from_urn v) (Invalid (''unsupported AuthnRequest ProtocolBinding '' @ v))) (\<lambda>b.
            rmap Some (Browser.sso_response_try_from b)))"

definition authn_request_try_from :: "('e) net_ext_scheme \<Rightarrow> flow_result \<Rightarrow> authn_request res" where
  "authn_request_try_from E raw =
     (let ex = fr_extract raw in
      rbind (rbind (required_str ex ''request.id'') message_id_try_new) (\<lambda>i.
      rbind (issue_instant_from_extract ex ''request.issueInstant'' ''AuthnRequest'') (\<lambda>ii.
      rbind (rbind (required_str ex ''issuer'') entity_id_try_new) (\<lambda>iss.
      rbind (optional_endpoint E ex ''request.destination'') (\<lambda>dest.
      rbind (optional_endpoint E ex ''request.assertionConsumerServiceUrl'') (\<lambda>acs.
      rbind (optional_response_binding ex) (\<lambda>pb.
      rbind (optional_u16 ex ''request.assertionConsumerServiceIndex'') (\<lambda>ai.
      rbind (name_id_policy_from_extract ex) (\<lambda>policy.
        Inr \<lparr>ar_id = i, ar_issue_instant = ii, ar_issuer = iss, ar_destination = dest, ar_acs_url = acs,
          ar_protocol_binding = pb, ar_acs_index = ai, ar_name_id_policy = policy, ar_raw_flow = raw\<rparr>)))))))))"

definition authn_check_and_store_replay :: "'c check_and_store \<Rightarrow> authn_request \<Rightarrow> 'c validation_context \<Rightarrow>
    'c validation_context \<times> unit res" where
  "authn_check_and_store_replay cas r v = check_and_store_message_replay cas v (AuthnRequestId (ar_id r))"

record logout_request =
  lq_id :: message_id
  lq_issue_instant :: saml_instant
  lq_not_on_or_after :: "saml_instant option"
  lq_issuer :: entity_id
  lq_name_id :: "name_id option"
  lq_session_indexes :: "session_index list"
  lq_destination :: "endpoint_url option"
  lq_raw_flow :: flow_result

definition logout_request_instant_from_extract :: "saml_value \<Rightarrow> string \<Rightarrow> string \<Rightarrow> bool \<Rightarrow> saml_instant option res" where
  "logout_request_instant_from_extract ex fld attr required =
     (case get_str ex (''request.'' @ fld) of
        None \<Rightarrow>
          if required
          then Inl (ProtocolProfile (''LogoutRequest is missing required unqualified attribute '' @ attr))
          else Inr None
      | Some v \<Rightarrow>
          rbind (ok_or (parse_saml_utc_date_time v)
            (ProtocolProfile
              (''LogoutRequest '' @ attr @ '' must use the SAML-conformant UTC xs:dateTime form ending in Z''))) (\<lambda>t.
            rmap Some (saml_instant_try_new t)))"

definition logout_request_try_from :: "('e) net_ext_scheme \<Rightarrow> flow_result \<Rightarrow> logout_request res" where
  "logout_request_try_from E raw =
     (let ex = fr_extract raw in
      rbind (rbind (required_str ex ''request.id'') message_id_try_new) (\<lambda>i.
      rbind (logout_request_instant_from_extract ex ''issueInstant'' ''IssueInstant'' True) (\<lambda>oi.
      rbind (ok_or oi (ProtocolProfile ''LogoutRequest is missing required unqualified attribute IssueInstant'')) (\<lambda>ii.
      rbind (logout_request_instant_from_extract ex ''notOnOrAfter'' ''NotOnOrAfter'' False) (\<lambda>na.
      rbind (rbind (required_str ex ''issuer'') entity_id_try_new) (\<lambda>iss.
      rbind (session_indexes_from_value (get_path ex ''sessionIndex'')) (\<lambda>sis.
      rbind (optional_endpoint E ex ''request.destination'') (\<lambda>dest.
        Inr \<lparr>lq_id = i, lq_issue_instant = ii, lq_not_on_or_after = na, lq_issuer = iss,
          lq_name_id = map_option (\<lambda>v. \<lparr>nid_value = v, nid_format = None\<rparr>) (get_str ex ''nameID''),
          lq_session_indexes = sis, lq_destination = dest, lq_raw_flow = raw\<rparr>))))))))"

record logout_response =
  lr_id :: message_id
  lr_issuer :: entity_id
  lr_issue_instant :: saml_instant
  lr_in_response_to :: "message_id option"
  lr_destination :: "endpoint_url option"
  lr_raw_flow :: flow_result

definition logout_response_try_from :: "('e) net_ext_scheme \<Rightarrow> flow_result \<Rightarrow> logout_response res" where
  "logout_response_try_from E raw =
     (let ex = fr_extract raw in
      rbind (rbind (required_str ex ''response.id'') message_id_try_new) (\<lambda>i.
      rbind (issue_instant_from_extract ex ''response.issueInstant'' ''LogoutResponse'') (\<lambda>ii.
      rbind (rbind (required_str ex ''issuer'') entity_id_try_new) (\<lambda>iss.
      rbind (optional_request_id ex ''response.inResponseTo'') (\<lambda>irt.
      rbind (optional_endpoint E ex ''response.destination'') (\<lambda>dest.
        Inr \<lparr>lr_id = i, lr_issuer = iss, lr_issue_instant = ii, lr_in_response_to = irt, lr_destination = dest,
          lr_raw_flow = raw\<rparr>))))))"

record logout_completed =
  lc_peer_entity_id :: entity_id
  lc_response :: "logout_response option"

definition logout_completed_new :: "entity_id \<Rightarrow> logout_completed" where
  "logout_completed_new p = \<lparr>lc_peer_entity_id = p, lc_response = None\<rparr>"

definition logout_completed_from_response :: "entity_id \<Rightarrow> logout_response \<Rightarrow> logout_completed" where
  "logout_completed_from_response p r = \<lparr>lc_peer_entity_id = p, lc_response = Some r\<rparr>"

definition logout_status :: "logout_completed \<Rightarrow> string option" where
  "logout_status c = map_option (\<lambda>_. STATUS_SUCCESS) (lc_response c)"

section \<open>Received messages\<close>

record 'm received =
  rc_message :: 'm
  rc_relay_state :: relay_state_param

definition received_new :: "'m \<Rightarrow> 'm received" where
  "received_new m = \<lparr>rc_message = m, rc_relay_state = Absent\<rparr>"

definition received_with_relay_state :: "relay_state_param \<Rightarrow> 'm received \<Rightarrow> 'm received" where
  "received_with_relay_state p r = r\<lparr>rc_relay_state := p\<rparr>"

section \<open>The replay deadline\<close>

lemma confirmation_limit:
  assumes "extract_with_limits E xml subject_confirmation_fields L = Inr ex"
    "get_str ex ''subjectConfirmationData.notOnOrAfter'' = Some limit"
    "extract_with_limits E xml bearer_expiry_fields L' = Inr ey"
  shows "get_str ey ''subjectConfirmation'' = get_str ex ''subjectConfirmation''"
    "get_str ey ''subjectConfirmationData'' = Some limit"
proof -
  obtain r where r: "parse_with_limits E xml L = Inr r" "parse_with_limits E xml L' = Inr r"
    using assms(1,3) parse_with_limits_eq unfolding extract_with_limits_def rbind_Inr_iff by metis
  let ?ns = "select_path r [''SubjectConfirmation'', ''SubjectConfirmationData'']"
  show "get_str ey ''subjectConfirmation'' = get_str ex ''subjectConfirmation''"
    using assms(1,3) r
    by (auto simp: extract_with_limits_def subject_confirmation_fields_def bearer_expiry_fields_def field_simps
        get_str_def get_path_def)
  show "get_str ey ''subjectConfirmationData'' = Some limit"
    proof -
    have ex: "ex = VObject [(''subjectConfirmation'', extract_field xml r (hd subject_confirmation_fields)),
        (''subjectConfirmationData'', one_or_array (map (attr_object [''NotOnOrAfter'', ''Recipient'', ''InResponseTo'']) ?ns))]"
      using assms(1) r
      by (auto simp: extract_with_limits_def subject_confirmation_fields_def field_simps extract_field_def Let_def)
    obtain n where n: "?ns = [n]" "node_attr n ''NotOnOrAfter'' = Some limit"
      using assms(2) unfolding ex
      by (auto simp: get_str_def get_path_def one_or_array_def attr_object_def bind_eq_Some_conv sso_camel
          split: list.splits option.splits if_splits)
    show ?thesis
      using assms(3) r n
      by (auto simp: extract_with_limits_def bearer_expiry_fields_def field_simps extract_field_def
          get_str_def get_path_def)
  qed
qed


lemma bearer_expiry_loop_grows:
  "bearer_expiry_loop E x cs = Inr r \<Longrightarrow> x = Some c \<Longrightarrow> \<exists>m. r = Some m \<and> c \<le> m"
proof (induction cs arbitrary: x c)
  case (Cons d cs)
  from Cons.prems obtain y c' where y: "bearer_expiry_loop E y cs = Inr r" "y = Some c'" "c \<le> c'"
    by (auto simp: rbind_Inr_iff not_le split: if_splits option.splits)
  with Cons.IH order_trans show ?case by blast
qed auto

lemma bearer_expiry_loop_covers:
  assumes "bearer_expiry_loop E x cs = Inr r" "c \<in> set cs"
    "\<And>ey. extract_with_limits E (raw_xml c) bearer_expiry_fields xml_limits_default = Inr ey \<Longrightarrow>
       get_str ey ''subjectConfirmation'' = Some BEARER_SUBJECT_CONFIRMATION_METHOD
       \<and> get_str ey ''subjectConfirmationData'' = Some limit"
  shows "\<exists>e m. rfc3339_parse E limit = Some e \<and> r = Some m \<and> e \<le> m"
  using assms(1,2)
proof (induction cs arbitrary: x)
  case (Cons d cs)
  show ?case
  proof (cases "c = d")
    case True
    from Cons.prems(1) obtain ey where ey: "extract_with_limits E (raw_xml d) bearer_expiry_fields xml_limits_default = Inr ey"
      by (auto simp: rbind_Inr_iff)
    from ey assms(3) True have "get_str ey ''subjectConfirmation'' = Some BEARER_SUBJECT_CONFIRMATION_METHOD"
      "get_str ey ''subjectConfirmationData'' = Some limit" by auto
    with Cons.prems(1) ey obtain e where e: "rfc3339_parse E limit = Some e"
      "bearer_expiry_loop E
        (case x of Some current \<Rightarrow> if current \<ge> e then x else Some e | None \<Rightarrow> Some e) cs = Inr r"
      by (auto simp: rbind_Inr_iff parse_replay_expiration_def ok_or_Inr_iff)
    obtain e' where "(case x of Some current \<Rightarrow> if current \<ge> e then x else Some e | None \<Rightarrow> Some e) = Some e'" "e \<le> e'"
      by (cases x; cases "the x \<ge> e") auto
    with e bearer_expiry_loop_grows [of E _ cs r e'] show ?thesis by (metis order_trans)
  next
    case False
    with Cons.prems obtain y where "bearer_expiry_loop E y cs = Inr r" "c \<in> set cs"
      by (auto simp: rbind_Inr_iff split: if_splits option.splits)
    with Cons.IH show ?thesis by blast
  qed
qed simp

lemma subject_confirmations_xmls:
  "subject_confirmations_from_extract ex = map SubjectConfirmation (subject_confirmation_xmls ex)"
  by (simp add: subject_confirmations_from_extract_def subject_confirmation_xmls_def split: option.split saml_value.split)

lemma list_min_in: "list_min xs = Some (m :: odt) \<Longrightarrow> m \<in> set xs"
proof (cases xs)
  case (Cons x xs')
  moreover have "foldl min x ys \<in> insert x (set ys)" for x :: odt and ys
    by (induction ys arbitrary: x) (auto simp: min_def split: if_splits)
  ultimately show "list_min xs = Some m \<Longrightarrow> m \<in> set xs" by auto
qed simp

text \<open>
  An accepted message lies, at the instant it is validated, before each of the three expirations a replay deadline is
  taken from: the end of its conditions, the earliest end of its sessions, and the latest end of its bearer confirmations.
\<close>

lemma replay_conditions_cover:
  assumes "time_laws E" "\<And>u. validation_now E opts u = Inr now" "validate_conditions E u ex opts = Inr ()"
    "conditions_instants ex = Inr (nb, Some i)" "rfc3339_parse E (saml_instant_str i) = Some m"
  shows "odt_ns now < odt_ns m + snd (fo_clock_drifts opts) * 1000000"
proof -
  obtain drift skew where drift: "fo_clock_drifts opts = (drift, skew)" by (cases "fo_clock_drifts opts")
  obtain nb' na where w: "conditions_time_bounds ex = Inr (nb', Some na)" "saml_instant_str i = na"
    using assms(4) by (auto simp: conditions_instants_def rbind_Inr_iff opt_traverse_Inr_iff saml_instant_try_new_def split: if_splits)
  then have "verify_time_at E nb' (Some na) (drift, skew) now"
    using assms(2,3) drift by (auto simp: validate_conditions_def rbind_Inr_iff split: if_splits)
  then show ?thesis
    using verify_time_at_bounds [OF assms(1), of nb' "Some na" drift skew now] assms(5) w(2) by (auto simp: bound_ns_def drift)
qed

lemma replay_sessions_cover:
  assumes "time_laws E" "\<And>u. validation_now E opts u = Inr now" "validate_sessions E u ex opts = Inr ()"
    "authn_sessions_from_extract ex = Inr ss"
    "earliest_authn_session_expiration E (map saml_instant_str (some_values as_not_on_or_after ss)) ReplayExpiration = Inr (Some m)"
  shows "odt_ns now < odt_ns m + snd (fo_clock_drifts opts) * 1000000"
proof -
  let ?vs = "map saml_instant_str (some_values as_not_on_or_after ss)"
  from validate_sessions_Inr [OF assms(1,2,3)] obtain vs where vs: "authn_statement_not_on_or_after_values ex = Inr vs"
    "\<forall>v \<in> set vs. \<exists>e. rfc3339_parse E v = Some e \<and> odt_ns now < odt_ns e + snd (fo_clock_drifts opts) * 1000000"
    by auto
  then have same: "vs = ?vs" using authn_sessions_bounds [OF assms(4)] by simp
  have all: "\<forall>v \<in> set ?vs. rfc3339_parse E v \<noteq> None" "?vs \<noteq> []" "m = Min (set (map (\<lambda>v. the (rfc3339_parse E v)) ?vs))"
    using assms(5) unfolding earliest_expiration_eq by (auto simp: list_all_iff split: if_splits)
  then have "m \<in> set (map (\<lambda>v. the (rfc3339_parse E v)) ?vs)" using Min_in by (metis List.finite_set map_is_Nil_conv set_empty)
  with all(1) have "\<exists>v \<in> set ?vs. rfc3339_parse E v = Some m" by auto
  then show ?thesis using vs(2) same by fastforce
qed

lemma replay_bearers_cover:
  assumes "x \<in> set (subject_confirmation_xmls ex)" "bearer_confirmed E opts rcpt now x"
    "bearer_expiry_loop E None (map SubjectConfirmation (subject_confirmation_xmls ex)) = Inr (Some m)"
  shows "odt_ns now < odt_ns m + snd (fo_clock_drifts opts) * 1000000"
proof -
  obtain ey limit l where ey: "extract_with_limits E x subject_confirmation_fields (fo_xml_limits opts) = Inr ey"
    "get_str ey ''subjectConfirmation'' = Some BEARER_SUBJECT_CONFIRMATION_METHOD"
    "get_str ey ''subjectConfirmationData.notOnOrAfter'' = Some limit"
    "bound_ns E (snd (fo_clock_drifts opts)) limit = Some l" "odt_ns now < l"
    using assms(2) by (auto simp: bearer_confirmed_def)
  have "\<exists>e m'. rfc3339_parse E limit = Some e \<and> Some m = Some m' \<and> e \<le> m'"
    using assms(3)
  proof (rule bearer_expiry_loop_covers [where c = "SubjectConfirmation x"])
    show "SubjectConfirmation x \<in> set (map SubjectConfirmation (subject_confirmation_xmls ex))" using assms(1) by simp
    show "get_str ez ''subjectConfirmation'' = Some BEARER_SUBJECT_CONFIRMATION_METHOD
       \<and> get_str ez ''subjectConfirmationData'' = Some limit"
      if "extract_with_limits E (raw_xml (SubjectConfirmation x)) bearer_expiry_fields xml_limits_default = Inr ez" for ez
      using confirmation_limit [OF ey(1,3)] that ey(2) by simp
  qed
  then show ?thesis using ey(4,5) by (auto simp: bound_ns_def bind_eq_Some_conv less_eq_odt_def)
qed

lemma replay_covers_acceptance:
  assumes "sso_session_try_from fr = Inr s" "replay_expires_at E s now skew = Inr deadline"
    "flow_with_expected_recipient E clk opts request rcpt asr rsr = Inr fr'"
    "fr_extract fr' = fr_extract fr" "snd (fo_clock_drifts opts) = skew"
    "fo_parser_type opts = Some SamlResponse" "time_laws E"
    "fo_now opts = Some t" "offset_datetime_from_system_time E t = Inr now'"
  shows "odt_ns now' < odt_ns deadline"
proof -
  have now': "validation_now E opts u = Inr now'" for u using assms(8,9) by (simp add: validation_now_def)
  from assms(3,6) have sso: "\<exists>a auth. validate_sso_response E clk a (fr_extract fr) opts (Some rcpt) auth = Inr ()"
    unfolding flow_with_expected_recipient_def flow_inner_Inr assms(4) [symmetric]
    by (auto simp: validate_context_def rbind_Inr_iff split: option.splits if_splits)
  then have "\<exists>x \<in> set (subject_confirmation_xmls (fr_extract fr)). bearer_confirmed E opts (Some rcpt) now' x"
    and sess: "validate_sessions E (clk ReadSession) (fr_extract fr) opts = Inr ()"
    and cond: "validate_conditions E (clk ReadConditions) (fr_extract fr) opts = Inr ()"
    using confirmation_loop_Inr [OF assms(7) now']
    by (auto simp: validate_sso_response_def validate_subject_confirmation_def rbind_Inr_iff)
  then obtain x where conf: "x \<in> set (subject_confirmation_xmls (fr_extract fr))" "bearer_confirmed E opts (Some rcpt) now' x" by blast
  obtain nb where s: "sub_confirmations (ss_subject s) = map SubjectConfirmation (subject_confirmation_xmls (fr_extract fr))"
    "authn_sessions_from_extract (fr_extract fr) = Inr (ss_authn_sessions s)"
    "conditions_instants (fr_extract fr) = Inr (nb, ss_not_on_or_after s)"
    using assms(1) by (auto simp: sso_session_try_from_def rbind_Inr_iff Let_def subject_confirmations_xmls)
  obtain cs m where cs: "replay_candidates E s = Inr cs" "list_min cs = Some m" "odt_checked_add E m (duration_ms skew) = Some deadline"
    using assms(2) by (auto simp: replay_expires_at_def rbind_Inr_iff ok_or_Inr_iff split: if_splits)
  from cs(1) obtain a b c where abc: "opt_traverse (\<lambda>i. parse_replay_expiration E (saml_instant_str i)) (ss_not_on_or_after s) = Inr a"
    "earliest_authn_session_expiration E
       (map saml_instant_str (some_values as_not_on_or_after (ss_authn_sessions s))) ReplayExpiration = Inr b"
    "bearer_expiry_loop E None (sub_confirmations (ss_subject s)) = Inr c"
    "cs = option_list a @ option_list b @ option_list c"
    by (auto simp: replay_candidates_def bearer_subject_confirmation_expires_at_def rbind_Inr_iff)
  have "m \<in> set cs" using cs(2) by (rule list_min_in)
  then consider "a = Some m" | "b = Some m" | "c = Some m" by (auto simp: abc(4) option_list_def split: option.splits)
  then have "odt_ns now' < odt_ns m + snd (fo_clock_drifts opts) * 1000000"
  proof cases
    case 1
    with abc(1) obtain i where "ss_not_on_or_after s = Some i" "rfc3339_parse E (saml_instant_str i) = Some m"
      by (auto simp: opt_traverse_Inr_iff parse_replay_expiration_def ok_or_Inr_iff)
    with s(3) show ?thesis using replay_conditions_cover [OF assms(7) now' cond] by simp
  next
    case 2
    with abc(2) show ?thesis using replay_sessions_cover [OF assms(7) now' sess s(2)] by simp
  next
    case 3
    with abc(3) s(1) show ?thesis using replay_bearers_cover [OF conf] by simp
  qed
  then show ?thesis using time_laws_add [OF assms(7) cs(3)] assms(5) by (simp add: duration_ms_def)
qed

text \<open>
  C25: the replay deadline of a session outlives the message: if the flow, at whatever later instant
  and over whatever binding, accepts a message with the same extracted fields under the same skew,
  then that instant lies before the deadline until which the identifiers of the session are kept.
\<close>

theorem sso_replay_covers_acceptance:
  assumes "sso_session_try_from fr = Inr s" "replay_expires_at E s now skew = Inr deadline"
    "flow_with_expected_recipient E clk opts request rcpt asr rsr = Inr fr'"
    "fr_extract fr' = fr_extract fr" "snd (fo_clock_drifts opts) = skew"
    "fo_parser_type opts = Some SamlResponse" "time_laws E"
    "fo_now opts = Some t" "offset_datetime_from_system_time E t = Inr now'"
  shows "odt_ns now' < odt_ns deadline"
  using assms by (rule replay_covers_acceptance)

section \<open>One acceptance\<close>

context replay_cache
begin

lemma store_keys_Inr:
  assumes "store_keys check_and_store v ks t = (v', Inr ())" "vc_replay v = RequireCache c"
  shows "\<exists>c'. vc_replay v' = RequireCache c' \<and> seen c' = seen c \<union> cache_key ` set ks
     \<and> cache_key ` set ks \<inter> seen c = {}"
  using assms
proof (induction ks arbitrary: v c)
  case (Cons k ks)
  obtain c1 where c1: "check_and_store c k t = (c1, Inr ())"
    "store_keys check_and_store (v\<lparr>vc_replay := RequireCache c1\<rparr>) ks t = (v', Inr ())"
    using Cons.prems
    by (cases "check_and_store c k t") (auto simp: store_in_context_RequireCache split: sum.splits)
  with accept_stores [OF c1(1)] Cons.IH [OF c1(2)] show ?case by auto
qed simp

lemma session_stored:
  assumes "sso_check_and_store_replay E check_and_store s v = (v', Inr ())" "vc_replay v = RequireCache c"
  shows "\<exists>c'. vc_replay v' = RequireCache c' \<and> seen c' = seen c \<union> cache_key ` set (replay_keys s)
     \<and> cache_key ` set (replay_keys s) \<inter> seen c = {}"
  using assms store_keys_Inr [of v _ _ v' c]
  by (auto simp: sso_check_and_store_replay_def split: sum.splits)

lemma session_accepted_once:
  assumes "sso_check_and_store_replay E check_and_store s v = (v1, Inr ())" "vc_replay v = RequireCache c"
    "vc_replay v1 = RequireCache c1" "cache_steps c1 c2" "vc_replay w = RequireCache c2"
    "set (replay_keys s) \<inter> set (replay_keys s') \<noteq> {}"
  shows "\<exists>e. snd (sso_check_and_store_replay E check_and_store s' w) = Inl e"
proof (cases "sso_check_and_store_replay E check_and_store s' w")
  case (Pair w' r)
  show ?thesis
  proof (cases r)
    case (Inr u)
    have "cache_key ` set (replay_keys s) \<subseteq> seen c2"
      using session_stored [OF assms(1,2)] cache_steps_seen [OF assms(4)] assms(3) by auto
    moreover have "cache_key ` set (replay_keys s') \<inter> seen c2 = {}"
      using session_stored [of E s' w w' c2] Pair Inr assms(5) by auto
    ultimately show ?thesis using assms(6) by blast
  qed (use Pair in simp)
qed

end

text \<open>
  C26: a session is accepted once: after a session was accepted with the documented cache, and
  whatever operations other workers interleave, no session that shares the response identifier or
  the assertion identifier is accepted, at any instant and under any clock skew.
\<close>

theorem sso_session_accepted_once:
  assumes "sso_check_and_store_replay E minimal_check_and_store s v = (v1, Inr ())"
    "vc_replay v = RequireCache c" "vc_replay v1 = RequireCache c1" "minimal.cache_steps c1 c2"
    "vc_replay w = RequireCache c2" "set (replay_keys s) \<inter> set (replay_keys s') \<noteq> {}"
  shows "\<exists>e. snd (sso_check_and_store_replay E minimal_check_and_store s' w) = Inl e"
  using assms by (rule minimal.session_accepted_once)

context retaining_cache
begin

lemma store_keys_keeps_context: "store_keys check_and_store v ks t = (v', r) \<Longrightarrow> keeps_context v v'"
proof (induction ks arbitrary: v)
  case (Cons k ks)
  then show ?case
    by (auto intro: store_keeps_context keeps_context_trans [OF store_keeps_context] split: prod.splits sum.splits)
qed (auto intro: keeps_context_refl)

text \<open>Storing the keys of a session, first the one of the response.\<close>

lemma session_stores_response:
  assumes "sso_check_and_store_replay E check_and_store s v = (v', Inr ())" "vc_replay v = RequireCache c"
  obtains now deadline u where "offset_datetime_from_system_time E (vc_now v) = Inr now"
    "replay_expires_at E s now (not_on_or_after_ms (vc_clock_skew v)) = Inr deadline"
    "store_in_context check_and_store v (ResponseId (ss_response_id s)) (SysTime (odt_ns deadline)) = (u, Inr ())"
    "keeps_context u v'"
proof -
  let ?k = "ResponseId (ss_response_id s)"
  from assms obtain now deadline where now: "offset_datetime_from_system_time E (vc_now v) = Inr now"
      "replay_expires_at E s now (not_on_or_after_ms (vc_clock_skew v)) = Inr deadline"
    and st: "store_keys check_and_store v (?k # [AssertionIdKey (ss_assertion_id s)]) (SysTime (odt_ns deadline)) = (v', Inr ())"
    by (auto simp: sso_check_and_store_replay_def now_offset_def replay_keys_def system_time_from_offset_datetime_eq rbind_Inr_iff
        simp del: store_keys.simps split: sum.splits if_splits)
  from st obtain u where "store_in_context check_and_store v ?k (SysTime (odt_ns deadline)) = (u, Inr ())"
    "store_keys check_and_store u [AssertionIdKey (ss_assertion_id s)] (SysTime (odt_ns deadline)) = (v', Inr ())"
    unfolding store_keys.simps(2) [of _ _ ?k] by (auto split: prod.splits sum.splits simp del: store_keys.simps)
  with now that store_keys_keeps_context show ?thesis by blast
qed

end

lemma same_extract_keys:
  assumes "sso_session_try_from fr = Inr s" "sso_session_try_from fr' = Inr s'" "fr_extract fr' = fr_extract fr"
  shows "ss_response_id s' = ss_response_id s"
  using assms by (auto simp: sso_session_try_from_def rbind_Inr_iff Let_def)

text \<open>
  C31: an accepted response is not accepted again, with any cache that keeps a key until the deadline it was stored
  with: after a session was accepted, and whatever other workers and time do to the cache, a message with the
  same extracted fields that the flow accepts at a later instant, with the same skew and a cache whose clock is
  not ahead of that instant, is rejected when its identifiers are stored. Keys may be dropped once they expire.
\<close>

theorem replayed_response_rejected:
  assumes "retaining_cache cas deadlines cache_now" "time_laws E" "sso_session_try_from fr = Inr s"
    "sso_check_and_store_replay E cas s v = (v1, Inr ())" "vc_replay v = RequireCache c" "vc_replay v1 = RequireCache c1"
    "cache_run cas deadlines cache_now c1 c2" "vc_replay w = RequireCache c2" "cache_now c2 \<le> vc_now w"
    "flow_with_expected_recipient E clk opts request rcpt asr rsr = Inr fr'" "fo_parser_type opts = Some SamlResponse"
    "fo_now opts = Some (vc_now w)" "snd (fo_clock_drifts opts) = not_on_or_after_ms (vc_clock_skew v)"
    "fr_extract fr' = fr_extract fr" "sso_session_try_from fr' = Inr s'"
  shows "\<exists>e. snd (sso_check_and_store_replay E cas s' w) = Inl e"
proof (rule ccontr)
  let ?k = "ResponseId (ss_response_id s)"
  note stores = retaining_cache.session_stores_response [OF assms(1)]
  assume "\<not> ?thesis"
  then obtain w' where "sso_check_and_store_replay E cas s' w = (w', Inr ())"
    by (metis (full_types) old.unit.exhaust prod.collapse sum.exhaust_sel)
  then obtain now e x where x: "offset_datetime_from_system_time E (vc_now w) = Inr now"
    "store_in_context cas w ?k e = (x, Inr ())"
    by (rule stores [OF _ assms(8)]) (simp add: same_extract_keys [OF assms(3,15,14)])
  obtain n d u where d: "replay_expires_at E s n (not_on_or_after_ms (vc_clock_skew v)) = Inr d"
    and u: "store_in_context cas v ?k (SysTime (odt_ns d)) = (u, Inr ())" "retaining_cache.keeps_context deadlines cache_now u v1"
    by (rule stores [OF assms(4,5)])
  have "retaining_cache.retained deadlines cache_now c1 (cache_key ?k) (SysTime (odt_ns d))"
    using retaining_cache.stored_retained [OF assms(1) u(1) assms(5)] u(2) assms(6)
    by (auto simp: retaining_cache.keeps_context_def [OF assms(1)])
  from retaining_cache.stored_expired [OF assms(1) x(2) assms(8) retaining_cache.retained_run [OF assms(1,7) this]]
  have "odt_ns d \<le> sys_ns (vc_now w)" using assms(9) by (simp add: less_eq_systime_def)
  moreover have "odt_ns now < odt_ns d"
    using replay_covers_acceptance [OF assms(3) d assms(10,14,13,11,2,12) x(1)] by simp
  ultimately show False using offset_datetime_from_system_time_ns [OF assms(2) x(1)] by simp
qed

section \<open>A session of the sample response\<close>

definition sso_result :: flow_result where
  "sso_result = \<lparr>fr_saml_content = sso_text, fr_extract = sso_extract, fr_sig_alg = None\<rparr>"

lemma sso_typed_any:
  assumes "reads_sample E"
  shows "\<exists>s. sso_session_try_from (sso_result\<lparr>fr_sig_alg := alg\<rparr>) = Inr s
     \<and> replay_expires_at E s (Odt 0) 0 = Inr (Odt (1704067200 * ns_per_sec))
     \<and> replay_keys s = [ResponseId (MessageId ''_2''), AssertionIdKey (AssertionId ''_a'')]"
proof -
  have d: "parse_saml_utc_date_time ''2024-01-01T00:00:00Z'' = Some ''2024-01-01T00:00:00Z''" by code_simp
  have v: "get_str sso_extract ''response.id'' = Some ''_2''"
    "get_str sso_extract ''response.issueInstant'' = Some ''2024-01-01T00:00:00Z''"
    "get_str sso_extract ''assertion.id'' = Some ''_a''" "get_str sso_extract ''nameIDFormat'' = None"
    "get_str sso_extract ''assertion.issueInstant'' = Some ''2024-01-01T00:00:00Z''"
    "get_str sso_extract ''issuer'' = Some ''idp''" "get_str sso_extract ''nameID'' = Some ''user''"
    "get_path sso_extract ''audience'' = Some VNull"
    by (simp_all add: sso_extract_def get_str_def get_path_def)
  have b: "\<not> is_blank ''_2''" "\<not> is_blank ''_a''" "\<not> is_blank ''idp''" "\<not> is_blank ''2024-01-01T00:00:00Z''" "\<not> is_blank ''_r''"
    by code_simp+
  have ses: "authn_sessions_from_extract sso_extract = Inr []"
    by (simp add: authn_sessions_from_extract_def authn_statement_values_def sso_extract_def get_path_def)
  have cond: "conditions_instants sso_extract = Inr (None, None)" by (simp add: conditions_instants_def sso_values)
  have ex: "extract_with_limits E ''<C/>'' bearer_expiry_fields xml_limits_default =
      Inr (VObject [(''subjectConfirmation'', VStr BEARER_SUBJECT_CONFIRMATION_METHOD),
        (''subjectConfirmationData'', VStr ''2024-01-01T00:00:00Z'')])"
    by (simp add: extract_eval bearer_expiry_fields_def conf_parse [OF assms] conf_node_def)
  have t: "\<exists>s. sso_session_try_from (sso_result\<lparr>fr_sig_alg := alg\<rparr>) = Inr s \<and> ss_response_id s = MessageId ''_2''
      \<and> ss_assertion_id s = AssertionId ''_a'' \<and> ss_not_on_or_after s = None \<and> ss_authn_sessions s = []
      \<and> sub_confirmations (ss_subject s) = [SubjectConfirmation ''<C/>'']"
    using ses cond
    by (simp add: sso_session_try_from_def sso_result_def v d b required_str_def ok_or_def issue_instant_from_extract_def
        message_id_try_new_def assertion_id_try_new_def saml_instant_try_new_def entity_id_try_new_def
        validate_entity_id_text_def optional_request_id_def sso_values entity_ids_from_value_def
        subject_confirmations_xmls)
  then show ?thesis
    using ex
    by (auto simp: replay_expires_at_def replay_candidates_def option_list_def earliest_authn_session_expiration_def
        bearer_subject_confirmation_expires_at_def replay_keys_def ok_or_def
        get_str_def get_path_def parse_replay_expiration_def sample_time_def duration_ms_def less_eq_odt_def
        reads_sampleD [OF assms])
qed

lemma sso_typed:
  assumes "reads_sample E"
  shows "\<exists>s. sso_session_try_from sso_result = Inr s
     \<and> replay_expires_at E s (Odt 0) 0 = Inr (Odt (1704067200 * ns_per_sec))
     \<and> replay_keys s = [ResponseId (MessageId ''_2''), AssertionIdKey (AssertionId ''_a'')]"
  using sso_typed_any [OF assms, of None] by (simp add: sso_result_def)

lemma sso_session_accepted_once_witness:
  "\<exists>s c e. sso_session_try_from sso_result = Inr s
     \<and> snd (sso_check_and_store_replay sample_flow_ext minimal_check_and_store s
          (validation_context_new (SysTime 5) (RequireCache c))) = Inl e"
proof -
  obtain s where s: "sso_session_try_from sso_result = Inr s"
    "replay_expires_at sample_flow_ext s (Odt 0) 0 = Inr (Odt (1704067200 * ns_per_sec))"
    "replay_keys s = [ResponseId (MessageId ''_2''), AssertionIdKey (AssertionId ''_a'')]"
    using sso_typed [OF sample_flow_reads] by blast
  have k: "cache_key (AssertionIdKey (AssertionId ''_a'')) \<noteq> cache_key (ResponseId (MessageId ''_2''))"
    by (simp add: cache_key_def)
  let ?v = "validation_context_new (SysTime 0) (RequireCache Map.empty)"
  let ?t = "SysTime (1704067200 * ns_per_sec)"
  let ?c = "[cache_key (ResponseId (MessageId ''_2'')) \<mapsto> ?t, cache_key (AssertionIdKey (AssertionId ''_a'')) \<mapsto> ?t]"
  have "sso_check_and_store_replay sample_flow_ext minimal_check_and_store s ?v = (?v\<lparr>vc_replay := RequireCache ?c\<rparr>, Inr ())"
    using k
    by (simp add: sso_check_and_store_replay_def now_offset_def validation_context_new_def sample_epoch clock_skew_strict_def
        s system_time_from_offset_datetime_eq sys_in_range_def store_in_context_def minimal_check_and_store_def Let_def)
  from sso_session_accepted_once [OF this, of Map.empty ?c ?c "validation_context_new (SysTime 5) (RequireCache ?c)" s]
  show ?thesis using s minimal.steps_refl by (auto simp: validation_context_new_def)
qed

lemma sso_replay_covers_acceptance_witness:
  "\<exists>s deadline. sso_session_try_from sso_result = Inr s \<and> replay_expires_at sample_flow_ext s (Odt 0) 0 = Inr deadline
     \<and> odt_ns (Odt 0) < odt_ns deadline"
proof -
  obtain s where s: "sso_session_try_from sso_result = Inr s"
    "replay_expires_at sample_flow_ext s (Odt 0) 0 = Inr (Odt (1704067200 * ns_per_sec))"
    using sso_typed [OF sample_flow_reads] by blast
  have "snd (fo_clock_drifts sso_options) = 0" by (simp add: sso_options_def flow_options_default_def)
  from sso_replay_covers_acceptance [OF s sso_flow _ this option_values(1) flow_time_laws option_values(2) sample_epoch]
  show ?thesis using s by (auto simp: sso_result_def)
qed

lemma replayed_response_rejected_witness:
  "\<exists>s c e. sso_session_try_from sso_result = Inr s
     \<and> snd (sso_check_and_store_replay sample_flow_ext expiring_check_and_store s
          (validation_context_new (SysTime 0) (RequireCache c))) = Inl e"
proof -
  obtain s where s: "sso_session_try_from sso_result = Inr s"
    "replay_expires_at sample_flow_ext s (Odt 0) 0 = Inr (Odt (1704067200 * ns_per_sec))"
    "replay_keys s = [ResponseId (MessageId ''_2''), AssertionIdKey (AssertionId ''_a'')]"
    using sso_typed [OF sample_flow_reads] by blast
  have k: "cache_key (AssertionIdKey (AssertionId ''_a'')) \<noteq> cache_key (ResponseId (MessageId ''_2''))"
    by (simp add: cache_key_def)
  let ?c0 = "\<lparr>ec_now = SysTime 0, ec_seen = Map.empty\<rparr>"
  let ?v = "validation_context_new (SysTime 0) (RequireCache ?c0)"
  obtain c where c: "sso_check_and_store_replay sample_flow_ext expiring_check_and_store s ?v = (?v\<lparr>vc_replay := RequireCache c\<rparr>, Inr ())"
    "ec_now c = SysTime 0"
    using k
    by (auto simp: sso_check_and_store_replay_def now_offset_def validation_context_new_def sample_epoch clock_skew_strict_def
        s system_time_from_offset_datetime_eq sys_in_range_def store_in_context_def expiring_check_and_store_def Let_def
        less_systime_def)
  have o: "snd (fo_clock_drifts sso_options) = not_on_or_after_ms (vc_clock_skew ?v)"
    by (simp add: sso_options_def flow_options_default_def validation_context_new_def clock_skew_strict_def)
  have n: "vc_now (validation_context_new (SysTime 0) x) = SysTime 0" "vc_replay (validation_context_new t x) = x"
    for t and x :: "expiring_cache replay_policy"
    by (simp_all add: validation_context_new_def)
  let ?w = "validation_context_new (SysTime 0) (RequireCache c)"
  have "ec_now c \<le> vc_now ?w" by (simp add: n c(2))
  from replayed_response_rejected [OF expiring.retaining_cache_axioms flow_time_laws s(1) c(1) n(2) _ run_refl n(2) this,
      of "\<lambda>_. Odt 0" sso_options sso_request "''acs''" Compatible SigOptional sso_result s]
  show ?thesis
    using s sso_flow o option_values(1,2) by (intro exI [of _ s] exI [of _ c]) (simp add: n sso_result_def)
qed

end
