(* ===== verification/Api.thy ===== *)
theory Api
  imports Idp Logout Outbound Sso
begin

text \<open>
  The typed facade (\<open>src/src/api/\<close>): a configured service or identity provider starts, receives, answers
  and finishes SSO and single logout. The clock reads of a call are the fields of \<open>issue_env\<close> and, where a
  call reads the clock again for the pending request, the argument \<open>later\<close>. Operations that use a replay
  cache return the validation context with the cache as they left it.
\<close>

section \<open>Options\<close>

datatype force_authn = ForceRequired | ForceNotRequired

fun force_as_bool :: "force_authn \<Rightarrow> bool" where
  "force_as_bool ForceRequired = True"
| "force_as_bool ForceNotRequired = False"

record start_sso_options =
  so_binding :: sso_request_binding
  so_response_binding :: "sso_response_binding option"
  so_relay_state :: relay_state_param
  so_force_authn :: "force_authn option"
  so_acs_index :: "nat option"
  so_pending_lifetime :: nat

definition start_sso_new :: "sso_request_binding \<Rightarrow> start_sso_options" where
  "start_sso_new b =
     \<lparr>so_binding = b, so_response_binding = None, so_relay_state = Absent, so_force_authn = None, so_acs_index = None,
      so_pending_lifetime = 300 * 1000000000\<rparr>"

datatype response_signing =
  FollowEncryptedCbcRecommendation | AlwaysSign | AllowUnsignedEncryptedCbcForCompatibility

record respond_sso_options =
  rs_binding :: sso_response_binding
  rs_relay_state :: "relay_state_param option"
  rs_response_signing :: response_signing

definition respond_sso_new :: "sso_response_binding \<Rightarrow> respond_sso_options" where
  "respond_sso_new b =
     \<lparr>rs_binding = b, rs_relay_state = None, rs_response_signing = FollowEncryptedCbcRecommendation\<rparr>"

definition should_sign_response :: "respond_sso_options \<Rightarrow> bool \<Rightarrow> string \<Rightarrow> bool" where
  "should_sign_response opts assertion_encrypted data_encryption_algorithm =
     (case rs_response_signing opts of
        FollowEncryptedCbcRecommendation \<Rightarrow>
          assertion_encrypted \<and> is_xml_encryption_cbc_algorithm data_encryption_algorithm
      | AlwaysSign \<Rightarrow> True
      | AllowUnsignedEncryptedCbcForCompatibility \<Rightarrow> False)"

datatype logout_signing = FollowLocalPolicy | SignLogout | DoNotSignForCompatibility

record start_slo_options =
  sl_binding :: logout_binding
  sl_relay_state :: relay_state_param
  sl_signing :: logout_signing
  sl_pending_lifetime :: "nat option"

definition start_slo_new :: "logout_binding \<Rightarrow> start_slo_options" where
  "start_slo_new b =
     \<lparr>sl_binding = b, sl_relay_state = Absent, sl_signing = FollowLocalPolicy, sl_pending_lifetime = None\<rparr>"

record respond_slo_options =
  rl_binding :: logout_binding
  rl_relay_state :: "relay_state_param option"

definition respond_slo_new :: "logout_binding \<Rightarrow> respond_slo_options" where
  "respond_slo_new b = \<lparr>rl_binding = b, rl_relay_state = None\<rparr>"

section \<open>Mapping to the raw entities\<close>

definition config_certificates :: "certificate_pem option \<Rightarrow> string list" where
  "config_certificates c = (case c of Some x \<Rightarrow> [certificate_str x] | None \<Rightarrow> [])"

definition raw_sp_metadata_config :: "sp_config \<Rightarrow> sp_metadata_config" where
  "raw_sp_metadata_config c =
     (let m = sp_metadata_inputs c in
      \<lparr>sc_entity_id = entity_id_str (sp_entity_id c),
       sc_signing_certs = config_certificates (cr_signing_certificate (sp_credentials c)),
       sc_encrypt_certs = config_certificates (cr_encryption_certificate (sp_credentials c)),
       sc_authn_requests_signed = (sv_authn_requests (sp_validation c) = SignAuthnRequests),
       sc_want_assertions_signed = (sv_assertions (sp_validation c) = AssertionsRequireSigned),
       sc_name_id_format = name_id_format_uris (ts_name_id_format m),
       sc_single_logout_service = map slo_endpoint_to_raw (ts_single_logout_service m),
       sc_assertion_consumer_service = map acs_endpoint_to_raw (ts_assertion_consumer_service m),
       sc_elements_order = ts_elements_order m\<rparr>)"

definition raw_idp_metadata_config :: "idp_config \<Rightarrow> idp_metadata_config" where
  "raw_idp_metadata_config c =
     (let m = idp_metadata_inputs c in
      \<lparr>ic_entity_id = entity_id_str (idp_entity_id c),
       ic_signing_certs = config_certificates (cr_signing_certificate (idp_credentials c)),
       ic_encrypt_certs = config_certificates (cr_encryption_certificate (idp_credentials c)),
       ic_want_authn_requests_signed = (iv_authn_requests (idp_validation c) = RequestsRequireSigned),
       ic_name_id_format = name_id_format_uris (ti_name_id_format m),
       ic_single_sign_on_service = map sso_endpoint_to_raw (ti_single_sign_on_service m),
       ic_single_logout_service = map slo_endpoint_to_raw (ti_single_logout_service m),
       ic_elements_order = ti_elements_order m\<rparr>)"

definition raw_idp_descriptor :: "('k, 'e) crypto_ext_scheme \<Rightarrow> idp_descriptor \<Rightarrow> identity_provider res" where
  "raw_idp_descriptor E d = idp_from_metadata E (pd_metadata_xml d) entity_setting_default"

definition raw_sp_descriptor :: "('k, 'e) crypto_ext_scheme \<Rightarrow> sp_descriptor \<Rightarrow> service_provider res" where
  "raw_sp_descriptor E d = sp_from_metadata E (pd_metadata_xml d) entity_setting_default"

definition selected_acs :: "('e) net_ext_scheme \<Rightarrow> service_provider \<Rightarrow> sso_response_binding option \<Rightarrow> nat option \<Rightarrow>
    acs_endpoint res" where
  "selected_acs E sp requested_binding i =
     (case i of
        Some i \<Rightarrow>
          rbind (get_assertion_consumer_service_by_index (spr_metadata sp) i) (\<lambda>found.
          rbind (ok_or found (MissingMetadata ''AssertionConsumerService'')) (\<lambda>e.
          rbind (Browser.sso_response_try_from (am_binding e)) (\<lambda>b.
          if (case requested_binding of Some r \<Rightarrow> r \<noteq> b | None \<Rightarrow> False)
          then Inl (Invalid ''AssertionConsumerServiceIndex binding does not match response_binding'')
          else
            rbind (endpoint_url_try_new E (am_location e)) (\<lambda>u.
              Inr ((acs_endpoint_new b u)\<lparr>acs_ep_index := Some i, acs_ep_is_default := am_is_default e\<rparr>)))))
      | None \<Rightarrow>
          let b = unwrap_or requested_binding ResponsePost in
          rbind (ok_or (get_assertion_consumer_service_endpoint (spr_metadata sp) (sso_response_as_binding b))
                   (MissingMetadata ''AssertionConsumerService'')) (\<lambda>e.
          rbind (endpoint_url_try_new E (am_location e)) (\<lambda>u.
            Inr ((acs_endpoint_new b u)\<lparr>acs_ep_is_default := am_is_default e\<rparr>))))"

definition response_target :: "service_provider \<Rightarrow> authn_request \<Rightarrow> sso_response_binding \<Rightarrow>
    (sso_response_binding \<times> string option) res" where
  "response_target sp request selected_binding =
     (if ar_acs_url request \<noteq> None \<and> ar_acs_index request \<noteq> None
      then Inl (Invalid ''AuthnRequest must not specify both ACS URL and ACS index'')
      else if (case ar_protocol_binding request of Some p \<Rightarrow> p \<noteq> selected_binding | None \<Rightarrow> False)
      then Inl (Invalid ''response binding conflicts with AuthnRequest ProtocolBinding'')
      else
        let b = unwrap_or (ar_protocol_binding request) selected_binding in
        (case ar_acs_url request of
           Some acs_url \<Rightarrow>
             if \<not> has_assertion_consumer_service (spr_metadata sp) (sso_response_as_binding b) (endpoint_url_str acs_url)
             then Inl (DestinationMismatch (endpoint_url_str acs_url)
                    (get_assertion_consumer_service (spr_metadata sp) (sso_response_as_binding b)))
             else Inr (b, Some (endpoint_url_str acs_url))
         | None \<Rightarrow>
             (case ar_acs_index request of
                Some i \<Rightarrow>
                  rbind (get_assertion_consumer_service_by_index (spr_metadata sp) i) (\<lambda>found.
                  rbind (ok_or found (MissingMetadata ''AssertionConsumerService'')) (\<lambda>e.
                  rbind (Browser.sso_response_try_from (am_binding e)) (\<lambda>indexed_binding.
                    if indexed_binding \<noteq> b
                    then Inl (Invalid ''response binding conflicts with AuthnRequest ACS index'')
                    else Inr (b, Some (am_location e)))))
              | None \<Rightarrow> Inr (b, None))))"

fun input_binding :: "browser_input \<Rightarrow> binding" where
  "input_binding (InRedirect raw_query) = Redirect"
| "input_binding (InPost fs) = Post"
| "input_binding (InSimpleSignPost raw_body fs) = SimpleSign"

definition first_field :: "(string \<times> string) list \<Rightarrow> string \<Rightarrow> string option" where
  "first_field fs name = map_option snd (find (\<lambda>f. fst f = name) fs)"

fun relay_state_from_input :: "('e) wire_ext_scheme \<Rightarrow> browser_input \<Rightarrow> relay_state_param res" where
  "relay_state_from_input E (InRedirect raw_query) =
     relay_param_try_from_option
       (first_field (form_parse E (dropWhile (\<lambda>c. c = CHR ''?'') raw_query)) ''RelayState'')"
| "relay_state_from_input E (InPost fs) = relay_param_try_from_option (first_field fs ''RelayState'')"
| "relay_state_from_input E (InSimpleSignPost raw_body fs) = relay_param_try_from_option (first_field fs ''RelayState'')"

definition ensure_relay_state :: "relay_state_param \<Rightarrow> relay_state_param \<Rightarrow> unit res" where
  "ensure_relay_state expected actual =
     (if expected = actual then Inr () else Inl (RelayStateMismatch expected actual))"

definition ensure_entity_id :: "entity_id \<Rightarrow> entity_id \<Rightarrow> unit res" where
  "ensure_entity_id expected actual =
     (if expected = actual then Inr ()
      else Inl (IssuerMismatch (entity_id_str expected) (Some (entity_id_str actual))))"

definition ensure_sso_response_binding :: "binding \<Rightarrow> sso_response_binding \<Rightarrow> unit res" where
  "ensure_sso_response_binding actual expected =
     (if actual = sso_response_as_binding expected then Inr () else Inl (UnsupportedBinding actual))"

section \<open>Facades\<close>

type_synonym saml_sp = service_provider

record saml_idp =
  sf_identity_provider :: identity_provider
  sf_issuance_lifetime :: int

definition saml_sp_new :: "('k, 'e) out_ext_scheme \<Rightarrow> sp_config \<Rightarrow> saml_sp res" where
  "saml_sp_new E config =
     rbind (sp_settings_try_from E config) (\<lambda>setting.
       sp_from_config E (raw_sp_metadata_config config) setting)"

definition saml_idp_new :: "('k, 'e) out_ext_scheme \<Rightarrow> idp_config \<Rightarrow> saml_idp res" where
  "saml_idp_new E config =
     rbind (validated_idp_issuance_lifetime (idp_issuance_lifetime config)) (\<lambda>lifetime.
     rbind (idp_settings_try_from E config) (\<lambda>setting.
     rbind (idp_from_config E (raw_idp_metadata_config config) setting) (\<lambda>idp.
       Inr \<lparr>sf_identity_provider = idp, sf_issuance_lifetime = lifetime\<rparr>)))"

section \<open>Service provider SSO\<close>

definition start_sso :: "('k, 'e) url_ext_scheme \<Rightarrow> issue_env \<Rightarrow> systime \<Rightarrow> saml_sp \<Rightarrow> idp_descriptor \<Rightarrow>
    start_sso_options \<Rightarrow> authn_pending_details started res" where
  "start_sso E env later sp idp opts =
     rbind (relay_param_validate (so_relay_state opts)) (\<lambda>_.
     rbind (raw_idp_descriptor E idp) (\<lambda>raw_idp.
     rbind (selected_acs E sp (so_response_binding opts) (so_acs_index opts)) (\<lambda>acs.
     let response_binding = acs_ep_binding acs in
     rbind (create_login_request_with_options E env sp raw_idp (sso_request_as_binding (so_binding opts))
              \<lparr>lo_relay_state = relay_param_as_deref (so_relay_state opts), lo_custom = None,
               lo_force_authn = map_option force_as_bool (so_force_authn opts), lo_acs_index = so_acs_index opts,
               lo_response_binding = Some (sso_response_as_binding response_binding)\<rparr>) (\<lambda>context.
     rbind (outbound_try_from E SamlRequest context) (\<lambda>outbound.
     rbind (pending_authn_try_new (ob_id outbound) (so_relay_state opts) acs response_binding (pd_entity_id idp)) (\<lambda>p.
     rbind (with_local_lifetime E (p\<lparr>pe_details := (pe_details p)\<lparr>pd_request_binding := Some (so_binding opts)\<rparr>\<rparr>) later
              (so_pending_lifetime opts)) (\<lambda>pending.
       Inr \<lparr>st_pending = pending, st_outbound = outbound\<rparr>)))))))"

text \<open>The checks of \<open>finish_sso\<close> before anything is stored.\<close>

definition finish_sso_session :: "('k, 'e) flow_ext_scheme \<Rightarrow> clock \<Rightarrow> saml_sp \<Rightarrow> idp_descriptor \<Rightarrow>
    pending_authn_request \<Rightarrow> browser_input \<Rightarrow> 'c validation_context \<Rightarrow> sso_session res" where
  "finish_sso_session E clk sp idp pending input v =
     rbind (pending_validate_at E pending (vc_now v)) (\<lambda>_.
     rbind (rbind (completion_deadline E pending) (require_pending_expiration v)) (\<lambda>_.
     rbind (ensure_entity_id (pe_peer_entity_id pending) (pd_entity_id idp)) (\<lambda>_.
     rbind (ensure_sso_response_binding (input_binding input) (pd_response_binding (pe_details pending))) (\<lambda>_.
     rbind (rbind (relay_state_from_input E input) (ensure_relay_state (pe_relay_state pending))) (\<lambda>_.
     rbind (raw_idp_descriptor E idp) (\<lambda>raw_idp.
     rbind (http_request_for E SamlResponse input) (\<lambda>request.
     rbind (parse_login_response_with_request_id_at E clk (vc_now v) sp raw_idp
              (sso_response_as_binding (pd_response_binding (pe_details pending))) request
              (message_id_str (pe_id pending))
              (with_expected_recipient (endpoint_url_str (acs_ep_url (pd_acs (pe_details pending))))
                 (parse_options_at (vc_now v) (as_millis (vc_clock_skew v))))) (\<lambda>fr.
       sso_session_try_from fr))))))))"

definition finish_sso :: "('k, 'e) flow_ext_scheme \<Rightarrow> clock \<Rightarrow> 'c check_and_store \<Rightarrow> saml_sp \<Rightarrow> idp_descriptor \<Rightarrow>
    pending_authn_request \<Rightarrow> browser_input \<Rightarrow> 'c validation_context \<Rightarrow> 'c validation_context \<times> sso_session res" where
  "finish_sso E clk cas sp idp pending input v =
     (case finish_sso_session E clk sp idp pending input v of
        Inl e \<Rightarrow> (v, Inl e)
      | Inr session \<Rightarrow>
          (case sso_check_and_store_replay E cas session v of
             (v1, Inl e) \<Rightarrow> (v1, Inl e)
           | (v1, Inr _) \<Rightarrow>
               (case completion_deadline E pending of
                  Inl e \<Rightarrow> (v1, Inl e)
                | Inr deadline \<Rightarrow>
                    (case check_and_store_message_replay_until cas v1 (CompletedAuthnRequestId (pe_id pending)) deadline of
                       (v2, Inl e) \<Rightarrow> (v2, Inl e)
                     | (v2, Inr _) \<Rightarrow> (v2, Inr session)))))"

definition accept_unsolicited_session :: "('k, 'e) flow_ext_scheme \<Rightarrow> clock \<Rightarrow> saml_sp \<Rightarrow> idp_descriptor \<Rightarrow>
    browser_input \<Rightarrow> 'c validation_context \<Rightarrow> sso_session res" where
  "accept_unsolicited_session E clk sp idp input v =
     rbind (Browser.sso_response_try_from (input_binding input)) (\<lambda>b.
     rbind (raw_idp_descriptor E idp) (\<lambda>raw_idp.
     rbind (http_request_for E SamlResponse input) (\<lambda>request.
     rbind (parse_unsolicited_login_response_at E clk sp raw_idp (sso_response_as_binding b) request (vc_now v)
              (as_millis (vc_clock_skew v))) (\<lambda>fr.
       sso_session_try_from fr))))"

definition accept_unsolicited_sso :: "('k, 'e) flow_ext_scheme \<Rightarrow> clock \<Rightarrow> 'c check_and_store \<Rightarrow> saml_sp \<Rightarrow>
    idp_descriptor \<Rightarrow> browser_input \<Rightarrow> 'c validation_context \<Rightarrow> 'c validation_context \<times> sso_session res" where
  "accept_unsolicited_sso E clk cas sp idp input v =
     (case accept_unsolicited_session E clk sp idp input v of
        Inl e \<Rightarrow> (v, Inl e)
      | Inr session \<Rightarrow>
          (case sso_check_and_store_replay E cas session v of
             (v1, Inl e) \<Rightarrow> (v1, Inl e)
           | (v1, Inr _) \<Rightarrow> (v1, Inr session)))"

section \<open>Identity provider SSO\<close>

definition receive_sso_request :: "('k, 'e) flow_ext_scheme \<Rightarrow> clock \<Rightarrow> saml_idp \<Rightarrow> sp_descriptor \<Rightarrow>
    browser_input \<Rightarrow> 'c validation_context \<Rightarrow> (relay_state_param \<times> authn_request) res" where
  "receive_sso_request E clk idp sp input v =
     rbind (relay_state_from_input E input) (\<lambda>relay_state.
     rbind (Browser.sso_request_try_from (input_binding input)) (\<lambda>b.
     rbind (raw_sp_descriptor E sp) (\<lambda>raw_sp.
     rbind (http_request_for E SamlRequest input) (\<lambda>request.
     rbind (parse_login_request_at E clk (sf_identity_provider idp) raw_sp (sso_request_as_binding b) request (vc_now v)
              (as_millis (vc_clock_skew v))) (\<lambda>fr.
     rbind (authn_request_try_from E fr) (\<lambda>authn.
     rbind
       (case ar_destination authn of
          None \<Rightarrow> Inr ()
        | Some destination \<Rightarrow>
            rbind (ok_or (get_single_sign_on_service (idr_metadata (sf_identity_provider idp)) (sso_request_as_binding b))
                     (MissingMetadata ''SingleSignOnService'')) (\<lambda>expected.
              if endpoint_url_str destination \<noteq> expected
              then Inl (DestinationMismatch expected (Some (endpoint_url_str destination))) else Inr ())) (\<lambda>_.
       Inr (relay_state, authn))))))))"

definition receive_sso :: "('k, 'e) flow_ext_scheme \<Rightarrow> clock \<Rightarrow> 'c check_and_store \<Rightarrow> saml_idp \<Rightarrow> sp_descriptor \<Rightarrow>
    browser_input \<Rightarrow> 'c validation_context \<Rightarrow> 'c validation_context \<times> authn_request received res" where
  "receive_sso E clk cas idp sp input v =
     (case receive_sso_request E clk idp sp input v of
        Inl e \<Rightarrow> (v, Inl e)
      | Inr (relay_state, authn) \<Rightarrow>
          (case check_and_store_message_replay cas v (AuthnRequestId (ar_id authn)) of
             (v1, Inl e) \<Rightarrow> (v1, Inl e)
           | (v1, Inr _) \<Rightarrow> (v1, Inr (received_with_relay_state relay_state (received_new authn)))))"

definition user_from_subject :: "subject \<Rightarrow> user" where
  "user_from_subject s = user_new (nid_value (sub_name_id s))"

definition issue_sso :: "('k, 'e) url_ext_scheme \<Rightarrow> issue_env \<Rightarrow> saml_idp \<Rightarrow> sp_descriptor \<Rightarrow>
    authn_request received option \<Rightarrow> subject \<Rightarrow> respond_sso_options \<Rightarrow> outbound res" where
  "issue_sso E env idp sp request s opts =
     (let idp_setting = idr_setting (sf_identity_provider idp);
          sign_response = should_sign_response opts (es_is_assertion_encrypted idp_setting)
            (es_data_encryption_algorithm idp_setting);
          relay_state =
            (case rs_relay_state opts of
               Some r \<Rightarrow> r
             | None \<Rightarrow> (case request of Some r \<Rightarrow> rc_relay_state r | None \<Rightarrow> Absent)) in
      rbind (relay_param_validate relay_state) (\<lambda>_.
      rbind (raw_sp_descriptor E sp) (\<lambda>raw_sp0.
      let raw_sp = raw_sp0\<lparr>spr_setting := (spr_setting raw_sp0)\<lparr>es_want_message_signed := sign_response\<rparr>\<rparr> in
      rbind (case request of
               Some r \<Rightarrow> response_target raw_sp (rc_message r) (rs_binding opts)
             | None \<Rightarrow> Inr (rs_binding opts, None)) (\<lambda>(b, explicit_acs).
      rbind (create_login_response_with_overrides E env (sf_identity_provider idp) raw_sp (sso_response_as_binding b)
               (user_from_subject s)
               \<lparr>ro_in_response_to = map_option (\<lambda>r. message_id_str (ar_id (rc_message r))) request,
                ro_relay_state = relay_param_as_deref relay_state, ro_encrypt_then_sign = False, ro_custom = None\<rparr>
               \<lparr>ov_acs = explicit_acs, ov_name_id_format = map_option name_id_format_uri (nid_format (sub_name_id s)),
                ov_issuance_lifetime = Some (sf_issuance_lifetime idp)\<rparr>) (\<lambda>context.
        outbound_try_from E SamlResponse context)))))"

definition respond_sso :: "('k, 'e) url_ext_scheme \<Rightarrow> issue_env \<Rightarrow> saml_idp \<Rightarrow> sp_descriptor \<Rightarrow>
    authn_request received \<Rightarrow> subject \<Rightarrow> respond_sso_options \<Rightarrow> outbound res" where
  "respond_sso E env idp sp request s opts =
     rbind (ensure_entity_id (ar_issuer (rc_message request)) (pd_entity_id sp)) (\<lambda>_.
       issue_sso E env idp sp (Some request) s opts)"

definition initiate_sso :: "('k, 'e) url_ext_scheme \<Rightarrow> issue_env \<Rightarrow> saml_idp \<Rightarrow> sp_descriptor \<Rightarrow> subject \<Rightarrow>
    respond_sso_options \<Rightarrow> outbound res" where
  "initiate_sso E env idp sp s opts = issue_sso E env idp sp None s opts"

section \<open>Single logout\<close>

datatype start_slo_role = SessionParticipant | SessionAuthorityRole int

definition logout_request_signing :: "entity_setting \<Rightarrow> logout_signing \<Rightarrow> bool" where
  "logout_request_signing setting signing =
     (case signing of
        FollowLocalPolicy \<Rightarrow> es_want_logout_request_signed setting
      | SignLogout \<Rightarrow> True
      | DoNotSignForCompatibility \<Rightarrow> False)"

definition ensure_logout_response_binding :: "binding \<Rightarrow> logout_binding \<Rightarrow> unit res" where
  "ensure_logout_response_binding actual expected =
     (if actual = logout_as_binding expected then Inr () else Inl (UnsupportedBinding actual))"

definition ensure_logout_destination :: "metadata \<Rightarrow> logout_binding \<Rightarrow> endpoint_url option \<Rightarrow> unit res" where
  "ensure_logout_destination local_metadata b actual =
     (case actual of
        None \<Rightarrow> Inr ()
      | Some actual \<Rightarrow>
          rbind (ok_or (get_single_logout_service local_metadata (logout_as_binding b))
                   (MissingMetadata ''SingleLogoutService'')) (\<lambda>expected.
            if endpoint_url_str actual = expected then Inr ()
            else Inl (DestinationMismatch expected (Some (endpoint_url_str actual)))))"

text \<open>The issue instant, the expiration and the checks of a LogoutRequest by the role that starts it.\<close>

definition slo_timing :: "('e) time_ext_scheme \<Rightarrow> issue_env \<Rightarrow> start_slo_role \<Rightarrow>
    (string \<times> string option \<times> logout_request_validation) res" where
  "slo_timing E env role =
     (case role of
        SessionParticipant \<Rightarrow> Inr (now_iso8601 E (ie_now_utc env), None, Compatibility)
      | SessionAuthorityRole lifetime \<Rightarrow>
          rbind (capture_idp_issuance_window E (ie_now_utc env) lifetime) (\<lambda>w.
            Inr (iw_issue_instant w, Some (iw_expiration w), SessionAuthority)))"

definition start_slo_lifetime :: "start_slo_role \<Rightarrow> start_slo_options \<Rightarrow> nat option" where
  "start_slo_lifetime role opts =
     (case sl_pending_lifetime opts of
        Some l \<Rightarrow> Some l
      | None \<Rightarrow> if role = SessionParticipant then Some (300 * 1000000000) else None)"

definition start_slo_impl :: "('k, 'e) url_ext_scheme \<Rightarrow> issue_env \<Rightarrow> systime \<Rightarrow> entity_setting \<Rightarrow> metadata \<Rightarrow>
    entity_id \<Rightarrow> metadata \<Rightarrow> logout_subject \<Rightarrow> start_slo_options \<Rightarrow> start_slo_role \<Rightarrow> logout_pending_details started res" where
  "start_slo_impl E env later setting local_metadata peer peer_metadata subj opts role =
     rbind (relay_param_validate (sl_relay_state opts)) (\<lambda>_.
     rbind (slo_timing E env role) (\<lambda>(issue_instant, not_on_or_after, validation).
     rbind (create_logout_request_with_session_indexes E env setting local_metadata peer_metadata
              (logout_as_binding (sl_binding opts)) (nid_value (ls_name_id subj))
              (map session_index_str (ls_session_indexes subj)) (relay_param_as_deref (sl_relay_state opts))
              (logout_request_signing setting (sl_signing opts)) issue_instant not_on_or_after validation) (\<lambda>created.
     rbind (outbound_try_from E LogoutRequest (cl_context created)) (\<lambda>outbound.
     rbind (pending_logout_try_new (ob_id outbound) (sl_relay_state opts) (sl_binding opts) peer) (\<lambda>p.
     rbind (saml_instant_try_new (cl_issue_instant created)) (\<lambda>issued.
     let p = p\<lparr>pe_issued_at := Some issued\<rparr> in
     rbind
       (if role = SessionParticipant then Inr p
        else
          rbind (ok_or (cl_not_on_or_after created)
                   (Invalid ''Session Authority LogoutRequest is missing its generated expiration'')) (\<lambda>expiration.
          rbind (saml_instant_try_new expiration) (\<lambda>x. Inr (p\<lparr>pe_expires_at := Some x\<rparr>)))) (\<lambda>p.
     rbind (case start_slo_lifetime role opts of
              Some l \<Rightarrow> with_local_lifetime E p later l
            | None \<Rightarrow> Inr p) (\<lambda>p.
       Inr \<lparr>st_pending = p, st_outbound = outbound\<rparr>))))))))"

definition sp_start_slo :: "('k, 'e) url_ext_scheme \<Rightarrow> issue_env \<Rightarrow> systime \<Rightarrow> saml_sp \<Rightarrow> idp_descriptor \<Rightarrow>
    logout_subject \<Rightarrow> start_slo_options \<Rightarrow> logout_pending_details started res" where
  "sp_start_slo E env later sp idp subj opts =
     rbind (raw_idp_descriptor E idp) (\<lambda>raw_idp.
       start_slo_impl E env later (spr_setting sp) (sp_inner (spr_metadata sp)) (pd_entity_id idp)
         (idp_inner (idr_metadata raw_idp)) subj opts SessionParticipant)"

definition idp_start_slo :: "('k, 'e) url_ext_scheme \<Rightarrow> issue_env \<Rightarrow> systime \<Rightarrow> saml_idp \<Rightarrow> sp_descriptor \<Rightarrow>
    logout_subject \<Rightarrow> start_slo_options \<Rightarrow> logout_pending_details started res" where
  "idp_start_slo E env later idp sp subj opts =
     rbind (raw_sp_descriptor E sp) (\<lambda>raw_sp.
       start_slo_impl E env later (idr_setting (sf_identity_provider idp))
         (idp_inner (idr_metadata (sf_identity_provider idp))) (pd_entity_id sp) (sp_inner (spr_metadata raw_sp)) subj opts
         (SessionAuthorityRole (sf_issuance_lifetime idp)))"

definition receive_slo_request :: "('k, 'e) flow_ext_scheme \<Rightarrow> clock \<Rightarrow> entity_setting \<Rightarrow> metadata \<Rightarrow> metadata \<Rightarrow>
    browser_input \<Rightarrow> 'c validation_context \<Rightarrow> (relay_state_param \<times> logout_request \<times> odt option) res" where
  "receive_slo_request E clk setting local_metadata peer_metadata input v =
     rbind (metadata_validate_at E local_metadata (vc_now v)) (\<lambda>_.
     rbind (relay_state_from_input E input) (\<lambda>relay_state.
     rbind (Browser.logout_try_from (input_binding input)) (\<lambda>b.
     rbind (http_request_for E LogoutRequest input) (\<lambda>request.
     rbind (parse_logout_request_at E clk setting peer_metadata (logout_as_binding b) request (vc_now v)
              (as_millis (vc_clock_skew v))) (\<lambda>fr.
     rbind (now_offset E v) (\<lambda>now.
     rbind (logout_request_not_on_or_after_deadline E (fr_extract fr) now (not_on_or_after_ms (vc_clock_skew v))) (\<lambda>deadline.
     rbind (logout_request_try_from E fr) (\<lambda>logout.
     rbind (ensure_logout_destination local_metadata b (lq_destination logout)) (\<lambda>_.
       Inr (relay_state, logout, deadline))))))))))"

definition receive_slo_impl :: "('k, 'e) flow_ext_scheme \<Rightarrow> clock \<Rightarrow> 'c check_and_store \<Rightarrow> entity_setting \<Rightarrow> metadata \<Rightarrow>
    metadata \<Rightarrow> browser_input \<Rightarrow> 'c validation_context \<Rightarrow> 'c validation_context \<times> logout_request received res" where
  "receive_slo_impl E clk cas setting local_metadata peer_metadata input v =
     (case receive_slo_request E clk setting local_metadata peer_metadata input v of
        Inl e \<Rightarrow> (v, Inl e)
      | Inr (relay_state, logout, deadline) \<Rightarrow>
          (case check_and_store_message_replay_until cas v (LogoutRequestId (lq_id logout)) deadline of
             (v1, Inl e) \<Rightarrow> (v1, Inl e)
           | (v1, Inr _) \<Rightarrow> (v1, Inr (received_with_relay_state relay_state (received_new logout)))))"

definition respond_slo_impl :: "('k, 'e) url_ext_scheme \<Rightarrow> issue_env \<Rightarrow> entity_setting \<Rightarrow> metadata \<Rightarrow> metadata \<Rightarrow>
    logout_request received \<Rightarrow> respond_slo_options \<Rightarrow> outbound res" where
  "respond_slo_impl E env setting local_metadata peer_metadata request opts =
     (let relay_state = unwrap_or (rl_relay_state opts) (rc_relay_state request) in
      rbind (relay_param_validate relay_state) (\<lambda>_.
      rbind (create_logout_response E env setting local_metadata peer_metadata (logout_as_binding (rl_binding opts))
               (Some (message_id_str (lq_id (rc_message request)))) (relay_param_as_deref relay_state) True) (\<lambda>context.
        outbound_try_from E LogoutResponse context)))"

definition finish_slo_response :: "('k, 'e) flow_ext_scheme \<Rightarrow> clock \<Rightarrow> entity_setting \<Rightarrow> metadata \<Rightarrow> entity_id \<Rightarrow>
    metadata \<Rightarrow> pending_logout_request \<Rightarrow> browser_input \<Rightarrow> 'c validation_context \<Rightarrow> logout_response res" where
  "finish_slo_response E clk setting local_metadata peer peer_metadata pending input v =
     rbind (metadata_validate_at E local_metadata (vc_now v)) (\<lambda>_.
     rbind (pending_validate_at E pending (vc_now v)) (\<lambda>_.
     rbind (rbind (completion_deadline E pending) (require_pending_expiration v)) (\<lambda>_.
     rbind (ensure_entity_id (pe_peer_entity_id pending) peer) (\<lambda>_.
     rbind (ensure_logout_response_binding (input_binding input) (pd_binding (pe_details pending))) (\<lambda>_.
     rbind (rbind (relay_state_from_input E input) (ensure_relay_state (pe_relay_state pending))) (\<lambda>_.
     rbind (http_request_for E LogoutResponse input) (\<lambda>request.
     rbind (parse_logout_response_at E clk setting peer_metadata (logout_as_binding (pd_binding (pe_details pending)))
              request (message_id_str (pe_id pending)) (vc_now v) (as_millis (vc_clock_skew v))) (\<lambda>fr.
     rbind (logout_response_try_from E fr) (\<lambda>response.
     rbind (ensure_logout_destination local_metadata (pd_binding (pe_details pending)) (lr_destination response)) (\<lambda>_.
       Inr response))))))))))"

definition finish_slo_impl :: "('k, 'e) flow_ext_scheme \<Rightarrow> clock \<Rightarrow> 'c check_and_store \<Rightarrow> entity_setting \<Rightarrow> metadata \<Rightarrow>
    entity_id \<Rightarrow> metadata \<Rightarrow> pending_logout_request \<Rightarrow> browser_input \<Rightarrow> 'c validation_context \<Rightarrow>
    'c validation_context \<times> logout_completed res" where
  "finish_slo_impl E clk cas setting local_metadata peer peer_metadata pending input v =
     (case finish_slo_response E clk setting local_metadata peer peer_metadata pending input v of
        Inl e \<Rightarrow> (v, Inl e)
      | Inr response \<Rightarrow>
          (case check_and_store_message_replay cas v (LogoutResponseId (Sso.lr_id response)) of
             (v1, Inl e) \<Rightarrow> (v1, Inl e)
           | (v1, Inr _) \<Rightarrow>
               (case completion_deadline E pending of
                  Inl e \<Rightarrow> (v1, Inl e)
                | Inr deadline \<Rightarrow>
                    (case check_and_store_message_replay_until cas v1 (CompletedLogoutRequestId (pe_id pending)) deadline of
                       (v2, Inl e) \<Rightarrow> (v2, Inl e)
                     | (v2, Inr _) \<Rightarrow> (v2, Inr (logout_completed_from_response peer response))))))"

definition sp_receive_slo :: "('k, 'e) flow_ext_scheme \<Rightarrow> clock \<Rightarrow> 'c check_and_store \<Rightarrow> saml_sp \<Rightarrow> idp_descriptor \<Rightarrow>
    browser_input \<Rightarrow> 'c validation_context \<Rightarrow> 'c validation_context \<times> logout_request received res" where
  "sp_receive_slo E clk cas sp idp input v =
     (case raw_idp_descriptor E idp of
        Inl e \<Rightarrow> (v, Inl e)
      | Inr raw_idp \<Rightarrow>
          receive_slo_impl E clk cas (spr_setting sp) (sp_inner (spr_metadata sp)) (idp_inner (idr_metadata raw_idp)) input v)"

definition sp_respond_slo :: "('k, 'e) url_ext_scheme \<Rightarrow> issue_env \<Rightarrow> saml_sp \<Rightarrow> idp_descriptor \<Rightarrow>
    logout_request received \<Rightarrow> respond_slo_options \<Rightarrow> outbound res" where
  "sp_respond_slo E env sp idp request opts =
     rbind (raw_idp_descriptor E idp) (\<lambda>raw_idp.
       respond_slo_impl E env (spr_setting sp) (sp_inner (spr_metadata sp)) (idp_inner (idr_metadata raw_idp)) request opts)"

definition sp_finish_slo :: "('k, 'e) flow_ext_scheme \<Rightarrow> clock \<Rightarrow> 'c check_and_store \<Rightarrow> saml_sp \<Rightarrow> idp_descriptor \<Rightarrow>
    pending_logout_request \<Rightarrow> browser_input \<Rightarrow> 'c validation_context \<Rightarrow> 'c validation_context \<times> logout_completed res" where
  "sp_finish_slo E clk cas sp idp pending input v =
     (case raw_idp_descriptor E idp of
        Inl e \<Rightarrow> (v, Inl e)
      | Inr raw_idp \<Rightarrow>
          finish_slo_impl E clk cas (spr_setting sp) (sp_inner (spr_metadata sp)) (pd_entity_id idp)
            (idp_inner (idr_metadata raw_idp)) pending input v)"

definition idp_receive_slo :: "('k, 'e) flow_ext_scheme \<Rightarrow> clock \<Rightarrow> 'c check_and_store \<Rightarrow> saml_idp \<Rightarrow> sp_descriptor \<Rightarrow>
    browser_input \<Rightarrow> 'c validation_context \<Rightarrow> 'c validation_context \<times> logout_request received res" where
  "idp_receive_slo E clk cas idp sp input v =
     (case raw_sp_descriptor E sp of
        Inl e \<Rightarrow> (v, Inl e)
      | Inr raw_sp \<Rightarrow>
          receive_slo_impl E clk cas (idr_setting (sf_identity_provider idp))
            (idp_inner (idr_metadata (sf_identity_provider idp))) (sp_inner (spr_metadata raw_sp)) input v)"

definition idp_respond_slo :: "('k, 'e) url_ext_scheme \<Rightarrow> issue_env \<Rightarrow> saml_idp \<Rightarrow> sp_descriptor \<Rightarrow>
    logout_request received \<Rightarrow> respond_slo_options \<Rightarrow> outbound res" where
  "idp_respond_slo E env idp sp request opts =
     rbind (raw_sp_descriptor E sp) (\<lambda>raw_sp.
       respond_slo_impl E env (idr_setting (sf_identity_provider idp))
         (idp_inner (idr_metadata (sf_identity_provider idp))) (sp_inner (spr_metadata raw_sp)) request opts)"

definition idp_finish_slo :: "('k, 'e) flow_ext_scheme \<Rightarrow> clock \<Rightarrow> 'c check_and_store \<Rightarrow> saml_idp \<Rightarrow> sp_descriptor \<Rightarrow>
    pending_logout_request \<Rightarrow> browser_input \<Rightarrow> 'c validation_context \<Rightarrow> 'c validation_context \<times> logout_completed res" where
  "idp_finish_slo E clk cas idp sp pending input v =
     (case raw_sp_descriptor E sp of
        Inl e \<Rightarrow> (v, Inl e)
      | Inr raw_sp \<Rightarrow>
          finish_slo_impl E clk cas (idr_setting (sf_identity_provider idp))
            (idp_inner (idr_metadata (sf_identity_provider idp))) (pd_entity_id sp) (sp_inner (spr_metadata raw_sp))
            pending input v)"

end
