(* ===== verification/Outbound_Shape.thy ===== *)
theory Outbound_Shape
  imports Outbound_Check
begin

text \<open>
  What the checks of \<open>Outbound_Check\<close> guarantee. Both validators are stack machines over the events of the
  text; a locale states what they share, and gives once and for all the children of the root of an
  accepted document. The two interpretations give the shape of the logout messages the library sends.
\<close>

section \<open>Machines over the elements of a document\<close>

fun is_tag :: "out_event \<Rightarrow> bool" where
  "is_tag (OeStart l as) = True"
| "is_tag (OeEmpty l as) = True"
| "is_tag OeEnd = True"
| "is_tag e = False"

text \<open>
  The runs of a machine: \<open>start\<close> sees the name, attributes and namespace of an element, the open elements
  and the state; \<open>finish\<close> sees the element that ends.
\<close>

inductive machine ::
  "(string \<Rightarrow> ns_attr list \<Rightarrow> namespace_kind \<Rightarrow> 'e list \<Rightarrow> 's \<Rightarrow> ('e \<times> 'e list \<times> 's) res) \<Rightarrow> ('e \<Rightarrow> 's \<Rightarrow> unit res) \<Rightarrow>
     'e list \<Rightarrow> 's \<Rightarrow> out_step list \<Rightarrow> 's \<Rightarrow> bool"
  for start finish where
  m_nil: "machine start finish stack s [] s"
| m_start: "start l as (classify_namespace r) stack s = Inr (e, stack', s') \<Longrightarrow>
     machine start finish (e # stack') s' steps t \<Longrightarrow> machine start finish stack s (OeEvent r (OeStart l as) # steps) t"
| m_empty: "start l as (classify_namespace r) stack s = Inr (e, stack', s') \<Longrightarrow> finish e s' = Inr () \<Longrightarrow>
     machine start finish stack' s' steps t \<Longrightarrow> machine start finish stack s (OeEvent r (OeEmpty l as) # steps) t"
| m_end: "finish e s = Inr () \<Longrightarrow> machine start finish rest s steps t \<Longrightarrow>
     machine start finish (e # rest) s (OeEvent r OeEnd # steps) t"
| m_other: "\<not> is_tag ev \<Longrightarrow> machine start finish stack s steps t \<Longrightarrow> machine start finish stack s (OeEvent r ev # steps) t"

lemma root_children_other: "\<not> is_tag ev \<Longrightarrow> root_children d (OeEvent r ev # steps) = root_children d steps"
  "\<not> is_tag ev \<Longrightarrow> out_names (OeEvent r ev # steps) = out_names steps"
  "\<not> is_tag ev \<Longrightarrow> first_element (OeEvent r ev # steps) = first_element steps"
  by (cases ev; simp)+

text \<open>Reading a list by a partial transition function.\<close>

fun run :: "('g \<Rightarrow> 'c \<Rightarrow> 'g option) \<Rightarrow> 'g \<Rightarrow> 'c list \<Rightarrow> 'g option" where
  "run step g [] = Some g"
| "run step g (c # cs) = (case step g c of Some g' \<Rightarrow> run step g' cs | None \<Rightarrow> None)"

text \<open>No element starts at depth 0.\<close>

fun no_top :: "nat \<Rightarrow> string option list \<Rightarrow> bool" where
  "no_top d [] = True"
| "no_top d (Some n # ts) = (d \<noteq> 0 \<and> no_top (Suc d) ts)"
| "no_top d (None # ts) = no_top (d - 1) ts"

lemma no_top_nodes:
  "no_top (Suc d) (map tok_name (node_toks n) @ ts) = no_top (Suc d) ts"
proof (induction n arbitrary: d ts)
  case (Node nm ats cs tx s e)
  have "no_top (Suc d) (map tok_name (concat (map node_toks cs)) @ ts) = no_top (Suc d) ts" for d ts
    using Node
  proof (induction cs arbitrary: ts)
    case (Cons c cs)
    then show ?case using Cons.prems [of c d] by simp
  qed simp
  then show ?case by simp
qed

lemma tree_no_top: "\<exists>ts. map tok_name (node_toks n) = Some (local_name n) # ts \<and> no_top 1 ts"
proof (cases n)
  case (Node nm ats cs tx s e)
  have "no_top (Suc 0) (map tok_name (concat (map node_toks cs)) @ [None]) = no_top (Suc 0) [None]"
    by (induction cs) (simp_all add: no_top_nodes [of 0, simplified])
  then show ?thesis using Node by simp
qed

text \<open>
  The contract of a machine: only the outermost element is \<open>root\<close>; the state's \<open>core\<close> changes only at the
  children of the root, by \<open>child\<close>; its \<open>top\<close> only at the root; and the root ends in a \<open>closing\<close> core.
\<close>

locale document_machine =
  fixes start :: "string \<Rightarrow> ns_attr list \<Rightarrow> namespace_kind \<Rightarrow> 'e list \<Rightarrow> 's \<Rightarrow> ('e \<times> 'e list \<times> 's) res"
    and finish :: "'e \<Rightarrow> 's \<Rightarrow> unit res" and root :: 'e and core :: "'s \<Rightarrow> 'g" and outer :: "'s \<Rightarrow> 'x"
    and child :: "'g \<Rightarrow> string \<times> namespace_kind \<Rightarrow> 'g option" and closing :: "'g \<Rightarrow> bool"
  assumes start_top: "start l as ns [] s = Inr (e, stack', s') \<Longrightarrow> e = root \<and> stack' = [] \<and> core s' = core s"
    and start_child: "start l as ns (root # rest) s = Inr (e, stack', s') \<Longrightarrow>
      e \<noteq> root \<and> stack' = root # rest \<and> child (core s) (l, ns) = Some (core s') \<and> outer s' = outer s"
    and start_inner: "p \<noteq> root \<Longrightarrow> start l as ns (p # rest) s = Inr (e, stack', s') \<Longrightarrow>
      e \<noteq> root \<and> (\<exists>p'. p' \<noteq> root \<and> stack' = p' # rest) \<and> core s' = core s \<and> outer s' = outer s"
    and finish_root: "finish root s = Inr () \<Longrightarrow> closing (core s)"
    and closing_child: "closing g \<Longrightarrow> child g c = Some g' \<Longrightarrow> closing g'"
begin

definition nested :: "'e list \<Rightarrow> bool" where
  "nested stack \<longleftrightarrow> stack = [] \<or> (last stack = root \<and> root \<notin> set (butlast stack))"

lemma nested_simps:
  "nested []" "nested [root]" "nested (root # stack) \<longleftrightarrow> stack = []"
  "e \<noteq> root \<Longrightarrow> nested (e # stack) \<longleftrightarrow> stack \<noteq> [] \<and> nested stack"
  by (auto simp: nested_def)

lemma start_nested:
  assumes "start l as ns stack s = Inr (e, stack', s')" "nested stack"
  shows "nested (e # stack')" "nested stack'" "length stack' = length stack"
    "stack = [] \<Longrightarrow> e = root \<and> core s' = core s"
    "stack = [root] \<Longrightarrow> child (core s) (l, ns) = Some (core s')"
    "stack \<noteq> [] \<Longrightarrow> stack \<noteq> [root] \<Longrightarrow> core s' = core s" "stack \<noteq> [] \<Longrightarrow> outer s' = outer s"
    "length stack = 1 \<longleftrightarrow> stack = [root]"
proof -
  consider "stack = []" | "stack = [root]" | p rest where "stack = p # rest" "p \<noteq> root" "rest \<noteq> []" "nested rest"
    using assms(2) by (cases stack) (auto simp: nested_def split: if_splits)
  then have "nested (e # stack') \<and> nested stack' \<and> length stack' = length stack
      \<and> (stack = [] \<longrightarrow> e = root \<and> core s' = core s) \<and> (stack = [root] \<longrightarrow> child (core s) (l, ns) = Some (core s'))
      \<and> (stack \<noteq> [] \<longrightarrow> stack \<noteq> [root] \<longrightarrow> core s' = core s) \<and> (stack \<noteq> [] \<longrightarrow> outer s' = outer s)
      \<and> (length stack = 1 \<longleftrightarrow> stack = [root])"
  proof cases
    case 1
    with start_top assms(1) have "e = root" "stack' = []" "core s' = core s" by auto
    then show ?thesis using 1 by (simp add: nested_simps)
  next
    case 2
    with start_child assms(1) have "e \<noteq> root" "stack' = [root]" "child (core s) (l, ns) = Some (core s')" "outer s' = outer s"
      by auto
    then show ?thesis using 2 by (simp add: nested_simps)
  next
    case 3
    from start_inner [OF 3(2) assms(1) [unfolded 3(1)]] obtain p' where
      p: "e \<noteq> root" "p' \<noteq> root" "stack' = p' # rest" "core s' = core s" "outer s' = outer s" by blast
    then show ?thesis using 3 by (simp add: nested_simps)
  qed
  then show "nested (e # stack')" "nested stack'" "length stack' = length stack"
    "stack = [] \<Longrightarrow> e = root \<and> core s' = core s"
    "stack = [root] \<Longrightarrow> child (core s) (l, ns) = Some (core s')"
    "stack \<noteq> [] \<Longrightarrow> stack \<noteq> [root] \<Longrightarrow> core s' = core s" "stack \<noteq> [] \<Longrightarrow> outer s' = outer s"
    "length stack = 1 \<longleftrightarrow> stack = [root]"
    by blast+
qed

lemma nested_rest: "nested (e # rest) \<Longrightarrow> nested rest"
  by (auto simp: nested_def split: if_splits)

lemma run_children:
  "machine start finish stack s steps t \<Longrightarrow> nested stack \<Longrightarrow>
     run child (core s) (root_children (length stack) steps) = Some (core t)"
proof (induction rule: machine.induct)
  case (m_start l as r stack s e stack' s' steps t)
  note n = start_nested [OF m_start.hyps(1) m_start.prems]
  show ?case
    using m_start.IH [OF n(1)] n by (cases "stack = []"; cases "stack = [root]") (auto simp: n(8))
next
  case (m_empty l as r stack s e stack' s' steps t)
  note n = start_nested [OF m_empty.hyps(1) m_empty.prems]
  show ?case
    using m_empty.IH [OF n(2)] n by (cases "stack = []"; cases "stack = [root]") (auto simp: n(8))
next
  case (m_end e s rest steps t r)
  then show ?case using nested_rest by simp
qed (simp_all add: root_children_other)

lemma run_closed:
  "machine start finish stack s steps t \<Longrightarrow> nested stack \<Longrightarrow> name_depth (length stack) (out_names steps) = 0 \<Longrightarrow>
     stack \<noteq> [] \<or> closing (core s) \<or> out_names steps \<noteq> [] \<Longrightarrow> closing (core t)"
proof (induction rule: machine.induct)
  case (m_start l as r stack s e stack' s' steps t)
  note n = start_nested [OF m_start.hyps(1) m_start.prems(1)]
  show ?case using m_start.IH [OF n(1)] m_start.prems(2) n(3) by simp
next
  case (m_empty l as r stack s e stack' s' steps t)
  note n = start_nested [OF m_empty.hyps(1) m_empty.prems(1)]
  have "stack' = [] \<Longrightarrow> closing (core s')" using finish_root [of s'] m_empty.hyps(2) n(3,4) by auto
  then show ?case using m_empty.IH [OF n(2)] m_empty.prems(2) n(3) by auto
next
  case (m_end e s rest steps t r)
  have "rest = [] \<Longrightarrow> closing (core s)" using finish_root m_end.hyps(1) m_end.prems(1) by (auto simp: nested_def)
  then show ?case using m_end.IH [OF nested_rest [OF m_end.prems(1)]] m_end.prems(2) by auto
qed (auto simp: root_children_other)

lemma run_outer:
  "machine start finish stack s steps t \<Longrightarrow> nested stack \<Longrightarrow> no_top (length stack) (out_names steps) \<Longrightarrow> outer t = outer s"
proof (induction rule: machine.induct)
  case (m_start l as r stack s e stack' s' steps t)
  note n = start_nested [OF m_start.hyps(1) m_start.prems(1)]
  show ?case using m_start.IH [OF n(1)] m_start.prems(2) n(3,7) by auto
next
  case (m_empty l as r stack s e stack' s' steps t)
  note n = start_nested [OF m_empty.hyps(1) m_empty.prems(1)]
  show ?case using m_empty.IH [OF n(2)] m_empty.prems(2) n(3,7) by auto
next
  case (m_end e s rest steps t r)
  then show ?case using nested_rest by simp
qed (simp_all add: root_children_other)

lemma run_first:
  "machine start finish stack s steps t \<Longrightarrow> stack = [] \<Longrightarrow> out_names steps = Some n # ts \<Longrightarrow> no_top 1 ts \<Longrightarrow>
     \<exists>ns as s'. first_element steps = Some (n, ns, as) \<and> start n as ns [] s = Inr (root, [], s') \<and> outer t = outer s'"
proof (induction rule: machine.induct)
  case (m_start l as r stack s e stack' s' steps t)
  then have "e = root" "stack' = []" using start_top by auto
  with m_start run_outer [OF m_start.hyps(2)] show ?case by (auto simp: nested_simps)
next
  case (m_empty l as r stack s e stack' s' steps t)
  then have "e = root" "stack' = []" using start_top by auto
  with m_empty run_outer [OF m_empty.hyps(3)] show ?case by (auto simp: nested_simps)
qed (auto simp: root_children_other)

text \<open>An accepted document: its root, what the machine saw of the root, and the children of the root.\<close>

lemma accepted_document:
  assumes "machine start finish [] s (out_read E xml) t" "parse_with_limits E xml L = Inr r" "readers_agree E xml"
  shows "\<exists>ns as s'. first_element (out_read E xml) = Some (local_name r, ns, as)
       \<and> start (local_name r) as ns [] s = Inr (root, [], s') \<and> outer t = outer s'"
    "run child (core s) (root_children 0 (out_read E xml)) = Some (core t)" "closing (core t)"
    "map local_name (children r) = map fst (root_children 0 (out_read E xml))"
proof -
  have n: "map tok_name (node_toks r) = out_names (out_read E xml)"
    using parse_toks_eq assms(2,3) unfolding readers_agree_def by fastforce
  obtain ts where ts: "out_names (out_read E xml) = Some (local_name r) # ts" "no_top 1 ts"
    using tree_no_top [of r] n by auto
  show "\<exists>ns as s'. first_element (out_read E xml) = Some (local_name r, ns, as)
       \<and> start (local_name r) as ns [] s = Inr (root, [], s') \<and> outer t = outer s'"
    by (rule run_first [OF assms(1) _ ts]) simp
  show "run child (core s) (root_children 0 (out_read E xml)) = Some (core t)"
    using run_children [OF assms(1)] by (simp add: nested_simps)
  show "closing (core t)"
    using run_closed [OF assms(1)] agreed_children(3) [OF assms(2,3)] ts(1) by (simp add: nested_simps)
  show "map local_name (children r) = map fst (root_children 0 (out_read E xml))"
    by (rule agreed_children(1) [OF assms(2,3)])
qed

end

section \<open>LogoutResponses\<close>

text \<open>The children of a LogoutResponse, read one by one; \<open>allowed\<close> permits a root signature.\<close>

definition response_child :: "bool \<Rightarrow> root_stage \<times> bool \<Rightarrow> string \<times> namespace_kind \<Rightarrow> (root_stage \<times> bool) option" where
  "response_child allowed g c =
     (case g of (stage, saw) \<Rightarrow>
        if c = (''Issuer'', NkAssertion) \<and> stage = ExpectIssuer then Some (AfterIssuer, saw)
        else if c = (''Signature'', NkDsig) \<and> stage = AfterIssuer \<and> allowed then Some (AfterSignature, True)
        else if c = (''Extensions'', NkProtocol) \<and> stage \<in> {AfterIssuer, AfterSignature} then Some (AfterExtensions, saw)
        else if c = (''Status'', NkProtocol) \<and> stage \<in> {AfterIssuer, AfterSignature, AfterExtensions}
        then Some (AfterStatus, saw)
        else None)"

lemma response_runs_done: "run (response_child allowed) (AfterStatus, saw) cs = Some g \<Longrightarrow> cs = [] \<and> g = (AfterStatus, saw)"
  by (cases cs) (auto simp: response_child_def)

lemma response_runs_extensions:
  "run (response_child allowed) (AfterExtensions, saw) cs = Some (AfterStatus, v) \<Longrightarrow> cs = [(''Status'', NkProtocol)] \<and> v = saw"
  by (cases cs) (auto simp: response_child_def dest: response_runs_done split: if_splits)

lemma response_runs_signature:
  "run (response_child allowed) (AfterSignature, saw) cs = Some (AfterStatus, v) \<Longrightarrow>
     v = saw \<and> (\<exists>ext. cs = ext @ [(''Status'', NkProtocol)] \<and> ext \<in> {[], [(''Extensions'', NkProtocol)]})"
  by (cases cs) (auto simp: response_child_def dest: response_runs_done response_runs_extensions split: if_splits)

lemma response_runs_issuer:
  "run (response_child allowed) (AfterIssuer, False) cs = Some (AfterStatus, v) \<Longrightarrow>
     (v \<longrightarrow> allowed) \<and> (\<exists>ext. cs = (if v then [(''Signature'', NkDsig)] else []) @ ext @ [(''Status'', NkProtocol)]
       \<and> ext \<in> {[], [(''Extensions'', NkProtocol)]})"
  by (cases cs) (auto simp: response_child_def split: if_splits
      dest!: response_runs_done response_runs_extensions response_runs_signature)

lemma response_run_language:
  assumes "run (response_child allowed) (ExpectIssuer, False) cs = Some (AfterStatus, v)"
  shows "v \<longrightarrow> allowed"
    "\<exists>ext. cs = (''Issuer'', NkAssertion) # (if v then [(''Signature'', NkDsig)] else []) @ ext @ [(''Status'', NkProtocol)]
       \<and> ext \<in> {[], [(''Extensions'', NkProtocol)]}"
  using assms response_runs_issuer [of allowed "tl cs" v]
  by (cases cs; auto simp: response_child_def split: if_splits)+

abbreviation "response_start E ex \<equiv> \<lambda>l as ns stack st. validate_outbound_logout_start E l as ns stack ex st"

lemma response_machine:
  "outbound_logout_loop E ex stack st steps = Inr t \<Longrightarrow>
     machine (response_start E ex) finish_outbound_logout_element stack st steps t"
proof (induction E ex stack st steps rule: outbound_logout_loop.induct)
  case (3 E ex stack st r l as steps)
  then show ?case by (fastforce simp: rbind_Inr_iff intro: m_start)
next
  case (4 E ex stack st r l as steps)
  then show ?case by (fastforce simp: rbind_Inr_iff intro: m_empty)
next
  case (5 E ex stack st r steps)
  then show ?case by (auto simp: rbind_Inr_iff split: list.splits intro!: m_end)
qed (auto simp: rbind_Inr_iff intro!: m_nil m_other)

lemma finish_OlRoot: "finish_outbound_logout_element OlRoot s = Inr () \<Longrightarrow> ol_root_stage s = AfterStatus"
  by (simp add: finish_outbound_logout_element_def split: if_splits)

lemma response_root_child:
  "validate_outbound_root_child l as ns ex s = Inr (e, s') \<Longrightarrow>
     e \<noteq> OlRoot \<and> ol_destination s' = ol_destination s
     \<and> response_child (root_signature_allowed (oe_validation ex)) (ol_root_stage s, ol_saw_signature s) (l, ns)
         = Some (ol_root_stage s', ol_saw_signature s')"
  by (auto simp: validate_outbound_root_child_def Let_def rbind_Inr_iff response_child_def split: if_splits)

interpretation response: document_machine "response_start E ex" finish_outbound_logout_element OlRoot
    "\<lambda>s. (ol_root_stage s, ol_saw_signature s)" ol_destination "response_child (root_signature_allowed (oe_validation ex))"
    "\<lambda>g. fst g = AfterStatus" for E ex
proof
  show "validate_outbound_logout_start E l as ns [] ex s = Inr (e, stack', s') \<Longrightarrow>
      e = OlRoot \<and> stack' = [] \<and> (ol_root_stage s', ol_saw_signature s') = (ol_root_stage s, ol_saw_signature s)"
    for l as ns s e stack' s'
    by (auto simp: validate_outbound_logout_start_def validate_outbound_logout_root_def Let_def rbind_Inr_iff
        split: if_splits)
  show "validate_outbound_logout_start E l as ns (OlRoot # rest) ex s = Inr (e, stack', s') \<Longrightarrow>
      e \<noteq> OlRoot \<and> stack' = OlRoot # rest
      \<and> response_child (root_signature_allowed (oe_validation ex)) (ol_root_stage s, ol_saw_signature s) (l, ns)
          = Some (ol_root_stage s', ol_saw_signature s') \<and> ol_destination s' = ol_destination s"
    for l as ns rest s e stack' s'
    by (auto simp: validate_outbound_logout_start_def rbind_Inr_iff dest: response_root_child)
  show "p \<noteq> OlRoot \<Longrightarrow> validate_outbound_logout_start E l as ns (p # rest) ex s = Inr (e, stack', s') \<Longrightarrow>
      e \<noteq> OlRoot \<and> (\<exists>p'. p' \<noteq> OlRoot \<and> stack' = p' # rest)
      \<and> (ol_root_stage s', ol_saw_signature s') = (ol_root_stage s, ol_saw_signature s) \<and> ol_destination s' = ol_destination s"
    for p l as ns rest s e stack' s'
    by (cases p) (auto simp: validate_outbound_logout_start_def validate_outbound_status_child_def Let_def rbind_Inr_iff
        split: if_splits)
  show "finish_outbound_logout_element OlRoot s = Inr () \<Longrightarrow> fst (ol_root_stage s, ol_saw_signature s) = AfterStatus" for s
    using finish_OlRoot by simp
  show "fst g = AfterStatus \<Longrightarrow> response_child (root_signature_allowed (oe_validation ex)) g c = Some g' \<Longrightarrow>
      fst g' = AfterStatus" for g c g'
    by (auto simp: response_child_def split: prod.splits if_splits)
qed

lemma attribute_value_unqualified:
  assumes "validate_closed_unqualified_attributes label as consumed required = Inr vals" "name \<in> set consumed"
  shows "attribute_value vals name = map_of (unqualified as) name"
  using profile_validate_attributes_Inr(1) [OF assms(1) [unfolded validate_closed_unqualified_attributes_def]] assms(2)
  by (simp add: attribute_value_def map_of_filter_in)

lemma response_root_attributes:
  assumes "validate_outbound_logout_root E l as ns ex s = Inr s'"
  shows "l = ''LogoutResponse''" "ns = NkProtocol" "map_of (unqualified as) ''ID'' = Some (oe_id ex)"
    "map_of (unqualified as) ''InResponseTo'' = oe_in_response_to ex"
    "map_of (unqualified as) ''Version'' = Some ''2.0''"
    "ol_destination s' = map_of (unqualified as) ''Destination''"
    "ol_destination s' \<in> {None, Some (oe_destination ex)}"
proof -
  let ?c = "[''ID'', ''InResponseTo'', ''Version'', ''IssueInstant'', ''Destination'', ''Consent'']"
  from assms obtain vals where v: "validate_closed_unqualified_attributes l as ?c [''ID'', ''Version'', ''IssueInstant''] = Inr vals"
    and r: "l = ''LogoutResponse''" "ns = NkProtocol" "require_version_2 vals l = Inr ()"
      "attribute_value vals ''ID'' = Some (oe_id ex)" "ol_destination s' = attribute_value vals ''Destination''"
      "ol_destination s' \<in> {None, Some (oe_destination ex)}" "attribute_value vals ''InResponseTo'' = oe_in_response_to ex"
    by (auto simp: validate_outbound_logout_root_def Let_def rbind_Inr_iff ok_or_Inr_iff split: if_splits option.splits)
  note a = attribute_value_unqualified [OF v]
  show "l = ''LogoutResponse''" "ns = NkProtocol" "ol_destination s' \<in> {None, Some (oe_destination ex)}" by (fact r)+
  show "map_of (unqualified as) ''ID'' = Some (oe_id ex)" "map_of (unqualified as) ''InResponseTo'' = oe_in_response_to ex"
    "ol_destination s' = map_of (unqualified as) ''Destination''"
    using r(4,5,7) by (simp_all add: a)
  show "map_of (unqualified as) ''Version'' = Some ''2.0''"
    using r(3) a [of "''Version''"] by (simp add: require_version_2_def attribute_value_def split: if_splits)
qed

text \<open>
  C13: a LogoutResponse that passes the check before it leaves the library is a protocol LogoutResponse, version
  2.0, with the identifier, InResponseTo and Destination the caller asked for (the Destination is there
  whenever the message is signed); its children are the Issuer, the library's own Signature exactly
  when it was signed for POST, optional Extensions and one final Status, in the SAML namespaces, and
  the Issuer is the local entity. No template can add, drop, move or disguise an element.
\<close>

theorem logout_response_shape:
  assumes "validate_logout_response_outbound E xml ident dest issuer irt v = Inr r" "readers_agree E xml"
  shows "\<exists>as ext. first_element (out_read E xml) = Some (''LogoutResponse'', NkProtocol, as)
     \<and> map_of (unqualified as) ''ID'' = Some ident \<and> map_of (unqualified as) ''InResponseTo'' = irt
     \<and> map_of (unqualified as) ''Version'' = Some ''2.0''
     \<and> map_of (unqualified as) ''Destination'' \<in> (if v = BeforeSigning False then {None, Some dest} else {Some dest})
     \<and> root_children 0 (out_read E xml) =
         (''Issuer'', NkAssertion) # (if v = AfterPostSigning then [(''Signature'', NkDsig)] else [])
           @ ext @ [(''Status'', NkProtocol)]
     \<and> ext \<in> {[], [(''Extensions'', NkProtocol)]}
     \<and> local_name r = ''LogoutResponse'' \<and> map local_name (children r) = map fst (root_children 0 (out_read E xml))
     \<and> node_text (hd (children r)) = issuer"
proof -
  define ex where "ex = \<lparr>oe_id = ident, oe_destination = dest, oe_issuer = issuer, oe_in_response_to = irt, oe_validation = v\<rparr>"
  from assms(1) obtain r' t where p': "parse_with_limits E xml xml_limits_unbounded = Inr r'"
    and l: "outbound_logout_loop E ex [] ol_state_default (out_read E xml) = Inr t"
    and c: "(case children r' of
       [] \<Rightarrow> Inl (ProtocolProfile ''LogoutResponse must contain an Issuer before all other children'')
     | i # _ \<Rightarrow>
         if node_text i = []
         then Inl (ProtocolProfile ''LogoutResponse Issuer must identify the responding entity'')
         else if \<not> is_entity_identifier E (node_text i)
         then Inl (ProtocolProfile (''entity-format LogoutResponse Issuer must be an absolute URI no longer than ''
                @ ''1024 characters''))
         else if node_text i \<noteq> issuer then Inl (IssuerMismatch issuer (Some (node_text i)))
         else if (destination_required v \<or> ol_saw_signature t) \<and> ol_destination t = None
         then Inl (DestinationMismatch dest None)
         else if root_signature_required v \<and> \<not> ol_saw_signature t
         then Inl (ProtocolProfile ''signed POST LogoutResponse must contain a root ds:Signature in schema order'')
         else Inr r') = Inr r"
    unfolding validate_logout_response_outbound_def ex_def [symmetric] validate_outbound_logout_stream_def
      rbind_Inr_iff by blast
  from c have "r' = r" and k: "node_text (hd (children r)) = issuer \<and> (destination_required v \<or> ol_saw_signature t \<longrightarrow> ol_destination t \<noteq> None)
      \<and> (root_signature_required v \<longrightarrow> ol_saw_signature t)"
    by (cases "children r'"; auto split: if_split_asm)+
  with p' have p: "parse_with_limits E xml xml_limits_unbounded = Inr r" by simp
  note d = response.accepted_document [OF response_machine [OF l] p assms(2)]
  from d(1) obtain as ns s' where f: "first_element (out_read E xml) = Some (local_name r, ns, as)"
    "validate_outbound_logout_root E (local_name r) as ns ex ol_state_default = Inr s'" "ol_destination t = ol_destination s'"
    by (auto simp: validate_outbound_logout_start_def rbind_Inr_iff)
  note a = response_root_attributes [OF f(2)]
  from d(2,3) have "run (response_child (root_signature_allowed v)) (ExpectIssuer, False) (root_children 0 (out_read E xml))
      = Some (AfterStatus, ol_saw_signature t)"
    by (simp add: ex_def ol_state_default_def)
  note g = response_run_language [OF this]
  have sig: "ol_saw_signature t \<longleftrightarrow> v = AfterPostSigning"
    using k g(1) by (auto simp: root_signature_required_def root_signature_allowed_def)
  have dst: "map_of (unqualified as) ''Destination'' \<in> (if v = BeforeSigning False then {None, Some dest} else {Some dest})"
    using a(6,7) k f(3) by (cases v) (auto simp: ex_def)
  from g(2) sig a f(1) dst k d(4) show ?thesis
    by (auto simp: ex_def)
qed

section \<open>A sample LogoutResponse\<close>

definition slo_text :: string where "slo_text = ''<Q><I>idp</I><S><C/></S></Q>''"

definition slo_steps :: "xml_step list" where
  "slo_steps =
     [XEvent 0 3 (EvStart ''LogoutResponse'' [AttrItem ''xmlns:samlp'' (Inr NS_PROTOCOL) True,
        AttrItem ''xmlns:saml'' (Inr NS_ASSERTION) True, AttrItem ''ID'' (Inr ''_3'') False, AttrItem ''Version'' (Inr ''2.0'') False,
        AttrItem ''IssueInstant'' (Inr ''2024-01-01T00:00:00Z'') False, AttrItem ''Destination'' (Inr ''slo'') False,
        AttrItem ''InResponseTo'' (Inr ''_r'') False]),
      XEvent 3 6 (EvStart ''Issuer'' []), XEvent 6 9 (EvText (Inr ''idp'')), XEvent 9 13 EvEnd,
      XEvent 13 16 (EvStart ''Status'' []),
      XEvent 16 20 (EvEmpty ''StatusCode'' [AttrItem ''Value'' (Inr STATUS_SUCCESS) False]), XEvent 20 24 EvEnd,
      XEvent 24 28 EvEnd]"

definition slo_attrs :: "ns_attr list" where
  "slo_attrs =
     [NsAttr ''xmlns:samlp'' True Unbound ''samlp'' (Inr NS_PROTOCOL), NsAttr ''xmlns:saml'' True Unbound ''saml'' (Inr NS_ASSERTION),
      NsAttr ''ID'' False Unbound ''ID'' (Inr ''_3''), NsAttr ''Version'' False Unbound ''Version'' (Inr ''2.0''),
      NsAttr ''IssueInstant'' False Unbound ''IssueInstant'' (Inr ''2024-01-01T00:00:00Z''),
      NsAttr ''Destination'' False Unbound ''Destination'' (Inr ''slo''),
      NsAttr ''InResponseTo'' False Unbound ''InResponseTo'' (Inr ''_r'')]"

definition slo_out :: "out_step list" where
  "slo_out =
     [OeEvent (Bound NS_PROTOCOL) (OeStart ''LogoutResponse'' slo_attrs),
      OeEvent (Bound NS_ASSERTION) (OeStart ''Issuer'' []), OeEvent Unbound (OeText (Inr ''idp'')),
      OeEvent (Bound NS_ASSERTION) OeEnd, OeEvent (Bound NS_PROTOCOL) (OeStart ''Status'' []),
      OeEvent (Bound NS_PROTOCOL) (OeEmpty ''StatusCode'' [NsAttr ''Value'' False Unbound ''Value'' (Inr STATUS_SUCCESS)]),
      OeEvent (Bound NS_PROTOCOL) OeEnd, OeEvent (Bound NS_PROTOCOL) OeEnd]"

definition slo_node :: node where
  "slo_node = Node ''LogoutResponse'' [(''ID'', ''_3''), (''Version'', ''2.0''), (''IssueInstant'', ''2024-01-01T00:00:00Z''),
       (''Destination'', ''slo''), (''InResponseTo'', ''_r'')]
     [Node ''Issuer'' [] [] ''idp'' 3 13,
      Node ''Status'' [] [Node ''StatusCode'' [(''Value'', STATUS_SUCCESS)] [] [] 16 20] [] 13 24] [] 0 28"

definition reads_slo :: "('k, 'e) out_ext_scheme \<Rightarrow> bool" where
  "reads_slo E \<longleftrightarrow> xml_read E slo_text = slo_steps \<and> out_read E slo_text = slo_out
     \<and> (\<forall>u. url_parse E u = Inr (''https'', True))"

lemma slo_parse:
  assumes "xml_read E slo_text = slo_steps"
  shows "parse_with_limits E slo_text xml_limits_unbounded = Inr slo_node"
    "parse_with_limits E slo_text xml_limits_default = Inr slo_node"
  unfolding parse_eval
  by (simp_all add: assms slo_steps_def dom_eval slo_node_def xml_limits_unbounded_def) (simp_all add: slo_text_def)

lemma slo_instants: "parse_generated_saml_utc_date_time ''2024-01-01T00:00:00Z'' = Some ''2024-01-01T00:00:00Z''"
  by code_simp

lemma slo_names: "is_ncname ''_3''" "is_ncname ''_r''" "length (code_points ''idp'') = 3"
  by (simp_all add: is_ncname_def code_points.simps is_xml_name_start_char_def is_xml_name_char_def in_ranges_def)

lemma slo_uris: "\<not> contains_whitespace ''slo''" "\<not> contains_whitespace ''idp''" "\<not> contains_whitespace STATUS_SUCCESS"
  by code_simp+

lemma slo_valid:
  assumes "reads_slo E"
  shows "validate_logout_response_outbound E slo_text ''_3'' ''slo'' ''idp'' (Some ''_r'') (BeforeSigning True) = Inr slo_node"
    "readers_agree E slo_text"
proof -
  note r = assms [unfolded reads_slo_def]
  show "readers_agree E slo_text" using r by (simp add: readers_agree_def slo_steps_def slo_out_def kept_attrs_def)
  have u: "is_absolute_saml_uri E ''slo''" "is_absolute_saml_uri E ''idp''" "is_absolute_saml_uri E STATUS_SUCCESS"
    using r slo_uris by (simp_all add: is_absolute_saml_uri_def is_ok_def)
  let ?ex = "\<lparr>oe_id = ''_3'', oe_destination = ''slo'', oe_issuer = ''idp'', oe_in_response_to = Some ''_r'',
    oe_validation = BeforeSigning True\<rparr>"
  have "validate_outbound_logout_stream E slo_text ?ex
      = Inr \<lparr>ol_root_stage = AfterStatus, ol_status_stage = AfterStatusCode, ol_saw_signature = False, ol_destination = Some ''slo''\<rparr>"
    using r u slo_instants slo_names
    by (simp add: validate_outbound_logout_stream_def slo_out_def slo_attrs_def validate_outbound_logout_start_def
        validate_outbound_logout_root_def validate_closed_unqualified_attributes_def profile_validate_attributes_def
        require_version_2_def require_generated_issue_instant_def attribute_value_def Let_def ol_state_default_def
        validate_outbound_root_child_def validate_outbound_issuer_def has_name_qualifiers_def no_attributes_def
        validate_structural_text_def is_structural_element_def validate_outbound_status_child_def
        validate_outbound_status_code_def top_level_status_codes_def finish_outbound_logout_element_def)
  then show "validate_logout_response_outbound E slo_text ''_3'' ''slo'' ''idp'' (Some ''_r'') (BeforeSigning True) = Inr slo_node"
    using r u(2) slo_names(3)
    by (simp add: validate_logout_response_outbound_def slo_parse) (simp add: slo_node_def is_entity_identifier_def root_signature_required_def)
qed

definition shape_ext :: "unit out_ext" where
  "shape_ext = flow_ext.extend (sample_flow_ext\<lparr>xml_read := (\<lambda>_. slo_steps), url_parse := (\<lambda>_. Inr (''https'', True))\<rparr>)
     \<lparr>xml_write = (\<lambda>_. slo_text), out_read = (\<lambda>_. slo_out), crypto_enabled = True\<rparr>"

lemma shape_reads: "reads_slo shape_ext"
  by (simp add: reads_slo_def shape_ext_def flow_ext.defs)

lemma logout_response_shape_witness:
  "\<exists>as. first_element (out_read shape_ext slo_text) = Some (''LogoutResponse'', NkProtocol, as)
     \<and> map_of (unqualified as) ''ID'' = Some ''_3'' \<and> map local_name (children slo_node) = [''Issuer'', ''Status'']"
  using logout_response_shape [OF slo_valid [OF shape_reads]]
  by (auto simp: shape_ext_def flow_ext.defs slo_out_def)

section \<open>LogoutRequests of a session authority\<close>

text \<open>The children of a LogoutRequest.\<close>

definition request_child :: "bool \<Rightarrow> oq_stage \<times> bool \<Rightarrow> string \<times> namespace_kind \<Rightarrow> (oq_stage \<times> bool) option" where
  "request_child allowed g c =
     (case g of (stage, saw) \<Rightarrow>
        if c = (''Issuer'', NkAssertion) \<and> stage = OqExpectIssuer then Some (OqAfterIssuer, saw)
        else if c = (''Signature'', NkDsig) \<and> stage = OqAfterIssuer \<and> allowed then Some (OqAfterSignature, True)
        else if c = (''Extensions'', NkProtocol) \<and> stage \<in> {OqAfterIssuer, OqAfterSignature}
        then Some (OqAfterExtensions, saw)
        else if c = (''NameID'', NkAssertion) \<and> stage \<in> {OqAfterIssuer, OqAfterSignature, OqAfterExtensions}
        then Some (OqAfterNameId, saw)
        else if c = (''SessionIndex'', NkProtocol) \<and> stage \<in> {OqAfterNameId, OqAfterSessionIndex}
        then Some (OqAfterSessionIndex, saw)
        else None)"

abbreviation "session_index_child \<equiv> (''SessionIndex'', NkProtocol)"

lemma run_Cons: "run step g (c # cs) = Some t \<longleftrightarrow> (\<exists>g'. step g c = Some g' \<and> run step g' cs = Some t)"
  by (auto split: option.splits)

lemma request_child_iff:
  "request_child allowed (OqExpectIssuer, saw) c = Some g \<longleftrightarrow> c = (''Issuer'', NkAssertion) \<and> g = (OqAfterIssuer, saw)"
  "request_child allowed (OqAfterIssuer, saw) c = Some g \<longleftrightarrow>
     c = (''Signature'', NkDsig) \<and> allowed \<and> g = (OqAfterSignature, True)
     \<or> c = (''Extensions'', NkProtocol) \<and> g = (OqAfterExtensions, saw)
     \<or> c = (''NameID'', NkAssertion) \<and> g = (OqAfterNameId, saw)"
  "request_child allowed (OqAfterSignature, saw) c = Some g \<longleftrightarrow>
     c = (''Extensions'', NkProtocol) \<and> g = (OqAfterExtensions, saw) \<or> c = (''NameID'', NkAssertion) \<and> g = (OqAfterNameId, saw)"
  "request_child allowed (OqAfterExtensions, saw) c = Some g \<longleftrightarrow> c = (''NameID'', NkAssertion) \<and> g = (OqAfterNameId, saw)"
  "request_child allowed (OqAfterNameId, saw) c = Some g \<longleftrightarrow> c = session_index_child \<and> g = (OqAfterSessionIndex, saw)"
  "request_child allowed (OqAfterSessionIndex, saw) c = Some g \<longleftrightarrow> c = session_index_child \<and> g = (OqAfterSessionIndex, saw)"
  by (auto simp: request_child_def)

lemma request_runs_indexes:
  "run (request_child allowed) (OqAfterSessionIndex, saw) cs = Some (g, v) \<Longrightarrow> v = saw \<and> (\<exists>n. cs = replicate n session_index_child)"
proof (induction cs)
  case (Cons c cs)
  then have "c = session_index_child" "v = saw \<and> (\<exists>n. cs = replicate n session_index_child)"
    unfolding run_Cons request_child_iff by blast+
  then show ?case by (auto intro: exI [of _ "Suc _"])
qed auto

lemma request_runs_name:
  "run (request_child allowed) (OqAfterNameId, saw) cs = Some (g, v) \<Longrightarrow> v = saw \<and> (\<exists>n. cs = replicate n session_index_child)"
proof (cases cs)
  case (Cons c cs')
  assume "run (request_child allowed) (OqAfterNameId, saw) cs = Some (g, v)"
  then have "c = session_index_child" "v = saw \<and> (\<exists>n. cs' = replicate n session_index_child)"
    unfolding Cons run_Cons request_child_iff using request_runs_indexes by blast+
  then show ?thesis unfolding Cons by (auto intro: exI [of _ "Suc _"])
qed auto

text \<open>What is left after the Issuer: a Signature if \<open>v\<close>, Extensions if \<open>x\<close>, the NameID, the session indexes.\<close>

definition request_tail :: "bool \<Rightarrow> bool \<Rightarrow> nat \<Rightarrow> (string \<times> namespace_kind) list" where
  "request_tail v x n =
     (if v then [(''Signature'', NkDsig)] else []) @ (if x then [(''Extensions'', NkProtocol)] else [])
       @ (''NameID'', NkAssertion) # replicate n session_index_child"

abbreviation "named_stage g \<equiv> g \<in> {OqAfterNameId, OqAfterSessionIndex}"

lemma request_runs_extensions:
  assumes "run (request_child allowed) (OqAfterExtensions, saw) cs = Some (g, v)" "named_stage g"
  shows "v = saw \<and> (\<exists>n. cs = request_tail False False n)"
proof (cases cs)
  case (Cons c cs')
  from assms(1) have "c = (''NameID'', NkAssertion)" "run (request_child allowed) (OqAfterNameId, saw) cs' = Some (g, v)"
    unfolding Cons run_Cons request_child_iff by blast+
  with request_runs_name [OF this(2)] show ?thesis unfolding Cons by (auto simp: request_tail_def)
qed (use assms in auto)

lemma request_runs_signature:
  assumes "run (request_child allowed) (OqAfterSignature, saw) cs = Some (g, v)" "named_stage g"
  shows "v = saw \<and> (\<exists>x n. cs = request_tail False x n)"
proof (cases cs)
  case (Cons c cs')
  from assms(1) consider "c = (''Extensions'', NkProtocol)" "run (request_child allowed) (OqAfterExtensions, saw) cs' = Some (g, v)"
    | "c = (''NameID'', NkAssertion)" "run (request_child allowed) (OqAfterNameId, saw) cs' = Some (g, v)"
    unfolding Cons run_Cons request_child_iff by blast
  then show ?thesis
  proof cases
    case 1
    with request_runs_extensions [OF 1(2) assms(2)] obtain n where "v = saw" "cs = request_tail False True n"
      unfolding Cons by (auto simp: request_tail_def)
    then show ?thesis by blast
  next
    case 2
    with request_runs_name [OF 2(2)] obtain n where "v = saw" "cs = request_tail False False n"
      unfolding Cons by (auto simp: request_tail_def)
    then show ?thesis by blast
  qed
qed (use assms in auto)

lemma request_runs_issuer:
  assumes "run (request_child allowed) (OqAfterIssuer, False) cs = Some (g, v)" "named_stage g"
  shows "(v \<longrightarrow> allowed) \<and> (\<exists>x n. cs = request_tail v x n)"
proof (cases cs)
  case (Cons c cs')
  from assms(1) consider "c = (''Signature'', NkDsig)" "allowed" "run (request_child allowed) (OqAfterSignature, True) cs' = Some (g, v)"
    | "run (request_child allowed) (OqAfterSignature, False) cs = Some (g, v)"
    unfolding Cons run_Cons request_child_iff by blast
  then show ?thesis
  proof cases
    case 1
    with request_runs_signature [OF 1(3) assms(2)] obtain x n where "v" "cs = request_tail True x n"
      unfolding Cons by (auto simp: request_tail_def)
    then show ?thesis using 1 by auto
  next
    case 2
    with request_runs_signature [OF 2 assms(2)] show ?thesis by auto
  qed
qed (use assms in auto)

lemma request_run_language:
  assumes "run (request_child allowed) (OqExpectIssuer, False) cs = Some (g, v)" "named_stage g"
  shows "(v \<longrightarrow> allowed) \<and> (\<exists>x n. cs = (''Issuer'', NkAssertion) # request_tail v x n)"
proof (cases cs)
  case (Cons c cs')
  from assms(1) have "c = (''Issuer'', NkAssertion)" "run (request_child allowed) (OqAfterIssuer, False) cs' = Some (g, v)"
    unfolding Cons run_Cons request_child_iff by blast+
  with request_runs_issuer [OF this(2) assms(2)] show ?thesis unfolding Cons by blast
qed (use assms in auto)

abbreviation "request_start ex v \<equiv> \<lambda>l as ns stack st. oq_validate_start l as ns stack ex v st"

lemma request_machine:
  "oq_loop ex v stack st steps = Inr t \<Longrightarrow> machine (request_start ex v) (\<lambda>e s. oq_finish_element e) stack st steps t"
proof (induction ex v stack st steps rule: oq_loop.induct)
  case (3 ex v stack st r l as steps)
  then show ?case by (fastforce simp: rbind_Inr_iff intro: m_start)
next
  case (4 ex v stack st r l as steps)
  then show ?case by (fastforce simp: rbind_Inr_iff intro: m_empty)
next
  case (5 ex v stack st r steps)
  then show ?case by (auto simp: rbind_Inr_iff split: list.splits intro!: m_end)
qed (auto simp: rbind_Inr_iff intro!: m_nil m_other)

lemma request_root_child:
  "oq_root_child l as ns ex v s = Inr (e, s') \<Longrightarrow>
     e \<noteq> OqRoot \<and> request_child (v = RequestAfterPostSigning) (oq_root_stage s, oq_saw_signature s) (l, ns)
         = Some (oq_root_stage s', oq_saw_signature s')"
  by (auto simp: oq_root_child_def Let_def rbind_Inr_iff request_child_def split: if_splits)

interpretation request: document_machine "request_start ex v" "\<lambda>e s. oq_finish_element e" OqRoot
    "\<lambda>s. (oq_root_stage s, oq_saw_signature s)" "\<lambda>s. ()" "request_child (v = RequestAfterPostSigning)" "\<lambda>g. True" for ex v
proof
  show "oq_validate_start l as ns [] ex v s = Inr (e, stack', s') \<Longrightarrow>
      e = OqRoot \<and> stack' = [] \<and> (oq_root_stage s', oq_saw_signature s') = (oq_root_stage s, oq_saw_signature s)"
    for l as ns s e stack' s'
    by (auto simp: oq_validate_start_def rbind_Inr_iff)
  show "oq_validate_start l as ns (OqRoot # rest) ex v s = Inr (e, stack', s') \<Longrightarrow>
      e \<noteq> OqRoot \<and> stack' = OqRoot # rest
      \<and> request_child (v = RequestAfterPostSigning) (oq_root_stage s, oq_saw_signature s) (l, ns)
          = Some (oq_root_stage s', oq_saw_signature s') \<and> () = ()"
    for l as ns rest s e stack' s'
    by (auto simp: oq_validate_start_def rbind_Inr_iff dest: request_root_child)
  show "p \<noteq> OqRoot \<Longrightarrow> oq_validate_start l as ns (p # rest) ex v s = Inr (e, stack', s') \<Longrightarrow>
      e \<noteq> OqRoot \<and> (\<exists>p'. p' \<noteq> OqRoot \<and> stack' = p' # rest)
      \<and> (oq_root_stage s', oq_saw_signature s') = (oq_root_stage s, oq_saw_signature s) \<and> () = ()"
    for p l as ns rest s e stack' s'
    by (cases p) (auto simp: oq_validate_start_def split: if_splits)
qed simp_all

lemma request_root_attributes:
  assumes "oq_validate_root l as ns ex = Inr ()"
  shows "l = ''LogoutRequest''" "ns = NkProtocol" "map_of (unqualified as) ''ID'' = Some (oq_id ex)"
    "map_of (unqualified as) ''IssueInstant'' = Some (oq_issue_instant ex)"
    "map_of (unqualified as) ''Destination'' = Some (oq_destination ex)"
    "map_of (unqualified as) ''NotOnOrAfter'' = Some (oq_expiration ex)"
    "map_of (unqualified as) ''Version'' = Some ''2.0''"
proof -
  let ?c = "[''ID'', ''Version'', ''IssueInstant'', ''Destination'', ''NotOnOrAfter'', ''Reason'', ''Consent'']"
  from assms obtain vals where v: "validate_closed_unqualified_attributes l as ?c
        [''ID'', ''Version'', ''IssueInstant'', ''Destination''] = Inr vals"
    and r: "l = ''LogoutRequest''" "ns = NkProtocol" "require_version_2 vals l = Inr ()"
      "attribute_value vals ''ID'' = Some (oq_id ex)" "attribute_value vals ''IssueInstant'' = Some (oq_issue_instant ex)"
      "attribute_value vals ''Destination'' = Some (oq_destination ex)"
      "attribute_value vals ''NotOnOrAfter'' = Some (oq_expiration ex)"
    by (auto simp: oq_validate_root_def Let_def rbind_Inr_iff ok_or_Inr_iff split: if_splits)
  note a = attribute_value_unqualified [OF v]
  show "l = ''LogoutRequest''" "ns = NkProtocol" by (fact r)+
  show "map_of (unqualified as) ''ID'' = Some (oq_id ex)"
    "map_of (unqualified as) ''IssueInstant'' = Some (oq_issue_instant ex)"
    "map_of (unqualified as) ''Destination'' = Some (oq_destination ex)"
    "map_of (unqualified as) ''NotOnOrAfter'' = Some (oq_expiration ex)"
    using r(4-7) by (simp_all add: a)
  show "map_of (unqualified as) ''Version'' = Some ''2.0''"
    using r(3) a [of "''Version''"] by (simp add: require_version_2_def attribute_value_def split: if_splits)
qed

lemma map_replicate_length: "map f xs = replicate n y \<Longrightarrow> length xs = n"
  by (metis length_map length_replicate)

lemma skip_children:
  assumes "map local_name cs = map fst (request_tail v x n)"
    "skip_child ''Extensions'' (skip_child ''Signature'' cs) = c # rest"
  shows "length rest = n" "\<exists>pre. cs = pre @ c # rest" "local_name c = ''NameID''"
  using assms
  by (cases v; cases x; auto simp: request_tail_def skip_child_def map_eq_Cons_conv dest: map_replicate_length)+

text \<open>
  C14: the same for the LogoutRequest of a session authority: version 2.0, with the identifier, times and
  Destination the caller generated; the children are the Issuer, the library's own Signature exactly
  when it was signed for POST, optional Extensions, one NameID and the session indexes, whose texts are
  those of the local entity and of the session that ends.
\<close>

theorem logout_request_shape:
  assumes "validate_logout_request_outbound E xml ex v = Inr r" "readers_agree E xml"
  shows "\<exists>as x i pre nid sessions.
     first_element (out_read E xml) = Some (''LogoutRequest'', NkProtocol, as)
     \<and> map_of (unqualified as) ''ID'' = Some (oq_id ex) \<and> map_of (unqualified as) ''Version'' = Some ''2.0''
     \<and> map_of (unqualified as) ''IssueInstant'' = Some (oq_issue_instant ex)
     \<and> map_of (unqualified as) ''NotOnOrAfter'' = Some (oq_expiration ex)
     \<and> map_of (unqualified as) ''Destination'' = Some (oq_destination ex)
     \<and> root_children 0 (out_read E xml)
         = (''Issuer'', NkAssertion) # request_tail (v = RequestAfterPostSigning) x (length (oq_session_indexes ex))
     \<and> local_name r = ''LogoutRequest'' \<and> map local_name (children r) = map fst (root_children 0 (out_read E xml))
     \<and> children r = i # pre @ nid # sessions \<and> node_text i = oq_issuer ex
     \<and> local_name nid = ''NameID'' \<and> node_text nid = oq_name_id ex \<and> map node_text sessions = oq_session_indexes ex"
proof -
  from assms(1) obtain t where p: "parse_with_limits E xml xml_limits_unbounded = Inr r"
    and l: "oq_loop ex v [] oq_state_default (out_read E xml) = Inr t" and st: "named_stage (oq_root_stage t)"
    and sg: "v = RequestAfterPostSigning \<Longrightarrow> oq_saw_signature t" and c: "oq_check_tree ex r = Inr ()"
    by (auto simp: validate_logout_request_outbound_def rbind_Inr_iff split: if_split_asm)
  note d = request.accepted_document [OF request_machine [OF l] p assms(2)]
  from d(1) obtain as ns where f: "first_element (out_read E xml) = Some (local_name r, ns, as)"
    "oq_validate_root (local_name r) as ns ex = Inr ()"
    by (auto simp: oq_validate_start_def rbind_Inr_iff)
  note a = request_root_attributes [OF f(2)]
  from d(2) have "run (request_child (v = RequestAfterPostSigning)) (OqExpectIssuer, False) (root_children 0 (out_read E xml))
      = Some (oq_root_stage t, oq_saw_signature t)"
    by (simp add: oq_state_default_def)
  note lang = request_run_language [OF this st]
  then have "oq_saw_signature t = (v = RequestAfterPostSigning)" using sg by blast
  with lang obtain x n where
    g: "root_children 0 (out_read E xml) = (''Issuer'', NkAssertion) # request_tail (v = RequestAfterPostSigning) x n"
    by auto
  from c obtain i cs nid sessions where k: "children r = i # cs" "node_text i = oq_issuer ex"
    "skip_child ''Extensions'' (skip_child ''Signature'' cs) = nid # sessions" "node_text nid = oq_name_id ex"
    "map node_text sessions = oq_session_indexes ex"
    by (auto simp: oq_check_tree_def split: list.split_asm if_split_asm)
  have "map local_name cs = map fst (request_tail (v = RequestAfterPostSigning) x n)"
    using d(4) k(1) g by simp
  note s = skip_children [OF this k(3)]
  have "length (oq_session_indexes ex) = n" unfolding k(5) [symmetric] using s(1) by simp
  with s(2,3) k a f(1) g d(4) show ?thesis by fastforce
qed

definition slq_text :: string where "slq_text = ''<Q><I>idp</I><N>user</N></Q>''"

definition slq_steps :: "xml_step list" where
  "slq_steps =
     [XEvent 0 3 (EvStart ''LogoutRequest'' [AttrItem ''ID'' (Inr ''_4'') False]),
      XEvent 3 6 (EvStart ''Issuer'' []), XEvent 6 9 (EvText (Inr ''idp'')), XEvent 9 13 EvEnd,
      XEvent 13 16 (EvStart ''NameID'' []), XEvent 16 20 (EvText (Inr ''user'')), XEvent 20 24 EvEnd, XEvent 24 28 EvEnd]"

definition slq_out :: "out_step list" where
  "slq_out =
     [OeEvent (Bound NS_PROTOCOL) (OeStart ''LogoutRequest''
        [NsAttr ''ID'' False Unbound ''ID'' (Inr ''_4''), NsAttr ''Version'' False Unbound ''Version'' (Inr ''2.0''),
         NsAttr ''IssueInstant'' False Unbound ''IssueInstant'' (Inr ''2024-01-01T00:00:00Z''),
         NsAttr ''NotOnOrAfter'' False Unbound ''NotOnOrAfter'' (Inr ''2024-01-01T00:00:00Z''),
         NsAttr ''Destination'' False Unbound ''Destination'' (Inr ''slo'')]),
      OeEvent (Bound NS_ASSERTION) (OeStart ''Issuer'' []), OeEvent Unbound (OeText (Inr ''idp'')),
      OeEvent (Bound NS_ASSERTION) OeEnd, OeEvent (Bound NS_ASSERTION) (OeStart ''NameID'' []),
      OeEvent Unbound (OeText (Inr ''user'')), OeEvent (Bound NS_ASSERTION) OeEnd, OeEvent (Bound NS_PROTOCOL) OeEnd]"

definition slq_expected :: oq_expectation where
  "slq_expected = \<lparr>oq_id = ''_4'', oq_issue_instant = ''2024-01-01T00:00:00Z'', oq_destination = ''slo'', oq_issuer = ''idp'',
     oq_expiration = ''2024-01-01T00:00:00Z'', oq_name_id = ''user'', oq_name_id_format = [], oq_session_indexes = []\<rparr>"

definition slq_ext :: "unit out_ext" where
  "slq_ext = flow_ext.extend (sample_flow_ext\<lparr>xml_read := (\<lambda>_. slq_steps)\<rparr>)
     \<lparr>xml_write = (\<lambda>_. slq_text), out_read = (\<lambda>_. slq_out), crypto_enabled = True\<rparr>"

lemma slq_reads: "xml_read slq_ext s = slq_steps" "out_read slq_ext s = slq_out"
  by (simp_all add: slq_ext_def flow_ext.defs)

definition slq_node :: node where
  "slq_node = Node ''LogoutRequest'' [(''ID'', ''_4'')]
     [Node ''Issuer'' [] [] ''idp'' 3 13, Node ''NameID'' [] [] ''user'' 13 24] [] 0 28"

lemma slq_valid:
  "validate_logout_request_outbound slq_ext slq_text slq_expected RequestBeforeSigning = Inr slq_node"
  "readers_agree slq_ext slq_text"
proof -
  show "readers_agree slq_ext slq_text" by (simp add: readers_agree_def slq_reads slq_steps_def slq_out_def kept_attrs_def)
  have p: "parse_with_limits slq_ext slq_text xml_limits_unbounded = Inr slq_node"
    unfolding parse_eval
    by (simp add: slq_reads slq_steps_def dom_eval slq_node_def xml_limits_unbounded_def) (simp add: slq_text_def)
  have "oq_loop slq_expected RequestBeforeSigning [] oq_state_default (out_read slq_ext slq_text)
      = Inr \<lparr>oq_root_stage = OqAfterNameId, oq_saw_signature = False\<rparr>"
    by (simp add: slq_reads slq_out_def oq_validate_start_def oq_validate_root_def slq_expected_def
        validate_closed_unqualified_attributes_def profile_validate_attributes_def require_version_2_def attribute_value_def
        slo_instants oq_root_child_def oq_state_default_def oq_validate_issuer_def oq_validate_name_id_def
        has_name_qualifiers_def oq_structural_text_def oq_is_structural_def oq_finish_element_def)
  then show "validate_logout_request_outbound slq_ext slq_text slq_expected RequestBeforeSigning = Inr slq_node"
    by (simp add: validate_logout_request_outbound_def p) (simp add: oq_check_tree_def slq_node_def slq_expected_def skip_child_def)
qed

lemma logout_request_shape_witness:
  "\<exists>as. first_element (out_read slq_ext slq_text) = Some (''LogoutRequest'', NkProtocol, as)
     \<and> map_of (unqualified as) ''ID'' = Some ''_4'' \<and> map node_text (children slq_node) = [''idp'', ''user'']"
  using logout_request_shape [OF slq_valid]
  by (auto simp: slq_expected_def slq_node_def slq_reads slq_out_def)

end
