(* ===== verification/Written.thy ===== *)
theory Written
  imports Writer Metadata
begin

text \<open>
  Generated documents are read as written. The event writer and the pull parser are both the crate
  quick-xml; \<open>reads_written\<close> is what they promise for one list of events: the reader yields the
  elements written, in order, with their qualified names cut at the prefix and their attributes
  unescaped, and for a written text some texts and references that spell it. From that promise the tree
  of a written document is the document (\<open>src/src/xml/write.rs\<close> against \<open>src/src/xml/dom.rs\<close>).
\<close>

section \<open>What the reader yields for written events\<close>

definition local_part :: "string \<Rightarrow> string" where
  "local_part name = (if CHR '':'' \<in> set name then tl (dropWhile (\<lambda>c. c \<noteq> CHR '':'') name) else name)"

definition names_namespace :: "string \<Rightarrow> bool" where
  "names_namespace k \<longleftrightarrow> k = ''xmlns'' \<or> take 6 k = ''xmlns:''"

definition written_attr :: "string \<times> string \<Rightarrow> attr_item" where
  "written_attr kv = AttrItem (fst kv) (Inr (snd kv)) (names_namespace (fst kv))"

text \<open>The steps spell a text: decoded texts, character references and references to predefined entities.\<close>

inductive spells :: "('e) xml_ext_scheme \<Rightarrow> xml_step list \<Rightarrow> string \<Rightarrow> bool" for E where
  spells_Nil: "spells E [] []"
| spells_text: "spells E ps t \<Longrightarrow> spells E (XEvent a b (EvText (Inr s)) # ps) (s @ t)"
| spells_char: "spells E ps t \<Longrightarrow> spells E (XEvent a b (EvRef (Inr (Some s)) name) # ps) (s @ t)"
| spells_entity: "spells E ps t \<Longrightarrow> predefined_entity E name = Some s \<Longrightarrow>
    spells E (XEvent a b (EvRef (Inr None) (Inr name)) # ps) (s @ t)"

inductive reads_as :: "('e) xml_ext_scheme \<Rightarrow> xml_writer \<Rightarrow> xml_step list \<Rightarrow> bool" for E where
  as_Nil: "reads_as E [] []"
| as_start: "reads_as E w steps \<Longrightarrow>
    reads_as E (WStart n ats # w) (XEvent a b (EvStart (local_part n) (map written_attr ats)) # steps)"
| as_empty: "reads_as E w steps \<Longrightarrow>
    reads_as E (WEmpty n ats # w) (XEvent a b (EvEmpty (local_part n) (map written_attr ats)) # steps)"
| as_end: "reads_as E w steps \<Longrightarrow> reads_as E (WEnd n # w) (XEvent a b EvEnd # steps)"
| as_text: "reads_as E w steps \<Longrightarrow> spells E ps t \<Longrightarrow> reads_as E (WText t # w) (ps @ steps)"

inductive_simps reads_as_Nil [simp]: "reads_as E [] steps"
inductive_simps reads_as_start: "reads_as E (WStart n ats # w) steps"
inductive_simps reads_as_empty: "reads_as E (WEmpty n ats # w) steps"
inductive_simps reads_as_end: "reads_as E (WEnd n # w) steps"
inductive_simps reads_as_text: "reads_as E (WText t # w) steps"

definition reads_written :: "('k, 'e) out_ext_scheme \<Rightarrow> xml_writer \<Rightarrow> bool" where
  "reads_written E w \<longleftrightarrow> reads_as E w (xml_read E (xml_write E w))"

lemma reads_as_append:
  "reads_as E (v @ w) steps \<Longrightarrow> \<exists>s t. steps = s @ t \<and> reads_as E v s \<and> reads_as E w t"
proof (induction v arbitrary: steps)
  case (Cons x v)
  show ?case
  proof (cases x)
    case (WStart n ats)
    with Cons.prems obtain a b steps' where s': "steps = XEvent a b (EvStart (local_part n) (map written_attr ats)) # steps'" "reads_as E (v @ w) steps'"
      by (auto simp: reads_as_start)
    obtain s t where "steps' = s @ t" "reads_as E v s" "reads_as E w t" using Cons.IH [OF s'(2)] by blast
    with s'(1) show ?thesis unfolding WStart reads_as_start by (metis append_Cons)
  next
    case (WEmpty n ats)
    with Cons.prems obtain a b steps' where s': "steps = XEvent a b (EvEmpty (local_part n) (map written_attr ats)) # steps'" "reads_as E (v @ w) steps'"
      by (auto simp: reads_as_empty)
    obtain s t where "steps' = s @ t" "reads_as E v s" "reads_as E w t" using Cons.IH [OF s'(2)] by blast
    with s'(1) show ?thesis unfolding WEmpty reads_as_empty by (metis append_Cons)
  next
    case (WEnd n)
    with Cons.prems obtain a b steps' where s': "steps = XEvent a b EvEnd # steps'" "reads_as E (v @ w) steps'"
      by (auto simp: reads_as_end)
    obtain s t where "steps' = s @ t" "reads_as E v s" "reads_as E w t" using Cons.IH [OF s'(2)] by blast
    with s'(1) show ?thesis unfolding WEnd reads_as_end by (metis append_Cons)
  next
    case (WText u)
    with Cons.prems obtain ps steps' where s': "steps = ps @ steps'" "reads_as E (v @ w) steps'" "spells E ps u"
      by (auto simp: reads_as_text)
    obtain s t where "steps' = s @ t" "reads_as E v s" "reads_as E w t" using Cons.IH [OF s'(2)] by blast
    with s'(1,3) show ?thesis unfolding WText reads_as_text by (metis append_assoc)
  qed
qed simp

section \<open>Written elements\<close>

text \<open>The three forms of an element the writers use: without content, with text, with elements.\<close>

datatype written =
  WrittenEmpty string "(string \<times> string) list"
| WrittenText string "(string \<times> string) list" string
| WrittenParent string "(string \<times> string) list" "written list"

fun written_events :: "written \<Rightarrow> xml_writer" where
  "written_events (WrittenEmpty n ats) = [WEmpty n ats]"
| "written_events (WrittenText n ats t) = [WStart n ats, WText t, WEnd n]"
| "written_events (WrittenParent n ats cs) = WStart n ats # concat (map written_events cs) @ [WEnd n]"

definition plain_attrs :: "(string \<times> string) list \<Rightarrow> (string \<times> string) list" where
  "plain_attrs ats = filter (\<lambda>kv. \<not> names_namespace (fst kv)) ats"

text \<open>The node of a written element, whatever its positions.\<close>

fun node_of_written :: "written \<Rightarrow> node \<Rightarrow> bool" where
  "node_of_written (WrittenEmpty n ats) m \<longleftrightarrow>
     local_name m = local_part n \<and> attrs m = plain_attrs ats \<and> children m = [] \<and> node_text m = []"
| "node_of_written (WrittenText n ats t) m \<longleftrightarrow>
     local_name m = local_part n \<and> attrs m = plain_attrs ats \<and> children m = [] \<and> node_text m = t"
| "node_of_written (WrittenParent n ats cs) m \<longleftrightarrow>
     local_name m = local_part n \<and> attrs m = plain_attrs ats \<and> node_text m = []
     \<and> list_all2 node_of_written cs (children m)"

fun written_size :: "written \<Rightarrow> nat" where
  "written_size (WrittenParent n ats cs) = Suc (sum_list (map written_size cs))"
| "written_size _ = 1"

definition attrs_fit :: "xml_limits \<Rightarrow> (string \<times> string) list \<Rightarrow> bool" where
  "attrs_fit L ats \<longleftrightarrow>
     length ats \<le> max_attributes_per_element L \<and> list_all (\<lambda>kv. length (snd kv) \<le> max_attribute_value_bytes L) ats"

fun written_fits :: "xml_limits \<Rightarrow> nat \<Rightarrow> written \<Rightarrow> bool" where
  "written_fits L d (WrittenEmpty n ats) \<longleftrightarrow> 0 < d \<and> attrs_fit L ats"
| "written_fits L d (WrittenText n ats t) \<longleftrightarrow> 0 < d \<and> attrs_fit L ats \<and> length t \<le> max_text_bytes L"
| "written_fits L d (WrittenParent n ats cs) \<longleftrightarrow> 0 < d \<and> attrs_fit L ats \<and> list_all (written_fits L (d - 1)) cs"

section \<open>The tree of a written element\<close>

definition limits_ok :: "xml_limits \<Rightarrow> bool" where
  "limits_ok L \<longleftrightarrow> max_nodes L \<le> usize_max \<and> max_depth L \<le> usize_max \<and> max_text_bytes L \<le> usize_max"

fun dom_run :: "('e) xml_ext_scheme \<Rightarrow> xml_limits \<Rightarrow> parse_mode \<Rightarrow> string \<Rightarrow> dom_state \<Rightarrow> xml_step list \<Rightarrow> dom_state res" where
  "dom_run E L mode bytes st [] = Inr st"
| "dom_run E L mode bytes st (XFail e # steps) = Inl (Xml e)"
| "dom_run E L mode bytes st (XEvent a b ev # steps) =
     rbind (dom_event E L mode bytes st a b ev) (\<lambda>st'. dom_run E L mode bytes st' steps)"

lemma dom_loop_run:
  "dom_loop E L mode bytes st (s @ t) = rbind (dom_run E L mode bytes st s) (\<lambda>st'. dom_loop E L mode bytes st' t)"
  by (induction E L mode bytes st s rule: dom_run.induct) (auto simp: rbind_assoc intro: rbind_cong)

lemma dom_run_append:
  "dom_run E L mode bytes st (s @ t) = rbind (dom_run E L mode bytes st s) (\<lambda>st'. dom_run E L mode bytes st' t)"
  by (induction E L mode bytes st s rule: dom_run.induct) (auto simp: rbind_assoc intro: rbind_cong)

lemma read_attrs_written:
  assumes "attrs_fit L ats"
  shows "read_attrs (map written_attr ats) L = Inr (plain_attrs ats)"
proof -
  have "i + length ats \<le> max_attributes_per_element L \<Longrightarrow>
      list_all (\<lambda>kv. length (snd kv) \<le> max_attribute_value_bytes L) ats \<Longrightarrow>
      read_attrs_loop L i (map written_attr ats) out = Inr (out @ plain_attrs ats)" for i out
    by (induction ats arbitrary: i out) (auto simp: written_attr_def plain_attrs_def)
  from this [of 0 "[]"] assms show ?thesis by (simp add: read_attrs_def attrs_fit_def)
qed

lemma open_node_written:
  assumes "limits_ok L" "attrs_fit L ats" "dom_count st < max_nodes L" "length (dom_stack st) < max_depth L"
  shows "\<exists>a. open_node L bytes st bef aft name (map written_attr ats) e
    = Inr (Suc (dom_count st), Node name (plain_attrs ats) [] [] a e)"
  using assms
  by (auto simp: open_node_def read_attrs_written checked_node_count_def usize_checked_add_def limits_ok_def check_depth_def
      usize_sat_add_def)

lemma run_spells:
  assumes "spells E ps t" "limits_ok L" "dom_stack st = n # rest" "length (node_text n) + length t \<le> max_text_bytes L"
  shows "dom_run E L mode bytes st ps = Inr (st\<lparr>dom_stack := set_text n (node_text n @ t) # rest\<rparr>)"
  using assms
proof (induction arbitrary: st n rule: spells.induct)
  case spells_Nil
  then show ?case by (cases n; cases st) (simp add: set_text_def)
next
  case (spells_text ps t a b s)
  then show ?case
    by (cases n) (simp add: append_top_def checked_append_text_def usize_checked_add_def limits_ok_def set_text_def)
next
  case (spells_char ps t a b s name)
  then show ?case
    by (cases n) (simp add: append_top_def checked_append_text_def usize_checked_add_def limits_ok_def set_text_def push_general_ref_def)
next
  case (spells_entity ps t name s a b)
  then show ?case
    by (cases n) (simp add: append_top_def checked_append_text_def usize_checked_add_def limits_ok_def set_text_def push_general_ref_def)
qed

text \<open>The parser turns the steps of a written element into a child of the innermost open element.\<close>

definition runs_to :: "('e) xml_ext_scheme \<Rightarrow> xml_limits \<Rightarrow> parse_mode \<Rightarrow> string \<Rightarrow> written \<Rightarrow> bool" where
  "runs_to E L mode bytes el \<longleftrightarrow>
     (\<forall>steps d st. reads_as E (written_events el) steps \<longrightarrow> written_fits L d el \<longrightarrow>
        length (dom_stack st) + d \<le> max_depth L \<longrightarrow> dom_count st + written_size el \<le> max_nodes L \<longrightarrow>
        (\<exists>m. node_of_written el m \<and>
           dom_run E L mode bytes st steps = Inr (push_child (st\<lparr>dom_count := dom_count st + written_size el\<rparr>) m)))"

definition add_children :: "node \<Rightarrow> node list \<Rightarrow> node" where
  "add_children p ms = Node (local_name p) (attrs p) (children p @ ms) (node_text p) (node_start p) (node_end p)"

lemma written_children_run:
  assumes "\<And>c. c \<in> set cs \<Longrightarrow> runs_to E L mode bytes c" "reads_as E (concat (map written_events cs)) steps"
    "list_all (written_fits L d) cs" "dom_stack st = p # rest" "Suc (length rest) + d \<le> max_depth L"
    "dom_count st + sum_list (map written_size cs) \<le> max_nodes L"
  shows "\<exists>ms. list_all2 node_of_written cs ms \<and> dom_run E L mode bytes st steps
    = Inr (st\<lparr>dom_stack := add_children p ms # rest, dom_count := dom_count st + sum_list (map written_size cs)\<rparr>)"
  using assms
proof (induction cs arbitrary: steps st p)
  case Nil
  then show ?case by (cases p; cases st) (simp add: add_children_def)
next
  case (Cons c cs)
  from Cons.prems(2) obtain s t where st: "steps = s @ t" "reads_as E (written_events c) s"
    "reads_as E (concat (map written_events cs)) t"
    using reads_as_append by force
  let ?st = "st\<lparr>dom_count := dom_count st + written_size c\<rparr>"
  have fits: "written_fits L d c" "length (dom_stack st) + d \<le> max_depth L" "dom_count st + written_size c \<le> max_nodes L"
    using Cons.prems(3-6) by auto
  obtain m where m: "node_of_written c m" "dom_run E L mode bytes st s = Inr (push_child ?st m)"
    using Cons.prems(1) [of c, unfolded runs_to_def, rule_format, OF _ st(2) fits] by auto
  let ?st' = "st\<lparr>dom_stack := add_child p m # rest, dom_count := dom_count st + written_size c\<rparr>"
  have p: "push_child ?st m = ?st'" using Cons.prems(4) by (simp add: push_child_def)
  have "list_all (written_fits L d) cs" "dom_stack ?st' = add_child p m # rest" "Suc (length rest) + d \<le> max_depth L"
    "dom_count ?st' + sum_list (map written_size cs) \<le> max_nodes L"
    using Cons.prems(3,5,6) by simp_all
  from Cons.IH [OF Cons.prems(1) st(3) this] obtain ms where ms: "list_all2 node_of_written cs ms"
    "dom_run E L mode bytes ?st' t = Inr (?st'\<lparr>dom_stack := add_children (add_child p m) ms # rest,
       dom_count := dom_count ?st' + sum_list (map written_size cs)\<rparr>)"
    by auto
  have "add_children (add_child p m) ms = add_children p (m # ms)" by (simp add: add_children_def add_child_def)
  with m ms show ?case
    by (intro exI [of _ "m # ms"]) (simp add: st(1) dom_run_append p add.assoc)
qed

lemma keep_stack: "st\<lparr>dom_stack := dom_stack st, dom_count := k\<rparr> = (st :: dom_state)\<lparr>dom_count := k\<rparr>"
  by (cases st) simp

lemma written_runs:
  assumes "limits_ok L"
  shows "runs_to E L mode bytes el"
proof (induction el)
  case (WrittenEmpty n ats)
  show ?case
    unfolding runs_to_def
  proof (intro allI impI)
    fix steps d and st :: dom_state
    assume r: "reads_as E (written_events (WrittenEmpty n ats)) steps" "written_fits L d (WrittenEmpty n ats)"
      "length (dom_stack st) + d \<le> max_depth L" "dom_count st + written_size (WrittenEmpty n ats) \<le> max_nodes L"
    from r(1) obtain a b where s: "steps = [XEvent a b (EvEmpty (local_part n) (map written_attr ats))]"
      by (auto simp: reads_as_empty)
    obtain x where "open_node L bytes st a b (local_part n) (map written_attr ats) b
        = Inr (Suc (dom_count st), Node (local_part n) (plain_attrs ats) [] [] x b)"
      using open_node_written [OF assms, of ats st bytes a b "local_part n" b] r(2-4) by auto
    then show "\<exists>m. node_of_written (WrittenEmpty n ats) m \<and> dom_run E L mode bytes st steps
        = Inr (push_child (st\<lparr>dom_count := dom_count st + written_size (WrittenEmpty n ats)\<rparr>) m)"
      by (intro exI [of _ "Node (local_part n) (plain_attrs ats) [] [] x b"]) (simp add: s)
  qed
next
  case (WrittenText n ats t)
  show ?case
    unfolding runs_to_def
  proof (intro allI impI)
    fix steps d and st :: dom_state
    assume r: "reads_as E (written_events (WrittenText n ats t)) steps" "written_fits L d (WrittenText n ats t)"
      "length (dom_stack st) + d \<le> max_depth L" "dom_count st + written_size (WrittenText n ats t) \<le> max_nodes L"
    from r(1) obtain a b ps c e where s: "steps = XEvent a b (EvStart (local_part n) (map written_attr ats)) # ps @ [XEvent c e EvEnd]"
      "spells E ps t"
      by (auto simp: reads_as_start reads_as_text reads_as_end)
    obtain x where x: "open_node L bytes st a b (local_part n) (map written_attr ats) 0
        = Inr (Suc (dom_count st), Node (local_part n) (plain_attrs ats) [] [] x 0)"
      using open_node_written [OF assms, of ats st bytes a b "local_part n" 0] r(2-4) by auto
    let ?st = "st\<lparr>dom_stack := Node (local_part n) (plain_attrs ats) [] [] x 0 # dom_stack st, dom_count := Suc (dom_count st)\<rparr>"
    have "dom_run E L mode bytes ?st ps
        = Inr (?st\<lparr>dom_stack := Node (local_part n) (plain_attrs ats) [] t x 0 # dom_stack st\<rparr>)"
      using run_spells [OF s(2) assms, of ?st "Node (local_part n) (plain_attrs ats) [] [] x 0"] r(2)
      by (simp add: set_text_def)
    then show "\<exists>m. node_of_written (WrittenText n ats t) m \<and> dom_run E L mode bytes st steps
        = Inr (push_child (st\<lparr>dom_count := dom_count st + written_size (WrittenText n ats t)\<rparr>) m)"
      by (intro exI [of _ "Node (local_part n) (plain_attrs ats) [] t x e"])
        (simp add: s(1) x dom_run_append set_end_def keep_stack)
  qed
next
  case (WrittenParent n ats cs)
  show ?case
    unfolding runs_to_def
  proof (intro allI impI)
    fix steps d and st :: dom_state
    assume r: "reads_as E (written_events (WrittenParent n ats cs)) steps" "written_fits L d (WrittenParent n ats cs)"
      "length (dom_stack st) + d \<le> max_depth L" "dom_count st + written_size (WrittenParent n ats cs) \<le> max_nodes L"
    from r(1) obtain a b ps c e where s: "steps = XEvent a b (EvStart (local_part n) (map written_attr ats)) # ps @ [XEvent c e EvEnd]"
      "reads_as E (concat (map written_events cs)) ps"
      by (auto simp: reads_as_start reads_as_end dest!: reads_as_append)
    obtain x where x: "open_node L bytes st a b (local_part n) (map written_attr ats) 0
        = Inr (Suc (dom_count st), Node (local_part n) (plain_attrs ats) [] [] x 0)"
      using open_node_written [OF assms, of ats st bytes a b "local_part n" 0] r(2-4) by auto
    let ?p = "Node (local_part n) (plain_attrs ats) [] [] x 0"
    let ?st = "st\<lparr>dom_stack := ?p # dom_stack st, dom_count := Suc (dom_count st)\<rparr>"
    have "list_all (written_fits L (d - 1)) cs" "dom_stack ?st = ?p # dom_stack st"
      "Suc (length (dom_stack st)) + (d - 1) \<le> max_depth L" "dom_count ?st + sum_list (map written_size cs) \<le> max_nodes L"
      using r(2-4) by auto
    from written_children_run [OF WrittenParent.IH s(2) this] obtain ms where ms: "list_all2 node_of_written cs ms"
      "dom_run E L mode bytes ?st ps = Inr (?st\<lparr>dom_stack := add_children ?p ms # dom_stack st,
         dom_count := dom_count ?st + sum_list (map written_size cs)\<rparr>)"
      by auto
    then show "\<exists>m. node_of_written (WrittenParent n ats cs) m \<and> dom_run E L mode bytes st steps
        = Inr (push_child (st\<lparr>dom_count := dom_count st + written_size (WrittenParent n ats cs)\<rparr>) m)"
      by (intro exI [of _ "Node (local_part n) (plain_attrs ats) ms [] x e"])
        (simp add: s(1) x dom_run_append set_end_def add_children_def keep_stack)
  qed
qed

lemma written_parses_roots:
  assumes "reads_written E (written_events el)" "limits_ok L" "written_fits L (max_depth L) el"
    "written_size el \<le> max_nodes L" "length (xml_write E (written_events el)) \<le> max_bytes L"
  shows "\<exists>m. parse_roots_with_limits E (xml_write E (written_events el)) L = Inr [m]"
proof -
  let ?xml = "xml_write E (written_events el)" and ?st = "\<lparr>dom_stack = [], dom_roots = [], dom_count = 0\<rparr>"
  obtain m where m: "dom_run E L ModeRoots ?xml ?st (xml_read E ?xml) = Inr (push_child (?st\<lparr>dom_count := written_size el\<rparr>) m)"
    using written_runs [OF assms(2), of E ModeRoots ?xml el, unfolded runs_to_def, rule_format,
        OF assms(1) [unfolded reads_written_def] assms(3), of ?st] assms(4)
    by auto
  have "dom_loop E L ModeRoots ?xml ?st (xml_read E ?xml @ []) = Inr [m]"
    unfolding dom_loop_run m by (simp add: push_child_def)
  with assms(5) show ?thesis
    unfolding parse_roots_with_limits_def parse_roots_inner_Inr by auto
qed

text \<open>
  The tree of a written document: within the limits, parsing the text of a document gives a node with the
  names, attributes, texts and children written.
\<close>

theorem written_parses:
  assumes "reads_written E (written_events el)" "limits_ok L" "written_fits L (max_depth L) el"
    "written_size el \<le> max_nodes L" "length (xml_write E (written_events el)) \<le> max_bytes L"
  shows "\<exists>m. parse_with_limits E (xml_write E (written_events el)) L = Inr m \<and> node_of_written el m"
proof -
  let ?xml = "xml_write E (written_events el)" and ?st = "\<lparr>dom_stack = [], dom_roots = [], dom_count = 0\<rparr>"
  obtain m where m: "node_of_written el m"
    "dom_run E L ModeDocument ?xml ?st (xml_read E ?xml) = Inr (push_child (?st\<lparr>dom_count := written_size el\<rparr>) m)"
    using written_runs [OF assms(2), of E ModeDocument ?xml el, unfolded runs_to_def, rule_format,
        OF assms(1) [unfolded reads_written_def] assms(3), of ?st] assms(4)
    by auto
  have "dom_loop E L ModeDocument ?xml ?st (xml_read E ?xml @ []) = Inr [m]"
    unfolding dom_loop_run m(2) by (simp add: push_child_def)
  with m(1) assms(5) show ?thesis
    unfolding parse_with_limits_Inr parse_roots_inner_Inr by auto
qed

section \<open>What the namespace reader yields for written events\<close>

text \<open>An attribute without a prefix is in no namespace; \<open>ns\<close> gives the namespace of an element's name.\<close>

definition ns_attr_of :: "string \<times> string \<Rightarrow> ns_attr \<Rightarrow> bool" where
  "ns_attr_of kv a \<longleftrightarrow>
     (\<exists>r. a = NsAttr (fst kv) (names_namespace (fst kv)) r (local_part (fst kv)) (Inr (snd kv))
        \<and> (CHR '':'' \<notin> set (fst kv) \<longrightarrow> r = Unbound))"

inductive ns_reads_as :: "(string \<Rightarrow> resolve_result) \<Rightarrow> xml_writer \<Rightarrow> ns_step list \<Rightarrow> bool" for ns where
  ns_as_Nil: "ns_reads_as ns [] []"
| ns_as_start: "ns_reads_as ns w steps \<Longrightarrow> list_all2 ns_attr_of ats as \<Longrightarrow>
    ns_reads_as ns (WStart n ats # w) (NsEvent (ns n) (NsStart (local_part n) as) # steps)"
| ns_as_empty: "ns_reads_as ns w steps \<Longrightarrow> list_all2 ns_attr_of ats as \<Longrightarrow>
    ns_reads_as ns (WEmpty n ats # w) (NsEvent (ns n) (NsEmpty (local_part n) as) # steps)"
| ns_as_end: "ns_reads_as ns w steps \<Longrightarrow> ns_reads_as ns (WEnd n # w) (NsEvent (ns n) NsEnd # steps)"
| ns_as_text: "ns_reads_as ns w steps \<Longrightarrow> list_all (\<lambda>p. p = NsEvent Unbound NsOther) ps \<Longrightarrow>
    ns_reads_as ns (WText t # w) (ps @ steps)"

inductive_simps ns_reads_Nil: "ns_reads_as ns [] steps"
inductive_simps ns_reads_start: "ns_reads_as ns (WStart n ats # w) steps"
inductive_simps ns_reads_empty: "ns_reads_as ns (WEmpty n ats # w) steps"
inductive_simps ns_reads_end: "ns_reads_as ns (WEnd n # w) steps"
inductive_simps ns_reads_text: "ns_reads_as ns (WText t # w) steps"

lemmas ns_reads = ns_reads_Nil ns_reads_start ns_reads_empty ns_reads_end ns_reads_text

text \<open>The protocol documents of the default renderers bind two prefixes, \<open>p\<close> the one of the protocol namespace.\<close>

definition protocol_namespace :: "string \<Rightarrow> string \<Rightarrow> resolve_result" where
  "protocol_namespace p n = Bound (if takeWhile (\<lambda>c. c \<noteq> CHR '':'') n = p then NS_PROTOCOL else NS_ASSERTION)"

section \<open>Readers of one step per event\<close>

text \<open>A reader that yields one step for each written event.\<close>

fun step_of :: "write_event \<Rightarrow> xml_step" where
  "step_of (WStart n ats) = XEvent 0 0 (EvStart (local_part n) (map written_attr ats))"
| "step_of (WEmpty n ats) = XEvent 0 0 (EvEmpty (local_part n) (map written_attr ats))"
| "step_of (WEnd n) = XEvent 0 0 EvEnd"
| "step_of (WText t) = XEvent 0 0 (EvText (Inr t))"

definition unbound_attr :: "string \<times> string \<Rightarrow> ns_attr" where
  "unbound_attr kv = NsAttr (fst kv) (names_namespace (fst kv)) Unbound (local_part (fst kv)) (Inr (snd kv))"

fun ns_step_of :: "(string \<Rightarrow> resolve_result) \<Rightarrow> write_event \<Rightarrow> ns_step" where
  "ns_step_of ns (WStart n ats) = NsEvent (ns n) (NsStart (local_part n) (map unbound_attr ats))"
| "ns_step_of ns (WEmpty n ats) = NsEvent (ns n) (NsEmpty (local_part n) (map unbound_attr ats))"
| "ns_step_of ns (WEnd n) = NsEvent (ns n) NsEnd"
| "ns_step_of ns (WText t) = NsEvent Unbound NsOther"

lemma reads_as_steps: "reads_as E w (map step_of w)"
proof (induction w)
  case (Cons ev w)
  have "spells E [XEvent 0 0 (EvText (Inr t))] t" for t
    using spells_text [OF spells_Nil, of E 0 0 t] by simp
  from as_text [OF Cons this] Cons show ?case by (cases ev) (auto intro: reads_as.intros)
qed simp

lemma ns_reads_as_steps: "ns_reads_as ns w (map (ns_step_of ns) w)"
proof (induction w)
  case Nil
  then show ?case by (simp add: ns_as_Nil)
next
  case (Cons ev w)
  have attrs: "list_all2 ns_attr_of ats (map unbound_attr ats)" for ats
    by (auto simp: list_all2_map2 ns_attr_of_def unbound_attr_def intro!: list.rel_refl)
  show ?case
    using ns_as_text [OF Cons, of "[NsEvent Unbound NsOther]"] Cons attrs by (cases ev) (auto intro: ns_reads_as.intros)
qed

end
