(* ===== verification/Exchange_Sample.thy ===== *)
theory Exchange_Sample
  imports Api Outbound_Shape Written
begin

text \<open>
  A concrete environment for exchanges of the facade: two peers with metadata, the sample response of
  \<open>Flow\<close> and logout messages, a crate \<open>url\<close> that accepts every text and a back end whose signature of an
  octet string is the octet string itself. The witnesses of the facade's properties run in it.
\<close>

section \<open>The environment\<close>

definition sp_text :: string where
  "sp_text = ''<E><D><A/><L/></D></E>''"

definition sp_steps :: "xml_step list" where
  "sp_steps =
     [XEvent 0 3 (EvStart ''EntityDescriptor'' [AttrItem ''entityID'' (Inr ''sp'') False]),
      XEvent 3 6 (EvStart ''SPSSODescriptor'' []),
      XEvent 6 10 (EvEmpty ''AssertionConsumerService''
        [AttrItem ''Binding'' (Inr (binding_urn SimpleSign)) False, AttrItem ''Location'' (Inr ''acs'') False]),
      XEvent 10 14 (EvEmpty ''SingleLogoutService''
        [AttrItem ''Binding'' (Inr (binding_urn Redirect)) False, AttrItem ''Location'' (Inr ''slo'') False]),
      XEvent 14 18 EvEnd, XEvent 18 22 EvEnd]"

definition sp_ns :: "ns_step list" where
  "sp_ns = [NsEvent (Bound NS_METADATA) (NsStart ''EntityDescriptor'' []), NsEvent (Bound NS_METADATA) NsEnd]"

definition sso_octet :: string where
  "sso_octet = build_simplesign_octet ''SAMLResponse'' sso_text None ''a''"

definition slo_ns :: "ns_step list" where
  "slo_ns =
     [NsEvent (Bound NS_PROTOCOL) (NsStart ''LogoutResponse'' slo_attrs), NsEvent (Bound NS_ASSERTION) (NsStart ''Issuer'' []),
      NsEvent Unbound NsOther, NsEvent (Bound NS_ASSERTION) NsEnd, NsEvent (Bound NS_PROTOCOL) (NsStart ''Status'' []),
      NsEvent (Bound NS_PROTOCOL) (NsEmpty ''StatusCode'' [NsAttr ''Value'' False Unbound ''Value'' (Inr STATUS_SUCCESS)]),
      NsEvent (Bound NS_PROTOCOL) NsEnd, NsEvent (Bound NS_PROTOCOL) NsEnd]"

text \<open>The sample LogoutResponse as written events, and the query of its signed redirect.\<close>

definition slo_events :: xml_writer where
  "slo_events =
     [WStart ''samlp:LogoutResponse'' [(''xmlns:samlp'', NS_PROTOCOL), (''xmlns:saml'', NS_ASSERTION), (''ID'', ''_3''),
        (''Version'', ''2.0''), (''IssueInstant'', ''2024-01-01T00:00:00Z''), (''Destination'', ''slo''), (''InResponseTo'', ''_r'')],
      WStart ''saml:Issuer'' [], WText ''idp'', WEnd ''saml:Issuer'', WStart ''samlp:Status'' [],
      WEmpty ''samlp:StatusCode'' [(''Value'', STATUS_SUCCESS)], WEnd ''samlp:Status'', WEnd ''samlp:LogoutResponse'']"

definition slo_octet :: string where
  "slo_octet = ''SAMLResponse=Q0Q=&SigAlg='' @ RSA_SHA256"

definition slo_url :: string where
  "slo_url = ''slo?'' @ slo_octet @ ''&Signature=T0NU''"

text \<open>The AuthnRequest of the sample service provider: the events written and their text.\<close>

definition request_text :: string where
  "request_text = ''<Q><I/><P/></Q>''"

definition request_attrs :: "(string \<times> string) list" where
  "request_attrs =
     [(''ID'', ''_u''), (''Version'', ''2.0''), (''IssueInstant'', ''2024-01-01T00:00:00Z''), (''Destination'', ''sso''),
      (''ProtocolBinding'', binding_urn SimpleSign), (''AssertionConsumerServiceURL'', ''acs'')]"

definition request_events :: xml_writer where
  "request_events =
     [WStart ''samlp:AuthnRequest'' ([(''xmlns:samlp'', NS_PROTOCOL), (''xmlns:saml'', NS_ASSERTION)] @ request_attrs),
      WStart ''saml:Issuer'' [], WText ''sp'', WEnd ''saml:Issuer'',
      WEmpty ''samlp:NameIDPolicy'' [(''Format'', []), (''AllowCreate'', ''false'')], WEnd ''samlp:AuthnRequest'']"

text \<open>A LogoutRequest of the sample service provider.\<close>

definition logout_text :: string where
  "logout_text = ''<L><I/><N/></L>''"

definition logout_attrs :: "(string \<times> string) list" where
  "logout_attrs = [(''ID'', ''_u''), (''Version'', ''2.0''), (''IssueInstant'', ''2024-01-01T00:00:00Z''), (''Destination'', ''slo'')]"

definition logout_events :: xml_writer where
  "logout_events =
     [WStart ''samlp:LogoutRequest'' ([(''xmlns:samlp'', NS_PROTOCOL), (''xmlns:saml'', NS_ASSERTION)] @ logout_attrs),
      WStart ''saml:Issuer'' [], WText ''sp'', WEnd ''saml:Issuer'',
      WStart ''saml:NameID'' [(''Format'', [])], WText ''user'', WEnd ''saml:NameID'',
      WStart ''samlp:SessionIndex'' [], WText ''s1'', WEnd ''samlp:SessionIndex'',
      WStart ''samlp:SessionIndex'' [], WText ''s2'', WEnd ''samlp:SessionIndex'', WEnd ''samlp:LogoutRequest'']"

text \<open>Metadata of an identity provider with endpoints for the HTTP-POST binding.\<close>

definition post_text :: string where
  "post_text = ''<E><P/></E>''"

definition post_steps :: "xml_step list" where
  "post_steps =
     [XEvent 0 3 (EvStart ''EntityDescriptor'' [AttrItem ''entityID'' (Inr ''idp'') False]),
      XEvent 3 4 (EvStart ''IDPSSODescriptor'' []),
      XEvent 4 5 (EvEmpty ''SingleSignOnService''
        [AttrItem ''Binding'' (Inr (binding_urn Post)) False, AttrItem ''Location'' (Inr ''sso'') False]),
      XEvent 5 6 (EvEmpty ''SingleLogoutService''
        [AttrItem ''Binding'' (Inr (binding_urn Post)) False, AttrItem ''Location'' (Inr ''slo'') False]),
      XEvent 6 7 EvEnd, XEvent 7 11 EvEnd]"

definition exchange_flow :: "unit flow_ext" where
  "exchange_flow = sample_flow_ext
     \<lparr>xml_read := (\<lambda>s. if s = meta_text then meta_steps else if s = sp_text then sp_steps
        else if s = slo_text then slo_steps else if s = request_text then map step_of request_events else if s = logout_text then map step_of logout_events
        else if s = post_text then post_steps else xml_read sample_flow_ext s),
      ns_read := (\<lambda>n s. if s = slo_text then slo_ns
        else if s = request_text then map (ns_step_of (protocol_namespace ''samlp'')) request_events
        else if s = logout_text then map (ns_step_of (protocol_namespace ''samlp'')) logout_events
        else ns_read sample_flow_ext n s),
      ns_read_default := (\<lambda>s. if s = meta_text then meta_ns else sp_ns),
      b64_decode := (\<lambda>s. if s = ''U0lH'' then Inr sso_octet else if s = ''UkVT'' then Inr slo_text
        else if s = ''PFE+PEkvPjxQLz48L1E+'' then Inr request_text else if s = ''PEw+PEkvPjxOLz48L0w+'' then Inr logout_text
        else if s = ''Q0Q='' then Inr ''CD'' else if s = ''T0NU'' then Inr slo_octet else b64_decode sample_flow_ext s),
      b64_encode := (\<lambda>s. if s = request_text then ''PFE+PEkvPjxQLz48L1E+''
        else if s = logout_text then ''PEw+PEkvPjxOLz48L0w+'' else if s = ''CD'' then ''Q0Q=''
        else if s = slo_octet then ''T0NU'' else ''QUI=''),
      deflate_encode := (\<lambda>s. Inr (if s = slo_text then ''CD'' else ''AB'')), inflate_call := sample_stream slo_text,
      form_byte_serialize := filter (\<lambda>c. c \<noteq> CHR ''&''),
      form_parse := (\<lambda>s. [(''SAMLResponse'', ''Q0Q=''), (''SigAlg'', RSA_SHA256)] @ (if s = slo_octet then [] else [(''Signature'', ''T0NU'')])),
      load_x509_cert_pem := (\<lambda>_. Inr ()), url_parse := (\<lambda>_. Inr (''https'', True))\<rparr>"

definition exchange_ext :: "unit url_ext" where
  "exchange_ext = out_ext.extend
     (flow_ext.extend exchange_flow \<lparr>xml_write = (\<lambda>w. if w = request_events then request_text
       else if w = logout_events then logout_text else if w = slo_events then slo_text else sso_text), out_read = (\<lambda>_. slo_out), crypto_enabled = True\<rparr>)
     \<lparr>url_query_pairs = (\<lambda>s. [(if s = slo_url then ''SAMLResponse'' else ''SAMLRequest'', ''x'')])\<rparr>"

lemma sample_texts [simp]:
  "sp_text \<noteq> meta_text" "sp_text \<noteq> sso_text" "sp_text \<noteq> slo_text" "sp_text \<noteq> request_text"
  "sp_text \<noteq> logout_text" "sp_text \<noteq> post_text" "meta_text \<noteq> sp_text"
  "meta_text \<noteq> sso_text" "meta_text \<noteq> slo_text" "meta_text \<noteq> request_text"
  "meta_text \<noteq> logout_text" "meta_text \<noteq> post_text" "sso_text \<noteq> sp_text"
  "sso_text \<noteq> meta_text" "sso_text \<noteq> slo_text" "sso_text \<noteq> request_text"
  "sso_text \<noteq> logout_text" "sso_text \<noteq> post_text" "slo_text \<noteq> sp_text"
  "slo_text \<noteq> meta_text" "slo_text \<noteq> sso_text" "slo_text \<noteq> request_text"
  "slo_text \<noteq> logout_text" "slo_text \<noteq> post_text" "request_text \<noteq> sp_text"
  "request_text \<noteq> meta_text" "request_text \<noteq> sso_text" "request_text \<noteq> slo_text"
  "request_text \<noteq> logout_text" "request_text \<noteq> post_text" "logout_text \<noteq> sp_text"
  "logout_text \<noteq> meta_text" "logout_text \<noteq> sso_text" "logout_text \<noteq> slo_text"
  "logout_text \<noteq> request_text" "logout_text \<noteq> post_text" "post_text \<noteq> sp_text"
  "post_text \<noteq> meta_text" "post_text \<noteq> sso_text" "post_text \<noteq> slo_text"
  "post_text \<noteq> request_text" "post_text \<noteq> logout_text" "''<C/>'' \<noteq> meta_text"
  "''<C/>'' \<noteq> sp_text" "''<C/>'' \<noteq> slo_text" "''<C/>'' \<noteq> request_text"
  "''<C/>'' \<noteq> logout_text" "''<C/>'' \<noteq> post_text" "''<A><C/></A>'' \<noteq> meta_text"
  "''<A><C/></A>'' \<noteq> sp_text" "''<A><C/></A>'' \<noteq> slo_text" "''<A><C/></A>'' \<noteq> request_text"
  "''<A><C/></A>'' \<noteq> logout_text" "''<A><C/></A>'' \<noteq> post_text" "''AB'' \<noteq> request_text" "''CD'' \<noteq> request_text" "''CD'' \<noteq> logout_text" "sso_text \<noteq> ''CD''" "slo_text \<noteq> ''CD''"
  "''AB'' \<noteq> logout_text" "slo_octet \<noteq> request_text" "slo_octet \<noteq> logout_text" "slo_octet \<noteq> ''CD''" "''AB'' \<noteq> slo_octet"
  "sso_text \<noteq> slo_octet" "slo_text \<noteq> slo_octet"
  by (simp_all add: sp_text_def meta_text_def sso_text_def slo_text_def request_text_def logout_text_def post_text_def slo_octet_def)

lemma exchange_simps [simp]:
  "xml_read exchange_ext s =
     (if s = meta_text then meta_steps else if s = sp_text then sp_steps
      else if s = slo_text then slo_steps else if s = request_text then map step_of request_events
      else if s = logout_text then map step_of logout_events else if s = post_text then post_steps else xml_read sample_flow_ext s)"
  "ns_read exchange_ext n s = (if s = slo_text then slo_ns
      else if s = request_text then map (ns_step_of (protocol_namespace ''samlp'')) request_events
      else if s = logout_text then map (ns_step_of (protocol_namespace ''samlp'')) logout_events else ns_read sample_flow_ext n s)"
  "ns_read_default exchange_ext s = (if s = meta_text then meta_ns else sp_ns)"
  "b64_decode exchange_ext s =
     (if s = ''U0lH'' then Inr sso_octet else if s = ''UkVT'' then Inr slo_text
      else if s = ''PFE+PEkvPjxQLz48L1E+'' then Inr request_text else if s = ''PEw+PEkvPjxOLz48L0w+'' then Inr logout_text
      else if s = ''Q0Q='' then Inr ''CD'' else if s = ''T0NU'' then Inr slo_octet else b64_decode sample_flow_ext s)"
  "b64_encode exchange_ext s = (if s = request_text then ''PFE+PEkvPjxQLz48L1E+''
      else if s = logout_text then ''PEw+PEkvPjxOLz48L0w+'' else if s = ''CD'' then ''Q0Q=''
      else if s = slo_octet then ''T0NU'' else ''QUI='')" "deflate_encode exchange_ext s = Inr (if s = slo_text then ''CD'' else ''AB'')"
  "inflate_call exchange_ext = sample_stream slo_text" "form_byte_serialize exchange_ext s = filter (\<lambda>c. c \<noteq> CHR ''&'') s"
  "form_parse exchange_ext s =
     [(''SAMLResponse'', ''Q0Q=''), (''SigAlg'', RSA_SHA256)] @ (if s = slo_octet then [] else [(''Signature'', ''T0NU'')])"
  "schema_validator exchange_ext = None" "rfc3339_parse exchange_ext = rfc3339_parse sample_time"
  "odt_checked_add exchange_ext = (\<lambda>x d. Some (Odt (odt_ns x + d)))" "duration_try_from exchange_ext = (\<lambda>k. Some (int k))"
  "odt_civil exchange_ext = odt_civil sample_time"
  "initialize_backend exchange_ext = Inr \<lparr>bs_document = BackendAwsLc, bs_fips = FipsDisabled\<rparr>"
  "load_x509_cert_pem exchange_ext p = Inr ()" "load_pem_auto exchange_ext p w = Inr ()"
  "to_signing_key exchange_ext k = Inr (Some ())" "sign_from_uri exchange_ext a = Inr ()"
  "alg_sign exchange_ext a k s = Inr s" "alg_verify exchange_ext a k s t = Inr (s = t)"
  "ns_normalize exchange_ext = Inr" "url_parse exchange_ext s = Inr (''https'', True)"
  "xml_write exchange_ext evs = (if evs = request_events then request_text
      else if evs = logout_events then logout_text else if evs = slo_events then slo_text else sso_text)" "out_read exchange_ext s = slo_out" "crypto_enabled exchange_ext"
  "url_query_pairs exchange_ext s = [(if s = slo_url then ''SAMLResponse'' else ''SAMLRequest'', ''x'')]"
  by (auto simp: exchange_ext_def exchange_flow_def out_ext.defs flow_ext.defs sample_flow_ext_def crypto_ext.defs
      sample_crypto_def wire_ext.defs sample_wire_def ns_ext.defs sample_ns_def net_ext.defs sample_net_def xml_ext.defs
      sample_xml_def time_ext.defs sample_time_def fun_eq_iff)

lemma exchange_reads: "reads_sample exchange_ext" "reads_meta exchange_ext"
proof -
  have "(\<lambda>s. rfc3339_parse sample_flow_ext s) = rfc3339_parse sample_time" by (rule ext) simp
  then show "reads_sample exchange_ext" "reads_meta exchange_ext"
    using sample_flow_reads by (simp_all add: reads_sample_def reads_meta_def)
qed

lemma exchange_time: "time_laws exchange_ext" "offset_datetime_from_system_time exchange_ext (SysTime 0) = Inr (Odt 0)"
  by (simp_all add: time_laws_def offset_datetime_from_system_time_def since_unix_epoch_def unix_epoch_def)

section \<open>The peers\<close>

definition idp_descriptor_sample :: idp_descriptor where
  "idp_descriptor_sample = \<lparr>pd_entity_id = EntityId ''idp'', pd_metadata_xml = meta_text,
     pd_metadata = IdpMetadata meta_model, pd_trust = AppliedUnsigned\<rparr>"

lemma idp_sample_xml: "idp_from_xml exchange_ext meta_text = Inr (IdpMetadata meta_model)"
  by (simp add: idp_from_xml_def idp_from_xml_with_limits_def meta_idp [OF exchange_reads(2)])

lemma idp_sample_import:
  "idp_from_metadata_xml_for exchange_ext (EntityId ''idp'') meta_text UnsignedForCompatibility = Inr idp_descriptor_sample"
proof -
  have "\<not> is_blank ''idp''" by code_simp
  then show ?thesis
    by (simp add: idp_from_metadata_xml_for_def idp_sample_xml metadata_entity_id_def meta_idp [OF exchange_reads(2)]
        ensure_expected_entity_id_def validate_entity_id_def validate_entity_id_text_def ensure_metadata_trust_def
        idp_descriptor_sample_def)
qed

definition sp_value :: saml_value where
  "sp_value = VObject
     [(''entityID'', VStr ''sp''), (''sharedCertificate'', VNull),
      (''certificate'', VObject [(''signing'', VArray []), (''encryption'', VArray [])]),
      (''singleLogoutService'', VObject [(''binding'', VStr (binding_urn Redirect)), (''location'', VStr ''slo'')]),
      (''nameIDFormat'', VNull), (''spSSODescriptor'', VObject []),
      (''assertionConsumerService'', VObject [(''binding'', VStr (binding_urn SimpleSign)), (''location'', VStr ''acs'')])]"

definition sp_model :: metadata where
  "sp_model = \<lparr>md_xml = sp_text, md_meta = sp_value, md_valid_until = None\<rparr>"

definition sp_role :: node where
  "sp_role = Node ''SPSSODescriptor'' []
     [Node ''AssertionConsumerService'' [(''Binding'', binding_urn SimpleSign), (''Location'', ''acs'')] [] [] 6 10,
      Node ''SingleLogoutService'' [(''Binding'', binding_urn Redirect), (''Location'', ''slo'')] [] [] 10 14] [] 3 18"

definition sp_tree :: node where
  "sp_tree = Node ''EntityDescriptor'' [(''entityID'', ''sp'')] [sp_role] [] 0 22"

lemma sp_parse:
  "parse_with_limits exchange_ext sp_text xml_limits_default = Inr sp_tree"
  "parse_roots_with_limits exchange_ext sp_text xml_limits_default = Inr [sp_tree]"
  unfolding parse_roots_with_limits_def parse_with_limits_Inr parse_roots_inner_Inr
  by (simp_all add: sp_steps_def dom_eval sp_tree_def sp_role_def) (simp_all add: sp_text_def)

lemma sp_camel: "camel_case ''Binding'' = ''binding''" "camel_case ''Location'' = ''location''"
  by code_simp+

lemma sp_sample_xml: "sp_from_xml exchange_ext sp_text = Inr (SpMetadata sp_model)"
proof -
  let ?flds = "map (field_for_role ''SPSSODescriptor'') (base_fields @ sp_extra_fields)"
  have plain: "\<forall>f \<in> set ?flds. f_shortcut f = None"
    by (auto simp: base_fields_def sp_extra_fields_def field_simps field_for_role_def)
  have x: "extract_with_limits exchange_ext sp_text ?flds xml_limits_default =
      Inr (VObject (map (\<lambda>f. (f_key f, extract_field sp_text sp_tree f)) ?flds))"
    by (rule extract_plain [OF sp_parse(1) plain])
  have r: "role_children sp_tree (Some ''SPSSODescriptor'') = [sp_role]" "local_name sp_tree = ''EntityDescriptor''"
    by (simp_all add: role_children_def sp_tree_def sp_role_def)
  have e: "effective_expiration exchange_ext sp_tree [sp_role] = Inr None"
    by (simp add: effective_expiration_def sp_tree_def sp_role_def node_attr_def)
  have c: "certificates_for_roles [sp_role] = Inr (VObject [(''signing'', VArray []), (''encryption'', VArray [])])"
    by (simp add: certificates_for_roles_def sp_role_def children_named_def)
  have n: "validate_metadata_namespaces exchange_ext sp_text = Inr ()"
    by (simp add: validate_metadata_namespaces_def sp_ns_def signature_namespace_def metadata_element_ok_def
        metadata_vocabulary_def stack_parent_def)
  have v: "insert_key (VObject (map (\<lambda>f. (f_key f, extract_field sp_text sp_tree f)) ?flds)) ''certificate''
      (VObject [(''signing'', VArray []), (''encryption'', VArray [])]) = sp_value"
    by (simp add: base_fields_def sp_extra_fields_def field_for_role_def field_simps extract_field_def sp_tree_def
        sp_role_def seg_matches_def strip_prefix_def node_attr_def select_step_def sp_value_def aggregate_def
        zip_object_def descend_def aggregate_values_def one_or_array_def attr_object_def sp_camel)
  show ?thesis
    using x r e c n v
    by (simp add: sp_from_xml_def sp_from_xml_with_limits_def parse_for_role_with_limits_def sp_parse
        standalone_entity_def sp_model_def del: map_append map_map insert_key.simps)
qed

section \<open>A peer with the HTTP-POST binding\<close>

definition post_value :: saml_value where
  "post_value = VObject
     [(''entityID'', VStr ''idp''), (''sharedCertificate'', VNull),
      (''certificate'', VObject [(''signing'', VArray []), (''encryption'', VArray [])]),
      (''singleLogoutService'', VObject [(''binding'', VStr (binding_urn Post)), (''location'', VStr ''slo'')]),
      (''nameIDFormat'', VNull), (''wantAuthnRequestsSigned'', VNull),
      (''singleSignOnService'', VObject [(binding_urn Post, VStr ''sso'')])]"

definition post_model :: metadata where
  "post_model = \<lparr>md_xml = post_text, md_meta = post_value, md_valid_until = None\<rparr>"

definition post_role :: node where
  "post_role = Node ''IDPSSODescriptor'' []
     [Node ''SingleSignOnService'' [(''Binding'', binding_urn Post), (''Location'', ''sso'')] [] [] 4 5,
      Node ''SingleLogoutService'' [(''Binding'', binding_urn Post), (''Location'', ''slo'')] [] [] 5 6] [] 3 7"

definition post_tree :: node where
  "post_tree = Node ''EntityDescriptor'' [(''entityID'', ''idp'')] [post_role] [] 0 11"

lemma post_parse:
  "parse_with_limits exchange_ext post_text xml_limits_default = Inr post_tree"
  "parse_roots_with_limits exchange_ext post_text xml_limits_default = Inr [post_tree]"
  unfolding parse_roots_with_limits_def parse_with_limits_Inr parse_roots_inner_Inr
  by (simp_all add: post_steps_def dom_eval post_tree_def post_role_def) (simp_all add: post_text_def)

lemma post_sample_xml: "idp_from_xml exchange_ext post_text = Inr (IdpMetadata post_model)"
proof -
  let ?flds = "map (field_for_role ''IDPSSODescriptor'') (base_fields @ idp_extra_fields)"
  have plain: "\<forall>f \<in> set ?flds. f_shortcut f = None"
    by (auto simp: base_fields_def idp_extra_fields_def field_simps field_for_role_def)
  have x: "extract_with_limits exchange_ext post_text ?flds xml_limits_default =
      Inr (VObject (map (\<lambda>f. (f_key f, extract_field post_text post_tree f)) ?flds))"
    by (rule extract_plain [OF post_parse(1) plain])
  have r: "role_children post_tree (Some ''IDPSSODescriptor'') = [post_role]" "local_name post_tree = ''EntityDescriptor''"
    by (simp_all add: role_children_def post_tree_def post_role_def)
  have e: "effective_expiration exchange_ext post_tree [post_role] = Inr None"
    by (simp add: effective_expiration_def post_tree_def post_role_def node_attr_def)
  have c: "certificates_for_roles [post_role] = Inr (VObject [(''signing'', VArray []), (''encryption'', VArray [])])"
    by (simp add: certificates_for_roles_def post_role_def children_named_def)
  have n: "validate_metadata_namespaces exchange_ext post_text = Inr ()"
    by (simp add: validate_metadata_namespaces_def sp_ns_def signature_namespace_def metadata_element_ok_def
        metadata_vocabulary_def stack_parent_def)
  have v: "insert_key (VObject (map (\<lambda>f. (f_key f, extract_field post_text post_tree f)) ?flds)) ''certificate''
      (VObject [(''signing'', VArray []), (''encryption'', VArray [])]) = post_value"
    by (simp add: base_fields_def idp_extra_fields_def field_for_role_def field_simps extract_field_def post_tree_def
        post_role_def seg_matches_def strip_prefix_def node_attr_def select_step_def post_value_def aggregate_def
        zip_object_def zip_step_def str_or_empty_def descend_def aggregate_values_def one_or_array_def attr_object_def sp_camel)
  show ?thesis
    using x r e c n v
    by (simp add: idp_from_xml_def idp_from_xml_with_limits_def parse_for_role_with_limits_def post_parse
        standalone_entity_def post_model_def del: map_append map_map insert_key.simps)
qed

definition post_descriptor :: idp_descriptor where
  "post_descriptor = \<lparr>pd_entity_id = EntityId ''idp'', pd_metadata_xml = post_text,
     pd_metadata = IdpMetadata post_model, pd_trust = AppliedUnsigned\<rparr>"

end
