(* ===== verification/Facade.thy ===== *)
theory Facade
  imports Exchange_Sample
begin

text \<open>
  What the facade of \<open>src/src/api/\<close> guarantees: outbound actions carry what the peer reads back, responses
  go only to registered endpoints, a started request and its pending state fit together, a finished
  exchange answers its request and completes once.
\<close>

section \<open>Outbound actions\<close>

lemma outbound_from_context_Inr:
  assumes "outbound_from_context E c redirect f = Inr a"
  shows "ob_raw_context a = c" "ob_id a = MessageId (bc_id c)" "bc_request_type c = param_name f"
    "map_option relay_state_str (ob_relay_state a) = bc_relay_state c"
  using assms
  by (auto simp: outbound_from_context_def validate_context_message_kind_def rbind_Inr_iff message_id_try_new_def
      rel.opt_try_new split: if_splits binding.splits)

lemma outbound_try_from_eq:
  "outbound_try_from E t c = outbound_from_context E c (t \<noteq> SamlResponse) (message_field_of t)"
  by (cases t) simp_all

lemma outbound_try_from_Inr:
  assumes "outbound_try_from E t c = Inr a"
  shows "ob_raw_context a = c" "ob_id a = MessageId (bc_id c)" "bc_request_type c = query_param t"
    "map_option relay_state_str (ob_relay_state a) = bc_relay_state c"
  using outbound_from_context_Inr [OF assms [unfolded outbound_try_from_eq]] by (simp_all add: param_name_of)

lemma http_request_for_eq:
  "http_request_for E t input = http_request_from_input E input (t \<noteq> SamlResponse) (message_field_of t)"
  by (cases t) simp_all

lemma outbound_form_fields:
  assumes "outbound_try_from E t c = Inr a" "outbound_post_form a = Inr form"
  shows "bc_binding c \<in> {Post, SimpleSign}" "endpoint_url_try_new E (bc_entity_endpoint c) = Inr (pf_action form)"
    "pf_fields form = [(query_param t, bc_context c)]
       @ (case bc_relay_state c of Some r \<Rightarrow> [(''RelayState'', r)] | None \<Rightarrow> [])
       @ (case (bc_sig_alg c, bc_signature c) of (Some alg, Some sig) \<Rightarrow> [(''SigAlg'', alg), (''Signature'', sig)] | _ \<Rightarrow> [])"
    "bc_sig_alg c = None \<longleftrightarrow> bc_signature c = None"
  using assms outbound_try_from_Inr(3) [OF assms(1)]
  by (auto simp: outbound_try_from_eq outbound_from_context_def rbind_Inr_iff outbound_post_form_def
      post_form_from_context_def post_form_new_def reject_detached_signature_for_post_def
      require_complete_detached_signature_def reject_partial_detached_signature_def str_or_empty_def
      split: if_splits binding.splits option.splits)

definition form_of :: "string \<Rightarrow> string \<Rightarrow> string option \<Rightarrow> string option \<Rightarrow> string option \<Rightarrow> form_field list" where
  "form_of name m relay alg sig =
     [(name, m)] @ (case relay of Some r \<Rightarrow> [(''RelayState'', r)] | None \<Rightarrow> [])
     @ (case (alg, sig) of (Some a, Some s) \<Rightarrow> [(''SigAlg'', a), (''Signature'', s)] | _ \<Rightarrow> [])"

lemma form_of_values:
  assumes "alg = None \<longleftrightarrow> sig = None"
  shows "single_param (form_of (query_param t) m relay alg sig) (query_param t) = Inr (Some m)"
    "single_param (form_of (query_param t) m relay alg sig) ''RelayState'' = Inr relay"
    "single_param (form_of (query_param t) m relay alg sig) ''SigAlg'' = Inr alg"
    "single_param (form_of (query_param t) m relay alg sig) ''Signature'' = Inr sig"
    "single_param (form_of (query_param t) m relay alg sig) (opposite_param_name (message_field_of t)) = Inr None"
  using assms
  by (cases t; cases relay; cases alg; cases sig; simp add: form_of_def single_param_def unique_value_def)+

lemma outbound_form_request:
  assumes "outbound_try_from E t c = Inr a" "outbound_post_form a = Inr form"
  shows "http_request_for E t (InPost (pf_fields form)) = Inr (http_request_post (pf_fields form))"
    "body_get (http_request_post (pf_fields form)) (query_param t) = Inr (Some (bc_context c))"
    "body_get (http_request_post (pf_fields form)) ''RelayState'' = Inr (bc_relay_state c)"
    "body_get (http_request_post (pf_fields form)) ''SigAlg'' = Inr (bc_sig_alg c)"
    "body_get (http_request_post (pf_fields form)) ''Signature'' = Inr (bc_signature c)"
    "relay_state_from_input E (InPost (pf_fields form)) = relay_param_try_from_option (bc_relay_state c)"
proof -
  note f = outbound_form_fields [OF assms]
  have fs: "pf_fields form = form_of (query_param t) (bc_context c) (bc_relay_state c) (bc_sig_alg c) (bc_signature c)"
    using f(3) by (simp add: form_of_def)
  have p: "param_name (message_field_of t) = query_param t" by (rule param_name_of)
  note v = form_of_values [OF f(4), of t "bc_context c" "bc_relay_state c"]
  have "validate_form_message_kind (pf_fields form) (message_field_of t) = Inr (bc_context c)"
    using v(1,5) by (simp add: validate_form_message_kind_def fs p unique_encoded_eq [THEN iffD2])
  then show "http_request_for E t (InPost (pf_fields form)) = Inr (http_request_post (pf_fields form))"
    by (simp add: http_request_for_eq http_request_from_input_def)
  show "relay_state_from_input E (InPost (pf_fields form)) = relay_param_try_from_option (bc_relay_state c)"
    by (cases t) (auto simp: first_field_def fs form_of_def split: option.splits)
  show "body_get (http_request_post (pf_fields form)) (query_param t) = Inr (Some (bc_context c))"
    "body_get (http_request_post (pf_fields form)) ''RelayState'' = Inr (bc_relay_state c)"
    "body_get (http_request_post (pf_fields form)) ''SigAlg'' = Inr (bc_sig_alg c)"
    "body_get (http_request_post (pf_fields form)) ''Signature'' = Inr (bc_signature c)"
    using v by (simp_all add: body_get_def http_request_post_def fs)
qed

text \<open>
  C17: the form of an outbound message is what the receiver reads: posted back to the library, its fields are
  an unambiguous message of the kind sent, with exactly the context, RelayState and detached signature
  the sender put in, and the form goes to the endpoint of the context, an absolute HTTP(S) URL.
\<close>

theorem outbound_form_read_back:
  assumes "outbound_try_from E t c = Inr a" "outbound_post_form a = Inr form"
  shows "\<exists>r. http_request_for E t (InPost (pf_fields form)) = Inr r
      \<and> body_get r (query_param t) = Inr (Some (bc_context c))
      \<and> body_get r ''RelayState'' = Inr (bc_relay_state c)
      \<and> body_get r ''SigAlg'' = Inr (bc_sig_alg c) \<and> body_get r ''Signature'' = Inr (bc_signature c)
      \<and> endpoint_url_str (pf_action form) = bc_entity_endpoint c \<and> http_url E (bc_entity_endpoint c)"
  using outbound_form_request [OF assms] url.try_new_keeps [OF outbound_form_fields(2) [OF assms]] by auto

section \<open>Where responses go\<close>

lemma create_login_response_inner_Inr:
  assumes "create_login_response_inner E env idp sp b u opts ov = Inr c"
  shows "bc_binding c = b" "bc_relay_state c = ro_relay_state opts"
    "(case ov_acs ov of Some acs \<Rightarrow> Some acs | None \<Rightarrow> get_assertion_consumer_service (spr_metadata sp) b)
       = Some (bc_entity_endpoint c)"
  using assms
  by (auto simp: create_login_response_inner_def rbind_Inr_iff ok_or_Inr_iff split: if_splits option.splits)

lemma acs_by_index_endpoint:
  "get_assertion_consumer_service_by_index m i = Inr (Some e) \<Longrightarrow>
     e \<in> set (assertion_consumer_service_endpoints m) \<and> am_index e = Some i"
  by (auto simp: get_assertion_consumer_service_by_index_def filter_eq_Cons_iff split: list.splits)

lemma acs_for_binding_registered:
  "get_assertion_consumer_service m b = Some l \<Longrightarrow> has_assertion_consumer_service m b l"
  by (auto simp: get_assertion_consumer_service_def get_assertion_consumer_service_endpoint_def
      has_assertion_consumer_service_def find_Some_iff list_ex_iff)

lemma response_target_Inr:
  assumes "response_target sp request b = Inr (b', acs)"
  shows "b' = b"
    "acs = Some l \<Longrightarrow> has_assertion_consumer_service (spr_metadata sp) (sso_response_as_binding b) l"
    "ar_acs_url request = Some u \<Longrightarrow> acs = Some (endpoint_url_str u)"
    "ar_acs_index request = Some i \<Longrightarrow>
       \<exists>e \<in> set (assertion_consumer_service_endpoints (spr_metadata sp)).
         am_index e = Some i \<and> acs = Some (am_location e)"
  using assms
  by (auto simp: response_target_def rbind_Inr_iff ok_or_Inr_iff unwrap_or_def has_assertion_consumer_service_def
      list_ex_iff resp.try_from_Inr Let_def dest!: acs_by_index_endpoint split: if_splits option.splits)

text \<open>
  C11: an identity provider answers an AuthnRequest only at an assertion consumer service that the metadata
  of the requesting service provider registers for the binding used: the form goes to that location,
  which is the requested URL when the request names one and the endpoint with the requested index when
  it names an index; the response carries the RelayState of the request unless the caller set another.
\<close>

theorem respond_sso_registered_endpoint:
  assumes "respond_sso E env idp sp request s opts = Inr a"
  shows "\<exists>raw_sp form. raw_sp_descriptor E sp = Inr raw_sp \<and> outbound_post_form a = Inr form
     \<and> has_assertion_consumer_service (spr_metadata raw_sp) (sso_response_as_binding (rs_binding opts))
         (endpoint_url_str (pf_action form))
     \<and> ar_issuer (rc_message request) = pd_entity_id sp
     \<and> (case ar_acs_url (rc_message request) of Some u \<Rightarrow> pf_action form = u | None \<Rightarrow> True)
     \<and> (case ar_acs_index (rc_message request) of
          Some i \<Rightarrow> \<exists>e. e \<in> set (assertion_consumer_service_endpoints (spr_metadata raw_sp))
            \<and> am_index e = Some i \<and> am_location e = endpoint_url_str (pf_action form)
        | None \<Rightarrow> True)
     \<and> map_option relay_state_str (ob_relay_state a)
         = relay_param_as_deref (unwrap_or (rs_relay_state opts) (rc_relay_state request))"
proof -
  define raw where "raw raw_sp = raw_sp\<lparr>spr_setting := (spr_setting raw_sp)\<lparr>es_want_message_signed :=
      should_sign_response opts (es_is_assertion_encrypted (idr_setting (sf_identity_provider idp)))
        (es_data_encryption_algorithm (idr_setting (sf_identity_provider idp)))\<rparr>\<rparr>" for raw_sp :: service_provider
  have raw: "spr_metadata (raw x) = spr_metadata x" for x by (simp add: raw_def)
  define relay where "relay = unwrap_or (rs_relay_state opts) (rc_relay_state request)"
  have relay: "(case rs_relay_state opts of Some r \<Rightarrow> r | None \<Rightarrow> rc_relay_state request) = relay"
    by (simp add: relay_def unwrap_or_def split: option.split)
  let ?lo = "\<lparr>ro_in_response_to = Some (message_id_str (ar_id (rc_message request))),
    ro_relay_state = relay_param_as_deref relay, ro_encrypt_then_sign = False, ro_custom = None\<rparr>"
  let ?ov = "\<lambda>acs. \<lparr>ov_acs = acs, ov_name_id_format = map_option name_id_format_uri (nid_format (sub_name_id s)),
    ov_issuance_lifetime = Some (sf_issuance_lifetime idp)\<rparr>"
  from assms obtain raw_sp acs b c where r: "raw_sp_descriptor E sp = Inr raw_sp"
      "ar_issuer (rc_message request) = pd_entity_id sp"
    and t0: "response_target (raw raw_sp) (rc_message request) (rs_binding opts) = Inr (b, acs)"
    and c0: "create_login_response_inner E env (sf_identity_provider idp) (raw raw_sp) (sso_response_as_binding b)
        (user_from_subject s) ?lo (?ov acs) = Inr c"
    and a: "outbound_try_from E SamlResponse c = Inr a"
    unfolding respond_sso_def issue_sso_def ensure_entity_id_def Let_def create_login_response_with_overrides_def
      raw_def [symmetric] option.case relay
    by (auto simp: rbind_Inr_iff split: if_splits simp del: outbound_try_from.simps)
  have b: "b = rs_binding opts" by (rule response_target_Inr(1) [OF t0])
  note t = t0 [unfolded b] and c = create_login_response_inner_Inr [OF c0, unfolded b raw, simplified]
  have kind: "\<exists>form. outbound_post_form a = Inr form"
    using a c(1) by (cases "rs_binding opts")
      (auto simp: outbound_from_context_def rbind_Inr_iff outbound_post_form_def)
  then obtain form where form: "outbound_post_form a = Inr form" ..
  have act: "pf_action form = EndpointUrl (bc_entity_endpoint c)"
    using outbound_form_fields(2) [OF a form] by (metis endpoint_url.exhaust_sel url.try_new_keeps)
  note tgt = response_target_Inr [OF t, unfolded raw]
  have acs: "acs = Some l \<Longrightarrow> l = bc_entity_endpoint c" for l using c(3) by simp
  have reg: "has_assertion_consumer_service (spr_metadata raw_sp) (sso_response_as_binding (rs_binding opts))
      (endpoint_url_str (pf_action form))"
    using tgt(2) c(3) acs_for_binding_registered by (cases acs) (simp_all add: act)
  have u: "case ar_acs_url (rc_message request) of Some u \<Rightarrow> pf_action form = u | None \<Rightarrow> True"
    using tgt(3) acs by (auto simp: act split: option.split)
  have idx: "case ar_acs_index (rc_message request) of
      Some i \<Rightarrow> \<exists>e. e \<in> set (assertion_consumer_service_endpoints (spr_metadata raw_sp))
        \<and> am_index e = Some i \<and> am_location e = endpoint_url_str (pf_action form)
    | None \<Rightarrow> True"
    using tgt(4) acs by (cases "ar_acs_index (rc_message request)") (auto simp: act)
  have rel: "map_option relay_state_str (ob_relay_state a) = relay_param_as_deref (unwrap_or (rs_relay_state opts) (rc_relay_state request))"
    using outbound_try_from_Inr(4) [OF a] c(2) by (simp add: relay_def)
  show ?thesis
    using r form reg u idx rel by blast
qed

section \<open>Completion\<close>

definition ends_no_later :: "('e) time_ext_scheme \<Rightarrow> 'd pending \<Rightarrow> 'd pending \<Rightarrow> bool" where
  "ends_no_later E p q \<longleftrightarrow>
     (\<forall>d e. completion_deadline E p = Inr (Some d) \<longrightarrow> completion_deadline E q = Inr (Some e) \<longrightarrow> d \<le> e)"

lemma required_expiration:
  "vc_replay v = RequireCache c \<Longrightarrow> require_pending_expiration v d = Inr () \<longleftrightarrow> (\<exists>t. d = Some t)"
  by (simp add: require_pending_expiration_def)

lemma pending_not_expired:
  assumes "pending_validate_at E p now = Inr ()" "completion_deadline E p = Inr (Some d)"
  shows "\<exists>n. offset_datetime_from_system_time E now = Inr n \<and> odt_ns n < odt_ns d"
  using assms
  by (auto simp: pending_validate_at_def completion_deadline_def less_eq_odt_def rbind_Inr_iff ok_or_Inr_iff opt_traverse_Inr_iff
      split: option.splits if_splits)

context retaining_cache
begin

text \<open>An operation that succeeds only before a deadline, and last stores its key until then.\<close>

definition completes :: "('e) time_ext_scheme \<Rightarrow> ('c validation_context \<Rightarrow> 'c validation_context \<times> 'r res) \<Rightarrow> replay_key \<Rightarrow>
    odt option res \<Rightarrow> bool" where
  "completes E f k deadline \<longleftrightarrow>
     (\<forall>v v' r c. f v = (v', Inr r) \<longrightarrow> vc_replay v = RequireCache c \<longrightarrow>
        (\<exists>d now u. deadline = Inr (Some d) \<and> offset_datetime_from_system_time E (vc_now v) = Inr now \<and> odt_ns now < odt_ns d
          \<and> keeps_context v u \<and> check_and_store_message_replay_until check_and_store u k (Some d) = (v', Inr ())))"

lemma until_store:
  assumes "check_and_store_message_replay_until check_and_store u k (Some d) = (v', Inr ())" "vc_replay u = RequireCache c"
  shows "store_in_context check_and_store u k (SysTime (odt_ns d)) = (v', Inr ())"
  using assms
  by (auto simp: check_and_store_message_replay_until_def system_time_from_offset_datetime_eq split: sum.splits if_splits)

lemma completes_once:
  assumes "completes E f k (completion_deadline E p)" "completes E g k (completion_deadline E q)" "ends_no_later E q p" "time_laws E"
    "f v = (v1, Inr r)" "vc_replay v = RequireCache c" "vc_replay v1 = RequireCache c1"
    "cache_run check_and_store deadlines cache_now c1 c2" "vc_replay w = RequireCache c2" "cache_now c2 \<le> vc_now w"
  shows "\<exists>e. snd (g w) = Inl e"
proof (rule ccontr)
  assume "\<not> (\<exists>e. snd (g w) = Inl e)"
  then obtain w' s where g: "g w = (w', Inr s)" by (metis prod.collapse sum.exhaust_sel)
  obtain u d where d: "completion_deadline E p = Inr (Some d)" "keeps_context v u"
    and st: "check_and_store_message_replay_until check_and_store u k (Some d) = (v1, Inr ())"
    using assms(1,5,6) unfolding completes_def by blast
  let ?t = "SysTime (odt_ns d)"
  from d(2) obtain cu where "vc_replay u = RequireCache cu" using assms(6) by (auto simp: keeps_context_def)
  from stored_retained [OF until_store [OF st this] this] assms(7) have "retained c1 (cache_key k) ?t" by auto
  then have k: "retained c2 (cache_key k) ?t" by (rule retained_run [OF assms(8)])
  from assms(2,9) g obtain e now x where e: "completion_deadline E q = Inr (Some e)"
    and now: "offset_datetime_from_system_time E (vc_now w) = Inr now" "odt_ns now < odt_ns e"
    and x: "keeps_context w x" "check_and_store_message_replay_until check_and_store x k (Some e) = (w', Inr ())"
    unfolding completes_def by blast
  from x(1) assms(9) k obtain cx where cx: "vc_replay x = RequireCache cx" "cache_now cx = cache_now c2"
    "retained cx (cache_key k) ?t" by (auto simp: keeps_context_def)
  from stored_expired [OF until_store [OF x(2) cx(1)] cx(1,3)] cx(2) assms(10) have "?t \<le> vc_now w" by simp
  moreover have "odt_ns e \<le> odt_ns d" using assms(3) d(1) e by (auto simp: ends_no_later_def less_eq_odt_def)
  ultimately show False
    using now offset_datetime_from_system_time_ns [OF assms(4) now(1)] by (simp add: less_eq_systime_def)
qed

lemma session_keeps_context:
  "sso_check_and_store_replay E check_and_store s v = (v', r) \<Longrightarrow> keeps_context v v'"
  by (auto simp: sso_check_and_store_replay_def intro: keeps_context_refl store_keys_keeps_context
      split: sum.splits replay_policy.splits if_splits)

lemma finish_sso_completes:
  "completes E (finish_sso E clk check_and_store sp idp p i) (CompletedAuthnRequestId (pe_id p)) (completion_deadline E p)"
  unfolding completes_def
proof (intro allI impI)
  fix v v' s c assume f: "finish_sso E clk check_and_store sp idp p i v = (v', Inr s)" and c: "vc_replay v = RequireCache c"
  from f c obtain u d where u: "sso_check_and_store_replay E check_and_store s v = (u, Inr ())"
    "check_and_store_message_replay_until check_and_store u (CompletedAuthnRequestId (pe_id p)) (Some d) = (v', Inr ())"
    and p: "pending_validate_at E p (vc_now v) = Inr ()" and d: "completion_deadline E p = Inr (Some d)"
    by (auto simp: finish_sso_def finish_sso_session_def rbind_Inr_iff required_expiration split: sum.splits prod.splits)
  show "\<exists>d now u. completion_deadline E p = Inr (Some d) \<and> offset_datetime_from_system_time E (vc_now v) = Inr now
      \<and> odt_ns now < odt_ns d \<and> keeps_context v u
      \<and> check_and_store_message_replay_until check_and_store u (CompletedAuthnRequestId (pe_id p)) (Some d) = (v', Inr ())"
    using session_keeps_context [OF u(1)] pending_not_expired [OF p d] d u(2) by blast
qed

lemma finish_slo_completes:
  "completes E (finish_slo_impl E clk check_and_store st md peer pmd p i) (CompletedLogoutRequestId (pe_id p)) (completion_deadline E p)"
  unfolding completes_def
proof (intro allI impI)
  fix v v' s c assume f: "finish_slo_impl E clk check_and_store st md peer pmd p i v = (v', Inr s)" and c: "vc_replay v = RequireCache c"
  from f c obtain u l d where u: "check_and_store_message_replay check_and_store v (LogoutResponseId l) = (u, Inr ())"
    "check_and_store_message_replay_until check_and_store u (CompletedLogoutRequestId (pe_id p)) (Some d) = (v', Inr ())"
    and p: "pending_validate_at E p (vc_now v) = Inr ()" and d: "completion_deadline E p = Inr (Some d)"
    by (auto simp: finish_slo_impl_def finish_slo_response_def rbind_Inr_iff required_expiration split: sum.splits prod.splits)
  show "\<exists>d now u. completion_deadline E p = Inr (Some d) \<and> offset_datetime_from_system_time E (vc_now v) = Inr now
      \<and> odt_ns now < odt_ns d \<and> keeps_context v u
      \<and> check_and_store_message_replay_until check_and_store u (CompletedLogoutRequestId (pe_id p)) (Some d) = (v', Inr ())"
    using message_keeps_context [OF u(1)] pending_not_expired [OF p d] d u(2) by blast
qed

end

text \<open>
  C3: a pending AuthnRequest is completed at most once, with any cache that keeps a key until the deadline it was
  stored with: after a response to it was accepted, and whatever other workers and time do to the cache, no
  input completes a pending request with the same identifier and no later deadline, at any service provider
  facade that shares the cache, whatever the peer and the message, as long as the clock of the cache is not
  ahead of the instant of validation. Keys may be dropped once they expire.
\<close>

theorem sso_completes_once:
  assumes "retaining_cache cas deadlines cache_now" "time_laws E"
    "finish_sso E clk cas sp idp pending input v = (v1, Inr s)" "vc_replay v = RequireCache c" "vc_replay v1 = RequireCache c1"
    "cache_run cas deadlines cache_now c1 c2" "vc_replay w = RequireCache c2" "cache_now c2 \<le> vc_now w"
    "pe_id pending' = pe_id pending" "ends_no_later E pending' pending"
  shows "\<exists>e. snd (finish_sso E clk' cas sp' idp' pending' input' w) = Inl e"
  by (rule retaining_cache.completes_once [OF assms(1) retaining_cache.finish_sso_completes [OF assms(1)]
        retaining_cache.finish_sso_completes [OF assms(1), of E clk' sp' idp' pending', unfolded assms(9)] assms(10,2-8)])

text \<open>
  C12: a pending LogoutRequest is completed at most once, in the same sense and under the same conditions on the
  cache, whether the service provider or the identity provider started it.
\<close>

theorem slo_completes_once:
  assumes "retaining_cache cas deadlines cache_now" "time_laws E"
    "finish_slo_impl E clk cas setting meta peer peer_meta pending input v = (v1, Inr r)"
    "vc_replay v = RequireCache c" "vc_replay v1 = RequireCache c1"
    "cache_run cas deadlines cache_now c1 c2" "vc_replay w = RequireCache c2" "cache_now c2 \<le> vc_now w"
    "pe_id pending' = pe_id pending" "ends_no_later E pending' pending"
  shows "\<exists>e. snd (finish_slo_impl E clk' cas setting' meta' peer' peer_meta' pending' input' w) = Inl e"
  by (rule retaining_cache.completes_once [OF assms(1) retaining_cache.finish_slo_completes [OF assms(1)]
        retaining_cache.finish_slo_completes [OF assms(1), of E clk' setting' meta' peer' peer_meta' pending', unfolded assms(9)] assms(10,2-8)])

section \<open>Finishing SSO\<close>

lemma raw_idp_of_descriptor:
  assumes "idp_from_metadata_xml_for E expected xml trust = Inr idp" "raw_idp_descriptor E idp = Inr raw"
  shows "idr_metadata raw = pd_metadata idp" "get_entity_id (idp_inner (pd_metadata idp)) = Some (entity_id_str (pd_entity_id idp))"
  using assms
  by (auto simp: idp_from_metadata_xml_for_def raw_idp_descriptor_def idp_from_metadata_def rbind_Inr_iff Let_def
      metadata_entity_id_def ok_or_Inr_iff ensure_expected_entity_id_def split: if_splits)

lemma parse_login_response_at_Inr:
  assumes "parse_login_response_with_request_id_at E clk s sp raw b request rid opts = Inr fr"
    "lr_expected_recipient opts = Some rcpt"
  shows "flow_with_expected_recipient E clk (login_response_flow_options sp raw b (CorrelateMessageId rid) opts) request rcpt
      (sp_assertion_requirement (spr_setting sp)) (sp_response_requirement (spr_setting sp)) = Inr fr"
  using assms
  by (auto simp: parse_login_response_with_request_id_at_def parse_login_response_inner_def rbind_Inr_iff Let_def
      split: if_splits option.splits)

lemma sso_session_fields:
  assumes "sso_session_try_from fr = Inr s"
  shows "get_str (fr_extract fr) ''issuer'' = Some (entity_id_str (ss_issuer s))"
    "get_str (fr_extract fr) ''response.inResponseTo'' = Some v \<Longrightarrow> v \<noteq> [] \<Longrightarrow> ss_in_response_to s = Some (MessageId v)"
    "sub_confirmations (ss_subject s) = map SubjectConfirmation (subject_confirmation_xmls (fr_extract fr))"
    "ss_sig_alg s = fr_sig_alg fr" "ss_raw_flow s = fr"
  using assms
  by (auto simp: sso_session_try_from_def rbind_Inr_iff Let_def subject_confirmations_xmls required_str_def ok_or_Inr_iff
      eid.try_new_Inr mid.try_new_Inr optional_request_id_def message_id_try_new_def split: option.splits if_splits)

lemma finish_sso_Inr:
  assumes "finish_sso E clk cas sp idp pending input v = (v', Inr session)"
  shows "finish_sso_session E clk sp idp pending input v = Inr session"
  using assms by (auto simp: finish_sso_def split: sum.splits prod.splits)

text \<open>
  C2: a session is created only for the pending request: finishing SSO with a peer imported under an
  expected identifier succeeds only when the response comes from that peer, who is the one the request
  was sent to, over the pending binding and with the pending RelayState; it answers the pending request;
  the pending request has not expired; a bearer confirmation names the pending ACS location and request;
  the audience is the service provider where the configuration validates it; and a certificate of the
  peer's metadata for signing verified the signature of this response.
\<close>

theorem finish_sso_sound:
  assumes "finish_sso E clk cas sp idp pending input v = (v', Inr session)"
    "idp_from_metadata_xml_for E expected xml trust = Inr idp" "time_laws E"
    "offset_datetime_from_system_time E (vc_now v) = Inr now"
  shows "ss_issuer session = expected \<and> pe_peer_entity_id pending = expected
     \<and> ss_in_response_to session = Some (pe_id pending)
     \<and> input_binding input = sso_response_as_binding (pd_response_binding (pe_details pending))
     \<and> relay_state_from_input E input = Inr (pe_relay_state pending)
     \<and> (case completion_deadline E pending of Inr (Some d) \<Rightarrow> odt_ns now < odt_ns d | Inr None \<Rightarrow> True | Inl _ \<Rightarrow> False)
     \<and> (\<exists>opts request b xml (prepared :: prepared_message) auth.
          fo_expected_in_response_to opts = Some (message_id_str (pe_id pending)) \<and> fo_check_signature opts
          \<and> fo_signing_certs opts = x509_certificates (idp_inner (pd_metadata idp)) Signing
          \<and> http_request_for E SamlResponse input = Inr request
          \<and> decode_message E b SamlResponse request (fo_redirect_inflate_max_bytes opts) (fo_xml_limits opts) = Inr xml
          \<and> authenticate_message E b SamlResponse request opts xml (sp_assertion_requirement (spr_setting sp))
               (sp_response_requirement (spr_setting sp)) = Inr (prepared, ss_sig_alg session, auth)
          \<and> message_evidence E opts (sp_assertion_requirement (spr_setting sp)) b SamlResponse request xml (ss_sig_alg session)
          \<and> (\<exists>c \<in> set (sub_confirmations (ss_subject session)).
               bearer_confirmed E opts (Some (endpoint_url_str (acs_ep_url (pd_acs (pe_details pending))))) now (raw_xml c))
          \<and> (es_validate_audience (spr_setting sp) \<longrightarrow>
               audience_restrictions_contain E (pm_assertion prepared) (sp_entity_text sp) (fo_xml_limits opts) = Inr True))"
proof -
  let ?d = "pe_details pending"
  from finish_sso_Inr [OF assms(1)] obtain raw request fr where p: "pending_validate_at E pending (vc_now v) = Inr ()"
      "pe_peer_entity_id pending = pd_entity_id idp" "input_binding input = sso_response_as_binding (pd_response_binding ?d)"
      "relay_state_from_input E input = Inr (pe_relay_state pending)"
    and raw: "raw_idp_descriptor E idp = Inr raw" and req: "http_request_for E SamlResponse input = Inr request"
    and fr: "parse_login_response_with_request_id_at E clk (vc_now v) sp raw (sso_response_as_binding (pd_response_binding ?d))
        request (message_id_str (pe_id pending)) (with_expected_recipient (endpoint_url_str (acs_ep_url (pd_acs ?d)))
           (parse_options_at (vc_now v) (as_millis (vc_clock_skew v)))) = Inr fr"
    and s: "sso_session_try_from fr = Inr session"
    by (auto simp: finish_sso_session_def rbind_Inr_iff ensure_entity_id_def ensure_sso_response_binding_def
        ensure_relay_state_def split: if_splits)
  have ex: "pd_entity_id idp = expected" using assms(2) by (auto simp: idp_from_metadata_xml_for_def rbind_Inr_iff)
  note meta = raw_idp_of_descriptor [OF assms(2) raw]
  define opts where "opts = login_response_flow_options sp raw (sso_response_as_binding (pd_response_binding ?d))
      (CorrelateMessageId (message_id_str (pe_id pending)))
      (with_expected_recipient (endpoint_url_str (acs_ep_url (pd_acs ?d))) (parse_options_at (vc_now v) (as_millis (vc_clock_skew v))))"
  have flow: "flow_with_expected_recipient E clk opts request (endpoint_url_str (acs_ep_url (pd_acs ?d)))
      (sp_assertion_requirement (spr_setting sp)) (sp_response_requirement (spr_setting sp)) = Inr fr"
    unfolding opts_def by (rule parse_login_response_at_Inr [OF fr]) (simp add: with_expected_recipient_def)
  have o: "fo_parser_type opts = Some SamlResponse" "fo_now opts = Some (vc_now v)" "fo_check_signature opts"
    "fo_expected_in_response_to opts = Some (message_id_str (pe_id pending))"
    "fo_from_issuer opts = Some (entity_id_str expected)"
    "fo_signing_certs opts = x509_certificates (idp_inner (pd_metadata idp)) Signing"
    "fo_expected_audience opts = (if es_validate_audience (spr_setting sp) then Some (sp_entity_text sp) else None)"
    using meta ex by (simp_all add: opts_def login_response_flow_options_def with_expected_recipient_def parse_options_at_def Let_def)
  have rid: "message_id_str (pe_id pending) \<noteq> []"
    using fr by (auto simp: parse_login_response_with_request_id_at_def split: if_splits)
  from sso_response_accepted [OF flow o(1) assms(3) o(2) assms(4)] obtain b xml auth and prepared :: prepared_message where dec:
      "decode_message E b SamlResponse request (fo_redirect_inflate_max_bytes opts) (fo_xml_limits opts) = Inr xml"
      "authenticate_message E b SamlResponse request opts xml (sp_assertion_requirement (spr_setting sp))
         (sp_response_requirement (spr_setting sp)) = Inr (prepared, fr_sig_alg fr, auth)"
    and a: "fo_from_issuer opts \<in> {None, get_str (fr_extract fr) ''issuer''}"
    "fo_expected_in_response_to opts \<in> {None, get_str (fr_extract fr) ''response.inResponseTo''}"
    "\<exists>c \<in> set (subject_confirmation_xmls (fr_extract fr)). bearer_confirmed E opts (Some (endpoint_url_str (acs_ep_url (pd_acs ?d)))) now c"
    "\<forall>aud. fo_expected_audience opts = Some aud \<longrightarrow>
          audience_restrictions_contain E (pm_assertion prepared) aud (fo_xml_limits opts) = Inr True"
    by blast
  have iss: "ss_issuer session = expected"
    using a(1) o(5) sso_session_fields(1) [OF s] by (auto intro: entity_id.expand)
  have irt: "ss_in_response_to session = Some (pe_id pending)"
    using sso_session_fields(2) [OF s, of "message_id_str (pe_id pending)"] a(2) o(4) rid by auto
  have dl: "case completion_deadline E pending of Inr (Some d) \<Rightarrow> odt_ns now < odt_ns d | Inr None \<Rightarrow> True | Inl _ \<Rightarrow> False"
    using p(1) assms(4)
    by (auto simp: pending_validate_at_def completion_deadline_def less_eq_odt_def rbind_Inr_iff ok_or_Inr_iff
        split: option.splits if_splits)
  have pin: "message_evidence E opts (sp_assertion_requirement (spr_setting sp)) b SamlResponse request xml (ss_sig_alg session)"
    using authenticated_evidence [OF dec(2) o(3)] sso_session_fields(4) [OF s] by simp
  have conf: "\<exists>c \<in> set (sub_confirmations (ss_subject session)).
      bearer_confirmed E opts (Some (endpoint_url_str (acs_ep_url (pd_acs ?d)))) now (raw_xml c)"
    using a(3) sso_session_fields(3) [OF s] by auto
  have aud: "es_validate_audience (spr_setting sp) \<longrightarrow>
      audience_restrictions_contain E (pm_assertion prepared) (sp_entity_text sp) (fo_xml_limits opts) = Inr True"
    using a(4) o(7) by simp
  show ?thesis
    using iss p(2) [unfolded ex] irt p(3,4) dl pin o(4,3,6) req dec(1) dec(2) [folded sso_session_fields(4) [OF s]] conf aud
    by blast
qed

section \<open>A finished exchange\<close>

definition sp_sample :: saml_sp where
  "sp_sample = \<lparr>spr_setting = entity_setting_default\<lparr>es_validate_audience := False\<rparr>, spr_metadata = SpMetadata sp_model\<rparr>"

definition pending_sample :: pending_authn_request where
  "pending_sample =
     \<lparr>pe_id = MessageId ''_r'', pe_relay_state = Absent,
      pe_details = \<lparr>pd_request_binding = Some RequestRedirect, pd_response_binding = ResponseSimpleSign,
        pd_acs = acs_endpoint_new ResponseSimpleSign (EndpointUrl ''acs'')\<rparr>,
      pe_peer_entity_id = EntityId ''idp'', pe_issued_at = Some (SamlInstant ''2024-01-01T00:00:00Z''),
      pe_expires_at = Some (SamlInstant ''2024-01-01T00:00:00Z'')\<rparr>"

definition input_sample :: browser_input where
  "input_sample = InSimpleSignPost [] [(''SAMLResponse'', ''QUJD''), (''SigAlg'', ''a''), (''Signature'', ''U0lH'')]"

definition request_sample :: http_request where
  "request_sample = \<lparr>hr_query = [], hr_body = [(''SAMLResponse'', ''QUJD''), (''SigAlg'', ''a''), (''Signature'', ''U0lH'')],
     hr_octet_string = Some sso_octet\<rparr>"

definition context_sample :: "'c \<Rightarrow> 'c validation_context" where
  "context_sample c = validation_context_new (SysTime 0) (RequireCache c)"

abbreviation empty_context :: "(string \<rightharpoonup> systime) validation_context" where
  "empty_context \<equiv> context_sample Map.empty"

lemma context_sample:
  "as_millis (vc_clock_skew (context_sample c)) = (0, 0)" "vc_now (context_sample c) = SysTime 0"
  "vc_replay (context_sample c) = RequireCache c" "not_on_or_after_ms (vc_clock_skew (context_sample c)) = 0"
  by (simp_all add: context_sample_def validation_context_new_def clock_skew_strict_def as_millis_def)

lemma sample_request: "http_request_for exchange_ext SamlResponse input_sample = Inr request_sample"
  by (simp add: input_sample_def request_sample_def http_request_from_input_def simplesign_octet_from_fields_def
      validate_form_message_kind_def field_value_def unique_value_def sample_base64(2) [OF exchange_reads(1)] sample_utf8
      sso_octet_def http_request_post_def)

lemma sample_idp: "\<exists>raw. raw_idp_descriptor exchange_ext idp_descriptor_sample = Inr raw \<and> idr_metadata raw = IdpMetadata meta_model"
  by (simp add: raw_idp_descriptor_def idp_descriptor_sample_def idp_from_metadata_def idp_sample_xml Let_def)

lemma sample_meta: "x509_certificates meta_model Signing = [''C'']" "get_entity_id meta_model = Some ''idp''"
    "metadata_validate_at exchange_ext meta_model (SysTime 0) = Inr ()"
    "metadata_validate_at exchange_ext sp_model (SysTime 0) = Inr ()"
  by (simp_all add: x509_certificates_def certificate_value_def get_path_def meta_model_def meta_value_def get_entity_id_def
      get_str_def metadata_validate_at_def exchange_time sp_model_def less_eq_odt_def)

definition options_sample :: flow_options where
  "options_sample =
     \<lparr>fo_binding = Some SimpleSign, fo_parser_type = Some SamlResponse,
      fo_redirect_inflate_max_bytes = MAX_DEFLATE_RAW_DECODE_BYTES, fo_xml_limits = xml_limits_default,
      fo_check_signature = True, fo_from_issuer = Some ''idp'', fo_signing_certs = [''C''], fo_decrypt_key = None,
      fo_decrypt_key_pass = None, fo_allow_insecure_software_rsa = False, fo_clock_drifts = (0, 0),
      fo_now = Some (SysTime 0), fo_expected_audience = None, fo_expected_in_response_to = Some ''_r''\<rparr>"

lemma sample_decode:
  "decode_message exchange_ext SimpleSign SamlResponse request_sample MAX_DEFLATE_RAW_DECODE_BYTES xml_limits_default
     = Inr sso_text"
  by (simp add: decode_message_def request_sample_def body_get_def single_param_def unique_value_def
      sample_base64(2) [OF exchange_reads(1)] sample_utf8) (simp add: check_input_bytes_def xml_limits_default_def sso_text_def)

lemma sample_detached:
  "verify_detached exchange_ext SimpleSign SamlResponse request_sample options_sample sso_text = Inr ''a''"
proof -
  have load: "load_certificate exchange_ext x = Inr ()" for x
    by (simp add: load_certificate_def ensure_crypto_provider_initialized_def initialize_crypto_provider_def)
  have "base64_decode exchange_ext ''U0lH'' = Inr sso_octet"
    by (simp add: base64_decode_def strip_ws.simps ws_len.simps is_ascii_ws_def)
  then have v: "verify_message_signature exchange_ext sso_octet ''U0lH'' ''C'' ''a'' = Inr True"
    by (simp add: verify_message_signature_def load require_operation_key_def)
  show ?thesis
    by (simp add: verify_detached_def request_sample_def body_get_def single_param_def unique_value_def
        ensure_detached_octet_matches_consumed_fields_def ensure_simplesign_octet_matches_consumed_fields_def
        options_sample_def initialize_crypto_provider_def v) (simp add: sso_octet_def build_simplesign_octet_def)
qed

lemma sample_flow:
  "flow_with_expected_recipient exchange_ext (\<lambda>_. Odt 0) options_sample request_sample ''acs'' Compatible SigOptional =
     Inr \<lparr>fr_saml_content = sso_text, fr_extract = sso_extract, fr_sig_alg = Some ''a''\<rparr>"
proof -
  note r = exchange_reads(1)
  have o: "fo_xml_limits options_sample = xml_limits_default" "fo_check_signature options_sample"
    "fo_binding options_sample = Some SimpleSign" "fo_parser_type options_sample = Some SamlResponse"
    "fo_redirect_inflate_max_bytes options_sample = MAX_DEFLATE_RAW_DECODE_BYTES"
    "fo_expected_in_response_to options_sample = Some ''_r''" "fo_from_issuer options_sample = Some ''idp''"
    "fo_expected_audience options_sample = None" "fo_clock_drifts options_sample = (0, 0)"
    "fo_now options_sample = Some (SysTime 0)"
    by (simp_all add: options_sample_def)
  have c: "sample_confirming options_sample" by (simp add: sample_confirming_def o)
  have now: "validation_now exchange_ext options_sample x = Inr (Odt 0)" for x
    by (simp add: validation_now_def o exchange_time)
  have i: "get_str sso_extract ''issuer'' = Some ''idp''"
    by (simp add: sso_extract_def get_str_def get_path_def)
  have ctx: "validate_context exchange_ext (\<lambda>_. Odt 0) SamlResponse (Some ''<A><C/></A>'') sso_extract options_sample
      (Some ''acs'') True = Inr ()"
    by (simp add: validate_context_def o i sso_values validate_sso_response_def validate_response_destination_def
        validate_subject_confirmation_def sso_confirmed [OF r c] validate_sessions_def
        earliest_authn_session_expiration_def validate_conditions_def now verify_time_at_def)
  show ?thesis
    using r
    by (simp add: flow_with_expected_recipient_def flow_inner_def o sample_decode is_valid_xml_with_limits_def sso_parse
        sso_profile sso_status authenticate_message_def prepare_unverified_def sso_shortcut default_fields_def
        sample_detached sso_extracted ctx)
qed

lemma sample_session:
  "\<exists>s. finish_sso_session exchange_ext (\<lambda>_. Odt 0) sp_sample idp_descriptor_sample pending_sample input_sample
       (context_sample c) = Inr s
     \<and> replay_expires_at exchange_ext s (Odt 0) 0 = Inr (Odt (1704067200 * ns_per_sec))
     \<and> replay_keys s = [ResponseId (MessageId ''_2''), AssertionIdKey (AssertionId ''_a'')]"
proof -
  obtain raw where raw: "raw_idp_descriptor exchange_ext idp_descriptor_sample = Inr raw" "idr_metadata raw = IdpMetadata meta_model"
    using sample_idp by blast
  have d: "completion_deadline exchange_ext pending_sample = Inr (Some (Odt (1704067200 * ns_per_sec)))"
    by (simp add: completion_deadline_def pending_sample_def sample_time_def)
  have v: "pending_validate_at exchange_ext pending_sample (SysTime 0) = Inr ()"
    by (simp add: pending_validate_at_def pending_sample_def exchange_time sample_time_def less_eq_odt_def)
  have o: "login_response_flow_options sp_sample raw SimpleSign (CorrelateMessageId ''_r'')
      (with_expected_recipient ''acs'' (parse_options_at (SysTime 0) (0, 0))) = options_sample"
    by (simp add: login_response_flow_options_def with_expected_recipient_def parse_options_at_def Let_def raw sample_meta
        sp_sample_def entity_setting_default_def options_sample_def)
  have req: "sp_assertion_requirement (spr_setting sp_sample) = Compatible" "sp_response_requirement (spr_setting sp_sample) = SigOptional"
    by (simp_all add: sp_assertion_requirement_def sp_response_requirement_def sp_sample_def entity_setting_default_def)
  have opts: "lr_expected_recipient (with_expected_recipient ''acs'' (parse_options_at (SysTime 0) (0, 0))) = Some ''acs''"
    "lr_now (with_expected_recipient ''acs'' (parse_options_at (SysTime 0) (0, 0))) = Some (SysTime 0)"
    and sp: "sp_inner (spr_metadata sp_sample) = sp_model"
    by (simp_all add: with_expected_recipient_def parse_options_at_def sp_sample_def)
  have p: "parse_login_response_with_request_id_at exchange_ext (\<lambda>_. Odt 0) (SysTime 0) sp_sample raw SimpleSign request_sample ''_r''
      (with_expected_recipient ''acs'' (parse_options_at (SysTime 0) (0, 0)))
      = Inr (sso_result\<lparr>fr_sig_alg := Some ''a''\<rparr>)"
    by (simp add: parse_login_response_with_request_id_at_def parse_login_response_inner_def o req sample_flow raw sample_meta
        opts sp unwrap_or_def sso_result_def Let_def)
  have b: "pe_peer_entity_id pending_sample = pd_entity_id idp_descriptor_sample" "input_binding input_sample = SimpleSign"
    "pd_response_binding (pe_details pending_sample) = ResponseSimpleSign"
    "endpoint_url_str (acs_ep_url (pd_acs (pe_details pending_sample))) = ''acs''"
    "message_id_str (pe_id pending_sample) = ''_r''" "pe_relay_state pending_sample = Absent"
    "relay_state_from_input exchange_ext input_sample = Inr Absent"
    by (simp_all add: pending_sample_def idp_descriptor_sample_def input_sample_def acs_endpoint_new_def first_field_def
        relay_param_try_from_option_def)
  have "finish_sso_session exchange_ext (\<lambda>_. Odt 0) sp_sample idp_descriptor_sample pending_sample input_sample
       (context_sample c) = sso_session_try_from (sso_result\<lparr>fr_sig_alg := Some ''a''\<rparr>)"
    by (simp add: finish_sso_session_def b context_sample v d require_pending_expiration_def ensure_entity_id_def
        ensure_sso_response_binding_def ensure_relay_state_def raw sample_request p del: http_request_for.simps)
  then show ?thesis
    using sso_typed_any [OF exchange_reads(1), of "Some ''a''"] by simp
qed

lemma sample_finished:
  "\<exists>s v1 c1. finish_sso exchange_ext (\<lambda>_. Odt 0) minimal_check_and_store sp_sample idp_descriptor_sample pending_sample
       input_sample (empty_context) = (v1, Inr s) \<and> vc_replay v1 = RequireCache c1"
proof -
  obtain s where s: "finish_sso_session exchange_ext (\<lambda>_. Odt 0) sp_sample idp_descriptor_sample pending_sample input_sample
       (empty_context) = Inr s"
    "replay_expires_at exchange_ext s (Odt 0) 0 = Inr (Odt (1704067200 * ns_per_sec))"
    "replay_keys s = [ResponseId (MessageId ''_2''), AssertionIdKey (AssertionId ''_a'')]"
    using sample_session [of "Map.empty :: string \<rightharpoonup> systime"] by blast
  have d: "completion_deadline exchange_ext pending_sample = Inr (Some (Odt (1704067200 * ns_per_sec)))"
    by (simp add: completion_deadline_def pending_sample_def sample_time_def)
  let ?t = "SysTime (1704067200 * ns_per_sec)"
  let ?c = "[cache_key (ResponseId (MessageId ''_2'')) \<mapsto> ?t, cache_key (AssertionIdKey (AssertionId ''_a'')) \<mapsto> ?t]"
  have k: "cache_key (AssertionIdKey (AssertionId ''_a'')) \<noteq> cache_key (ResponseId (MessageId ''_2''))"
    "cache_key (CompletedAuthnRequestId (pe_id pending_sample)) \<notin> dom ?c"
    by (simp_all add: cache_key_def)
  have "sso_check_and_store_replay exchange_ext minimal_check_and_store s (empty_context)
      = ((empty_context)\<lparr>vc_replay := RequireCache ?c\<rparr>, Inr ())"
    using k(1)
    by (simp add: sso_check_and_store_replay_def now_offset_def context_sample exchange_time
        s system_time_from_offset_datetime_eq sys_in_range_def store_in_context_def minimal_check_and_store_def Let_def)
  moreover have "\<exists>v1 c1. check_and_store_message_replay_until minimal_check_and_store
      ((empty_context)\<lparr>vc_replay := RequireCache ?c\<rparr>) (CompletedAuthnRequestId (pe_id pending_sample))
      (Some (Odt (1704067200 * ns_per_sec))) = (v1, Inr ()) \<and> vc_replay v1 = RequireCache c1"
    using k(2)
    by (simp add: check_and_store_message_replay_until_def store_in_context_def minimal_check_and_store_def
        system_time_from_offset_datetime_eq sys_in_range_def Let_def)
  ultimately show ?thesis
    by (auto simp: finish_sso_def s d)
qed

lemma expiring_new:
  assumes "cache_key k \<notin> dom (ec_seen c)"
  shows "\<exists>c'. expiring_check_and_store c k t = (c', Inr ()) \<and> ec_now c' = ec_now c
     \<and> dom (ec_seen c') \<subseteq> insert (cache_key k) (dom (ec_seen c))"
  using assms by (auto simp: expiring_check_and_store_def Let_def dom_def split: option.splits if_splits)

lemma expiring_finished:
  "\<exists>s v1 c1. finish_sso exchange_ext (\<lambda>_. Odt 0) expiring_check_and_store sp_sample idp_descriptor_sample pending_sample
       input_sample (context_sample \<lparr>ec_now = SysTime 0, ec_seen = Map.empty\<rparr>) = (v1, Inr s) \<and> vc_replay v1 = RequireCache c1
     \<and> ec_now c1 = SysTime 0"
proof -
  let ?c0 = "\<lparr>ec_now = SysTime 0, ec_seen = Map.empty\<rparr>"
  obtain s where s: "finish_sso_session exchange_ext (\<lambda>_. Odt 0) sp_sample idp_descriptor_sample pending_sample input_sample
       (context_sample ?c0) = Inr s"
    "replay_expires_at exchange_ext s (Odt 0) 0 = Inr (Odt (1704067200 * ns_per_sec))"
    "replay_keys s = [ResponseId (MessageId ''_2''), AssertionIdKey (AssertionId ''_a'')]"
    using sample_session [of ?c0] by blast
  have d: "completion_deadline exchange_ext pending_sample = Inr (Some (Odt (1704067200 * ns_per_sec)))"
    by (simp add: completion_deadline_def pending_sample_def sample_time_def)
  have k: "cache_key (AssertionIdKey (AssertionId ''_a'')) \<noteq> cache_key (ResponseId (MessageId ''_2''))"
    "cache_key (CompletedAuthnRequestId (pe_id pending_sample))
       \<notin> {cache_key (ResponseId (MessageId ''_2'')), cache_key (AssertionIdKey (AssertionId ''_a''))}"
    by (simp_all add: cache_key_def)
  let ?t = "SysTime 1704067200000000000"
  obtain c1 where c1: "expiring_check_and_store ?c0 (ResponseId (MessageId ''_2'')) ?t = (c1, Inr ())" "ec_now c1 = SysTime 0"
    "dom (ec_seen c1) \<subseteq> {cache_key (ResponseId (MessageId ''_2''))}"
    using expiring_new [of "ResponseId (MessageId ''_2'')" ?c0 ?t] by auto
  obtain c2 where c2: "expiring_check_and_store c1 (AssertionIdKey (AssertionId ''_a'')) ?t = (c2, Inr ())" "ec_now c2 = SysTime 0"
    "dom (ec_seen c2) \<subseteq> {cache_key (ResponseId (MessageId ''_2'')), cache_key (AssertionIdKey (AssertionId ''_a''))}"
    using expiring_new [of "AssertionIdKey (AssertionId ''_a'')" c1 ?t] c1(2,3) k(1) by fastforce
  obtain c3 where c3: "expiring_check_and_store c2 (CompletedAuthnRequestId (pe_id pending_sample)) ?t = (c3, Inr ())" "ec_now c3 = SysTime 0"
    using expiring_new [of "CompletedAuthnRequestId (pe_id pending_sample)" c2 ?t] c2(2,3) k(2) by fastforce
  have "sso_check_and_store_replay exchange_ext expiring_check_and_store s (context_sample ?c0)
      = ((context_sample ?c0)\<lparr>vc_replay := RequireCache c2\<rparr>, Inr ())"
    by (simp add: sso_check_and_store_replay_def now_offset_def context_sample exchange_time s system_time_from_offset_datetime_eq
        sys_in_range_def store_in_context_RequireCache c1(1) c2(1))
  moreover have "check_and_store_message_replay_until expiring_check_and_store ((context_sample ?c0)\<lparr>vc_replay := RequireCache c2\<rparr>)
      (CompletedAuthnRequestId (pe_id pending_sample)) (Some (Odt (1704067200 * ns_per_sec)))
      = ((context_sample ?c0)\<lparr>vc_replay := RequireCache c3\<rparr>, Inr ())"
    by (simp add: check_and_store_message_replay_until_def store_in_context_RequireCache c3(1)
        system_time_from_offset_datetime_eq sys_in_range_def)
  ultimately show ?thesis using c3(2) by (simp add: finish_sso_def s d)
qed

text \<open>Five seconds later.\<close>

lemma expiring_later: "cache_run expiring_check_and_store ec_seen ec_now c (c\<lparr>ec_now := t\<rparr>)" if "ec_now c \<le> t"
  by (rule run_time [OF run_refl]) (use that in simp_all)

lemma sso_completes_once_witness:
  "\<exists>c e. ec_now c = SysTime (5 * ns_per_sec)
     \<and> snd (finish_sso exchange_ext (\<lambda>_. Odt 0) expiring_check_and_store sp_sample idp_descriptor_sample pending_sample
         input_sample ((context_sample c)\<lparr>vc_now := SysTime (5 * ns_per_sec)\<rparr>)) = Inl e"
proof -
  let ?t = "SysTime (5 * ns_per_sec)"
  obtain s v1 c1 where f: "finish_sso exchange_ext (\<lambda>_. Odt 0) expiring_check_and_store sp_sample idp_descriptor_sample
      pending_sample input_sample (context_sample \<lparr>ec_now = SysTime 0, ec_seen = Map.empty\<rparr>) = (v1, Inr s)"
      "vc_replay v1 = RequireCache c1" "ec_now c1 = SysTime 0"
    using expiring_finished by blast
  have "ec_now c1 \<le> ?t" using f(3) by (simp add: less_eq_systime_def)
  from sso_completes_once [OF expiring.retaining_cache_axioms exchange_time(1) f(1) context_sample(3) f(2) expiring_later [OF this],
      of "(context_sample (c1\<lparr>ec_now := ?t\<rparr>))\<lparr>vc_now := ?t\<rparr>" pending_sample "\<lambda>_. Odt 0" sp_sample idp_descriptor_sample input_sample]
  show ?thesis by (intro exI [of _ "c1\<lparr>ec_now := ?t\<rparr>"]) (simp add: context_sample ends_no_later_def)
qed

lemma finish_sso_sound_witness:
  "\<exists>v1 s. finish_sso exchange_ext (\<lambda>_. Odt 0) minimal_check_and_store sp_sample idp_descriptor_sample pending_sample
       input_sample (empty_context) = (v1, Inr s)
     \<and> ss_issuer s = EntityId ''idp'' \<and> ss_in_response_to s = Some (MessageId ''_r'')"
proof -
  obtain s v1 c1 where f: "finish_sso exchange_ext (\<lambda>_. Odt 0) minimal_check_and_store sp_sample idp_descriptor_sample
      pending_sample input_sample (empty_context) = (v1, Inr s)" "vc_replay v1 = RequireCache c1"
    using sample_finished by blast
  have t: "offset_datetime_from_system_time exchange_ext (vc_now (empty_context)) = Inr (Odt 0)"
    and i: "pe_id pending_sample = MessageId ''_r''"
    by (simp_all add: context_sample exchange_time pending_sample_def)
  note sound = finish_sso_sound [OF f(1) idp_sample_import exchange_time(1) t]
  have "ss_issuer s = EntityId ''idp''" by (rule conjunct1 [OF sound])
  moreover have "ss_in_response_to s = Some (pe_id pending_sample)"
    by (rule conjunct1 [OF conjunct2 [OF conjunct2 [OF sound]]])
  ultimately show ?thesis using f(1) i by metis
qed

section \<open>A finished logout\<close>

definition slo_setting :: entity_setting where
  "slo_setting = entity_setting_default\<lparr>es_want_logout_response_signed := False\<rparr>"

definition slo_local :: metadata where
  "slo_local = \<lparr>md_xml = [], md_meta = VObject [(''singleLogoutService'',
     VObject [(''binding'', VStr (binding_urn Post)), (''location'', VStr ''slo'')])], md_valid_until = None\<rparr>"

definition slo_pending :: pending_logout_request where
  "slo_pending = \<lparr>pe_id = MessageId ''_r'', pe_relay_state = Absent, pe_details = \<lparr>pd_binding = LogoutPost\<rparr>,
     pe_peer_entity_id = EntityId ''idp'', pe_issued_at = None, pe_expires_at = Some (SamlInstant ''2024-01-01T00:00:00Z'')\<rparr>"

definition slo_fields :: "(string \<times> string) list" where "slo_fields = [(''SAMLResponse'', ''UkVT'')]"

definition slo_request :: http_request where
  "slo_request = http_request_post slo_fields"

definition slo_extract :: saml_value where
  "slo_extract = VObject
     [(''response'', VObject [(''id'', VStr ''_3''), (''issueInstant'', VStr ''2024-01-01T00:00:00Z''),
        (''destination'', VStr ''slo''), (''inResponseTo'', VStr ''_r'')]),
      (''issuer'', VStr ''idp''), (''signature'', VNull)]"

lemma slo_base64: "base64_decode_with_limit exchange_ext ''UkVT'' (max_bytes xml_limits_default) = Inr slo_text"
  by (simp add: base64_decode_with_limit_def base64_decode_def Let_def strip_ws.simps ws_len.simps is_ascii_ws_def
      xml_limits_default_def usize_max_def usize_checked_add_def usize_sat_mul_def usize_sat_add_def slo_text_def)

lemma slo_utf8: "string_from_utf8 slo_text = Inr slo_text"
  by code_simp

lemma slo_http: "http_request_for exchange_ext LogoutResponse (InPost slo_fields) = Inr slo_request"
  by (simp add: slo_fields_def slo_request_def http_request_from_input_def validate_form_message_kind_def field_value_def
      unique_value_def)

lemma slo_decode:
  "decode_message exchange_ext Post LogoutResponse slo_request MAX_DEFLATE_RAW_DECODE_BYTES xml_limits_default = Inr slo_text"
  by (simp add: decode_message_def slo_request_def http_request_post_def slo_fields_def body_get_def single_param_def unique_value_def
      slo_base64 slo_utf8) (simp add: check_input_bytes_def xml_limits_default_def slo_text_def)

lemma slo_profile: "validate_protocol_profile exchange_ext slo_text LogoutResponse xml_limits_default = Inr ()"
proof -
  have b: "check_input_bytes xml_limits_default (length slo_text) = Inr ()"
    by (simp add: check_input_bytes_def xml_limits_default_def slo_text_def)
  show ?thesis
    using date_ok
    by (simp add: validate_protocol_profile_def b slo_ns_def slo_attrs_def enter_element_def note_use_condition_def
        note_conditions_def validate_element_def validate_root_def validate_unqualified_attributes_def
        profile_validate_attributes_def require_version_2_def require_issue_instant_def
        require_optional_saml_utc_date_time_def expected_child_namespace_def protocol_child_namespace_def nested_child_namespace_def name_is_def
        new_name_def validate_element_attributes_def consumed_attributes_def split: option.splits)
qed

lemma slo_extracted: "extract_with_limits exchange_ext slo_text logout_response_fields xml_limits_default = Inr slo_extract"
  by (simp add: extract_eval slo_parse logout_response_fields_def slo_node_def slo_extract_def)

lemma slo_status: "check_status_with_limits exchange_ext slo_text LogoutResponse xml_limits_default = Inr ()"
  by (simp add: check_status_eq slo_parse slo_node_def status_code_of_def status_path_def seg_matches_def strip_prefix_def
      select_step_def node_attr_def)

lemma slo_flow:
  "flow exchange_ext (\<lambda>_. Odt 0) (logout_flow_options slo_setting meta_model Post LogoutResponse False (Some (SysTime 0)) (0, 0)
     (Some ''_r'')) slo_request = Inr \<lparr>fr_saml_content = slo_text, fr_extract = slo_extract, fr_sig_alg = None\<rparr>"
proof -
  define opts where "opts = logout_flow_options slo_setting meta_model Post LogoutResponse False (Some (SysTime 0)) (0, 0) (Some ''_r'')"
  have o: "fo_binding opts = Some Post" "fo_parser_type opts = Some LogoutResponse" "fo_check_signature opts = False"
    "fo_xml_limits opts = xml_limits_default" "fo_redirect_inflate_max_bytes opts = MAX_DEFLATE_RAW_DECODE_BYTES"
    "fo_from_issuer opts = Some ''idp''" "fo_expected_in_response_to opts = Some ''_r''"
    by (simp_all add: opts_def logout_flow_options_def slo_setting_def entity_setting_default_def sample_meta)
  have "validate_context exchange_ext (\<lambda>_. Odt 0) LogoutResponse None slo_extract opts None False = Inr ()"
    by (simp add: validate_context_def o slo_extract_def get_str_def get_path_def)
  then show ?thesis
    unfolding opts_def [symmetric]
    by (simp add: flow_def flow_inner_def o slo_decode is_valid_xml_with_limits_def slo_parse slo_profile slo_status
        authenticate_message_def prepare_unverified_def default_fields_def slo_extracted)
qed

lemma slo_typed:
  "\<exists>r. logout_response_try_from exchange_ext \<lparr>fr_saml_content = slo_text, fr_extract = slo_extract, fr_sig_alg = None\<rparr> = Inr r
     \<and> Sso.lr_id r = MessageId ''_3'' \<and> lr_destination r = Some (EndpointUrl ''slo'')"
proof -
  have d: "parse_saml_utc_date_time ''2024-01-01T00:00:00Z'' = Some ''2024-01-01T00:00:00Z''" by code_simp
  have b: "\<not> is_blank ''_3''" "\<not> is_blank ''idp''" "\<not> is_blank ''2024-01-01T00:00:00Z''" "\<not> is_blank ''_r''"
    by code_simp+
  have v: "get_str slo_extract ''response.id'' = Some ''_3''" "get_str slo_extract ''issuer'' = Some ''idp''"
    "get_str slo_extract ''response.issueInstant'' = Some ''2024-01-01T00:00:00Z''"
    "get_str slo_extract ''response.inResponseTo'' = Some ''_r''" "get_str slo_extract ''response.destination'' = Some ''slo''"
    by (simp_all add: slo_extract_def get_str_def get_path_def)
  show ?thesis
    by (simp add: logout_response_try_from_def required_str_def v d b ok_or_def issue_instant_from_extract_def
        message_id_try_new_def saml_instant_try_new_def entity_id_try_new_def validate_entity_id_text_def
        optional_request_id_def optional_endpoint_def endpoint_url_try_new_def http_url_def)
qed

definition retaining_sample :: "(string \<rightharpoonup> systime) \<Rightarrow> (string \<rightharpoonup> systime) validation_context" where
  "retaining_sample c = with_replay_retention 1000000000 (context_sample c)"

lemma retaining_sample:
  "as_millis (vc_clock_skew (retaining_sample c)) = (0, 0)" "vc_now (retaining_sample c) = SysTime 0"
  "vc_replay (retaining_sample c) = RequireCache c" "vc_replay_retention (retaining_sample c) = Some 1000000000"
  by (simp_all add: retaining_sample_def with_replay_retention_def context_sample)

lemma slo_response:
  "\<exists>r. finish_slo_response exchange_ext (\<lambda>_. Odt 0) slo_setting slo_local (EntityId ''idp'') meta_model slo_pending
       (InPost slo_fields) (retaining_sample c) = Inr r \<and> Sso.lr_id r = MessageId ''_3''"
proof -
  obtain r where r: "logout_response_try_from exchange_ext
      \<lparr>fr_saml_content = slo_text, fr_extract = slo_extract, fr_sig_alg = None\<rparr> = Inr r" "Sso.lr_id r = MessageId ''_3''"
    "lr_destination r = Some (EndpointUrl ''slo'')"
    using slo_typed by blast
  have d: "completion_deadline exchange_ext slo_pending = Inr (Some (Odt (1704067200 * ns_per_sec)))"
    "pending_validate_at exchange_ext slo_pending (SysTime 0) = Inr ()"
    by (simp_all add: completion_deadline_def pending_validate_at_def slo_pending_def exchange_time sample_time_def less_eq_odt_def)
  have m: "metadata_validate_at exchange_ext slo_local (SysTime 0) = Inr ()"
    by (simp add: metadata_validate_at_def slo_local_def exchange_time)
  have p: "parse_logout_response_at exchange_ext (\<lambda>_. Odt 0) slo_setting meta_model Post slo_request ''_r'' (SysTime 0) (0, 0)
      = Inr \<lparr>fr_saml_content = slo_text, fr_extract = slo_extract, fr_sig_alg = None\<rparr>"
    by (simp add: parse_logout_response_at_def parse_logout_response_inner_def unwrap_or_def sample_meta slo_flow
        slo_setting_def [THEN arg_cong, of es_want_logout_response_signed])
  have dest: "ensure_logout_destination slo_local LogoutPost (Some (EndpointUrl ''slo'')) = Inr ()"
    by (simp add: ensure_logout_destination_def get_single_logout_service_def location_for_binding_def slo_local_def get_path_def
        get_str_def as_object_list_def)
  have b: "pe_peer_entity_id slo_pending = EntityId ''idp''" "pd_binding (pe_details slo_pending) = LogoutPost"
    "message_id_str (pe_id slo_pending) = ''_r''" "pe_relay_state slo_pending = Absent"
    "relay_state_from_input exchange_ext (InPost slo_fields) = Inr Absent"
    by (simp_all add: slo_pending_def slo_fields_def first_field_def relay_param_try_from_option_def)
  show ?thesis
    using r
    by (simp add: finish_slo_response_def retaining_sample m d require_pending_expiration_def ensure_entity_id_def b
        ensure_logout_response_binding_def ensure_relay_state_def slo_http p dest del: http_request_for.simps relay_state_from_input.simps)
qed

lemma message_deadline: "\<exists>t. message_replay_expires_at (retaining_sample c) = Inr t"
  by (simp add: message_replay_expires_at_def retaining_sample sys_checked_add_def sys_in_range_def)

lemma slo_stored:
  "\<exists>v1 v2 c2. check_and_store_message_replay minimal_check_and_store (retaining_sample Map.empty) (LogoutResponseId (MessageId ''_3''))
       = (v1, Inr ())
     \<and> check_and_store_message_replay_until minimal_check_and_store v1 (CompletedLogoutRequestId (MessageId ''_r''))
         (Some (Odt (1704067200 * ns_per_sec))) = (v2, Inr ())
     \<and> vc_replay v2 = RequireCache c2"
proof -
  obtain t where "message_replay_expires_at (retaining_sample Map.empty) = Inr t" using message_deadline by blast
  then obtain v1 t where v1: "check_and_store_message_replay minimal_check_and_store (retaining_sample Map.empty)
      (LogoutResponseId (MessageId ''_3'')) = (v1, Inr ())"
    and t: "vc_replay v1 = RequireCache [cache_key (LogoutResponseId (MessageId ''_3'')) \<mapsto> t]"
    by (auto simp: check_and_store_message_replay_def store_in_context_def retaining_sample minimal_check_and_store_def Let_def)
  have "cache_key (CompletedLogoutRequestId (MessageId ''_r'')) \<noteq> cache_key (LogoutResponseId (MessageId ''_3''))"
    by (simp add: cache_key_def)
  then have "\<exists>v2 c2. check_and_store_message_replay_until minimal_check_and_store v1 (CompletedLogoutRequestId (MessageId ''_r''))
      (Some (Odt (1704067200 * ns_per_sec))) = (v2, Inr ()) \<and> vc_replay v2 = RequireCache c2"
    by (simp add: check_and_store_message_replay_until_def store_in_context_def t minimal_check_and_store_def
        system_time_from_offset_datetime_eq sys_in_range_def Let_def)
  with v1 show ?thesis by blast
qed

lemma slo_finished:
  "\<exists>r v1 c1. finish_slo_impl exchange_ext (\<lambda>_. Odt 0) minimal_check_and_store slo_setting slo_local (EntityId ''idp'') meta_model
       slo_pending (InPost slo_fields) (retaining_sample Map.empty) = (v1, Inr r) \<and> vc_replay v1 = RequireCache c1"
proof -
  obtain r where r: "finish_slo_response exchange_ext (\<lambda>_. Odt 0) slo_setting slo_local (EntityId ''idp'') meta_model slo_pending
      (InPost slo_fields) (retaining_sample Map.empty) = Inr r" "Sso.lr_id r = MessageId ''_3''"
    using slo_response [of Map.empty] by blast
  have d: "completion_deadline exchange_ext slo_pending = Inr (Some (Odt (1704067200 * ns_per_sec)))" "pe_id slo_pending = MessageId ''_r''"
    by (simp_all add: completion_deadline_def slo_pending_def sample_time_def)
  show ?thesis using slo_stored by (auto simp: finish_slo_impl_def r d)
qed

lemma slo_completes_once_witness:
  "\<exists>c e. snd (finish_slo_impl exchange_ext (\<lambda>_. Odt 0) minimal_check_and_store slo_setting slo_local (EntityId ''idp'') meta_model
       slo_pending (InPost slo_fields) (retaining_sample c)) = Inl e"
proof -
  obtain r v1 c1 where f: "finish_slo_impl exchange_ext (\<lambda>_. Odt 0) minimal_check_and_store slo_setting slo_local (EntityId ''idp'')
      meta_model slo_pending (InPost slo_fields) (retaining_sample Map.empty) = (v1, Inr r)" "vc_replay v1 = RequireCache c1"
    using slo_finished by blast
  have t: "SysTime 0 \<le> vc_now (retaining_sample c1)" by (simp add: retaining_sample)
  from slo_completes_once [OF minimal_retaining.retaining_cache_axioms exchange_time(1) f(1) retaining_sample(3) f(2) run_refl
      retaining_sample(3) t, of slo_pending "\<lambda>_. Odt 0" slo_setting slo_local "EntityId ''idp''" meta_model "InPost slo_fields"]
  show ?thesis by (auto simp: ends_no_later_def)
qed

section \<open>The outbound theorems at samples\<close>

definition form_context :: binding_context where
  "form_context = \<lparr>bc_id = ''_1'', bc_context = ''QUJD'', bc_relay_state = Some ''r'', bc_entity_endpoint = ''acs'',
     bc_binding = Post, bc_request_type = ''SAMLResponse'', bc_signature = None, bc_sig_alg = None\<rparr>"

lemma outbound_form_read_back_witness:
  "\<exists>a form r. outbound_try_from exchange_ext SamlResponse form_context = Inr a \<and> outbound_post_form a = Inr form
     \<and> http_request_for exchange_ext SamlResponse (InPost (pf_fields form)) = Inr r
     \<and> body_get r ''RelayState'' = Inr (Some ''r'')"
proof -
  have b: "\<not> is_blank ''_1''" by code_simp
  obtain a form where a: "outbound_try_from exchange_ext SamlResponse form_context = Inr a" "outbound_post_form a = Inr form"
    by (auto simp: outbound_from_context_def form_context_def validate_context_message_kind_def message_id_try_new_def b
        relay_state_try_new_def validate_relay_state_bytes_def reject_detached_signature_for_post_def outbound_post_form_def
        reject_partial_detached_signature_def post_form_from_context_def endpoint_url_try_new_def http_url_def MAX_RELAY_STATE_BYTES_def bc_try_post_form_def
        try_saml_post_binding_form_with_signature_def validate_post_form_action_def validate_signature_fields_def)
  from outbound_form_read_back [OF a] a show ?thesis by (auto simp: form_context_def)
qed

definition responding_idp :: saml_idp where
  "responding_idp = \<lparr>sf_identity_provider =
     \<lparr>idr_setting = entity_setting_default\<lparr>es_private_key := Some ''k'', es_signing_cert := Some ''c''\<rparr>,
      idr_metadata = IdpMetadata meta_model\<rparr>, sf_issuance_lifetime = ns_per_sec\<rparr>"

definition sp_descriptor_sample :: sp_descriptor where
  "sp_descriptor_sample = \<lparr>pd_entity_id = EntityId ''sp'', pd_metadata_xml = sp_text,
     pd_metadata = SpMetadata sp_model, pd_trust = AppliedUnsigned\<rparr>"

definition received_sample :: "authn_request received" where
  "received_sample = \<lparr>rc_message = \<lparr>ar_id = MessageId ''_q'', ar_issue_instant = SamlInstant ''t'', ar_issuer = EntityId ''sp'',
     ar_destination = None, ar_acs_url = None, ar_protocol_binding = None, ar_acs_index = None, ar_name_id_policy = None,
     ar_raw_flow = sso_result\<rparr>, rc_relay_state = PresentEmpty\<rparr>"

definition subject_sample :: subject where
  "subject_sample = \<lparr>sub_name_id = \<lparr>nid_value = ''user'', nid_format = None\<rparr>, sub_confirmations = []\<rparr>"

definition issue_sample :: issue_env where
  "issue_sample = \<lparr>ie_now = SysTime 0, ie_now_utc = Odt 0, ie_uuid = ''u'', ie_assertion_uuid = ''v''\<rparr>"

lemma sample_sp_provider: "\<exists>raw. raw_sp_descriptor exchange_ext sp_descriptor_sample = Inr raw \<and> spr_metadata raw = SpMetadata sp_model"
  by (simp add: raw_sp_descriptor_def sp_descriptor_sample_def sp_from_metadata_def sp_sample_xml Let_def)

lemma sample_acs: "get_assertion_consumer_service (SpMetadata sp_model) SimpleSign = Some ''acs''"
  by code_simp

lemma responding:
  "es_tag_prefix_protocol (idr_setting (sf_identity_provider responding_idp)) = ''samlp''"
  "es_tag_prefix_assertion (idr_setting (sf_identity_provider responding_idp)) = ''saml''"
  "es_login_response_template (idr_setting (sf_identity_provider responding_idp)) = None"
  "es_private_key (idr_setting (sf_identity_provider responding_idp)) = Some ''k''"
  "es_private_key_pass (idr_setting (sf_identity_provider responding_idp)) = None"
  "es_signing_cert (idr_setting (sf_identity_provider responding_idp)) = Some ''c''"
  "es_is_assertion_encrypted (idr_setting (sf_identity_provider responding_idp)) = False"
  "es_request_signature_algorithm (idr_setting (sf_identity_provider responding_idp)) = RSA_SHA256"
  "es_data_encryption_algorithm (idr_setting (sf_identity_provider responding_idp)) = AES_256"
  "idr_metadata (sf_identity_provider responding_idp) = IdpMetadata meta_model" "sf_issuance_lifetime responding_idp = ns_per_sec"
  by (simp_all add: responding_idp_def entity_setting_default_def)

lemma sample_rendered:
  "\<exists>xml. render_login_response exchange_ext issue_sample (sf_identity_provider responding_idp) sp (Some i) u acs
      \<lparr>rr_name_id_format = f, rr_custom = None, rr_issuance_lifetime = l\<rparr> = Inr (''_u'', xml)"
proof -
  have p: "validate_tag_prefix ''protocol'' ''samlp'' = Inr ()" "validate_tag_prefix ''assertion'' ''saml'' = Inr ()"
    by code_simp+
  have w: "\<exists>w. capture_idp_issuance_window exchange_ext (Odt 0) l = Inr w"
    by (simp add: capture_idp_issuance_window_def Let_def)
  then obtain w where w: "capture_idp_issuance_window exchange_ext (Odt 0) l = Inr w" ..
  have r: "\<exists>xml. render_default_login_response exchange_ext
      (default_login_response_xml issue_sample (sf_identity_provider responding_idp) sp (Some i) u acs n w []) = Inr xml" for n
    by (simp add: render_default_login_response_def default_login_response_xml_def Let_def
        write_login_response_attribute_statement_def)
  define n where "n = unwrap_or f (first_or_empty (es_name_id_format (idr_setting (sf_identity_provider responding_idp))))"
  obtain xml where "render_default_login_response exchange_ext
      (default_login_response_xml issue_sample (sf_identity_provider responding_idp) sp (Some i) u acs n w []) = Inr xml"
    using r by blast
  then have "render_login_response exchange_ext issue_sample (sf_identity_provider responding_idp) sp (Some i) u acs
      \<lparr>rr_name_id_format = f, rr_custom = None, rr_issuance_lifetime = l\<rparr> = Inr (''_u'', xml)"
    using p w
    by (simp add: render_login_response_def responding n_def [symmetric] issue_sample_def generate_id_def)
  then show ?thesis by blast
qed

lemma sample_response:
  "\<exists>a. respond_sso exchange_ext issue_sample responding_idp sp_descriptor_sample received_sample subject_sample
     (respond_sso_new ResponseSimpleSign) = Inr a"
proof -
  obtain raw where raw: "raw_sp_descriptor exchange_ext sp_descriptor_sample = Inr raw" "spr_metadata raw = SpMetadata sp_model"
    using sample_sp_provider by blast
  define raw' where "raw' = raw\<lparr>spr_setting := (spr_setting raw)\<lparr>es_want_message_signed :=
    should_sign_response (respond_sso_new ResponseSimpleSign) False AES_256\<rparr>\<rparr>"
  have m: "spr_metadata raw' = SpMetadata sp_model" by (simp add: raw'_def raw)
  have t: "response_target raw' (rc_message received_sample) ResponseSimpleSign = Inr (ResponseSimpleSign, None)"
    by (simp add: response_target_def received_sample_def unwrap_or_def)
  let ?ov = "\<lparr>ov_acs = None, ov_name_id_format = None, ov_issuance_lifetime = Some ns_per_sec\<rparr>"
  let ?lo = "\<lparr>ro_in_response_to = Some ''_q'', ro_relay_state = Some [], ro_encrypt_then_sign = False, ro_custom = None\<rparr>"
  obtain xml where xml: "render_login_response exchange_ext issue_sample (sf_identity_provider responding_idp) raw' (Some ''_q'')
      (user_from_subject subject_sample) ''acs'' \<lparr>rr_name_id_format = None, rr_custom = None, rr_issuance_lifetime = ns_per_sec\<rparr>
      = Inr (''_u'', xml)"
    using sample_rendered by blast
  have key: "load_private_key exchange_ext ''k'' None = Inr ()"
    by (simp add: load_private_key_def ensure_crypto_provider_initialized_def initialize_crypto_provider_def)
  have "is_want_assertions_signed (SpMetadata sp_model) = False" by code_simp
  then have fin: "finalize_login_response exchange_ext (sf_identity_provider responding_idp) raw' SimpleSign xml False = Inr xml"
    by (simp add: finalize_login_response_def responding key m)
  have "\<exists>sig. construct_message_signature exchange_ext octet () alg = Inr sig" for octet alg
    by (simp add: construct_message_signature_def ensure_crypto_provider_initialized_def initialize_crypto_provider_def
        require_operation_key_def)
  then obtain sig where sig: "construct_message_signature exchange_ext
      (build_simplesign_octet (query_param SamlResponse) xml (Some []) RSA_SHA256) () RSA_SHA256 = Inr sig" by blast
  have bind: "bind_response exchange_ext (sf_identity_provider responding_idp) SimpleSign xml ''acs'' (Some [])
      = Inr (base64_encode exchange_ext xml, Some sig, Some RSA_SHA256)"
    using sig by (simp add: bind_response_def responding key str_or_empty_def)
  define c where "c = \<lparr>bc_id = ''_u'', bc_context = base64_encode exchange_ext xml, bc_relay_state = Some [], bc_entity_endpoint = ''acs'',
    bc_binding = SimpleSign, bc_request_type = ''SAMLResponse'', bc_signature = Some sig, bc_sig_alg = Some RSA_SHA256\<rparr>"
  have c: "create_login_response_with_overrides exchange_ext issue_sample (sf_identity_provider responding_idp) raw' SimpleSign
      (user_from_subject subject_sample) ?lo ?ov = Inr c"
    using xml fin bind
    by (simp add: create_login_response_with_overrides_def create_login_response_inner_def responding m sample_meta issue_sample_def
        sample_acs c_def unwrap_or_def)
  have b: "\<not> is_blank ''_u''" by code_simp
  have "\<exists>a. outbound_try_from exchange_ext SamlResponse c = Inr a"
    by (auto simp: outbound_from_context_def c_def validate_context_message_kind_def message_id_try_new_def b
        relay_state_try_new_def validate_relay_state_bytes_def require_complete_detached_signature_def
        reject_partial_detached_signature_def post_form_from_context_def endpoint_url_try_new_def http_url_def bc_try_post_form_def
        try_saml_post_binding_form_with_signature_def validate_post_form_action_def validate_signature_fields_def)
  then obtain a where a: "outbound_try_from exchange_ext SamlResponse c = Inr a" ..
  have f: "ar_issuer (rc_message received_sample) = pd_entity_id sp_descriptor_sample" "rc_relay_state received_sample = PresentEmpty"
    "message_id_str (ar_id (rc_message received_sample)) = ''_q''" "rs_relay_state (respond_sso_new ResponseSimpleSign) = None"
    "rs_binding (respond_sso_new ResponseSimpleSign) = ResponseSimpleSign" "nid_format (sub_name_id subject_sample) = None"
    by (simp_all add: received_sample_def sp_descriptor_sample_def respond_sso_new_def subject_sample_def)
  have "respond_sso exchange_ext issue_sample responding_idp sp_descriptor_sample received_sample subject_sample
     (respond_sso_new ResponseSimpleSign) = Inr a"
    using c a
    by (simp add: respond_sso_def issue_sso_def ensure_entity_id_def f raw Let_def responding raw'_def [symmetric] t relay_param_validate_def validate_relay_state_bytes_def
        del: outbound_try_from.simps)
  then show ?thesis by blast
qed

lemma respond_sso_registered_endpoint_witness:
  "\<exists>a raw form. respond_sso exchange_ext issue_sample responding_idp sp_descriptor_sample received_sample subject_sample
       (respond_sso_new ResponseSimpleSign) = Inr a \<and> outbound_post_form a = Inr form
     \<and> raw_sp_descriptor exchange_ext sp_descriptor_sample = Inr raw
     \<and> has_assertion_consumer_service (spr_metadata raw) SimpleSign (endpoint_url_str (pf_action form))
     \<and> map_option relay_state_str (ob_relay_state a) = Some []"
proof -
  obtain a where a: "respond_sso exchange_ext issue_sample responding_idp sp_descriptor_sample received_sample subject_sample
      (respond_sso_new ResponseSimpleSign) = Inr a"
    using sample_response by blast
  from respond_sso_registered_endpoint [OF this] a show ?thesis
    by (auto simp: respond_sso_new_def received_sample_def unwrap_or_def)
qed

end
