(* ===== verification/Exchange.thy ===== *)
theory Exchange
  imports Facade
begin

text \<open>
  Progress and start of SSO: which calls of the service provider facade succeed, and how the request
  \<open>start_sso\<close> sends relates to the pending state it returns (\<open>src/src/api/sp.rs\<close>).
\<close>

section \<open>Caches that accept what is new\<close>

locale progressing_cache = replay_cache +
  assumes accepts_new: "cache_key k \<notin> seen c \<Longrightarrow> snd (check_and_store c k t) = Inr ()"
begin

lemma store_new:
  assumes "vc_replay v = RequireCache c" "cache_key k \<notin> seen c"
  shows "\<exists>c'. store_in_context check_and_store v k t = (v\<lparr>vc_replay := RequireCache c'\<rparr>, Inr ())
     \<and> seen c' = insert (cache_key k) (seen c)"
proof -
  have s: "snd (check_and_store c k t) = Inr ()" by (rule accepts_new [OF assms(2)])
  then have "check_and_store c k t = (fst (check_and_store c k t), Inr ())" by (metis prod.collapse)
  from accept_stores [OF this] s show ?thesis by (auto simp: store_in_context_RequireCache [OF assms(1)])
qed

lemma store_keys_new:
  assumes "vc_replay v = RequireCache c" "distinct ks" "cache_key ` set ks \<inter> seen c = {}"
  shows "\<exists>c'. store_keys check_and_store v ks t = (v\<lparr>vc_replay := RequireCache c'\<rparr>, Inr ())
     \<and> seen c' = seen c \<union> cache_key ` set ks"
  using assms
proof (induction ks arbitrary: v c)
  case Nil
  then have "v\<lparr>vc_replay := RequireCache c\<rparr> = v" by simp
  then show ?case by (intro exI [of _ c]) simp
next
  case (Cons k ks)
  obtain c1 where c1: "store_in_context check_and_store v k t = (v\<lparr>vc_replay := RequireCache c1\<rparr>, Inr ())"
    "seen c1 = insert (cache_key k) (seen c)"
    using store_new [OF Cons.prems(1), of k t] Cons.prems(3) by auto
  have "cache_key ` set ks \<inter> seen c1 = {}"
    using Cons.prems(2,3) c1(2) by (auto simp: cache_key_inject)
  from Cons.IH [of "v\<lparr>vc_replay := RequireCache c1\<rparr>" c1, OF _ _ this] Cons.prems(2) c1 show ?case by auto
qed

lemma finish_sso_new:
  assumes s: "finish_sso_session E clk sp idp pending input v = Inr s" and c: "vc_replay v = RequireCache c"
    and now: "now_offset E v = Inr now" and e: "replay_expires_at E s now (not_on_or_after_ms (vc_clock_skew v)) = Inr e"
    and t: "system_time_from_offset_datetime e = Inr t" and d: "completion_deadline E pending = Inr (Some d)"
    and u: "system_time_from_offset_datetime d = Inr u"
    and new: "cache_key ` insert (CompletedAuthnRequestId (pe_id pending)) (set (replay_keys s)) \<inter> seen c = {}"
  shows "\<exists>c'. finish_sso E clk check_and_store sp idp pending input v = (v\<lparr>vc_replay := RequireCache c'\<rparr>, Inr s)
     \<and> seen c' = seen c \<union> cache_key ` insert (CompletedAuthnRequestId (pe_id pending)) (set (replay_keys s))"
proof -
  have ks: "distinct (replay_keys s)" "CompletedAuthnRequestId (pe_id pending) \<notin> set (replay_keys s)"
    by (simp_all add: replay_keys_def split: option.split)
  obtain c1 where c1: "store_keys check_and_store v (replay_keys s) t = (v\<lparr>vc_replay := RequireCache c1\<rparr>, Inr ())"
    "seen c1 = seen c \<union> cache_key ` set (replay_keys s)"
    using store_keys_new [OF c ks(1), of t] new by auto
  have "cache_key (CompletedAuthnRequestId (pe_id pending)) \<notin> seen c1"
    using new ks(2) c1(2) by (auto simp: cache_key_inject)
  from store_new [of "v\<lparr>vc_replay := RequireCache c1\<rparr>", OF _ this, of u] obtain c2 where
    c2: "store_in_context check_and_store (v\<lparr>vc_replay := RequireCache c1\<rparr>) (CompletedAuthnRequestId (pe_id pending)) u
      = (v\<lparr>vc_replay := RequireCache c2\<rparr>, Inr ())"
    "seen c2 = insert (cache_key (CompletedAuthnRequestId (pe_id pending))) (seen c1)"
    by auto
  show ?thesis
    using c1 c2
    by (simp add: finish_sso_def s sso_check_and_store_replay_def now c e t d check_and_store_message_replay_until_def u) auto
qed

end

interpretation minimal_progress: progressing_cache minimal_check_and_store dom
  by unfold_locales (simp add: minimal_check_and_store_def Let_def domIff)

section \<open>Rejected messages\<close>

text \<open>The context after a service provider was offered messages one after the other.\<close>

definition offer_sso :: "('k, 'e) flow_ext_scheme \<Rightarrow> clock \<Rightarrow> 'c check_and_store \<Rightarrow> saml_sp \<Rightarrow> idp_descriptor \<Rightarrow>
    pending_authn_request \<Rightarrow> browser_input list \<Rightarrow> 'c validation_context \<Rightarrow> 'c validation_context" where
  "offer_sso E clk cas sp idp pending inputs v =
     foldl (\<lambda>v input. fst (finish_sso E clk cas sp idp pending input v)) v inputs"

lemma rejected_messages_change_nothing:
  assumes "\<forall>input \<in> set inputs. \<exists>e. finish_sso_session E clk sp idp pending input v = Inl e"
  shows "offer_sso E clk cas sp idp pending inputs v = v"
proof -
  have "fst (finish_sso E clk cas sp idp pending input v) = v" if "input \<in> set inputs" for input
    using assms that by (auto simp: finish_sso_def)
  then show ?thesis unfolding offer_sso_def by (induction inputs) auto
qed

text \<open>
  C4: a valid response completes its pending request: when the checks of the response succeed, its replay
  expiry and the deadline of the pending request are representable and neither the response, nor its
  assertion, nor the pending request was accepted before, finishing SSO returns the session and the
  cache has exactly these keys more, whatever messages that fail the checks were offered first.
\<close>

theorem finish_sso_progress:
  assumes "\<forall>input' \<in> set inputs. \<exists>e. finish_sso_session E clk sp idp pending input' v = Inl e"
    "finish_sso_session E clk sp idp pending input v = Inr s" "vc_replay v = RequireCache c" "now_offset E v = Inr now"
    "replay_expires_at E s now (not_on_or_after_ms (vc_clock_skew v)) = Inr e"
    "completion_deadline E pending = Inr (Some d)"
    "sys_in_range (odt_ns e)" "sys_in_range (odt_ns d)"
    "cache_key ` insert (CompletedAuthnRequestId (pe_id pending)) (set (replay_keys s)) \<inter> dom c = {}"
  shows "\<exists>c'. finish_sso E clk minimal_check_and_store sp idp pending input
        (offer_sso E clk minimal_check_and_store sp idp pending inputs v) = (v\<lparr>vc_replay := RequireCache c'\<rparr>, Inr s)
     \<and> dom c' = dom c \<union> cache_key ` insert (CompletedAuthnRequestId (pe_id pending)) (set (replay_keys s))"
proof -
  have r: "\<exists>t. system_time_from_offset_datetime x = Inr t" if "sys_in_range (odt_ns x)" for x
    using that by (simp add: system_time_from_offset_datetime_eq)
  obtain t u where "system_time_from_offset_datetime e = Inr t" "system_time_from_offset_datetime d = Inr u"
    using r [OF assms(7)] r [OF assms(8)] by blast
  from minimal_progress.finish_sso_new [OF assms(2-5) this(1) assms(6) this(2) assms(9)] show ?thesis
    unfolding rejected_messages_change_nothing [OF assms(1)] .
qed

lemma finish_sso_progress_witness:
  "\<exists>s c'. finish_sso exchange_ext (\<lambda>_. Odt 0) minimal_check_and_store sp_sample idp_descriptor_sample pending_sample input_sample
       (offer_sso exchange_ext (\<lambda>_. Odt 0) minimal_check_and_store sp_sample idp_descriptor_sample pending_sample [InPost []]
          (empty_context)) = (empty_context\<lparr>vc_replay := RequireCache c'\<rparr>, Inr s)
     \<and> cache_key (CompletedAuthnRequestId (MessageId ''_r'')) \<in> dom c'"
proof -
  obtain s where s: "finish_sso_session exchange_ext (\<lambda>_. Odt 0) sp_sample idp_descriptor_sample pending_sample input_sample
      (empty_context) = Inr s"
    "replay_expires_at exchange_ext s (Odt 0) 0 = Inr (Odt (1704067200 * ns_per_sec))"
    using sample_session [of "Map.empty :: string \<rightharpoonup> systime"] by blast
  have rejected: "\<forall>i \<in> set [InPost []]. \<exists>e. finish_sso_session exchange_ext (\<lambda>_. Odt 0) sp_sample idp_descriptor_sample
      pending_sample i (empty_context) = Inl e"
  proof -
    have "finish_sso_session exchange_ext (\<lambda>_. Odt 0) sp_sample idp_descriptor_sample pending_sample (InPost [])
        (empty_context) \<noteq> Inr x" for x
      by (auto simp: finish_sso_session_def ensure_sso_response_binding_def pending_sample_def rbind_Inr_iff)
    then have "\<nexists>x. finish_sso_session exchange_ext (\<lambda>_. Odt 0) sp_sample idp_descriptor_sample pending_sample
        (InPost []) (empty_context) = Inr x" by blast
    then show ?thesis by (cases "finish_sso_session exchange_ext (\<lambda>_. Odt 0) sp_sample idp_descriptor_sample pending_sample
        (InPost []) (empty_context)") auto
  qed
  have d: "completion_deadline exchange_ext pending_sample = Inr (Some (Odt (1704067200 * ns_per_sec)))" "pe_id pending_sample = MessageId ''_r''"
    by (simp_all add: completion_deadline_def pending_sample_def sample_time_def)
  have n: "now_offset exchange_ext (empty_context) = Inr (Odt 0)"
    by (simp add: now_offset_def context_sample exchange_time)
  from finish_sso_progress [OF rejected s(1) context_sample(3) n _ d(1), of "Odt (1704067200 * ns_per_sec)"] s(2)
  obtain c' where c': "finish_sso exchange_ext (\<lambda>_. Odt 0) minimal_check_and_store sp_sample idp_descriptor_sample pending_sample input_sample
       (offer_sso exchange_ext (\<lambda>_. Odt 0) minimal_check_and_store sp_sample idp_descriptor_sample pending_sample [InPost []]
          (empty_context)) = (empty_context\<lparr>vc_replay := RequireCache c'\<rparr>, Inr s)"
    "dom c' = insert (cache_key (CompletedAuthnRequestId (MessageId ''_r''))) (cache_key ` set (replay_keys s))"
    by (auto simp: context_sample sys_in_range_def d(2))
  have "cache_key (CompletedAuthnRequestId (MessageId ''_r'')) \<in> dom c'" unfolding c'(2) by simp
  with c'(1) show ?thesis by blast
qed

section \<open>Starting SSO\<close>

lemma selected_acs_Inr:
  assumes "selected_acs E sp b i = Inr acs"
  shows "has_assertion_consumer_service (spr_metadata sp) (sso_response_as_binding (acs_ep_binding acs))
           (endpoint_url_str (acs_ep_url acs))"
    "acs_ep_index acs = i" "b = Some w \<Longrightarrow> acs_ep_binding acs = w"
    "i = None \<Longrightarrow> get_assertion_consumer_service (spr_metadata sp) (sso_response_as_binding (acs_ep_binding acs))
       = Some (endpoint_url_str (acs_ep_url acs))"
    "i = Some k \<Longrightarrow> \<exists>e. get_assertion_consumer_service_by_index (spr_metadata sp) k = Inr (Some e)
       \<and> am_binding e = sso_response_as_binding (acs_ep_binding acs) \<and> am_location e = endpoint_url_str (acs_ep_url acs)"
    "endpoint_url_try_new E (endpoint_url_str (acs_ep_url acs)) = Inr (acs_ep_url acs)"
proof -
  have "has_assertion_consumer_service (spr_metadata sp) (sso_response_as_binding (acs_ep_binding acs))
        (endpoint_url_str (acs_ep_url acs)) \<and> acs_ep_index acs = i \<and> (\<forall>w. b = Some w \<longrightarrow> acs_ep_binding acs = w)
     \<and> (i = None \<longrightarrow> get_assertion_consumer_service (spr_metadata sp) (sso_response_as_binding (acs_ep_binding acs))
          = Some (endpoint_url_str (acs_ep_url acs)))
     \<and> (\<forall>k. i = Some k \<longrightarrow> (\<exists>e. get_assertion_consumer_service_by_index (spr_metadata sp) k = Inr (Some e)
          \<and> am_binding e = sso_response_as_binding (acs_ep_binding acs) \<and> am_location e = endpoint_url_str (acs_ep_url acs)))
     \<and> endpoint_url_try_new E (endpoint_url_str (acs_ep_url acs)) = Inr (acs_ep_url acs)"
  proof (cases i)
    case None
    with assms obtain e u where e: "get_assertion_consumer_service_endpoint (spr_metadata sp)
        (sso_response_as_binding (unwrap_or b ResponsePost)) = Some e" "endpoint_url_try_new E (am_location e) = Inr u"
      "acs = (acs_endpoint_new (unwrap_or b ResponsePost) u)\<lparr>acs_ep_is_default := am_is_default e\<rparr>"
      by (auto simp: selected_acs_def rbind_Inr_iff ok_or_Inr_iff Let_def)
    from e(1) have "get_assertion_consumer_service (spr_metadata sp) (sso_response_as_binding (unwrap_or b ResponsePost))
        = Some (am_location e)"
      by (simp add: get_assertion_consumer_service_def)
    with e(2,3) acs_for_binding_registered [OF this] None show ?thesis
      by (auto simp: acs_endpoint_new_def unwrap_or_def url.try_new_Inr)
  next
    case (Some k)
    with assms obtain e w u where e: "get_assertion_consumer_service_by_index (spr_metadata sp) k = Inr (Some e)"
      "Browser.sso_response_try_from (am_binding e) = Inr w" "\<not> (case b of Some r \<Rightarrow> r \<noteq> w | None \<Rightarrow> False)"
      "endpoint_url_try_new E (am_location e) = Inr u"
      "acs = (acs_endpoint_new w u)\<lparr>acs_ep_index := Some k, acs_ep_is_default := am_is_default e\<rparr>"
      by (auto simp: selected_acs_def rbind_Inr_iff ok_or_Inr_iff split: if_splits)
    have "am_binding e = sso_response_as_binding w" using e(2) by (simp add: resp.try_from_Inr)
    then show ?thesis
      using acs_by_index_endpoint [OF e(1)] e(1,3,4) Some
      by (auto simp: e(5) acs_endpoint_new_def url.try_new_Inr has_assertion_consumer_service_def list_ex_iff split: option.splits)
  qed
  then show "has_assertion_consumer_service (spr_metadata sp) (sso_response_as_binding (acs_ep_binding acs))
           (endpoint_url_str (acs_ep_url acs))"
    "acs_ep_index acs = i" "b = Some w \<Longrightarrow> acs_ep_binding acs = w"
    "i = None \<Longrightarrow> get_assertion_consumer_service (spr_metadata sp) (sso_response_as_binding (acs_ep_binding acs))
       = Some (endpoint_url_str (acs_ep_url acs))"
    "i = Some k \<Longrightarrow> \<exists>e. get_assertion_consumer_service_by_index (spr_metadata sp) k = Inr (Some e)
       \<and> am_binding e = sso_response_as_binding (acs_ep_binding acs) \<and> am_location e = endpoint_url_str (acs_ep_url acs)"
    "endpoint_url_try_new E (endpoint_url_str (acs_ep_url acs)) = Inr (acs_ep_url acs)"
    by blast+
qed

lemma with_local_lifetime_keeps:
  assumes "with_local_lifetime E p now lifetime = Inr q"
  shows "pe_id q = pe_id p" "pe_relay_state q = pe_relay_state p" "pe_details q = pe_details p"
    "pe_peer_entity_id q = pe_peer_entity_id p" "pe_expires_at q \<noteq> None" "pe_issued_at q \<noteq> None"
proof -
  from assms obtain n e p1 existing where
    p1: "(if pe_issued_at p = None
        then rbind (saml_instant_try_new (serialize_instant E n)) (\<lambda>i. Inr (p\<lparr>pe_issued_at := Some i\<rparr>))
        else Inr p) = Inr p1"
    and ex: "completion_deadline E p1 = Inr existing"
    and q: "(if (case existing of None \<Rightarrow> True | Some deadline \<Rightarrow> deadline > e)
          then rbind (saml_instant_try_new (serialize_instant E e)) (\<lambda>i. Inr (p1\<lparr>pe_expires_at := Some i\<rparr>))
          else Inr p1) = Inr q"
    by (cases "lifetime = 0")
      (simp_all add: with_local_lifetime_def Let_def rbind_Inr_iff ok_or_Inr_iff rmap_err_Inr_iff split del: if_split, blast)
  have "p1 = p \<and> pe_issued_at p \<noteq> None \<or> (\<exists>i. p1 = p\<lparr>pe_issued_at := Some i\<rparr>)"
    using p1 by (auto simp: rbind_Inr_iff split: if_splits)
  moreover have "q = p1 \<and> pe_expires_at q \<noteq> None \<or> (\<exists>i. q = p1\<lparr>pe_expires_at := Some i\<rparr>)"
    using q ex by (auto simp: rbind_Inr_iff completion_deadline_def split: if_splits option.splits)
  ultimately show "pe_id q = pe_id p" "pe_relay_state q = pe_relay_state p" "pe_details q = pe_details p"
    "pe_peer_entity_id q = pe_peer_entity_id p" "pe_expires_at q \<noteq> None" "pe_issued_at q \<noteq> None"
    by auto
qed

definition sent_relay_state :: "saml_sp \<Rightarrow> start_sso_options \<Rightarrow> string option" where
  "sent_relay_state sp opts =
     (case relay_param_as_deref (so_relay_state opts) of
        Some v \<Rightarrow> Some v
      | None \<Rightarrow> if es_relay_state (spr_setting sp) \<noteq> [] then Some (es_relay_state (spr_setting sp)) else None)"

lemma signed_request_context_fields:
  assumes "signed_request_context E sp b xml destination relay_state i = Inr c"
  shows "bc_id c = i" "bc_relay_state c = relay_state" "bc_entity_endpoint c = destination" "bc_binding c = b"
  using assms
  by (auto simp: signed_request_context_def rbind_Inr_iff Let_def split: if_splits)

text \<open>The context of an unsigned message: the encoded text, or the URL with the compressed text.\<close>

definition carries_message :: "('k, 'e) out_ext_scheme \<Rightarrow> parser_type \<Rightarrow> binding_context \<Rightarrow> string \<Rightarrow> bool" where
  "carries_message E t c xml \<longleftrightarrow>
     bc_binding c = Post \<and> bc_context c = base64_encode E xml
     \<or> bc_binding c = Redirect
       \<and> build_redirect_url E (bc_entity_endpoint c) t xml (bc_relay_state c) = Inr (bc_context c)"

text \<open>
  The context of a signed request: the text under an embedded signature, or the text with a detached signature
  over the octets of its binding, made with the key of the service provider.
\<close>

definition carries_signed_request :: "('k, 'e) out_ext_scheme \<Rightarrow> service_provider \<Rightarrow> binding_context \<Rightarrow> string \<Rightarrow> bool" where
  "carries_signed_request E sp c xml \<longleftrightarrow>
     (let s = spr_setting sp; alg = es_request_signature_algorithm s in
      \<exists>pem cert key. es_private_key s = Some pem \<and> es_signing_cert s = Some cert
        \<and> load_private_key E pem (es_private_key_pass s) = Inr key
        \<and> (bc_binding c = Redirect
             \<and> (\<exists>octet sig. build_redirect_octet E SamlRequest xml (bc_relay_state c) alg = Inr octet
                  \<and> construct_message_signature E octet key alg = Inr sig
                  \<and> bc_context c = append_signature E (bc_entity_endpoint c) octet sig)
           \<or> bc_binding c = Post
             \<and> (\<exists>signed. construct_saml_signature E xml True key cert alg (es_transformation_algorithms s)
                    (es_signature_config s) = Inr signed
                  \<and> bc_context c = base64_encode E signed)
           \<or> bc_binding c = SimpleSign
             \<and> (\<exists>sig. construct_message_signature E
                    (build_simplesign_octet (query_param SamlRequest) xml (bc_relay_state c) alg) key alg = Inr sig
                  \<and> bc_context c = base64_encode E xml \<and> bc_signature c = Some sig \<and> bc_sig_alg c = Some alg)))"

lemma signed_request_context_carries:
  assumes "signed_request_context E sp b xml destination relay_state i = Inr c"
  shows "carries_signed_request E sp c xml"
  using assms
  by (cases b) (auto simp: signed_request_context_def carries_signed_request_def rbind_Inr_iff ok_or_Inr_iff Let_def split: if_splits)

lemma create_login_request_fields:
  assumes "create_login_request_with_options E env sp idp b opts = Inr c"
  obtains xml where "get_single_sign_on_service (idr_metadata idp) b = Some (bc_entity_endpoint c)"
    "login_request_message E env sp (bc_entity_endpoint c) opts = Inr (bc_id c, xml)" "bc_binding c = b"
    "bc_relay_state c = (case lo_relay_state opts of Some v \<Rightarrow> Some v
       | None \<Rightarrow> if es_relay_state (spr_setting sp) \<noteq> [] then Some (es_relay_state (spr_setting sp)) else None)"
    "if is_authn_request_signed (spr_metadata sp) then carries_signed_request E sp c xml
     else b = SimpleSign \<or> carries_message E SamlRequest c xml"
proof -
  let ?r = "case lo_relay_state opts of Some v \<Rightarrow> Some v
       | None \<Rightarrow> if es_relay_state (spr_setting sp) \<noteq> [] then Some (es_relay_state (spr_setting sp)) else None"
  have signs: "is_authn_request_signed (spr_metadata sp) = is_want_authn_requests_signed (idr_metadata idp)"
    using assms by (auto simp: create_login_request_with_options_def rbind_Inr_iff Let_def split: if_splits)
  let ?send = "\<lambda>destination i xml.
       if is_authn_request_signed (spr_metadata sp) then signed_request_context E sp b xml destination ?r i
       else rbind
         (case b of Redirect \<Rightarrow> build_redirect_url E destination SamlRequest xml ?r
            | Post \<Rightarrow> Inr (base64_encode E xml) | SimpleSign \<Rightarrow> Inr (base64_encode E xml)
            | Artifact \<Rightarrow> Inl (UnsupportedBinding Artifact)) (\<lambda>context.
           Inr \<lparr>bc_id = i, bc_context = context, bc_relay_state = ?r, bc_entity_endpoint = destination,
                bc_binding = b, bc_request_type = ''SAMLRequest'', bc_signature = None, bc_sig_alg = None\<rparr>)"
  have "rbind (ok_or (get_single_sign_on_service (idr_metadata idp) b) (MissingMetadata ''SingleSignOnService'')) (\<lambda>destination.
       rbind (login_request_message E env sp destination opts) (\<lambda>(i, xml). ?send destination i xml)) = Inr c"
    using assms signs unfolding create_login_request_with_options_def Let_def
    by (cases "metadata_validate_at E (sp_inner (spr_metadata sp)) (ie_now env)";
        cases "metadata_validate_at E (idp_inner (idr_metadata idp)) (ie_now env)") simp_all
  then obtain destination m where d: "get_single_sign_on_service (idr_metadata idp) b = Some destination"
    "login_request_message E env sp destination opts = Inr m" "(case m of (i, xml) \<Rightarrow> ?send destination i xml) = Inr c"
    unfolding rbind_Inr_iff ok_or_Inr_iff by blast
  obtain i xml where m: "m = (i, xml)" by (cases m)
  note d = d(1) d(2) [unfolded m] and c = d(3) [unfolded m prod.case]
  have "(bc_id c = i \<and> bc_entity_endpoint c = destination \<and> bc_binding c = b \<and> bc_relay_state c = ?r)
     \<and> (if is_authn_request_signed (spr_metadata sp) then carries_signed_request E sp c xml
        else b = SimpleSign \<or> carries_message E SamlRequest c xml)"
  proof (cases "is_authn_request_signed (spr_metadata sp)")
    case True
    with c have "signed_request_context E sp b xml destination ?r i = Inr c" by (simp only: if_True)
    with True signed_request_context_fields [OF this] signed_request_context_carries [OF this] show ?thesis by simp
  next
    case False
    with c obtain ctx where x: "(case b of Redirect \<Rightarrow> build_redirect_url E destination SamlRequest xml ?r
            | Post \<Rightarrow> Inr (base64_encode E xml) | SimpleSign \<Rightarrow> Inr (base64_encode E xml)
            | Artifact \<Rightarrow> Inl (UnsupportedBinding Artifact)) = Inr ctx"
      "Inr \<lparr>bc_id = i, bc_context = ctx, bc_relay_state = ?r, bc_entity_endpoint = destination,
                bc_binding = b, bc_request_type = ''SAMLRequest'', bc_signature = None, bc_sig_alg = None\<rparr> = Inr c"
      by (simp only: if_False rbind_Inr_iff) blast
    show ?thesis unfolding x(2) [unfolded sum.inject, THEN sym] using False x(1) by (cases b) (auto simp: carries_message_def)
  qed
  then show ?thesis using that d by blast
qed


text \<open>An unsigned request over the SimpleSign binding never becomes an outbound action.\<close>

lemma unsigned_simple_sign:
  assumes "create_login_request_with_options E env sp idp b opts = Inr c" "outbound_try_from E SamlRequest c = Inr a"
    "\<not> is_authn_request_signed (spr_metadata sp)"
  shows "b \<noteq> SimpleSign"
proof
  assume b: "b = SimpleSign"
  have "bc_signature c = None \<and> bc_binding c = SimpleSign"
    using assms(1,3) b by (auto simp: create_login_request_with_options_def rbind_Inr_iff Let_def split: if_splits)
  with assms(2) show False
    by (auto simp: outbound_from_context_def rbind_Inr_iff require_complete_detached_signature_def reject_partial_detached_signature_def
        split: if_splits)
qed

text \<open>What a successful call went through: the ACS, the context, the outbound message and the lifetime.\<close>

lemma start_sso_stages:
  assumes "start_sso E env later sp idp opts = Inr st"
  obtains raw acs c p where "raw_idp_descriptor E idp = Inr raw"
    "selected_acs E sp (so_response_binding opts) (so_acs_index opts) = Inr acs" "relay_param_ok (so_relay_state opts)"
    "create_login_request_with_options E env sp raw (sso_request_as_binding (so_binding opts))
       \<lparr>lo_relay_state = relay_param_as_deref (so_relay_state opts), lo_custom = None,
        lo_force_authn = map_option force_as_bool (so_force_authn opts), lo_acs_index = so_acs_index opts,
        lo_response_binding = Some (sso_response_as_binding (acs_ep_binding acs))\<rparr> = Inr c"
    "outbound_try_from E SamlRequest c = Inr (st_outbound st)"
    "with_local_lifetime E p later (so_pending_lifetime opts) = Inr (st_pending st)"
    "pe_id p = ob_id (st_outbound st)" "pe_relay_state p = so_relay_state opts" "pe_peer_entity_id p = pd_entity_id idp"
    "pe_details p = \<lparr>pd_request_binding = Some (so_binding opts), pd_response_binding = acs_ep_binding acs, pd_acs = acs\<rparr>"
  using assms that
  unfolding start_sso_def Let_def rbind_Inr_iff relay_param_validate_iff
  by (auto simp: pending_authn_try_new_def rbind_Inr_iff simp del: outbound_try_from.simps)

text \<open>
  C5: the pending state \<open>start_sso\<close> returns is that of the message it sends: it has the message ID, the peer
  and the RelayState the caller gave, a deadline, and an assertion consumer service that the metadata of the
  service provider registers for the response binding, with the requested index and binding. The message goes
  to the peer's SSO endpoint for the request binding, with the RelayState of the caller or else the configured
  default, and carries, signed with the key of the service provider where its metadata says so, the AuthnRequest
  of the default template, which asks for exactly this assertion consumer service, by index where one was
  requested and by URL and binding otherwise. With a configured template that last part does not apply.
\<close>

theorem start_sso_pending_matches:
  assumes "start_sso E env later sp idp opts = Inr st"
  shows "\<exists>raw r. pe_id (st_pending st) = ob_id (st_outbound st) \<and> pe_peer_entity_id (st_pending st) = pd_entity_id idp
     \<and> pe_relay_state (st_pending st) = so_relay_state opts \<and> pe_expires_at (st_pending st) \<noteq> None
     \<and> pd_request_binding (pe_details (st_pending st)) = Some (so_binding opts)
     \<and> (let b = pd_response_binding (pe_details (st_pending st)); acs = pd_acs (pe_details (st_pending st));
            c = into_raw_context (st_outbound st) in
          has_assertion_consumer_service (spr_metadata sp) (sso_response_as_binding b) (endpoint_url_str (acs_ep_url acs))
        \<and> acs_ep_binding acs = b \<and> acs_ep_index acs = so_acs_index opts \<and> so_response_binding opts \<in> {None, Some b}
        \<and> raw_idp_descriptor E idp = Inr raw \<and> bc_binding c = sso_request_as_binding (so_binding opts)
        \<and> get_single_sign_on_service (idr_metadata raw) (bc_binding c) = Some (bc_entity_endpoint c)
        \<and> map_option relay_state_str (ob_relay_state (st_outbound st)) = sent_relay_state sp opts
        \<and> (es_login_request_template (spr_setting sp) = None \<longrightarrow>
             ax_id r = message_id_str (pe_id (st_pending st)) \<and> ax_destination r = bc_entity_endpoint c
           \<and> ax_issuer r = sp_entity_text sp \<and> ax_acs_index r = acs_ep_index acs
           \<and> (so_acs_index opts = None \<longrightarrow>
                ax_acs_url r = Some (endpoint_url_str (acs_ep_url acs)) \<and>
                ax_protocol_binding r = Some (binding_urn (sso_response_as_binding b)))
           \<and> (if is_authn_request_signed (spr_metadata sp)
              then carries_signed_request E sp c (render_default_authn_request_xml E r)
              else carries_message E SamlRequest c (render_default_authn_request_xml E r))))"
proof (rule start_sso_stages [OF assms])
  fix raw and acs :: acs_endpoint and c and p :: pending_authn_request
  let ?lo = "\<lparr>lo_relay_state = relay_param_as_deref (so_relay_state opts), lo_custom = None,
        lo_force_authn = map_option force_as_bool (so_force_authn opts), lo_acs_index = so_acs_index opts,
        lo_response_binding = Some (sso_response_as_binding (acs_ep_binding acs))\<rparr>"
  assume raw: "raw_idp_descriptor E idp = Inr raw"
    and acs: "selected_acs E sp (so_response_binding opts) (so_acs_index opts) = Inr acs"
    and c: "create_login_request_with_options E env sp raw (sso_request_as_binding (so_binding opts)) ?lo = Inr c"
    and a: "outbound_try_from E SamlRequest c = Inr (st_outbound st)"
    and q: "with_local_lifetime E p later (so_pending_lifetime opts) = Inr (st_pending st)"
    and p: "pe_id p = ob_id (st_outbound st)" "pe_relay_state p = so_relay_state opts" "pe_peer_entity_id p = pd_entity_id idp"
      "pe_details p = \<lparr>pd_request_binding = Some (so_binding opts), pd_response_binding = acs_ep_binding acs, pd_acs = acs\<rparr>"
  note q = with_local_lifetime_keeps [OF q] and sel = selected_acs_Inr [OF acs] and out = outbound_try_from_Inr [OF a]
  have rs: "(case lo_relay_state ?lo of Some v \<Rightarrow> Some v
       | None \<Rightarrow> if es_relay_state (spr_setting sp) \<noteq> [] then Some (es_relay_state (spr_setting sp)) else None)
      = sent_relay_state sp opts"
    by (simp add: sent_relay_state_def)
  obtain xml where
    sso: "get_single_sign_on_service (idr_metadata raw) (sso_request_as_binding (so_binding opts)) = Some (bc_entity_endpoint c)"
    and msg: "login_request_message E env sp (bc_entity_endpoint c) ?lo = Inr (bc_id c, xml)"
    and b: "bc_binding c = sso_request_as_binding (so_binding opts)"
    and relay: "bc_relay_state c = sent_relay_state sp opts"
    and send: "if is_authn_request_signed (spr_metadata sp) then carries_signed_request E sp c xml
      else sso_request_as_binding (so_binding opts) = SimpleSign \<or> carries_message E SamlRequest c xml"
    by (rule create_login_request_fields [OF c, unfolded rs], rule that; (assumption | simp))
  have post: "if is_authn_request_signed (spr_metadata sp) then carries_signed_request E sp c xml
      else carries_message E SamlRequest c xml"
    using send unsigned_simple_sign [OF c a] b by auto
  have want: "so_response_binding opts \<in> {None, Some (acs_ep_binding acs)}"
    using sel(3) by (cases "so_response_binding opts") auto
  have "\<exists>r. es_login_request_template (spr_setting sp) = None \<longrightarrow>
      xml = render_default_authn_request_xml E r \<and> ax_id r = bc_id c \<and> ax_destination r = bc_entity_endpoint c
      \<and> ax_issuer r = sp_entity_text sp \<and> ax_acs_index r = so_acs_index opts
      \<and> (so_acs_index opts = None \<longrightarrow> ax_acs_url r = Some (endpoint_url_str (acs_ep_url acs)) \<and>
           ax_protocol_binding r = Some (binding_urn (sso_response_as_binding (acs_ep_binding acs))))"
    using msg sel(4)
    by (cases "so_acs_index opts")
      (auto simp: login_request_message_def Let_def rbind_Inr_iff unwrap_or_def)
  then obtain r where r: "es_login_request_template (spr_setting sp) = None \<longrightarrow>
      xml = render_default_authn_request_xml E r \<and> ax_id r = bc_id c \<and> ax_destination r = bc_entity_endpoint c
      \<and> ax_issuer r = sp_entity_text sp \<and> ax_acs_index r = so_acs_index opts
      \<and> (so_acs_index opts = None \<longrightarrow> ax_acs_url r = Some (endpoint_url_str (acs_ep_url acs)) \<and>
           ax_protocol_binding r = Some (binding_urn (sso_response_as_binding (acs_ep_binding acs))))" ..
  have sent: "es_login_request_template (spr_setting sp) = None \<longrightarrow>
      (if is_authn_request_signed (spr_metadata sp) then carries_signed_request E sp c (render_default_authn_request_xml E r)
       else carries_message E SamlRequest c (render_default_authn_request_xml E r))"
    using r post by auto
  show ?thesis
    by (rule exI [of _ raw], rule exI [of _ r])
      (use q p sel(1,2) want raw b sso relay out r sent in \<open>simp add: Let_def into_raw_context_def\<close>)
qed

text \<open>
  C15: a configured default RelayState never completes SSO: when the caller of \<open>start_sso\<close> leaves the RelayState
  absent and the configuration has a default, the request is sent with the default while the pending
  request expects none, so every response that echoes the RelayState it was sent is rejected.
\<close>

theorem default_relay_state_never_completes:
  assumes "start_sso E env later sp idp opts = Inr st" "so_relay_state opts = Absent" "es_relay_state (spr_setting sp) \<noteq> []"
    "relay_state_from_input E' input = Inr r"
    "relay_param_as_deref r = map_option relay_state_str (ob_relay_state (st_outbound st))"
  shows "map_option relay_state_str (ob_relay_state (st_outbound st)) = Some (es_relay_state (spr_setting sp))
     \<and> pe_relay_state (st_pending st) = Absent \<and> (\<exists>e. snd (finish_sso E' clk cas sp' idp' (st_pending st) input v) = Inl e)"
proof (rule start_sso_stages [OF assms(1)])
  fix raw and acs :: acs_endpoint and c and p :: pending_authn_request
  assume c: "create_login_request_with_options E env sp raw (sso_request_as_binding (so_binding opts))
      \<lparr>lo_relay_state = relay_param_as_deref (so_relay_state opts), lo_custom = None,
        lo_force_authn = map_option force_as_bool (so_force_authn opts), lo_acs_index = so_acs_index opts,
        lo_response_binding = Some (sso_response_as_binding (acs_ep_binding acs))\<rparr> = Inr c"
    and a: "outbound_try_from E SamlRequest c = Inr (st_outbound st)"
    and q: "with_local_lifetime E p later (so_pending_lifetime opts) = Inr (st_pending st)"
    and p: "pe_relay_state p = so_relay_state opts"
  have absent: "pe_relay_state (st_pending st) = Absent" using with_local_lifetime_keeps(2) [OF q] p assms(2) by simp
  have sent: "map_option relay_state_str (ob_relay_state (st_outbound st)) = Some (es_relay_state (spr_setting sp))"
    using create_login_request_fields [OF c] outbound_try_from_Inr(4) [OF a] assms(2,3) by auto
  then have "r \<noteq> Absent" using assms(5) by auto
  then have "finish_sso_session E' clk sp' idp' (st_pending st) input v \<noteq> Inr s" for s
    using assms(4) absent by (auto simp: finish_sso_session_def rbind_Inr_iff ensure_relay_state_def)
  then have "finish_sso E' clk cas sp' idp' (st_pending st) input v \<noteq> (v', Inr s)" for v' s
    using finish_sso_Inr by blast
  then have "\<exists>e. snd (finish_sso E' clk cas sp' idp' (st_pending st) input v) = Inl e"
    by (cases "snd (finish_sso E' clk cas sp' idp' (st_pending st) input v)") (auto, metis prod.collapse)
  then show ?thesis using sent absent by blast
qed

section \<open>A started request\<close>

definition start_sp :: saml_sp where
  "start_sp = \<lparr>spr_setting = entity_setting_default\<lparr>es_relay_state := ''r''\<rparr>, spr_metadata = SpMetadata sp_model\<rparr>"

definition start_options :: start_sso_options where
  "start_options = (start_sso_new RequestRedirect)\<lparr>so_response_binding := Some ResponseSimpleSign\<rparr>"

lemma starting:
  "spr_metadata start_sp = SpMetadata sp_model" "es_relay_state (spr_setting start_sp) = ''r''"
  "es_login_request_template (spr_setting start_sp) = None" "so_relay_state start_options = Absent"
  "so_response_binding start_options = Some ResponseSimpleSign" "so_acs_index start_options = None"
  "so_binding start_options = RequestRedirect" "so_force_authn start_options = None"
  "so_pending_lifetime start_options = 300 * 1000000000"
  by (simp_all add: start_sp_def entity_setting_default_def start_options_def start_sso_new_def)

lemma sample_signing: "is_authn_request_signed (SpMetadata sp_model) = False" "is_want_authn_requests_signed (IdpMetadata meta_model) = False"
  "get_single_sign_on_service (IdpMetadata meta_model) Redirect = Some ''sso''"
  by code_simp+

lemma sample_acs_endpoint:
  "\<exists>e. get_assertion_consumer_service_endpoint (SpMetadata sp_model) SimpleSign = Some e \<and> am_location e = ''acs''"
  using sample_acs by (auto simp: get_assertion_consumer_service_def)

lemma sample_instant: "\<exists>i. saml_instant_try_new (serialize_instant exchange_ext t) = Inr i"
proof -
  have "serialize_instant exchange_ext t = ''2024-01-01T00:00:00.000000000Z''"
    by (simp add: serialize_instant_def format_saml_utc_date_time_def sample_time_def show_padded_def pad_zero_def
        show_nat.simps digit_char_def trim_end_char_def)
      (simp add: numeral_eq_Suc)
  moreover have "saml_instant_try_new ''2024-01-01T00:00:00.000000000Z'' = Inr (SamlInstant ''2024-01-01T00:00:00.000000000Z'')"
    by (simp add: ins.try_new_Inr not_blank_Cons ws_len.simps)
  ultimately show ?thesis by simp
qed

lemma sample_lifetime:
  assumes "pe_expires_at p = None"
  shows "\<exists>q. with_local_lifetime exchange_ext p (SysTime 0) (300 * 1000000000) = Inr q"
proof -
  have t: "offset_datetime_from_system_time exchange_ext (SysTime n) = Inr (Odt n)" for n
    by (simp add: offset_datetime_from_system_time_def since_unix_epoch_def unix_epoch_def odt_checked_sub_def)
  obtain i j where "saml_instant_try_new (serialize_instant exchange_ext (Odt 0)) = Inr i"
    "saml_instant_try_new (serialize_instant exchange_ext (Odt 300000000000)) = Inr j"
    using sample_instant by blast
  with assms show ?thesis
    by (cases "pe_issued_at p") (simp_all add: with_local_lifetime_def sys_checked_add_def sys_in_range_def t completion_deadline_def)
qed

lemma sample_started:
  "\<exists>st. start_sso exchange_ext issue_sample (SysTime 0) start_sp idp_descriptor_sample start_options = Inr st"
proof -
  obtain raw where raw: "raw_idp_descriptor exchange_ext idp_descriptor_sample = Inr raw" "idr_metadata raw = IdpMetadata meta_model"
    using sample_idp by blast
  obtain acs where acs: "selected_acs exchange_ext start_sp (Some ResponseSimpleSign) None = Inr acs" "acs_ep_binding acs = ResponseSimpleSign"
    using sample_acs_endpoint
    by (auto simp: selected_acs_def starting unwrap_or_def endpoint_url_try_new_def http_url_def acs_endpoint_new_def)
  let ?lo = "\<lparr>lo_relay_state = None, lo_custom = None, lo_force_authn = None, lo_acs_index = None, lo_response_binding = Some SimpleSign\<rparr>"
  obtain xml where xml: "login_request_message exchange_ext issue_sample start_sp ''sso'' ?lo = Inr (''_u'', xml)"
    by (simp add: login_request_message_def starting unwrap_or_def sample_acs issue_sample_def generate_id_def Let_def)
  obtain url where url: "build_redirect_url exchange_ext ''sso'' SamlRequest xml (Some ''r'') = Inr url" "url \<noteq> slo_url"
    by (simp add: build_redirect_url_def deflate_raw_encode_def has_query_def slo_url_def)
  let ?c = "\<lparr>bc_id = ''_u'', bc_context = url, bc_relay_state = Some ''r'', bc_entity_endpoint = ''sso'',
      bc_binding = Redirect, bc_request_type = ''SAMLRequest'', bc_signature = None, bc_sig_alg = None\<rparr>"
  have c: "create_login_request_with_options exchange_ext issue_sample start_sp raw Redirect ?lo = Inr ?c"
    using xml url
    by (simp add: create_login_request_with_options_def starting raw sample_meta sample_signing issue_sample_def)
  have b: "\<not> is_blank ''_u''" by code_simp
  obtain a where a: "outbound_try_from exchange_ext SamlRequest ?c = Inr a"
    by (auto simp: outbound_from_context_def validate_context_message_kind_def message_id_try_new_def b
        relay_state_try_new_def validate_relay_state_bytes_def MAX_RELAY_STATE_BYTES_def endpoint_url_try_new_def http_url_def
        validate_redirect_message_kind_def Let_def count_kind_def url(2))
  have peer: "pending_validate_common Absent (EntityId ''idp'') = Inr ()"
  proof -
    have "\<not> is_blank ''idp''" by code_simp
    then show ?thesis by (simp add: pending_validate_common_iff)
  qed
  have peer': "pd_entity_id idp_descriptor_sample = EntityId ''idp''" by (simp add: idp_descriptor_sample_def)
  define p where "p = \<lparr>pe_id = ob_id a, pe_relay_state = Absent, pe_details = \<lparr>pd_request_binding = Some RequestRedirect,
         pd_response_binding = ResponseSimpleSign, pd_acs = acs\<rparr>, pe_peer_entity_id = EntityId ''idp'',
       pe_issued_at = None, pe_expires_at = None\<rparr>"
  have "pe_expires_at p = None" by (simp add: p_def)
  from sample_lifetime [OF this] obtain q where "with_local_lifetime exchange_ext p (SysTime 0) (300 * 1000000000) = Inr q" ..
  then show ?thesis
    using acs a
    by (simp add: start_sso_def starting raw relay_param_validate_def c pending_authn_try_new_def peer'
        peer Let_def p_def del: outbound_try_from.simps)
qed

lemma start_sso_pending_matches_witness:
  "\<exists>st. start_sso exchange_ext issue_sample (SysTime 0) start_sp idp_descriptor_sample start_options = Inr st
     \<and> has_assertion_consumer_service (spr_metadata start_sp) SimpleSign
         (endpoint_url_str (acs_ep_url (pd_acs (pe_details (st_pending st)))))
     \<and> map_option relay_state_str (ob_relay_state (st_outbound st)) = Some ''r''"
proof -
  obtain st where st: "start_sso exchange_ext issue_sample (SysTime 0) start_sp idp_descriptor_sample start_options = Inr st"
    using sample_started by blast
  from start_sso_pending_matches [OF st] have
    "pd_response_binding (pe_details (st_pending st)) = ResponseSimpleSign"
    "has_assertion_consumer_service (spr_metadata start_sp)
       (sso_response_as_binding (pd_response_binding (pe_details (st_pending st))))
       (endpoint_url_str (acs_ep_url (pd_acs (pe_details (st_pending st)))))"
    "map_option relay_state_str (ob_relay_state (st_outbound st)) = sent_relay_state start_sp start_options"
    by (auto simp: Let_def starting)
  with st show ?thesis by (intro exI [of _ st]) (simp add: sent_relay_state_def starting)
qed

lemma default_relay_state_never_completes_witness:
  "\<exists>st e. start_sso exchange_ext issue_sample (SysTime 0) start_sp idp_descriptor_sample start_options = Inr st
     \<and> snd (finish_sso exchange_ext (\<lambda>_. Odt 0) minimal_check_and_store start_sp idp_descriptor_sample (st_pending st)
         (InPost [(''SAMLResponse'', ''QUJD''), (''RelayState'', ''r'')]) (empty_context)) = Inl e"
proof -
  obtain st where st: "start_sso exchange_ext issue_sample (SysTime 0) start_sp idp_descriptor_sample start_options = Inr st"
    using sample_started by blast
  have sent: "map_option relay_state_str (ob_relay_state (st_outbound st)) = Some ''r''"
  proof (rule start_sso_stages [OF st])
    fix raw and acs :: acs_endpoint and c and p :: pending_authn_request
    assume c: "create_login_request_with_options exchange_ext issue_sample start_sp raw (sso_request_as_binding (so_binding start_options))
        \<lparr>lo_relay_state = relay_param_as_deref (so_relay_state start_options), lo_custom = None,
          lo_force_authn = map_option force_as_bool (so_force_authn start_options), lo_acs_index = so_acs_index start_options,
          lo_response_binding = Some (sso_response_as_binding (acs_ep_binding acs))\<rparr> = Inr c"
      and a: "outbound_try_from exchange_ext SamlRequest c = Inr (st_outbound st)"
    show ?thesis
      using create_login_request_fields [OF c] outbound_try_from_Inr(4) [OF a] by (auto simp: starting)
  qed
  have r: "relay_state_from_input exchange_ext (InPost [(''SAMLResponse'', ''QUJD''), (''RelayState'', ''r'')])
      = Inr (PresentValue (RelayState ''r''))"
    by (simp add: first_field_def relay_param_try_from_option_def relay_state_try_new_def validate_relay_state_bytes_def
        MAX_RELAY_STATE_BYTES_def)
  from default_relay_state_never_completes [OF st starting(4) _ r, where clk = "\<lambda>_. Odt 0" and cas = minimal_check_and_store
      and sp' = start_sp and idp' = idp_descriptor_sample and v = "empty_context"] st sent
  show ?thesis by (auto simp: starting)
qed

end
