(* ===== verification/Read_Back.thy ===== *)
theory Read_Back
  imports Exchange Written
begin

text \<open>
  The messages the default renderers write are the messages the other side reads
  (\<open>src/src/sp.rs\<close> against \<open>src/src/xml/fields.rs\<close> and \<open>src/src/model/authn.rs\<close>).
\<close>

section \<open>Documents within limits\<close>

text \<open>The document is read as the reader promises and stays within the limits of the receiver.\<close>

definition readable :: "('k, 'e) out_ext_scheme \<Rightarrow> xml_limits \<Rightarrow> written \<Rightarrow> bool" where
  "readable E L el \<longleftrightarrow>
     reads_written E (written_events el) \<and> limits_ok L \<and> written_fits L (max_depth L) el \<and> written_size el \<le> max_nodes L
     \<and> length (xml_write E (written_events el)) \<le> max_bytes L"

lemma readable_parses:
  assumes "readable E L el"
  obtains m where "parse_with_limits E (xml_write E (written_events el)) L = Inr m" "node_of_written el m"
  using written_parses [of E el L] assms by (auto simp: readable_def)

section \<open>Generated instants\<close>

text \<open>A date and time of the calendar, with a year of the common era of at most four digits.\<close>

definition civil_ok :: "civil \<Rightarrow> bool" where
  "civil_ok c \<longleftrightarrow>
     1 \<le> cv_year c \<and> cv_year c \<le> 9999 \<and> 1 \<le> cv_day c \<and> cv_day c \<le> days_in_month (cv_year c) (cv_month c)
     \<and> cv_hour c < 24 \<and> cv_minute c < 60 \<and> cv_second c < 60 \<and> cv_nanosecond c < 1000000000"

definition civil_stamp :: "civil \<Rightarrow> string \<Rightarrow> utc_stamp" where
  "civil_stamp c fraction =
     \<lparr>st_negative = False, st_year = show_padded 4 (cv_year c), st_month = cv_month c, st_day = cv_day c,
      st_hour = cv_hour c, st_minute = cv_minute c, st_second = cv_second c, st_fraction = fraction\<rparr>"

lemma digit_val_digit_char: "d < 10 \<Longrightarrow> digit_val (digit_char d) = d"
  by (simp add: digit_val_def digit_char_inverse)

lemma year_value_snoc: "year_value (ds @ [d]) = 10 * year_value ds + digit_val d"
  by (simp add: year_value_def year_value_from_def)

lemma year_value_zeros: "year_value (replicate k CHR ''0'' @ ds) = year_value ds"
  by (induction k) (simp_all add: year_value_def year_value_from_def digit_val_def)

lemma show_nat_digits: "list_all is_ascii_digit (show_nat n) \<and> year_value (show_nat n) = n \<and> show_nat n \<noteq> []"
proof (induction n rule: show_nat.induct)
  case (1 n)
  show ?case
  proof (cases "n < 10")
    case True
    then show ?thesis
      by (simp add: show_nat.simps [of n] digit_char_inverse(2) digit_val_digit_char year_value_def year_value_from_def)
  next
    case False
    with 1 show ?thesis
      by (simp add: show_nat.simps [of n] digit_char_inverse(2) digit_val_digit_char year_value_snoc)
  qed
qed

lemma length_show_nat: "n < 10 ^ Suc k \<Longrightarrow> length (show_nat n) \<le> Suc k"
proof (induction k arbitrary: n)
  case (Suc k)
  show ?case
  proof (cases "n < 10")
    case False
    then have "length (show_nat (n div 10)) \<le> Suc k" using Suc by auto
    then show ?thesis using False by (simp add: show_nat.simps [of n])
  qed (subst show_nat.simps, simp)
qed (subst show_nat.simps, simp)

lemma show_padded_2: "n < 100 \<Longrightarrow> show_padded 2 (int n) = two_digits n"
  by (cases "n < 10") (simp_all add: show_padded_def pad_zero_def two_digits_def show_nat.simps [of n] show_nat.simps [of "n div 10"] digit_char_def)

lemma parse_u16_show_nat: "n \<le> 65535 \<Longrightarrow> parse_u16 (show_nat n) = Some n"
  using show_nat_digits [of n]
  by (cases "show_nat n") (auto simp: parse_u16_def is_ascii_digit_def)

lemma civil_year:
  assumes "civil_ok c"
  shows "valid_year (show_padded 4 (cv_year c))" "astronomical_year False (show_padded 4 (cv_year c)) = cv_year c"
    "length (show_padded 4 (cv_year c)) = 4"
proof -
  let ?n = "nat (cv_year c)"
  have n: "0 < ?n" "?n < 10 ^ Suc 3" and y: "show_padded 4 (cv_year c) = replicate (4 - length (show_nat ?n)) CHR ''0'' @ show_nat ?n"
    using assms by (auto simp: civil_ok_def show_padded_def pad_zero_def)
  have val: "year_value (show_padded 4 (cv_year c)) = ?n"
    using show_nat_digits [of ?n] by (simp add: y year_value_zeros)
  then show "astronomical_year False (show_padded 4 (cv_year c)) = cv_year c"
    using n by (simp add: astronomical_year_def)
  show len: "length (show_padded 4 (cv_year c)) = 4" using length_show_nat [OF n(2)] by (simp add: y)
  have "\<not> list_all (\<lambda>d. d = CHR ''0'') (show_padded 4 (cv_year c))"
  proof
    assume "list_all (\<lambda>d. d = CHR ''0'') (show_padded 4 (cv_year c))"
    then have "show_padded 4 (cv_year c) = replicate 4 CHR ''0'' @ []"
      using len by (simp add: list_all_iff) (metis replicate_eqI)
    then have "year_value (show_padded 4 (cv_year c)) = 0"
      by (simp only: year_value_zeros) (simp add: year_value_def year_value_from_def)
    with val n show False by simp
  qed
  then show "valid_year (show_padded 4 (cv_year c))"
    using len show_nat_digits [of ?n] by (simp add: valid_year_def y) (simp add: list_all_iff is_ascii_digit_def)
qed

lemma civil_stamp_text:
  assumes "civil_ok c"
  shows "render_stamp (civil_stamp c fraction) = show_padded 4 (cv_year c) @ ''-'' @ show_padded 2 (int (cv_month c)) @ ''-''
    @ show_padded 2 (int (cv_day c)) @ ''T'' @ show_padded 2 (int (cv_hour c)) @ '':'' @ show_padded 2 (int (cv_minute c)) @ '':''
    @ show_padded 2 (int (cv_second c)) @ fraction @ ''Z''"
proof -
  have "cv_month c < 100" "cv_day c < 100"
    using assms by (auto simp: civil_ok_def days_in_month_def split: if_splits)
  then show ?thesis
    using assms by (simp add: render_stamp_def render_body_def civil_stamp_def show_padded_2 civil_ok_def)
qed

lemma civil_stamp_parses:
  assumes "civil_ok c" "valid_fraction fraction"
  shows "parse_saml_utc_date_time (render_stamp (civil_stamp c fraction)) = Some (render_stamp (civil_stamp c fraction))"
proof -
  let ?v = "render_stamp (civil_stamp c fraction)"
  have stamp: "valid_stamp (civil_stamp c fraction)"
    using assms civil_year [OF assms(1)] by (simp add: valid_stamp_def civil_stamp_def valid_clock_def civil_ok_def)
  obtain y ys where "show_padded 4 (cv_year c) = y # ys" "is_ascii_digit y"
    using civil_year(1,3) [OF assms(1)] by (cases "show_padded 4 (cv_year c)") (auto simp: valid_year_def)
  then have "trim_by is_xml_schema_whitespace ?v = ?v"
    by (auto simp: trim_by_def civil_stamp_text [OF assms(1)] is_xml_schema_whitespace_def is_ascii_digit_def)
  with stamp have "parse_saml_utc_date_time_with_seconds ?v = Some (?v, of_nat (cv_second c))"
    unfolding parse_with_seconds_iff by (intro exI [of _ "civil_stamp c fraction"]) (simp add: civil_stamp_def)
  then show ?thesis by (simp add: parse_saml_utc_date_time_def)
qed

lemma nanosecond_fraction:
  assumes "n < 1000000000"
  shows "valid_fraction (CHR ''.'' # show_padded 9 (int n))"
  using show_nat_digits [of n]
  by (auto simp: valid_fraction_def byte_at_def show_padded_def pad_zero_def list_all_iff is_ascii_digit_def)

text \<open>
  the instants the library writes are instants it accepts: at every instant of the calendar with a year
  from 1 to 9999, the texts of \<open>now_iso8601\<close> and of the issuance window parse under the strict
  profile grammar of received messages, to themselves.
\<close>

theorem generated_instants_accepted:
  assumes "civil_ok (odt_civil E t)"
  shows "parse_saml_utc_date_time (now_iso8601 E t) = Some (now_iso8601 E t)
     \<and> parse_saml_utc_date_time (format_idp_issuance_instant E t b) = Some (format_idp_issuance_instant E t b)"
proof -
  let ?c = "odt_civil E t"
  have now: "now_iso8601 E t = render_stamp (civil_stamp ?c [])"
    "format_idp_issuance_instant E t False = render_stamp (civil_stamp ?c [])"
    "format_idp_issuance_instant E t True = render_stamp (civil_stamp ?c (CHR ''.'' # show_padded 9 (int (cv_nanosecond ?c))))"
    by (simp_all add: now_iso8601_def format_saml_utc_date_time_def format_idp_issuance_instant_def
        civil_stamp_text [OF assms] Let_def)
  have f: "valid_fraction []" "valid_fraction (CHR ''.'' # show_padded 9 (int (cv_nanosecond ?c)))"
    using assms nanosecond_fraction by (simp_all add: valid_fraction_def civil_ok_def)
  show ?thesis
    using civil_stamp_parses [OF assms f(1)] civil_stamp_parses [OF assms f(2)] now by (cases b) simp_all
qed

section \<open>AuthnRequests\<close>

definition authn_request_written :: "authn_request_xml \<Rightarrow> written" where
  "authn_request_written i =
     WrittenParent ''samlp:AuthnRequest'' (authn_request_attrs i)
       [WrittenText ''saml:Issuer'' [] (ax_issuer i),
        WrittenEmpty ''samlp:NameIDPolicy'' [(''Format'', ax_name_id_format i), (''AllowCreate'', bool_str (ax_allow_create i))]]"

lemma authn_request_text:
  "render_default_authn_request_xml E i = xml_write E (written_events (authn_request_written i))"
  by (simp add: render_default_authn_request_xml_def authn_request_written_def writer_defs writer_finish_def)

lemma local_parts:
  "local_part ''samlp:AuthnRequest'' = ''AuthnRequest''" "local_part ''saml:Issuer'' = ''Issuer''"
  "local_part ''samlp:NameIDPolicy'' = ''NameIDPolicy''"
  by (simp_all add: local_part_def)

lemma request_camel:
  "camel_case ''ID'' = ''id''" "camel_case ''IssueInstant'' = ''issueInstant''" "camel_case ''Destination'' = ''destination''"
  "camel_case ''AssertionConsumerServiceURL'' = ''assertionConsumerServiceUrl''"
  "camel_case ''ProtocolBinding'' = ''protocolBinding''"
  "camel_case ''AssertionConsumerServiceIndex'' = ''assertionConsumerServiceIndex''"
  "camel_case ''Format'' = ''format''" "camel_case ''AllowCreate'' = ''allowCreate''"
  by code_simp+

lemma plain_attrs_append: "plain_attrs (xs @ ys) = plain_attrs xs @ plain_attrs ys"
  by (simp add: plain_attrs_def)

lemma authn_request_attr_values:
  assumes "attrs m = plain_attrs (authn_request_attrs i)"
  shows "node_attr m ''ID'' = Some (ax_id i)" "node_attr m ''IssueInstant'' = Some (ax_issue_instant i)"
    "node_attr m ''Destination'' = Some (ax_destination i)" "node_attr m ''AssertionConsumerServiceURL'' = ax_acs_url i"
    "node_attr m ''ProtocolBinding'' = ax_protocol_binding i"
    "node_attr m ''AssertionConsumerServiceIndex'' = map_option show_nat (ax_acs_index i)"
  unfolding node_attr_def assms authn_request_attrs_def
  by (cases "ax_force_authn i"; cases "ax_protocol_binding i"; cases "ax_acs_url i"; cases "ax_acs_index i";
      simp add: plain_attrs_def names_namespace_def opt_attr_def)+

lemma authn_request_extracted:
  assumes "readable E L (authn_request_written i)"
  shows "\<exists>ex. extract_with_limits E (render_default_authn_request_xml E i) login_request_fields L = Inr ex
     \<and> get_str ex ''request.id'' = Some (ax_id i) \<and> get_str ex ''request.issueInstant'' = Some (ax_issue_instant i)
     \<and> get_str ex ''request.destination'' = Some (ax_destination i)
     \<and> get_str ex ''request.assertionConsumerServiceUrl'' = ax_acs_url i
     \<and> get_str ex ''request.protocolBinding'' = ax_protocol_binding i
     \<and> get_str ex ''request.assertionConsumerServiceIndex'' = map_option show_nat (ax_acs_index i)
     \<and> get_str ex ''issuer'' = Some (ax_issuer i)
     \<and> get_str ex ''nameIDPolicy.format'' = Some (ax_name_id_format i)
     \<and> get_str ex ''nameIDPolicy.allowCreate'' = Some (bool_str (ax_allow_create i))"
proof -
  obtain m where m: "parse_with_limits E (render_default_authn_request_xml E i) L = Inr m" "node_of_written (authn_request_written i) m"
    using readable_parses [OF assms] by (auto simp: authn_request_text)
  obtain issuer policy where c: "children m = [issuer, policy]" "local_name m = ''AuthnRequest''"
    "attrs m = plain_attrs (authn_request_attrs i)" "local_name issuer = ''Issuer''" "node_text issuer = ax_issuer i"
    "local_name policy = ''NameIDPolicy''"
    "attrs policy = [(''Format'', ax_name_id_format i), (''AllowCreate'', bool_str (ax_allow_create i))]"
    using m(2) by (auto simp: authn_request_written_def local_parts list_all2_Cons1 plain_attrs_def names_namespace_def)
  have plain: "\<forall>f \<in> set login_request_fields. f_shortcut f = None"
    by (simp add: login_request_fields_def field_simps)
  note x = extract_plain [OF m(1) plain]
  note v = authn_request_attr_values [OF c(3)]
  have p: "node_attr policy ''Format'' = Some (ax_name_id_format i)"
    "node_attr policy ''AllowCreate'' = Some (bool_str (ax_allow_create i))"
    using c(7) by (simp_all add: node_attr_def)
  show ?thesis
    unfolding x
    by (cases "ax_acs_url i"; cases "ax_protocol_binding i"; cases "ax_acs_index i")
      (simp_all add: login_request_fields_def field_simps extract_field_def seg_matches_def strip_prefix_def c(1,2,4-7)
        select_step_def one_or_array_def attr_object_def v p request_camel get_str_def get_path_def)
qed

lemma digit_not_ws: "is_ascii_digit c \<Longrightarrow> ws_len (c # s) = 0"
proof -
  assume d: "is_ascii_digit c"
  have n: "c \<noteq> x" if "\<not> is_ascii_digit x" for x using d that by blast
  have "c \<noteq> CHR '' ''" "c \<noteq> CHR 0x09" "c \<noteq> CHR 0x0A" "c \<noteq> CHR 0x0B" "c \<noteq> CHR 0x0C" "c \<noteq> CHR 0x0D" "c \<noteq> CHR 0xC2"
    "c \<noteq> CHR 0xE1" "c \<noteq> CHR 0xE2" "c \<noteq> CHR 0xE3"
    by (rule n, simp add: is_ascii_digit_def)+
  then show ?thesis by (subst ws_len.simps) simp
qed

lemma civil_stamp_not_blank:
  assumes "civil_ok c"
  shows "\<not> is_blank (render_stamp (civil_stamp c fraction))"
proof -
  obtain y ys where "show_padded 4 (cv_year c) = y # ys" "is_ascii_digit y"
    using civil_year(1,3) [OF assms] by (cases "show_padded 4 (cv_year c)") (auto simp: valid_year_def)
  then show ?thesis by (simp add: civil_stamp_text [OF assms] not_blank_Cons digit_not_ws)
qed

lemma generated_instant:
  assumes "civil_ok (odt_civil E t)"
  shows "parse_saml_utc_date_time (now_iso8601 E t) = Some (now_iso8601 E t)" "\<not> is_blank (now_iso8601 E t)"
proof -
  have now: "now_iso8601 E t = render_stamp (civil_stamp (odt_civil E t) [])"
    by (simp add: now_iso8601_def format_saml_utc_date_time_def civil_stamp_text [OF assms] Let_def)
  show "parse_saml_utc_date_time (now_iso8601 E t) = Some (now_iso8601 E t)"
    unfolding now by (rule civil_stamp_parses [OF assms]) (simp add: valid_fraction_def)
  show "\<not> is_blank (now_iso8601 E t)"
    unfolding now by (rule civil_stamp_not_blank [OF assms])
qed

lemma authn_request_typed:
  assumes "readable E L (authn_request_written i)" "ax_issue_instant i = now_iso8601 E t" "civil_ok (odt_civil E t)"
    "message_id_try_new (ax_id i) = Inr mid" "entity_id_try_new (ax_issuer i) = Inr iss"
    "endpoint_url_try_new E (ax_destination i) = Inr dest" "opt_traverse (endpoint_url_try_new E) (ax_acs_url i) = Inr acs"
    "ax_protocol_binding i = map_option (\<lambda>b. binding_urn (sso_response_as_binding b)) pb"
    "\<forall>n. ax_acs_index i = Some n \<longrightarrow> n \<le> 65535"
  shows "\<exists>ex. extract_with_limits E (render_default_authn_request_xml E i) login_request_fields L = Inr ex
     \<and> get_str ex ''issuer'' = Some (ax_issuer i)
     \<and> (\<forall>fr. fr_extract fr = ex \<longrightarrow> (\<exists>a. authn_request_try_from E fr = Inr a \<and> ar_id a = mid \<and> ar_issuer a = iss
          \<and> ar_issue_instant a = SamlInstant (now_iso8601 E t) \<and> ar_destination a = Some dest \<and> ar_acs_url a = acs
          \<and> ar_protocol_binding a = pb \<and> ar_acs_index a = ax_acs_index i))"
proof -
  obtain ex where ex: "extract_with_limits E (render_default_authn_request_xml E i) login_request_fields L = Inr ex"
    "get_str ex ''request.id'' = Some (ax_id i)" "get_str ex ''request.issueInstant'' = Some (ax_issue_instant i)"
    "get_str ex ''request.destination'' = Some (ax_destination i)"
    "get_str ex ''request.assertionConsumerServiceUrl'' = ax_acs_url i"
    "get_str ex ''request.protocolBinding'' = ax_protocol_binding i"
    "get_str ex ''request.assertionConsumerServiceIndex'' = map_option show_nat (ax_acs_index i)"
    "get_str ex ''issuer'' = Some (ax_issuer i)"
    "get_str ex ''nameIDPolicy.format'' = Some (ax_name_id_format i)"
    "get_str ex ''nameIDPolicy.allowCreate'' = Some (bool_str (ax_allow_create i))"
    using authn_request_extracted [OF assms(1)] by blast
  have ii: "issue_instant_from_extract ex ''request.issueInstant'' ''AuthnRequest'' = Inr (SamlInstant (now_iso8601 E t))"
    using generated_instant [OF assms(3)]
    by (simp add: issue_instant_from_extract_def ex(3) assms(2) ins.try_new_Inr)
  have pb: "optional_response_binding ex = Inr pb"
    by (cases pb) (simp_all add: optional_response_binding_def ex(6) assms(8))
  have ai: "optional_u16 ex ''request.assertionConsumerServiceIndex'' = Inr (ax_acs_index i)"
    using assms(9) by (cases "ax_acs_index i") (simp_all add: optional_u16_def ex(7) parse_u16_show_nat)
  obtain policy where po: "name_id_policy_from_extract ex = Inr policy"
    by (cases "ax_allow_create i") (simp_all add: name_id_policy_from_extract_def ex(9,10) parse_bool_def bool_str_def)
  show ?thesis
    using ex(1,2,4,5,8) assms(4-7)
    by (intro exI [of _ ex]) (auto simp: authn_request_try_from_def required_str_def optional_endpoint_def ii pb ai po)
qed

section \<open>The request of a started login\<close>

text \<open>The AuthnRequest of the default renderer, in terms of what \<open>start_sso\<close> returns.\<close>

definition sent_authn_request :: "('e) time_ext_scheme \<Rightarrow> issue_env \<Rightarrow> saml_sp \<Rightarrow> start_sso_options \<Rightarrow>
    authn_pending_details started \<Rightarrow> authn_request_xml" where
  "sent_authn_request E env sp opts st =
     (let acs = pd_acs (pe_details (st_pending st)); i = so_acs_index opts in
      \<lparr>ax_id = message_id_str (pe_id (st_pending st)), ax_issue_instant = now_iso8601 E (ie_now_utc env),
       ax_destination = bc_entity_endpoint (into_raw_context (st_outbound st)),
       ax_force_authn = map_option force_as_bool (so_force_authn opts),
       ax_protocol_binding = (if i = None then Some (binding_urn (sso_response_as_binding (acs_ep_binding acs))) else None),
       ax_acs_url = (if i = None then Some (endpoint_url_str (acs_ep_url acs)) else None), ax_acs_index = i,
       ax_issuer = sp_entity_text sp, ax_name_id_format = first_or_empty (es_name_id_format (spr_setting sp)),
       ax_allow_create = es_allow_create (spr_setting sp)\<rparr>)"

lemma login_request_default:
  assumes "login_request_message E env sp destination opts = Inr (i, xml)" "es_login_request_template (spr_setting sp) = None"
    "lo_custom opts = None" "lo_response_binding opts = Some b"
    "lo_acs_index opts = None \<Longrightarrow> get_assertion_consumer_service (spr_metadata sp) b = Some url"
  shows "xml = render_default_authn_request_xml E
     \<lparr>ax_id = i, ax_issue_instant = now_iso8601 E (ie_now_utc env), ax_destination = destination,
      ax_force_authn = lo_force_authn opts,
      ax_protocol_binding = (if lo_acs_index opts = None then Some (binding_urn b) else None),
      ax_acs_url = (if lo_acs_index opts = None then Some url else None), ax_acs_index = lo_acs_index opts,
      ax_issuer = sp_entity_text sp, ax_name_id_format = first_or_empty (es_name_id_format (spr_setting sp)),
      ax_allow_create = es_allow_create (spr_setting sp)\<rparr>"
  using assms
  by (cases "lo_acs_index opts") (auto simp: login_request_message_def Let_def rbind_Inr_iff unwrap_or_def)

lemma start_sso_sends:
  assumes "start_sso E env later sp idp opts = Inr st" "es_login_request_template (spr_setting sp) = None"
    "\<not> is_authn_request_signed (spr_metadata sp)"
  shows "carries_message E SamlRequest (into_raw_context (st_outbound st))
        (render_default_authn_request_xml E (sent_authn_request E env sp opts st))
    \<and> message_id_try_new (ax_id (sent_authn_request E env sp opts st)) = Inr (pe_id (st_pending st))"
proof (rule start_sso_stages [OF assms(1)])
  fix raw and acs :: acs_endpoint and c and p :: pending_authn_request
  let ?lo = "\<lparr>lo_relay_state = relay_param_as_deref (so_relay_state opts), lo_custom = None,
        lo_force_authn = map_option force_as_bool (so_force_authn opts), lo_acs_index = so_acs_index opts,
        lo_response_binding = Some (sso_response_as_binding (acs_ep_binding acs))\<rparr>"
  assume acs: "selected_acs E sp (so_response_binding opts) (so_acs_index opts) = Inr acs"
    and c: "create_login_request_with_options E env sp raw (sso_request_as_binding (so_binding opts)) ?lo = Inr c"
    and a: "outbound_try_from E SamlRequest c = Inr (st_outbound st)"
    and q: "with_local_lifetime E p later (so_pending_lifetime opts) = Inr (st_pending st)"
    and p: "pe_id p = ob_id (st_outbound st)"
      "pe_details p = \<lparr>pd_request_binding = Some (so_binding opts), pd_response_binding = acs_ep_binding acs, pd_acs = acs\<rparr>"
  note out = outbound_try_from_Inr [OF a] and q = with_local_lifetime_keeps [OF q]
  obtain xml where msg: "login_request_message E env sp (bc_entity_endpoint c) ?lo = Inr (bc_id c, xml)"
    and ctx: "carries_message E SamlRequest c xml"
    by (rule create_login_request_fields [OF c]) (use assms(3) unsigned_simple_sign [OF c a assms(3)] in auto)
  have xml: "xml = render_default_authn_request_xml E (sent_authn_request E env sp opts st)"
    using login_request_default [OF msg assms(2), of "sso_response_as_binding (acs_ep_binding acs)" "endpoint_url_str (acs_ep_url acs)"]
      selected_acs_Inr(4) [OF acs]
    by (simp add: sent_authn_request_def Let_def q p out into_raw_context_def)
  have mid: "message_id_try_new (bc_id c) = Inr (MessageId (bc_id c))"
    using a by (auto simp: outbound_from_context_def rbind_Inr_iff mid.try_new_Inr)
  show ?thesis
    using xml ctx mid q p out by (simp add: sent_authn_request_def Let_def into_raw_context_def)
qed

lemma response_target_of_acs:
  assumes "ar_protocol_binding a \<in> {None, Some b}" "spr_metadata raw_sp = spr_metadata sp"
    "ar_acs_url a = Some u \<and> ar_acs_index a = None \<and> u = acs_ep_url acs
       \<and> has_assertion_consumer_service (spr_metadata sp) (sso_response_as_binding b) (endpoint_url_str u)
     \<or> ar_acs_url a = None \<and> ar_acs_index a = Some k
       \<and> get_assertion_consumer_service_by_index (spr_metadata sp) k = Inr (Some e)
       \<and> am_binding e = sso_response_as_binding b \<and> am_location e = endpoint_url_str (acs_ep_url acs)"
  shows "response_target raw_sp a b = Inr (b, Some (endpoint_url_str (acs_ep_url acs)))"
  using assms by (auto simp: response_target_def unwrap_or_def)

text \<open>
  The two sides agree on a started login: the AuthnRequest of the default template is read, by any receiver within
  whose limits it is, as a request with the ID of the pending state, issued by the service provider at the time of
  the call and destined to the endpoint the message goes to; and an identity provider that knows the service
  provider by the same metadata picks, for the pending response binding, exactly the assertion consumer service
  the pending state expects the response at.
\<close>

lemma started_request_agrees:
  assumes "start_sso E env later sp idp opts = Inr st" "es_login_request_template (spr_setting sp) = None"
    "\<not> is_authn_request_signed (spr_metadata sp)"
    "http_url E (bc_entity_endpoint (into_raw_context (st_outbound st)))"
    "readable E L (authn_request_written (sent_authn_request E env sp opts st))"
    "civil_ok (odt_civil E (ie_now_utc env))" "entity_id_try_new (sp_entity_text sp) = Inr issuer"
    "\<forall>k. so_acs_index opts = Some k \<longrightarrow> k \<le> 65535" "spr_metadata raw_sp = spr_metadata sp"
    "xml = render_default_authn_request_xml E (sent_authn_request E env sp opts st)"
  shows "\<exists>ex a. extract_with_limits E xml login_request_fields L = Inr ex
     \<and> get_str ex ''issuer'' = Some (sp_entity_text sp)
     \<and> authn_request_try_from E \<lparr>fr_saml_content = xml, fr_extract = ex, fr_sig_alg = alg\<rparr> = Inr a
     \<and> ar_id a = pe_id (st_pending st) \<and> ar_issuer a = issuer
     \<and> ar_issue_instant a = SamlInstant (now_iso8601 E (ie_now_utc env))
     \<and> map_option endpoint_url_str (ar_destination a) = Some (bc_entity_endpoint (into_raw_context (st_outbound st)))
     \<and> response_target raw_sp a (pd_response_binding (pe_details (st_pending st)))
         = Inr (pd_response_binding (pe_details (st_pending st)),
                Some (endpoint_url_str (acs_ep_url (pd_acs (pe_details (st_pending st))))))"
proof (rule start_sso_stages [OF assms(1)])
  fix raw and acs :: acs_endpoint and c and p :: pending_authn_request
  assume acs: "selected_acs E sp (so_response_binding opts) (so_acs_index opts) = Inr acs"
    and q: "with_local_lifetime E p later (so_pending_lifetime opts) = Inr (st_pending st)"
    and p: "pe_details p = \<lparr>pd_request_binding = Some (so_binding opts), pd_response_binding = acs_ep_binding acs, pd_acs = acs\<rparr>"
  define i where "i = sent_authn_request E env sp opts st"
  define b where "b = acs_ep_binding acs"
  have d: "pe_details (st_pending st) = \<lparr>pd_request_binding = Some (so_binding opts), pd_response_binding = b, pd_acs = acs\<rparr>"
    using with_local_lifetime_keeps(3) [OF q] p by (simp add: b_def)
  note sel = selected_acs_Inr [OF acs, folded b_def]
  have sent: "carries_message E SamlRequest (into_raw_context (st_outbound st)) (render_default_authn_request_xml E i)"
    "message_id_try_new (ax_id i) = Inr (pe_id (st_pending st))"
    using start_sso_sends [OF assms(1-3)] by (simp_all add: i_def)
  have dest: "endpoint_url_try_new E (ax_destination i) = Inr (EndpointUrl (ax_destination i))"
    using assms(4) by (simp add: url.try_new_Inr i_def sent_authn_request_def Let_def)
  have f: "ax_issue_instant i = now_iso8601 E (ie_now_utc env)" "ax_issuer i = sp_entity_text sp"
    "ax_destination i = bc_entity_endpoint (into_raw_context (st_outbound st))" "ax_acs_index i = so_acs_index opts"
    "ax_acs_url i = (if so_acs_index opts = None then Some (endpoint_url_str (acs_ep_url acs)) else None)"
    "ax_protocol_binding i = (if so_acs_index opts = None then Some (binding_urn (sso_response_as_binding b)) else None)"
    by (simp_all add: i_def sent_authn_request_def Let_def d b_def)
  let ?acs = "if so_acs_index opts = None then Some (acs_ep_url acs) else None"
  let ?pb = "if so_acs_index opts = None then Some b else None"
  have u: "opt_traverse (endpoint_url_try_new E) (ax_acs_url i) = Inr ?acs" using sel(6) by (simp add: f)
  have pb: "ax_protocol_binding i = map_option (\<lambda>b. binding_urn (sso_response_as_binding b)) ?pb" by (simp add: f)
  have idx: "\<forall>n. ax_acs_index i = Some n \<longrightarrow> n \<le> 65535" using assms(8) by (simp add: f(4))
  from authn_request_typed [OF assms(5) [folded i_def] f(1) assms(6) sent(2) assms(7) [folded f(2)] dest u pb idx]
  obtain ex where ex: "extract_with_limits E (render_default_authn_request_xml E i) login_request_fields L = Inr ex"
    "get_str ex ''issuer'' = Some (ax_issuer i)"
    and typed: "\<forall>fr. fr_extract fr = ex \<longrightarrow> (\<exists>a. authn_request_try_from E fr = Inr a \<and> ar_id a = pe_id (st_pending st)
      \<and> ar_issuer a = issuer \<and> ar_issue_instant a = SamlInstant (now_iso8601 E (ie_now_utc env))
      \<and> ar_destination a = Some (EndpointUrl (ax_destination i)) \<and> ar_acs_url a = ?acs \<and> ar_protocol_binding a = ?pb
      \<and> ar_acs_index a = ax_acs_index i)"
    by blast
  from typed [rule_format, of "\<lparr>fr_saml_content = render_default_authn_request_xml E i, fr_extract = ex, fr_sig_alg = alg\<rparr>"]
  obtain a where a: "authn_request_try_from E \<lparr>fr_saml_content = render_default_authn_request_xml E i, fr_extract = ex, fr_sig_alg = alg\<rparr> = Inr a"
      "ar_id a = pe_id (st_pending st)" "ar_issuer a = issuer" "ar_issue_instant a = SamlInstant (now_iso8601 E (ie_now_utc env))"
      "ar_destination a = Some (EndpointUrl (ax_destination i))" "ar_acs_url a = ?acs" "ar_protocol_binding a = ?pb"
      "ar_acs_index a = ax_acs_index i"
    by auto
  have "response_target raw_sp a b = Inr (b, Some (endpoint_url_str (acs_ep_url acs)))"
  proof (cases "so_acs_index opts")
    case None
    then show ?thesis
      by (intro response_target_of_acs [OF _ assms(9)]) (use a sel(1) f(4) in auto)
  next
    case (Some k)
    from sel(5) [OF this] obtain e where "get_assertion_consumer_service_by_index (spr_metadata sp) k = Inr (Some e)"
      "am_binding e = sso_response_as_binding b" "am_location e = endpoint_url_str (acs_ep_url acs)" by blast
    with Some show ?thesis
      by (intro response_target_of_acs [OF _ assms(9)]) (use a f(4) in auto)
  qed
  with ex a(1) show ?thesis
    unfolding assms(10) i_def [symmetric] by (intro exI [of _ ex] exI [of _ a]) (simp add: a(2-5) f(2,3) d)
qed

section \<open>The instants of the sample\<close>

lemma sample_civil: "civil_ok (odt_civil exchange_ext t)"
  by (simp add: sample_time_def civil_ok_def days_in_month_def)

lemma generated_instants_accepted_witness:
  "parse_saml_utc_date_time (now_iso8601 exchange_ext (Odt 0)) = Some (now_iso8601 exchange_ext (Odt 0))"
  using generated_instants_accepted [OF sample_civil] by blast

lemma sample_now: "now_iso8601 exchange_ext t = ''2024-01-01T00:00:00Z''"
proof -
  have n: "show_padded 4 2024 = ''2024''" "show_padded 2 1 = ''01''" "show_padded 2 0 = ''00''"
    by code_simp+
  show ?thesis by (simp add: now_iso8601_def format_saml_utc_date_time_def sample_time_def n)
qed

end
