(* ===== verification/Role_Read_Back.thy ===== *)
theory Role_Read_Back
  imports Read_Back
begin

text \<open>
  What the two generators of metadata (\<open>src/src/metadata/generate.rs\<close>) have in common when their documents
  are read back: one role with groups of elements in an order, its keys, its logout endpoints, and the import
  of a document with that single role (\<open>src/src/metadata/mod.rs\<close>).
\<close>

section \<open>The namespace reader on generated metadata\<close>

text \<open>Generated metadata binds the default namespace and the prefix \<open>ds\<close> at its root.\<close>

definition metadata_namespace :: "string \<Rightarrow> resolve_result" where
  "metadata_namespace n = Bound (if CHR '':'' \<in> set n then NS_DSIG else NS_METADATA)"

definition ns_reads_metadata :: "('k, 'e) out_ext_scheme \<Rightarrow> xml_writer \<Rightarrow> bool" where
  "ns_reads_metadata E w \<longleftrightarrow>
     ns_reads_as metadata_namespace w (ns_read_default E (xml_write E w))
     \<and> ns_normalize E NS_METADATA = Inr NS_METADATA \<and> ns_normalize E NS_DSIG = Inr NS_DSIG"

text \<open>Names with a prefix are not of the metadata vocabulary, attributes with a prefix bind namespaces.\<close>

fun plain_event :: "write_event \<Rightarrow> bool" where
  "plain_event (WStart n ats) \<longleftrightarrow>
     (CHR '':'' \<in> set n \<longrightarrow> (\<forall>p. \<not> metadata_vocabulary p (local_part n)))
     \<and> list_all (\<lambda>kv. CHR '':'' \<in> set (fst kv) \<longrightarrow> names_namespace (fst kv)) ats"
| "plain_event (WEmpty n ats) \<longleftrightarrow>
     (CHR '':'' \<in> set n \<longrightarrow> (\<forall>p. \<not> metadata_vocabulary p (local_part n)))
     \<and> list_all (\<lambda>kv. CHR '':'' \<in> set (fst kv) \<longrightarrow> names_namespace (fst kv)) ats"
| "plain_event _ \<longleftrightarrow> True"

lemma plain_attrs_ok:
  "list_all2 ns_attr_of ats as \<Longrightarrow>
     list_all (\<lambda>kv. CHR '':'' \<in> set (fst kv) \<longrightarrow> names_namespace (fst kv)) ats \<Longrightarrow> metadata_attrs_ok as = Inr ()"
  by (induction rule: list_all2_induct) (auto simp: ns_attr_of_def)

lemma metadata_loop_others:
  "list_all (\<lambda>p. p = NsEvent Unbound NsOther) ps \<Longrightarrow> metadata_loop E stack (ps @ steps) = metadata_loop E stack steps"
  by (induction ps) (auto simp: signature_namespace_def)

lemma metadata_loop_written:
  assumes "ns_reads_as metadata_namespace w steps" "list_all plain_event w" "ns_normalize E NS_METADATA = Inr NS_METADATA"
    "ns_normalize E NS_DSIG = Inr NS_DSIG"
  shows "metadata_loop E stack steps = Inr ()"
  using assms
proof (induction arbitrary: stack rule: ns_reads_as.induct)
  case (ns_as_text w steps ps t)
  then show ?case by (simp add: metadata_loop_others)
qed (auto simp: metadata_namespace_def signature_namespace_def metadata_element_ok_def plain_attrs_ok)

section \<open>Elements both generators write\<close>

definition key_written :: "string \<Rightarrow> string \<Rightarrow> written" where
  "key_written use cert =
     WrittenParent ''KeyDescriptor'' [(''use'', use)]
       [WrittenParent ''ds:KeyInfo'' [(''xmlns:ds'', NS_DSIG)]
          [WrittenParent ''ds:X509Data'' [] [WrittenText ''ds:X509Certificate'' [] (normalize_cert_string cert)]]]"

definition slo_written :: "raw_endpoint \<Rightarrow> written" where
  "slo_written e = WrittenEmpty ''SingleLogoutService'' (endpoint_attrs e None)"

lemma fold_write:
  assumes "\<And>x w. f x w = w @ g x"
  shows "fold f xs w = w @ concat (map g xs)"
  by (induction xs arbitrary: w) (simp_all add: assms)

lemma write_common:
  "write_key_descriptors ss es w
     = w @ concat (map written_events (map (key_written ''signing'') ss @ map (key_written ''encryption'') es))"
  "metadata_text_element ''NameIDFormat'' f w = w @ written_events (WrittenText ''NameIDFormat'' [] f)"
  "write_single_logout ls w = w @ concat (map written_events (map slo_written ls))"
proof -
  have key: "write_key_descriptor use cert w = w @ written_events (key_written use cert)" for use cert w
    by (simp add: write_key_descriptor_def key_written_def writer_defs Let_def)
  have slo: "write_endpoint_attrs ''SingleLogoutService'' e None w = w @ written_events (slo_written e)" for e w
    by (simp add: write_endpoint_attrs_def slo_written_def writer_defs)
  show "write_key_descriptors ss es w
     = w @ concat (map written_events (map (key_written ''signing'') ss @ map (key_written ''encryption'') es))"
    by (simp add: write_key_descriptors_def fold_write [of "write_key_descriptor _", OF key] comp_def)
  show "metadata_text_element ''NameIDFormat'' f w = w @ written_events (WrittenText ''NameIDFormat'' [] f)"
    by (simp add: writer_defs)
  show "write_single_logout ls w = w @ concat (map written_events (map slo_written ls))"
    by (simp add: write_single_logout_def fold_write [OF slo] comp_def)
qed

lemma common_plain:
  "list_all plain_event (written_events (key_written use cert))" "list_all plain_event (written_events (slo_written e))"
  by (auto simp: key_written_def slo_written_def local_part_def metadata_vocabulary_def names_namespace_def endpoint_attrs_def)

lemma concat_map_concat: "concat (concat (map f xs)) = concat (map (\<lambda>x. concat (f x)) xs)"
  by (induction xs) simp_all

text \<open>Nodes of a list of written elements with a given name.\<close>

fun written_name :: "written \<Rightarrow> string" where
  "written_name (WrittenEmpty n ats) = local_part n"
| "written_name (WrittenText n ats t) = local_part n"
| "written_name (WrittenParent n ats cs) = local_part n"

lemma node_of_written_name: "node_of_written el m \<Longrightarrow> local_name m = written_name el"
  by (cases el) auto

lemma nodes_named:
  "list_all2 node_of_written els ms \<Longrightarrow>
     list_all2 node_of_written (filter (\<lambda>el. written_name el = n) els) (filter (\<lambda>m. local_name m = n) ms)"
  by (induction rule: list_all2_induct) (auto simp: node_of_written_name)

lemma filter_concat: "filter P (concat xss) = concat (map (filter P) xss)"
  by (induction xss) simp_all

section \<open>Groups in an order\<close>

definition ordered :: "string list \<Rightarrow> string \<Rightarrow> 'a list \<Rightarrow> 'a list" where
  "ordered order name xs = (if name \<in> set order then xs else [])"

text \<open>The elements of a role come in groups of one name each.\<close>

locale role_groups =
  fixes group :: "string \<Rightarrow> written list"
  assumes group_named: "el \<in> set (group name) \<Longrightarrow> written_name el = name"
begin

lemma groups_named:
  assumes "distinct order" "n \<in> set order"
  shows "filter (\<lambda>el. written_name el = n) (concat (map group order)) = group n"
proof -
  have g: "filter (\<lambda>el. written_name el = n) (group name) = (if name = n then group n else [])" for name
    by (auto simp: filter_empty_conv filter_id_conv dest: group_named)
  have none: "n \<notin> set order \<Longrightarrow> filter (\<lambda>el. written_name el = n) (concat (map group order)) = []" for order
    by (induction order) (auto simp: g)
  show ?thesis
    using assms by (induction order) (auto simp: g none)
qed

lemma groups_read:
  assumes "distinct order" "list_all2 node_of_written (concat (map group order)) ns"
  shows "list_all2 node_of_written (ordered order name (group name)) (filter (\<lambda>m. local_name m = name) ns)"
proof (cases "name \<in> set order")
  case True
  with nodes_named [OF assms(2), of name] groups_named [OF assms(1) True] show ?thesis by (simp add: ordered_def)
next
  case False
  then have "filter (\<lambda>el. written_name el = name) (concat (map group order)) = []"
    by (auto simp: filter_empty_conv dest: group_named)
  with nodes_named [OF assms(2), of name] False show ?thesis by (simp add: ordered_def)
qed

end

section \<open>Endpoints and keys\<close>

lemma endpoint_camel:
  "camel_case ''Binding'' = ''binding''" "camel_case ''Location'' = ''location''" "camel_case ''isDefault'' = ''isDefault''"
  "camel_case ''index'' = ''index''" "camel_case ''WantAssertionsSigned'' = ''wantAssertionsSigned''"
  "camel_case ''AuthnRequestsSigned'' = ''authnRequestsSigned''"
  by code_simp+

lemma endpoint_attr_values:
  assumes "attrs n = plain_attrs (endpoint_attrs e i)"
  shows "node_attr n ''Binding'' = Some (binding_urn (ep_binding e))" "node_attr n ''Location'' = Some (ep_location e)"
    "node_attr n ''isDefault'' = (if ep_is_default e then Some ''true'' else None)" "node_attr n ''index'' = i"
  unfolding node_attr_def assms endpoint_attrs_def
  by (cases i; simp add: plain_attrs_def names_namespace_def)+

lemma as_object_list_one_or_array:
  "as_object_list (one_or_array (map (attr_object as) ns)) = map (attr_object as) ns"
  by (cases ns rule: list.exhaust; cases "tl ns") (auto simp: one_or_array_def as_object_list_def attr_object_def)

lemma some_values_list_all2:
  "list_all2 (\<lambda>x y. f y = Some (g x)) xs ys \<Longrightarrow> some_values f ys = map g xs"
  by (induction rule: list_all2_induct) (simp_all add: some_values_def)

lemma find_list_all2:
  "list_all2 (\<lambda>x y. p x = q y \<and> f x = g y) xs ys \<Longrightarrow>
     Option.bind (List.find q ys) g = Option.bind (List.find p xs) f"
  by (induction rule: list_all2_induct) auto

lemma slo_all_read:
  assumes "list_all2 node_of_written (map slo_written es) ns"
  shows "location_for_binding (Some (one_or_array (map (attr_object [''Binding'', ''Location'']) ns))) b
    = map_option ep_location (List.find (\<lambda>e. ep_binding e = b) es)"
proof -
  have "list_all2 (\<lambda>e obj. (ep_binding e = b) = (get_str obj ''binding'' = Some (binding_urn b))
      \<and> Some (ep_location e) = get_str obj ''location'') es (map (attr_object [''Binding'', ''Location'']) ns)"
    using assms unfolding list_all2_map1 list_all2_map2
    by (rule list_all2_mono)
      (auto simp: slo_written_def attr_object_def endpoint_attr_values endpoint_camel get_str_def get_path_def binding_urn_inject)
  from find_list_all2 [OF this] show ?thesis
    by (simp add: location_for_binding_def as_object_list_one_or_array) (cases "List.find (\<lambda>e. ep_binding e = b) es"; simp)
qed

lemma key_certificates:
  assumes "node_of_written (key_written use cert) n"
  shows "node_attr n ''use'' = Some use" "descriptor_certificates n = [normalize_cert_string cert]"
  using assms
  by (auto simp: key_written_def list_all2_Cons1 local_part_def descriptor_certificates_def children_named_def node_attr_def
      plain_attrs_def names_namespace_def)

lemma key_loop_signing:
  "list_all2 node_of_written (map (key_written ''signing'') cs) ns \<Longrightarrow>
     key_descriptor_loop (ns @ ms) s e = key_descriptor_loop ms (s @ map normalize_cert_string cs) e"
  by (induction cs arbitrary: ns s) (auto simp: list_all2_Cons1 key_certificates)

lemma key_loop_encryption:
  "list_all2 node_of_written (map (key_written ''encryption'') cs) ns \<Longrightarrow>
     key_descriptor_loop ns s e = Inr (s, e @ map normalize_cert_string cs)"
  by (induction cs arbitrary: ns e) (auto simp: list_all2_Cons1 key_certificates)


lemma key_descriptors_read:
  assumes "list_all2 node_of_written
      (ordered order ''KeyDescriptor'' (map (key_written ''signing'') ss @ map (key_written ''encryption'') es)) ns"
  shows "key_descriptor_loop ns [] []
      = Inr (ordered order ''KeyDescriptor'' (map normalize_cert_string ss), ordered order ''KeyDescriptor'' (map normalize_cert_string es))"
proof (cases "''KeyDescriptor'' \<in> set order")
  case True
  with assms obtain a b where "ns = a @ b" "list_all2 node_of_written (map (key_written ''signing'') ss) a"
    "list_all2 node_of_written (map (key_written ''encryption'') es) b"
    by (auto simp: ordered_def list_all2_append1)
  with True show ?thesis by (simp add: key_loop_signing key_loop_encryption ordered_def)
qed (use assms in \<open>simp add: ordered_def\<close>)

section \<open>A document with one role\<close>

definition role_written :: "string \<Rightarrow> string \<Rightarrow> (string \<times> string) list \<Rightarrow> written list \<Rightarrow> written" where
  "role_written i name ats els = WrittenParent ''EntityDescriptor'' (entity_descriptor_attrs i) [WrittenParent name ats els]"

definition role_tree :: "string \<Rightarrow> string \<Rightarrow> (string \<times> string) list \<Rightarrow> written list \<Rightarrow> node \<Rightarrow> node \<Rightarrow> bool" where
  "role_tree i name ats els root role \<longleftrightarrow>
     children root = [role] \<and> local_name root = ''EntityDescriptor'' \<and> attrs root = [(''entityID'', i)]
     \<and> local_name role = name \<and> attrs role = plain_attrs ats \<and> list_all2 node_of_written els (children role)"

definition role_nodes :: "node \<Rightarrow> string \<Rightarrow> node list" where
  "role_nodes role name = filter (\<lambda>n. local_name n = name) (children role)"

lemma role_document:
  assumes "readable E xml_limits_default (role_written i name ats els)" "CHR '':'' \<notin> set name"
    "xml = xml_write E (written_events (role_written i name ats els))"
  obtains root role where "parse_with_limits E xml xml_limits_default = Inr root"
    "parse_roots_with_limits E xml xml_limits_default = Inr [root]" "role_tree i name ats els root role"
proof -
  obtain root where root: "parse_with_limits E xml xml_limits_default = Inr root" "node_of_written (role_written i name ats els) root"
    by (rule readable_parses [OF assms(1)]) (simp add: assms(3))
  have roots: "parse_roots_with_limits E xml xml_limits_default = Inr [root]"
    using written_parses_roots [of E "role_written i name ats els" xml_limits_default] assms(1) parse_roots_eq [OF root(1)]
    by (auto simp: readable_def assms(3))
  have "\<exists>role. role_tree i name ats els root role"
    using root(2) assms(2)
    by (auto simp: role_written_def list_all2_Cons1 local_part_def plain_attrs_def names_namespace_def entity_descriptor_attrs_def
        role_tree_def)
  with that root(1) roots show ?thesis by blast
qed

lemma role_plain:
  assumes "CHR '':'' \<notin> set name" "list_all (\<lambda>kv. CHR '':'' \<notin> set (fst kv)) ats"
    "\<And>name. list_all (\<lambda>el. list_all plain_event (written_events el)) (groups name)"
  shows "list_all plain_event (written_events (role_written i name ats (concat (map groups order))))"
proof -
  have "list_all plain_event (concat (map written_events (concat (map groups order))))"
    using assms(3) by (induction order) (auto simp: list_all_iff)
  with assms(1,2) show ?thesis
    by (auto simp: role_written_def entity_descriptor_attrs_def names_namespace_def list_all_iff)
qed

text \<open>The certificates of a role, as they are recorded and as they are looked up.\<close>

definition certificate_lists :: "string list \<Rightarrow> string list \<Rightarrow> string list \<Rightarrow> saml_value" where
  "certificate_lists order ss es = VObject
     [(''signing'', VArray (map VStr (ordered order ''KeyDescriptor'' (map normalize_cert_string ss)))),
      (''encryption'', VArray (map VStr (ordered order ''KeyDescriptor'' (map normalize_cert_string es))))]"

lemma role_keys_read:
  assumes "list_all2 node_of_written
      (ordered order ''KeyDescriptor'' (map (key_written ''signing'') ss @ map (key_written ''encryption'') es))
      (filter (\<lambda>m. local_name m = ''KeyDescriptor'') (children role))"
  shows "certificates_for_roles [role] = Inr (certificate_lists order ss es)"
  using key_descriptors_read [OF assms] by (simp add: certificates_for_roles_def children_named_def certificate_lists_def)

lemma certificates_read:
  assumes "get_path (md_meta m) ''certificate'' = Some (certificate_lists order ss es)"
  shows "x509_certificates m Signing = ordered order ''KeyDescriptor'' (map normalize_cert_string ss)"
    "x509_certificates m Encryption = ordered order ''KeyDescriptor'' (map normalize_cert_string es)"
proof -
  have "some_values as_str (map VStr xs) = xs" for xs
    by (induction xs) (simp_all add: some_values_def)
  then show "x509_certificates m Signing = ordered order ''KeyDescriptor'' (map normalize_cert_string ss)"
    "x509_certificates m Encryption = ordered order ''KeyDescriptor'' (map normalize_cert_string es)"
    using assms by (simp_all add: x509_certificates_def certificate_value_def get_path_def certificate_lists_def)
qed

text \<open>The import of a generated document, up to the extracted entries.\<close>

lemma role_imported:
  assumes "readable E xml_limits_default (role_written i name ats els)" "CHR '':'' \<notin> set name" "ns_reads_metadata E (written_events (role_written i name ats els))"
    "list_all plain_event (written_events (role_written i name ats els))" "xml = xml_write E (written_events (role_written i name ats els))"
    "''validUntil'' \<notin> fst ` set ats" "\<forall>f \<in> set (map (field_for_role name) (base_fields @ extra)). f_shortcut f = None"
    "\<And>role. list_all2 node_of_written els (children role) \<Longrightarrow> certificates_for_roles [role] = Inr certs"
  obtains root role where "role_tree i name ats els root role"
    "parse_for_role_with_limits E xml extra xml_limits_default (Some name) = Inr \<lparr>md_xml = xml, md_meta = insert_key (VObject
       (map (\<lambda>f. (f_key f, extract_field xml root f)) (map (field_for_role name) (base_fields @ extra)))) ''certificate'' certs,
       md_valid_until = None\<rparr>"
proof (rule role_document [OF assms(1,2,5)])
  fix root role
  assume root: "parse_with_limits E xml xml_limits_default = Inr root"
    and roots: "parse_roots_with_limits E xml xml_limits_default = Inr [root]" and tree: "role_tree i name ats els root role"
  note role = tree [unfolded role_tree_def]
  note x = extract_plain [OF root assms(7)]
  have ns: "validate_metadata_namespaces E xml = Inr ()"
    unfolding validate_metadata_namespaces_def
    by (rule metadata_loop_written [OF _ assms(4)]) (use assms(3,5) in \<open>auto simp: ns_reads_metadata_def\<close>)
  have "node_attr role ''validUntil'' = None"
    using role assms(6) by (auto simp: node_attr_def plain_attrs_def map_of_eq_None_iff)
  then have exp: "effective_expiration E root [role] = Inr None"
    using role by (simp add: effective_expiration_def node_attr_def)
  have roles: "role_children root (Some name) = [role]" using role by (simp add: role_children_def)
  have certs: "certificates_for_roles [role] = Inr certs" using assms(8) role by blast
  show ?thesis
    by (rule that [OF tree])
      (use x roots ns exp certs roles role in \<open>simp add: parse_for_role_with_limits_def standalone_entity_def
        del: map_append map_map insert_key.simps\<close>)
qed

section \<open>The entries of a role\<close>

text \<open>What both roles extract; the entries of the shared certificates and of the keys by use are left open.\<close>

definition texts_value :: "node list \<Rightarrow> saml_value" where
  "texts_value ns = (case ns of [] \<Rightarrow> VNull | [n] \<Rightarrow> VStr (node_text n) | _ \<Rightarrow> VArray (map (\<lambda>n. VStr (node_text n)) ns))"

definition base_entries :: "string \<Rightarrow> node \<Rightarrow> saml_value \<Rightarrow> saml_value \<Rightarrow> (string \<times> saml_value) list" where
  "base_entries i role c1 c2 =
     [(''entityID'', VStr i), (''sharedCertificate'', c1), (''certificate'', c2),
      (''singleLogoutService'',
         one_or_array (map (attr_object [''Binding'', ''Location'']) (role_nodes role ''SingleLogoutService''))),
      (''nameIDFormat'', texts_value (role_nodes role ''NameIDFormat''))]"

lemma base_fields_read:
  assumes "role_tree i name ats els root role" "name = ''SPSSODescriptor'' \<or> name = ''IDPSSODescriptor''"
  shows "\<exists>c1 c2. map (\<lambda>f. (f_key f, extract_field xml root f)) (map (field_for_role name) base_fields) = base_entries i role c1 c2"
proof -
  note role = assms(1) [unfolded role_tree_def]
  have v: "node_attr root ''entityID'' = Some i" using role by (simp add: node_attr_def)
  have p: "select_path root [''EntityDescriptor'', name, ''NameIDFormat''] = role_nodes role ''NameIDFormat''"
    "select_path root [''EntityDescriptor'', name, ''SingleLogoutService''] = role_nodes role ''SingleLogoutService''"
    using role assms(2) by (auto simp: seg_matches_def strip_prefix_def role_nodes_def select_step_def)
  let ?f = "\<lambda>f. extract_field xml root (field_for_role name f)"
  let ?path = "\<lambda>n. [''EntityDescriptor'', ''~SSODescriptor'', n]"
  have e: "?f (with_attrs [''entityID''] (field_new ''entityID'' [''EntityDescriptor''])) = VStr i"
    using role by (simp add: field_for_role_def field_simps extract_field_def seg_matches_def strip_prefix_def v)
  have e': "?f (with_attrs [''Binding'', ''Location''] (field_new ''singleLogoutService'' (?path ''SingleLogoutService'')))
       = one_or_array (map (attr_object [''Binding'', ''Location'']) (role_nodes role ''SingleLogoutService''))"
    "?f (field_new ''nameIDFormat'' (?path ''NameIDFormat'')) = texts_value (role_nodes role ''NameIDFormat'')"
    by (simp_all add: field_for_role_def field_simps extract_field_def p texts_value_def Let_def del: select_path.simps)
  show ?thesis
    unfolding base_fields_def append.simps list.map e e' base_entries_def
    by (simp add: field_for_role_def field_simps)
qed

text \<open>The formats an entity takes over from its document, when there are any.\<close>

definition offered_formats :: "string list \<Rightarrow> string list \<Rightarrow> string list \<Rightarrow> string list" where
  "offered_formats order fs given =
     (if ordered order ''NameIDFormat'' fs = [] then given else ordered order ''NameIDFormat'' fs)"

lemma formats_read:
  assumes "list_all2 node_of_written (map (WrittenText ''NameIDFormat'' []) fs) ns"
    "get_path (md_meta m) ''nameIDFormat'' = Some (texts_value ns)"
  shows "get_name_id_format m = fs"
proof -
  from assms(1) have t: "fs = map node_text ns"
    by (induction fs arbitrary: ns) (auto simp: list_all2_Cons1)
  have "some_values as_str (map (\<lambda>n. VStr (node_text n)) ns) = map node_text ns" for ns
    by (induction ns) (simp_all add: some_values_def)
  note s = this [of ns]
  show ?thesis
    by (cases ns rule: list.exhaust; cases "tl ns")
      (use s in \<open>auto simp: get_name_id_format_def assms(2) texts_value_def t\<close>)
qed

section \<open>A generated role\<close>

text \<open>
  What a generator of one role promises of the role it writes, and what the import then says of it: the
  identifier, the name formats, the logout endpoints, the keys by use, and the extracted entries of the role.
\<close>

locale generated_role = role_groups group for group +
  fixes entity name :: string and ats :: "(string \<times> string) list" and order ss es formats :: "string list"
    and slos :: "raw_endpoint list" and extra :: "extractor_field list" and entries :: "node \<Rightarrow> (string \<times> saml_value) list"
  assumes role_name: "name = ''SPSSODescriptor'' \<or> name = ''IDPSSODescriptor''"
    and attrs_plain: "list_all (\<lambda>kv. CHR '':'' \<notin> set (fst kv) \<and> fst kv \<noteq> ''validUntil'') ats"
    and groups_plain: "list_all (\<lambda>el. list_all plain_event (written_events el)) (group n)"
    and keys: "group ''KeyDescriptor'' = map (key_written ''signing'') ss @ map (key_written ''encryption'') es"
    and formats: "group ''NameIDFormat'' = map (WrittenText ''NameIDFormat'' []) formats"
    and slos: "group ''SingleLogoutService'' = map slo_written slos"
    and fields_plain: "f \<in> set extra \<Longrightarrow> f_shortcut f = None"
    and entries_read: "role_tree entity name ats els root role \<Longrightarrow>
      map (\<lambda>f. (f_key f, extract_field xml root f)) (map (field_for_role name) extra) = entries role"
begin

lemma name_plain: "CHR '':'' \<notin> set name"
  using role_name by auto

lemma role_events_plain: "list_all plain_event (written_events (role_written entity name ats (concat (map group order))))"
proof -
  have "list_all (\<lambda>kv. CHR '':'' \<notin> set (fst kv)) ats" using attrs_plain by (simp add: list_all_iff)
  then show ?thesis by (rule role_plain [OF name_plain _ groups_plain])
qed

lemma role_shortcuts: "\<forall>f \<in> set (map (field_for_role name) (base_fields @ extra)). f_shortcut f = None"
proof -
  have "f_shortcut (field_for_role name f) = f_shortcut f" for f
    by (simp add: field_for_role_def split: local_path.split)
  then show ?thesis using fields_plain by (auto simp: base_fields_def field_simps)
qed

lemma role_extracted:
  assumes "readable E xml_limits_default (role_written entity name ats (concat (map group order)))"
    "ns_reads_metadata E (written_events (role_written entity name ats (concat (map group order))))" "distinct order"
    "xml = xml_write E (written_events (role_written entity name ats (concat (map group order))))"
  obtains role c1 c2 where "\<And>n. list_all2 node_of_written (ordered order n (group n)) (role_nodes role n)"
    "parse_for_role_with_limits E xml extra xml_limits_default (Some name) = Inr \<lparr>md_xml = xml,
       md_meta = insert_key (VObject (base_entries entity role c1 c2 @ entries role)) ''certificate'' (certificate_lists order ss es),
       md_valid_until = None\<rparr>"
proof -
  have certs: "certificates_for_roles [role] = Inr (certificate_lists order ss es)"
    if "list_all2 node_of_written (concat (map group order)) (children role)" for role
    by (rule role_keys_read) (use groups_read [OF assms(3) that, of "''KeyDescriptor''"] in \<open>simp add: keys\<close>)
  have ats: "''validUntil'' \<notin> fst ` set ats" using attrs_plain by (auto simp: list_all_iff)
  show ?thesis
  proof (rule role_imported [OF assms(1) name_plain assms(2) role_events_plain assms(4) ats role_shortcuts certs])
    fix root role
    assume tree: "role_tree entity name ats (concat (map group order)) root role"
      and m: "parse_for_role_with_limits E xml extra xml_limits_default (Some name) = Inr \<lparr>md_xml = xml, md_meta = insert_key
        (VObject (map (\<lambda>f. (f_key f, extract_field xml root f)) (map (field_for_role name) (base_fields @ extra)))) ''certificate''
          (certificate_lists order ss es), md_valid_until = None\<rparr>"
    obtain c1 c2 where "map (\<lambda>f. (f_key f, extract_field xml root f)) (map (field_for_role name) base_fields)
        = base_entries entity role c1 c2"
      using base_fields_read [OF tree role_name, of xml] by blast
    then have f: "map (\<lambda>f. (f_key f, extract_field xml root f)) (map (field_for_role name) (base_fields @ extra))
        = base_entries entity role c1 c2 @ entries role"
      using entries_read [OF tree, of xml] by (simp only: map_append)
    have "list_all2 node_of_written (ordered order n (group n)) (role_nodes role n)" for n
      using groups_read [OF assms(3)] tree by (simp add: role_tree_def role_nodes_def)
    then show ?thesis by (rule that) (use m [unfolded f] in auto)
  qed
qed

lemma role_read:
  assumes "readable E xml_limits_default (role_written entity name ats (concat (map group order)))"
    "ns_reads_metadata E (written_events (role_written entity name ats (concat (map group order))))" "distinct order"
    "xml = xml_write E (written_events (role_written entity name ats (concat (map group order))))"
  obtains m role where "parse_for_role_with_limits E xml extra xml_limits_default (Some name) = Inr m"
    "md_xml m = xml" "md_valid_until m = None" "get_entity_id m = Some entity"
    "get_name_id_format m = ordered order ''NameIDFormat'' formats"
    "\<And>b. get_single_logout_service m b
       = map_option ep_location (List.find (\<lambda>e. ep_binding e = b) (ordered order ''SingleLogoutService'' slos))"
    "x509_certificates m Signing = ordered order ''KeyDescriptor'' (map normalize_cert_string ss)"
    "x509_certificates m Encryption = ordered order ''KeyDescriptor'' (map normalize_cert_string es)"
    "\<And>n. list_all2 node_of_written (ordered order n (group n)) (role_nodes role n)"
    "\<And>k. k \<notin> fst ` set (base_entries entity role VNull VNull) \<Longrightarrow> get_key (md_meta m) k = map_of (entries role) k"
proof (rule role_extracted [OF assms])
  fix role c1 c2
  let ?v = "insert_key (VObject (base_entries entity role c1 c2 @ entries role)) ''certificate'' (certificate_lists order ss es)"
  let ?m = "\<lparr>md_xml = xml, md_meta = ?v, md_valid_until = None\<rparr>"
  assume named: "\<And>n. list_all2 node_of_written (ordered order n (group n)) (role_nodes role n)"
    and m: "parse_for_role_with_limits E xml extra xml_limits_default (Some name) = Inr ?m"
  have v: "get_path ?v ''entityID'' = Some (VStr entity)"
    "get_path ?v ''nameIDFormat'' = Some (texts_value (role_nodes role ''NameIDFormat''))"
    "get_path ?v ''certificate'' = Some (certificate_lists order ss es)"
    "get_path ?v ''singleLogoutService''
       = Some (one_or_array (map (attr_object [''Binding'', ''Location'']) (role_nodes role ''SingleLogoutService'')))"
    by (simp_all add: base_entries_def get_path_def)
  have other: "get_key (md_meta ?m) k = map_of (entries role) k" if "k \<notin> fst ` set (base_entries entity role VNull VNull)" for k
    using that by (simp add: base_entries_def)
  have "list_all2 node_of_written (map slo_written (ordered order ''SingleLogoutService'' slos)) (role_nodes role ''SingleLogoutService'')"
    using named [of "''SingleLogoutService''"] by (simp add: ordered_def slos split: if_splits)
  from slo_all_read [OF this] have slo: "get_single_logout_service ?m b
       = map_option ep_location (List.find (\<lambda>e. ep_binding e = b) (ordered order ''SingleLogoutService'' slos))" for b
    by (simp add: get_single_logout_service_def v del: insert_key.simps)
  have "list_all2 node_of_written (map (WrittenText ''NameIDFormat'' []) (ordered order ''NameIDFormat'' formats)) (role_nodes role ''NameIDFormat'')"
    using named [of "''NameIDFormat''"] by (simp add: ordered_def formats split: if_splits)
  from formats_read [OF this, of ?m] have nf: "get_name_id_format ?m = ordered order ''NameIDFormat'' formats"
    by (simp add: v del: insert_key.simps)
  have "get_path (md_meta ?m) ''certificate'' = Some (certificate_lists order ss es)" by (simp add: v del: insert_key.simps)
  note x509 = certificates_read [OF this]
  have entity: "get_entity_id ?m = Some entity" by (simp add: get_entity_id_def get_str_def v del: insert_key.simps)
  show ?thesis by (rule that [OF m _ _ entity nf slo x509 named other]) simp_all
qed

end

section \<open>Readers of one document\<close>

text \<open>A world whose readers yield what the writer was given for one document.\<close>

definition generated_ext :: "written \<Rightarrow> unit url_ext" where
  "generated_ext el = exchange_ext
     \<lparr>xml_write := (\<lambda>_. ''<D/>''), xml_read := (\<lambda>_. map step_of (written_events el)),
      ns_read_default := (\<lambda>_. map (ns_step_of metadata_namespace) (written_events el))\<rparr>"

lemma generated_readable:
  assumes "written_fits xml_limits_default 1024 el" "written_size el \<le> 50000"
  shows "readable (generated_ext el) xml_limits_default el" "ns_reads_metadata (generated_ext el) (written_events el)"
proof -
  have g: "xml_write (generated_ext el) evs = ''<D/>''" "xml_read (generated_ext el) s = map step_of (written_events el)"
    "ns_read_default (generated_ext el) s = map (ns_step_of metadata_namespace) (written_events el)"
    "ns_normalize (generated_ext el) = Inr" for evs s
    by (simp_all add: generated_ext_def)
  show "readable (generated_ext el) xml_limits_default el"
    using assms reads_as_steps by (simp add: readable_def reads_written_def g limits_ok_def) (simp add: xml_limits_default_def usize_max_def)
  show "ns_reads_metadata (generated_ext el) (written_events el)"
    using ns_reads_as_steps by (simp add: ns_reads_metadata_def g)
qed

end
