(* ===== verification/Meta_Read_Back.thy ===== *)
theory Meta_Read_Back
  imports Role_Read_Back
begin

text \<open>
  Generated service provider metadata is read as configured (\<open>src/src/metadata/generate.rs\<close> against
  \<open>src/src/metadata/mod.rs\<close> and \<open>src/src/metadata/sp.rs\<close>).
\<close>

section \<open>The tree of generated service provider metadata\<close>

definition acs_written :: "nat \<times> raw_endpoint \<Rightarrow> written" where
  "acs_written ie = WrittenEmpty ''AssertionConsumerService'' (endpoint_attrs (snd ie) (Some (acs_index_text (fst ie) (snd ie))))"

definition sp_group_written :: "sp_metadata_config \<Rightarrow> string \<Rightarrow> written list" where
  "sp_group_written cfg name =
     (if name = ''KeyDescriptor''
      then map (key_written ''signing'') (sc_signing_certs cfg) @ map (key_written ''encryption'') (sc_encrypt_certs cfg)
      else if name = ''NameIDFormat''
      then (if sc_name_id_format cfg \<noteq> [] then map (WrittenText ''NameIDFormat'' []) (sc_name_id_format cfg)
            else [WrittenText ''NameIDFormat'' [] (name_id_format_uri EmailAddress)])
      else if name = ''SingleLogoutService''
      then map slo_written (sc_single_logout_service cfg)
      else if name = ''AssertionConsumerService''
      then map acs_written (List.enumerate 0 (sc_assertion_consumer_service cfg))
      else [])"

definition sp_order :: "sp_metadata_config \<Rightarrow> string list" where
  "sp_order cfg =
     (let order = elements_order_or_default (sc_elements_order cfg) ELEMENTS_ORDER_DEFAULT in
      if ''AssertionConsumerService'' \<in> set order then order else order @ [''AssertionConsumerService''])"

definition sp_role_attrs :: "sp_metadata_config \<Rightarrow> (string \<times> string) list" where
  "sp_role_attrs cfg =
     [(''AuthnRequestsSigned'', bool_str (sc_authn_requests_signed cfg)),
      (''WantAssertionsSigned'', bool_str (sc_want_assertions_signed cfg)), (''protocolSupportEnumeration'', NS_PROTOCOL)]"

text \<open>The name formats a generated document offers.\<close>

definition sp_formats :: "sp_metadata_config \<Rightarrow> string list" where
  "sp_formats cfg = (if sc_name_id_format cfg \<noteq> [] then sc_name_id_format cfg else [name_id_format_uri EmailAddress])"

definition sp_metadata_written :: "sp_metadata_config \<Rightarrow> written" where
  "sp_metadata_written cfg =
     role_written (sc_entity_id cfg) ''SPSSODescriptor'' (sp_role_attrs cfg)
       (concat (map (sp_group_written cfg) (sp_order cfg)))"

lemma write_sp_group_eq:
  "write_sp_group cfg name w = w @ concat (map written_events (sp_group_written cfg name))"
proof -
  have acs: "(case ie of (i, e) \<Rightarrow> write_endpoint_attrs ''AssertionConsumerService'' e (Some (acs_index_text i e))) w
      = w @ written_events (acs_written ie)" for ie w
    by (cases ie) (simp add: write_endpoint_attrs_def acs_written_def writer_defs)
  show ?thesis
    unfolding write_sp_group_def sp_group_written_def write_name_id_formats_def
      write_assertion_consumer_service_def write_common fold_write [OF write_common(2)] fold_write [OF acs]
    by (simp add: comp_def)
qed

lemma sp_metadata_events_eq: "sp_metadata_events cfg = written_events (sp_metadata_written cfg)"
proof -
  have "''AssertionConsumerService'' \<in> set ELEMENTS_ORDER_DEFAULT" by (simp add: ELEMENTS_ORDER_DEFAULT_def)
  then show ?thesis
    by (cases "sc_elements_order cfg")
      (simp_all add: sp_metadata_events_def sp_metadata_written_def role_written_def sp_role_attrs_def sp_order_def
        elements_order_or_default_def Let_def fold_write [of "write_sp_group cfg", OF write_sp_group_eq] write_sp_group_eq
        writer_defs map_concat comp_def concat_map_concat)
qed

lemma sp_group_plain: "list_all (\<lambda>el. list_all plain_event (written_events el)) (sp_group_written cfg name)"
proof -
  have "list_all plain_event (written_events (acs_written ie))" for ie
    by (simp add: acs_written_def endpoint_attrs_def)
  then show ?thesis
    by (simp add: sp_group_written_def common_plain list.pred_map comp_def list.pred_True)
qed

text \<open>The entries only a service provider has.\<close>

definition sp_role_entries :: "sp_metadata_config \<Rightarrow> node \<Rightarrow> (string \<times> saml_value) list" where
  "sp_role_entries cfg role =
      [(''spSSODescriptor'', VObject [(''wantAssertionsSigned'', VStr (bool_str (sc_want_assertions_signed cfg))),
          (''authnRequestsSigned'', VStr (bool_str (sc_authn_requests_signed cfg)))]),
       (''assertionConsumerService'',
          one_or_array (map (attr_object [''Binding'', ''Location'', ''isDefault'', ''index''])
            (role_nodes role ''AssertionConsumerService'')))]"

lemma sp_entries_read:
  assumes "role_tree i ''SPSSODescriptor'' (sp_role_attrs cfg) els root role"
  shows "map (\<lambda>f. (f_key f, extract_field xml root f)) (map (field_for_role ''SPSSODescriptor'') sp_extra_fields)
    = sp_role_entries cfg role"
proof -
  note role = assms [unfolded role_tree_def]
  have "node_attr role ''WantAssertionsSigned'' = Some (bool_str (sc_want_assertions_signed cfg))"
    "node_attr role ''AuthnRequestsSigned'' = Some (bool_str (sc_authn_requests_signed cfg))"
    using role by (simp_all add: node_attr_def plain_attrs_def sp_role_attrs_def names_namespace_def)
  with role show ?thesis
    by (simp add: sp_extra_fields_def sp_role_entries_def field_for_role_def field_simps extract_field_def
        seg_matches_def strip_prefix_def role_nodes_def select_step_def one_or_array_def [of "[_]"] attr_object_def [of _ role]
        endpoint_camel)
qed

interpretation sp_groups: role_groups "sp_group_written cfg" for cfg
  by unfold_locales
    (auto simp: sp_group_written_def key_written_def slo_written_def acs_written_def local_part_def split: if_splits)

interpretation sp_generated: generated_role "sp_group_written cfg" "sc_entity_id cfg" "''SPSSODescriptor''" "sp_role_attrs cfg"
  "sp_order cfg" "sc_signing_certs cfg" "sc_encrypt_certs cfg" "sp_formats cfg" "sc_single_logout_service cfg" sp_extra_fields
  "sp_role_entries cfg" for cfg
proof unfold_locales
  show "f \<in> set sp_extra_fields \<Longrightarrow> f_shortcut f = None" for f
    by (auto simp: sp_extra_fields_def field_simps)
  show "list_all (\<lambda>el. list_all plain_event (written_events el)) (sp_group_written cfg n)" for cfg n by (rule sp_group_plain)
  show "map (\<lambda>f. (f_key f, extract_field xml root f)) (map (field_for_role ''SPSSODescriptor'') sp_extra_fields) = sp_role_entries cfg role"
    if "role_tree (sc_entity_id cfg) ''SPSSODescriptor'' (sp_role_attrs cfg) els root role" for cfg els root role xml
    using that by (rule sp_entries_read)
qed (simp_all add: sp_role_attrs_def sp_group_written_def sp_formats_def)

section \<open>Reading it back\<close>

definition sent_acs :: "nat \<times> raw_endpoint \<Rightarrow> acs_metadata_endpoint" where
  "sent_acs ie =
     \<lparr>am_binding = ep_binding (snd ie), am_location = ep_location (snd ie),
      am_index = Some (case ep_index (snd ie) of Some k \<Rightarrow> k | None \<Rightarrow> fst ie), am_is_default = ep_is_default (snd ie)\<rparr>"

lemma acs_read:
  assumes "node_of_written (acs_written ie) n" "fst ie \<le> 65535" "\<And>k. ep_index (snd ie) = Some k \<Longrightarrow> k \<le> 65535"
  shows "acs_metadata_endpoint_from_value (attr_object [''Binding'', ''Location'', ''isDefault'', ''index''] n) = Some (sent_acs ie)"
proof -
  let ?k = "case ep_index (snd ie) of Some k \<Rightarrow> k | None \<Rightarrow> fst ie"
  have i: "acs_index_text (fst ie) (snd ie) = show_nat ?k" "?k \<le> 65535"
    using assms(2,3) by (auto simp: acs_index_text_def split: option.split)
  note v = endpoint_attr_values [of n "snd ie" "Some (acs_index_text (fst ie) (snd ie))"]
  have "attrs n = plain_attrs (endpoint_attrs (snd ie) (Some (acs_index_text (fst ie) (snd ie))))"
    using assms(1) by (simp add: acs_written_def)
  then show ?thesis
    using parse_u16_show_nat [OF i(2)]
    by (simp add: attr_object_def v i(1) endpoint_camel acs_metadata_endpoint_from_value_def get_str_def get_path_def sent_acs_def)
qed

lemma acs_all_read:
  assumes "list_all2 node_of_written (map acs_written (List.enumerate 0 es)) ns" "length es \<le> 65536"
    "\<forall>e \<in> set es. \<forall>k. ep_index e = Some k \<longrightarrow> k \<le> 65535"
  shows "some_values acs_metadata_endpoint_from_value
      (map (attr_object [''Binding'', ''Location'', ''isDefault'', ''index'']) ns) = map sent_acs (List.enumerate 0 es)"
proof -
  have "list_all2 (\<lambda>ie n. acs_metadata_endpoint_from_value (attr_object [''Binding'', ''Location'', ''isDefault'', ''index''] n)
      = Some (sent_acs ie)) (List.enumerate 0 es) ns"
    using assms(1) unfolding list_all2_map1
  proof (rule list.rel_mono_strong)
    fix ie n
    assume "ie \<in> set (List.enumerate 0 es)" "node_of_written (acs_written ie) n"
    then show "acs_metadata_endpoint_from_value (attr_object [''Binding'', ''Location'', ''isDefault'', ''index''] n) = Some (sent_acs ie)"
      using assms(2,3) by (intro acs_read) (auto simp: in_set_enumerate_eq dest: nth_mem)
  qed
  then show ?thesis by (intro some_values_list_all2) (simp add: list_all2_map2)
qed

text \<open>The generator keeps within what the reader accepts.\<close>

definition sp_config_readable :: "('k, 'e) out_ext_scheme \<Rightarrow> sp_metadata_config \<Rightarrow> bool" where
  "sp_config_readable E cfg \<longleftrightarrow>
     readable E xml_limits_default (sp_metadata_written cfg) \<and> ns_reads_metadata E (sp_metadata_events cfg)
     \<and> distinct (sp_order cfg) \<and> length (sc_assertion_consumer_service cfg) \<le> 65536
     \<and> (\<forall>e \<in> set (sc_assertion_consumer_service cfg). \<forall>k. ep_index e = Some k \<longrightarrow> k \<le> 65535)"

lemma sp_metadata_read:
  assumes "sp_config_readable E cfg"
  shows "\<exists>m. sp_from_xml E (generate_sp_metadata E cfg) = Inr m \<and> md_valid_until (sp_inner m) = None
     \<and> md_xml (sp_inner m) = generate_sp_metadata E cfg
     \<and> get_entity_id (sp_inner m) = Some (sc_entity_id cfg)
     \<and> get_name_id_format (sp_inner m) = ordered (sp_order cfg) ''NameIDFormat'' (sp_formats cfg)
     \<and> is_authn_request_signed m = sc_authn_requests_signed cfg
     \<and> is_want_assertions_signed m = sc_want_assertions_signed cfg
     \<and> assertion_consumer_service_endpoints m = map sent_acs (List.enumerate 0 (sc_assertion_consumer_service cfg))
     \<and> (\<forall>b. get_single_logout_service (sp_inner m) b
          = map_option ep_location
              (List.find (\<lambda>e. ep_binding e = b) (ordered (sp_order cfg) ''SingleLogoutService'' (sc_single_logout_service cfg))))
     \<and> x509_certificates (sp_inner m) Signing
         = ordered (sp_order cfg) ''KeyDescriptor'' (map normalize_cert_string (sc_signing_certs cfg))
     \<and> x509_certificates (sp_inner m) Encryption
         = ordered (sp_order cfg) ''KeyDescriptor'' (map normalize_cert_string (sc_encrypt_certs cfg))"
proof -
  have xml: "generate_sp_metadata E cfg = xml_write E (written_events (sp_metadata_written cfg))"
    by (simp add: generate_sp_metadata_def writer_finish_def sp_metadata_events_eq)
  note ok = assms [unfolded sp_config_readable_def sp_metadata_events_eq]
  show ?thesis
  proof (rule sp_generated.role_read [of E cfg, folded sp_metadata_written_def, OF _ _ _ xml])
    fix m role
    assume m: "parse_for_role_with_limits E (generate_sp_metadata E cfg) sp_extra_fields xml_limits_default (Some ''SPSSODescriptor'') = Inr m"
      and named: "\<And>n. list_all2 node_of_written (ordered (sp_order cfg) n (sp_group_written cfg n)) (role_nodes role n)"
      and v: "\<And>k. k \<notin> fst ` set (base_entries (sc_entity_id cfg) role VNull VNull) \<Longrightarrow>
        get_key (md_meta m) k = map_of (sp_role_entries cfg role) k"
      and common: "md_xml m = generate_sp_metadata E cfg" "md_valid_until m = None" "get_entity_id m = Some (sc_entity_id cfg)"
        "get_name_id_format m = ordered (sp_order cfg) ''NameIDFormat'' (sp_formats cfg)"
        "\<And>b. get_single_logout_service m b = map_option ep_location
           (List.find (\<lambda>e. ep_binding e = b) (ordered (sp_order cfg) ''SingleLogoutService'' (sc_single_logout_service cfg)))"
        "x509_certificates m Signing = ordered (sp_order cfg) ''KeyDescriptor'' (map normalize_cert_string (sc_signing_certs cfg))"
        "x509_certificates m Encryption = ordered (sp_order cfg) ''KeyDescriptor'' (map normalize_cert_string (sc_encrypt_certs cfg))"
    have get: "is_authn_request_signed (SpMetadata m) = sc_authn_requests_signed cfg"
      "is_want_assertions_signed (SpMetadata m) = sc_want_assertions_signed cfg"
      "get_path (md_meta m) ''assertionConsumerService''
         = Some (one_or_array (map (attr_object [''Binding'', ''Location'', ''isDefault'', ''index'']) (role_nodes role ''AssertionConsumerService'')))"
      by (simp_all add: v base_entries_def sp_role_entries_def is_authn_request_signed_def is_want_assertions_signed_def get_path_def get_str_def
          bool_str_def)
    have "''AssertionConsumerService'' \<in> set (sp_order cfg)" by (simp add: sp_order_def Let_def)
    with named [of "''AssertionConsumerService''"]
    have "list_all2 node_of_written (map acs_written (List.enumerate 0 (sc_assertion_consumer_service cfg)))
        (role_nodes role ''AssertionConsumerService'')"
      by (simp add: ordered_def sp_group_written_def)
    from acs_all_read [OF this]
    have acs: "assertion_consumer_service_endpoints (SpMetadata m) = map sent_acs (List.enumerate 0 (sc_assertion_consumer_service cfg))"
      using ok get(3) by (simp add: assertion_consumer_service_endpoints_def as_object_list_one_or_array)
    show ?thesis
      by (rule exI [of _ "SpMetadata m"]) (simp add: sp_from_xml_def sp_from_xml_with_limits_def m common get acs)
  qed (use ok in simp_all)
qed

lemma sp_from_metadata_read:
  assumes "sp_from_xml E xml = Inr m" "get_entity_id (sp_inner m) = Some i"
  shows "\<exists>sp. sp_from_metadata E xml setting = Inr sp \<and> spr_metadata sp = m
     \<and> es_authn_requests_signed (spr_setting sp) = is_authn_request_signed m
     \<and> es_want_assertions_signed (spr_setting sp) = is_want_assertions_signed m
     \<and> es_name_id_format (spr_setting sp)
         = (if get_name_id_format (sp_inner m) = [] then es_name_id_format setting else get_name_id_format (sp_inner m))
     \<and> sp_entity_text sp = (case es_entity_id setting of Some j \<Rightarrow> j | None \<Rightarrow> i)"
  by (cases "es_entity_id setting") (simp_all add: sp_from_metadata_def assms Let_def sp_entity_text_def entity_id_text_def)

text \<open>
  C9: a service provider is what its configuration says: the metadata generated for a configuration is
  accepted on the way back in, never expires, and the service provider made of it has the configured
  identifier, signing flags, certificates, name formats and endpoints: every assertion consumer service with its binding,
  location and default flag and the configured index or else its position, and for each binding the first
  configured logout endpoint. A custom \<open>elements_order\<close> that leaves out \<open>NameIDFormat\<close>, \<open>SingleLogoutService\<close> or
  \<open>KeyDescriptor\<close> leaves those entries out of the metadata, so they are then absent (name formats: those of the
  given settings); the assertion consumer services are written in any case. Assumed: the readers yield what the writer was given (\<open>sp_config_readable\<close>).
\<close>

theorem sp_metadata_read_back:
  assumes "sp_config_readable E cfg"
  shows "\<exists>sp. sp_from_config E cfg setting = Inr sp
     \<and> sp_entity_text sp = (case es_entity_id setting of Some i \<Rightarrow> i | None \<Rightarrow> sc_entity_id cfg)
     \<and> sp_metadata_xml sp = generate_sp_metadata E cfg
     \<and> md_valid_until (sp_inner (spr_metadata sp)) = None
     \<and> es_name_id_format (spr_setting sp) = offered_formats (sp_order cfg) (sp_formats cfg) (es_name_id_format setting)
     \<and> es_authn_requests_signed (spr_setting sp) = sc_authn_requests_signed cfg
     \<and> es_want_assertions_signed (spr_setting sp) = sc_want_assertions_signed cfg
     \<and> assertion_consumer_service_endpoints (spr_metadata sp) = map sent_acs (List.enumerate 0 (sc_assertion_consumer_service cfg))
     \<and> (\<forall>b. get_single_logout_service (sp_inner (spr_metadata sp)) b
          = map_option ep_location
              (List.find (\<lambda>e. ep_binding e = b) (ordered (sp_order cfg) ''SingleLogoutService'' (sc_single_logout_service cfg))))
     \<and> x509_certificates (sp_inner (spr_metadata sp)) Signing
         = ordered (sp_order cfg) ''KeyDescriptor'' (map normalize_cert_string (sc_signing_certs cfg))
     \<and> x509_certificates (sp_inner (spr_metadata sp)) Encryption
         = ordered (sp_order cfg) ''KeyDescriptor'' (map normalize_cert_string (sc_encrypt_certs cfg))"
proof -
  obtain m where m: "sp_from_xml E (generate_sp_metadata E cfg) = Inr m" "md_valid_until (sp_inner m) = None"
    "md_xml (sp_inner m) = generate_sp_metadata E cfg" "get_entity_id (sp_inner m) = Some (sc_entity_id cfg)"
    "get_name_id_format (sp_inner m) = ordered (sp_order cfg) ''NameIDFormat'' (sp_formats cfg)"
    "is_authn_request_signed m = sc_authn_requests_signed cfg" "is_want_assertions_signed m = sc_want_assertions_signed cfg"
    and rest: "assertion_consumer_service_endpoints m = map sent_acs (List.enumerate 0 (sc_assertion_consumer_service cfg))"
      "\<forall>b. get_single_logout_service (sp_inner m) b
          = map_option ep_location
              (List.find (\<lambda>e. ep_binding e = b) (ordered (sp_order cfg) ''SingleLogoutService'' (sc_single_logout_service cfg)))"
      "x509_certificates (sp_inner m) Signing = ordered (sp_order cfg) ''KeyDescriptor'' (map normalize_cert_string (sc_signing_certs cfg))"
      "x509_certificates (sp_inner m) Encryption = ordered (sp_order cfg) ''KeyDescriptor'' (map normalize_cert_string (sc_encrypt_certs cfg))"
    using sp_metadata_read [OF assms] by blast
  obtain sp where sp: "sp_from_config E cfg setting = Inr sp" "spr_metadata sp = m"
    "es_authn_requests_signed (spr_setting sp) = sc_authn_requests_signed cfg"
    "es_want_assertions_signed (spr_setting sp) = sc_want_assertions_signed cfg"
    "es_name_id_format (spr_setting sp) = offered_formats (sp_order cfg) (sp_formats cfg) (es_name_id_format setting)"
    "sp_entity_text sp = (case es_entity_id setting of Some i \<Rightarrow> i | None \<Rightarrow> sc_entity_id cfg)"
    using sp_from_metadata_read [OF m(1,4), of setting] m by (auto simp: sp_from_config_def offered_formats_def)
  with m rest show ?thesis by (intro exI [of _ sp]) (simp add: sp_metadata_xml_def)
qed

text \<open>
  C16: Positions and configured indexes share one number space: when an endpoint without an index stands at a
  position that another endpoint has as its index, the generated metadata names that index twice, and no
  lookup by it succeeds.
\<close>

theorem default_index_collides:
  assumes "sp_config_readable E cfg" "i < length (sc_assertion_consumer_service cfg)"
    "j < length (sc_assertion_consumer_service cfg)" "i \<noteq> j"
    "ep_index (sc_assertion_consumer_service cfg ! i) = None" "ep_index (sc_assertion_consumer_service cfg ! j) = Some i"
  shows "\<exists>m e. sp_from_xml E (generate_sp_metadata E cfg) = Inr m \<and> get_assertion_consumer_service_by_index m i = Inl e"
proof -
  let ?es = "sc_assertion_consumer_service cfg"
  let ?xs = "map sent_acs (List.enumerate 0 ?es)"
  let ?hits = "filter (\<lambda>e. am_index e = Some i) ?xs"
  obtain m where m: "sp_from_xml E (generate_sp_metadata E cfg) = Inr m" "assertion_consumer_service_endpoints m = ?xs"
    using sp_metadata_read [OF assms(1)] by blast
  have "{i, j} \<subseteq> {k. k < length ?xs \<and> am_index (?xs ! k) = Some i}"
    using assms(2-6) by (auto simp: nth_enumerate_eq sent_acs_def)
  then have "card {i, j} \<le> length ?hits"
    unfolding length_filter_conv_card by (intro card_mono) auto
  then have "2 \<le> length ?hits" using assms(4) by simp
  then obtain a b cs where "?hits = a # b # cs"
    by (cases ?hits; cases "tl ?hits") auto
  then have "\<exists>e. get_assertion_consumer_service_by_index m i = Inl e"
    by (simp add: get_assertion_consumer_service_by_index_def m(2))
  with m(1) show ?thesis by blast
qed

section \<open>A generated document\<close>

definition config_sample :: sp_metadata_config where
  "config_sample =
     \<lparr>sc_entity_id = ''sp'', sc_signing_certs = [], sc_encrypt_certs = [], sc_authn_requests_signed = False,
      sc_want_assertions_signed = True, sc_name_id_format = [''f''], sc_single_logout_service = [],
      sc_assertion_consumer_service =
        [\<lparr>ep_binding = Post, ep_location = ''a'', ep_index = None, ep_is_default = True\<rparr>,
         \<lparr>ep_binding = Post, ep_location = ''b'', ep_index = Some 0, ep_is_default = False\<rparr>],
      sc_elements_order = Some [''NameIDFormat'']\<rparr>"

lemma config_sample:
  "sp_order config_sample = [''NameIDFormat'', ''AssertionConsumerService'']" "sc_entity_id config_sample = ''sp''"
  "sc_assertion_consumer_service config_sample =
     [\<lparr>ep_binding = Post, ep_location = ''a'', ep_index = None, ep_is_default = True\<rparr>,
      \<lparr>ep_binding = Post, ep_location = ''b'', ep_index = Some 0, ep_is_default = False\<rparr>]"
  by (simp_all add: config_sample_def sp_order_def elements_order_or_default_def)

lemma config_sample_readable: "sp_config_readable (generated_ext (sp_metadata_written config_sample)) config_sample"
proof -
  have "written_fits xml_limits_default 1024 (sp_metadata_written config_sample)" "written_size (sp_metadata_written config_sample) \<le> 50000"
    unfolding sp_metadata_written_def role_written_def sp_role_attrs_def config_sample
    by (simp_all add: config_sample_def sp_group_written_def acs_written_def endpoint_attrs_def acs_index_text_def show_nat.simps
        attrs_fit_def xml_limits_default_def entity_descriptor_attrs_def bool_str_def binding_urn.simps)
  from generated_readable [OF this] show ?thesis
    by (simp add: sp_config_readable_def config_sample sp_metadata_events_eq)
qed

lemma sp_metadata_read_back_witness:
  "\<exists>sp. sp_from_config (generated_ext (sp_metadata_written config_sample)) config_sample entity_setting_default = Inr sp \<and> sp_entity_text sp = ''sp''
     \<and> map am_location (assertion_consumer_service_endpoints (spr_metadata sp)) = [''a'', ''b'']
     \<and> es_want_assertions_signed (spr_setting sp)"
proof -
  have s: "es_entity_id entity_setting_default = None" by (simp add: entity_setting_default_def)
  have w: "sc_want_assertions_signed config_sample" by (simp add: config_sample_def)
  from sp_metadata_read_back [OF config_sample_readable, of entity_setting_default] s w show ?thesis
    by (auto simp: config_sample sent_acs_def)
qed

lemma default_index_collides_witness:
  "\<exists>m e. sp_from_xml (generated_ext (sp_metadata_written config_sample))
       (generate_sp_metadata (generated_ext (sp_metadata_written config_sample)) config_sample) = Inr m
     \<and> get_assertion_consumer_service_by_index m 0 = Inl e"
  using default_index_collides [OF config_sample_readable, of 0 1] by (simp add: config_sample)

end
