(* ===== verification/Idp_Read_Back.thy ===== *)
theory Idp_Read_Back
  imports Meta_Read_Back
begin

text \<open>
  Generated identity provider metadata is read as configured (\<open>src/src/metadata/generate.rs\<close> against
  \<open>src/src/metadata/mod.rs\<close> and \<open>src/src/metadata/idp.rs\<close>).
\<close>

section \<open>The tree of generated identity provider metadata\<close>

definition sso_written :: "raw_endpoint \<Rightarrow> written" where
  "sso_written e = WrittenEmpty ''SingleSignOnService'' (endpoint_attrs e None)"

definition idp_group_written :: "idp_metadata_config \<Rightarrow> string \<Rightarrow> written list" where
  "idp_group_written cfg name =
     (if name = ''KeyDescriptor''
      then map (key_written ''signing'') (ic_signing_certs cfg) @ map (key_written ''encryption'') (ic_encrypt_certs cfg)
      else if name = ''NameIDFormat'' then map (WrittenText ''NameIDFormat'' []) (ic_name_id_format cfg)
      else if name = ''SingleSignOnService'' then map sso_written (ic_single_sign_on_service cfg)
      else if name = ''SingleLogoutService'' then map slo_written (ic_single_logout_service cfg)
      else [])"

definition idp_order :: "idp_metadata_config \<Rightarrow> string list" where
  "idp_order cfg =
     (let order = elements_order_or_default (ic_elements_order cfg) IDP_ELEMENTS_ORDER_DEFAULT in
      if ''SingleSignOnService'' \<in> set order then order else order @ [''SingleSignOnService''])"

definition idp_role_attrs :: "idp_metadata_config \<Rightarrow> (string \<times> string) list" where
  "idp_role_attrs cfg =
     [(''WantAuthnRequestsSigned'', bool_str (ic_want_authn_requests_signed cfg)), (''protocolSupportEnumeration'', NS_PROTOCOL)]"

definition idp_metadata_written :: "idp_metadata_config \<Rightarrow> written" where
  "idp_metadata_written cfg =
     role_written (ic_entity_id cfg) ''IDPSSODescriptor'' (idp_role_attrs cfg)
       (concat (map (idp_group_written cfg) (idp_order cfg)))"

lemma write_idp_group_eq:
  "write_idp_group cfg name w = w @ concat (map written_events (idp_group_written cfg name))"
proof -
  have sso: "write_endpoint_attrs ''SingleSignOnService'' e None w = w @ written_events (sso_written e)" for e w
    by (simp add: write_endpoint_attrs_def sso_written_def writer_defs)
  show ?thesis
    unfolding write_idp_group_def idp_group_written_def write_name_id_formats_def write_single_sign_on_service_def
      write_common fold_write [OF write_common(2)] fold_write [OF sso]
    by (simp add: comp_def)
qed

lemma idp_group_empty:
  "\<not> (name \<in> set idp_descriptors \<and> idp_group_has_content cfg name) \<Longrightarrow> idp_group_written cfg name = []"
  by (auto simp: idp_group_written_def idp_descriptors_def idp_group_has_content_def split: if_splits)

lemma write_idp_ordered_eq:
  "write_idp_ordered cfg order w = w @ concat (map written_events (concat (map (idp_group_written cfg) order)))"
proof -
  have "(if name \<in> set idp_descriptors \<and> idp_group_has_content cfg name then write_idp_group cfg name w else w)
      = w @ concat (map written_events (idp_group_written cfg name))" for name w
    using idp_group_empty [of name cfg] by (auto simp: write_idp_group_eq)
  from fold_write [of "\<lambda>name w. if name \<in> set idp_descriptors \<and> idp_group_has_content cfg name then write_idp_group cfg name w else w",
      OF this] show ?thesis
    by (simp add: write_idp_ordered_def map_concat comp_def concat_map_concat)
qed

lemma idp_metadata_events_eq: "idp_metadata_events cfg = written_events (idp_metadata_written cfg)"
proof -
  let ?order = "elements_order_or_default (ic_elements_order cfg) IDP_ELEMENTS_ORDER_DEFAULT"
  have "write_idp_rest cfg ?order w = w @ concat (map written_events
      (if ''SingleSignOnService'' \<in> set ?order then [] else idp_group_written cfg ''SingleSignOnService''))" for w
    by (cases "ic_elements_order cfg")
      (simp_all add: write_idp_rest_def write_idp_group_eq elements_order_or_default_def idp_descriptors_def IDP_ELEMENTS_ORDER_DEFAULT_def)
  then show ?thesis
    by (simp add: idp_metadata_events_def idp_metadata_written_def role_written_def idp_role_attrs_def idp_order_def
        write_idp_ordered_eq Let_def writer_defs)
qed

lemma idp_group_plain: "list_all (\<lambda>el. list_all plain_event (written_events el)) (idp_group_written cfg name)"
proof -
  have "list_all plain_event (written_events (sso_written e))" for e
    by (simp add: sso_written_def endpoint_attrs_def)
  then show ?thesis
    by (simp add: idp_group_written_def common_plain list.pred_map comp_def list.pred_True)
qed

text \<open>The entries only an identity provider has.\<close>

definition idp_role_entries :: "idp_metadata_config \<Rightarrow> node \<Rightarrow> (string \<times> saml_value) list" where
  "idp_role_entries cfg role =
      [(''wantAuthnRequestsSigned'', VStr (bool_str (ic_want_authn_requests_signed cfg))),
       (''singleSignOnService'', aggregate (role_nodes role ''SingleSignOnService'') [''Binding''] [] [''Location''])]"

lemma idp_entries_read:
  assumes "role_tree i ''IDPSSODescriptor'' (idp_role_attrs cfg) els root role"
  shows "map (\<lambda>f. (f_key f, extract_field xml root f)) (map (field_for_role ''IDPSSODescriptor'') idp_extra_fields)
    = idp_role_entries cfg role"
proof -
  note role = assms [unfolded role_tree_def]
  have "node_attr role ''WantAuthnRequestsSigned'' = Some (bool_str (ic_want_authn_requests_signed cfg))"
    using role by (simp add: node_attr_def plain_attrs_def idp_role_attrs_def names_namespace_def)
  with role show ?thesis
    by (simp add: idp_extra_fields_def idp_role_entries_def field_for_role_def field_simps extract_field_def
        seg_matches_def strip_prefix_def role_nodes_def select_step_def)
qed

interpretation idp_groups: role_groups "idp_group_written cfg" for cfg
  by unfold_locales
    (auto simp: idp_group_written_def key_written_def slo_written_def sso_written_def local_part_def split: if_splits)

interpretation idp_generated: generated_role "idp_group_written cfg" "ic_entity_id cfg" "''IDPSSODescriptor''" "idp_role_attrs cfg"
  "idp_order cfg" "ic_signing_certs cfg" "ic_encrypt_certs cfg" "ic_name_id_format cfg" "ic_single_logout_service cfg" idp_extra_fields
  "idp_role_entries cfg" for cfg
proof unfold_locales
  show "f \<in> set idp_extra_fields \<Longrightarrow> f_shortcut f = None" for f
    by (auto simp: idp_extra_fields_def field_simps)
  show "list_all (\<lambda>el. list_all plain_event (written_events el)) (idp_group_written cfg n)" for cfg n by (rule idp_group_plain)
  show "map (\<lambda>f. (f_key f, extract_field xml root f)) (map (field_for_role ''IDPSSODescriptor'') idp_extra_fields) = idp_role_entries cfg role"
    if "role_tree (ic_entity_id cfg) ''IDPSSODescriptor'' (idp_role_attrs cfg) els root role" for cfg els root role xml
    using that by (rule idp_entries_read)
qed (simp_all add: idp_role_attrs_def idp_group_written_def)

section \<open>Reading it back\<close>

text \<open>The generator keeps within what the reader accepts.\<close>

definition idp_config_readable :: "('k, 'e) out_ext_scheme \<Rightarrow> idp_metadata_config \<Rightarrow> bool" where
  "idp_config_readable E cfg \<longleftrightarrow>
     readable E xml_limits_default (idp_metadata_written cfg) \<and> ns_reads_metadata E (idp_metadata_events cfg)
     \<and> distinct (idp_order cfg)"

text \<open>The location of the only endpoint of a binding.\<close>

definition only_location :: "raw_endpoint list \<Rightarrow> binding \<Rightarrow> string option" where
  "only_location es b = (case filter (\<lambda>e. ep_binding e = b) es of [e] \<Rightarrow> Some (ep_location e) | _ \<Rightarrow> None)"

lemma sso_filter_read:
  assumes "list_all2 node_of_written (map sso_written es) ns"
  shows "list_all2 (\<lambda>e n. node_attr n ''Location'' = Some (ep_location e)) (filter (\<lambda>e. ep_binding e = b) es)
    (filter (\<lambda>n. node_attr n ''Binding'' = Some (binding_urn b)) ns)"
  using assms
  by (induction es arbitrary: ns) (auto simp: list_all2_Cons1 sso_written_def endpoint_attr_values binding_urn_inject)

lemma sso_all_read:
  assumes "list_all2 node_of_written (map sso_written es) ns"
    "get_path (md_meta m) ''singleSignOnService'' = Some (aggregate ns [''Binding''] [] [''Location''])"
  shows "get_single_sign_on_service (IdpMetadata m) b = only_location es b"
  using sso_filter_read [OF assms(1), of b]
  by (auto simp: aggregated_location [OF assms(2)] only_location_def list_all2_Cons1 list_all2_Cons2 split: list.split)

lemma idp_metadata_read:
  assumes "idp_config_readable E cfg"
  shows "\<exists>m. idp_from_xml E (generate_idp_metadata E cfg) = Inr m \<and> md_valid_until (idp_inner m) = None
     \<and> md_xml (idp_inner m) = generate_idp_metadata E cfg
     \<and> get_entity_id (idp_inner m) = Some (ic_entity_id cfg)
     \<and> get_name_id_format (idp_inner m) = ordered (idp_order cfg) ''NameIDFormat'' (ic_name_id_format cfg)
     \<and> is_want_authn_requests_signed m = ic_want_authn_requests_signed cfg
     \<and> (\<forall>b. get_single_sign_on_service m b = only_location (ic_single_sign_on_service cfg) b)
     \<and> (\<forall>b. get_single_logout_service (idp_inner m) b
          = map_option ep_location
              (List.find (\<lambda>e. ep_binding e = b) (ordered (idp_order cfg) ''SingleLogoutService'' (ic_single_logout_service cfg))))
     \<and> x509_certificates (idp_inner m) Signing
         = ordered (idp_order cfg) ''KeyDescriptor'' (map normalize_cert_string (ic_signing_certs cfg))
     \<and> x509_certificates (idp_inner m) Encryption
         = ordered (idp_order cfg) ''KeyDescriptor'' (map normalize_cert_string (ic_encrypt_certs cfg))"
proof -
  have xml: "generate_idp_metadata E cfg = xml_write E (written_events (idp_metadata_written cfg))"
    by (simp add: generate_idp_metadata_def writer_finish_def idp_metadata_events_eq)
  note ok = assms [unfolded idp_config_readable_def idp_metadata_events_eq]
  show ?thesis
  proof (rule idp_generated.role_read [of E cfg, folded idp_metadata_written_def, OF _ _ _ xml])
    fix m role
    assume m: "parse_for_role_with_limits E (generate_idp_metadata E cfg) idp_extra_fields xml_limits_default (Some ''IDPSSODescriptor'') = Inr m"
      and named: "\<And>n. list_all2 node_of_written (ordered (idp_order cfg) n (idp_group_written cfg n)) (role_nodes role n)"
      and v: "\<And>k. k \<notin> fst ` set (base_entries (ic_entity_id cfg) role VNull VNull) \<Longrightarrow>
        get_key (md_meta m) k = map_of (idp_role_entries cfg role) k"
      and common: "md_xml m = generate_idp_metadata E cfg" "md_valid_until m = None" "get_entity_id m = Some (ic_entity_id cfg)"
        "get_name_id_format m = ordered (idp_order cfg) ''NameIDFormat'' (ic_name_id_format cfg)"
        "\<And>b. get_single_logout_service m b = map_option ep_location
           (List.find (\<lambda>e. ep_binding e = b) (ordered (idp_order cfg) ''SingleLogoutService'' (ic_single_logout_service cfg)))"
        "x509_certificates m Signing = ordered (idp_order cfg) ''KeyDescriptor'' (map normalize_cert_string (ic_signing_certs cfg))"
        "x509_certificates m Encryption = ordered (idp_order cfg) ''KeyDescriptor'' (map normalize_cert_string (ic_encrypt_certs cfg))"
    have get: "is_want_authn_requests_signed (IdpMetadata m) = ic_want_authn_requests_signed cfg"
      "get_path (md_meta m) ''singleSignOnService''
         = Some (aggregate (role_nodes role ''SingleSignOnService'') [''Binding''] [] [''Location''])"
      by (simp_all add: v base_entries_def idp_role_entries_def is_want_authn_requests_signed_def get_path_def get_str_def bool_str_def)
    have "''SingleSignOnService'' \<in> set (idp_order cfg)" by (simp add: idp_order_def Let_def)
    with named [of "''SingleSignOnService''"]
    have "list_all2 node_of_written (map sso_written (ic_single_sign_on_service cfg)) (role_nodes role ''SingleSignOnService'')"
      by (simp add: ordered_def idp_group_written_def)
    note sso = sso_all_read [OF this get(2)]
    show ?thesis
      by (rule exI [of _ "IdpMetadata m"]) (simp add: idp_from_xml_def idp_from_xml_with_limits_def m common get sso)
  qed (use ok in simp_all)
qed

lemma idp_from_metadata_read:
  assumes "idp_from_xml E xml = Inr m" "get_entity_id (idp_inner m) = Some i"
  shows "\<exists>idp. idp_from_metadata E xml setting = Inr idp \<and> idr_metadata idp = m
     \<and> es_want_authn_requests_signed (idr_setting idp) = is_want_authn_requests_signed m
     \<and> es_name_id_format (idr_setting idp)
         = (if get_name_id_format (idp_inner m) = [] then es_name_id_format setting else get_name_id_format (idp_inner m))
     \<and> idp_entity_text idp = (case es_entity_id setting of Some j \<Rightarrow> j | None \<Rightarrow> i)"
  by (cases "es_entity_id setting") (simp_all add: idp_from_metadata_def assms Let_def idp_entity_text_def entity_id_text_def)

text \<open>
  C10: an identity provider is what its configuration says: with no single sign-on endpoint it is refused;
  with one, the metadata generated for it is accepted on the way back in, never expires, and the identity
  provider made of it has the configured identifier, signing flag, certificates and name formats, for each
  binding the first configured logout endpoint, and for each binding the sign-on endpoint if it is the only
  one of that binding. A custom \<open>elements_order\<close> that leaves out \<open>NameIDFormat\<close>, \<open>SingleLogoutService\<close> or
  \<open>KeyDescriptor\<close> leaves those entries out of the metadata, so they are then absent (name formats: those of the
  given settings); the sign-on endpoints are written in any case. Assumed: the readers yield what the writer was given (\<open>idp_config_readable\<close>).
\<close>

theorem idp_metadata_read_back:
  assumes "idp_config_readable E cfg"
  shows "if ic_single_sign_on_service cfg = []
    then idp_from_config E cfg setting = Inl (MissingMetadata ''SingleSignOnService'')
    else (\<exists>idp. idp_from_config E cfg setting = Inr idp
     \<and> idp_entity_text idp = (case es_entity_id setting of Some i \<Rightarrow> i | None \<Rightarrow> ic_entity_id cfg)
     \<and> idp_metadata_xml idp = generate_idp_metadata E cfg
     \<and> md_valid_until (idp_inner (idr_metadata idp)) = None
     \<and> es_want_authn_requests_signed (idr_setting idp) = ic_want_authn_requests_signed cfg
     \<and> es_name_id_format (idr_setting idp)
         = offered_formats (idp_order cfg) (ic_name_id_format cfg) (es_name_id_format setting)
     \<and> (\<forall>b. get_single_sign_on_service (idr_metadata idp) b = only_location (ic_single_sign_on_service cfg) b)
     \<and> (\<forall>b. get_single_logout_service (idp_inner (idr_metadata idp)) b
          = map_option ep_location
              (List.find (\<lambda>e. ep_binding e = b) (ordered (idp_order cfg) ''SingleLogoutService'' (ic_single_logout_service cfg))))
     \<and> x509_certificates (idp_inner (idr_metadata idp)) Signing
         = ordered (idp_order cfg) ''KeyDescriptor'' (map normalize_cert_string (ic_signing_certs cfg))
     \<and> x509_certificates (idp_inner (idr_metadata idp)) Encryption
         = ordered (idp_order cfg) ''KeyDescriptor'' (map normalize_cert_string (ic_encrypt_certs cfg)))"
proof (cases "ic_single_sign_on_service cfg = []")
  case True
  then show ?thesis by (simp add: idp_from_config_def try_generate_idp_metadata_def)
next
  case False
  obtain m where m: "idp_from_xml E (generate_idp_metadata E cfg) = Inr m" "md_valid_until (idp_inner m) = None"
    "md_xml (idp_inner m) = generate_idp_metadata E cfg" "get_entity_id (idp_inner m) = Some (ic_entity_id cfg)"
    and rest: "get_name_id_format (idp_inner m) = ordered (idp_order cfg) ''NameIDFormat'' (ic_name_id_format cfg)"
      "is_want_authn_requests_signed m = ic_want_authn_requests_signed cfg"
      "\<And>b. get_single_sign_on_service m b = only_location (ic_single_sign_on_service cfg) b"
      "\<And>b. get_single_logout_service (idp_inner m) b = map_option ep_location
         (List.find (\<lambda>e. ep_binding e = b) (ordered (idp_order cfg) ''SingleLogoutService'' (ic_single_logout_service cfg)))"
      "x509_certificates (idp_inner m) Signing = ordered (idp_order cfg) ''KeyDescriptor'' (map normalize_cert_string (ic_signing_certs cfg))"
      "x509_certificates (idp_inner m) Encryption = ordered (idp_order cfg) ''KeyDescriptor'' (map normalize_cert_string (ic_encrypt_certs cfg))"
    using idp_metadata_read [OF assms] by blast
  obtain idp where "idp_from_metadata E (generate_idp_metadata E cfg) setting = Inr idp" "idr_metadata idp = m"
    "es_want_authn_requests_signed (idr_setting idp) = is_want_authn_requests_signed m"
    "es_name_id_format (idr_setting idp)
       = (if get_name_id_format (idp_inner m) = [] then es_name_id_format setting else get_name_id_format (idp_inner m))"
    "idp_entity_text idp = (case es_entity_id setting of Some j \<Rightarrow> j | None \<Rightarrow> ic_entity_id cfg)"
    using idp_from_metadata_read [OF m(1,4), of setting] by blast
  with m False show ?thesis
    by (simp add: idp_from_config_def try_generate_idp_metadata_def idp_metadata_xml_def offered_formats_def rest)
qed

section \<open>A generated document\<close>

definition idp_config_sample :: idp_metadata_config where
  "idp_config_sample =
     \<lparr>ic_entity_id = ''idp'', ic_signing_certs = [''c''], ic_encrypt_certs = [], ic_want_authn_requests_signed = True,
      ic_name_id_format = [], ic_single_sign_on_service =
        [\<lparr>ep_binding = Post, ep_location = ''a'', ep_index = None, ep_is_default = False\<rparr>,
         \<lparr>ep_binding = Redirect, ep_location = ''b'', ep_index = None, ep_is_default = False\<rparr>,
         \<lparr>ep_binding = Post, ep_location = ''d'', ep_index = None, ep_is_default = True\<rparr>],
      ic_single_logout_service = [], ic_elements_order = Some [''KeyDescriptor'', ''SingleLogoutService'']\<rparr>"

lemma idp_config_sample:
  "idp_order idp_config_sample = [''KeyDescriptor'', ''SingleLogoutService'', ''SingleSignOnService'']"
  "ic_single_sign_on_service idp_config_sample \<noteq> []" "ic_entity_id idp_config_sample = ''idp''"
  "only_location (ic_single_sign_on_service idp_config_sample) Redirect = Some ''b''"
  "only_location (ic_single_sign_on_service idp_config_sample) Post = None"
  "ic_signing_certs idp_config_sample = [''c'']"
  by (simp_all add: idp_config_sample_def idp_order_def elements_order_or_default_def only_location_def)

lemma idp_config_cert: "normalize_cert_string ''c'' = ''c''"
  by code_simp

lemma idp_config_sample_readable:
  "idp_config_readable (generated_ext (idp_metadata_written idp_config_sample)) idp_config_sample"
proof -
  have "written_fits xml_limits_default 1024 (idp_metadata_written idp_config_sample)" "written_size (idp_metadata_written idp_config_sample) \<le> 50000"
    unfolding idp_metadata_written_def role_written_def idp_role_attrs_def idp_config_sample
    by (simp_all add: idp_config_sample_def idp_group_written_def sso_written_def key_written_def endpoint_attrs_def
        attrs_fit_def xml_limits_default_def entity_descriptor_attrs_def bool_str_def binding_urn.simps idp_config_cert)
  from generated_readable [OF this] show ?thesis
    by (simp add: idp_config_readable_def idp_config_sample idp_metadata_events_eq)
qed

lemma idp_metadata_read_back_witness:
  "\<exists>idp. idp_from_config (generated_ext (idp_metadata_written idp_config_sample)) idp_config_sample entity_setting_default = Inr idp
     \<and> idp_entity_text idp = ''idp'' \<and> get_single_sign_on_service (idr_metadata idp) Redirect = Some ''b''
     \<and> get_single_sign_on_service (idr_metadata idp) Post = None
     \<and> x509_certificates (idp_inner (idr_metadata idp)) Signing = [''c'']"
proof -
  have s: "es_entity_id entity_setting_default = None" by (simp add: entity_setting_default_def)
  from idp_metadata_read_back [OF idp_config_sample_readable, of entity_setting_default] s show ?thesis
    by (auto simp: idp_config_sample ordered_def idp_config_cert)
qed

end
