(* ===== verification/Delivered.thy ===== *)
theory Delivered
  imports Read_Back
begin

text \<open>
  A generated message on its way: the namespace-resolved reading of a written document, the protocol
  profile (\<open>src/src/xml/profile.rs\<close>) on it, and the flow (\<open>src/src/flow.rs\<close>) up to the
  extraction, for a message that is posted as it was written.
\<close>

section \<open>The profile on a written document\<close>

lemma profile_others:
  "list_all (\<lambda>p. p = NsEvent Unbound NsOther) ps \<Longrightarrow>
     profile_loop ptype stack saw (ps @ steps) = profile_loop ptype stack saw steps"
  by (induction ps) auto

text \<open>An attribute with a prefix only binds a namespace.\<close>

definition prefixes_bind :: "(string \<times> string) list \<Rightarrow> bool" where
  "prefixes_bind ats \<longleftrightarrow> list_all (\<lambda>kv. CHR '':'' \<in> set (fst kv) \<longrightarrow> names_namespace (fst kv)) ats"

lemma profile_attrs_written:
  "list_all2 ns_attr_of ats as \<Longrightarrow> prefixes_bind ats \<Longrightarrow>
     profile_attrs_loop label consumed False as vals
       = Inr (vals @ filter (\<lambda>kv. fst kv \<in> set consumed) (plain_attrs ats))"
proof (induction arbitrary: vals rule: list_all2_induct)
  case (Cons kv ats a as)
  then show ?case
    by (cases "names_namespace (fst kv)")
      (auto simp: ns_attr_of_def prefixes_bind_def plain_attrs_def local_part_def)
qed (simp add: plain_attrs_def)

lemma validate_attributes_written:
  assumes "list_all2 ns_attr_of ats as" "prefixes_bind ats"
    "list_all (\<lambda>r. r \<in> fst ` set (plain_attrs ats) \<and> r \<in> set consumed) required"
  shows "validate_unqualified_attributes label as consumed required
       = Inr (filter (\<lambda>kv. fst kv \<in> set consumed) (plain_attrs ats))"
proof -
  have "find (\<lambda>r. r \<notin> fst ` set (filter (\<lambda>kv. fst kv \<in> set consumed) (plain_attrs ats))) required = None"
    using assms(3) by (force simp: find_None_iff list_all_iff)
  then show ?thesis
    by (simp add: validate_unqualified_attributes_def profile_validate_attributes_def profile_attrs_written [OF assms(1,2)])
qed

lemma map_of_filter_fst: "map_of (filter (\<lambda>kv. fst kv \<in> A) xs) k = (if k \<in> A then map_of xs k else None)"
  by (induction xs) auto

lemma written_root_valid:
  assumes "list_all2 ns_attr_of ats as" "prefixes_bind ats"
    "map_of (plain_attrs ats) ''ID'' \<noteq> None" "map_of (plain_attrs ats) ''Version'' = Some ''2.0''"
    "map_of (plain_attrs ats) ''IssueInstant'' = Some t" "parse_saml_utc_date_time t \<noteq> None"
    "ptype = LogoutRequest \<Longrightarrow> \<forall>x. map_of (plain_attrs ats) ''NotOnOrAfter'' = Some x \<longrightarrow> parse_saml_utc_date_time x \<noteq> None"
  shows "validate_root (parser_root ptype) as NkProtocol ptype = Inr ()"
proof -
  have "k \<in> fst ` set xs" if "map_of xs k \<noteq> None" for k :: string and xs :: "(string \<times> string) list"
    using that by (simp add: map_of_eq_None_iff)
  then have "list_all (\<lambda>r. r \<in> fst ` set (plain_attrs ats) \<and> r \<in> set (root_consumed_attributes ptype)) [''ID'', ''Version'', ''IssueInstant'']"
    using assms(3-5) by (cases ptype) auto
  note v = validate_attributes_written [OF assms(1,2) this]
  have c: "''Version'' \<in> set (root_consumed_attributes ptype)" "''IssueInstant'' \<in> set (root_consumed_attributes ptype)"
    "ptype = LogoutRequest \<Longrightarrow> ''NotOnOrAfter'' \<in> set (root_consumed_attributes ptype)"
    by (cases ptype; simp)+
  show ?thesis
    using assms(4-7) c unfolding validate_root_def v
    by (cases "ptype = LogoutRequest") (auto simp: map_of_filter_fst require_version_2_def require_issue_instant_def
        require_optional_saml_utc_date_time_def split: option.splits simp del: root_consumed_attributes.simps)
qed

section \<open>Base64 and the redirect query\<close>

text \<open>The characters of the base64 alphabet and padding.\<close>

definition b64_char :: "char \<Rightarrow> bool" where
  "b64_char c \<longleftrightarrow> byte_in c 0x30 0x39 \<or> byte_in c 0x41 0x5A \<or> byte_in c 0x61 0x7A \<or> c \<in> {CHR ''+'', CHR ''/'', CHR ''=''}"

text \<open>The base64 of a text is padded base64 that decodes to the text.\<close>

definition b64_reads :: "('e) wire_ext_scheme \<Rightarrow> string \<Rightarrow> bool" where
  "b64_reads E s \<longleftrightarrow>
     b64_decode E (b64_encode E s) = Inr s \<and> list_all b64_char (b64_encode E s)
     \<and> length (b64_encode E s) \<le> min usize_max (4 * ((length s + 2) div 3))"

lemma b64_char_not_ws:
  assumes "b64_char c"
  shows "\<not> is_ascii_ws c" "ws_len (c # s) = 0"
proof -
  have n: "c \<noteq> x" if "\<not> b64_char x" for x using assms that by blast
  have x: "c \<noteq> CHR '' ''" "c \<noteq> CHR 0x09" "c \<noteq> CHR 0x0A" "c \<noteq> CHR 0x0B" "c \<noteq> CHR 0x0C" "c \<noteq> CHR 0x0D" "c \<noteq> CHR 0xC2"
    "c \<noteq> CHR 0xE1" "c \<noteq> CHR 0xE2" "c \<noteq> CHR 0xE3"
    by (rule n, simp add: b64_char_def byte_in_def)+
  show "ws_len (c # s) = 0" using x by (subst ws_len.simps) simp
  show "\<not> is_ascii_ws c" using x by (simp add: is_ascii_ws_def)
qed

lemma b64_normal_text: "list_all b64_char s \<Longrightarrow> b64_normal s = s"
proof -
  assume b: "list_all b64_char s"
  then have "strip_ws s = s"
    by (induction s) (simp_all add: strip_ws.simps b64_char_not_ws)
  then show ?thesis by (simp add: b64_normal_def)
qed

lemma b64_reads_within:
  assumes "b64_reads E s" "length s \<le> m"
  shows "base64_decode_with_limit E (base64_encode E s) m = Inr s"
proof -
  note d = assms(1) [unfolded b64_reads_def]
  have f: "length (filter (\<lambda>b. \<not> is_ascii_ws b) (b64_encode E s)) = length (b64_encode E s)"
    unfolding normalized_len_eq using d by (auto simp: list_all_iff list_ex_iff b64_char_not_ws(1))
  have "b64_normal (b64_encode E s) = b64_encode E s" by (rule b64_normal_text) (use d in simp)
  then show ?thesis
    using d assms(2) b64_len_fits [of "length (b64_encode E s)" "length s" m] f
    by (simp add: base64_limit_normal base64_decode_normal base64_encode_def)
qed

lemma raw_params_unsigned:
  assumes "CHR ''&'' \<notin> set m" "\<And>r. relay = Some r \<Longrightarrow> CHR ''&'' \<notin> set r"
  shows "raw_query_params (query_param t @ ''='' @ m @ (case relay of Some r \<Rightarrow> ''&RelayState='' @ r | None \<Rightarrow> [])) =
     (query_param t, m) # (case relay of Some r \<Rightarrow> [(''RelayState'', r)] | None \<Rightarrow> [])"
proof -
  have n: "CHR ''&'' \<notin> set (query_param t)" by (cases t) simp_all
  have eq: "split_once CHR ''='' (query_param t @ CHR ''='' # x) = Some (query_param t, x)" for x
    by (intro split_once_append) (cases t, simp_all)
  show ?thesis
  proof (cases relay)
    case None
    have "split_on CHR ''&'' (query_param t @ ''='' @ m) = [query_param t @ ''='' @ m]"
      using assms(1) n by (intro split_on_no_sep) simp
    then show ?thesis by (simp add: raw_query_params_def None eq)
  next
    case (Some r)
    have "split_on CHR ''&'' ((query_param t @ ''='' @ m) @ CHR ''&'' # (''RelayState='' @ r)) =
        [query_param t @ ''='' @ m, ''RelayState='' @ r]"
      using assms(1) assms(2) [OF Some] n by (subst split_on_append) (simp_all add: split_on_no_sep)
    then show ?thesis by (simp add: raw_query_params_def Some eq)
  qed
qed

text \<open>
  What the crates promise for one message: for HTTP-POST its base64 is read back; for HTTP-Redirect its raw
  DEFLATE inflates to it within both limits, the base64 of that is read back, encoded values have no separator,
  and the query is parsed as the parameters it was made of.
\<close>

fun carried :: "('e) wire_ext_scheme \<Rightarrow> nat \<Rightarrow> xml_limits \<Rightarrow> parser_type \<Rightarrow> string \<Rightarrow> string option \<Rightarrow> binding \<Rightarrow> bool" where
  "carried E n L t xml relay Post \<longleftrightarrow> b64_reads E xml"
| "carried E n L t xml relay Redirect \<longleftrightarrow>
     (\<exists>d. deflate_encode E xml = Inr d \<and> inflate_law E \<and> inflates_to E d xml \<and> b64_reads E d
        \<and> max (length d) (length xml) \<le> min n (max_bytes L) \<and> min n (max_bytes L) < usize_max \<and> url_encode_law E
        \<and> form_parse E (redirect_binding_query E (query_param t) (base64_encode E d) relay)
            = (query_param t, base64_encode E d) # (case relay of Some r \<Rightarrow> [(''RelayState'', r)] | None \<Rightarrow> []))"
| "carried E n L t xml relay _ \<longleftrightarrow> False"

text \<open>What the browser hands over for an outbound action: the fields of the form, or the query of the URL.\<close>

definition brings :: "outbound \<Rightarrow> browser_input \<Rightarrow> bool" where
  "brings a input \<longleftrightarrow>
     (\<exists>form. outbound_post_form a = Inr form \<and> input = InPost (pf_fields form))
     \<or> (\<exists>url base q. outbound_redirect_url a = Inr url \<and> split_once CHR ''?'' url = Some (base, q) \<and> input = InRedirect q)"

lemma outbound_redirect_fields:
  assumes "outbound_try_from E t c = Inr a" "outbound_redirect_url a = Inr url"
  shows "bc_binding c = Redirect" "url = bc_context c" "t \<noteq> SamlResponse"
  using assms
  by (cases "bc_binding c"; auto simp: outbound_try_from_eq outbound_from_context_def outbound_redirect_url_def rbind_Inr_iff
      ok_or_Inr_iff split: if_splits)+

lemma brings_cases:
  assumes "outbound_try_from E t c = Inr a" "brings a input"
  obtains (posted) form where "outbound_post_form a = Inr form" "input = InPost (pf_fields form)" "bc_binding c \<in> {Post, SimpleSign}"
  | (redirected) base q where "split_once CHR ''?'' (bc_context c) = Some (base, q)" "input = InRedirect q" "bc_binding c = Redirect"
      "t \<noteq> SamlResponse"
  using assms(2) outbound_form_fields(1) [OF assms(1)] outbound_redirect_fields [OF assms(1)] unfolding brings_def by blast

lemma redirect_request:
  assumes "url_encode_law E" "t \<noteq> SamlResponse"
    "form_parse E (redirect_binding_query E (query_param t) v relay)
       = (query_param t, v) # (case relay of Some r \<Rightarrow> [(''RelayState'', r)] | None \<Rightarrow> [])"
  shows "\<exists>r. http_request_for E t (InRedirect (redirect_binding_query E (query_param t) v relay)) = Inr r
      \<and> query_get r (query_param t) = Inr (Some v)"
    "relay_state_from_input E (InRedirect (redirect_binding_query E (query_param t) v relay)) = relay_param_try_from_option relay"
proof -
  let ?q = "redirect_binding_query E (query_param t) v relay"
  have enc: "CHR ''&'' \<notin> set (url_encode E s)" for s
    using assms(1) by (simp add: url_encode_law_def url_encode_def)
  have d: "dropWhile (\<lambda>c. c = CHR ''?'') ?q = ?q"
    by (cases t) (simp_all add: redirect_binding_query_def)
  have q: "?q = query_param t @ ''='' @ url_encode E v
      @ (case map_option (url_encode E) relay of Some r \<Rightarrow> ''&RelayState='' @ r | None \<Rightarrow> [])"
    by (cases relay) (simp_all add: redirect_binding_query_def)
  have params: "raw_query_params ?q =
      (query_param t, url_encode E v) # (case map_option (url_encode E) relay of Some r \<Rightarrow> [(''RelayState'', r)] | None \<Rightarrow> [])"
    unfolding q by (rule raw_params_unsigned) (use enc in auto)
  have "redirect_octet_from_raw_query ?q (message_field_of t) = Inr None"
    unfolding redirect_octet_from_raw_query_def Let_def validate_query_message_kind_def params
    by (cases relay; cases t) (simp_all add: unique_encoded_query_value_def unique_value_def)
  then have "http_request_for E t (InRedirect ?q) = Inr \<lparr>hr_query = form_parse E ?q, hr_body = [], hr_octet_string = None\<rparr>"
    unfolding http_request_for_eq http_request_from_input_def browser_input.case d Let_def parse_form_pairs_def
    using assms(2) by simp
  moreover have "single_param (form_parse E ?q) (query_param t) = Inr (Some v)"
    unfolding assms(3) by (cases relay; cases t) (simp_all add: single_param_def unique_value_def)
  ultimately show "\<exists>r. http_request_for E t (InRedirect ?q) = Inr r \<and> query_get r (query_param t) = Inr (Some v)"
    by (simp add: query_get_def)
  show "relay_state_from_input E (InRedirect ?q) = relay_param_try_from_option relay"
    unfolding relay_state_from_input.simps d assms(3) by (cases relay; cases t) (simp_all add: first_field_def)
qed

section \<open>A delivered document\<close>

text \<open>
  The two readers yield what was written (\<open>p\<close> the prefix of the protocol namespace), the receiver's limits admit
  the document, its text is UTF-8, and a schema validator, where one is installed, accepts it.
\<close>

definition acceptable :: "('k, 'e) out_ext_scheme \<Rightarrow> xml_limits \<Rightarrow> string \<Rightarrow> written \<Rightarrow> bool" where
  "acceptable E L p el \<longleftrightarrow>
     (let xml = xml_write E (written_events el) in
      readable E L el \<and> ns_reads_as (protocol_namespace p) (written_events el) (ns_read E (max_attributes_per_element L) xml)
      \<and> string_from_utf8 xml = Inr xml \<and> (\<forall>f. schema_validator E = Some f \<longrightarrow> f xml = Inr ()))"

text \<open>The document arrives at a receiver with given settings in the context it was sent in, at an endpoint without a query.\<close>

definition deliverable :: "('k, 'e) out_ext_scheme \<Rightarrow> entity_setting \<Rightarrow> string \<Rightarrow> parser_type \<Rightarrow> written \<Rightarrow> binding_context \<Rightarrow> bool" where
  "deliverable E s p t el c \<longleftrightarrow>
     acceptable E (es_xml_limits s) p el
     \<and> carried E (es_redirect_inflate_max_bytes s) (es_xml_limits s) t (xml_write E (written_events el)) (bc_relay_state c) (bc_binding c)
     \<and> (bc_binding c = Redirect \<longrightarrow> CHR ''?'' \<notin> set (bc_entity_endpoint c))"

lemma outbound_relay_param:
  assumes "outbound_try_from E t c = Inr a"
  obtains p where "relay_param_try_from_option (bc_relay_state c) = Inr p" "relay_param_as_deref p = bc_relay_state c"
proof -
  have "\<exists>p. relay_param_try_from_option (bc_relay_state c) = Inr p"
    using assms
    by (auto simp: outbound_try_from_eq outbound_from_context_def rbind_Inr_iff relay_param_try_from_option_def
        opt_traverse_def rmap_Inr_iff split: option.splits)
  then show ?thesis using relay_param_try_from_option_ok that by blast
qed

text \<open>An unsigned message that is brought over is decoded to the text sent, with the RelayState sent.\<close>

lemma delivered_decodes:
  assumes "outbound_try_from E t c = Inr a" "carries_message E t c (xml_write E (written_events el))" "deliverable E s p t el c"
    "brings a input"
  obtains request relay where "http_request_for E t input = Inr request" "input_binding input = bc_binding c"
    "relay_state_from_input E input = Inr relay" "relay_param_as_deref relay = bc_relay_state c"
    "decode_message E (bc_binding c) t request (es_redirect_inflate_max_bytes s) (es_xml_limits s)
       = Inr (xml_write E (written_events el))"
proof -
  let ?xml = "xml_write E (written_events el)" and ?L = "es_xml_limits s" and ?n = "es_redirect_inflate_max_bytes s"
  have doc: "length ?xml \<le> max_bytes ?L" "string_from_utf8 ?xml = Inr ?xml"
    and carried: "carried E ?n ?L t ?xml (bc_relay_state c) (bc_binding c)"
    and plain: "bc_binding c = Redirect \<Longrightarrow> CHR ''?'' \<notin> set (bc_entity_endpoint c)"
    using assms(3) by (auto simp: deliverable_def acceptable_def readable_def Let_def)
  obtain relay where relay: "relay_param_try_from_option (bc_relay_state c) = Inr relay" "relay_param_as_deref relay = bc_relay_state c"
    by (rule outbound_relay_param [OF assms(1)])
  from assms(1,4) show ?thesis
  proof (cases rule: brings_cases)
    case (posted form)
    note form = outbound_form_request [OF assms(1) posted(1)]
    have b: "bc_binding c = Post" using posted(3) carried by auto
    then have "b64_reads E ?xml" "bc_context c = base64_encode E ?xml"
      using carried assms(2) by (auto simp: carries_message_def)
    with form(1,2,6) relay doc b show ?thesis
      by (intro that [of "http_request_post (pf_fields form)" relay])
        (simp_all add: posted(2) decode_message_def b64_reads_within check_input_bytes_def Let_def del: http_request_for.simps)
  next
    case (redirected base q)
    note b = redirected(3)
    obtain d where d: "deflate_encode E ?xml = Inr d" "inflate_law E" "inflates_to E d ?xml" "b64_reads E d"
      "max (length d) (length ?xml) \<le> min ?n (max_bytes ?L)" "min ?n (max_bytes ?L) < usize_max" "url_encode_law E"
      "form_parse E (redirect_binding_query E (query_param t) (base64_encode E d) (bc_relay_state c))
         = (query_param t, base64_encode E d) # (case bc_relay_state c of Some r \<Rightarrow> [(''RelayState'', r)] | None \<Rightarrow> [])"
      using carried b by auto
    note none = split_once_None [OF plain [OF b]]
    then have "bc_context c = bc_entity_endpoint c @ CHR ''?'' # redirect_binding_query E (query_param t) (base64_encode E d) (bc_relay_state c)"
      using assms(2) b d(1) by (auto simp: carries_message_def build_redirect_url_def deflate_raw_encode_def has_query_def none Let_def)
    with redirected(1) plain [OF b]
    have q: "q = redirect_binding_query E (query_param t) (base64_encode E d) (bc_relay_state c)"
      by (simp add: split_once_append)
    obtain r where r: "http_request_for E t input = Inr r" "query_get r (query_param t) = Inr (Some (base64_encode E d))"
      "relay_state_from_input E input = relay_param_try_from_option (bc_relay_state c)"
      using redirect_request [OF d(7) redirected(4) d(8)] by (auto simp: redirected(2) q simp del: http_request_for.simps relay_state_from_input.simps)
    have "deflate_raw_decode_with_limit E d (min ?n (max_bytes ?L)) = Inr ?xml"
      using deflate_decode_exact [OF d(2,3,6)] d(5) by simp
    with d(4,5) r relay doc b show ?thesis
      by (intro that [of r relay])
        (simp_all add: redirected(2) decode_message_def b64_reads_within check_input_bytes_def Let_def del: http_request_for.simps)
  qed
qed

text \<open>The flow on a delivered message, with a detached signature where signatures are checked.\<close>

lemma delivered_flow_checked:
  assumes "acceptable E L p el" "xml = xml_write E (written_events el)"
    "decode_message E b ptype request (fo_redirect_inflate_max_bytes opts) L = Inr xml"
    "fo_binding opts = Some b" "fo_parser_type opts = Some ptype" "fo_xml_limits opts = L"
    "fo_check_signature opts \<Longrightarrow> b \<in> {Redirect, SimpleSign} \<and> verify_detached E b ptype request opts xml = Inr alg"
    "ptype \<noteq> SamlResponse" "validate_protocol_profile E xml ptype L = Inr ()" "check_status_with_limits E xml ptype L = Inr ()"
    "default_fields ptype None = Inr flds" "extract_with_limits E xml flds L = Inr ex"
    "validate_context E clk ptype None ex opts None (fo_check_signature opts) = Inr ()"
  shows "flow E clk opts request
     = Inr \<lparr>fr_saml_content = xml, fr_extract = ex, fr_sig_alg = (if fo_check_signature opts then Some alg else None)\<rparr>"
proof -
  have parses: "is_valid_xml_with_limits E xml L = Inr ()"
  proof -
    obtain m where "parse_with_limits E xml L = Inr m"
      using readable_parses [of E L el] assms(1,2) by (auto simp: acceptable_def Let_def)
    moreover have "\<forall>f. schema_validator E = Some f \<longrightarrow> f xml = Inr ()"
      using assms(1,2) by (simp add: acceptable_def Let_def)
    ultimately show ?thesis
      by (cases "schema_validator E") (simp_all add: is_valid_xml_with_limits_def rmap_err_Inr_iff)
  qed
  show ?thesis
    unfolding flow_def flow_inner_Inr
    using parses assms(3-)
    by (cases "fo_check_signature opts") (auto simp: authenticate_message_def prepare_unverified_def)
qed

lemma delivered_flow:
  assumes "acceptable E L p el" "xml = xml_write E (written_events el)"
    "decode_message E b ptype request (fo_redirect_inflate_max_bytes opts) L = Inr xml"
    "fo_binding opts = Some b" "fo_parser_type opts = Some ptype" "fo_xml_limits opts = L" "\<not> fo_check_signature opts"
    "ptype \<noteq> SamlResponse" "validate_protocol_profile E xml ptype L = Inr ()" "check_status_with_limits E xml ptype L = Inr ()"
    "default_fields ptype None = Inr flds" "extract_with_limits E xml flds L = Inr ex"
    "validate_context E clk ptype None ex opts None False = Inr ()"
  shows "flow E clk opts request = Inr \<lparr>fr_saml_content = xml, fr_extract = ex, fr_sig_alg = None\<rparr>"
  using delivered_flow_checked [OF assms(1-6) _ assms(8-12)] assms(7,13) by simp

section \<open>AuthnRequests\<close>

lemma authn_request_profile:
  assumes "acceptable E L ''samlp'' (authn_request_written i)" "parse_saml_utc_date_time (ax_issue_instant i) = Some t"
  shows "validate_protocol_profile E (render_default_authn_request_xml E i) SamlRequest L = Inr ()"
proof -
  let ?xml = "render_default_authn_request_xml E i"
  have steps: "ns_reads_as (protocol_namespace ''samlp'') (written_events (authn_request_written i)) (ns_read E (max_attributes_per_element L) ?xml)"
    "check_input_bytes L (length ?xml) = Inr ()"
    using assms(1) by (simp_all add: acceptable_def Let_def authn_request_text readable_def check_input_bytes_def)
  obtain as bs cs ps where shape: "ns_read E (max_attributes_per_element L) ?xml =
      NsEvent (Bound NS_PROTOCOL) (NsStart ''AuthnRequest'' as) # NsEvent (Bound NS_ASSERTION) (NsStart ''Issuer'' bs) # ps
      @ [NsEvent (Bound NS_ASSERTION) NsEnd, NsEvent (Bound NS_PROTOCOL) (NsEmpty ''NameIDPolicy'' cs),
         NsEvent (Bound NS_PROTOCOL) NsEnd]"
    and as: "list_all2 ns_attr_of (authn_request_attrs i) as" "list_all (\<lambda>p. p = NsEvent Unbound NsOther) ps"
      "list_all2 ns_attr_of [(''Format'', ax_name_id_format i), (''AllowCreate'', bool_str (ax_allow_create i))] cs"
    using steps(1) by (auto simp: authn_request_written_def ns_reads local_parts protocol_namespace_def)
  have binds: "prefixes_bind (authn_request_attrs i)"
    by (simp add: prefixes_bind_def authn_request_attrs_def names_namespace_def opt_attr_def split: option.splits)
  have vals: "map_of (plain_attrs (authn_request_attrs i)) ''ID'' = Some (ax_id i)"
    "map_of (plain_attrs (authn_request_attrs i)) ''Version'' = Some ''2.0''"
    "map_of (plain_attrs (authn_request_attrs i)) ''IssueInstant'' = Some (ax_issue_instant i)"
    by (simp_all add: plain_attrs_def authn_request_attrs_def names_namespace_def)
  have root: "validate_root ''AuthnRequest'' as NkProtocol SamlRequest = Inr ()"
    using written_root_valid [OF as(1) binds, of "ax_issue_instant i" SamlRequest] vals assms(2) by simp
  have policy: "validate_unqualified_attributes ''NameIDPolicy'' cs [''Format'', ''AllowCreate''] [] = Inr
      (filter (\<lambda>kv. fst kv \<in> set [''Format'', ''AllowCreate''])
        (plain_attrs [(''Format'', ax_name_id_format i), (''AllowCreate'', bool_str (ax_allow_create i))]))"
    by (rule validate_attributes_written [OF as(3)]) (simp_all add: prefixes_bind_def)
  show ?thesis
    by (simp add: validate_protocol_profile_def steps(2) shape profile_others [OF as(2)] enter_element_def note_use_condition_def
        note_conditions_def validate_element_def root name_is_def new_name_def expected_child_namespace_def
        protocol_child_namespace_def validate_element_attributes_def consumed_attributes_def policy Let_def)
qed

end
