(* ===== verification/Login_Received.thy ===== *)
theory Login_Received
  imports Delivered
begin

text \<open>
  A started login arrives: what \<open>start_sso\<close> (\<open>src/src/api/sp.rs\<close>) posts is what \<open>receive_sso\<close>
  (\<open>src/src/api/idp.rs\<close>) accepts.
\<close>

text \<open>The checks of the identity provider on a request that is what it seems.\<close>

lemma receive_sso_request_Inr:
  assumes "relay_state_from_input E input = Inr relay" "input_binding input = sso_request_as_binding b"
    "raw_sp_descriptor E spd = Inr raw_sp" "http_request_for E SamlRequest input = Inr request"
    "metadata_validate_at E (idp_inner (idr_metadata (sf_identity_provider I))) (vc_now v) = Inr ()"
    "metadata_validate_at E (sp_inner (spr_metadata raw_sp)) (vc_now v) = Inr ()"
    "flow E clk (login_request_flow_options (sf_identity_provider I) raw_sp (sso_request_as_binding b) (Some (vc_now v))
       (as_millis (vc_clock_skew v))) request = Inr fr"
    "authn_request_try_from E fr = Inr a" "ar_destination a = Some d"
    "get_single_sign_on_service (idr_metadata (sf_identity_provider I)) (sso_request_as_binding b) = Some (endpoint_url_str d)"
  shows "receive_sso_request E clk I spd input v = Inr (relay, a)"
proof -
  have "sso_request_try_from (sso_request_as_binding b) = Inr b" by (cases b) simp_all
  with assms show ?thesis
    by (simp add: receive_sso_request_def parse_login_request_at_def parse_login_request_at_inner_def unwrap_or_def
        del: relay_state_from_input.simps http_request_for.simps)
qed

text \<open>The context of an unsigned AuthnRequest of the default renderer.\<close>

lemma start_sso_context:
  assumes "start_sso E env later sp idp opts = Inr st" "es_login_request_template (spr_setting sp) = None"
    "\<not> is_authn_request_signed (spr_metadata sp)" "raw_idp_descriptor E idp = Inr raw"
  obtains c where "outbound_try_from E SamlRequest c = Inr (st_outbound st)" "into_raw_context (st_outbound st) = c"
    "bc_binding c = sso_request_as_binding (so_binding opts)"
    "get_single_sign_on_service (idr_metadata raw) (bc_binding c) = Some (bc_entity_endpoint c)"
    "carries_message E SamlRequest c (xml_write E (written_events (authn_request_written (sent_authn_request E env sp opts st))))"
proof (rule start_sso_stages [OF assms(1)])
  fix raw' and acs :: acs_endpoint and c and p :: pending_authn_request
  let ?lo = "\<lparr>lo_relay_state = relay_param_as_deref (so_relay_state opts), lo_custom = None,
        lo_force_authn = map_option force_as_bool (so_force_authn opts), lo_acs_index = so_acs_index opts,
        lo_response_binding = Some (sso_response_as_binding (acs_ep_binding acs))\<rparr>"
  assume raw: "raw_idp_descriptor E idp = Inr raw'"
    and c: "create_login_request_with_options E env sp raw' (sso_request_as_binding (so_binding opts)) ?lo = Inr c"
    and a: "outbound_try_from E SamlRequest c = Inr (st_outbound st)"
  have sso: "get_single_sign_on_service (idr_metadata raw') (sso_request_as_binding (so_binding opts)) = Some (bc_entity_endpoint c)"
    and b: "bc_binding c = sso_request_as_binding (so_binding opts)"
    by (rule create_login_request_fields [OF c], assumption)+
  have ctx: "into_raw_context (st_outbound st) = c" using outbound_try_from_Inr(1) [OF a] by (simp add: into_raw_context_def)
  show ?thesis
    by (rule that [OF a ctx b])
      (use sso b raw assms(4) start_sso_sends [OF assms(1-3)] in \<open>simp_all add: ctx authn_request_text\<close>)
qed

text \<open>
  C6: a started login is accepted by the identity provider it was started for: an unsigned request of the default
  template (no AuthnRequest template configured) that the browser brings over HTTP-POST or HTTP-Redirect passes every check of an identity provider that does not require signed
  requests and whose metadata the service provider has, and is returned with the ID and the peer of the pending
  state and the RelayState that was sent. The answer then goes to the assertion consumer service the pending state
  waits at. Assumed: the document arrives (\<open>deliverable\<close>), both metadata are current, the clock shows a date
  of the common calendar and the replay cache takes the identifier.
\<close>

theorem started_login_received:
  assumes "start_sso E env later sp idp opts = Inr st" "brings (st_outbound st) input"
    "es_login_request_template (spr_setting sp) = None" "\<not> is_authn_request_signed (spr_metadata sp)"
    "raw_idp_descriptor E idp = Inr raw_idp" "idr_metadata raw_idp = idr_metadata (sf_identity_provider I)"
    "raw_sp_descriptor E spd = Inr raw_sp" "spr_metadata raw_sp = spr_metadata sp"
    "\<not> is_want_authn_requests_signed (idr_metadata (sf_identity_provider I))"
    "get_entity_id (sp_inner (spr_metadata sp)) = Some (sp_entity_text sp)" "entity_id_try_new (sp_entity_text sp) = Inr issuer"
    "metadata_validate_at E (idp_inner (idr_metadata raw_idp)) (vc_now v) = Inr ()"
    "metadata_validate_at E (sp_inner (spr_metadata sp)) (vc_now v) = Inr ()"
    "deliverable E (idr_setting (sf_identity_provider I)) ''samlp'' SamlRequest
       (authn_request_written (sent_authn_request E env sp opts st)) (into_raw_context (st_outbound st))"
    "http_url E (bc_entity_endpoint (into_raw_context (st_outbound st)))"
    "civil_ok (odt_civil E (ie_now_utc env))" "\<forall>k. so_acs_index opts = Some k \<longrightarrow> k \<le> 65535"
    "check_and_store_message_replay cas v (AuthnRequestId (pe_id (st_pending st))) = (v1, Inr ())"
  shows "\<exists>r. receive_sso E clk cas I spd input v = (v1, Inr r)
     \<and> ar_id (rc_message r) = pe_id (st_pending st) \<and> ar_issuer (rc_message r) = issuer
     \<and> relay_param_as_deref (rc_relay_state r) = map_option relay_state_str (ob_relay_state (st_outbound st))
     \<and> response_target raw_sp (rc_message r) (pd_response_binding (pe_details (st_pending st)))
         = Inr (pd_response_binding (pe_details (st_pending st)),
                Some (endpoint_url_str (acs_ep_url (pd_acs (pe_details (st_pending st))))))"
proof -
  define el where "el = authn_request_written (sent_authn_request E env sp opts st)"
  define xml where "xml = xml_write E (written_events el)"
  let ?S = "idr_setting (sf_identity_provider I)" and ?b = "sso_request_as_binding (so_binding opts)"
  obtain c where a: "outbound_try_from E SamlRequest c = Inr (st_outbound st)" and ctx: "into_raw_context (st_outbound st) = c"
    and b: "bc_binding c = ?b" and sso: "get_single_sign_on_service (idr_metadata raw_idp) (bc_binding c) = Some (bc_entity_endpoint c)"
    and carries: "carries_message E SamlRequest c (xml_write E (written_events el))"
    by (rule start_sso_context [OF assms(1,3-5), folded el_def])
  note arrives = assms(14) [folded el_def, unfolded ctx]
  have acceptable: "acceptable E (es_xml_limits ?S) ''samlp'' el" using arrives by (simp add: deliverable_def)
  have rendered: "render_default_authn_request_xml E (sent_authn_request E env sp opts st) = xml"
    by (simp add: xml_def el_def authn_request_text)
  obtain request relay where request: "http_request_for E SamlRequest input = Inr request" "input_binding input = ?b"
      "relay_state_from_input E input = Inr relay" "relay_param_as_deref relay = bc_relay_state c"
      "decode_message E ?b SamlRequest request (es_redirect_inflate_max_bytes ?S) (es_xml_limits ?S) = Inr xml"
    by (rule delivered_decodes [OF a carries arrives assms(2), folded xml_def, unfolded b])
  have readable: "readable E (es_xml_limits ?S) el" using acceptable by (simp add: acceptable_def Let_def)
  from started_request_agrees [OF assms(1,3,4,15) readable [unfolded el_def] assms(16,11,17,8) rendered [symmetric], of None]
  obtain ex q d where ex: "extract_with_limits E xml login_request_fields (es_xml_limits ?S) = Inr ex" "get_str ex ''issuer'' = Some (sp_entity_text sp)"
    and q: "authn_request_try_from E \<lparr>fr_saml_content = xml, fr_extract = ex, fr_sig_alg = None\<rparr> = Inr q"
      "ar_id q = pe_id (st_pending st)" "ar_issuer q = issuer"
      "response_target raw_sp q (pd_response_binding (pe_details (st_pending st)))
         = Inr (pd_response_binding (pe_details (st_pending st)),
                Some (endpoint_url_str (acs_ep_url (pd_acs (pe_details (st_pending st))))))"
    and d: "ar_destination q = Some d" "endpoint_url_str d = bc_entity_endpoint c"
    by (auto simp: ctx)
  let ?opts = "login_request_flow_options (sf_identity_provider I) raw_sp ?b (Some (vc_now v)) (as_millis (vc_clock_skew v))"
  have opts: "fo_binding ?opts = Some ?b" "fo_parser_type ?opts = Some SamlRequest" "fo_xml_limits ?opts = es_xml_limits ?S"
    "fo_redirect_inflate_max_bytes ?opts = es_redirect_inflate_max_bytes ?S" "\<not> fo_check_signature ?opts"
    "fo_from_issuer ?opts = Some (sp_entity_text sp)"
    using assms(8-10) by (simp_all add: login_request_flow_options_def flow_options_default_def)
  have instant: "parse_saml_utc_date_time (ax_issue_instant (sent_authn_request E env sp opts st)) = Some (now_iso8601 E (ie_now_utc env))"
    using generated_instant(1) [OF assms(16)] by (simp add: sent_authn_request_def Let_def)
  have "flow E clk ?opts request = Inr \<lparr>fr_saml_content = xml, fr_extract = ex, fr_sig_alg = None\<rparr>"
    using authn_request_profile [OF acceptable [unfolded el_def] instant] ex request(5)
    by (intro delivered_flow [OF acceptable xml_def _ opts(1-3,5), where flds = login_request_fields])
      (simp_all add: opts rendered check_status_with_limits_def default_fields_def validate_context_def)
  from receive_sso_request_Inr [OF request(3,2) assms(7) request(1) _ _ this q(1) d(1)]
  have "receive_sso_request E clk I spd input v = Inr (relay, q)"
    using sso assms(5,6,8,12,13) d(2) b by simp
  moreover have "map_option relay_state_str (ob_relay_state (st_outbound st)) = bc_relay_state c"
    using outbound_try_from_Inr(4) [OF a] .
  ultimately show ?thesis
    using q(2,3,4) request(4) assms(18) by (simp add: receive_sso_def received_with_relay_state_def received_new_def)
qed

section \<open>The sample request\<close>

definition request_written :: written where
  "request_written =
     WrittenParent ''samlp:AuthnRequest'' ([(''xmlns:samlp'', NS_PROTOCOL), (''xmlns:saml'', NS_ASSERTION)] @ request_attrs)
       [WrittenText ''saml:Issuer'' [] ''sp'', WrittenEmpty ''samlp:NameIDPolicy'' [(''Format'', []), (''AllowCreate'', ''false'')]]"

lemma request_written_events: "written_events request_written = request_events"
  by (simp add: request_written_def request_events_def)

lemma request_readable: "readable exchange_ext xml_limits_default request_written"
proof -
  have "length request_text \<le> 1048576" by (simp add: request_text_def)
  moreover have "written_fits xml_limits_default 1024 request_written" "written_size request_written \<le> 50000"
    by (simp_all add: request_written_def attrs_fit_def xml_limits_default_def request_attrs_def)
  ultimately show ?thesis
    using reads_as_steps [of exchange_ext request_events]
    by (simp add: readable_def request_written_events reads_written_def limits_ok_def)
      (simp add: xml_limits_default_def usize_max_def)
qed

lemma start_entity: "sp_entity_text start_sp = ''sp''"
  by (simp add: sp_entity_text_def entity_id_text_def start_sp_def entity_setting_default_def get_entity_id_def sp_model_def
      sp_value_def get_str_def get_path_def str_or_empty_def)

text \<open>The sample service provider and the peer with the HTTP-POST binding.\<close>

definition post_options :: start_sso_options where
  "post_options = start_options\<lparr>so_binding := RequestPost\<rparr>"

definition post_receiver :: saml_idp where
  "post_receiver = \<lparr>sf_identity_provider = \<lparr>idr_setting = entity_setting_default, idr_metadata = IdpMetadata post_model\<rparr>,
     sf_issuance_lifetime = ns_per_sec\<rparr>"

lemma posting:
  "so_relay_state post_options = Absent" "so_response_binding post_options = Some ResponseSimpleSign" "so_acs_index post_options = None"
  "so_binding post_options = RequestPost" "so_force_authn post_options = None" "so_pending_lifetime post_options = 300 * 1000000000"
  by (simp_all add: post_options_def starting)

lemma post_idp:
  obtains raw where "raw_idp_descriptor exchange_ext post_descriptor = Inr raw" "idr_metadata raw = IdpMetadata post_model"
  by (simp add: raw_idp_descriptor_def post_descriptor_def idp_from_metadata_def post_sample_xml Let_def)

lemma post_lookups:
  "is_want_authn_requests_signed (IdpMetadata post_model) = False"
  "get_single_sign_on_service (IdpMetadata post_model) Post = Some ''sso''"
  by code_simp+

lemma post_current: "metadata_validate_at exchange_ext post_model (SysTime 0) = Inr ()"
  by (simp add: metadata_validate_at_def post_model_def exchange_time)

lemma post_started:
  "\<exists>st form. start_sso exchange_ext issue_sample (SysTime 0) start_sp post_descriptor post_options = Inr st
     \<and> outbound_post_form (st_outbound st) = Inr form
     \<and> authn_request_written (sent_authn_request exchange_ext issue_sample start_sp post_options st) = request_written
     \<and> bc_binding (into_raw_context (st_outbound st)) = Post \<and> bc_relay_state (into_raw_context (st_outbound st)) = Some ''r''"
proof -
  obtain raw where raw: "raw_idp_descriptor exchange_ext post_descriptor = Inr raw" "idr_metadata raw = IdpMetadata post_model"
    by (rule post_idp)
  obtain acs where acs: "selected_acs exchange_ext start_sp (Some ResponseSimpleSign) None = Inr acs" "acs_ep_binding acs = ResponseSimpleSign"
    "endpoint_url_str (acs_ep_url acs) = ''acs''"
    using sample_acs_endpoint
    by (auto simp: selected_acs_def starting unwrap_or_def endpoint_url_try_new_def http_url_def acs_endpoint_new_def)
  let ?lo = "\<lparr>lo_relay_state = None, lo_custom = None, lo_force_authn = None, lo_acs_index = None, lo_response_binding = Some SimpleSign\<rparr>"
  obtain xml where xml: "login_request_message exchange_ext issue_sample start_sp ''sso'' ?lo = Inr (''_u'', xml)"
    by (simp add: login_request_message_def starting unwrap_or_def sample_acs issue_sample_def generate_id_def Let_def)
  let ?c = "\<lparr>bc_id = ''_u'', bc_context = base64_encode exchange_ext xml, bc_relay_state = Some ''r'', bc_entity_endpoint = ''sso'',
      bc_binding = Post, bc_request_type = ''SAMLRequest'', bc_signature = None, bc_sig_alg = None\<rparr>"
  have c: "create_login_request_with_options exchange_ext issue_sample start_sp raw Post ?lo = Inr ?c"
    using xml
    by (simp add: create_login_request_with_options_def starting raw post_current sample_meta post_lookups sample_signing issue_sample_def)
  have b: "\<not> is_blank ''_u''" "\<not> is_blank ''idp''" by code_simp+
  obtain a form where a: "outbound_try_from exchange_ext SamlRequest ?c = Inr a" "outbound_post_form a = Inr form"
    by (auto simp: outbound_from_context_def validate_context_message_kind_def message_id_try_new_def b
        relay_state_try_new_def validate_relay_state_bytes_def reject_detached_signature_for_post_def outbound_post_form_def
        reject_partial_detached_signature_def post_form_from_context_def endpoint_url_try_new_def http_url_def MAX_RELAY_STATE_BYTES_def
        bc_try_post_form_def try_saml_post_binding_form_with_signature_def validate_post_form_action_def validate_signature_fields_def)
  have peer: "pending_validate_common Absent (EntityId ''idp'') = Inr ()" "pd_entity_id post_descriptor = EntityId ''idp''"
    using b by (simp_all add: pending_validate_common_iff post_descriptor_def)
  define p where "p = \<lparr>pe_id = ob_id a, pe_relay_state = Absent, pe_details = \<lparr>pd_request_binding = Some RequestPost,
         pd_response_binding = ResponseSimpleSign, pd_acs = acs\<rparr>, pe_peer_entity_id = EntityId ''idp'',
       pe_issued_at = None, pe_expires_at = None\<rparr>"
  have "pe_expires_at p = None" by (simp add: p_def)
  from sample_lifetime [OF this] obtain q where q: "with_local_lifetime exchange_ext p (SysTime 0) (300 * 1000000000) = Inr q" ..
  have st: "start_sso exchange_ext issue_sample (SysTime 0) start_sp post_descriptor post_options = Inr \<lparr>st_pending = q, st_outbound = a\<rparr>"
    using acs a q
    by (simp add: start_sso_def posting raw relay_param_validate_def c pending_authn_try_new_def peer Let_def p_def
        del: outbound_try_from.simps)
  note out = outbound_try_from_Inr [OF a(1)] and q = with_local_lifetime_keeps [OF q]
  have s: "es_name_id_format (spr_setting start_sp) = []" "es_allow_create (spr_setting start_sp) = False"
    by (simp_all add: start_sp_def entity_setting_default_def)
  have "authn_request_written (sent_authn_request exchange_ext issue_sample start_sp post_options
      \<lparr>st_pending = q, st_outbound = a\<rparr>) = request_written"
    by (simp add: authn_request_written_def authn_request_attrs_def sent_authn_request_def Let_def q p_def out acs start_entity s posting
        into_raw_context_def sample_now request_written_def request_attrs_def opt_attr_def first_or_empty_def bool_str_def)
  with st a(2) out(1) show ?thesis by (auto simp: into_raw_context_def)
qed

lemma request_acceptable: "acceptable exchange_ext xml_limits_default ''samlp'' request_written"
  using request_readable ns_reads_as_steps [of "protocol_namespace ''samlp''" request_events]
  by (simp add: acceptable_def request_written_events Let_def)
    (simp add: request_text_def string_from_utf8_def utf8_error.simps byte_in_def)

lemma request_carried: "carried exchange_ext n xml_limits_default SamlRequest request_text (Some ''r'') Post"
proof -
  have "list_all b64_char ''PFE+PEkvPjxQLz48L1E+''" by code_simp
  then show ?thesis by (simp add: b64_reads_def usize_max_def) (simp add: request_text_def)
qed

lemma started_login_received_witness:
  "\<exists>st form v1 r. start_sso exchange_ext issue_sample (SysTime 0) start_sp post_descriptor post_options = Inr st
     \<and> outbound_post_form (st_outbound st) = Inr form
     \<and> receive_sso exchange_ext (\<lambda>_. Odt 0) minimal_check_and_store post_receiver sp_descriptor_sample (InPost (pf_fields form))
         (retaining_sample Map.empty) = (v1, Inr r)
     \<and> ar_id (rc_message r) = pe_id (st_pending st)"
proof -
  obtain st form where st: "start_sso exchange_ext issue_sample (SysTime 0) start_sp post_descriptor post_options = Inr st"
    "outbound_post_form (st_outbound st) = Inr form"
    "authn_request_written (sent_authn_request exchange_ext issue_sample start_sp post_options st) = request_written"
    "bc_binding (into_raw_context (st_outbound st)) = Post" "bc_relay_state (into_raw_context (st_outbound st)) = Some ''r''"
    using post_started by blast
  have brings: "brings (st_outbound st) (InPost (pf_fields form))" using st(2) by (auto simp: brings_def)
  obtain raw where raw: "raw_idp_descriptor exchange_ext post_descriptor = Inr raw" "idr_metadata raw = IdpMetadata post_model"
    by (rule post_idp)
  obtain raw_sp where raw_sp: "raw_sp_descriptor exchange_ext sp_descriptor_sample = Inr raw_sp" "spr_metadata raw_sp = SpMetadata sp_model"
    using sample_sp_provider by blast
  have issuer: "entity_id_try_new (sp_entity_text start_sp) = Inr (EntityId ''sp'')"
  proof -
    have "\<not> is_blank ''sp''" by code_simp
    then show ?thesis by (simp add: start_entity eid.try_new_Inr)
  qed
  have I: "idr_metadata (sf_identity_provider post_receiver) = IdpMetadata post_model"
    "es_xml_limits (idr_setting (sf_identity_provider post_receiver)) = xml_limits_default"
    by (simp_all add: post_receiver_def entity_setting_default_def)
  have e: "get_entity_id sp_model = Some ''sp''" by code_simp
  have arrives: "deliverable exchange_ext (idr_setting (sf_identity_provider post_receiver)) ''samlp'' SamlRequest
      (authn_request_written (sent_authn_request exchange_ext issue_sample start_sp post_options st)) (into_raw_context (st_outbound st))"
    using request_acceptable request_carried by (simp add: deliverable_def st(3-5) I request_written_events)
  obtain t where "message_replay_expires_at (retaining_sample Map.empty) = Inr t" using message_deadline by blast
  then obtain v1 where v1: "check_and_store_message_replay minimal_check_and_store (retaining_sample Map.empty)
      (AuthnRequestId (pe_id (st_pending st))) = (v1, Inr ())"
    by (auto simp: check_and_store_message_replay_def store_in_context_def retaining_sample minimal_check_and_store_def Let_def)
  from started_login_received [OF st(1) brings starting(3) _ raw(1) _ raw_sp(1) _ _ _ issuer _ _ arrives _ sample_civil _ v1,
      of "\<lambda>_. Odt 0"]
  show ?thesis
    using st(1,2) by (auto simp: starting sample_signing raw(2) I raw_sp(2) post_lookups e start_entity post_current sample_meta
        retaining_sample posting http_url_def)
qed

end
