(* ===== verification/Logout_Received.thy ===== *)
theory Logout_Received
  imports Login_Received
begin

text \<open>
  A started logout arrives: what a service provider sends to end a session (\<open>src/src/api/slo.rs\<close>,
  \<open>src/src/logout/\<close>) is what its identity provider accepts, with the subject it was started for.
\<close>

section \<open>The LogoutRequest of the default renderer\<close>

text \<open>Names with the configured prefixes.\<close>

lemma prefixed_name:
  assumes "CHR '':'' \<notin> set p"
  shows "local_part (p @ CHR '':'' # n) = n" "takeWhile (\<lambda>c. c \<noteq> CHR '':'') (p @ CHR '':'' # n) = p"
proof -
  have "takeWhile (\<lambda>c. c \<noteq> CHR '':'') (p @ CHR '':'' # n) = p \<and> dropWhile (\<lambda>c. c \<noteq> CHR '':'') (p @ CHR '':'' # n) = CHR '':'' # n"
    using assms by (induction p) auto
  then show "local_part (p @ CHR '':'' # n) = n" "takeWhile (\<lambda>c. c \<noteq> CHR '':'') (p @ CHR '':'' # n) = p"
    by (simp_all add: local_part_def)
qed

lemma prefixed_namespace:
  assumes "CHR '':'' \<notin> set q"
  shows "protocol_namespace p (q @ CHR '':'' # n) = Bound (if q = p then NS_PROTOCOL else NS_ASSERTION)"
  by (simp add: protocol_namespace_def prefixed_name(2) [OF assms])

lemma prefix_no_colon: "validate_tag_prefix name p = Inr () \<Longrightarrow> CHR '':'' \<notin> set p"
  by (auto simp: validate_tag_prefix_def list_ex_iff split: if_splits)

definition logout_request_attrs :: "string \<Rightarrow> string \<Rightarrow> string \<Rightarrow> logout_request_time \<Rightarrow> string \<Rightarrow> (string \<times> string) list" where
  "logout_request_attrs p a i timing destination =
     [(''xmlns:'' @ p, NS_PROTOCOL), (''xmlns:'' @ a, NS_ASSERTION), (''ID'', i), (''Version'', ''2.0''),
      (''IssueInstant'', lrt_issue_instant timing), (''Destination'', destination)]
     @ opt_attr ''NotOnOrAfter'' (lrt_not_on_or_after timing)"

definition logout_request_written :: "string \<Rightarrow> string \<Rightarrow> string \<Rightarrow> logout_request_time \<Rightarrow> string \<Rightarrow> string \<Rightarrow> string \<Rightarrow>
    logout_request_subject \<Rightarrow> written" where
  "logout_request_written p a i timing destination issuer name_id_format subj =
     WrittenParent (p @ '':LogoutRequest'') (logout_request_attrs p a i timing destination)
       (WrittenText (a @ '':Issuer'') [] issuer # WrittenText (a @ '':NameID'') [(''Format'', name_id_format)] (lrs_name_id subj)
        # map (WrittenText (p @ '':SessionIndex'') []) (lrs_session_indexes subj))"

lemma foldl_write:
  "foldl (\<lambda>w s. write_text_element n [] s w) w ss = w @ concat (map written_events (map (WrittenText n []) ss))"
  by (induction ss arbitrary: w) (simp_all add: writer_defs)

lemma logout_request_rendered:
  assumes "render_default_logout_request E setting meta i timing destination subj f = Inr xml"
  shows "xml = xml_write E (written_events (logout_request_written (es_tag_prefix_protocol setting) (es_tag_prefix_assertion setting)
      i timing destination (issuer_of setting meta) f subj))"
    "CHR '':'' \<notin> set (es_tag_prefix_protocol setting)" "CHR '':'' \<notin> set (es_tag_prefix_assertion setting)"
proof -
  have p: "validate_tag_prefix ''protocol'' (es_tag_prefix_protocol setting) = Inr ()"
    "validate_tag_prefix ''assertion'' (es_tag_prefix_assertion setting) = Inr ()"
    using assms by (auto simp: render_default_logout_request_def Let_def rbind_Inr_iff)
  show "CHR '':'' \<notin> set (es_tag_prefix_protocol setting)" "CHR '':'' \<notin> set (es_tag_prefix_assertion setting)"
    using p prefix_no_colon by blast+
  show "xml = xml_write E (written_events (logout_request_written (es_tag_prefix_protocol setting) (es_tag_prefix_assertion setting)
      i timing destination (issuer_of setting meta) f subj))"
    using assms p
    by (simp add: render_default_logout_request_def Let_def foldl_write)
      (simp add: logout_request_written_def logout_request_attrs_def writer_defs writer_finish_def)
qed

lemma logout_attr_values:
  assumes "attrs m = plain_attrs (logout_request_attrs p a i timing destination)"
  shows "node_attr m ''ID'' = Some i" "node_attr m ''IssueInstant'' = Some (lrt_issue_instant timing)"
    "node_attr m ''Destination'' = Some destination" "node_attr m ''NotOnOrAfter'' = lrt_not_on_or_after timing"
    "node_attr m ''Version'' = Some ''2.0''"
  unfolding node_attr_def assms logout_request_attrs_def
  by (cases "lrt_not_on_or_after timing"; simp add: plain_attrs_def names_namespace_def opt_attr_def)+

lemma session_nodes:
  assumes "list_all2 node_of_written (map (WrittenText (p @ '':SessionIndex'') []) ss) ns" "CHR '':'' \<notin> set p"
  shows "map node_text ns = ss" "\<forall>n \<in> set ns. local_name n = ''SessionIndex''"
  using assms(1)
  by (induction ss arbitrary: ns) (auto simp: list_all2_Cons1 prefixed_name(1) [OF assms(2)])

lemma logout_camel: "camel_case ''NotOnOrAfter'' = ''notOnOrAfter''"
  by code_simp

lemma logout_request_extracted:
  assumes "readable E L (logout_request_written p a i timing destination issuer f subj)" "CHR '':'' \<notin> set p" "CHR '':'' \<notin> set a"
  shows "\<exists>ex v. extract_with_limits E (xml_write E (written_events (logout_request_written p a i timing destination issuer f subj)))
        logout_request_fields L = Inr ex
     \<and> get_str ex ''request.id'' = Some i \<and> get_str ex ''request.issueInstant'' = Some (lrt_issue_instant timing)
     \<and> get_str ex ''request.destination'' = Some destination
     \<and> get_str ex ''request.notOnOrAfter'' = lrt_not_on_or_after timing
     \<and> get_str ex ''issuer'' = Some issuer \<and> get_str ex ''nameID'' = Some (lrs_name_id subj)
     \<and> get_path ex ''sessionIndex'' = Some v \<and> value_strings v = lrs_session_indexes subj"
proof -
  let ?el = "logout_request_written p a i timing destination issuer f subj"
  obtain m where m: "parse_with_limits E (xml_write E (written_events ?el)) L = Inr m" "node_of_written ?el m"
    by (rule readable_parses [OF assms(1)])
  note lp = prefixed_name(1) [OF assms(2)] prefixed_name(1) [OF assms(3)]
  obtain iss nid sis where c: "children m = iss # nid # sis" "local_name m = ''LogoutRequest''"
    "attrs m = plain_attrs (logout_request_attrs p a i timing destination)"
    "local_name iss = ''Issuer''" "node_text iss = issuer" "local_name nid = ''NameID''" "node_text nid = lrs_name_id subj"
    and sis: "list_all2 node_of_written (map (WrittenText (p @ '':SessionIndex'') []) (lrs_session_indexes subj)) sis"
    using m(2) by (auto simp: logout_request_written_def lp list_all2_Cons1)
  note s = session_nodes [OF sis assms(2)]
  have f: "filter (\<lambda>n. local_name n = ''SessionIndex'') sis = sis" "filter (\<lambda>n. local_name n = ''Issuer'') sis = []"
    "filter (\<lambda>n. local_name n = ''NameID'') sis = []" "filter (\<lambda>n. local_name n = ''Signature'') sis = []"
    using s(2) by (simp_all add: filter_id_conv filter_empty_conv)
  have plain: "\<forall>f \<in> set logout_request_fields. f_shortcut f = None"
    by (simp add: logout_request_fields_def field_simps)
  note x = extract_plain [OF m(1) plain]
  note v = logout_attr_values [OF c(3)]
  let ?v = "case sis of [] \<Rightarrow> VNull | [n] \<Rightarrow> VStr (node_text n) | _ \<Rightarrow> VArray (map (\<lambda>n. VStr (node_text n)) sis)"
  have strs: "some_values as_str (map (\<lambda>n. VStr (node_text n)) ns) = map node_text ns" for ns
    by (induction ns) simp_all
  have vs: "value_strings ?v = lrs_session_indexes subj"
    using s(1) strs [of sis] by (auto simp: split: list.splits)
  show ?thesis
    unfolding x
    by (cases "lrt_not_on_or_after timing")
      (simp_all add: logout_request_fields_def field_simps extract_field_def seg_matches_def strip_prefix_def c(1,2,4-7) f
        select_step_def one_or_array_def attr_object_def v request_camel logout_camel get_str_def get_path_def vs)
qed

section \<open>The profile and the typed view\<close>

text \<open>Any number of session indexes passes.\<close>

lemma profile_session_indexes:
  assumes "CHR '':'' \<notin> set p" "root = new_name ''LogoutRequest'' NkProtocol"
    "ns_reads_as (protocol_namespace p) (concat (map written_events (map (WrittenText (p @ '':SessionIndex'') []) ss)) @ w) steps"
  shows "\<exists>rest. ns_reads_as (protocol_namespace p) w rest
     \<and> profile_loop LogoutRequest [root] True steps = profile_loop LogoutRequest [root] True rest"
  using assms(3)
proof (induction ss arbitrary: steps)
  case (Cons x ss)
  note lp = prefixed_name(1) [OF assms(1)]
  from Cons.prems obtain as ps rest where steps: "steps = NsEvent (Bound NS_PROTOCOL) (NsStart ''SessionIndex'' as) # ps
        @ NsEvent (Bound NS_PROTOCOL) NsEnd # rest"
    and ps: "list_all (\<lambda>p. p = NsEvent Unbound NsOther) ps"
    and rest: "ns_reads_as (protocol_namespace p) (concat (map written_events (map (WrittenText (p @ '':SessionIndex'') []) ss)) @ w) rest"
    by (auto simp: ns_reads lp prefixed_namespace [OF assms(1)])
  have "profile_loop LogoutRequest [root] True steps = profile_loop LogoutRequest [root] True rest"
    by (simp add: steps profile_others [OF ps] enter_element_def note_use_condition_def note_conditions_def validate_element_def
        name_is_def new_name_def expected_child_namespace_def protocol_child_namespace_def validate_element_attributes_def
        consumed_attributes_def Let_def assms(2))
  with Cons.IH [OF rest] show ?case by simp
qed auto

lemma logout_request_profile:
  assumes "acceptable E L p (logout_request_written p a i timing destination issuer f subj)" "CHR '':'' \<notin> set p" "CHR '':'' \<notin> set a"
    "p \<noteq> a" "parse_saml_utc_date_time (lrt_issue_instant timing) = Some t"
    "\<forall>x. lrt_not_on_or_after timing = Some x \<longrightarrow> parse_saml_utc_date_time x \<noteq> None"
  shows "validate_protocol_profile E (xml_write E (written_events (logout_request_written p a i timing destination issuer f subj)))
     LogoutRequest L = Inr ()"
proof -
  let ?el = "logout_request_written p a i timing destination issuer f subj"
  let ?xml = "xml_write E (written_events ?el)" and ?attrs = "logout_request_attrs p a i timing destination"
  let ?sis = "concat (map written_events (map (WrittenText (p @ '':SessionIndex'') []) (lrs_session_indexes subj)))"
  note lp = prefixed_name(1) [OF assms(2)] prefixed_name(1) [OF assms(3)] prefixed_namespace [OF assms(2)] prefixed_namespace [OF assms(3)]
  have steps: "ns_reads_as (protocol_namespace p) (written_events ?el) (ns_read E (max_attributes_per_element L) ?xml)"
    "check_input_bytes L (length ?xml) = Inr ()"
    using assms(1) by (simp_all add: acceptable_def Let_def readable_def check_input_bytes_def)
  obtain as bs cs ps qs rest where shape: "ns_read E (max_attributes_per_element L) ?xml =
      NsEvent (Bound NS_PROTOCOL) (NsStart ''LogoutRequest'' as) # NsEvent (Bound NS_ASSERTION) (NsStart ''Issuer'' bs) # ps
      @ NsEvent (Bound NS_ASSERTION) NsEnd # NsEvent (Bound NS_ASSERTION) (NsStart ''NameID'' cs) # qs
      @ NsEvent (Bound NS_ASSERTION) NsEnd # rest"
    and as: "list_all2 ns_attr_of ?attrs as" "list_all (\<lambda>p. p = NsEvent Unbound NsOther) ps"
      "list_all (\<lambda>p. p = NsEvent Unbound NsOther) qs" "list_all2 ns_attr_of [(''Format'', f)] cs"
    and rest: "ns_reads_as (protocol_namespace p) (?sis @ [WEnd (p @ '':LogoutRequest'')]) rest"
    using steps(1) assms(4) by (auto simp: logout_request_written_def ns_reads lp)
  obtain rest' where rest': "ns_reads_as (protocol_namespace p) [WEnd (p @ '':LogoutRequest'')] rest'"
    "profile_loop LogoutRequest [new_name ''LogoutRequest'' NkProtocol] True rest
      = profile_loop LogoutRequest [new_name ''LogoutRequest'' NkProtocol] True rest'"
    using profile_session_indexes [OF assms(2) refl rest] by blast
  have binds: "prefixes_bind ?attrs"
    by (simp add: prefixes_bind_def logout_request_attrs_def names_namespace_def opt_attr_def split: option.splits)
  have vals: "map_of (plain_attrs ?attrs) ''ID'' = Some i" "map_of (plain_attrs ?attrs) ''Version'' = Some ''2.0''"
    "map_of (plain_attrs ?attrs) ''IssueInstant'' = Some (lrt_issue_instant timing)"
    "map_of (plain_attrs ?attrs) ''NotOnOrAfter'' = lrt_not_on_or_after timing"
    by (cases "lrt_not_on_or_after timing"; simp add: plain_attrs_def logout_request_attrs_def names_namespace_def opt_attr_def)+
  have root: "validate_root ''LogoutRequest'' as NkProtocol LogoutRequest = Inr ()"
    using written_root_valid [OF as(1) binds, of "lrt_issue_instant timing" LogoutRequest] vals assms(5,6) by simp
  have name: "validate_unqualified_attributes ''NameID'' cs [''Format''] [] = Inr
      (filter (\<lambda>kv. fst kv \<in> set [''Format'']) (plain_attrs [(''Format'', f)]))"
    by (rule validate_attributes_written [OF as(4)]) (simp_all add: prefixes_bind_def)
  have loop: "profile_loop LogoutRequest [new_name ''LogoutRequest'' NkProtocol] True rest = Inr ()"
    using rest' by (auto simp: ns_reads)
  then show ?thesis
    by (simp add: validate_protocol_profile_def steps(2) shape profile_others [OF as(2)] profile_others [OF as(3)] enter_element_def
        note_use_condition_def note_conditions_def validate_element_def root name_is_def new_name_def expected_child_namespace_def
        protocol_child_namespace_def validate_element_attributes_def consumed_attributes_def name Let_def)
qed

lemma logout_request_typed:
  assumes "get_str ex ''request.id'' = Some i" "get_str ex ''request.issueInstant'' = Some (now_iso8601 E t)"
    "get_str ex ''request.destination'' = Some destination" "get_str ex ''request.notOnOrAfter'' = None"
    "get_str ex ''issuer'' = Some issuer" "get_str ex ''nameID'' = Some name"
    "get_path ex ''sessionIndex'' = Some v" "value_strings v = map session_index_str sis"
    "\<forall>s \<in> set sis. session_index_try_new (session_index_str s) = Inr s"
    "civil_ok (odt_civil E t)" "message_id_try_new i = Inr mid" "entity_id_try_new issuer = Inr iss" "http_url E destination"
  shows "\<exists>q. logout_request_try_from E \<lparr>fr_saml_content = xml, fr_extract = ex, fr_sig_alg = alg\<rparr> = Inr q \<and> lq_id q = mid \<and> lq_issuer q = iss
     \<and> lq_name_id q = Some \<lparr>nid_value = name, nid_format = None\<rparr> \<and> lq_session_indexes q = sis
     \<and> lq_destination q = Some (EndpointUrl destination) \<and> lq_not_on_or_after q = None"
proof -
  have sis: "traverse session_index_try_new (map session_index_str sis) = Inr sis"
    using assms(9) by (induction sis) simp_all
  have instant: "logout_request_instant_from_extract ex ''issueInstant'' ''IssueInstant'' True = Inr (Some (SamlInstant (now_iso8601 E t)))"
    "logout_request_instant_from_extract ex ''notOnOrAfter'' ''NotOnOrAfter'' False = Inr None"
    using generated_instant [OF assms(10)] ins.try_new_Inr [of "now_iso8601 E t" "SamlInstant (now_iso8601 E t)"]
    by (simp_all add: logout_request_instant_from_extract_def assms(2,4))
  have url: "endpoint_url_try_new E destination = Inr (EndpointUrl destination)"
    using assms(13) by (simp add: url.try_new_Inr)
  show ?thesis
    using assms(11,12)
    by (simp add: logout_request_try_from_def required_str_def assms(1,3,5-8) instant sis session_indexes_from_value_def
        optional_endpoint_def url)
qed

section \<open>Starting and receiving\<close>

text \<open>An unsigned LogoutRequest of a session participant, as far as it is sent.\<close>

lemma start_slo_sends:
  assumes "start_slo_impl E env later setting local_md peer peer_md subj opts SessionParticipant = Inr st"
    "es_logout_request_template setting = None" "\<not> logout_request_signing setting (sl_signing opts)"
  obtains c where "outbound_try_from E LogoutRequest c = Inr (st_outbound st)" "pe_id (st_pending st) = MessageId (bc_id c)"
    "bc_binding c = logout_as_binding (sl_binding opts)"
    "get_single_logout_service peer_md (bc_binding c) = Some (bc_entity_endpoint c)"
    "carries_message E LogoutRequest c (xml_write E (written_events (logout_request_written (es_tag_prefix_protocol setting)
       (es_tag_prefix_assertion setting) (bc_id c) \<lparr>lrt_issue_instant = now_iso8601 E (ie_now_utc env), lrt_not_on_or_after = None\<rparr>
       (bc_entity_endpoint c) (issuer_of setting local_md) (first_or_empty (es_name_id_format setting))
       \<lparr>lrs_name_id = nid_value (ls_name_id subj), lrs_session_indexes = map session_index_str (ls_session_indexes subj)\<rparr>)))"
    "CHR '':'' \<notin> set (es_tag_prefix_protocol setting)" "CHR '':'' \<notin> set (es_tag_prefix_assertion setting)"
proof -
  obtain created p where created: "create_logout_request_with_session_indexes E env setting local_md peer_md
        (logout_as_binding (sl_binding opts)) (nid_value (ls_name_id subj)) (map session_index_str (ls_session_indexes subj))
        (relay_param_as_deref (sl_relay_state opts)) False (now_iso8601 E (ie_now_utc env)) None Compatibility = Inr created"
    and a: "outbound_try_from E LogoutRequest (cl_context created) = Inr (st_outbound st)"
    and p: "pe_id p = ob_id (st_outbound st)" "with_local_lifetime E p later (case sl_pending_lifetime opts of Some l \<Rightarrow> l | None \<Rightarrow> 300 * 1000000000)
      = Inr (st_pending st)"
  proof -
    from assms(1,3) obtain created out i where "create_logout_request_with_session_indexes E env setting local_md peer_md
          (logout_as_binding (sl_binding opts)) (nid_value (ls_name_id subj)) (map session_index_str (ls_session_indexes subj))
          (relay_param_as_deref (sl_relay_state opts)) False (now_iso8601 E (ie_now_utc env)) None Compatibility = Inr created"
      "outbound_try_from E LogoutRequest (cl_context created) = Inr out"
      "with_local_lifetime E \<lparr>pe_id = ob_id out, pe_relay_state = sl_relay_state opts, pe_details = \<lparr>pd_binding = sl_binding opts\<rparr>,
         pe_peer_entity_id = peer, pe_issued_at = Some i, pe_expires_at = None\<rparr> later (case sl_pending_lifetime opts of Some l \<Rightarrow> l | None \<Rightarrow> 300 * 1000000000) = Inr (st_pending st)"
      "st_outbound st = out"
      by (cases "sl_pending_lifetime opts")
        (auto simp: start_slo_impl_def slo_timing_def rbind_Inr_iff start_slo_lifetime_def pending_logout_try_new_def Let_def
          simp del: outbound_try_from.simps)
    then show ?thesis by (intro that [OF _ _ _]) (simp_all del: outbound_try_from.simps)
  qed
  let ?c = "cl_context created"
  from created obtain destination xml where destination: "get_single_logout_service peer_md (logout_as_binding (sl_binding opts)) = Some destination"
    and xml: "render_default_logout_request E setting local_md (message_id_or_new None env)
        \<lparr>lrt_issue_instant = now_iso8601 E (ie_now_utc env), lrt_not_on_or_after = None\<rparr> destination
        \<lparr>lrs_name_id = nid_value (ls_name_id subj), lrs_session_indexes = map session_index_str (ls_session_indexes subj)\<rparr>
        (first_or_empty (es_name_id_format setting)) = Inr xml"
    and ctx: "unsigned_context E (logout_as_binding (sl_binding opts)) xml destination LogoutRequest (relay_param_as_deref (sl_relay_state opts))
        = Inr (bc_context ?c)"
    and c: "bc_id ?c = message_id_or_new None env" "bc_relay_state ?c = relay_param_as_deref (sl_relay_state opts)"
      "bc_entity_endpoint ?c = destination" "bc_binding ?c = logout_as_binding (sl_binding opts)" "bc_signature ?c = None"
    using assms(2)
    by (auto simp: create_logout_request_with_session_indexes_def create_logout_request_for_subject_inner_def rbind_Inr_iff
        ok_or_Inr_iff rmap_Inr_iff logout_request_text_def logout_request_expectation_def logout_context_def Let_def)
  have "logout_as_binding (sl_binding opts) \<noteq> SimpleSign"
    using a c(4,5)
    by (auto simp: outbound_from_context_def rbind_Inr_iff require_complete_detached_signature_def reject_partial_detached_signature_def
        split: if_splits)
  then have carries: "carries_message E LogoutRequest ?c xml"
    using ctx c(2-4) by (cases "sl_binding opts") (auto simp: unsigned_context_def carries_message_def)
  note r = logout_request_rendered [OF xml]
  have i: "pe_id (st_pending st) = MessageId (bc_id ?c)"
    using with_local_lifetime_keeps(1) [OF p(2)] p(1) outbound_try_from_Inr(2) [OF a] by simp
  show ?thesis
    by (rule that [OF a i c(4)]) (use destination c carries r in simp_all)
qed

text \<open>The checks of the receiver on a request that is what it seems.\<close>

lemma receive_slo_impl_Inr:
  assumes "metadata_validate_at E local_md (vc_now v) = Inr ()" "metadata_validate_at E peer_md (vc_now v) = Inr ()"
    "relay_state_from_input E input = Inr relay" "input_binding input = logout_as_binding b"
    "http_request_for E LogoutRequest input = Inr request"
    "flow E clk (logout_flow_options setting peer_md (logout_as_binding b) LogoutRequest (es_want_logout_request_signed setting)
       (Some (vc_now v)) (as_millis (vc_clock_skew v)) None) request = Inr fr"
    "now_offset E v = Inr now" "get_str (fr_extract fr) ''request.notOnOrAfter'' = None"
    "logout_request_try_from E fr = Inr q" "lq_destination q = Some d"
    "get_single_logout_service local_md (logout_as_binding b) = Some (endpoint_url_str d)"
    "check_and_store_message_replay_until cas v (LogoutRequestId (lq_id q)) None = (v1, Inr ())"
  shows "receive_slo_impl E clk cas setting local_md peer_md input v = (v1, Inr (received_with_relay_state relay (received_new q)))"
proof -
  have "Browser.logout_try_from (logout_as_binding b) = Inr b" by (cases b) simp_all
  then have "receive_slo_request E clk setting local_md peer_md input v = Inr (relay, q, None)"
    using assms(1-11)
    by (simp add: receive_slo_request_def parse_logout_request_at_def parse_logout_request_inner_def unwrap_or_def
        logout_request_not_on_or_after_deadline_def ensure_logout_destination_def
        del: relay_state_from_input.simps http_request_for.simps)
  with assms(12) show ?thesis by (simp add: receive_slo_impl_def)
qed

text \<open>The flow on a delivered, unsigned LogoutRequest, and the typed view of the result.\<close>

lemma logout_request_flow:
  assumes "acceptable E (es_xml_limits s) p el" "xml = xml_write E (written_events el)"
    "el = logout_request_written p a i \<lparr>lrt_issue_instant = now_iso8601 E t, lrt_not_on_or_after = None\<rparr> d iss f
       \<lparr>lrs_name_id = name, lrs_session_indexes = map session_index_str sis\<rparr>"
    "opts = logout_flow_options s meta b LogoutRequest (es_want_logout_request_signed s) (Some n) drifts None"
    "CHR '':'' \<notin> set p" "CHR '':'' \<notin> set a" "p \<noteq> a" "civil_ok (odt_civil E t)" "get_entity_id meta = Some iss"
    "\<not> es_want_logout_request_signed s" "offset_datetime_from_system_time E n = Inr now"
    "decode_message E b LogoutRequest http (es_redirect_inflate_max_bytes s) (es_xml_limits s) = Inr xml"
    "\<forall>s \<in> set sis. session_index_try_new (session_index_str s) = Inr s"
    "message_id_try_new i = Inr mid" "entity_id_try_new iss = Inr issuer" "http_url E d"
  obtains fr q where "flow E clk opts http = Inr fr" "get_str (fr_extract fr) ''request.notOnOrAfter'' = None"
    "logout_request_try_from E fr = Inr q" "lq_id q = mid" "lq_issuer q = issuer"
    "lq_name_id q = Some \<lparr>nid_value = name, nid_format = None\<rparr>" "lq_session_indexes q = sis" "lq_destination q = Some (EndpointUrl d)"
proof -
  have readable: "readable E (es_xml_limits s) el" using assms(1) by (simp add: acceptable_def Let_def)
  obtain ex v where ex: "extract_with_limits E xml logout_request_fields (es_xml_limits s) = Inr ex"
    "get_str ex ''request.id'' = Some i" "get_str ex ''request.issueInstant'' = Some (now_iso8601 E t)"
    "get_str ex ''request.destination'' = Some d" "get_str ex ''request.notOnOrAfter'' = None"
    "get_str ex ''issuer'' = Some iss" "get_str ex ''nameID'' = Some name"
    "get_path ex ''sessionIndex'' = Some v" "value_strings v = map session_index_str sis"
    using logout_request_extracted [OF readable [unfolded assms(3)] assms(5,6)] by (auto simp: assms(2,3))
  have o: "fo_binding opts = Some b" "fo_parser_type opts = Some LogoutRequest" "fo_xml_limits opts = es_xml_limits s"
    "fo_redirect_inflate_max_bytes opts = es_redirect_inflate_max_bytes s" "\<not> fo_check_signature opts"
    "fo_from_issuer opts = Some iss" "fo_now opts = Some n"
    using assms(9,10) by (simp_all add: assms(4) logout_flow_options_def)
  have profile: "validate_protocol_profile E xml LogoutRequest (es_xml_limits s) = Inr ()"
    unfolding assms(2,3)
    by (rule logout_request_profile [OF assms(1) [unfolded assms(3)] assms(5-7)]) (simp_all add: generated_instant(1) [OF assms(8)])
  have clock: "validation_now E opts t = Inr now" for t
    using assms(11) by (simp add: validation_now_def o)
  have "flow E clk opts http = Inr \<lparr>fr_saml_content = xml, fr_extract = ex, fr_sig_alg = None\<rparr>"
    using profile ex(1,5,6) assms(12)
    by (intro delivered_flow [OF assms(1,2) _ o(1-3,5), where flds = logout_request_fields])
      (simp_all add: o check_status_with_limits_def default_fields_def validate_context_def clock
        logout_request_not_on_or_after_deadline_def)
  from that [OF this] show ?thesis
    using ex(5) logout_request_typed [OF ex(2-9) assms(13,8,14,15,16), of xml None] by auto
qed

text \<open>The LogoutRequest of the default renderer, in terms of what \<open>sp_start_slo\<close> returns.\<close>

definition sent_logout_request :: "('e) time_ext_scheme \<Rightarrow> issue_env \<Rightarrow> saml_sp \<Rightarrow> logout_subject \<Rightarrow>
    logout_pending_details started \<Rightarrow> written" where
  "sent_logout_request E env sp subj st =
     (let c = into_raw_context (st_outbound st) in
      logout_request_written (es_tag_prefix_protocol (spr_setting sp)) (es_tag_prefix_assertion (spr_setting sp)) (bc_id c)
        \<lparr>lrt_issue_instant = now_iso8601 E (ie_now_utc env), lrt_not_on_or_after = None\<rparr> (bc_entity_endpoint c)
        (issuer_of (spr_setting sp) (sp_inner (spr_metadata sp))) (first_or_empty (es_name_id_format (spr_setting sp)))
        \<lparr>lrs_name_id = nid_value (ls_name_id subj), lrs_session_indexes = map session_index_str (ls_session_indexes subj)\<rparr>)"

text \<open>
  C7: a started logout is accepted by the identity provider it was started for: an unsigned request of the default
  template (no LogoutRequest template configured) that the browser brings over HTTP-POST or HTTP-Redirect passes every check of an identity provider that does not require signed
  logout requests and whose metadata the service provider has, and is returned with the ID of the pending state, the
  issuer, the RelayState sent, the NameID value and all session indexes of the subject. The format of the subject's
  NameID is lost: it changes nothing that is sent, and the NameID received has none. Assumed: the document arrives
  (\<open>deliverable\<close>), both metadata are current, the clock shows a date of the common calendar, the two prefixes
  differ and the replay cache takes the identifier.
\<close>

theorem started_logout_received:
  assumes "sp_start_slo E env later sp idp subj opts = Inr st" "brings (st_outbound st) input"
    "es_logout_request_template (spr_setting sp) = None" "\<not> logout_request_signing (spr_setting sp) (sl_signing opts)"
    "raw_idp_descriptor E idp = Inr raw_idp" "idr_metadata raw_idp = idr_metadata (sf_identity_provider I)"
    "raw_sp_descriptor E spd = Inr raw_sp" "spr_metadata raw_sp = spr_metadata sp"
    "\<not> es_want_logout_request_signed (idr_setting (sf_identity_provider I))"
    "get_entity_id (sp_inner (spr_metadata sp)) = Some (issuer_of (spr_setting sp) (sp_inner (spr_metadata sp)))"
    "entity_id_try_new (issuer_of (spr_setting sp) (sp_inner (spr_metadata sp))) = Inr issuer"
    "metadata_validate_at E (idp_inner (idr_metadata raw_idp)) (vc_now v) = Inr ()"
    "metadata_validate_at E (sp_inner (spr_metadata sp)) (vc_now v) = Inr ()" "now_offset E v = Inr now"
    "deliverable E (idr_setting (sf_identity_provider I)) (es_tag_prefix_protocol (spr_setting sp)) LogoutRequest
       (sent_logout_request E env sp subj st) (into_raw_context (st_outbound st))"
    "es_tag_prefix_protocol (spr_setting sp) \<noteq> es_tag_prefix_assertion (spr_setting sp)"
    "http_url E (bc_entity_endpoint (into_raw_context (st_outbound st)))" "civil_ok (odt_civil E (ie_now_utc env))"
    "\<forall>s \<in> set (ls_session_indexes subj). session_index_try_new (session_index_str s) = Inr s"
    "check_and_store_message_replay_until cas v (LogoutRequestId (pe_id (st_pending st))) None = (v1, Inr ())"
  shows "\<exists>r. idp_receive_slo E clk cas I spd input v = (v1, Inr r)
     \<and> lq_id (rc_message r) = pe_id (st_pending st) \<and> lq_issuer (rc_message r) = issuer
     \<and> lq_name_id (rc_message r) = Some \<lparr>nid_value = nid_value (ls_name_id subj), nid_format = None\<rparr>
     \<and> lq_session_indexes (rc_message r) = ls_session_indexes subj
     \<and> relay_param_as_deref (rc_relay_state r) = map_option relay_state_str (ob_relay_state (st_outbound st))
     \<and> (\<forall>f. sp_start_slo E env later sp idp (subj\<lparr>ls_name_id := (ls_name_id subj)\<lparr>nid_format := f\<rparr>\<rparr>) opts = Inr st)"
proof -
  let ?sp = "spr_setting sp" and ?I = "idr_setting (sf_identity_provider I)" and ?b = "logout_as_binding (sl_binding opts)"
  let ?subj = "\<lparr>lrs_name_id = nid_value (ls_name_id subj), lrs_session_indexes = map session_index_str (ls_session_indexes subj)\<rparr>"
  from assms(1,5) have start: "start_slo_impl E env later ?sp (sp_inner (spr_metadata sp)) (pd_entity_id idp)
      (idp_inner (idr_metadata raw_idp)) subj opts SessionParticipant = Inr st"
    by (simp add: sp_start_slo_def)
  obtain c where a: "outbound_try_from E LogoutRequest c = Inr (st_outbound st)" and i: "pe_id (st_pending st) = MessageId (bc_id c)"
    and b: "bc_binding c = ?b" and slo: "get_single_logout_service (idp_inner (idr_metadata raw_idp)) (bc_binding c) = Some (bc_entity_endpoint c)"
    and carries: "carries_message E LogoutRequest c (xml_write E (written_events (logout_request_written (es_tag_prefix_protocol ?sp)
       (es_tag_prefix_assertion ?sp) (bc_id c) \<lparr>lrt_issue_instant = now_iso8601 E (ie_now_utc env), lrt_not_on_or_after = None\<rparr>
       (bc_entity_endpoint c) (issuer_of ?sp (sp_inner (spr_metadata sp))) (first_or_empty (es_name_id_format ?sp)) ?subj)))"
    and prefixes: "CHR '':'' \<notin> set (es_tag_prefix_protocol ?sp)" "CHR '':'' \<notin> set (es_tag_prefix_assertion ?sp)"
    by (rule start_slo_sends [OF start assms(3,4)])
  have ctx: "into_raw_context (st_outbound st) = c" using outbound_try_from_Inr(1) [OF a] by (simp add: into_raw_context_def)
  define el where "el = sent_logout_request E env sp subj st"
  note el = el_def [unfolded sent_logout_request_def Let_def ctx]
  define xml where "xml = xml_write E (written_events el)"
  note arrives = assms(15) [folded el_def, unfolded ctx]
  have acceptable: "acceptable E (es_xml_limits ?I) (es_tag_prefix_protocol ?sp) el"
    using arrives by (simp add: deliverable_def)
  obtain request relay where request: "http_request_for E LogoutRequest input = Inr request" "input_binding input = ?b"
      "relay_state_from_input E input = Inr relay" "relay_param_as_deref relay = bc_relay_state c"
      "decode_message E ?b LogoutRequest request (es_redirect_inflate_max_bytes ?I) (es_xml_limits ?I) = Inr xml"
    by (rule delivered_decodes [OF a carries [folded el] arrives assms(2), folded xml_def, unfolded b])
  have mid: "message_id_try_new (bc_id c) = Inr (MessageId (bc_id c))"
    using a by (auto simp: outbound_from_context_def rbind_Inr_iff mid.try_new_Inr)
  have peer: "get_entity_id (sp_inner (spr_metadata raw_sp)) = Some (issuer_of ?sp (sp_inner (spr_metadata sp)))"
    using assms(8,10) by simp
  obtain fr q where flow: "flow E clk (logout_flow_options ?I (sp_inner (spr_metadata raw_sp)) ?b LogoutRequest
        (es_want_logout_request_signed ?I) (Some (vc_now v)) (as_millis (vc_clock_skew v)) None) request = Inr fr"
      "get_str (fr_extract fr) ''request.notOnOrAfter'' = None"
    and q: "logout_request_try_from E fr = Inr q" "lq_id q = MessageId (bc_id c)" "lq_issuer q = issuer"
      "lq_name_id q = Some \<lparr>nid_value = nid_value (ls_name_id subj), nid_format = None\<rparr>"
      "lq_session_indexes q = ls_session_indexes subj" "lq_destination q = Some (EndpointUrl (bc_entity_endpoint c))"
    by (rule logout_request_flow [OF acceptable xml_def el refl prefixes assms(16,18) peer assms(9) assms(14) [unfolded now_offset_def]
          request(5) assms(19) mid assms(11) assms(17) [unfolded ctx]])
  from receive_slo_impl_Inr [OF _ _ request(3,2,1) flow(1) assms(14) flow(2) q(1,6), of "idp_inner (idr_metadata (sf_identity_provider I))" cas v1]
  have "idp_receive_slo E clk cas I spd input v = (v1, Inr (received_with_relay_state relay (received_new q)))"
    using slo b assms(6,7,8,12,13,20) i q(2) by (simp add: idp_receive_slo_def)
  moreover have "sp_start_slo E env later sp idp (subj\<lparr>ls_name_id := (ls_name_id subj)\<lparr>nid_format := f\<rparr>\<rparr>) opts = Inr st" for f
    using assms(1) by (simp add: sp_start_slo_def start_slo_impl_def)
  ultimately show ?thesis
    using q i request(4) outbound_try_from_Inr(4) [OF a] by (simp add: received_with_relay_state_def received_new_def)
qed

section \<open>The sample logout\<close>

definition logout_options :: start_slo_options where
  "logout_options = (start_slo_new LogoutPost)\<lparr>sl_signing := DoNotSignForCompatibility\<rparr>"

definition leaving :: logout_subject where
  "leaving = \<lparr>ls_name_id = \<lparr>nid_value = ''user'', nid_format = Some Persistent\<rparr>,
     ls_session_indexes = [SessionIndex ''s1'', SessionIndex ''s2'']\<rparr>"

definition logout_written :: written where
  "logout_written = logout_request_written ''samlp'' ''saml'' ''_u'' \<lparr>lrt_issue_instant = ''2024-01-01T00:00:00Z'', lrt_not_on_or_after = None\<rparr>
     ''slo'' ''sp'' [] \<lparr>lrs_name_id = ''user'', lrs_session_indexes = [''s1'', ''s2'']\<rparr>"

lemma logout_written_events: "written_events logout_written = logout_events"
  by (simp add: logout_written_def logout_request_written_def logout_request_attrs_def opt_attr_def logout_events_def logout_attrs_def)

lemma logout_not_request: "logout_events \<noteq> request_events"
  by (simp add: logout_events_def request_events_def)

lemma logout_acceptable: "acceptable exchange_ext xml_limits_default ''samlp'' logout_written"
proof -
  have "length logout_text \<le> 1048576" by (simp add: logout_text_def)
  moreover have "written_fits xml_limits_default 1024 logout_written" "written_size logout_written \<le> 50000"
    by (simp_all add: logout_written_def logout_request_written_def attrs_fit_def xml_limits_default_def logout_request_attrs_def opt_attr_def)
  ultimately have "readable exchange_ext xml_limits_default logout_written"
    using reads_as_steps [of exchange_ext logout_events]
    by (simp add: readable_def logout_written_events reads_written_def limits_ok_def logout_not_request)
      (simp add: xml_limits_default_def usize_max_def)
  then show ?thesis
    using ns_reads_as_steps [of "protocol_namespace ''samlp''" logout_events]
    by (simp add: acceptable_def logout_written_events Let_def logout_not_request)
      (simp add: logout_text_def string_from_utf8_def utf8_error.simps byte_in_def)
qed

lemma logout_carried: "carried exchange_ext n xml_limits_default LogoutRequest logout_text r Post"
proof -
  have "list_all b64_char ''PEw+PEkvPjxOLz48L0w+''" by code_simp
  then show ?thesis by (simp add: b64_reads_def usize_max_def) (simp add: logout_text_def)
qed

text \<open>The peer of the sample, without the requirement that logout requests are signed.\<close>

definition logout_receiver :: saml_idp where
  "logout_receiver = \<lparr>sf_identity_provider = \<lparr>idr_setting = entity_setting_default\<lparr>es_want_logout_request_signed := False\<rparr>,
     idr_metadata = IdpMetadata post_model\<rparr>, sf_issuance_lifetime = ns_per_sec\<rparr>"

lemma leaving_facts:
  "sl_relay_state logout_options = Absent" "sl_binding logout_options = LogoutPost" "sl_pending_lifetime logout_options = None"
  "\<not> logout_request_signing s (sl_signing logout_options)" "es_logout_request_template (spr_setting start_sp) = None"
  "es_tag_prefix_protocol (spr_setting start_sp) = ''samlp''" "es_tag_prefix_assertion (spr_setting start_sp) = ''saml''"
  "es_name_id_format (spr_setting start_sp) = []" "get_single_logout_service post_model Post = Some ''slo''"
  "issuer_of (spr_setting start_sp) sp_model = ''sp''" "pd_entity_id post_descriptor = EntityId ''idp''"
  by (simp_all add: logout_options_def start_slo_new_def logout_request_signing_def start_sp_def entity_setting_default_def issuer_of_def
      post_descriptor_def) (code_simp+)

lemma logout_started:
  "\<exists>st form. sp_start_slo exchange_ext issue_sample (SysTime 0) start_sp post_descriptor leaving logout_options = Inr st
     \<and> outbound_post_form (st_outbound st) = Inr form
     \<and> sent_logout_request exchange_ext issue_sample start_sp leaving st = logout_written
     \<and> bc_binding (into_raw_context (st_outbound st)) = Post \<and> bc_relay_state (into_raw_context (st_outbound st)) = None"
proof -
  obtain raw where raw: "raw_idp_descriptor exchange_ext post_descriptor = Inr raw" "idr_metadata raw = IdpMetadata post_model"
    by (rule post_idp)
  let ?c = "\<lparr>bc_id = ''_u'', bc_context = base64_encode exchange_ext logout_text, bc_relay_state = None, bc_entity_endpoint = ''slo'',
      bc_binding = Post, bc_request_type = ''SAMLRequest'', bc_signature = None, bc_sig_alg = None\<rparr>"
  let ?now = "''2024-01-01T00:00:00Z''"
  have valid: "validate_tag_prefix ''protocol'' ''samlp'' = Inr ()" "validate_tag_prefix ''assertion'' ''saml'' = Inr ()"
    by code_simp+
  obtain xml where "render_default_logout_request exchange_ext (spr_setting start_sp) sp_model ''_u''
      \<lparr>lrt_issue_instant = ?now, lrt_not_on_or_after = None\<rparr> ''slo'' \<lparr>lrs_name_id = ''user'', lrs_session_indexes = [''s1'', ''s2'']\<rparr> [] = Inr xml"
    using valid by (simp add: render_default_logout_request_def leaving_facts Let_def)
  with logout_request_rendered(1) [OF this] have xml: "render_default_logout_request exchange_ext (spr_setting start_sp) sp_model ''_u''
      \<lparr>lrt_issue_instant = ?now, lrt_not_on_or_after = None\<rparr> ''slo'' \<lparr>lrs_name_id = ''user'', lrs_session_indexes = [''s1'', ''s2'']\<rparr> []
      = Inr logout_text"
    by (simp add: leaving_facts logout_written_events logout_not_request flip: logout_written_def)
  have c: "create_logout_request_with_session_indexes exchange_ext issue_sample (spr_setting start_sp) sp_model post_model Post
      ''user'' [''s1'', ''s2''] None False ?now None Compatibility = Inr \<lparr>cl_context = ?c, cl_issue_instant = ?now, cl_not_on_or_after = None\<rparr>"
    using xml
    by (simp add: create_logout_request_with_session_indexes_def create_logout_request_for_subject_inner_def sample_meta post_current
        leaving_facts issue_sample_def message_id_or_new_def generate_id_def Let_def logout_request_text_def first_or_empty_def
        logout_request_expectation_def logout_context_def unsigned_context_def)
  have b: "\<not> is_blank ''_u''" "\<not> is_blank ''idp''" "\<not> is_blank ?now" by code_simp+
  obtain a form where a: "outbound_try_from exchange_ext LogoutRequest ?c = Inr a" "outbound_post_form a = Inr form"
    by (auto simp: outbound_from_context_def validate_context_message_kind_def message_id_try_new_def b
        relay_state_try_new_def validate_relay_state_bytes_def reject_detached_signature_for_post_def outbound_post_form_def
        reject_partial_detached_signature_def post_form_from_context_def endpoint_url_try_new_def http_url_def MAX_RELAY_STATE_BYTES_def
        bc_try_post_form_def try_saml_post_binding_form_with_signature_def validate_post_form_action_def validate_signature_fields_def)
  have "parse_saml_utc_date_time ?now = Some ?now" by code_simp
  then have issued: "saml_instant_try_new ?now = Inr (SamlInstant ?now)"
    using b by (simp add: saml_instant_try_new_def)
  have peer: "pending_validate_common Absent (EntityId ''idp'') = Inr ()"
    using b by (simp add: pending_validate_common_iff)
  define p where "p = \<lparr>pe_id = ob_id a, pe_relay_state = Absent, pe_details = \<lparr>pd_binding = LogoutPost\<rparr>,
       pe_peer_entity_id = EntityId ''idp'', pe_issued_at = Some (SamlInstant ?now), pe_expires_at = None\<rparr>"
  have "pe_expires_at p = None" by (simp add: p_def)
  from sample_lifetime [OF this] obtain q where q: "with_local_lifetime exchange_ext p (SysTime 0) (300 * 1000000000) = Inr q" ..
  have st: "sp_start_slo exchange_ext issue_sample (SysTime 0) start_sp post_descriptor leaving logout_options
      = Inr \<lparr>st_pending = q, st_outbound = a\<rparr>"
    using a q
    by (simp add: sp_start_slo_def raw starting start_slo_impl_def leaving_facts leaving_def relay_param_validate_def slo_timing_def
        sample_now c pending_logout_try_new_def peer issued Let_def p_def start_slo_lifetime_def del: outbound_try_from.simps)
  note out = outbound_try_from_Inr [OF a(1)]
  have "sent_logout_request exchange_ext issue_sample start_sp leaving \<lparr>st_pending = q, st_outbound = a\<rparr> = logout_written"
    by (simp add: sent_logout_request_def logout_written_def leaving_def into_raw_context_def out leaving_facts starting sample_now
        first_or_empty_def Let_def)
  with st a(2) out(1) show ?thesis by (auto simp: into_raw_context_def)
qed

lemma started_logout_received_witness:
  "\<exists>st form v1 r. sp_start_slo exchange_ext issue_sample (SysTime 0) start_sp post_descriptor leaving logout_options = Inr st
     \<and> outbound_post_form (st_outbound st) = Inr form
     \<and> idp_receive_slo exchange_ext (\<lambda>_. Odt 0) minimal_check_and_store logout_receiver sp_descriptor_sample (InPost (pf_fields form))
         (retaining_sample Map.empty) = (v1, Inr r)
     \<and> lq_id (rc_message r) = pe_id (st_pending st) \<and> lq_name_id (rc_message r) = Some \<lparr>nid_value = ''user'', nid_format = None\<rparr>"
proof -
  obtain st form where st: "sp_start_slo exchange_ext issue_sample (SysTime 0) start_sp post_descriptor leaving logout_options = Inr st"
    "outbound_post_form (st_outbound st) = Inr form"
    "sent_logout_request exchange_ext issue_sample start_sp leaving st = logout_written"
    "bc_binding (into_raw_context (st_outbound st)) = Post" "bc_relay_state (into_raw_context (st_outbound st)) = None"
    using logout_started by blast
  have brings: "brings (st_outbound st) (InPost (pf_fields form))" using st(2) by (auto simp: brings_def)
  obtain raw where raw: "raw_idp_descriptor exchange_ext post_descriptor = Inr raw" "idr_metadata raw = IdpMetadata post_model"
    by (rule post_idp)
  obtain raw_sp where raw_sp: "raw_sp_descriptor exchange_ext sp_descriptor_sample = Inr raw_sp" "spr_metadata raw_sp = SpMetadata sp_model"
    using sample_sp_provider by blast
  have b: "\<not> is_blank ''sp''" "\<not> is_blank ''s1''" "\<not> is_blank ''s2''" by code_simp+
  then have issuer: "entity_id_try_new ''sp'' = Inr (EntityId ''sp'')" by (simp add: eid.try_new_Inr)
  have I: "idr_metadata (sf_identity_provider logout_receiver) = IdpMetadata post_model"
    "es_xml_limits (idr_setting (sf_identity_provider logout_receiver)) = xml_limits_default"
    "\<not> es_want_logout_request_signed (idr_setting (sf_identity_provider logout_receiver))"
    by (simp_all add: logout_receiver_def entity_setting_default_def)
  have e: "get_entity_id sp_model = Some ''sp''" by code_simp
  have arrives: "deliverable exchange_ext (idr_setting (sf_identity_provider logout_receiver)) ''samlp'' LogoutRequest
      (sent_logout_request exchange_ext issue_sample start_sp leaving st) (into_raw_context (st_outbound st))"
    using logout_acceptable logout_carried by (simp add: deliverable_def st(3-5) I logout_written_events logout_not_request)
  obtain t where "message_replay_expires_at (retaining_sample Map.empty) = Inr t" using message_deadline by blast
  then obtain v1 where v1: "check_and_store_message_replay_until minimal_check_and_store (retaining_sample Map.empty)
      (LogoutRequestId (pe_id (st_pending st))) None = (v1, Inr ())"
    by (auto simp: check_and_store_message_replay_until_def store_in_context_def retaining_sample minimal_check_and_store_def Let_def)
  have indexes: "\<forall>s \<in> set (ls_session_indexes leaving). session_index_try_new (session_index_str s) = Inr s"
    using b by (simp add: leaving_def session_index_try_new_def)
  have now: "now_offset exchange_ext (retaining_sample Map.empty) = Inr (Odt 0)"
    by (simp add: now_offset_def retaining_sample exchange_time)
  from started_logout_received [OF st(1) brings leaving_facts(5) leaving_facts(4) raw(1) _ raw_sp(1) _ I(3) _ _ _ _ now
      arrives [unfolded leaving_facts(6) [symmetric]] _ _ sample_civil indexes v1, of "EntityId ''sp''" "\<lambda>_. Odt 0"]
  show ?thesis
    using st(1,2) issuer
    by (auto simp: raw(2) raw_sp(2) I starting e leaving_facts post_current sample_meta retaining_sample http_url_def)
      (auto simp: leaving_def)
qed

end
