(* ===== verification/Logout_Answered.thy ===== *)
theory Logout_Answered
  imports Logout_Received
begin

text \<open>
  An answered logout completes: the signed LogoutResponse of the HTTP-Redirect binding (\<open>src/src/logout/\<close>,
  \<open>src/src/api/slo.rs\<close>) is what the peer that waits for it verifies and accepts.
\<close>

section \<open>The LogoutResponse of the default renderer\<close>

definition logout_response_attrs :: "string \<Rightarrow> string \<Rightarrow> string \<Rightarrow> string \<Rightarrow> string \<Rightarrow> string option \<Rightarrow> (string \<times> string) list" where
  "logout_response_attrs p a i issue_instant destination in_response_to =
     [(''xmlns:'' @ p, NS_PROTOCOL), (''xmlns:'' @ a, NS_ASSERTION), (''ID'', i), (''Version'', ''2.0''),
      (''IssueInstant'', issue_instant), (''Destination'', destination)] @ opt_attr ''InResponseTo'' in_response_to"

definition logout_response_written :: "string \<Rightarrow> string \<Rightarrow> string \<Rightarrow> string \<Rightarrow> string \<Rightarrow> string \<Rightarrow> string option \<Rightarrow> written" where
  "logout_response_written p a i issue_instant destination issuer in_response_to =
     WrittenParent (p @ '':LogoutResponse'') (logout_response_attrs p a i issue_instant destination in_response_to)
       [WrittenText (a @ '':Issuer'') [] issuer,
        WrittenParent (p @ '':Status'') [] [WrittenEmpty (p @ '':StatusCode'') [(''Value'', STATUS_SUCCESS)]]]"

lemma logout_response_rendered:
  assumes "render_default_logout_response E setting i issue_instant destination in_response_to issuer = Inr xml"
  shows "xml = xml_write E (written_events (logout_response_written (es_tag_prefix_protocol setting)
      (es_tag_prefix_assertion setting) i issue_instant destination issuer in_response_to))"
    "CHR '':'' \<notin> set (es_tag_prefix_protocol setting)" "CHR '':'' \<notin> set (es_tag_prefix_assertion setting)"
proof -
  have p: "validate_tag_prefix ''protocol'' (es_tag_prefix_protocol setting) = Inr ()"
    "validate_tag_prefix ''assertion'' (es_tag_prefix_assertion setting) = Inr ()"
    using assms by (auto simp: render_default_logout_response_def Let_def rbind_Inr_iff)
  show "CHR '':'' \<notin> set (es_tag_prefix_protocol setting)" "CHR '':'' \<notin> set (es_tag_prefix_assertion setting)"
    using p prefix_no_colon by blast+
  show "xml = xml_write E (written_events (logout_response_written (es_tag_prefix_protocol setting)
      (es_tag_prefix_assertion setting) i issue_instant destination issuer in_response_to))"
    using assms p
    by (simp add: render_default_logout_response_def Let_def logout_response_written_def logout_response_attrs_def writer_defs
        writer_finish_def)
qed

lemma response_attr_values:
  assumes "attrs m = plain_attrs (logout_response_attrs p a i issue_instant destination in_response_to)"
  shows "node_attr m ''ID'' = Some i" "node_attr m ''IssueInstant'' = Some issue_instant"
    "node_attr m ''Destination'' = Some destination" "node_attr m ''InResponseTo'' = in_response_to"
  unfolding node_attr_def assms logout_response_attrs_def
  by (cases in_response_to; simp add: plain_attrs_def names_namespace_def opt_attr_def)+

lemma response_camel: "camel_case ''InResponseTo'' = ''inResponseTo''"
  by code_simp

lemma logout_response_extracted:
  assumes "readable E L (logout_response_written p a i issue_instant destination issuer in_response_to)"
    "CHR '':'' \<notin> set p" "CHR '':'' \<notin> set a"
    "xml = xml_write E (written_events (logout_response_written p a i issue_instant destination issuer in_response_to))"
  shows "\<exists>ex. extract_with_limits E xml logout_response_fields L = Inr ex
     \<and> get_str ex ''response.id'' = Some i \<and> get_str ex ''response.issueInstant'' = Some issue_instant
     \<and> get_str ex ''response.destination'' = Some destination \<and> get_str ex ''response.inResponseTo'' = in_response_to
     \<and> get_str ex ''issuer'' = Some issuer"
    "check_status_with_limits E xml LogoutResponse L = Inr ()"
proof -
  let ?el = "logout_response_written p a i issue_instant destination issuer in_response_to"
  obtain m where m: "parse_with_limits E xml L = Inr m" "node_of_written ?el m"
    unfolding assms(4) by (rule readable_parses [OF assms(1)])
  note lp = prefixed_name(1) [OF assms(2)] prefixed_name(1) [OF assms(3)]
  obtain iss status code where c: "children m = [iss, status]" "local_name m = ''LogoutResponse''"
    "attrs m = plain_attrs (logout_response_attrs p a i issue_instant destination in_response_to)"
    "local_name iss = ''Issuer''" "node_text iss = issuer" "local_name status = ''Status''" "children status = [code]"
    "local_name code = ''StatusCode''" "attrs code = [(''Value'', STATUS_SUCCESS)]"
    using m(2) by (auto simp: logout_response_written_def lp list_all2_Cons1 plain_attrs_def names_namespace_def)
  have plain: "\<forall>f \<in> set logout_response_fields. f_shortcut f = None"
    by (simp add: logout_response_fields_def field_simps)
  note x = extract_plain [OF m(1) plain]
  note v = response_attr_values [OF c(3)]
  show "\<exists>ex. extract_with_limits E xml logout_response_fields L = Inr ex
     \<and> get_str ex ''response.id'' = Some i \<and> get_str ex ''response.issueInstant'' = Some issue_instant
     \<and> get_str ex ''response.destination'' = Some destination \<and> get_str ex ''response.inResponseTo'' = in_response_to
     \<and> get_str ex ''issuer'' = Some issuer"
    unfolding x
    by (cases in_response_to)
      (simp_all add: logout_response_fields_def field_simps extract_field_def seg_matches_def strip_prefix_def c(1,2,4-6)
        select_step_def one_or_array_def attr_object_def v request_camel response_camel get_str_def get_path_def)
  show "check_status_with_limits E xml LogoutResponse L = Inr ()"
    by (simp add: check_status_eq m(1) status_code_of_def status_path_def seg_matches_def strip_prefix_def select_step_def
        c(1,2,4,6-9) node_attr_def)
qed

lemma logout_response_profile:
  assumes "acceptable E L p (logout_response_written p a i issue_instant destination issuer in_response_to)" "CHR '':'' \<notin> set p"
    "CHR '':'' \<notin> set a" "p \<noteq> a" "parse_saml_utc_date_time issue_instant = Some t"
  shows "validate_protocol_profile E (xml_write E (written_events
     (logout_response_written p a i issue_instant destination issuer in_response_to))) LogoutResponse L = Inr ()"
proof -
  let ?el = "logout_response_written p a i issue_instant destination issuer in_response_to"
  let ?xml = "xml_write E (written_events ?el)" and ?attrs = "logout_response_attrs p a i issue_instant destination in_response_to"
  note lp = prefixed_name(1) [OF assms(2)] prefixed_name(1) [OF assms(3)] prefixed_namespace [OF assms(2)] prefixed_namespace [OF assms(3)]
  have steps: "ns_reads_as (protocol_namespace p) (written_events ?el) (ns_read E (max_attributes_per_element L) ?xml)"
    "check_input_bytes L (length ?xml) = Inr ()"
    using assms(1) by (simp_all add: acceptable_def Let_def readable_def check_input_bytes_def)
  obtain as bs cs ds ps where shape: "ns_read E (max_attributes_per_element L) ?xml =
      NsEvent (Bound NS_PROTOCOL) (NsStart ''LogoutResponse'' as) # NsEvent (Bound NS_ASSERTION) (NsStart ''Issuer'' bs) # ps
      @ [NsEvent (Bound NS_ASSERTION) NsEnd, NsEvent (Bound NS_PROTOCOL) (NsStart ''Status'' cs),
         NsEvent (Bound NS_PROTOCOL) (NsEmpty ''StatusCode'' ds), NsEvent (Bound NS_PROTOCOL) NsEnd, NsEvent (Bound NS_PROTOCOL) NsEnd]"
    and as: "list_all2 ns_attr_of ?attrs as" "list_all (\<lambda>p. p = NsEvent Unbound NsOther) ps"
      "list_all2 ns_attr_of [(''Value'', STATUS_SUCCESS)] ds"
    using steps(1) assms(4) by (auto simp: logout_response_written_def ns_reads lp)
  have binds: "prefixes_bind ?attrs"
    by (simp add: prefixes_bind_def logout_response_attrs_def names_namespace_def opt_attr_def split: option.splits)
  have vals: "map_of (plain_attrs ?attrs) ''ID'' = Some i" "map_of (plain_attrs ?attrs) ''Version'' = Some ''2.0''"
    "map_of (plain_attrs ?attrs) ''IssueInstant'' = Some issue_instant"
    by (simp_all add: plain_attrs_def logout_response_attrs_def names_namespace_def opt_attr_def)
  have root: "validate_root ''LogoutResponse'' as NkProtocol LogoutResponse = Inr ()"
    using written_root_valid [OF as(1) binds, of issue_instant LogoutResponse] vals assms(5) by simp
  have code: "validate_unqualified_attributes ''StatusCode'' ds [''Value''] [] = Inr
      (filter (\<lambda>kv. fst kv \<in> set [''Value'']) (plain_attrs [(''Value'', STATUS_SUCCESS)]))"
    by (rule validate_attributes_written [OF as(3)]) (simp_all add: prefixes_bind_def)
  show ?thesis
    by (simp add: validate_protocol_profile_def steps(2) shape profile_others [OF as(2)] enter_element_def
        note_use_condition_def note_conditions_def validate_element_def root name_is_def new_name_def expected_child_namespace_def
        protocol_child_namespace_def nested_child_namespace_def validate_element_attributes_def consumed_attributes_def code Let_def)
qed

lemma logout_response_typed:
  assumes "get_str ex ''response.id'' = Some i" "get_str ex ''response.issueInstant'' = Some (now_iso8601 E t)"
    "get_str ex ''response.destination'' = Some destination" "get_str ex ''response.inResponseTo'' = Some (message_id_str irt)"
    "get_str ex ''issuer'' = Some issuer" "civil_ok (odt_civil E t)" "message_id_try_new i = Inr mid"
    "message_id_try_new (message_id_str irt) = Inr irt" "entity_id_try_new issuer = Inr iss" "http_url E destination"
  shows "\<exists>r. logout_response_try_from E \<lparr>fr_saml_content = xml, fr_extract = ex, fr_sig_alg = alg\<rparr> = Inr r \<and> Sso.lr_id r = mid
     \<and> lr_issuer r = iss \<and> lr_in_response_to r = Some irt \<and> lr_destination r = Some (EndpointUrl destination)
     \<and> lr_raw_flow r = \<lparr>fr_saml_content = xml, fr_extract = ex, fr_sig_alg = alg\<rparr>"
proof -
  have instant: "issue_instant_from_extract ex ''response.issueInstant'' ''LogoutResponse'' = Inr (SamlInstant (now_iso8601 E t))"
    using generated_instant [OF assms(6)] ins.try_new_Inr [of "now_iso8601 E t" "SamlInstant (now_iso8601 E t)"]
    by (simp add: issue_instant_from_extract_def assms(2))
  have url: "endpoint_url_try_new E destination = Inr (EndpointUrl destination)"
    using assms(10) by (simp add: url.try_new_Inr)
  have "message_id_str irt \<noteq> []" using assms(8) by (auto simp: mid.try_new_Inr)
  with assms(7,8,9) show ?thesis
    by (simp add: logout_response_try_from_def required_str_def assms(1,3,4,5) instant optional_request_id_def optional_endpoint_def url)
qed

section \<open>A signed redirect\<close>

text \<open>The parameters that are signed.\<close>

definition signed_params :: "parser_type \<Rightarrow> string \<Rightarrow> string option \<Rightarrow> string \<Rightarrow> (string \<times> string) list" where
  "signed_params t v relay alg =
     (query_param t, v) # (case relay of Some r \<Rightarrow> [(''RelayState'', r)] | None \<Rightarrow> []) @ [(''SigAlg'', alg)]"

text \<open>
  What the crates promise for one message with a detached signature: its DEFLATE inflates to it within both limits and
  the base64 of that is read back, encoded values have no separator, the signed octets and the query are parsed as the
  parameters they were made of, and what the key signs verifies under one of the certificates.
\<close>

definition signed_carried :: "('k, 'e) crypto_ext_scheme \<Rightarrow> nat \<Rightarrow> xml_limits \<Rightarrow> parser_type \<Rightarrow> string \<Rightarrow> string option \<Rightarrow>
    string \<Rightarrow> 'k \<Rightarrow> string list \<Rightarrow> bool" where
  "signed_carried E n L t xml relay alg key certs \<longleftrightarrow>
     inflate_law E \<and> url_encode_law E \<and> min n (max_bytes L) < usize_max
     \<and> (\<forall>d octet sig. deflate_encode E xml = Inr d \<longrightarrow> build_redirect_octet E t xml relay alg = Inr octet
         \<longrightarrow> construct_message_signature E octet key alg = Inr sig
         \<longrightarrow> inflates_to E d xml \<and> b64_reads E d \<and> max (length d) (length xml) \<le> min n (max_bytes L)
           \<and> form_parse E octet = signed_params t (base64_encode E d) relay alg
           \<and> form_parse E (octet @ ''&Signature='' @ url_encode E sig)
               = signed_params t (base64_encode E d) relay alg @ [(''Signature'', sig)]
           \<and> (\<exists>cert \<in> set certs. verify_message_signature E octet sig cert alg = Inr True))"

text \<open>The URL of a message signed with a key.\<close>

definition signs_redirect :: "('k, 'e) crypto_ext_scheme \<Rightarrow> parser_type \<Rightarrow> binding_context \<Rightarrow> string \<Rightarrow> string \<Rightarrow> 'k \<Rightarrow> bool" where
  "signs_redirect E t c xml alg key \<longleftrightarrow>
     (\<exists>octet sig. build_redirect_octet E t xml (bc_relay_state c) alg = Inr octet
        \<and> construct_message_signature E octet key alg = Inr sig
        \<and> bc_context c = append_signature E (bc_entity_endpoint c) octet sig)"

lemma detached_loop_finds:
  "\<exists>cert \<in> set certs. verify_message_signature E octet sig cert alg = Inr True \<Longrightarrow>
     detached_loop E octet sig alg certs perr tried = Inr alg"
  by (induction certs arbitrary: perr tried) (auto split: sum.split bool.split)

lemma signed_params_read:
  assumes "t \<noteq> SamlResponse"
  shows "single_param (signed_params t v relay alg) (query_param t) = Inr (Some v)"
    "single_param (signed_params t v relay alg) ''RelayState'' = Inr relay"
    "single_param (signed_params t v relay alg) ''SigAlg'' = Inr (Some alg)"
    "single_param (signed_params t v relay alg) ''Signature'' = Inr None"
    "single_param (signed_params t v relay alg @ [(''Signature'', sig)]) (query_param t) = Inr (Some v)"
    "single_param (signed_params t v relay alg @ [(''Signature'', sig)]) ''RelayState'' = Inr relay"
    "single_param (signed_params t v relay alg @ [(''Signature'', sig)]) ''SigAlg'' = Inr (Some alg)"
    "single_param (signed_params t v relay alg @ [(''Signature'', sig)]) ''Signature'' = Inr (Some sig)"
  by (cases relay; cases t; simp add: signed_params_def single_param_def unique_value_def)+

text \<open>A signed message that is brought over is decoded to the text sent, and its signature verifies.\<close>

lemma signed_redirect_verifies:
  assumes "outbound_try_from E t c = Inr a" "brings a input" "bc_binding c = Redirect" "signs_redirect E t c xml alg key"
    "signed_carried E n L t xml (bc_relay_state c) alg key certs" "CHR ''?'' \<notin> set (bc_entity_endpoint c)"
    "length xml \<le> max_bytes L" "string_from_utf8 xml = Inr xml"
  obtains request relay where "http_request_for E t input = Inr request" "input_binding input = Redirect"
    "relay_state_from_input E input = Inr relay" "relay_param_try_from_option (bc_relay_state c) = Inr relay"
    "decode_message E Redirect t request n L = Inr xml"
    "\<forall>opts. fo_signing_certs opts = certs \<longrightarrow> verify_detached E Redirect t request opts xml = Inr alg"
proof -
  obtain relay where relay: "relay_param_try_from_option (bc_relay_state c) = Inr relay"
    by (rule outbound_relay_param [OF assms(1)])
  from assms(1,2) obtain base q where q: "split_once CHR ''?'' (bc_context c) = Some (base, q)" "input = InRedirect q"
    and t: "t \<noteq> SamlResponse"
    by (cases rule: brings_cases) (use assms(3) in auto)
  obtain octet sig where octet: "build_redirect_octet E t xml (bc_relay_state c) alg = Inr octet"
    and sig: "construct_message_signature E octet key alg = Inr sig"
    and ctx: "bc_context c = append_signature E (bc_entity_endpoint c) octet sig"
    using assms(4) by (auto simp: signs_redirect_def)
  obtain d where d: "deflate_encode E xml = Inr d"
    using octet by (auto simp: build_redirect_octet_def rbind_Inr_iff deflate_raw_encode_def rmap_err_Inr_iff)
  let ?b = "base64_encode E d"
  have law: "inflate_law E" "url_encode_law E" "min n (max_bytes L) < usize_max" "inflates_to E d xml" "b64_reads E d"
    "max (length d) (length xml) \<le> min n (max_bytes L)"
    and parsed: "form_parse E octet = signed_params t ?b (bc_relay_state c) alg"
      "form_parse E (octet @ ''&Signature='' @ url_encode E sig) = signed_params t ?b (bc_relay_state c) alg @ [(''Signature'', sig)]"
    and verifies: "\<exists>cert \<in> set certs. verify_message_signature E octet sig cert alg = Inr True"
    using assms(5) d octet sig unfolding signed_carried_def by blast+
  define whole where "whole = octet @ ''&Signature='' @ url_encode E sig"
  from split_once_None [OF assms(6)] have "q = whole"
    using q(1) assms(6) by (simp add: ctx append_signature_def has_query_def split_once_append whole_def)
  note q = q(2) [unfolded this] and params = signed_params_read [OF t, of ?b "bc_relay_state c" alg]
    and parsed = parsed(1) parsed(2) [folded whole_def] and rebuilt = redirect_octet_rebuilt [OF law(2) octet, of sig, folded whole_def]
  have start: "dropWhile (\<lambda>c. c = CHR ''?'') whole = whole"
    using octet by (cases t) (auto simp: build_redirect_octet_def rbind_Inr_iff whole_def)
  let ?r = "\<lparr>hr_query = signed_params t ?b (bc_relay_state c) alg @ [(''Signature'', sig)], hr_body = [], hr_octet_string = Some octet\<rparr>"
  have request: "http_request_for E t input = Inr ?r"
    using t rebuilt by (simp add: http_request_for_eq http_request_from_input_def q start parse_form_pairs_def parsed(2) Let_def)
  have get: "query_get ?r k = single_param (signed_params t ?b (bc_relay_state c) alg @ [(''Signature'', sig)]) k" for k
    by (simp add: query_get_def)
  have "deflate_raw_decode_with_limit E d (min n (max_bytes L)) = Inr xml"
    using deflate_decode_exact [OF law(1,4,3)] law(6) by simp
  then have decoded: "decode_message E Redirect t ?r n L = Inr xml"
    using law(5,6) assms(7,8) by (simp add: decode_message_def get params b64_reads_within check_input_bytes_def Let_def)
  have ready: "\<exists>s. initialize_crypto_provider E = Inr s"
    using sig by (auto simp: construct_message_signature_def rbind_Inr_iff ensure_crypto_provider_initialized_def rmap_Inr_iff)
  have "verify_detached E Redirect t ?r opts xml = Inr alg" if "fo_signing_certs opts = certs" for opts
    using ready detached_loop_finds [OF verifies]
    by (auto simp: verify_detached_def get params that ensure_detached_octet_matches_consumed_fields_def
        ensure_redirect_octet_matches_consumed_fields_def decoded_octet_params_def parsed(1) Let_def)
  moreover have "relay_state_from_input E input = Inr relay"
    using relay t by (simp add: q start parsed(2)) (cases "bc_relay_state c"; cases t; simp add: signed_params_def first_field_def)
  ultimately show ?thesis using that [OF request _ _ relay decoded] q by simp
qed

section \<open>Answering and completing\<close>

lemma respond_slo_sends:
  assumes "respond_slo_impl E env setting local_md peer_md request opts = Inr a" "es_logout_response_template setting = None"
    "rl_binding opts = LogoutRedirect"
  obtains c pem key where "outbound_try_from E LogoutResponse c = Inr a" "bc_binding c = Redirect"
    "relay_param_ok (unwrap_or (rl_relay_state opts) (rc_relay_state request))"
    "bc_relay_state c = relay_param_as_deref (unwrap_or (rl_relay_state opts) (rc_relay_state request))"
    "get_single_logout_service peer_md Redirect = Some (bc_entity_endpoint c)"
    "es_private_key setting = Some pem" "load_private_key E pem (es_private_key_pass setting) = Inr key"
    "signs_redirect E LogoutResponse c (xml_write E (written_events (logout_response_written (es_tag_prefix_protocol setting)
       (es_tag_prefix_assertion setting) (bc_id c) (now_iso8601 E (ie_now_utc env)) (bc_entity_endpoint c) (issuer_of setting local_md)
       (Some (message_id_str (lq_id (rc_message request))))))) (es_request_signature_algorithm setting) key"
    "CHR '':'' \<notin> set (es_tag_prefix_protocol setting)" "CHR '':'' \<notin> set (es_tag_prefix_assertion setting)"
proof -
  let ?relay = "unwrap_or (rl_relay_state opts) (rc_relay_state request)"
  obtain c where relay: "relay_param_validate ?relay = Inr ()"
    and c: "create_logout_response E env setting local_md peer_md Redirect (Some (message_id_str (lq_id (rc_message request))))
        (relay_param_as_deref ?relay) True = Inr c"
    and a: "outbound_try_from E LogoutResponse c = Inr a"
    using assms(1,3) by (auto simp: respond_slo_impl_def rbind_Inr_iff Let_def simp del: outbound_try_from.simps)
  from c obtain destination xml where d: "get_single_logout_service peer_md Redirect = Some destination"
    and xml: "render_default_logout_response E setting (message_id_or_new None env) (now_iso8601 E (ie_now_utc env)) destination
        (Some (message_id_str (lq_id (rc_message request)))) (issuer_of setting local_md) = Inr xml"
    and ctx: "sign_logout E setting Redirect xml destination (relay_param_as_deref ?relay) LogoutResponse
        = Inr (bc_context c, bc_signature c, bc_sig_alg c)"
    and cf: "bc_id c = message_id_or_new None env" "bc_relay_state c = relay_param_as_deref ?relay" "bc_entity_endpoint c = destination"
      "bc_binding c = Redirect"
    using assms(2)
    by (auto simp: create_logout_response_def create_logout_response_with_id_def rbind_Inr_iff ok_or_Inr_iff rmap_Inr_iff
        logout_response_text_def logout_context_def Let_def)
  from ctx obtain pem key where key: "es_private_key setting = Some pem" "load_private_key E pem (es_private_key_pass setting) = Inr key"
    and signs: "signs_redirect E LogoutResponse c xml (es_request_signature_algorithm setting) key"
    by (auto simp: sign_logout_def rbind_Inr_iff ok_or_Inr_iff signs_redirect_def cf Let_def split: if_splits)
  note r = logout_response_rendered [OF xml]
  have "relay_param_ok ?relay" using relay by (simp add: relay_param_validate_iff)
  from that [OF a cf(4) this cf(2)] show ?thesis using key signs r d cf by simp
qed

text \<open>The LogoutResponse of the default renderer, in terms of the outbound action.\<close>

definition sent_logout_response :: "('e) time_ext_scheme \<Rightarrow> issue_env \<Rightarrow> entity_setting \<Rightarrow> metadata \<Rightarrow> logout_request received \<Rightarrow>
    outbound \<Rightarrow> written" where
  "sent_logout_response E env setting local_md request a =
     (let c = into_raw_context a in
      logout_response_written (es_tag_prefix_protocol setting) (es_tag_prefix_assertion setting) (bc_id c)
        (now_iso8601 E (ie_now_utc env)) (bc_entity_endpoint c) (issuer_of setting local_md)
        (Some (message_id_str (lq_id (rc_message request)))))"

text \<open>
  The signed document arrives at a receiver \<open>s\<close>, which has certificates of the sender, at an endpoint without a query.
\<close>

definition signed_deliverable :: "('k, 'e) out_ext_scheme \<Rightarrow> entity_setting \<Rightarrow> string list \<Rightarrow> entity_setting \<Rightarrow> parser_type \<Rightarrow>
    written \<Rightarrow> binding_context \<Rightarrow> bool" where
  "signed_deliverable E s certs sender t el c \<longleftrightarrow>
     acceptable E (es_xml_limits s) (es_tag_prefix_protocol sender) el
     \<and> (\<forall>pem key. es_private_key sender = Some pem \<longrightarrow> load_private_key E pem (es_private_key_pass sender) = Inr key
         \<longrightarrow> signed_carried E (es_redirect_inflate_max_bytes s) (es_xml_limits s) t (xml_write E (written_events el))
               (bc_relay_state c) (es_request_signature_algorithm sender) key certs)
     \<and> CHR ''?'' \<notin> set (bc_entity_endpoint c)"

text \<open>The checks of the waiting party on a response that is what it seems.\<close>

lemma finish_slo_response_Inr:
  assumes "metadata_validate_at E local_md (vc_now v) = Inr ()" "metadata_validate_at E peer_md (vc_now v) = Inr ()"
    "pending_validate_at E pending (vc_now v) = Inr ()" "completion_deadline E pending = Inr (Some deadline)"
    "pe_peer_entity_id pending = peer" "input_binding input = logout_as_binding (pd_binding (pe_details pending))"
    "relay_state_from_input E input = Inr (pe_relay_state pending)" "http_request_for E LogoutResponse input = Inr request"
    "message_id_str (pe_id pending) \<noteq> []"
    "flow E clk (logout_flow_options setting peer_md (logout_as_binding (pd_binding (pe_details pending))) LogoutResponse
       (es_want_logout_response_signed setting) (Some (vc_now v)) (as_millis (vc_clock_skew v)) (Some (message_id_str (pe_id pending)))) request
       = Inr fr"
    "logout_response_try_from E fr = Inr r" "lr_destination r = Some d"
    "get_single_logout_service local_md (logout_as_binding (pd_binding (pe_details pending))) = Some (endpoint_url_str d)"
  shows "finish_slo_response E clk setting local_md peer peer_md pending input v = Inr r"
  using assms
  by (simp add: finish_slo_response_def require_pending_expiration_def ensure_entity_id_def ensure_logout_response_binding_def
      ensure_relay_state_def parse_logout_response_at_def parse_logout_response_inner_def unwrap_or_def ensure_logout_destination_def
      del: relay_state_from_input.simps http_request_for.simps)

text \<open>The flow on a delivered LogoutResponse, whether its signature is checked or not, and the typed view of the result.\<close>

lemma logout_response_flow:
  assumes "acceptable E (es_xml_limits s) p el" "xml = xml_write E (written_events el)"
    "el = logout_response_written p a i (now_iso8601 E t) d iss (Some (message_id_str irt))"
    "opts = logout_flow_options s meta Redirect LogoutResponse (es_want_logout_response_signed s) now drifts (Some (message_id_str irt))"
    "CHR '':'' \<notin> set p" "CHR '':'' \<notin> set a" "p \<noteq> a" "civil_ok (odt_civil E t)" "get_entity_id meta = Some iss"
    "decode_message E Redirect LogoutResponse http (es_redirect_inflate_max_bytes s) (es_xml_limits s) = Inr xml"
    "verify_detached E Redirect LogoutResponse http opts xml = Inr alg"
    "message_id_try_new i = Inr mid" "message_id_try_new (message_id_str irt) = Inr irt" "entity_id_try_new iss = Inr issuer" "http_url E d"
  obtains fr r where "flow E clk opts http = Inr fr" "logout_response_try_from E fr = Inr r"
    "Sso.lr_id r = mid" "lr_issuer r = issuer" "lr_in_response_to r = Some irt" "lr_destination r = Some (EndpointUrl d)"
    "fr_sig_alg (lr_raw_flow r) = (if es_want_logout_response_signed s then Some alg else None)"
proof -
  have readable: "readable E (es_xml_limits s) el" using assms(1) by (simp add: acceptable_def Let_def)
  obtain ex where ex: "extract_with_limits E xml logout_response_fields (es_xml_limits s) = Inr ex"
    "get_str ex ''response.id'' = Some i" "get_str ex ''response.issueInstant'' = Some (now_iso8601 E t)"
    "get_str ex ''response.destination'' = Some d" "get_str ex ''response.inResponseTo'' = Some (message_id_str irt)"
    "get_str ex ''issuer'' = Some iss"
    and status: "check_status_with_limits E xml LogoutResponse (es_xml_limits s) = Inr ()"
    using logout_response_extracted [OF readable [unfolded assms(3)] assms(5,6) assms(2) [unfolded assms(3)]] by blast
  have o: "fo_binding opts = Some Redirect" "fo_parser_type opts = Some LogoutResponse" "fo_xml_limits opts = es_xml_limits s"
    "fo_redirect_inflate_max_bytes opts = es_redirect_inflate_max_bytes s" "fo_from_issuer opts = Some iss"
    "fo_check_signature opts = es_want_logout_response_signed s" "fo_expected_in_response_to opts = Some (message_id_str irt)"
    using assms(9) by (simp_all add: assms(4) logout_flow_options_def)
  have profile: "validate_protocol_profile E xml LogoutResponse (es_xml_limits s) = Inr ()"
    unfolding assms(2,3)
    by (rule logout_response_profile [OF assms(1) [unfolded assms(3)] assms(5-7) generated_instant(1) [OF assms(8)]])
  let ?alg = "if es_want_logout_response_signed s then Some alg else None"
  have "flow E clk opts http = Inr \<lparr>fr_saml_content = xml, fr_extract = ex, fr_sig_alg = (if fo_check_signature opts then Some alg else None)\<rparr>"
    by (rule delivered_flow_checked [OF assms(1,2) _ o(1-3), where flds = logout_response_fields])
      (use assms(10,11) profile status ex(1,5,6) in \<open>simp_all add: o default_fields_def validate_context_def\<close>)
  from that [OF this [unfolded o(6)]] show ?thesis
    using logout_response_typed [OF ex(2-6) assms(8,12-15), of xml ?alg] by auto
qed

text \<open>
  C8: an answered logout completes: the LogoutResponse of the default template with which an identity provider answers
  over HTTP-Redirect, always signed, when the responder leaves the RelayState override unset, is verified and accepted by the service provider that waits for it, and completes the pending request: the
  response carries its ID, the answering issuer, and the algorithm of the verified signature where the service provider
  requires one. Assumed: the document arrives and its signature verifies (\<open>signed_deliverable\<close>), the request answered
  was received with the ID and the RelayState of the pending one, which is still open, both metadata are current, the
  protocol and assertion prefixes of the responder differ, and the replay cache takes the identifiers of the response and of the completed request.
\<close>

theorem answered_logout_completes:
  assumes "idp_respond_slo E env I spd request opts = Inr a" "brings a input"
    "es_logout_response_template (idr_setting (sf_identity_provider I)) = None"
    "rl_binding opts = LogoutRedirect" "rl_relay_state opts = None"
    "lq_id (rc_message request) = pe_id pending" "rc_relay_state request = pe_relay_state pending"
    "pd_binding (pe_details pending) = LogoutRedirect" "pe_peer_entity_id pending = pd_entity_id idp"
    "message_id_try_new (message_id_str (pe_id pending)) = Inr (pe_id pending)"
    "pending_validate_at E pending (vc_now v) = Inr ()" "completion_deadline E pending = Inr (Some deadline)"
    "raw_sp_descriptor E spd = Inr raw_sp" "spr_metadata raw_sp = spr_metadata sp"
    "raw_idp_descriptor E idp = Inr raw_idp" "get_entity_id (idp_inner (idr_metadata raw_idp))
       = Some (issuer_of (idr_setting (sf_identity_provider I)) (idp_inner (idr_metadata (sf_identity_provider I))))"
    "entity_id_try_new (issuer_of (idr_setting (sf_identity_provider I)) (idp_inner (idr_metadata (sf_identity_provider I)))) = Inr issuer"
    "metadata_validate_at E (sp_inner (spr_metadata sp)) (vc_now v) = Inr ()"
    "metadata_validate_at E (idp_inner (idr_metadata raw_idp)) (vc_now v) = Inr ()"
    "signed_deliverable E (spr_setting sp) (x509_certificates (idp_inner (idr_metadata raw_idp)) Signing)
       (idr_setting (sf_identity_provider I)) LogoutResponse
       (sent_logout_response E env (idr_setting (sf_identity_provider I)) (idp_inner (idr_metadata (sf_identity_provider I))) request a)
       (into_raw_context a)"
    "es_tag_prefix_protocol (idr_setting (sf_identity_provider I)) \<noteq> es_tag_prefix_assertion (idr_setting (sf_identity_provider I))"
    "http_url E (bc_entity_endpoint (into_raw_context a))" "civil_ok (odt_civil E (ie_now_utc env))"
    "check_and_store_message_replay cas v (LogoutResponseId (ob_id a)) = (v1, Inr ())"
    "check_and_store_message_replay_until cas v1 (CompletedLogoutRequestId (pe_id pending)) (Some deadline) = (v2, Inr ())"
  shows "\<exists>r. sp_finish_slo E clk cas sp idp pending input v = (v2, Inr (logout_completed_from_response (pd_entity_id idp) r))
     \<and> lr_in_response_to r = Some (pe_id pending) \<and> Sso.lr_id r = ob_id a \<and> lr_issuer r = issuer
     \<and> fr_sig_alg (lr_raw_flow r) = (if es_want_logout_response_signed (spr_setting sp)
          then Some (es_request_signature_algorithm (idr_setting (sf_identity_provider I))) else None)"
proof -
  let ?I = "idr_setting (sf_identity_provider I)" and ?i = "idp_inner (idr_metadata (sf_identity_provider I))" and ?S = "spr_setting sp"
    and ?certs = "x509_certificates (idp_inner (idr_metadata raw_idp)) Signing"
  have respond: "respond_slo_impl E env ?I ?i (sp_inner (spr_metadata sp)) request opts = Inr a"
    using assms(1,13,14) by (simp add: idp_respond_slo_def)
  obtain c pem key where a: "outbound_try_from E LogoutResponse c = Inr a" and b: "bc_binding c = Redirect"
    and relay: "relay_param_ok (pe_relay_state pending)" "bc_relay_state c = relay_param_as_deref (pe_relay_state pending)"
    and slo: "get_single_logout_service (sp_inner (spr_metadata sp)) Redirect = Some (bc_entity_endpoint c)"
    and key: "es_private_key ?I = Some pem" "load_private_key E pem (es_private_key_pass ?I) = Inr key"
    and signs: "signs_redirect E LogoutResponse c (xml_write E (written_events (logout_response_written (es_tag_prefix_protocol ?I)
       (es_tag_prefix_assertion ?I) (bc_id c) (now_iso8601 E (ie_now_utc env)) (bc_entity_endpoint c) (issuer_of ?I ?i)
       (Some (message_id_str (pe_id pending)))))) (es_request_signature_algorithm ?I) key"
    and prefixes: "CHR '':'' \<notin> set (es_tag_prefix_protocol ?I)" "CHR '':'' \<notin> set (es_tag_prefix_assertion ?I)"
    by (rule respond_slo_sends [OF respond assms(3,4), unfolded assms(5-7) unwrap_or_def option.case])
  have ctx: "into_raw_context a = c" using outbound_try_from_Inr(1) [OF a] by (simp add: into_raw_context_def)
  define el where "el = sent_logout_response E env ?I ?i request a"
  note el = el_def [unfolded sent_logout_response_def Let_def ctx assms(6)]
  define xml where "xml = xml_write E (written_events el)"
  have acceptable: "acceptable E (es_xml_limits ?S) (es_tag_prefix_protocol ?I) el" and plain: "CHR ''?'' \<notin> set (bc_entity_endpoint c)"
    and carried: "signed_carried E (es_redirect_inflate_max_bytes ?S) (es_xml_limits ?S) LogoutResponse xml (bc_relay_state c)
        (es_request_signature_algorithm ?I) key ?certs"
    using assms(20) key by (simp_all add: signed_deliverable_def ctx xml_def flip: el_def)
  then have utf8: "string_from_utf8 xml = Inr xml" "length xml \<le> max_bytes (es_xml_limits ?S)"
    by (simp_all add: acceptable_def readable_def xml_def Let_def)
  obtain http got where http: "http_request_for E LogoutResponse input = Inr http" "input_binding input = Redirect"
      "relay_state_from_input E input = Inr got" "relay_param_try_from_option (bc_relay_state c) = Inr got"
      "decode_message E Redirect LogoutResponse http (es_redirect_inflate_max_bytes ?S) (es_xml_limits ?S) = Inr xml"
      "\<forall>opts. fo_signing_certs opts = ?certs \<longrightarrow>
         verify_detached E Redirect LogoutResponse http opts xml = Inr (es_request_signature_algorithm ?I)"
    by (rule signed_redirect_verifies [OF a assms(2) b signs [folded el, folded xml_def] carried plain utf8(2,1)])
  have got: "got = pe_relay_state pending" using http(4) relay by (simp add: relay_param_roundtrip)
  let ?opts = "logout_flow_options ?S (idp_inner (idr_metadata raw_idp)) Redirect LogoutResponse (es_want_logout_response_signed ?S)
      (Some (vc_now v)) (as_millis (vc_clock_skew v)) (Some (message_id_str (pe_id pending)))"
  have "fo_signing_certs ?opts = ?certs" by (simp add: logout_flow_options_def)
  with http(6) have verified: "verify_detached E Redirect LogoutResponse http ?opts xml = Inr (es_request_signature_algorithm ?I)" by blast
  have mid: "message_id_try_new (bc_id c) = Inr (ob_id a)"
    using a outbound_try_from_Inr(2) [OF a] by (auto simp: outbound_from_context_def rbind_Inr_iff mid.try_new_Inr)
  obtain fr r where flow: "flow E clk ?opts http = Inr fr" and r: "logout_response_try_from E fr = Inr r" "Sso.lr_id r = ob_id a"
    "lr_issuer r = issuer" "lr_in_response_to r = Some (pe_id pending)" "lr_destination r = Some (EndpointUrl (bc_entity_endpoint c))"
    "fr_sig_alg (lr_raw_flow r) = (if es_want_logout_response_signed ?S then Some (es_request_signature_algorithm ?I) else None)"
    by (rule logout_response_flow [OF acceptable xml_def el refl prefixes assms(21,23,16) http(5) verified mid assms(10,17)
          assms(22) [unfolded ctx]])
  have "message_id_str (pe_id pending) \<noteq> []" using assms(10) by (auto simp: mid.try_new_Inr)
  from finish_slo_response_Inr [OF assms(18,19,11,12,9) _ _ http(1) this _ r(1,5)]
  have "finish_slo_response E clk ?S (sp_inner (spr_metadata sp)) (pd_entity_id idp) (idp_inner (idr_metadata raw_idp)) pending input v = Inr r"
    using http(2,3) got flow slo by (simp add: assms(8))
  then have "sp_finish_slo E clk cas sp idp pending input v = (v2, Inr (logout_completed_from_response (pd_entity_id idp) r))"
    using assms(12,15,24,25) by (simp add: sp_finish_slo_def finish_slo_impl_def r(2))
  with r(2-4,6) show ?thesis by blast
qed

section \<open>The sample answer\<close>

definition answering :: saml_idp where
  "answering = \<lparr>sf_identity_provider = \<lparr>idr_setting = entity_setting_default\<lparr>es_private_key := Some ''k''\<rparr>,
     idr_metadata = IdpMetadata meta_model\<rparr>, sf_issuance_lifetime = ns_per_sec\<rparr>"

definition answer_env :: issue_env where
  "answer_env = issue_sample\<lparr>ie_uuid := ''3''\<rparr>"

definition leave_request :: "logout_request received" where
  "leave_request = received_with_relay_state Absent (received_new
     \<lparr>lq_id = MessageId ''_r'', lq_issue_instant = SamlInstant ''2024-01-01T00:00:00Z'', lq_not_on_or_after = None,
      lq_issuer = EntityId ''sp'', lq_name_id = None, lq_session_indexes = [], lq_destination = None,
      lq_raw_flow = \<lparr>fr_saml_content = [], fr_extract = VNull, fr_sig_alg = None\<rparr>\<rparr>)"

definition waiting :: pending_logout_request where
  "waiting = slo_pending\<lparr>pe_details := \<lparr>pd_binding = LogoutRedirect\<rparr>\<rparr>"

definition answer_written :: written where
  "answer_written = logout_response_written ''samlp'' ''saml'' ''_3'' ''2024-01-01T00:00:00Z'' ''slo'' ''idp'' (Some ''_r'')"

lemma answer_events: "written_events answer_written = slo_events"
  by (simp add: answer_written_def logout_response_written_def logout_response_attrs_def opt_attr_def slo_events_def)

lemma slo_events_other: "slo_events \<noteq> request_events" "slo_events \<noteq> logout_events"
  by (simp_all add: slo_events_def request_events_def logout_events_def)

lemma answering_facts:
  "es_logout_response_template (idr_setting (sf_identity_provider answering)) = None"
  "es_tag_prefix_protocol (idr_setting (sf_identity_provider answering)) = ''samlp''"
  "es_tag_prefix_assertion (idr_setting (sf_identity_provider answering)) = ''saml''"
  "es_request_signature_algorithm (idr_setting (sf_identity_provider answering)) = RSA_SHA256"
  "es_private_key (idr_setting (sf_identity_provider answering)) = Some ''k''"
  "idr_metadata (sf_identity_provider answering) = IdpMetadata meta_model"
  "issuer_of (idr_setting (sf_identity_provider answering)) meta_model = ''idp''"
  "lq_id (rc_message leave_request) = MessageId ''_r''" "rc_relay_state leave_request = Absent"
  "pe_id waiting = MessageId ''_r''" "pe_relay_state waiting = Absent" "pd_binding (pe_details waiting) = LogoutRedirect"
  "pe_peer_entity_id waiting = EntityId ''idp''" "get_single_logout_service sp_model Redirect = Some ''slo''"
  "x509_certificates meta_model Signing = [''C'']" "get_entity_id meta_model = Some ''idp''"
  by (simp_all add: answering_def entity_setting_default_def issuer_of_def leave_request_def received_with_relay_state_def
      received_new_def waiting_def slo_pending_def) (code_simp+)

lemma slo_signed:
  "build_redirect_octet exchange_ext LogoutResponse slo_text None RSA_SHA256 = Inr slo_octet"
  "construct_message_signature exchange_ext slo_octet k RSA_SHA256 = Inr ''T0NU''"
  "append_signature exchange_ext ''slo'' slo_octet ''T0NU'' = slo_url"
proof -
  show "build_redirect_octet exchange_ext LogoutResponse slo_text None RSA_SHA256 = Inr slo_octet"
    by (simp add: build_redirect_octet_def deflate_raw_encode_def base64_encode_def url_encode_def slo_octet_def)
  show "construct_message_signature exchange_ext slo_octet k RSA_SHA256 = Inr ''T0NU''"
    by (simp add: construct_message_signature_def ensure_crypto_provider_initialized_def initialize_crypto_provider_def
        require_operation_key_def base64_encode_def)
  show "append_signature exchange_ext ''slo'' slo_octet ''T0NU'' = slo_url"
    by (simp add: append_signature_def has_query_def slo_url_def url_encode_def)
qed

lemma slo_reads:
  "reads_as exchange_ext slo_events slo_steps" "ns_reads_as (protocol_namespace ''samlp'') slo_events slo_ns"
proof -
  note names = local_part_def written_attr_def names_namespace_def
  have rest: "reads_as exchange_ext (drop 3 slo_events) (drop 3 slo_steps)"
    by (simp add: slo_events_def slo_steps_def reads_as_end reads_as_start reads_as_empty names)
  have "spells exchange_ext [XEvent 6 9 (EvText (Inr ''idp''))] ''idp''"
    using spells_text [OF spells_Nil, of exchange_ext 6 9 "''idp''"] by simp
  from as_text [OF rest this] show "reads_as exchange_ext slo_events slo_steps"
    by (simp add: slo_events_def slo_steps_def reads_as_start names)
  have attrs: "list_all2 ns_attr_of [(''xmlns:samlp'', NS_PROTOCOL), (''xmlns:saml'', NS_ASSERTION), (''ID'', ''_3''),
      (''Version'', ''2.0''), (''IssueInstant'', ''2024-01-01T00:00:00Z''), (''Destination'', ''slo''), (''InResponseTo'', ''_r'')] slo_attrs"
    by (simp add: slo_attrs_def ns_attr_of_def names)
  have rest: "ns_reads_as (protocol_namespace ''samlp'') (drop 3 slo_events) (drop 3 slo_ns)"
    by (simp add: slo_events_def slo_ns_def ns_reads names ns_attr_of_def protocol_namespace_def)
  from ns_as_text [OF this, of "[NsEvent Unbound NsOther]" "''idp''"] attrs
  show "ns_reads_as (protocol_namespace ''samlp'') slo_events slo_ns"
    by (simp add: slo_events_def slo_ns_def ns_reads_start names protocol_namespace_def)
qed

lemma answer_accepted: "acceptable exchange_ext xml_limits_default ''samlp'' answer_written"
proof -
  have "length slo_text \<le> 1048576" by (simp add: slo_text_def)
  moreover have "written_fits xml_limits_default 1024 answer_written" "written_size answer_written \<le> 50000"
    by (simp_all add: answer_written_def logout_response_written_def attrs_fit_def xml_limits_default_def logout_response_attrs_def
        opt_attr_def)
  ultimately have "readable exchange_ext xml_limits_default answer_written"
    using slo_reads(1) by (simp add: readable_def answer_events reads_written_def limits_ok_def slo_events_other)
      (simp add: xml_limits_default_def usize_max_def)
  then show ?thesis
    using slo_reads(2) slo_utf8 by (simp add: acceptable_def answer_events slo_events_other Let_def)
qed

lemma answer_carried:
  "signed_carried exchange_ext MAX_DEFLATE_RAW_DECODE_BYTES xml_limits_default LogoutResponse slo_text None RSA_SHA256 k [''C'']"
proof -
  have i: "inflate_call exchange_ext = sample_stream slo_text" by simp
  have b: "list_all b64_char ''Q0Q=''" "list_all b64_char ''T0NU''" by code_simp+
  then have r: "b64_reads exchange_ext ''CD''" "b64_normal ''T0NU'' = ''T0NU''"
    by (simp_all add: b64_reads_def usize_max_def b64_normal_text)
  have e: "url_encode exchange_ext ''T0NU'' = ''T0NU''" by (simp add: url_encode_def)
  have l: "length slo_text \<le> 1000" by (simp add: slo_text_def)
  have "verify_message_signature exchange_ext slo_octet ''T0NU'' ''C'' RSA_SHA256 = Inr True"
    by (simp add: verify_message_signature_def load_certificate_def ensure_crypto_provider_initialized_def
        initialize_crypto_provider_def require_operation_key_def base64_decode_normal r(2))
  then show ?thesis
    using r(1) stream_inflate_law [OF i] stream_inflates [OF i, of "''CD''"] l
    by (auto simp: signed_carried_def slo_signed e url_encode_law_def base64_encode_def signed_params_def
        xml_limits_default_def usize_max_def MAX_DEFLATE_RAW_DECODE_BYTES_def)
qed

lemma answer_given:
  "\<exists>a. idp_respond_slo exchange_ext answer_env answering sp_descriptor_sample leave_request (respond_slo_new LogoutRedirect) = Inr a
     \<and> outbound_redirect_url a = Inr slo_url \<and> ob_id a = MessageId ''_3'' \<and> bc_entity_endpoint (into_raw_context a) = ''slo''
     \<and> bc_relay_state (into_raw_context a) = None
     \<and> sent_logout_response exchange_ext answer_env (idr_setting (sf_identity_provider answering)) meta_model leave_request a = answer_written"
proof -
  let ?s = "idr_setting (sf_identity_provider answering)" and ?now = "''2024-01-01T00:00:00Z''"
  obtain raw_sp where raw_sp: "raw_sp_descriptor exchange_ext sp_descriptor_sample = Inr raw_sp" "spr_metadata raw_sp = SpMetadata sp_model"
    using sample_sp_provider by blast
  let ?c = "\<lparr>bc_id = ''_3'', bc_context = slo_url, bc_relay_state = None, bc_entity_endpoint = ''slo'', bc_binding = Redirect,
      bc_request_type = ''SAMLResponse'', bc_signature = None, bc_sig_alg = None\<rparr>"
  have valid: "validate_tag_prefix ''protocol'' ''samlp'' = Inr ()" "validate_tag_prefix ''assertion'' ''saml'' = Inr ()"
    by code_simp+
  obtain xml where "render_default_logout_response exchange_ext ?s ''_3'' ?now ''slo'' (Some ''_r'') ''idp'' = Inr xml"
    using valid by (simp add: render_default_logout_response_def answering_facts Let_def)
  with logout_response_rendered(1) [OF this] have xml:
    "render_default_logout_response exchange_ext ?s ''_3'' ?now ''slo'' (Some ''_r'') ''idp'' = Inr slo_text"
    by (simp add: answering_facts answer_events slo_events_other flip: answer_written_def)
  have slo: "reads_slo exchange_ext" by (simp add: reads_slo_def)
  have key: "load_private_key exchange_ext p w = Inr ()" for p w
    by (simp add: load_private_key_def ensure_crypto_provider_initialized_def initialize_crypto_provider_def)
  have env: "generate_id (ie_uuid answer_env) = ''_3''" "ie_now answer_env = SysTime 0" "now_iso8601 exchange_ext (ie_now_utc answer_env) = ?now"
    by (simp_all add: answer_env_def issue_sample_def generate_id_def sample_now)
  have c: "create_logout_response exchange_ext answer_env ?s meta_model sp_model Redirect (Some ''_r'') None True = Inr ?c"
    using xml slo_valid(1) [OF slo]
    by (simp add: create_logout_response_def create_logout_response_with_id_def env sample_meta answering_facts message_id_or_new_def
        logout_response_text_def logout_context_def sign_logout_def key slo_signed Let_def)
  have b: "\<not> is_blank ''_3''" by code_simp
  obtain a where a: "outbound_try_from exchange_ext LogoutResponse ?c = Inr a" "outbound_redirect_url a = Inr slo_url"
    by (auto simp: outbound_from_context_def validate_context_message_kind_def message_id_try_new_def b outbound_redirect_url_def
        endpoint_url_try_new_def http_url_def validate_redirect_message_kind_def Let_def count_kind_def)
  have "idp_respond_slo exchange_ext answer_env answering sp_descriptor_sample leave_request (respond_slo_new LogoutRedirect) = Inr a"
    using a(1) c
    by (simp add: idp_respond_slo_def raw_sp respond_slo_impl_def respond_slo_new_def unwrap_or_def answering_facts
        relay_param_validate_def del: outbound_try_from.simps)
  moreover note out = outbound_try_from_Inr [OF a(1)]
  ultimately show ?thesis
    using a(2) by (simp add: sent_logout_response_def into_raw_context_def out env answering_facts answer_written_def)
qed

lemma answered_logout_completes_witness:
  "\<exists>a base q v2 r. idp_respond_slo exchange_ext answer_env answering sp_descriptor_sample leave_request
       (respond_slo_new LogoutRedirect) = Inr a
     \<and> outbound_redirect_url a = Inr slo_url \<and> split_once CHR ''?'' slo_url = Some (base, q)
     \<and> sp_finish_slo exchange_ext (\<lambda>_. Odt 0) minimal_check_and_store start_sp idp_descriptor_sample waiting (InRedirect q)
         (retaining_sample Map.empty) = (v2, Inr (logout_completed_from_response (EntityId ''idp'') r))
     \<and> lr_in_response_to r = Some (MessageId ''_r'') \<and> fr_sig_alg (lr_raw_flow r) = Some RSA_SHA256"
proof -
  obtain a where a: "idp_respond_slo exchange_ext answer_env answering sp_descriptor_sample leave_request
      (respond_slo_new LogoutRedirect) = Inr a"
    "outbound_redirect_url a = Inr slo_url" "ob_id a = MessageId ''_3''" "bc_entity_endpoint (into_raw_context a) = ''slo''"
    "bc_relay_state (into_raw_context a) = None"
    "sent_logout_response exchange_ext answer_env (idr_setting (sf_identity_provider answering)) meta_model leave_request a = answer_written"
    using answer_given by blast
  obtain base q where q: "split_once CHR ''?'' slo_url = Some (base, q)"
    by (simp add: slo_url_def)
  have brings: "brings a (InRedirect q)" using a(2) q by (auto simp: brings_def)
  obtain raw where raw: "raw_idp_descriptor exchange_ext idp_descriptor_sample = Inr raw" "idr_metadata raw = IdpMetadata meta_model"
    using sample_idp by blast
  obtain raw_sp where raw_sp: "raw_sp_descriptor exchange_ext sp_descriptor_sample = Inr raw_sp" "spr_metadata raw_sp = SpMetadata sp_model"
    using sample_sp_provider by blast
  obtain v1 v2 where v: "check_and_store_message_replay minimal_check_and_store (retaining_sample Map.empty) (LogoutResponseId (ob_id a)) = (v1, Inr ())"
    "check_and_store_message_replay_until minimal_check_and_store v1 (CompletedLogoutRequestId (pe_id waiting))
       (Some (Odt (1704067200 * ns_per_sec))) = (v2, Inr ())"
    using slo_stored by (auto simp: a(3) answering_facts)
  have s: "es_xml_limits (spr_setting start_sp) = xml_limits_default" "es_want_logout_response_signed (spr_setting start_sp)"
    "es_redirect_inflate_max_bytes (spr_setting start_sp) = MAX_DEFLATE_RAW_DECODE_BYTES" "pd_entity_id idp_descriptor_sample = EntityId ''idp''"
    by (simp_all add: start_sp_def entity_setting_default_def idp_descriptor_sample_def)
  have arrives: "signed_deliverable exchange_ext (spr_setting start_sp) (x509_certificates meta_model Signing)
      (idr_setting (sf_identity_provider answering)) LogoutResponse answer_written (into_raw_context a)"
    using answer_accepted answer_carried
    by (simp add: signed_deliverable_def s answering_facts answer_events slo_events_other a(4,5))
  have b: "message_id_try_new ''_r'' = Inr (MessageId ''_r'')" "entity_id_try_new ''idp'' = Inr (EntityId ''idp'')"
  proof -
    have "\<not> is_blank ''_r''" "\<not> is_blank ''idp''" by code_simp+
    then show "message_id_try_new ''_r'' = Inr (MessageId ''_r'')" "entity_id_try_new ''idp'' = Inr (EntityId ''idp'')"
      by (simp_all add: mid.try_new_Inr eid.try_new_Inr)
  qed
  have d: "completion_deadline exchange_ext waiting = Inr (Some (Odt (1704067200 * ns_per_sec)))"
    "pending_validate_at exchange_ext waiting (SysTime 0) = Inr ()"
    by (simp_all add: completion_deadline_def pending_validate_at_def waiting_def slo_pending_def exchange_time sample_time_def less_eq_odt_def)
  from answered_logout_completes [OF a(1) brings answering_facts(1), where pending = waiting and idp = idp_descriptor_sample
      and raw_sp = raw_sp and sp = start_sp and raw_idp = raw and v = "retaining_sample Map.empty" and clk = "\<lambda>_. Odt 0"
      and issuer = "EntityId ''idp''", OF _ _ _ _ _ _ _ _ d(1) raw_sp(1) _ raw(1) _ _ _ _ _ _ _ _ v]
  show ?thesis
    using a(1,2) q arrives b d(2) sample_civil
    by (auto simp: raw raw_sp answering_facts s a(4,6) starting respond_slo_new_def retaining_sample sample_meta http_url_def)
qed

end
