(* ===== verification/Spec2Isabelle.thy ===== *)
theory Spec2Isabelle
  imports Idp_Read_Back Logout_Answered
begin

text \<open>
  A model of risaml, a SAML 2.0 library for service and identity providers in Rust, and the theorems
  about it. The theories follow the modules under \<open>src/src\<close>; each imports the ones it calls.

  \<^item> \<open>Prelude\<close>: lemmas on lists, options, maps and strings that the components share, the result
    monad (\<open>rbind\<close>, \<open>rmap\<close>, \<open>mapM\<close>) on \<open>saml_error + 'a\<close>, which is the code's \<open>Result\<close> with the
    question mark operator, and the string routines of the standard library that the code uses.
  \<^item> \<open>Saml_Base\<close> (constants.rs, error.rs, model/relay.rs): bindings, algorithms, errors, RelayState.
  \<^item> \<open>Values\<close> (util.rs): the dynamic value of an extraction, \<open>camel_case\<close>, \<open>zip_object\<close>, \<open>uniq\<close>.
  \<^item> \<open>Date_Time\<close> (xml/date_time.rs): the xs:dateTime parser on machine words, against a grammar.
  \<^item> \<open>Instants\<close> (validator.rs, model/validation.rs, model/session.rs, entity.rs): instants, time
    windows, session expiry.
  \<^item> \<open>Dom\<close> (xml/dom.rs): the tree builder over the reader's events, with every limit of \<open>XmlLimits\<close>.
  \<^item> \<open>Extract\<close> (xml/extract.rs, xml/fields.rs, validator.rs): path selection, extraction, status.
  \<^item> \<open>Model\<close> (model/identifiers.rs, endpoint.rs, subject.rs, attributes.rs, extract.rs): typed values
    and how they are read from an extraction.
  \<^item> \<open>Replay\<close> (model/validation.rs): replay keys, the cache contract, the validation context.
  \<^item> \<open>Browser\<close> (browser/bindings.rs, browser/endpoints.rs): binding subsets and endpoints.
  \<^item> \<open>Pending\<close> (browser/pending.rs): pending requests, snapshots and lifetimes.
  \<^item> \<open>Profile\<close> (xml/profile.rs): the namespace and attribute pass over a message.
  \<^item> \<open>Wire\<close> (binding/*.rs): Base64 and DEFLATE with limits, escaping, POST forms, Redirect URLs.
  \<^item> \<open>Input\<close> (flow.rs, browser/input.rs, browser/forms.rs): requests and browser input.
  \<^item> \<open>Crypto\<close> (crypto/provider.rs, keys.rs, xml_syntax.rs, sign.rs, enc.rs): everything around the XML
    security back end.
  \<^item> \<open>Verify\<close> (crypto/verify.rs): signature verification, coverage and the wrapping defences.
  \<^item> \<open>Flow\<close> (flow.rs, context.rs, validator.rs): the whole inbound flow.
  \<^item> \<open>Sso\<close> (model/sso.rs, authn.rs, logout.rs, received.rs): the typed views of accepted messages and
    their replay protection.
  \<^item> \<open>Metadata\<close> (metadata/mod.rs, sp.rs, idp.rs, policy.rs, config/metadata_trust.rs, the import part of
    config/descriptors.rs): reading entity metadata, and importing it under a trust policy.
  \<^item> \<open>Writer\<close> (xml/write.rs, metadata/write.rs): the XML writers, as lists of events written.
  \<^item> \<open>Template\<close> (template.rs): templates, their substitution, and attribute statements.
  \<^item> \<open>Metadata_Gen\<close> (metadata/generate.rs): generated entity metadata.
  \<^item> \<open>Settings\<close> (entity.rs, config/algorithms.rs, policies.rs, credentials.rs, descriptors.rs): the
    settings of an entity, the policies they come from, and \<open>BindingContext\<close>.
  \<^item> \<open>Config\<close> (config/builders.rs): configurations, their builders and validation.
  \<^item> \<open>Providers\<close> (sp.rs), \<open>Idp\<close> (idp.rs, idp/login_response.rs): the raw entities, which build
    AuthnRequests and login responses and parse the other's.
  \<^item> \<open>Outbound_Check\<close> (xml/profile/outbound_logout.rs, outbound_logout_request.rs): the state machines that
    a logout message must pass before it is sent; \<open>Outbound_Shape\<close> proves which documents they accept.
  \<^item> \<open>Logout\<close> (logout/*.rs): raw single logout.
  \<^item> \<open>Outbound\<close> (browser/outbound.rs, forms.rs): outbound browser actions.
  \<^item> \<open>Api\<close> (api/*.rs): the typed facade. A call that reads the clock or draws random identifiers takes
    them as arguments, a call that uses the replay cache returns the context with the cache.
  \<^item> \<open>Exchange_Sample\<close>, \<open>Facade\<close>, \<open>Exchange\<close>: two concrete peers; soundness of finished exchanges and of responses
    sent; the start of SSO and which calls make progress.
  \<^item> \<open>Written\<close>, \<open>Read_Back\<close>: what a generated document is when it is read back: the writer against the tree
    builder for any document, and then AuthnRequests.
  \<^item> \<open>Role_Read_Back\<close>, \<open>Meta_Read_Back\<close>, \<open>Idp_Read_Back\<close>: the same for generated metadata: what a generator of one
    role promises and what the import then says of it (the locale \<open>generated_role\<close>), met by the generators of
    service provider and of identity provider metadata.
  \<^item> \<open>Delivered\<close>, \<open>Login_Received\<close>, \<open>Logout_Received\<close>, \<open>Logout_Answered\<close>: a generated message on its way to the
    peer, through the browser, the decoding of its binding, the profile and the whole receiving operation, for a
    started login, a started logout, and the signed answer to a logout.

  Conventions. A function that can fail returns \<open>saml_error + 'a\<close>, \<open>Inl\<close> the error. A struct is a
  record, an enum a datatype, a text a list of characters (its bytes). Errors of libraries are texts
  the model carries along. What the code takes from crates that are not in the repository is a field
  of one of the records \<open>time_ext\<close>, \<open>xml_ext\<close>, \<open>net_ext\<close>, \<open>ns_ext\<close>, \<open>wire_ext\<close>, \<open>crypto_ext\<close>, \<open>flow_ext\<close>,
  \<open>out_ext\<close>, \<open>url_ext\<close>, each an extension of the one before: the RFC 3339 parser and calendar of \<open>time\<close>, the event streams
  of quick-xml (plain and namespace-resolved), URL parsing, Base64, raw DEFLATE, percent encoding,
  the XML security back end, the installed schema validator, the text quick-xml makes of written events,
  the query pairs of a URL, and whether a crypto feature is compiled in. A theorem that relies on documented
  behaviour of such a crate names it (\<open>time_laws\<close>, \<open>b64_padded\<close>, \<open>inflate_law\<close>, \<open>url_encode_law\<close>) and
  has a witness with concrete functions. The replay cache is the caller's: what the trait asks of it, that a stored key
  is refused until its deadline whatever other workers store meanwhile, is the locale \<open>retaining_cache\<close>, and a theorem
  about any required cache names it; the documented cache, which never forgets, and one that drops expired keys
  are its interpretations. What quick-xml makes of written events and what it reads from a text
  are independent parameters; that reading yields what was written, text possibly in several pieces, is the
  contract \<open>reads_written\<close> (with the receiver's limits, \<open>readable\<close>), and \<open>ns_reads_as\<close> for the resolved stream;
  \<open>deliverable\<close> adds that Base64, DEFLATE and the form parser give back what was encoded (\<open>carried\<close>), and
  \<open>signed_deliverable\<close> that a detached signature verifies under a certificate of the key that made it.

  Fuel and termination. The only loop run on fuel is the inflate loop; input length plus limit plus
  two calls always suffice, which \<open>deflate_decode_ends_bounded\<close> proves. All other recursions are
  structural or have a measure.

  Main results. \<open>flow_sso_response_accepted\<close> lists what holds of every accepted SSO response;
  \<open>flow_requires_pinned_signature\<close>, \<open>flow_post_uses_covered_text\<close> and \<open>verify_detached_redirect_sound\<close>
  say that what the flow goes on to use is covered by a signature that verifies under a pinned
  certificate; \<open>verify_signature_covered\<close> and \<open>preflight_signature_places\<close> carry them;
  \<open>profile_path_namespaces\<close> with \<open>field_paths_covered\<close> says that the local-name paths the extraction
  reads are bound to the SAML namespaces; \<open>parse_is_document\<close> that the tree is the document;
  \<open>pending_authn_roundtrip\<close> that suspended logins are restored unchanged;
  \<open>sso_session_accepted_once\<close> that with the documented cache no session is accepted twice, and
  \<open>replayed_response_rejected\<close> that a replayed response is rejected with any cache that keeps its keys long enough;
  \<open>metadata_import_signed\<close> says that imported metadata is the signed descriptor of the expected entity.

  \<open>finish_sso_sound\<close> composes these for the facade: a session answers the pending request of the peer it
  was sent to; \<open>sso_completes_once\<close> and \<open>slo_completes_once\<close> say that with any such cache no
  pending request is completed twice, and \<open>finish_sso_progress\<close> that a valid response does complete its request, whatever was rejected before.
  \<open>start_sso_pending_matches\<close> relates the request that is sent to the pending state that is kept, with the
  exception \<open>default_relay_state_never_completes\<close> exhibits. \<open>started_login_received\<close> says that the peer accepts
  that request, reads it as meant and answers to the endpoint the pending state waits at; \<open>started_logout_received\<close>
  says the same of a started logout, and that the format of the subject's NameID is lost, and
  \<open>answered_logout_completes\<close> that the signed answer completes the pending logout. \<open>sp_metadata_read_back\<close>
  says that a service provider made of a configuration has the configured endpoints, keys and flags, with
  one flaw of the generated indexes in \<open>default_index_collides\<close>, and \<open>idp_metadata_read_back\<close> the same of an identity
  provider, whose sign-on endpoints are found only when they are the only ones of their binding. On the other side \<open>respond_sso_registered_endpoint\<close>
  says where a response may go, \<open>outbound_form_read_back\<close> that a form carries what its receiver reads, and
  \<open>logout_response_shape\<close> and \<open>logout_request_shape\<close> that the outbound state machines accept only documents
  of the declarative shape.

  Not modelled: Display and Debug implementations, logging, conversions that only rename a type, writing
  metadata to a file, the re-exports of lib.rs and raw.rs, and the adapter to the XML security crate
  (crypto/backend.rs, crypto/bergshamra.rs), whose operations are the parameters of \<open>crypto_ext\<close>. Read-back is
  stated for documents of the default renderers without an embedded signature: a template is free text, and what
  an embedded signature adds to a document is the back end's.
\<close>

end
